(* ===== verification/Prelude.thy ===== *)
theory Prelude
  imports Main "HOL-Library.Word" "HOL-Library.Monad_Syntax" "HOL-Library.Char_ord" "HOL-Library.List_Lexorder" "HOL-Library.Sublist"
begin

text \<open>
  Shared vocabulary of the development: Go maps as association lists with distinct keys, the
  results of fallible Go functions as sums, and the fact collections the component theories use.
  Go strings are char lists (one char per byte), Go's time.Time and time.Duration are integers
  (nanoseconds), and a Go function returning (T, error) returns a value of type
  \<open>err + 'a\<close>.
\<close>

named_theorems map_laws \<open>laws of the Go map operations\<close>
named_theorems inv_intros \<open>preservation of component invariants\<close>

type_synonym go_time = int
type_synonym duration = int
type_synonym ('k, 'v) go_map = "('k \<times> 'v) list"

section \<open>Go maps\<close>

definition gm_wf :: "('k, 'v) go_map \<Rightarrow> bool" where
  "gm_wf m = distinct (map fst m)"

definition gm_del :: "'k \<Rightarrow> ('k, 'v) go_map \<Rightarrow> ('k, 'v) go_map" where
  "gm_del k m = filter (\<lambda>e. fst e \<noteq> k) m"

definition gm_put :: "'k \<Rightarrow> 'v \<Rightarrow> ('k, 'v) go_map \<Rightarrow> ('k, 'v) go_map" where
  "gm_put k v m = (k, v) # gm_del k m"

definition gm_keep :: "('v \<Rightarrow> bool) \<Rightarrow> ('k, 'v) go_map \<Rightarrow> ('k, 'v) go_map" where
  "gm_keep P m = filter (\<lambda>e. P (snd e)) m"

lemma gm_wf_Nil [simp, intro]: "gm_wf []"
  by (simp add: gm_wf_def)

lemma gm_wf_filter [map_laws, intro]: "gm_wf m \<Longrightarrow> gm_wf (filter P m)"
  by (simp add: gm_wf_def distinct_map_filter)

lemma gm_wf_del [simp, map_laws, intro]: "gm_wf m \<Longrightarrow> gm_wf (gm_del k m)"
  by (auto simp: gm_del_def)

lemma gm_wf_keep [simp, map_laws, intro]: "gm_wf m \<Longrightarrow> gm_wf (gm_keep P m)"
  by (auto simp: gm_keep_def)

lemma gm_wf_put [simp, map_laws, intro]: "gm_wf m \<Longrightarrow> gm_wf (gm_put k v m)"
  by (auto simp: gm_put_def gm_del_def gm_wf_def distinct_map_filter)

lemma gm_wf_Cons [simp]: "gm_wf (e # m) \<longleftrightarrow> fst e \<notin> fst ` set m \<and> gm_wf m"
  by (simp add: gm_wf_def)

lemma map_of_gm_del [simp, map_laws]: "map_of (gm_del k m) = (map_of m)(k := None)"
  by (induction m) (auto simp: gm_del_def fun_eq_iff)

lemma map_of_gm_put [simp, map_laws]: "map_of (gm_put k v m) = (map_of m)(k \<mapsto> v)"
  by (auto simp: gm_put_def)

lemma map_of_filter_Some:
  "gm_wf m \<Longrightarrow> map_of (filter P m) k = Some v \<longleftrightarrow> map_of m k = Some v \<and> P (k, v)"
proof (induction m)
  case (Cons e m)
  have "map_of m (fst e) = None" using Cons.prems by (simp add: map_of_eq_None_iff)
  moreover have "map_of (filter P m) (fst e) = None"
    using Cons.prems by (auto simp: map_of_eq_None_iff)
  ultimately show ?case using Cons by (cases e) auto
qed simp

lemma map_of_gm_keep_Some [simp, map_laws]:
  "gm_wf m \<Longrightarrow> map_of (gm_keep P m) k = Some v \<longleftrightarrow> map_of m k = Some v \<and> P v"
  by (simp add: gm_keep_def map_of_filter_Some)

lemma map_of_gm_keep_None [simp]:
  "gm_wf m \<Longrightarrow> map_of (gm_keep P m) k = None \<longleftrightarrow>
    (case map_of m k of None \<Rightarrow> True | Some v \<Rightarrow> \<not> P v)"
  by (cases "map_of (gm_keep P m) k"; cases "map_of m k") (auto, metis map_of_gm_keep_Some option.distinct(1))

lemma length_gm_del_le [simp]: "length (gm_del k m) \<le> length m"
  by (simp add: gm_del_def)

lemma length_gm_keep_le [simp]: "length (gm_keep P m) \<le> length m"
  by (simp add: gm_keep_def)

lemma set_gm_keep [simp]: "set (gm_keep P m) = {e \<in> set m. P (snd e)}"
  by (simp add: gm_keep_def)

lemma set_gm_del [simp]: "set (gm_del k m) = {e \<in> set m. fst e \<noteq> k}"
  by (simp add: gm_del_def)

lemma set_gm_put [simp]: "set (gm_put k v m) = insert (k, v) {e \<in> set m. fst e \<noteq> k}"
  by (simp add: gm_put_def)

lemma length_gm_put_le: "length (gm_put k v m) \<le> Suc (length m)"
  by (simp add: gm_put_def)

lemma map_of_SomeI: "gm_wf m \<Longrightarrow> (k, v) \<in> set m \<Longrightarrow> map_of m k = Some v"
  by (simp add: gm_wf_def)

section \<open>Fallible results\<close>

definition sum_bind :: "'e + 'a \<Rightarrow> ('a \<Rightarrow> 'e + 'b) \<Rightarrow> 'e + 'b" where
  "sum_bind r f = (case r of Inl e \<Rightarrow> Inl e | Inr x \<Rightarrow> f x)"

lemma sum_bind_simps [simp]:
  "sum_bind (Inl e) f = Inl e" "sum_bind (Inr x) f = f x"
  by (simp_all add: sum_bind_def)

lemma sum_bind_Inr: "sum_bind r f = Inr y \<longleftrightarrow> (\<exists>x. r = Inr x \<and> f x = Inr y)"
  by (cases r) auto

definition is_ok :: "'e + 'a \<Rightarrow> bool" where
  "is_ok r = (case r of Inl _ \<Rightarrow> False | Inr _ \<Rightarrow> True)"

lemma is_ok_simps [simp]: "\<not> is_ok (Inl e)" "is_ok (Inr x)"
  by (simp_all add: is_ok_def)

lemma is_ok_iff: "is_ok r \<longleftrightarrow> (\<exists>x. r = Inr x)"
  by (cases r) auto

section \<open>Go strings\<close>

text \<open>strings.Split with a one-byte separator, strings.Join, strings.HasPrefix and friends.\<close>

fun split_on :: "char \<Rightarrow> string \<Rightarrow> string list" where
  "split_on c [] = [[]]"
| "split_on c (x # xs) = (if x = c then [] # split_on c xs
     else (case split_on c xs of [] \<Rightarrow> [[x]] | p # ps \<Rightarrow> (x # p) # ps))"

fun join_on :: "char \<Rightarrow> string list \<Rightarrow> string" where
  "join_on c [] = []"
| "join_on c [p] = p"
| "join_on c (p # ps) = p @ c # join_on c ps"

definition contains_any :: "string \<Rightarrow> string \<Rightarrow> bool" where
  "contains_any s cs = list_ex (\<lambda>c. c \<in> set cs) s"

definition has_prefix :: "string \<Rightarrow> string \<Rightarrow> bool" where
  "has_prefix s p = (take (length p) s = p)"

definition has_suffix :: "string \<Rightarrow> string \<Rightarrow> bool" where
  "has_suffix s p = has_prefix (rev s) (rev p)"

definition trim_prefix :: "string \<Rightarrow> string \<Rightarrow> string" where
  "trim_prefix s p = (if has_prefix s p then drop (length p) s else s)"

definition trim_suffix :: "string \<Rightarrow> string \<Rightarrow> string" where
  "trim_suffix s p = (if has_suffix s p then take (length s - length p) s else s)"

definition is_space :: "char \<Rightarrow> bool" where
  "is_space c = (c \<in> {CHR 0x09, CHR 0x0A, CHR 0x0B, CHR 0x0C, CHR 0x0D, CHR '' ''})"

definition trim_right :: "(char \<Rightarrow> bool) \<Rightarrow> string \<Rightarrow> string" where
  "trim_right P s = rev (dropWhile P (rev s))"

definition trim_space :: "string \<Rightarrow> string" where
  "trim_space s = trim_right is_space (dropWhile is_space s)"

definition lower_char :: "char \<Rightarrow> char" where
  "lower_char c = (let n = (of_char c :: nat) in if 65 \<le> n \<and> n \<le> 90 then char_of (n + 32) else c)"

definition to_lower :: "string \<Rightarrow> string" where
  "to_lower = map lower_char"

fun contains_sub :: "string \<Rightarrow> string \<Rightarrow> bool" where
  "contains_sub [] p = (p = [])"
| "contains_sub (x # xs) p = (has_prefix (x # xs) p \<or> contains_sub xs p)"

fun cut_on :: "char \<Rightarrow> string \<Rightarrow> string \<times> string \<times> bool" where
  "cut_on c [] = ([], [], False)"
| "cut_on c (x # xs) = (if x = c then ([], xs, True)
     else (case cut_on c xs of (a, b, f) \<Rightarrow> if f then (x # a, b, True) else (x # xs, [], False)))"

fun fields_aux :: "(char \<Rightarrow> bool) \<Rightarrow> string \<Rightarrow> string \<Rightarrow> string list" where
  "fields_aux P acc [] = (if acc = [] then [] else [rev acc])"
| "fields_aux P acc (x # xs) = (if P x then (if acc = [] then fields_aux P [] xs else rev acc # fields_aux P [] xs)
     else fields_aux P (x # acc) xs)"

definition str_fields :: "string \<Rightarrow> string list" where
  "str_fields s = fields_aux is_space [] s"

definition is_digit :: "char \<Rightarrow> bool" where
  "is_digit c = (let n = (of_char c :: nat) in 48 \<le> n \<and> n \<le> 57)"

lemma split_on_not_Nil [simp]: "split_on c s \<noteq> []"
  by (induction s) (auto split: list.splits)

lemma split_on_single [simp]: "c \<notin> set a \<Longrightarrow> split_on c a = [a]"
  by (induction a) auto

lemma split_on_append: "c \<notin> set a \<Longrightarrow> split_on c (a @ c # b) = a # split_on c b"
  by (induction a) auto

lemma split_join: "ps \<noteq> [] \<Longrightarrow> \<forall>p\<in>set ps. c \<notin> set p \<Longrightarrow> split_on c (join_on c ps) = ps"
  by (induction c ps rule: join_on.induct) (auto simp: split_on_append)

lemma join_split: "join_on c (split_on c s) = s"
proof (induction s)
  case (Cons x s)
  obtain p ps where sp: "split_on c s = p # ps" using split_on_not_Nil[of c s] by (cases "split_on c s") auto
  then show ?case using Cons by (cases ps) auto
qed simp

lemma split_on_parts: "p \<in> set (split_on c s) \<Longrightarrow> c \<notin> set p"
  by (induction s arbitrary: p) (auto split: if_splits list.splits)

lemma has_prefix_append [simp]: "has_prefix (p @ s) p"
  by (simp add: has_prefix_def)

lemma has_prefix_iff: "has_prefix s p \<longleftrightarrow> (\<exists>r. s = p @ r)"
  by (metis append_take_drop_id has_prefix_def append_eq_conv_conj)

lemma cut_on_append: "c \<notin> set a \<Longrightarrow> cut_on c (a @ c # b) = (a, b, True)"
  by (induction a) auto

lemma cut_on_none: "c \<notin> set a \<Longrightarrow> cut_on c a = (a, [], False)"
  by (induction a) auto

text \<open>Decimal formatting, as strconv.Itoa and the d verb of fmt.\<close>

definition digit_char :: "nat \<Rightarrow> char" where
  "digit_char n = char_of (48 + n)"

fun show_nat :: "nat \<Rightarrow> string" where
  "show_nat n = (if n < 10 then [digit_char n] else show_nat (n div 10) @ [digit_char (n mod 10)])"

declare show_nat.simps [simp del]

definition show_int :: "int \<Rightarrow> string" where
  "show_int i = (if i < 0 then CHR ''-'' # show_nat (nat (- i)) else show_nat (nat i))"

end
