(* ===== verification/Confirm_Store.thy ===== *)
theory Confirm_Store
  imports Prelude
begin

text \<open>
  The contract shared by every single-use credential store of the program: the batch confirmation
  store (internal/batch), the per-tool plan stores (internal/tools) and the authorization code
  store (internal/oauth). A store issues entries under tokens; consuming a token succeeds only
  for an entry that is still live and that the caller's request matches, and removes it. The
  locales state the laws each provider keeps; the trace lemmas are proved once inside them.
\<close>

datatype ('i, 'c) store_op = Issue_Op 'i | Consume_Op 'c

datatype 't store_out = Issued 't | IssueRefused | Consumed 't | ConsumeRefused

fun run_store :: "('i \<Rightarrow> 's \<Rightarrow> 't option \<times> 's) \<Rightarrow> ('c \<Rightarrow> 's \<Rightarrow> bool \<times> 's) \<Rightarrow> ('c \<Rightarrow> 't) \<Rightarrow>
    ('i, 'c) store_op list \<Rightarrow> 's \<Rightarrow> 't store_out list \<times> 's" where
  "run_store issue consume tok [] s = ([], s)"
| "run_store issue consume tok (Issue_Op i # ops) s =
    (let (r, s1) = issue i s; (outs, s2) = run_store issue consume tok ops s1
     in ((case r of None \<Rightarrow> IssueRefused | Some t \<Rightarrow> Issued t) # outs, s2))"
| "run_store issue consume tok (Consume_Op c # ops) s =
    (let (b, s1) = consume c s; (outs, s2) = run_store issue consume tok ops s1
     in ((if b then Consumed (tok c) else ConsumeRefused) # outs, s2))"

lemma run_store_append:
  "run_store issue consume tok (ops1 @ ops2) s =
    (let (o1, s1) = run_store issue consume tok ops1 s; (o2, s2) = run_store issue consume tok ops2 s1
     in (o1 @ o2, s2))"
proof (induction ops1 arbitrary: s)
  case (Cons op ops1)
  then show ?case by (cases op) (auto simp: Let_def split: prod.splits)
qed simp

lemma run_store_length: "length (fst (run_store issue consume tok ops s)) = length ops"
proof (induction ops arbitrary: s)
  case (Cons op ops)
  then show ?case by (cases op) (auto simp: Let_def case_prod_beta)
qed simp

locale single_use_store =
  fixes inv :: "'s \<Rightarrow> bool"
    and live :: "'s \<Rightarrow> 't \<Rightarrow> 'e option"
    and issue :: "'i \<Rightarrow> 's \<Rightarrow> 't option \<times> 's"
    and consume :: "'c \<Rightarrow> 's \<Rightarrow> bool \<times> 's"
    and tok :: "'c \<Rightarrow> 't"
    and entry_of :: "'i \<Rightarrow> 'e"
    and matches :: "'c \<Rightarrow> 'e \<Rightarrow> bool"
  assumes issue_inv: "inv s \<Longrightarrow> issue i s = (r, s') \<Longrightarrow> inv s'"
    and consume_inv: "inv s \<Longrightarrow> consume c s = (b, s') \<Longrightarrow> inv s'"
    and issue_new: "inv s \<Longrightarrow> issue i s = (Some t, s') \<Longrightarrow> live s' t = Some (entry_of i)"
    and issue_old: "inv s \<Longrightarrow> issue i s = (r, s') \<Longrightarrow> r \<noteq> Some u \<Longrightarrow> live s' u = Some e \<Longrightarrow>
      live s u = Some e"
    and consume_old: "inv s \<Longrightarrow> consume c s = (b, s') \<Longrightarrow> live s' u = Some e \<Longrightarrow> live s u = Some e"
    and consume_removes: "inv s \<Longrightarrow> consume c s = (True, s') \<Longrightarrow> live s' (tok c) = None"
    and consume_live: "inv s \<Longrightarrow> consume c s = (True, s') \<Longrightarrow>
      \<exists>e. live s (tok c) = Some e \<and> matches c e"
begin

abbreviation run where "run \<equiv> run_store issue consume tok"

lemma run_inv: "inv s \<Longrightarrow> inv (snd (run ops s))"
proof (induction ops arbitrary: s)
  case (Cons op ops)
  show ?case
  proof (cases op)
    case (Issue_Op i)
    then show ?thesis using Cons issue_inv[of s i]
      by (auto simp: Let_def split: prod.splits) (metis snd_conv)
  next
    case (Consume_Op c)
    then show ?thesis using Cons consume_inv[of s c]
      by (auto simp: Let_def split: prod.splits) (metis snd_conv)+
  qed
qed simp

lemma issue_live_None:
  "inv s \<Longrightarrow> issue i s = (r, s') \<Longrightarrow> r \<noteq> Some u \<Longrightarrow> live s u = None \<Longrightarrow> live s' u = None"
  using issue_old by (metis not_None_eq)

lemma consume_live_None:
  "inv s \<Longrightarrow> consume c s = (b, s') \<Longrightarrow> live s u = None \<Longrightarrow> live s' u = None"
  using consume_old by (metis not_None_eq)

text \<open>A token is consumed at most as often as it was issued (plus once if it was live before).\<close>

lemma consumed_le_issued_gen:
  "inv s \<Longrightarrow> count_list (fst (run ops s)) (Consumed t) \<le>
     count_list (fst (run ops s)) (Issued t) + (if live s t = None then 0 else 1)"
proof (induction ops arbitrary: s)
  case (Cons op ops)
  show ?case
  proof (cases op)
    case (Issue_Op i)
    obtain r s1 where iss: "issue i s = (r, s1)" by fastforce
    have inv1: "inv s1" using issue_inv iss Cons.prems by blast
    have None1: "live s1 t = None" if "r \<noteq> Some t" "live s t = None"
      using issue_live_None iss Cons.prems that by blast
    show ?thesis using Cons.IH[OF inv1] None1 Issue_Op iss
      by (auto simp: Let_def split: prod.splits option.splits if_splits)
  next
    case (Consume_Op c)
    obtain b s1 where cs: "consume c s = (b, s1)" by fastforce
    have inv1: "inv s1" using consume_inv cs Cons.prems by blast
    have hit: "live s t \<noteq> None \<and> live s1 t = None" if "b" "tok c = t"
      using consume_removes[of s c s1] consume_live[of s c s1] cs Cons.prems that by auto
    have None1: "live s1 t = None" if "live s t = None"
      using consume_live_None cs Cons.prems that by blast
    show ?thesis using Cons.IH[OF inv1] hit None1 Consume_Op cs
      by (auto simp: Let_def split: prod.splits option.splits if_splits)
  qed
qed simp

lemma consumed_le_issued:
  "inv s \<Longrightarrow> live s t = None \<Longrightarrow>
    count_list (fst (run ops s)) (Consumed t) \<le> count_list (fst (run ops s)) (Issued t)"
  using consumed_le_issued_gen[of s ops t] by simp

text \<open>Whatever is live after a trace was live before it or was bound by an issue of the trace.\<close>

lemma live_after_run:
  "inv s \<Longrightarrow> live (snd (run ops s)) t = Some e \<Longrightarrow>
    live s t = Some e \<or>
    (\<exists>n i. n < length ops \<and> ops ! n = Issue_Op i \<and> fst (run ops s) ! n = Issued t \<and> entry_of i = e)"
proof (induction ops arbitrary: s)
  case (Cons op ops)
  have shift: "\<exists>n i. n < length (op # ops) \<and> (op # ops) ! n = Issue_Op i \<and>
      (out # fst (run ops s1)) ! n = Issued t \<and> entry_of i = e"
    if "\<exists>n i. n < length ops \<and> ops ! n = Issue_Op i \<and> fst (run ops s1) ! n = Issued t \<and> entry_of i = e"
    for out s1
  proof -
    from that obtain n i where "n < length ops" "ops ! n = Issue_Op i" "fst (run ops s1) ! n = Issued t"
      "entry_of i = e" by blast
    then show ?thesis by (intro exI[of _ "Suc n"] exI[of _ i]) simp
  qed
  show ?case
  proof (cases op)
    case (Issue_Op i)
    obtain r s1 where iss: "issue i s = (r, s1)" by fastforce
    have inv1: "inv s1" using issue_inv iss Cons.prems by blast
    have run: "run (op # ops) s = ((case r of None \<Rightarrow> IssueRefused | Some t \<Rightarrow> Issued t) # fst (run ops s1), snd (run ops s1))"
      using Issue_Op iss by (simp add: Let_def split: prod.splits)
    from Cons.IH[OF inv1] Cons.prems(2) run
    consider "live s1 t = Some e" | "\<exists>n i. n < length ops \<and> ops ! n = Issue_Op i \<and> fst (run ops s1) ! n = Issued t \<and> entry_of i = e"
      by auto
    then show ?thesis
    proof cases
      case 1
      show ?thesis
      proof (cases "r = Some t")
        case True
        then have "entry_of i = e" using issue_new[of s i t s1] iss Cons.prems(1) 1 by simp
        then show ?thesis using True Issue_Op run by (intro disjI2 exI[of _ 0] exI[of _ i]) simp
      qed (use 1 issue_old iss Cons.prems(1) in blast)
    qed (use shift run in auto)
  next
    case (Consume_Op c)
    obtain b s1 where cs: "consume c s = (b, s1)" by fastforce
    have inv1: "inv s1" using consume_inv cs Cons.prems by blast
    have run: "run (op # ops) s = ((if b then Consumed (tok c) else ConsumeRefused) # fst (run ops s1), snd (run ops s1))"
      using Consume_Op cs by (simp add: Let_def split: prod.splits)
    from Cons.IH[OF inv1] Cons.prems(2) run
    consider "live s1 t = Some e" | "\<exists>n i. n < length ops \<and> ops ! n = Issue_Op i \<and> fst (run ops s1) ! n = Issued t \<and> entry_of i = e"
      by auto
    then show ?thesis
    proof cases
      case 1
      then show ?thesis using consume_old cs Cons.prems(1) by blast
    qed (use shift run in auto)
  qed
qed simp

text \<open>A successful consumption after a trace from a store without the token is matched by an
  issue of the trace whose entry the consuming request matches.\<close>

lemma consume_authorized:
  assumes "inv s" "live s (tok c) = None" "fst (consume c (snd (run ops s)))"
  shows "\<exists>n i. n < length ops \<and> ops ! n = Issue_Op i \<and> fst (run ops s) ! n = Issued (tok c) \<and>
    matches c (entry_of i)"
proof -
  obtain s' where "consume c (snd (run ops s)) = (True, s')"
    using assms(3) by (metis prod.collapse)
  then obtain e where "live (snd (run ops s)) (tok c) = Some e" "matches c e"
    using consume_live run_inv assms(1) by blast
  then show ?thesis using live_after_run assms(1,2) by fastforce
qed

end

locale bounded_store = single_use_store inv live issue consume tok entry_of matches
  for inv :: "'s \<Rightarrow> bool"
    and live :: "'s \<Rightarrow> 't \<Rightarrow> 'e option"
    and issue :: "'i \<Rightarrow> 's \<Rightarrow> 't option \<times> 's"
    and consume :: "'c \<Rightarrow> 's \<Rightarrow> bool \<times> 's"
    and tok :: "'c \<Rightarrow> 't"
    and entry_of :: "'i \<Rightarrow> 'e"
    and matches :: "'c \<Rightarrow> 'e \<Rightarrow> bool" +
  fixes size_of :: "'s \<Rightarrow> nat" and cap :: nat
  assumes issue_bounded: "inv s \<Longrightarrow> size_of s \<le> cap \<Longrightarrow> size_of (snd (issue i s)) \<le> cap"
    and consume_bounded: "inv s \<Longrightarrow> size_of s \<le> cap \<Longrightarrow> size_of (snd (consume c s)) \<le> cap"
begin

lemma run_bounded: "inv s \<Longrightarrow> size_of s \<le> cap \<Longrightarrow> size_of (snd (run ops s)) \<le> cap"
proof (induction ops arbitrary: s)
  case (Cons op ops)
  show ?case
  proof (cases op)
    case (Issue_Op i)
    then show ?thesis
      using Cons.IH[of "snd (issue i s)"] issue_bounded[of s i] issue_inv[of s i] Cons.prems
      by (cases "issue i s") (auto simp: Let_def split: prod.splits)
  next
    case (Consume_Op c)
    then show ?thesis
      using Cons.IH[of "snd (consume c s)"] consume_bounded[of s c] consume_inv[of s c] Cons.prems
      by (cases "consume c s") (auto simp: Let_def split: prod.splits)
  qed
qed simp

end

end
