(* ===== verification/Batch_Store.thy ===== *)
theory Batch_Store
  imports Confirm_Store
begin

text \<open>
  internal/batch/store.go: the confirmation-token store of the bulk tools. Options carry the
  injected functions (clock, ID generator, principal, supersede key) as functions of the call
  context; \<open>NewStore\<close> applies the defaults, \<open>Issue\<close> binds a fresh token to a
  plan's digest, \<open>Consume\<close> redeems it. The mutex makes each operation one atomic step.
  The digest of a plan (interface Digestible) is an argument, as are json.Marshal and SHA-256.
\<close>

section \<open>Options, entries, store\<close>

datatype store_error = ErrIDGeneratorRequired | ErrPrincipalRequired | ErrSupersedeKeyRequired
  | ErrCapacity | ErrDigest string | ErrNewID string

definition second :: duration where "second = 1000000000"

definition defaultLifetime :: duration where "defaultLifetime = 5 * 60 * second"
definition defaultMaxEntries :: int where "defaultMaxEntries = 4096"
definition defaultMaxEntriesPerPrincipal :: int where "defaultMaxEntriesPerPrincipal = 64"

record ('c, 'p) options =
  Clock :: "('c \<Rightarrow> go_time) option"
  IDGenerator :: "('c \<Rightarrow> string + string) option"
  Principal :: "('c \<Rightarrow> string) option"
  SupersedeKey :: "('p \<Rightarrow> string) option"
  Lifetime :: duration
  MaxEntries :: int
  MaxEntriesPerPrincipal :: int

record entry =
  digest :: string
  principal :: string
  supersedeKey :: string
  expiresAt :: go_time

record ('c, 'p) resolved =
  clock_now :: "'c \<Rightarrow> go_time"
  new_id :: "'c \<Rightarrow> string + string"
  principal_of :: "'c \<Rightarrow> string"
  key_of :: "'p \<Rightarrow> string"
  lifetime :: duration
  max_entries :: int
  max_per_principal :: int

record ('c, 'p) batch_store =
  entries :: "(string, entry) go_map"
  opts :: "('c, 'p) resolved"

definition hex_digit :: "nat \<Rightarrow> char" where
  "hex_digit n = ''0123456789abcdef'' ! (n mod 16)"

definition hex_encode :: "string \<Rightarrow> string" where
  "hex_encode bs = concat (map (\<lambda>c. let n = (of_char c :: nat) in [hex_digit (n div 16), hex_digit (n mod 16)]) bs)"

definition JSONDigest :: "('v \<Rightarrow> string + string) \<Rightarrow> (string \<Rightarrow> string) \<Rightarrow> 'v \<Rightarrow> string + string" where
  "JSONDigest marshal sha256 v = sum_bind (marshal v) (\<lambda>encoded. Inr (hex_encode (sha256 encoded)))"

definition NewStore :: "('c \<Rightarrow> go_time) \<Rightarrow> ('c, 'p) options \<Rightarrow> store_error + ('c, 'p) batch_store" where
  "NewStore realClock os = (case IDGenerator os of None \<Rightarrow> Inl ErrIDGeneratorRequired | Some gen \<Rightarrow>
     (case Principal os of None \<Rightarrow> Inl ErrPrincipalRequired | Some prin \<Rightarrow>
     (case SupersedeKey os of None \<Rightarrow> Inl ErrSupersedeKeyRequired | Some key \<Rightarrow>
       Inr \<lparr> entries = [],
             opts = \<lparr> clock_now = (case Clock os of None \<Rightarrow> realClock | Some c \<Rightarrow> c),
                      new_id = gen, principal_of = prin, key_of = key,
                      lifetime = (if Lifetime os \<le> 0 then defaultLifetime else Lifetime os),
                      max_entries = (if MaxEntries os \<le> 0 then defaultMaxEntries else MaxEntries os),
                      max_per_principal = (if MaxEntriesPerPrincipal os \<le> 0 then defaultMaxEntriesPerPrincipal
                                           else MaxEntriesPerPrincipal os) \<rparr> \<rparr>)))"

section \<open>Operations\<close>

definition deleteExpiredLocked :: "go_time \<Rightarrow> (string, entry) go_map \<Rightarrow> (string, entry) go_map" where
  "deleteExpiredLocked now es = gm_keep (\<lambda>e. now < expiresAt e) es"

text \<open>The loop of Issue over s.entries: deletes the superseded tokens, counts the principal's others.\<close>

fun supersedeLoop :: "string \<Rightarrow> string \<Rightarrow> (string, entry) go_map \<Rightarrow> (string, entry) go_map \<times> int" where
  "supersedeLoop prin key [] = ([], 0)"
| "supersedeLoop prin key ((existingToken, existing) # es) =
    (let (kept, principalEntries) = supersedeLoop prin key es in
     if principal existing \<noteq> prin then ((existingToken, existing) # kept, principalEntries)
     else if supersedeKey existing = key then (kept, principalEntries)
     else ((existingToken, existing) # kept, principalEntries + 1))"

definition Issue :: "('p \<Rightarrow> string + string) \<Rightarrow> 'c \<Rightarrow> 'p \<Rightarrow> ('c, 'p) batch_store \<Rightarrow>
    (store_error + string) \<times> ('c, 'p) batch_store" where
  "Issue dig ctx plan s = (case dig plan of Inl e \<Rightarrow> (Inl (ErrDigest e), s) | Inr d \<Rightarrow>
     (case new_id (opts s) ctx of Inl e \<Rightarrow> (Inl (ErrNewID e), s) | Inr token \<Rightarrow>
      let now = clock_now (opts s) ctx;
          prin = principal_of (opts s) ctx;
          key = key_of (opts s) plan;
          (kept, principalEntries) = supersedeLoop prin key (deleteExpiredLocked now (entries s))
      in if int (length kept) \<ge> max_entries (opts s) \<or> principalEntries \<ge> max_per_principal (opts s)
         then (Inl ErrCapacity, s\<lparr>entries := kept\<rparr>)
         else (Inr token, s\<lparr>entries := gm_put token
                 \<lparr>digest = d, principal = prin, supersedeKey = key, expiresAt = now + lifetime (opts s)\<rparr> kept\<rparr>)))"

definition Consume :: "('p \<Rightarrow> string + string) \<Rightarrow> 'c \<Rightarrow> string \<Rightarrow> 'p \<Rightarrow> ('c, 'p) batch_store \<Rightarrow>
    bool \<times> ('c, 'p) batch_store" where
  "Consume dig ctx token plan s = (case dig plan of Inl e \<Rightarrow> (False, s) | Inr d \<Rightarrow>
     let now = clock_now (opts s) ctx;
         es = deleteExpiredLocked now (entries s)
     in (case map_of es token of None \<Rightarrow> (False, s\<lparr>entries := es\<rparr>) | Some existing \<Rightarrow>
         if digest existing = d \<and> principal existing = principal_of (opts s) ctx \<and>
            supersedeKey existing = key_of (opts s) plan \<and> now < expiresAt existing
         then (True, s\<lparr>entries := gm_del token es\<rparr>) else (False, s\<lparr>entries := es\<rparr>)))"

section \<open>Laws of the loop\<close>

definition superseded :: "string \<Rightarrow> string \<Rightarrow> entry \<Rightarrow> bool" where
  "superseded prin key e \<longleftrightarrow> principal e = prin \<and> supersedeKey e = key"

lemma supersedeLoop_eq:
  "supersedeLoop prin key es =
    (gm_keep (\<lambda>e. \<not> superseded prin key e) es,
     int (length (filter (\<lambda>e. principal (snd e) = prin \<and> supersedeKey (snd e) \<noteq> key) es)))"
  by (induction es rule: supersedeLoop.induct) (auto simp: gm_keep_def superseded_def)

lemma principal_count:
  "length (filter (\<lambda>e. principal (snd e) = prin \<and> supersedeKey (snd e) \<noteq> key) es) =
   length (filter (\<lambda>e. principal (snd e) = prin) (gm_keep (\<lambda>e. \<not> superseded prin key e) es))"
  by (induction es) (auto simp: gm_keep_def superseded_def)

section \<open>Invariant\<close>

definition keys_distinct :: "(string, entry) go_map \<Rightarrow> bool" where
  "keys_distinct es \<longleftrightarrow> distinct (map (\<lambda>e. (principal (snd e), supersedeKey (snd e))) es)"

definition principal_load :: "string \<Rightarrow> (string, entry) go_map \<Rightarrow> nat" where
  "principal_load prin es = length (filter (\<lambda>e. principal (snd e) = prin) es)"

definition store_inv :: "('c, 'p) resolved \<Rightarrow> ('c, 'p) batch_store \<Rightarrow> bool" where
  "store_inv os s \<longleftrightarrow> opts s = os \<and> gm_wf (entries s) \<and> keys_distinct (entries s) \<and>
     (\<forall>prin. int (principal_load prin (entries s)) \<le> max_per_principal os)"

lemma keys_distinct_filter [inv_intros]: "keys_distinct es \<Longrightarrow> keys_distinct (filter P es)"
  by (simp add: keys_distinct_def distinct_map_filter)

lemma principal_load_filter: "principal_load prin (filter P es) \<le> principal_load prin es"
  by (induction es) (auto simp: principal_load_def)

lemma principal_load_Cons [simp]:
  "principal_load prin (e # es) = (if principal (snd e) = prin then 1 else 0) + principal_load prin es"
  by (simp add: principal_load_def)

lemma load_filter_le:
  "\<forall>prin. int (principal_load prin es) \<le> n \<Longrightarrow> \<forall>prin. int (principal_load prin (filter P es)) \<le> n"
  using principal_load_filter[of _ P es] by (meson order.trans of_nat_mono)

lemmas filter_defs = gm_keep_def gm_del_def deleteExpiredLocked_def

lemma inv_filter [inv_intros]: "store_inv os s \<Longrightarrow> store_inv os (s\<lparr>entries := filter P (entries s)\<rparr>)"
  by (auto simp: store_inv_def keys_distinct_filter load_filter_le gm_wf_filter)

lemma Consume_shape:
  "\<exists>P. snd (Consume dig ctx token plan s) = s\<lparr>entries := filter P (entries s)\<rparr>"
proof -
  have id: "s = s\<lparr>entries := filter (\<lambda>_. True) (entries s)\<rparr>" by simp
  show ?thesis
    by (auto simp: Consume_def filter_defs Let_def split: sum.splits option.splits intro: id)
qed

lemma Consume_inv: "store_inv os s \<Longrightarrow> store_inv os (snd (Consume dig ctx token plan s))"
  using Consume_shape[of dig ctx token plan s] inv_filter by metis

lemma keys_distinct_put:
  "keys_distinct es \<Longrightarrow> (\<forall>x\<in>set es. \<not> superseded (principal e) (supersedeKey e) (snd x)) \<Longrightarrow>
   keys_distinct (gm_put t e es)"
  by (force simp: keys_distinct_def gm_put_def gm_del_def superseded_def distinct_map_filter)

lemma Issue_inv:
  assumes inv: "store_inv os s"
  shows "store_inv os (snd (Issue dig ctx plan s))"
proof -
  define now where "now = clock_now os ctx"
  define prin where "prin = principal_of os ctx"
  define key where "key = key_of os plan"
  define kept where "kept = gm_keep (\<lambda>e. \<not> superseded prin key e) (deleteExpiredLocked now (entries s))"
  have o: "opts s = os" using inv by (simp add: store_inv_def)
  have kept: "store_inv os (s\<lparr>entries := kept\<rparr>)"
    using inv_filter[OF inv_filter[OF inv]] by (simp add: kept_def filter_defs)
  have fresh: "\<forall>x\<in>set kept. \<not> superseded prin key (snd x)" by (simp add: kept_def)
  have put: "store_inv os (s\<lparr>entries := gm_put token e kept\<rparr>)"
    if room: "int (principal_load prin kept) < max_per_principal os"
      and e: "principal e = prin" "supersedeKey e = key" for token e
  proof -
    have "int (principal_load p (gm_put token e kept)) \<le> max_per_principal os" for p
    proof -
      have "principal_load p (gm_del token kept) \<le> principal_load p kept"
        by (simp add: gm_del_def principal_load_filter)
      moreover have "int (principal_load p kept) \<le> max_per_principal os"
        using kept by (simp add: store_inv_def)
      ultimately show ?thesis using room e by (auto simp: gm_put_def)
    qed
    then show ?thesis using kept keys_distinct_put fresh e by (simp add: store_inv_def)
  qed
  show ?thesis
    using inv kept put by (auto simp: Issue_def supersedeLoop_eq Let_def o now_def prin_def key_def
        kept_def principal_count principal_load_def split: sum.splits)
qed

section \<open>The unexpired view, and what each operation does to it\<close>

definition live_at :: "go_time \<Rightarrow> ('c, 'p) batch_store \<Rightarrow> string \<Rightarrow> entry option" where
  "live_at now s t = (case map_of (entries s) t of None \<Rightarrow> None
     | Some e \<Rightarrow> if now < expiresAt e then Some e else None)"

definition request_matches :: "('c, 'p) resolved \<Rightarrow> ('p \<Rightarrow> string + string) \<Rightarrow> 'c \<Rightarrow> 'p \<Rightarrow> entry \<Rightarrow> bool" where
  "request_matches os dig ctx plan e \<longleftrightarrow> dig plan = Inr (digest e) \<and> principal e = principal_of os ctx \<and>
     supersedeKey e = key_of os plan \<and> clock_now os ctx < expiresAt e"

definition entry_for :: "('c, 'p) resolved \<Rightarrow> ('p \<Rightarrow> string + string) \<Rightarrow> 'c \<Rightarrow> 'p \<Rightarrow> entry" where
  "entry_for os dig ctx plan = \<lparr>digest = (case dig plan of Inr d \<Rightarrow> d | Inl _ \<Rightarrow> []), principal = principal_of os ctx,
     supersedeKey = key_of os plan, expiresAt = clock_now os ctx + lifetime os\<rparr>"

definition issue_op :: "('p \<Rightarrow> string + string) \<Rightarrow> 'c \<times> 'p \<Rightarrow> ('c, 'p) batch_store \<Rightarrow>
    string option \<times> ('c, 'p) batch_store" where
  "issue_op dig i s = (case Issue dig (fst i) (snd i) s of (r, s') \<Rightarrow>
     (case r of Inl _ \<Rightarrow> None | Inr t \<Rightarrow> Some t, s'))"

definition consume_op :: "('p \<Rightarrow> string + string) \<Rightarrow> 'c \<times> string \<times> 'p \<Rightarrow> ('c, 'p) batch_store \<Rightarrow>
    bool \<times> ('c, 'p) batch_store" where
  "consume_op dig c s = Consume dig (fst c) (fst (snd c)) (snd (snd c)) s"

lemma map_of_filter_wf: "gm_wf es \<Longrightarrow> map_of (filter (\<lambda>x. P (snd x)) es) t =
    (case map_of es t of None \<Rightarrow> None | Some e \<Rightarrow> if P e then Some e else None)"
  by (cases "map_of (filter (\<lambda>x. P (snd x)) es) t"; cases "map_of es t")
     (auto simp: map_of_filter_Some, metis (mono_tags, lifting) map_of_filter_Some option.distinct(1) snd_conv)

lemma map_of_keep_eq: "gm_wf es \<Longrightarrow> map_of (gm_keep P es) t =
    (case map_of es t of None \<Rightarrow> None | Some e \<Rightarrow> if P e then Some e else None)"
  by (simp add: gm_keep_def map_of_filter_wf)

lemma Consume_result:
  "store_inv os s \<Longrightarrow> fst (Consume dig ctx token plan s) \<longleftrightarrow>
    (\<exists>e. live_at (clock_now os ctx) s token = Some e \<and> request_matches os dig ctx plan e)"
  by (auto simp: Consume_def store_inv_def live_at_def request_matches_def deleteExpiredLocked_def
      map_of_keep_eq Let_def split: sum.splits option.splits)

lemma Consume_view:
  assumes "store_inv os s" "clock_now os ctx \<le> later"
  shows "live_at later (snd (Consume dig ctx token plan s)) =
    (if fst (Consume dig ctx token plan s) then (live_at later s)(token := None) else live_at later s)"
  using assms by (auto simp: Consume_def store_inv_def live_at_def deleteExpiredLocked_def fun_eq_iff
      map_of_keep_eq Let_def split: sum.splits option.splits)

lemma Issue_view:
  assumes "store_inv os s" "clock_now os ctx \<le> later" "Issue dig ctx plan s = (Inr token, s')"
  shows "live_at later s' = (\<lambda>t. if t = token
      then (if later < clock_now os ctx + lifetime os then Some (entry_for os dig ctx plan) else None)
      else case live_at later s t of None \<Rightarrow> None
        | Some e \<Rightarrow> if superseded (principal_of os ctx) (key_of os plan) e then None else Some e)"
  using assms by (auto simp: Issue_def store_inv_def live_at_def deleteExpiredLocked_def fun_eq_iff
      entry_for_def superseded_def map_of_keep_eq supersedeLoop_eq Let_def split: sum.splits option.splits if_splits)

lemma Issue_entries:
  "Issue dig ctx plan s = (r, s') \<Longrightarrow> opts s' = opts s"
  by (auto simp: Issue_def Let_def split: sum.splits prod.splits if_splits)

lemma Issue_old:
  "store_inv os s \<Longrightarrow> Issue dig ctx plan s = (r, s') \<Longrightarrow> r \<noteq> Inr u \<Longrightarrow>
    map_of (entries s') u = Some e \<Longrightarrow> map_of (entries s) u = Some e"
  by (auto simp: Issue_def store_inv_def deleteExpiredLocked_def supersedeLoop_eq Let_def
      split: sum.splits if_splits)

lemma Issue_new:
  "store_inv os s \<Longrightarrow> Issue dig ctx plan s = (Inr t, s') \<Longrightarrow>
    map_of (entries s') t = Some (entry_for os dig ctx plan)"
  by (auto simp: Issue_def store_inv_def entry_for_def Let_def split: sum.splits prod.splits if_splits)

lemma Issue_size:
  "store_inv os s \<Longrightarrow> length (entries s) \<le> nat (max_entries os) \<Longrightarrow>
    length (entries (snd (Issue dig ctx plan s))) \<le> nat (max_entries os)"
proof -
  assume inv: "store_inv os s" and n: "length (entries s) \<le> nat (max_entries os)"
  define kept where "kept = gm_keep (\<lambda>e. \<not> superseded (principal_of os ctx) (key_of os plan) e)
      (deleteExpiredLocked (clock_now os ctx) (entries s))"
  have le: "length kept \<le> length (entries s)"
    unfolding kept_def deleteExpiredLocked_def by (meson length_gm_keep_le order.trans)
  have put: "length (gm_put t e kept) \<le> Suc (length kept)" for t e by (rule length_gm_put_le)
  have ins: "length (gm_put t e kept) \<le> nat (max_entries os)" if "int (length kept) < max_entries os" for t e
    using put[of t e] that by linarith
  show ?thesis using inv n le ins
    by (auto simp: Issue_def store_inv_def supersedeLoop_eq Let_def kept_def not_le split: sum.splits)
qed

lemma Consume_size: "length (entries (snd (Consume dig ctx token plan s))) \<le> length (entries s)"
  using Consume_shape[of dig ctx token plan s] by (elim exE) simp

lemma Consume_old:
  "store_inv os s \<Longrightarrow> Consume dig ctx token plan s = (b, s') \<Longrightarrow>
    map_of (entries s') u = Some e \<Longrightarrow> map_of (entries s) u = Some e"
  by (metis (no_types, lifting) Consume_shape map_of_filter_Some batch_store.select_convs(1) batch_store.surjective
      batch_store.update_convs(1) snd_conv store_inv_def)

lemma Consume_hit:
  "store_inv os s \<Longrightarrow> Consume dig ctx token plan s = (True, s') \<Longrightarrow>
    map_of (entries s') token = None \<and>
    (\<exists>e. map_of (entries s) token = Some e \<and> request_matches os dig ctx plan e)"
  by (auto simp: Consume_def store_inv_def request_matches_def deleteExpiredLocked_def
      Let_def split: sum.splits option.splits if_splits)

interpretation batch: bounded_store "store_inv os" "\<lambda>s. map_of (entries s)" "issue_op dig" "consume_op dig"
    "\<lambda>c. fst (snd c)" "\<lambda>i. entry_for os dig (fst i) (snd i)" "\<lambda>c e. request_matches os dig (fst c) (snd (snd c)) e"
    "\<lambda>s. length (entries s)" "nat (max_entries os)"
  for os :: "('c, 'p) resolved" and dig :: "'p \<Rightarrow> string + string"
proof unfold_locales
  fix s :: "('c, 'p) batch_store" and i r s' assume "store_inv os s" "issue_op dig i s = (r, s')"
  then show "store_inv os s'" using Issue_inv[of os s dig "fst i" "snd i"]
    by (auto simp: issue_op_def split: prod.splits)
next
  fix s :: "('c, 'p) batch_store" and c b s' assume "store_inv os s" "consume_op dig c s = (b, s')"
  then show "store_inv os s'" using Consume_inv[of os s dig "fst c" "fst (snd c)" "snd (snd c)"]
    by (simp add: consume_op_def)
next
  fix s :: "('c, 'p) batch_store" and i r s' u e
  assume "store_inv os s" "issue_op dig i s = (r, s')" "r \<noteq> Some u" "map_of (entries s') u = Some e"
  then show "map_of (entries s) u = Some e"
    by (auto simp: issue_op_def split: prod.splits sum.splits intro: Issue_old)
next
  fix s :: "('c, 'p) batch_store" and i
  assume "store_inv os s" "length (entries s) \<le> nat (max_entries os)"
  then show "length (entries (snd (issue_op dig i s))) \<le> nat (max_entries os)"
    using Issue_size[of os s dig "fst i" "snd i"] by (auto simp: issue_op_def split: prod.splits)
qed (auto simp: issue_op_def consume_op_def Issue_new dest: Consume_old Consume_hit
    split: prod.splits sum.splits intro: order.trans[OF Consume_size])

section \<open>Properties of the batch store\<close>

definition demo_options :: "(go_time, string) options" where
  "demo_options = \<lparr>Clock = Some (\<lambda>t. t), IDGenerator = Some (\<lambda>t. Inr (if t = 0 then ''a'' else ''b'')),
     Principal = Some (\<lambda>_. ''alice''), SupersedeKey = Some (\<lambda>p. take 1 p), Lifetime = 10, MaxEntries = 1,
     MaxEntriesPerPrincipal = 0\<rparr>"

definition demo_store :: "(go_time, string) batch_store" where
  "demo_store = (case NewStore (\<lambda>t. t) demo_options of Inr s \<Rightarrow> s | Inl _ \<Rightarrow> undefined)"

lemma NewStore_inv: "NewStore rc os = Inr s \<Longrightarrow> store_inv (opts s) s \<and> entries s = [] \<and>
    0 < max_entries (opts s) \<and> 0 < max_per_principal (opts s) \<and> 0 < lifetime (opts s)"
  by (auto simp: NewStore_def store_inv_def keys_distinct_def principal_load_def defaultLifetime_def
      defaultMaxEntries_def defaultMaxEntriesPerPrincipal_def second_def split: option.splits)

text \<open>C3: A store made by NewStore and driven by any sequence of Issue and Consume calls redeems
  each token at most as often as it issued it: confirmation tokens are single use.\<close>

theorem batch_token_single_use:
  assumes "NewStore realClock os = Inr s"
  shows "count_list (fst (run_store (issue_op dig) (consume_op dig) (\<lambda>c. fst (snd c)) ops s)) (Consumed t)
     \<le> count_list (fst (run_store (issue_op dig) (consume_op dig) (\<lambda>c. fst (snd c)) ops s)) (Issued t)"
  using batch.consumed_le_issued[of "opts s" s] NewStore_inv[OF assms] by simp

lemma demo_store_ok: "NewStore (\<lambda>t. t) demo_options = Inr demo_store"
  by (simp add: demo_store_def NewStore_def demo_options_def)

theorem batch_token_single_use_witness:
  "count_list (fst (run_store (issue_op Inr) (consume_op Inr) (\<lambda>c. fst (snd c))
      [Issue_Op (0, ''p''), Consume_Op (1, ''a'', ''p''), Consume_Op (2, ''a'', ''p'')] demo_store)) (Consumed ''a'') \<le> 1"
proof -
  have "count_list (fst (run_store (issue_op Inr) (consume_op Inr) (\<lambda>c. fst (snd c))
      [Issue_Op (0, ''p''), Consume_Op (1, ''a'', ''p''), Consume_Op (2, ''a'', ''p'')] demo_store)) (Issued ''a'') = 1"
    by code_simp
  then show ?thesis
    using batch_token_single_use[OF demo_store_ok, of Inr
      "[Issue_Op (0, ''p''), Consume_Op (1, ''a'', ''p''), Consume_Op (2, ''a'', ''p'')]" "''a''"] by simp
qed

text \<open>C4: A successful Consume after any sequence of operations on a fresh store is matched by an
  earlier Issue that returned this token for a plan with the same digest and supersede key,
  under the same principal, less than the lifetime ago.\<close>

theorem batch_consume_authorized:
  assumes "NewStore realClock os = Inr s"
    and "fst (Consume dig ctx t plan (snd (run_store (issue_op dig) (consume_op dig) (\<lambda>c. fst (snd c)) ops s)))"
  shows "\<exists>n ictx iplan d. n < length ops \<and> ops ! n = Issue_Op (ictx, iplan) \<and>
     fst (run_store (issue_op dig) (consume_op dig) (\<lambda>c. fst (snd c)) ops s) ! n = Issued t \<and>
     dig plan = Inr d \<and> (\<forall>d'. dig iplan = Inr d' \<longrightarrow> d' = d) \<and>
     principal_of (opts s) ictx = principal_of (opts s) ctx \<and> key_of (opts s) iplan = key_of (opts s) plan \<and>
     clock_now (opts s) ctx < clock_now (opts s) ictx + lifetime (opts s)"
proof -
  have "store_inv (opts s) s" "map_of (entries s) t = None" using NewStore_inv[OF assms(1)] by auto
  with assms(2) obtain n i where ni: "n < length ops" "ops ! n = Issue_Op i"
    "fst (run_store (issue_op dig) (consume_op dig) (\<lambda>c. fst (snd c)) ops s) ! n = Issued t"
    "request_matches (opts s) dig ctx plan (entry_for (opts s) dig (fst i) (snd i))"
    using batch.consume_authorized[of "opts s" s "(ctx, t, plan)" dig ops] by (auto simp: consume_op_def)
  then show ?thesis
    by (intro exI[of _ n] exI[of _ "fst i"] exI[of _ "snd i"])
       (auto simp: request_matches_def entry_for_def)
qed

theorem batch_consume_authorized_witness:
  "\<exists>n ictx iplan. n < 1 \<and> [Issue_Op (0, ''p'') :: (go_time \<times> string, go_time \<times> string \<times> string) store_op] ! n = Issue_Op (ictx, iplan) \<and>
     principal_of (opts demo_store) ictx = principal_of (opts demo_store) 5 \<and> key_of (opts demo_store) iplan = key_of (opts demo_store) ''p''"
proof -
  have "fst (Consume Inr 5 ''a'' ''p'' (snd (run_store (issue_op Inr) (consume_op Inr) (\<lambda>c. fst (snd c))
      [Issue_Op (0, ''p'')] demo_store)))" by code_simp
  from batch_consume_authorized[OF demo_store_ok this] show ?thesis by auto
qed

text \<open>C5: Reachable stores keep the capacity bounds and the supersede rule: at most MaxEntries
  entries in all and MaxEntriesPerPrincipal for any principal, and never two entries for the
  same principal and supersede key.\<close>

theorem batch_capacity_bounds:
  assumes "NewStore realClock os = Inr s0"
    and "s = snd (run_store (issue_op dig) (consume_op dig) (\<lambda>c. fst (snd c)) ops s0)"
  shows "int (length (entries s)) \<le> max_entries (opts s0) \<and>
    int (principal_load prin (entries s)) \<le> max_per_principal (opts s0) \<and> keys_distinct (entries s)"
proof -
  have i: "store_inv (opts s0) s0" and z: "length (entries s0) \<le> nat (max_entries (opts s0))"
    and pos: "0 < max_entries (opts s0)" using NewStore_inv[OF assms(1)] by auto
  have "length (entries s) \<le> nat (max_entries (opts s0))"
    using batch.run_bounded[OF i z] assms(2) by blast
  moreover have "store_inv (opts s0) s" using batch.run_inv[OF i] assms(2) by blast
  ultimately show ?thesis using pos by (simp add: store_inv_def)
qed

theorem batch_capacity_bounds_witness:
  "int (length (entries (snd (run_store (issue_op Inr) (consume_op Inr) (\<lambda>c. fst (snd c))
      [Issue_Op (0, ''p''), Issue_Op (1, ''q''), Issue_Op (2, ''p'')] demo_store)))) \<le> 1"
proof -
  have "max_entries (opts demo_store) = 1" by code_simp
  then show ?thesis using batch_capacity_bounds[OF demo_store_ok refl, of Inr
    "[Issue_Op (0, ''p''), Issue_Op (1, ''q''), Issue_Op (2, ''p'')]"] by simp
qed

text \<open>C6: The detailed store refines the abstract one, in which expired entries do not exist: Consume
  answers by looking the token up in the unexpired view and removes it exactly when it matches,
  a successful Issue drops the superseded entries of the principal and binds the new one, and
  physical deletion of expired entries is never visible to a later call.\<close>

theorem batch_store_refines_view:
  assumes "store_inv os s" "clock_now os ctx \<le> later"
  shows "(fst (Consume dig ctx token plan s) \<longleftrightarrow>
       (\<exists>e. live_at (clock_now os ctx) s token = Some e \<and> request_matches os dig ctx plan e)) \<and>
    live_at later (snd (Consume dig ctx token plan s)) =
       (if fst (Consume dig ctx token plan s) then (live_at later s)(token := None) else live_at later s) \<and>
    (\<forall>new s'. Issue dig ctx plan s = (Inr new, s') \<longrightarrow> live_at later s' = (\<lambda>t. if t = new
       then (if later < clock_now os ctx + lifetime os then Some (entry_for os dig ctx plan) else None)
       else case live_at later s t of None \<Rightarrow> None
         | Some e \<Rightarrow> if superseded (principal_of os ctx) (key_of os plan) e then None else Some e))"
  using Consume_result[OF assms(1)] Consume_view[OF assms] Issue_view[OF assms] by simp

theorem batch_store_refines_view_witness:
  "live_at 5 (snd (Consume Inr 1 ''zz'' ''p'' demo_store)) = live_at 5 demo_store"
proof -
  have f: "\<not> fst (Consume Inr 1 ''zz'' ''p'' demo_store)" and le: "clock_now (opts demo_store) 1 \<le> 5"
    by code_simp+
  have inv: "store_inv (opts demo_store) demo_store" using NewStore_inv[OF demo_store_ok] by simp
  show ?thesis using batch_store_refines_view[OF inv le, of Inr "''zz''" "''p''"] f by argo
qed

end
