(* ===== verification/Batch_Execute.thy ===== *)
theory Batch_Execute
  imports Prelude "HOL-Library.Multiset"
begin

text \<open>
  internal/batch/execute.go: bounded-concurrency execution of a batch. \<open>runOne\<close> is the
  sequential body of one item over a world state that the adapter's three calls change.
  \<open>exec_step\<close> is the interleaved execution by the errgroup: dispatch in index order with at
  most \<open>conc\<close> goroutines, the cancellation check at the start of a goroutine, one adapter call
  per step, the atomic counter and the OnProgress callback as separate steps. Timing is left out.
\<close>

section \<open>Outcomes and results\<close>

datatype outcome = OutcomeApplied | OutcomeSkipped | OutcomeFailed | OutcomeAmbiguous | OutcomeUnverified

record 'i result =
  Item :: 'i
  Outcome :: outcome
  Attempted :: bool
  Message :: string
  RecoveryPlan :: string

record ('i, 'w) adapter =
  Preflight :: "'i \<Rightarrow> 'w \<Rightarrow> (bool \<times> string \<times> string option) \<times> 'w"
  Mutate :: "'i \<Rightarrow> 'w \<Rightarrow> string option \<times> 'w"
  Verify :: "'i \<Rightarrow> 'w \<Rightarrow> string option \<times> 'w"

definition notAttemptedMessage :: string where "notAttemptedMessage = ''not attempted: batch context was cancelled or its deadline expired before this item's turn''"
definition notAttemptedRecovery :: string where "notAttemptedRecovery = ''Re-run a fresh dry run for the remaining items; this item was never touched.''"
definition failedPreflightRecovery :: string where "failedPreflightRecovery = ''No write was attempted. Prepare a fresh dry run for this item once the reported condition is resolved.''"
definition ambiguousMessage :: string where "ambiguousMessage = ''mutation attempted; result unknown''"
definition ambiguousRecovery :: string where "ambiguousRecovery = ''Do not retry blindly. Prepare a fresh dry run and inspect current state before deciding what, if anything, still needs to change.''"
definition unverifiedAttemptMessage :: string where "unverifiedAttemptMessage = ''mutation may have completed but could not be confirmed''"
definition unverifiedRecovery :: string where "unverifiedRecovery = ''Do not retry blindly. Prepare a fresh dry run and inspect current state before deciding what, if anything, still needs to change.''"

definition not_attempted :: "'i \<Rightarrow> 'i result" where
  "not_attempted item = \<lparr>Item = item, Outcome = OutcomeUnverified, Attempted = False,
     Message = notAttemptedMessage, RecoveryPlan = notAttemptedRecovery\<rparr>"

definition after_preflight :: "'i \<Rightarrow> bool \<times> string \<times> string option \<Rightarrow> 'i result option" where
  "after_preflight item p = (case p of (skip, reason, err) \<Rightarrow>
     if err \<noteq> None then Some \<lparr>Item = item, Outcome = OutcomeFailed, Attempted = True, Message = reason,
                              RecoveryPlan = failedPreflightRecovery\<rparr>
     else if skip then Some \<lparr>Item = item, Outcome = OutcomeSkipped, Attempted = True, Message = reason,
                              RecoveryPlan = ''''\<rparr>
     else None)"

definition after_mutate :: "'i \<Rightarrow> string option \<Rightarrow> 'i result option" where
  "after_mutate item err = (if err \<noteq> None then Some \<lparr>Item = item, Outcome = OutcomeAmbiguous, Attempted = True,
     Message = ambiguousMessage, RecoveryPlan = ambiguousRecovery\<rparr> else None)"

definition after_verify :: "'i \<Rightarrow> string option \<Rightarrow> 'i result" where
  "after_verify item err = (if err \<noteq> None then \<lparr>Item = item, Outcome = OutcomeUnverified, Attempted = True,
     Message = unverifiedAttemptMessage, RecoveryPlan = unverifiedRecovery\<rparr>
     else \<lparr>Item = item, Outcome = OutcomeApplied, Attempted = True, Message = '''', RecoveryPlan = ''''\<rparr>)"

definition runOne :: "('i, 'w) adapter \<Rightarrow> 'i \<Rightarrow> 'w \<Rightarrow> 'i result \<times> 'w" where
  "runOne a item w = (let (p, w1) = Preflight a item w in
     case after_preflight item p of Some r \<Rightarrow> (r, w1) | None \<Rightarrow>
     (let (e, w2) = Mutate a item w1 in
      case after_mutate item e of Some r \<Rightarrow> (r, w2) | None \<Rightarrow>
      (let (v, w3) = Verify a item w2 in (after_verify item v, w3))))"

section \<open>Interleaved execution\<close>

datatype 'i phase = Queued | Started | Ready | Passed | Mutated | Terminal "'i result"
  | Counted nat "'i result" | Returned "'i result"

datatype call = PreflightCall | MutateCall | VerifyCall

record ('i, 'w) exec_state =
  world :: 'w
  phases :: "'i phase list"
  dispatched :: nat
  cancelled :: bool
  completed :: nat
  progress :: "nat list"
  calls :: "(nat \<times> call) list"

definition clamp_concurrency :: "int \<Rightarrow> nat" where
  "clamp_concurrency c = (if c < 1 then 1 else nat c)"

definition exec_init :: "'i list \<Rightarrow> 'w \<Rightarrow> bool \<Rightarrow> ('i, 'w) exec_state" where
  "exec_init items w c = \<lparr>world = w, phases = map (\<lambda>_. Queued) items, dispatched = 0, cancelled = c,
     completed = 0, progress = [], calls = []\<rparr>"

fun busy :: "'i phase \<Rightarrow> bool" where
  "busy Queued = False" | "busy (Returned _) = False" | "busy _ = True"

definition in_flight :: "('i, 'w) exec_state \<Rightarrow> nat" where
  "in_flight s = length (filter busy (phases s))"

definition set_phase :: "nat \<Rightarrow> 'i phase \<Rightarrow> ('i, 'w) exec_state \<Rightarrow> ('i, 'w) exec_state" where
  "set_phase n p s = s\<lparr>phases := (phases s)[n := p]\<rparr>"

inductive exec_step :: "('i, 'w) adapter \<Rightarrow> 'i list \<Rightarrow> nat \<Rightarrow> bool \<Rightarrow> ('i, 'w) exec_state \<Rightarrow> ('i, 'w) exec_state \<Rightarrow> bool"
  for a :: "('i, 'w) adapter" and items :: "'i list" and conc :: nat and onProgress :: bool where
  cancel: "\<not> cancelled s \<Longrightarrow> exec_step a items conc onProgress s (s\<lparr>cancelled := True\<rparr>)"
| dispatch: "dispatched s < length items \<Longrightarrow> in_flight s < conc \<Longrightarrow>
    exec_step a items conc onProgress s ((set_phase (dispatched s) Started s)\<lparr>dispatched := Suc (dispatched s)\<rparr>)"
| skip_cancelled: "n < length items \<Longrightarrow> phases s ! n = Started \<Longrightarrow> cancelled s \<Longrightarrow>
    exec_step a items conc onProgress s (set_phase n (Terminal (not_attempted (items ! n))) s)"
| begin_item: "n < length items \<Longrightarrow> phases s ! n = Started \<Longrightarrow> \<not> cancelled s \<Longrightarrow>
    exec_step a items conc onProgress s (set_phase n Ready s)"
| preflight: "n < length items \<Longrightarrow> phases s ! n = Ready \<Longrightarrow> Preflight a (items ! n) (world s) = (p, w) \<Longrightarrow>
    exec_step a items conc onProgress s
      ((set_phase n (case after_preflight (items ! n) p of None \<Rightarrow> Passed | Some r \<Rightarrow> Terminal r) s)
        \<lparr>world := w, calls := calls s @ [(n, PreflightCall)]\<rparr>)"
| mutate: "n < length items \<Longrightarrow> phases s ! n = Passed \<Longrightarrow> Mutate a (items ! n) (world s) = (e, w) \<Longrightarrow>
    exec_step a items conc onProgress s
      ((set_phase n (case after_mutate (items ! n) e of None \<Rightarrow> Mutated | Some r \<Rightarrow> Terminal r) s)
        \<lparr>world := w, calls := calls s @ [(n, MutateCall)]\<rparr>)"
| verify: "n < length items \<Longrightarrow> phases s ! n = Mutated \<Longrightarrow> Verify a (items ! n) (world s) = (e, w) \<Longrightarrow>
    exec_step a items conc onProgress s
      ((set_phase n (Terminal (after_verify (items ! n) e)) s)
        \<lparr>world := w, calls := calls s @ [(n, VerifyCall)]\<rparr>)"
| count_done: "n < length items \<Longrightarrow> phases s ! n = Terminal r \<Longrightarrow> onProgress \<Longrightarrow>
    exec_step a items conc onProgress s ((set_phase n (Counted (Suc (completed s)) r) s)\<lparr>completed := Suc (completed s)\<rparr>)"
| report: "n < length items \<Longrightarrow> phases s ! n = Counted k r \<Longrightarrow>
    exec_step a items conc onProgress s ((set_phase n (Returned r) s)\<lparr>progress := progress s @ [k]\<rparr>)"
| finish: "n < length items \<Longrightarrow> phases s ! n = Terminal r \<Longrightarrow> \<not> onProgress \<Longrightarrow>
    exec_step a items conc onProgress s (set_phase n (Returned r) s)"

definition exec_final :: "('i, 'w) exec_state \<Rightarrow> bool" where
  "exec_final s \<longleftrightarrow> (\<forall>p\<in>set (phases s). case p of Returned _ \<Rightarrow> True | _ \<Rightarrow> False)"

fun result_of :: "'i phase \<Rightarrow> 'i result option" where
  "result_of (Terminal r) = Some r" | "result_of (Counted _ r) = Some r" | "result_of (Returned r) = Some r"
| "result_of _ = None"

definition exec_results :: "('i, 'w) exec_state \<Rightarrow> 'i result list" where
  "exec_results s = map (\<lambda>p. the (result_of p)) (phases s)"

section \<open>Invariant\<close>

definition outcome_calls :: "'i result \<Rightarrow> call list" where
  "outcome_calls r = (case Outcome r of OutcomeFailed \<Rightarrow> [PreflightCall] | OutcomeSkipped \<Rightarrow> [PreflightCall]
     | OutcomeAmbiguous \<Rightarrow> [PreflightCall, MutateCall]
     | OutcomeApplied \<Rightarrow> [PreflightCall, MutateCall, VerifyCall]
     | OutcomeUnverified \<Rightarrow> if Attempted r then [PreflightCall, MutateCall, VerifyCall] else [])"

fun phase_calls :: "'i phase \<Rightarrow> call list" where
  "phase_calls Queued = []" | "phase_calls Started = []" | "phase_calls Ready = []"
| "phase_calls Passed = [PreflightCall]" | "phase_calls Mutated = [PreflightCall, MutateCall]"
| "phase_calls (Terminal r) = outcome_calls r" | "phase_calls (Counted _ r) = outcome_calls r"
| "phase_calls (Returned r) = outcome_calls r"

definition calls_for :: "nat \<Rightarrow> (nat \<times> call) list \<Rightarrow> call list" where
  "calls_for n cs = map snd (filter (\<lambda>c. fst c = n) cs)"

lemma calls_for_append [simp]: "calls_for n (xs @ [c]) = calls_for n xs @ (if fst c = n then [snd c] else [])"
  by (simp add: calls_for_def)

lemma calls_for_Nil [simp]: "calls_for n [] = []"
  by (simp add: calls_for_def)

lemma outcome_calls_simps [simp]:
  "outcome_calls (not_attempted i) = []"
  "after_preflight i p = Some r \<Longrightarrow> outcome_calls r = [PreflightCall]"
  "after_mutate i e = Some r \<Longrightarrow> outcome_calls r = [PreflightCall, MutateCall]"
  "outcome_calls (after_verify i e) = [PreflightCall, MutateCall, VerifyCall]"
  by (auto simp: outcome_calls_def not_attempted_def after_preflight_def after_mutate_def after_verify_def
      split: prod.splits if_splits)

lemma Item_simps [simp]:
  "Item (not_attempted i) = i" "after_preflight i p = Some r \<Longrightarrow> Item r = i"
  "after_mutate i e = Some r \<Longrightarrow> Item r = i" "Item (after_verify i e) = i"
  by (auto simp: not_attempted_def after_preflight_def after_mutate_def after_verify_def
      split: prod.splits if_splits)

definition exec_inv :: "'i list \<Rightarrow> nat \<Rightarrow> ('i, 'w) exec_state \<Rightarrow> bool" where
  "exec_inv items conc s \<longleftrightarrow> length (phases s) = length items \<and> dispatched s \<le> length items \<and>
     in_flight s \<le> conc \<and>
     (\<forall>n<length items. (n \<ge> dispatched s \<longleftrightarrow> phases s ! n = Queued) \<and>
        calls_for n (calls s) = phase_calls (phases s ! n) \<and>
        (\<forall>r. result_of (phases s ! n) = Some r \<longrightarrow> Item r = items ! n))"

lemma filter_update_busy:
  "n < length ps \<Longrightarrow> length (filter busy (ps[n := p])) + (if busy (ps ! n) then 1 else 0) =
     length (filter busy ps) + (if busy p then 1 else 0)"
proof (induction ps arbitrary: n)
  case (Cons q ps)
  then show ?case by (cases n) auto
qed simp

lemma in_flight_set_phase:
  "n < length (phases s) \<Longrightarrow> in_flight (set_phase n p s) + (if busy (phases s ! n) then 1 else 0) =
     in_flight s + (if busy p then 1 else 0)"
  by (simp add: in_flight_def set_phase_def filter_update_busy)

lemma in_flight_update_le:
  assumes "n < length (phases s)" "busy (phases s ! n)"
  shows "in_flight (set_phase n p s) \<le> in_flight s"
  using in_flight_set_phase[OF assms(1), of p] assms(2) by (auto split: if_splits)

lemma in_flight_fields [simp]:
  "in_flight (s\<lparr>world := w\<rparr>) = in_flight s" "in_flight (s\<lparr>calls := c\<rparr>) = in_flight s"
  "in_flight (s\<lparr>cancelled := b\<rparr>) = in_flight s" "in_flight (s\<lparr>dispatched := d\<rparr>) = in_flight s"
  "in_flight (s\<lparr>completed := k\<rparr>) = in_flight s" "in_flight (s\<lparr>progress := l\<rparr>) = in_flight s"
  by (simp_all add: in_flight_def)

lemma set_phase_fields [simp]:
  "world (set_phase n p s) = world s" "calls (set_phase n p s) = calls s"
  "cancelled (set_phase n p s) = cancelled s" "dispatched (set_phase n p s) = dispatched s"
  "completed (set_phase n p s) = completed s" "progress (set_phase n p s) = progress s"
  "phases (set_phase n p s) = (phases s)[n := p]"
  by (simp_all add: set_phase_def)

lemma busy_simps [simp]: "busy (case x of None \<Rightarrow> Passed | Some r \<Rightarrow> Terminal r)"
  "busy (case x of None \<Rightarrow> Mutated | Some r \<Rightarrow> Terminal r)"
  by (cases x; simp)+

text \<open>A step that moves one busy item to a new phase and logs its call keeps the invariant.\<close>

lemma exec_inv_update:
  assumes inv: "exec_inv items conc s" and n: "n < length items" and b: "busy (phases s ! n)" and q: "p \<noteq> Queued"
    and ph: "phases s' = (phases s)[n := p]" and d: "dispatched s' = dispatched s"
    and c: "\<And>m. calls_for m (calls s') = (if m = n then phase_calls p else calls_for m (calls s))"
    and r: "\<And>r. result_of p = Some r \<Longrightarrow> Item r = items ! n"
  shows "exec_inv items conc s'"
proof -
  have "in_flight s' = in_flight (set_phase n p s)" using ph by (simp add: in_flight_def)
  then have "in_flight s' \<le> conc"
    using in_flight_update_le[of n s p] inv n b by (simp add: exec_inv_def)
  moreover have "phases s ! n \<noteq> Queued" using b by auto
  ultimately show ?thesis using inv n q ph d c r
    by (auto simp: exec_inv_def nth_list_update)
qed

lemma exec_inv_step: "exec_step a items conc pr s s' \<Longrightarrow> exec_inv items conc s \<Longrightarrow> exec_inv items conc s'"
proof (induction rule: exec_step.induct)
  case (cancel s)
  then show ?case by (simp add: exec_inv_def)
next
  case (dispatch s)
  have q: "phases s ! dispatched s = Queued" using dispatch unfolding exec_inv_def by blast
  have eq: "in_flight (set_phase (dispatched s) Started s) = Suc (in_flight s)"
    using in_flight_set_phase[of "dispatched s" s Started] dispatch q by (simp add: exec_inv_def)
  show ?case using dispatch eq q
    by (auto simp: exec_inv_def nth_list_update)
next
  case (preflight n s p w)
  then show ?case
    by (intro exec_inv_update[OF preflight.prems preflight.hyps(1)])
       (auto simp: exec_inv_def split: option.splits)
next
  case (mutate n s e w)
  then show ?case
    by (intro exec_inv_update[OF mutate.prems mutate.hyps(1)])
       (auto simp: exec_inv_def split: option.splits)
next
  case (verify n s e w)
  then show ?case
    by (intro exec_inv_update[OF verify.prems verify.hyps(1)]) (auto simp: exec_inv_def)
next
  case (skip_cancelled n s)
  then show ?case
    by (intro exec_inv_update[OF skip_cancelled.prems skip_cancelled.hyps(1)]) (auto simp: exec_inv_def)
next
  case (begin_item n s)
  then show ?case
    by (intro exec_inv_update[OF begin_item.prems begin_item.hyps(1)]) (auto simp: exec_inv_def)
next
  case (count_done n s r)
  then show ?case
    by (intro exec_inv_update[OF count_done.prems count_done.hyps(1)]) (auto simp: exec_inv_def)
next
  case (report n s k r)
  then show ?case
    by (intro exec_inv_update[OF report.prems report.hyps(1)]) (auto simp: exec_inv_def)
next
  case (finish n s r)
  then show ?case
    by (intro exec_inv_update[OF finish.prems finish.hyps(1)]) (auto simp: exec_inv_def)
qed

abbreviation exec_reach where
  "exec_reach a items conc pr \<equiv> (exec_step a items conc pr)\<^sup>*\<^sup>*"

lemma exec_inv_init: "exec_inv items conc (exec_init items w c)"
  by (simp add: exec_inv_def exec_init_def in_flight_def)

lemma exec_reach_inv:
  "exec_reach a items conc pr (exec_init items w c) s \<Longrightarrow> exec_inv items conc s"
  by (induction rule: rtranclp_induct) (auto intro: exec_inv_init exec_inv_step)

section \<open>Progress reports\<close>

fun pending_count :: "'i phase \<Rightarrow> nat multiset" where
  "pending_count (Counted k _) = {#k#}" | "pending_count _ = {#}"

fun counted :: "'i phase \<Rightarrow> nat" where
  "counted (Counted _ _) = 1" | "counted (Returned _) = 1" | "counted _ = 0"

definition progress_inv :: "('i, 'w) exec_state \<Rightarrow> bool" where
  "progress_inv s \<longleftrightarrow> mset (progress s) + sum_list (map pending_count (phases s)) = mset (map Suc [0..<completed s]) \<and>
     completed s = sum_list (map counted (phases s))"

lemma sum_list_update_add:
  fixes f :: "'a \<Rightarrow> 'b::{cancel_comm_monoid_add}"
  shows "n < length ps \<Longrightarrow> sum_list (map f (ps[n := p])) + f (ps ! n) = sum_list (map f ps) + f p"
proof (induction ps arbitrary: n)
  case (Cons q ps)
  then show ?case by (cases n) (auto simp: algebra_simps)
qed simp

lemma progress_step:
  "exec_step a items conc pr s s' \<Longrightarrow> pr \<Longrightarrow> length (phases s) = length items \<Longrightarrow>
   (\<forall>n\<ge>dispatched s. n < length items \<longrightarrow> phases s ! n = Queued) \<Longrightarrow> progress_inv s \<Longrightarrow> progress_inv s'"
proof (induction rule: exec_step.induct)
  case (dispatch s)
  then show ?case
    using sum_list_update_add[of "dispatched s" "phases s" pending_count Started]
      sum_list_update_add[of "dispatched s" "phases s" counted Started]
    by (simp add: progress_inv_def)
next
  case (preflight n s p w)
  then show ?case
    using sum_list_update_add[of n "phases s" pending_count] sum_list_update_add[of n "phases s" counted]
    by (force simp: progress_inv_def split: option.splits)
next
  case (mutate n s e w)
  then show ?case
    using sum_list_update_add[of n "phases s" pending_count] sum_list_update_add[of n "phases s" counted]
    by (force simp: progress_inv_def split: option.splits)
next
  case (verify n s e w)
  then show ?case
    using sum_list_update_add[of n "phases s" pending_count] sum_list_update_add[of n "phases s" counted]
    by (force simp: progress_inv_def)
next
  case (skip_cancelled n s)
  then show ?case
    using sum_list_update_add[of n "phases s" pending_count] sum_list_update_add[of n "phases s" counted]
    by (force simp: progress_inv_def)
next
  case (begin_item n s)
  then show ?case
    using sum_list_update_add[of n "phases s" pending_count] sum_list_update_add[of n "phases s" counted]
    by (force simp: progress_inv_def)
next
  case (count_done n s r)
  then show ?case
    using sum_list_update_add[of n "phases s" pending_count "Counted (Suc (completed s)) r"]
      sum_list_update_add[of n "phases s" counted "Counted (Suc (completed s)) r"]
    by (simp add: progress_inv_def)
next
  case (report n s k r)
  then show ?case
    using sum_list_update_add[of n "phases s" pending_count "Returned r"]
      sum_list_update_add[of n "phases s" counted "Returned r"]
    by (simp add: progress_inv_def) (metis add_mset_add_single union_mset_add_mset_right)
qed (auto simp: progress_inv_def)

lemma exec_inv_queued: "exec_inv items conc s \<Longrightarrow> \<forall>n\<ge>dispatched s. n < length items \<longrightarrow> phases s ! n = Queued"
  unfolding exec_inv_def by blast

lemma exec_reach_progress:
  "exec_reach a items conc True (exec_init items w c) s \<Longrightarrow> progress_inv s"
proof (induction rule: rtranclp_induct)
  case base
  have "sum_list (map (\<lambda>_. 0 :: nat) items) = 0" "sum_list (map (\<lambda>_. {#} :: nat multiset) items) = {#}"
    by (induction items) auto
  then show ?case by (simp add: progress_inv_def exec_init_def comp_def)
next
  case (step s s')
  have inv: "exec_inv items conc s" by (rule exec_reach_inv[OF step.hyps(1)])
  moreover have "length (phases s) = length items" using inv by (simp add: exec_inv_def)
  ultimately show ?case using progress_step[OF step.hyps(2)] step.IH exec_inv_queued[OF inv] by blast
qed

section \<open>Termination\<close>

fun phase_weight :: "'i phase \<Rightarrow> nat" where
  "phase_weight Queued = 7" | "phase_weight Started = 6" | "phase_weight Ready = 5"
| "phase_weight Passed = 4" | "phase_weight Mutated = 3" | "phase_weight (Terminal _) = 2"
| "phase_weight (Counted _ _) = 1" | "phase_weight (Returned _) = 0"

definition exec_weight :: "('i, 'w) exec_state \<Rightarrow> nat" where
  "exec_weight s = sum_list (map phase_weight (phases s)) + (if cancelled s then 0 else 1)"

lemma weight_update:
  assumes "n < length ps" "phase_weight p < phase_weight (ps ! n)"
  shows "sum_list (map phase_weight (ps[n := p])) < sum_list (map phase_weight ps)"
  using sum_list_update_add[OF assms(1), of phase_weight p] assms(2) by linarith

lemma exec_weight_step:
  assumes "exec_step a items conc pr s s'" "exec_inv items conc s"
  shows "exec_weight s' < exec_weight s"
  using assms
proof (induction rule: exec_step.induct)
  case (dispatch s)
  have q: "phases s ! dispatched s = Queued" using dispatch unfolding exec_inv_def by blast
  show ?case using dispatch q weight_update[of "dispatched s" "phases s" Started]
    by (simp add: exec_weight_def exec_inv_def)
qed (auto simp: exec_weight_def exec_inv_def intro!: weight_update split: option.splits)

lemma phase_moves:
  assumes n: "n < length items" and b: "busy (phases s ! n)" and c: "cancelled s"
  shows "\<exists>s'. exec_step a items conc pr s s' \<and> cancelled s'"
proof (cases "phases s ! n")
  case Started
  then show ?thesis using exec_step.skip_cancelled[OF n Started c, of a conc pr] c by fastforce
next
  case Ready
  obtain p w where "Preflight a (items ! n) (world s) = (p, w)" by fastforce
  from exec_step.preflight[OF n Ready this, of conc pr] show ?thesis using c by fastforce
next
  case Passed
  obtain p w where "Mutate a (items ! n) (world s) = (p, w)" by fastforce
  from exec_step.mutate[OF n Passed this, of conc pr] show ?thesis using c by fastforce
next
  case Mutated
  obtain p w where "Verify a (items ! n) (world s) = (p, w)" by fastforce
  from exec_step.verify[OF n Mutated this, of conc pr] show ?thesis using c by fastforce
next
  case (Terminal r)
  show ?thesis
  proof (cases pr)
    case True
    then show ?thesis using exec_step.count_done[OF n Terminal, of pr a conc] c by fastforce
  next
    case False
    then show ?thesis using exec_step.finish[OF n Terminal, of pr a conc] c by fastforce
  qed
next
  case (Counted k r)
  then show ?thesis using exec_step.report[OF n Counted, of a conc pr] c by fastforce
qed (use b in auto)

lemma not_final_moves:
  assumes inv: "exec_inv items conc s" and nf: "\<not> exec_final s" and c: "0 < conc"
  shows "\<exists>s'. exec_step a items conc pr s s'"
proof (cases "cancelled s")
  case False
  then show ?thesis using exec_step.cancel by blast
next
  case cn: True
  show ?thesis
  proof (cases "\<exists>n<length items. busy (phases s ! n)")
    case True
    then show ?thesis using phase_moves cn by blast
  next
    case idle: False
    then have none: "in_flight s = 0" using inv
      by (auto simp: in_flight_def exec_inv_def filter_empty_conv in_set_conv_nth)
    obtain n where n: "n < length items" "\<forall>r. phases s ! n \<noteq> Returned r"
      using nf inv by (auto simp: exec_final_def exec_inv_def in_set_conv_nth split: phase.splits)
    then have "phases s ! n = Queued" using idle by (cases "phases s ! n") auto
    then have "dispatched s < length items" using inv n(1) unfolding exec_inv_def
      by (meson le_less_trans)
    then show ?thesis using exec_step.dispatch[of s items conc a pr] none c by auto
  qed
qed

lemma exec_completes:
  assumes "exec_inv items conc s" "0 < conc"
  shows "\<exists>s'. exec_reach a items conc pr s s' \<and> exec_final s'"
  using assms
proof (induction "exec_weight s" arbitrary: s rule: less_induct)
  case less
  show ?case
  proof (cases "exec_final s")
    case False
    then obtain s1 where st: "exec_step a items conc pr s s1" using not_final_moves less.prems by blast
    then obtain s2 where "exec_reach a items conc pr s1 s2" "exec_final s2"
      using less.hyps[OF exec_weight_step[OF st less.prems(1)] exec_inv_step[OF st less.prems(1)]] less.prems(2)
      by blast
    then show ?thesis using st by (meson converse_rtranclp_into_rtranclp)
  qed blast
qed

lemma exec_path_bound:
  "(exec_step a items conc pr ^^ k) s s' \<Longrightarrow> exec_inv items conc s \<Longrightarrow> k + exec_weight s' \<le> exec_weight s"
proof (induction k arbitrary: s')
  case (Suc k)
  then obtain s1 where s1: "(exec_step a items conc pr ^^ k) s s1" "exec_step a items conc pr s1 s'" by auto
  have "exec_reach a items conc pr s s1" using s1(1) by (metis relpowp_imp_rtranclp)
  then have "exec_inv items conc s1" using Suc.prems(2) by (induction rule: rtranclp_induct) (auto intro: exec_inv_step)
  then show ?case using exec_weight_step[OF s1(2)] Suc.IH[OF s1(1) Suc.prems(2)] by linarith
qed auto

lemma exec_weight_init: "exec_weight (exec_init items w c) \<le> 7 * length items + 1"
  by (induction items) (auto simp: exec_weight_def exec_init_def)

section \<open>Agreement with the sequential body\<close>

definition world_independent :: "('i, 'w) adapter \<Rightarrow> bool" where
  "world_independent a \<longleftrightarrow> (\<forall>i w w'. fst (Preflight a i w) = fst (Preflight a i w') \<and>
     fst (Mutate a i w) = fst (Mutate a i w') \<and> fst (Verify a i w) = fst (Verify a i w'))"

fun phase_agrees :: "('i, 'w) adapter \<Rightarrow> 'w \<Rightarrow> bool \<Rightarrow> 'i \<Rightarrow> 'i phase \<Rightarrow> bool" where
  "phase_agrees a w c i Passed \<longleftrightarrow> after_preflight i (fst (Preflight a i w)) = None"
| "phase_agrees a w c i Mutated \<longleftrightarrow> after_preflight i (fst (Preflight a i w)) = None \<and>
     after_mutate i (fst (Mutate a i w)) = None"
| "phase_agrees a w c i p \<longleftrightarrow> (case result_of p of None \<Rightarrow> True
     | Some r \<Rightarrow> (r = not_attempted i \<and> c) \<or> r = fst (runOne a i w))"

lemma runOne_result:
  "world_independent a \<Longrightarrow> fst (runOne a i w) = (case after_preflight i (fst (Preflight a i w)) of Some r \<Rightarrow> r
     | None \<Rightarrow> (case after_mutate i (fst (Mutate a i w)) of Some r \<Rightarrow> r
     | None \<Rightarrow> after_verify i (fst (Verify a i w))))"
  by (auto simp: runOne_def Let_def world_independent_def split: prod.splits option.splits) (metis fst_conv option.inject option.distinct(1))+

lemma phase_agrees_cancel: "phase_agrees a w c i p \<Longrightarrow> phase_agrees a w True i p"
  by (cases p) auto

lemma agrees_step:
  assumes "exec_step a items conc pr s s'" "world_independent a" "length (phases s) = length items"
    "\<forall>n<length items. phase_agrees a w0 (cancelled s) (items ! n) (phases s ! n)"
  shows "\<forall>n<length items. phase_agrees a w0 (cancelled s') (items ! n) (phases s' ! n)"
  using assms
proof (induction rule: exec_step.induct)
  case (cancel s)
  then show ?case using phase_agrees_cancel by fastforce
next
  case (preflight n s p w)
  then have "p = fst (Preflight a (items ! n) w0)" unfolding world_independent_def by (metis fst_conv)
  then show ?case using preflight runOne_result[of a "items ! n" w0]
    by (auto simp: nth_list_update split: option.splits)
next
  case (mutate n s e w)
  then have "e = fst (Mutate a (items ! n) w0)" unfolding world_independent_def by (metis fst_conv)
  moreover have "phase_agrees a w0 (cancelled s) (items ! n) Passed" using mutate by metis
  ultimately show ?case using mutate runOne_result[of a "items ! n" w0]
    by (auto simp: nth_list_update split: option.splits)
next
  case (verify n s e w)
  then have "e = fst (Verify a (items ! n) w0)" unfolding world_independent_def by (metis fst_conv)
  moreover have "phase_agrees a w0 (cancelled s) (items ! n) Mutated" using verify by metis
  ultimately show ?case using verify runOne_result[of a "items ! n" w0]
    by (auto simp: nth_list_update)
next
  case (count_done n s r)
  then have "phase_agrees a w0 (cancelled s) (items ! n) (Terminal r)" by metis
  then show ?case using count_done by (auto simp: nth_list_update)
next
  case (report n s k r)
  then have "phase_agrees a w0 (cancelled s) (items ! n) (Counted k r)" by metis
  then show ?case using report by (auto simp: nth_list_update)
next
  case (finish n s r)
  then have "phase_agrees a w0 (cancelled s) (items ! n) (Terminal r)" by metis
  then show ?case using finish by (auto simp: nth_list_update)
qed (auto simp: nth_list_update)

lemma exec_reach_agrees:
  assumes "world_independent a" "exec_reach a items conc pr (exec_init items w0 c) s"
  shows "\<forall>n<length items. phase_agrees a w0 (cancelled s) (items ! n) (phases s ! n)"
  using assms(2)
proof (induction rule: rtranclp_induct)
  case base
  then show ?case by (simp add: exec_init_def)
next
  case (step s s')
  have "exec_inv items conc s" by (rule exec_reach_inv[OF step.hyps(1)])
  then show ?case using agrees_step[OF step.hyps(2) assms(1)] step.IH by (simp add: exec_inv_def)
qed

lemma final_returned: "exec_final s \<Longrightarrow> n < length (phases s) \<Longrightarrow> \<exists>r. phases s ! n = Returned r"
  by (cases "phases s ! n") (force simp: exec_final_def dest: bspec[OF _ nth_mem])+

lemma final_pending: "exec_final s \<Longrightarrow> sum_list (map pending_count (phases s)) = {#} \<and>
    sum_list (map counted (phases s)) = length (phases s)"
proof -
  assume f: "exec_final s"
  have "\<forall>p\<in>set ps. case p of Returned _ \<Rightarrow> True | _ \<Rightarrow> False \<Longrightarrow>
      sum_list (map pending_count ps) = {#} \<and> sum_list (map counted ps) = length ps" for ps :: "'a phase list"
    by (induction ps) (auto split: phase.splits)
  then show ?thesis using f by (simp add: exec_final_def)
qed

section \<open>Properties of Execute\<close>

definition demo_adapter :: "(nat, nat list) adapter" where
  "demo_adapter = \<lparr>Preflight = (\<lambda>i w. ((i = 0, ''r'', if i = 1 then Some ''bad'' else None), w)),
     Mutate = (\<lambda>i w. (None, i # w)), Verify = (\<lambda>i w. (None, w))\<rparr>"

text \<open>C19: When Execute returns, results are in item order, one per item, and the adapter calls made
  for item n are exactly those its outcome claims: nothing for an item not attempted, no write
  for a failed or skipped one, and Preflight before a single Mutate before Verify otherwise; at
  no time are more than the clamped concurrency items in flight.\<close>

theorem execute_results_truthful:
  assumes "exec_reach a items (clamp_concurrency conc) pr (exec_init items w c) s"
  shows "in_flight s \<le> clamp_concurrency conc \<and> (exec_final s \<longrightarrow> map Item (exec_results s) = items \<and>
    (\<forall>n<length items. calls_for n (calls s) = outcome_calls (exec_results s ! n)))"
proof -
  have inv: "exec_inv items (clamp_concurrency conc) s" by (rule exec_reach_inv[OF assms])
  have "map Item (exec_results s) = items \<and> (\<forall>n<length items. calls_for n (calls s) = outcome_calls (exec_results s ! n))"
    if f: "exec_final s"
  proof -
    have "\<exists>r. phases s ! n = Returned r \<and> Item r = items ! n" if "n < length items" for n
      using final_returned[OF f, of n] inv that unfolding exec_inv_def by (metis result_of.simps(3))
    then show ?thesis using inv unfolding exec_inv_def exec_results_def
      by (auto intro!: nth_equalityI) (metis option.sel result_of.simps(3) phase_calls.simps(8))+
  qed
  then show ?thesis using inv by (simp add: exec_inv_def)
qed

theorem execute_results_truthful_witness:
  "\<exists>s :: (nat, nat list) exec_state. exec_final s \<and> in_flight s \<le> 2 \<and> map Item (exec_results s) = [0, 1, 2] \<and>
     calls_for 1 (calls s) = outcome_calls (exec_results s ! 1)"
proof -
  obtain s where s: "exec_reach demo_adapter [0, 1, 2] (clamp_concurrency 2) True (exec_init [0, 1, 2] [] False) s" "exec_final s"
    using exec_completes[OF exec_inv_init[of "[0, 1, 2]" "clamp_concurrency 2" "[]" False], of demo_adapter True]
    by (auto simp: clamp_concurrency_def)
  show ?thesis using execute_results_truthful[OF s(1)] s(2) by (intro exI[of _ s]) (simp add: clamp_concurrency_def)
qed

text \<open>OnProgress is called exactly once with each of the values 1 to the number of items (so done
  reaches total exactly once), under cancellation too.\<close>

theorem execute_progress_complete:
  assumes "exec_reach a items (clamp_concurrency conc) True (exec_init items w c) s" "exec_final s"
  shows "mset (progress s) = mset [1..<Suc (length items)]"
proof -
  have "progress_inv s" by (rule exec_reach_progress[OF assms(1)])
  moreover have "length (phases s) = length items" using exec_reach_inv[OF assms(1)] by (simp add: exec_inv_def)
  ultimately have "mset (progress s) = mset (map Suc [0..<length items])"
    using final_pending[OF assms(2)] by (simp add: progress_inv_def)
  then show ?thesis by (simp add: map_Suc_upt del: upt_Suc)
qed

theorem execute_progress_complete_witness:
  "\<exists>s :: (nat, nat list) exec_state. exec_final s \<and> mset (progress s) = {#1, 2, 3#}"
proof -
  obtain s where s: "exec_reach demo_adapter [0, 1, 2] (clamp_concurrency 2) True (exec_init [0, 1, 2] [] True) s" "exec_final s"
    using exec_completes[OF exec_inv_init[of "[0, 1, 2]" "clamp_concurrency 2" "[]" True], of demo_adapter True]
    by (auto simp: clamp_concurrency_def)
  show ?thesis using execute_progress_complete[OF s] s(2) by (intro exI[of _ s]) (simp add: numeral_eq_Suc)
qed





end
