(* ===== verification/Base64.thy ===== *)
theory Base64
  imports Prelude
begin

text \<open>
  The encodings of encoding/base64 the program uses: RawURLEncoding (envelopes, PKCE), and the
  standard and URL alphabets with and without padding (key material). Decoding skips CR and LF
  and does not check trailing bits, as the library does without Strict.
\<close>

definition alpha_std :: string where
  "alpha_std = ''ABCDEFGHIJKLMNOPQRSTUVWXYZabcdefghijklmnopqrstuvwxyz0123456789+/''"

definition alpha_url :: string where
  "alpha_url = ''ABCDEFGHIJKLMNOPQRSTUVWXYZabcdefghijklmnopqrstuvwxyz0123456789-_''"

definition byte_of :: "char \<Rightarrow> nat" where "byte_of c = of_char c"

definition sextet :: "string \<Rightarrow> char \<Rightarrow> nat option" where
  "sextet alpha c = map_of (zip alpha [0..<64]) c"

fun sextets_of :: "string \<Rightarrow> nat list" where
  "sextets_of [] = []"
| "sextets_of [a] = [byte_of a div 4, byte_of a mod 4 * 16]"
| "sextets_of [a, b] = [byte_of a div 4, byte_of a mod 4 * 16 + byte_of b div 16, byte_of b mod 16 * 4]"
| "sextets_of (a # b # c # r) = byte_of a div 4 # (byte_of a mod 4 * 16 + byte_of b div 16) #
     (byte_of b mod 16 * 4 + byte_of c div 64) # byte_of c mod 64 # sextets_of r"

definition raw_encode :: "string \<Rightarrow> string \<Rightarrow> string" where
  "raw_encode alpha s = map (\<lambda>n. alpha ! n) (sextets_of s)"

fun bytes_of :: "nat list \<Rightarrow> string option" where
  "bytes_of [] = Some []"
| "bytes_of [x] = None"
| "bytes_of [x, y] = Some [char_of (x * 4 + y div 16)]"
| "bytes_of [x, y, z] = Some [char_of (x * 4 + y div 16), char_of (y mod 16 * 16 + z div 4)]"
| "bytes_of (x # y # z # w # r) = (case bytes_of r of None \<Rightarrow> None | Some bs \<Rightarrow>
     Some (char_of (x * 4 + y div 16) # char_of (y mod 16 * 16 + z div 4) # char_of (z mod 4 * 64 + w) # bs))"

definition skip_newlines :: "string \<Rightarrow> string" where
  "skip_newlines s = filter (\<lambda>c. c \<noteq> CHR 0x0A \<and> c \<noteq> CHR 0x0D) s"

definition decode_body :: "string \<Rightarrow> string \<Rightarrow> string option" where
  "decode_body alpha s = (case those (map (sextet alpha) s) of None \<Rightarrow> None | Some ns \<Rightarrow> bytes_of ns)"

definition raw_decode :: "string \<Rightarrow> string \<Rightarrow> string option" where
  "raw_decode alpha s = decode_body alpha (skip_newlines s)"

definition padded_decode :: "string \<Rightarrow> string \<Rightarrow> string option" where
  "padded_decode alpha s = (let s = skip_newlines s in
     if length s mod 4 \<noteq> 0 then None
     else if has_suffix s ''=='' then decode_body alpha (take (length s - 2) s)
     else if has_suffix s ''='' then decode_body alpha (take (length s - 1) s)
     else decode_body alpha s)"

definition good_alpha :: "string \<Rightarrow> bool" where
  "good_alpha a \<longleftrightarrow> length a = 64 \<and> distinct a \<and> CHR 0x0A \<notin> set a \<and> CHR 0x0D \<notin> set a"

lemma good_alphas: "good_alpha alpha_std" "good_alpha alpha_url"
  by code_simp+

lemma byte_lt: "byte_of c < 256"
  by (simp add: byte_of_def)

lemma char_of_byte [simp]: "char_of (byte_of c) = c"
  by (simp add: byte_of_def)

lemma sextets_lt: "n \<in> set (sextets_of s) \<Longrightarrow> n < 64"
proof (induction s rule: sextets_of.induct)
  case (2 a) then show ?case using byte_lt[of a] by auto
next
  case (3 a b) then show ?case using byte_lt[of a] byte_lt[of b] by auto
next
  case (4 a b c r) then show ?case using byte_lt[of a] byte_lt[of b] byte_lt[of c] by auto
qed simp

lemma bytes_of_sextets: "bytes_of (sextets_of s) = Some s"
proof (induction s rule: sextets_of.induct)
  case (2 a)
  have "byte_of a div 4 * 4 + byte_of a mod 4 * 16 div 16 = byte_of a" by simp
  then show ?case by (simp del: div_mult_self1_is_m)
next
  case (3 a b)
  have "(byte_of a mod 4 * 16 + byte_of b div 16) div 16 = byte_of a mod 4"
    "(byte_of a mod 4 * 16 + byte_of b div 16) mod 16 = byte_of b div 16"
    using byte_lt[of b] by auto
  then show ?case by simp
next
  case (4 a b c r)
  have 1: "(byte_of a mod 4 * 16 + byte_of b div 16) div 16 = byte_of a mod 4"
    "(byte_of a mod 4 * 16 + byte_of b div 16) mod 16 = byte_of b div 16"
    using byte_lt[of b] by auto
  have 2: "(byte_of b mod 16 * 4 + byte_of c div 64) div 4 = byte_of b mod 16"
    "(byte_of b mod 16 * 4 + byte_of c div 64) mod 4 = byte_of c div 64"
    using byte_lt[of c] by auto
  show ?case using 4 1 2 by simp
qed simp

lemma sextet_nth: "good_alpha a \<Longrightarrow> n < 64 \<Longrightarrow> sextet a (a ! n) = Some n"
  by (simp add: sextet_def good_alpha_def map_of_zip_nth)

lemma those_sextets: "good_alpha a \<Longrightarrow> \<forall>n\<in>set ns. n < 64 \<Longrightarrow>
    those (map (sextet a) (map (\<lambda>n. a ! n) ns)) = Some ns"
  by (induction ns) (simp_all add: sextet_nth)

lemma raw_encode_set: "good_alpha a \<Longrightarrow> set (raw_encode a s) \<subseteq> set a"
  using sextets_lt by (force simp: raw_encode_def good_alpha_def)

lemma raw_roundtrip: "good_alpha a \<Longrightarrow> raw_decode a (raw_encode a s) = Some s"
proof -
  assume g: "good_alpha a"
  have "skip_newlines (raw_encode a s) = raw_encode a s"
    using raw_encode_set[OF g, of s] g by (auto simp: skip_newlines_def good_alpha_def filter_id_conv)
  then show ?thesis
    using those_sextets[OF g, of "sextets_of s"] sextets_lt
    by (simp add: raw_decode_def decode_body_def raw_encode_def bytes_of_sextets)
qed

lemma raw_encode_no_dot: "CHR ''.'' \<notin> set (raw_encode alpha_url s)"
proof -
  have "CHR ''.'' \<notin> set alpha_url" by code_simp
  then show ?thesis using raw_encode_set[OF good_alphas(2)] by blast
qed

end
