(* ===== verification/OAuth_Envelope.thy ===== *)
theory OAuth_Envelope
  imports Base64
begin

text \<open>
  internal/oauth/envelope.go, keyring_config.go and pkce.go: the keyring, the sealed token format
  \<open>mcp1.<key id>.<base64url(nonce, ciphertext)>\<close> and the PKCE check. AES-GCM, SHA-256 and the
  JSON codec are arguments; \<open>aead_laws\<close> states what the code relies on.
\<close>

section \<open>Keyring\<close>

definition tokenPrefix :: string where "tokenPrefix = ''mcp1''"
definition nonceBytes :: nat where "nonceBytes = 12"
definition keyBytes :: nat where "keyBytes = 32"

definition KeyStateActive :: string where "KeyStateActive = ''active''"
definition KeyStateDecryptOnly :: string where "KeyStateDecryptOnly = ''decrypt_only''"

record key =
  ID :: string
  Material :: string
  State :: string

record keyring =
  keys :: "(string, key) go_map"
  active :: key

datatype keyring_error = NoKeys | KeyIDRequired | KeyIDCharacters string | KeyLength string
  | KeyDuplicated string | NotExactlyOneActive | KeyStateUnsupported string string
  | KeyMaterialRequired string | KeyMaterialEncoding string

definition id_separators :: string where
  "id_separators = CHR ''.'' # CHR '' '' # CHR 0x09 # CHR 0x0D # CHR 0x0A # []"

fun addKeys :: "key list \<Rightarrow> (string, key) go_map \<Rightarrow> key option \<Rightarrow> keyring_error + (string, key) go_map \<times> key option" where
  "addKeys [] keyMap act = Inr (keyMap, act)"
| "addKeys (k # ks) keyMap act =
    (if ID k = '''' then Inl KeyIDRequired
     else if contains_any (ID k) id_separators then Inl (KeyIDCharacters (ID k))
     else if length (Material k) \<noteq> keyBytes then Inl (KeyLength (ID k))
     else if map_of keyMap (ID k) \<noteq> None then Inl (KeyDuplicated (ID k))
     else if State k = KeyStateActive then
       (if act \<noteq> None then Inl NotExactlyOneActive else addKeys ks (gm_put (ID k) k keyMap) (Some k))
     else if State k = KeyStateDecryptOnly then addKeys ks (gm_put (ID k) k keyMap) act
     else Inl (KeyStateUnsupported (ID k) (State k)))"

definition NewKeyring :: "key list \<Rightarrow> keyring_error + keyring" where
  "NewKeyring ks = (if ks = [] then Inl NoKeys else
     sum_bind (addKeys ks [] None) (\<lambda>(keyMap, act).
       case act of None \<Rightarrow> Inl NotExactlyOneActive | Some a \<Rightarrow> Inr \<lparr>keys = keyMap, active = a\<rparr>))"

record key_config =
  ConfigID :: string
  MaterialBase64 :: string
  ConfigState :: string

definition decodeKeyMaterial :: "string \<Rightarrow> keyring_error option \<times> string" where
  "decodeKeyMaterial raw = (if raw = '''' then (Some (KeyMaterialRequired ''''), '''')
     else (case raw_decode alpha_std raw of Some m \<Rightarrow> (None, m) | None \<Rightarrow>
          (case padded_decode alpha_std raw of Some m \<Rightarrow> (None, m) | None \<Rightarrow>
          (case raw_decode alpha_url raw of Some m \<Rightarrow> (None, m) | None \<Rightarrow>
          (case padded_decode alpha_url raw of Some m \<Rightarrow> (None, m) | None \<Rightarrow>
             (Some (KeyMaterialEncoding ''''), ''''))))))"

fun configuredKeys :: "key_config list \<Rightarrow> keyring_error + key list" where
  "configuredKeys [] = Inr []"
| "configuredKeys (c # cs) = (case decodeKeyMaterial (MaterialBase64 c) of
     (Some _, _) \<Rightarrow> Inl (if MaterialBase64 c = '''' then KeyMaterialRequired (ConfigID c) else KeyMaterialEncoding (ConfigID c))
   | (None, material) \<Rightarrow> sum_bind (configuredKeys cs)
       (\<lambda>ks. Inr (\<lparr>ID = ConfigID c, Material = material, State = ConfigState c\<rparr> # ks)))"

definition Keyring :: "key_config list \<Rightarrow> keyring_error + keyring" where
  "Keyring cs = sum_bind (configuredKeys cs) NewKeyring"

definition key_entry_ok :: "key option \<Rightarrow> string \<times> key \<Rightarrow> bool" where
  "key_entry_ok act e \<longleftrightarrow> ID (snd e) = fst e \<and> fst e \<noteq> '''' \<and> \<not> contains_any (fst e) id_separators \<and>
     length (Material (snd e)) = keyBytes \<and> (State (snd e) = KeyStateActive \<longleftrightarrow> act = Some (snd e)) \<and>
     State (snd e) \<in> {KeyStateActive, KeyStateDecryptOnly}"

definition adding_inv :: "(string, key) go_map \<Rightarrow> key option \<Rightarrow> bool" where
  "adding_inv m act \<longleftrightarrow> gm_wf m \<and>
     (\<forall>a. act = Some a \<longrightarrow> map_of m (ID a) = Some a \<and> State a = KeyStateActive) \<and> (\<forall>e\<in>set m. key_entry_ok act e)"

definition keyring_ok :: "keyring \<Rightarrow> bool" where
  "keyring_ok kr \<longleftrightarrow> gm_wf (keys kr) \<and> map_of (keys kr) (ID (active kr)) = Some (active kr) \<and>
     State (active kr) = KeyStateActive \<and> (\<forall>e\<in>set (keys kr). key_entry_ok (Some (active kr)) e)"

lemma key_states_differ [simp]: "KeyStateActive \<noteq> KeyStateDecryptOnly" "KeyStateDecryptOnly \<noteq> KeyStateActive"
  by (simp_all add: KeyStateActive_def KeyStateDecryptOnly_def)

lemma adding_inv_active:
  assumes inv: "adding_inv m None" and k: "ID k \<noteq> ''''" "\<not> contains_any (ID k) id_separators"
    "length (Material k) = keyBytes" "map_of m (ID k) = None" "State k = KeyStateActive"
  shows "adding_inv (gm_put (ID k) k m) (Some k)"
proof -
  have old: "key_entry_ok (Some k) e" if "e \<in> set m" for e
  proof -
    have ok: "key_entry_ok None e" using inv that by (simp add: adding_inv_def)
    have "fst e \<noteq> ID k" using k(4) that by (metis map_of_eq_None_iff image_eqI)
    then have "snd e \<noteq> k" using ok by (auto simp: key_entry_ok_def)
    then show ?thesis using ok by (auto simp: key_entry_ok_def)
  qed
  moreover have "key_entry_ok (Some k) (ID k, k)" using k by (simp add: key_entry_ok_def)
  ultimately show ?thesis using inv k by (simp add: adding_inv_def)
qed

lemma adding_inv_decrypt:
  assumes inv: "adding_inv m act" and k: "ID k \<noteq> ''''" "\<not> contains_any (ID k) id_separators"
    "length (Material k) = keyBytes" "map_of m (ID k) = None" "State k = KeyStateDecryptOnly"
  shows "adding_inv (gm_put (ID k) k m) act"
proof -
  have "act \<noteq> Some k" using inv k(5) by (auto simp: adding_inv_def)
  then have "key_entry_ok act (ID k, k)" using k by (simp add: key_entry_ok_def)
  moreover have "ID a \<noteq> ID k" if "act = Some a" for a using inv k(4) that by (auto simp: adding_inv_def)
  ultimately show ?thesis using inv by (auto simp: adding_inv_def)
qed

lemma addKeys_inv:
  "adding_inv m act \<Longrightarrow> addKeys ks m act = Inr (m', act') \<Longrightarrow> adding_inv m' act'"
  by (induction ks m act rule: addKeys.induct) (auto split: if_splits intro: adding_inv_active adding_inv_decrypt)

lemma NewKeyring_ok: "NewKeyring ks = Inr kr \<Longrightarrow> keyring_ok kr"
proof -
  assume h: "NewKeyring ks = Inr kr"
  then obtain m a where add: "addKeys ks [] None = Inr (m, Some a)" and kr: "kr = \<lparr>keys = m, active = a\<rparr>"
    by (auto simp: NewKeyring_def sum_bind_Inr split: if_splits option.splits)
  have "adding_inv [] None" by (simp add: adding_inv_def)
  from addKeys_inv[OF this add] show ?thesis using kr
    by (simp add: adding_inv_def keyring_ok_def)
qed

section \<open>Sealed envelopes\<close>

record associated_data =
  Issuer :: string
  Audience :: string
  ClientID :: string
  Type :: string

definition associatedDataBytes :: "associated_data \<Rightarrow> string" where
  "associatedDataBytes aad = Issuer aad @ CHR 0x00 # Audience aad @ CHR 0x00 # ClientID aad @ CHR 0x00 # Type aad"

datatype open_error = ErrInvalidToken | CipherError

record aead =
  aead_seal :: "string \<Rightarrow> string \<Rightarrow> string \<Rightarrow> string \<Rightarrow> string"
  aead_open :: "string \<Rightarrow> string \<Rightarrow> string \<Rightarrow> string \<Rightarrow> string option"

text \<open>aes.NewCipher accepts keys of 16, 24 or 32 bytes.\<close>

definition keyAEAD :: "key \<Rightarrow> bool" where
  "keyAEAD k = (length (Material k) \<in> {16, 24, 32})"

definition Seal :: "aead \<Rightarrow> keyring \<Rightarrow> string + string \<Rightarrow> ('v \<Rightarrow> string + string) \<Rightarrow> associated_data \<Rightarrow> 'v \<Rightarrow> string + string" where
  "Seal cr kr randomNonce marshal aad claims = (let k = active kr in
     if \<not> keyAEAD k then Inl ''cipher'' else
     sum_bind randomNonce (\<lambda>nonce. sum_bind (marshal claims) (\<lambda>plaintext.
       let ciphertext = aead_seal cr (Material k) nonce plaintext (associatedDataBytes aad)
       in Inr (join_on CHR ''.'' [tokenPrefix, ID k, raw_encode alpha_url (nonce @ ciphertext)]))))"

definition Open :: "aead \<Rightarrow> keyring \<Rightarrow> (string \<Rightarrow> 'v option) \<Rightarrow> string \<Rightarrow> associated_data \<Rightarrow> open_error + 'v" where
  "Open cr kr unmarshal token aad = (case split_on CHR ''.'' token of
     [p0, p1, p2] \<Rightarrow> if p0 \<noteq> tokenPrefix then Inl ErrInvalidToken else
       (case map_of (keys kr) p1 of None \<Rightarrow> Inl ErrInvalidToken | Some k \<Rightarrow>
       (case raw_decode alpha_url p2 of None \<Rightarrow> Inl ErrInvalidToken | Some payload \<Rightarrow>
        if length payload \<le> nonceBytes then Inl ErrInvalidToken
        else if \<not> keyAEAD k then Inl CipherError
        else (case aead_open cr (Material k) (take nonceBytes payload) (drop nonceBytes payload) (associatedDataBytes aad) of
          None \<Rightarrow> Inl ErrInvalidToken
        | Some plaintext \<Rightarrow> (case unmarshal plaintext of None \<Rightarrow> Inl ErrInvalidToken | Some v \<Rightarrow> Inr v))))
   | _ \<Rightarrow> Inl ErrInvalidToken)"

text \<open>What AES-GCM guarantees: opening undoes sealing under the same key, nonce and associated data,
  the tag makes every ciphertext nonempty, a ciphertext that opens is the sealing of what it opens
  to, and under one key and nonce the ciphertext determines the plaintext (counter mode).\<close>

definition aead_laws :: "aead \<Rightarrow> bool" where
  "aead_laws cr \<longleftrightarrow> (\<forall>m n p ad. aead_open cr m n (aead_seal cr m n p ad) ad = Some p \<and> aead_seal cr m n p ad \<noteq> []) \<and>
     (\<forall>m n c ad p. aead_open cr m n c ad = Some p \<longrightarrow> c = aead_seal cr m n p ad) \<and>
     (\<forall>m n p ad p' ad'. aead_seal cr m n p ad = aead_seal cr m n p' ad' \<longrightarrow> p = p')"

lemma sealed_shape:
  assumes "Seal cr kr rnd marshal aad v = Inr token"
  shows "\<exists>nonce plain. rnd = Inr nonce \<and> marshal v = Inr plain \<and> keyAEAD (active kr) \<and>
     token = join_on CHR ''.'' [tokenPrefix, ID (active kr), raw_encode alpha_url
       (nonce @ aead_seal cr (Material (active kr)) nonce plain (associatedDataBytes aad))]"
  using assms by (auto simp: Seal_def Let_def sum_bind_Inr split: if_splits)

lemma active_entry: "keyring_ok kr \<Longrightarrow> key_entry_ok (Some (active kr)) (ID (active kr), active kr)"
  by (auto simp: keyring_ok_def dest: map_of_SomeD)

lemma active_id_no_dot: "keyring_ok kr \<Longrightarrow> CHR ''.'' \<notin> set (ID (active kr))"
proof -
  assume "keyring_ok kr"
  then have "\<not> contains_any (ID (active kr)) id_separators"
    by (auto dest!: active_entry simp: key_entry_ok_def)
  then show ?thesis by (auto simp: contains_any_def id_separators_def list_ex_iff)
qed

lemma split_token:
  assumes "keyring_ok kr"
  shows "split_on CHR ''.'' (join_on CHR ''.'' [tokenPrefix, ID (active kr), raw_encode alpha_url b]) =
    [tokenPrefix, ID (active kr), raw_encode alpha_url b]"
  using active_id_no_dot[OF assms] raw_encode_no_dot by (intro split_join) (auto simp: tokenPrefix_def)

text \<open>Opening a sealed token under any associated data is opening its ciphertext.\<close>

lemma Open_sealed:
  assumes ok: "keyring_ok kr" and laws: "aead_laws cr" and len: "length nonce = nonceBytes" and "keyAEAD (active kr)"
    and look: "map_of (keys kr') (ID (active kr)) = Some k'" and mat: "Material k' = Material (active kr)"
  shows "Open cr kr' unmarshal (join_on CHR ''.'' [tokenPrefix, ID (active kr), raw_encode alpha_url
       (nonce @ aead_seal cr (Material (active kr)) nonce plain ad)]) aad =
    (case aead_open cr (Material (active kr)) nonce (aead_seal cr (Material (active kr)) nonce plain ad) (associatedDataBytes aad) of
       None \<Rightarrow> Inl ErrInvalidToken
     | Some p \<Rightarrow> (case unmarshal p of None \<Rightarrow> Inl ErrInvalidToken | Some v \<Rightarrow> Inr v))"
proof -
  have ne: "aead_seal cr (Material (active kr)) nonce plain ad \<noteq> []" using laws by (simp add: aead_laws_def)
  have k: "keyAEAD k'" using assms(4) mat by (simp add: keyAEAD_def)
  show ?thesis
    unfolding Open_def split_token[OF ok] using k mat len ne look
    by (simp add: raw_roundtrip[OF good_alphas(2)])
qed

lemma Seal_Open_rotated:
  assumes "keyring_ok kr" "aead_laws cr" "length nonce = nonceBytes" "unmarshal plain = Some v"
    "marshal v = Inr plain" "Seal cr kr (Inr nonce) marshal aad v = Inr token"
    "map_of (keys kr') (ID (active kr)) = Some k'" "Material k' = Material (active kr)"
  shows "Open cr kr' unmarshal token aad = Inr v"
proof -
  have tok: "token = join_on CHR ''.'' [tokenPrefix, ID (active kr), raw_encode alpha_url
       (nonce @ aead_seal cr (Material (active kr)) nonce plain (associatedDataBytes aad))]" and k: "keyAEAD (active kr)"
    using sealed_shape[OF assms(6)] assms(5) by auto
  show ?thesis unfolding tok Open_sealed[OF assms(1-3) k assms(7,8)] using assms(2,4) by (simp add: aead_laws_def)
qed

lemma Seal_Open:
  assumes "keyring_ok kr" "aead_laws cr" "length nonce = nonceBytes" "unmarshal plain = Some v"
    "marshal v = Inr plain" "Seal cr kr (Inr nonce) marshal aad v = Inr token"
  shows "Open cr kr unmarshal token aad = Inr v"
proof (rule Seal_Open_rotated[where kr = kr and kr' = kr and k' = "active kr" and nonce = nonce and plain = plain and marshal = marshal])
  show "map_of (keys kr) (ID (active kr)) = Some (active kr)" using assms(1) by (simp add: keyring_ok_def)
qed (use assms in auto)

lemma keyring_aead: "keyring_ok kr \<Longrightarrow> keyAEAD (active kr)"
  by (auto dest!: active_entry simp: key_entry_ok_def keyAEAD_def keyBytes_def)

lemma Seal_total: "keyring_ok kr \<Longrightarrow> marshal v = Inr plain \<Longrightarrow> \<exists>t. Seal cr kr (Inr nonce) marshal aad v = Inr t"
  using keyring_aead by (simp add: Seal_def Let_def)

section \<open>PKCE\<close>

definition PKCEChallengeS256 :: "(string \<Rightarrow> string) \<Rightarrow> string \<Rightarrow> string" where
  "PKCEChallengeS256 sha256 verifier = raw_encode alpha_url (sha256 verifier)"

definition verifyPKCES256 :: "(string \<Rightarrow> string) \<Rightarrow> string \<Rightarrow> string \<Rightarrow> bool" where
  "verifyPKCES256 sha256 verifier challenge = (if verifier = '''' \<or> challenge = '''' then False
     else PKCEChallengeS256 sha256 verifier = challenge)"

section \<open>What NewKeyring accepts\<close>

definition valid_key :: "key \<Rightarrow> bool" where
  "valid_key k \<longleftrightarrow> ID k \<noteq> '''' \<and> \<not> contains_any (ID k) id_separators \<and> length (Material k) = keyBytes \<and>
     State k \<in> {KeyStateActive, KeyStateDecryptOnly}"

definition active_keys :: "key list \<Rightarrow> key list" where
  "active_keys ks = filter (\<lambda>k. State k = KeyStateActive) ks"

lemma addKeys_accepts:
  "is_ok (addKeys ks m act) \<longleftrightarrow> (\<forall>k\<in>set ks. valid_key k \<and> map_of m (ID k) = None) \<and> distinct (map ID ks) \<and>
     length (active_keys ks) + (if act = None then 0 else 1) \<le> 1"
proof (induction ks m act rule: addKeys.induct)
  case (2 k ks m act)
  show ?case
  proof (cases "valid_key k \<and> map_of m (ID k) = None")
    case True
    then consider "State k = KeyStateActive" | "State k = KeyStateDecryptOnly" by (auto simp: valid_key_def)
    then show ?thesis
    proof cases
      case 1
      show ?thesis
      proof (cases act)
        case None
        have step: "addKeys (k # ks) m act = addKeys ks (gm_put (ID k) k m) (Some k)"
          using 1 True None by (auto simp: valid_key_def)
        have IH: "is_ok (addKeys ks (gm_put (ID k) k m) (Some k)) \<longleftrightarrow>
            (\<forall>j\<in>set ks. valid_key j \<and> map_of (gm_put (ID k) k m) (ID j) = None) \<and> distinct (map ID ks) \<and>
            length (active_keys ks) + 1 \<le> 1"
          using "2.IH"(1) 1 True None by (simp add: valid_key_def)
        show ?thesis unfolding step IH using 1 True None
          by (simp add: active_keys_def image_iff) metis
      qed (use 1 True in \<open>auto simp: valid_key_def active_keys_def\<close>)
    next
      case 2
      have step: "addKeys (k # ks) m act = addKeys ks (gm_put (ID k) k m) act"
        using 2 True by (auto simp: valid_key_def)
      have IH: "is_ok (addKeys ks (gm_put (ID k) k m) act) \<longleftrightarrow>
          (\<forall>j\<in>set ks. valid_key j \<and> map_of (gm_put (ID k) k m) (ID j) = None) \<and> distinct (map ID ks) \<and>
          length (active_keys ks) + (if act = None then 0 else 1) \<le> 1"
        using "2.IH"(2) 2 True by (simp add: valid_key_def)
      show ?thesis unfolding step IH using 2 True
        by (simp add: active_keys_def image_iff) metis
    qed
  qed (auto simp: valid_key_def)
qed (simp add: active_keys_def)

lemma addKeys_result:
  "addKeys ks m act = Inr (m', act') \<Longrightarrow>
     map_of m' = map_of m ++ map_of (rev (map (\<lambda>k. (ID k, k)) ks)) \<and>
     (act \<noteq> None \<longrightarrow> act' = act) \<and>
     (act = None \<longrightarrow> act' = (case active_keys ks of [] \<Rightarrow> None | a # _ \<Rightarrow> Some a))"
  by (induction ks m act rule: addKeys.induct) (auto simp: active_keys_def map_add_assoc split: if_splits)

lemma keyring_lookup: "NewKeyring ks = Inr kr \<Longrightarrow> k \<in> set ks \<Longrightarrow> map_of (keys kr) (ID k) = Some k"
proof -
  assume h: "NewKeyring ks = Inr kr" and k: "k \<in> set ks"
  then obtain m a where add: "addKeys ks [] None = Inr (m, a)" and m: "keys kr = m"
    by (auto simp: NewKeyring_def sum_bind_Inr split: if_splits option.splits)
  have "distinct (map ID ks)" using addKeys_accepts[of ks "[]" None] add by simp
  then have "distinct (map fst (rev (map (\<lambda>k. (ID k, k)) ks)))" by (simp add: rev_map comp_def distinct_rev flip: rev_map)
  then show ?thesis using addKeys_result[OF add] m k by (auto intro: map_of_is_SomeI)
qed

text \<open>NewKeyring accepts exactly the nonempty lists of valid keys (a nonempty ID without separators,
  32 bytes of material, a known state) with distinct IDs and exactly one active key; that key
  becomes the sealing key and every key of the list is found under its ID.\<close>

theorem keyring_accepts_iff:
  "(is_ok (NewKeyring ks) \<longleftrightarrow> (\<forall>k\<in>set ks. valid_key k) \<and> distinct (map ID ks) \<and> length (active_keys ks) = 1) \<and>
   (\<forall>kr. NewKeyring ks = Inr kr \<longrightarrow> active_keys ks = [active kr] \<and> (\<forall>k\<in>set ks. map_of (keys kr) (ID k) = Some k))"
proof (cases "is_ok (addKeys ks [] None)")
  case True
  then obtain m a where add: "addKeys ks [] None = Inr (m, a)" by (auto simp: is_ok_iff)
  have acc: "\<forall>k\<in>set ks. valid_key k" "distinct (map ID ks)" "length (active_keys ks) \<le> 1"
    using True addKeys_accepts[of ks "[]" None] by auto
  have res: "map_of m = map_of (rev (map (\<lambda>k. (ID k, k)) ks))"
    "a = (case active_keys ks of [] \<Rightarrow> None | a # _ \<Rightarrow> Some a)" using addKeys_result[OF add] by auto
  have "\<forall>kr. NewKeyring ks = Inr kr \<longrightarrow> (\<forall>k\<in>set ks. map_of (keys kr) (ID k) = Some k)"
    using keyring_lookup by blast
  then show ?thesis using acc res(2) add
    by (cases "active_keys ks") (auto simp: NewKeyring_def active_keys_def)
next
  case False
  then have "\<not> ((\<forall>k\<in>set ks. valid_key k) \<and> distinct (map ID ks) \<and> length (active_keys ks) \<le> 1)"
    using addKeys_accepts[of ks "[]" None] by auto
  moreover obtain e where "addKeys ks [] None = Inl e" using False by (cases "addKeys ks [] None") auto
  ultimately show ?thesis by (auto simp: NewKeyring_def)
qed

definition demo_aead :: aead where
  "demo_aead = \<lparr>aead_seal = (\<lambda>m n p ad. CHR ''t'' # (if length ad mod 2 = 0 then CHR ''e'' else CHR ''o'') # p),
     aead_open = (\<lambda>m n c ad. case c of t # x # p \<Rightarrow>
       if t = CHR ''t'' \<and> x = (if length ad mod 2 = 0 then CHR ''e'' else CHR ''o'') then Some p else None | _ \<Rightarrow> None)\<rparr>"

lemma demo_aead_laws: "aead_laws demo_aead"
  by (auto simp: aead_laws_def demo_aead_def split: list.splits if_splits)

definition demo_key :: "string \<Rightarrow> string \<Rightarrow> key" where
  "demo_key i st = \<lparr>ID = i, Material = replicate 32 CHR ''k'', State = st\<rparr>"

definition demo_ring :: "key list \<Rightarrow> keyring" where
  "demo_ring ks = (case NewKeyring ks of Inr kr \<Rightarrow> kr | Inl _ \<Rightarrow> undefined)"

definition demo_aad :: associated_data where
  "demo_aad = \<lparr>Issuer = ''i'', Audience = ''a'', ClientID = ''c'', Type = ''t''\<rparr>"

lemma demo_ring: "is_ok (NewKeyring ks) \<Longrightarrow> NewKeyring ks = Inr (demo_ring ks)"
  by (cases "NewKeyring ks") (simp_all add: demo_ring_def)

theorem keyring_accepts_iff_witness:
  "active_keys [demo_key ''k1'' ''decrypt_only'', demo_key ''k2'' ''active''] = [demo_key ''k2'' ''active'']"
proof -
  define kr where "kr = demo_ring [demo_key ''k1'' ''decrypt_only'', demo_key ''k2'' ''active'']"
  have "NewKeyring [demo_key ''k1'' ''decrypt_only'', demo_key ''k2'' ''active''] = Inr kr"
    unfolding kr_def by (rule demo_ring) code_simp
  then have "active_keys [demo_key ''k1'' ''decrypt_only'', demo_key ''k2'' ''active''] = [active kr]"
    using keyring_accepts_iff[of "[demo_key ''k1'' ''decrypt_only'', demo_key ''k2'' ''active'']"] by blast
  moreover have "active kr = demo_key ''k2'' ''active''" using calculation by (simp add: active_keys_def demo_key_def KeyStateActive_def)
  ultimately show ?thesis by simp
qed

text \<open>C23: A sealed token opens to the sealed claims under the same associated data, also with a later
  keyring in which the sealing key is only kept (as decrypt-only) under its ID.\<close>

theorem envelope_roundtrip:
  assumes "NewKeyring ks = Inr kr" "aead_laws cr" "length nonce = nonceBytes"
    "marshal v = Inr plain" "unmarshal plain = Some v" "Seal cr kr (Inr nonce) marshal aad v = Inr token"
    "NewKeyring ks' = Inr kr'" "k' \<in> set ks'" "ID k' = ID (active kr)" "Material k' = Material (active kr)"
  shows "Open cr kr' unmarshal token aad = Inr v"
proof -
  have "map_of (keys kr') (ID k') = Some k'" by (rule keyring_lookup[OF assms(7,8)])
  show ?thesis
    by (rule Seal_Open_rotated[where kr = kr and k' = k' and nonce = nonce and plain = plain and marshal = marshal])
       (use assms NewKeyring_ok \<open>map_of (keys kr') (ID k') = Some k'\<close> in auto)
qed

theorem envelope_roundtrip_witness:
  "\<exists>token. Seal demo_aead (demo_ring [demo_key ''k1'' ''active'']) (Inr (replicate 12 CHR ''n'')) Inr demo_aad ''hi'' = Inr token \<and>
     Open demo_aead (demo_ring [demo_key ''k1'' ''decrypt_only'', demo_key ''k2'' ''active'']) Some token demo_aad = Inr ''hi''"
proof -
  define kr where "kr = demo_ring [demo_key ''k1'' ''active'']"
  define kr' where "kr' = demo_ring [demo_key ''k1'' ''decrypt_only'', demo_key ''k2'' ''active'']"
  have nk: "NewKeyring [demo_key ''k1'' ''active''] = Inr kr"
    "NewKeyring [demo_key ''k1'' ''decrypt_only'', demo_key ''k2'' ''active''] = Inr kr'"
    unfolding kr_def kr'_def by (rule demo_ring, code_simp)+
  obtain token where t: "Seal demo_aead kr (Inr (replicate 12 CHR ''n'')) Inr demo_aad ''hi'' = Inr token"
    using Seal_total[where kr = kr and marshal = Inr and v = "''hi''", OF NewKeyring_ok[OF nk(1)] refl] by blast
  have "active kr = demo_key ''k1'' ''active''" unfolding kr_def by code_simp
  then have "Open demo_aead kr' Some token demo_aad = Inr ''hi''"
    using envelope_roundtrip[OF nk(1) demo_aead_laws _ _ _ t nk(2), of "''hi''" Some "demo_key ''k1'' ''decrypt_only''"]
    by (simp add: nonceBytes_def demo_key_def)
  then show ?thesis using t unfolding kr_def kr'_def by blast
qed

text \<open>C24: Only sealed tokens open: a token that Open accepts has exactly three dot-separated parts,
  names a key of the keyring, and its ciphertext is the AES-GCM sealing, under that key and the
  very associated data presented, of the claims returned.\<close>

theorem envelope_open_sound:
  assumes "aead_laws cr" "Open cr kr unmarshal token aad = Inr v" "keyring_ok kr"
  shows "\<exists>k p2 nonce plain. split_on CHR ''.'' token = [tokenPrefix, ID k, p2] \<and> map_of (keys kr) (ID k) = Some k \<and>
     length nonce = nonceBytes \<and>
     raw_decode alpha_url p2 = Some (nonce @ aead_seal cr (Material k) nonce plain (associatedDataBytes aad)) \<and>
     unmarshal plain = Some v"
proof -
  obtain p0 p1 p2 where parts: "split_on CHR ''.'' token = [p0, p1, p2]" "p0 = tokenPrefix"
    using assms(2) by (auto simp: Open_def split: list.splits if_splits)
  then obtain k payload plain where k: "map_of (keys kr) p1 = Some k" and pl: "raw_decode alpha_url p2 = Some payload"
    and len: "\<not> length payload \<le> nonceBytes"
    and op: "aead_open cr (Material k) (take nonceBytes payload) (drop nonceBytes payload) (associatedDataBytes aad) = Some plain"
    and un: "unmarshal plain = Some v"
    using assms(2) by (auto simp: Open_def split: option.splits if_splits)
  have "drop nonceBytes payload = aead_seal cr (Material k) (take nonceBytes payload) plain (associatedDataBytes aad)"
    using assms(1) op unfolding aead_laws_def by blast
  then have eq: "payload = take nonceBytes payload @ aead_seal cr (Material k) (take nonceBytes payload) plain (associatedDataBytes aad)"
    by (metis append_take_drop_id)
  have "key_entry_ok (Some (active kr)) (p1, k)" using assms(3) map_of_SomeD[OF k] unfolding keyring_ok_def by blast
  then have "ID k = p1" by (simp add: key_entry_ok_def)
  then show ?thesis using parts k pl un len eq
    by (intro exI[of _ k] exI[of _ p2] exI[of _ "take nonceBytes payload"] exI[of _ plain]) simp
qed

theorem envelope_open_sound_witness:
  "\<exists>(k :: key) p2 nonce plain. split_on CHR ''.'' ''mcp1.k1.bm5ubm5ubm5ubm5udG9oaQ'' = [tokenPrefix, ID k, p2] \<and>
     length nonce = nonceBytes \<and> Some plain = Some ''hi'' \<and>
     raw_decode alpha_url p2 = Some (nonce @ aead_seal demo_aead (Material k) nonce plain (associatedDataBytes demo_aad))"
proof -
  have ok: "keyring_ok (demo_ring [demo_key ''k1'' ''active''])"
    by (rule NewKeyring_ok[OF demo_ring]) code_simp
  have "Open demo_aead (demo_ring [demo_key ''k1'' ''active'']) Some ''mcp1.k1.bm5ubm5ubm5ubm5udG9oaQ'' demo_aad = Inr ''hi''"
    by code_simp
  from envelope_open_sound[OF demo_aead_laws this ok] show ?thesis by blast
qed

end
