(* ===== verification/OAuth_Stores.thy ===== *)
theory OAuth_Stores
  imports Confirm_Store
begin

text \<open>
  The three in-memory stores of internal/oauth: CodeStore (code_store.go) of outstanding
  authorization codes, AssertionReplayStore (private_key_jwt.go) of client assertion identifiers
  and RequestRateLimiter (authorization_server.go). Times are nanoseconds since Go's zero time, so
  IsZero is \<open>t = 0\<close>. Methods that read the clock twice take both readings.
\<close>

section \<open>CodeStore\<close>

datatype code_error = ErrCodeIDRequired | ErrCodeExpiryPast | ErrCodeStoreFull | ErrCodeExists | ErrCodeAlreadyUsed

record code_store =
  code_max :: int
  code_entries :: "(string, go_time) go_map"

definition NewCodeStore :: "int \<Rightarrow> code_store" where
  "NewCodeStore maxEntries = \<lparr>code_max = (if maxEntries \<le> 0 then 1024 else maxEntries), code_entries = []\<rparr>"

definition purgeExpiredLocked :: "go_time \<Rightarrow> code_store \<Rightarrow> code_store" where
  "purgeExpiredLocked now s = s\<lparr>code_entries := gm_keep (\<lambda>expiresAt. expiresAt > now) (code_entries s)\<rparr>"

definition code_Store :: "go_time \<Rightarrow> go_time \<Rightarrow> string \<Rightarrow> go_time \<Rightarrow> code_store \<Rightarrow> (code_error + unit) \<times> code_store" where
  "code_Store now1 now2 cid expires s = (let s = purgeExpiredLocked now1 s in
     if cid = '''' then (Inl ErrCodeIDRequired, s)
     else if \<not> expires > now2 then (Inl ErrCodeExpiryPast, s)
     else if int (length (code_entries s)) \<ge> code_max s then (Inl ErrCodeStoreFull, s)
     else if map_of (code_entries s) cid \<noteq> None then (Inl ErrCodeExists, s)
     else (Inr (), s\<lparr>code_entries := gm_put cid expires (code_entries s)\<rparr>))"

definition code_Consume :: "go_time \<Rightarrow> go_time \<Rightarrow> string \<Rightarrow> code_store \<Rightarrow> (code_error + unit) \<times> code_store" where
  "code_Consume now1 now2 cid s = (let s = purgeExpiredLocked now1 s in
     case map_of (code_entries s) cid of None \<Rightarrow> (Inl ErrCodeAlreadyUsed, s)
     | Some expires \<Rightarrow> if \<not> expires > now2 then (Inl ErrCodeAlreadyUsed, s)
       else (Inr (), s\<lparr>code_entries := gm_del cid (code_entries s)\<rparr>))"

lemma purge_fields [simp]: "code_max (purgeExpiredLocked now s) = code_max s"
  "code_entries (purgeExpiredLocked now s) = gm_keep (\<lambda>e. e > now) (code_entries s)"
  by (simp_all add: purgeExpiredLocked_def)

definition code_issue :: "(go_time \<times> go_time \<times> string \<times> go_time) \<Rightarrow> code_store \<Rightarrow> string option \<times> code_store" where
  "code_issue i s = (case i of (now1, now2, cid, expires) \<Rightarrow>
     (case code_Store now1 now2 cid expires s of (r, s') \<Rightarrow> (if is_ok r then Some cid else None, s')))"

definition code_redeem :: "(go_time \<times> go_time \<times> string) \<Rightarrow> code_store \<Rightarrow> bool \<times> code_store" where
  "code_redeem c s = (case c of (now1, now2, cid) \<Rightarrow>
     (case code_Consume now1 now2 cid s of (r, s') \<Rightarrow> (is_ok r, s')))"

definition code_inv :: "int \<Rightarrow> code_store \<Rightarrow> bool" where
  "code_inv n s \<longleftrightarrow> code_max s = n \<and> gm_wf (code_entries s)"

lemmas code_store_defs = code_issue_def code_redeem_def code_Store_def code_Consume_def code_inv_def Let_def

lemma code_issue_size:
  assumes "code_inv n s" "length (code_entries s) \<le> nat n"
  shows "length (code_entries (snd (code_issue i s))) \<le> nat n"
proof -
  obtain now1 now2 cid ex where i: "i = (now1, now2, cid, ex)" by (metis prod_cases4)
  define kept where "kept = gm_keep (\<lambda>e. e > now1) (code_entries s)"
  have "length kept \<le> nat n" using assms(2) length_gm_keep_le unfolding kept_def by (meson order.trans)
  moreover have "length (gm_put cid ex kept) \<le> Suc (length kept)" by (rule length_gm_put_le)
  ultimately show ?thesis using assms(1) i by (auto simp: code_store_defs kept_def)
qed

lemma code_redeem_size: "length (code_entries (snd (code_redeem c s))) \<le> length (code_entries s)"
  by (auto simp: code_store_defs split: prod.splits option.splits intro: order.trans[OF length_gm_del_le])

interpretation codes: bounded_store "code_inv n" "\<lambda>s. map_of (code_entries s)" code_issue code_redeem
    "\<lambda>c. snd (snd c)" "\<lambda>i. snd (snd (snd i))" "\<lambda>c e. fst (snd c) < e"
    "\<lambda>s. length (code_entries s)" "nat n" for n
proof unfold_locales
  fix s and i assume "code_inv n s" "length (code_entries s) \<le> nat n"
  then show "length (code_entries (snd (code_issue i s))) \<le> nat n" by (rule code_issue_size)
next
  fix s and c assume "code_inv n s" "length (code_entries s) \<le> nat n"
  then show "length (code_entries (snd (code_redeem c s))) \<le> nat n"
    using code_redeem_size order.trans by blast
qed (auto simp: code_store_defs split: prod.splits option.splits if_splits)

lemma NewCodeStore_inv: "code_inv (code_max (NewCodeStore m)) (NewCodeStore m)"
  "code_entries (NewCodeStore m) = []" "0 < code_max (NewCodeStore m)"
  by (simp_all add: code_inv_def NewCodeStore_def)

section \<open>AssertionReplayStore\<close>

record replay_store =
  rp_entries :: "(string, go_time) go_map"
  rp_max :: int

definition NewAssertionReplayStore :: "int \<Rightarrow> replay_store" where
  "NewAssertionReplayStore m = \<lparr>rp_entries = [], rp_max = m\<rparr>"

text \<open>None is the nil store; the result is whether the assertion identifier was accepted.\<close>

definition Use :: "go_time \<Rightarrow> go_time \<Rightarrow> string \<Rightarrow> go_time \<Rightarrow> replay_store option \<Rightarrow> bool \<times> replay_store option" where
  "Use now1 now2 aid expires st = (case st of None \<Rightarrow> (False, None) | Some s \<Rightarrow>
     if aid = '''' \<or> \<not> expires > now1 then (False, Some s)
     else (let s = s\<lparr>rp_entries := gm_keep (\<lambda>expiry. expiry > now2) (rp_entries s)\<rparr> in
       if map_of (rp_entries s) aid \<noteq> None \<or> rp_max s \<le> 0 \<or> int (length (rp_entries s)) \<ge> rp_max s
       then (False, Some s)
       else (True, Some (s\<lparr>rp_entries := gm_put aid expires (rp_entries s)\<rparr>))))"

fun run_replay :: "(go_time \<times> go_time \<times> string \<times> go_time) list \<Rightarrow> replay_store option \<Rightarrow> bool list \<times> replay_store option" where
  "run_replay [] s = ([], s)"
| "run_replay ((now1, now2, aid, ex) # us) s =
    (let (b, s1) = Use now1 now2 aid ex s; (bs, s2) = run_replay us s1 in (b # bs, s2))"

definition replay_ok :: "replay_store option \<Rightarrow> bool" where
  "replay_ok st = (case st of None \<Rightarrow> True | Some s \<Rightarrow> gm_wf (rp_entries s))"

definition remembers :: "string \<Rightarrow> go_time \<Rightarrow> replay_store option \<Rightarrow> bool" where
  "remembers aid expiry st = (case st of None \<Rightarrow> False | Some s \<Rightarrow> map_of (rp_entries s) aid = Some expiry)"

lemma Use_ok [inv_intros]: "replay_ok st \<Longrightarrow> replay_ok (snd (Use now1 now2 aid ex st))"
  by (auto simp: Use_def replay_ok_def Let_def split: option.splits)

lemma Use_remembers:
  "replay_ok st \<Longrightarrow> Use now1 now2 aid ex st = (True, st') \<Longrightarrow> remembers aid ex st'"
  by (auto simp: Use_def remembers_def Let_def split: option.splits if_splits)

lemma Use_keeps:
  "replay_ok st \<Longrightarrow> remembers aid expiry st \<Longrightarrow> now2 < expiry \<Longrightarrow>
    remembers aid expiry (snd (Use now1 now2 aid' ex st)) \<and>
    \<not> fst (Use now1 now2 aid ex st)"
  by (auto simp: Use_def remembers_def replay_ok_def Let_def split: option.splits if_splits)

lemma run_replay_blocks:
  assumes "replay_ok st" "remembers aid expiry st" "k < length us"
    "\<forall>j\<le>k. fst (snd (us ! j)) < expiry" "fst (snd (snd (us ! k))) = aid"
  shows "\<not> fst (run_replay us st) ! k"
  using assms
proof (induction us arbitrary: st k)
  case (Cons u us)
  obtain n1 n2 a x where u: "u = (n1, n2, a, x)" by (metis prod_cases4)
  have t: "n2 < expiry" using Cons.prems(4) u by force
  obtain b st1 where st1: "Use n1 n2 a x st = (b, st1)" by fastforce
  have r: "run_replay (u # us) st = (b # fst (run_replay us st1), snd (run_replay us st1))"
    using u st1 by (simp add: Let_def split: prod.splits)
  show ?case
  proof (cases k)
    case 0
    then have "a = aid" using Cons.prems(5) u by simp
    then have "\<not> b" using Use_keeps[OF Cons.prems(1,2) t, of n1 aid x] st1 by simp
    then show ?thesis using r 0 by simp
  next
    case (Suc k')
    have ok1: "replay_ok st1" using Use_ok[OF Cons.prems(1), of n1 n2 a x] st1 by simp
    have mem1: "remembers aid expiry st1" using Use_keeps[OF Cons.prems(1,2) t, of n1 a x] st1 by simp
    have "\<forall>j\<le>k'. fst (snd (us ! j)) < expiry" using Cons.prems(4) Suc
      by (metis Suc_le_mono nth_Cons_Suc)
    then have "\<not> fst (run_replay us st1) ! k'"
      using Cons.IH[OF ok1 mem1, of k'] Cons.prems(3,5) Suc by simp
    then show ?thesis using r Suc by simp
  qed
qed simp

lemma run_replay_append:
  "run_replay (us @ vs) st = (fst (run_replay us st) @ fst (run_replay vs (snd (run_replay us st))),
     snd (run_replay vs (snd (run_replay us st))))"
  by (induction us arbitrary: st) (auto simp: Let_def split: prod.splits)

lemma run_replay_ok: "replay_ok st \<Longrightarrow> replay_ok (snd (run_replay us st))"
proof (induction us arbitrary: st)
  case (Cons u us)
  obtain n1 n2 a x where u: "u = (n1, n2, a, x)" by (metis prod_cases4)
  show ?case using Cons.IH[OF Use_ok[OF Cons.prems, of n1 n2 a x]] u
    by (simp add: Let_def case_prod_beta)
qed simp

lemma run_replay_length: "length (fst (run_replay us st)) = length us"
proof (induction us arbitrary: st)
  case (Cons u us)
  show ?case using Cons by (cases u rule: prod_cases4) (simp add: Let_def case_prod_beta)
qed simp

section \<open>RequestRateLimiter\<close>

record rate_entry =
  started :: go_time
  hits :: int

record rate_limiter =
  rl_entries :: "(string, rate_entry) go_map"
  rl_limit :: int
  rl_window :: duration

definition defaultRateLimit :: int where "defaultRateLimit = 10"

definition NewRequestRateLimiter :: "int \<Rightarrow> duration \<Rightarrow> rate_limiter" where
  "NewRequestRateLimiter lim win = \<lparr>rl_entries = [], rl_limit = (if lim \<le> 0 then defaultRateLimit else lim),
     rl_window = (if win \<le> 0 then 60 * 1000000000 else win)\<rparr>"

definition Allow :: "go_time \<Rightarrow> string \<Rightarrow> rate_limiter option \<Rightarrow> bool \<times> rate_limiter option" where
  "Allow now key lim = (case lim of None \<Rightarrow> (True, None) | Some l \<Rightarrow>
     (let es = gm_keep (\<lambda>e. \<not> now - started e \<ge> rl_window l) (rl_entries l);
          e = (case map_of es key of None \<Rightarrow> \<lparr>started = 0, hits = 0\<rparr> | Some e \<Rightarrow> e)
      in if started e = 0 \<and> length es \<ge> 1024 then (False, Some (l\<lparr>rl_entries := es\<rparr>))
         else (let e = (if started e = 0 \<or> now - started e \<ge> rl_window l then \<lparr>started = now, hits = 0\<rparr> else e);
                   e = e\<lparr>hits := hits e + 1\<rparr>
               in (hits e \<le> rl_limit l, Some (l\<lparr>rl_entries := gm_put key e es\<rparr>)))))"

fun run_limiter :: "(go_time \<times> string) list \<Rightarrow> rate_limiter option \<Rightarrow> bool list \<times> rate_limiter option" where
  "run_limiter [] l = ([], l)"
| "run_limiter ((now, key) # rs) l = (let (b, l1) = Allow now key l; (bs, l2) = run_limiter rs l1 in (b # bs, l2))"

definition granted :: "string \<Rightarrow> (go_time \<times> string) list \<Rightarrow> bool list \<Rightarrow> nat" where
  "granted key rs bs = length (filter (\<lambda>x. fst x \<and> snd (snd x) = key) (zip bs rs))"

definition rate_ok :: "rate_limiter \<Rightarrow> bool" where
  "rate_ok l \<longleftrightarrow> gm_wf (rl_entries l) \<and> length (rl_entries l) \<le> 1024 \<and> 0 < rl_limit l \<and> 0 < rl_window l \<and>
     (\<forall>e\<in>set (rl_entries l). 0 < hits (snd e) \<and> started (snd e) \<noteq> 0)"

text \<open>How many more requests for the key can be granted in a window that starts at t0.\<close>

definition budget :: "go_time \<Rightarrow> string \<Rightarrow> rate_limiter \<Rightarrow> int" where
  "budget t0 key l = (case map_of (rl_entries l) key of None \<Rightarrow> rl_limit l
     | Some e \<Rightarrow> (if started e \<ge> t0 then 0 else rl_limit l) + max 0 (rl_limit l - hits e))"

lemma rate_ok_new: "rate_ok (NewRequestRateLimiter lim win)"
  by (simp add: rate_ok_def NewRequestRateLimiter_def defaultRateLimit_def)

lemma Allow_step:
  assumes ok: "rate_ok l" and now: "0 < t0" "t0 \<le> now" "now < t0 + rl_window l"
    and st: "Allow now key' (Some l) = (b, r)"
  shows "\<exists>l'. r = Some l' \<and> rate_ok l' \<and> rl_limit l' = rl_limit l \<and> rl_window l' = rl_window l \<and>
    budget t0 key l' + (if b \<and> key' = key then 1 else 0) \<le> budget t0 key l"
proof -
  define es where "es = gm_keep (\<lambda>e. \<not> now - started e \<ge> rl_window l) (rl_entries l)"
  have wf: "gm_wf es" using ok by (simp add: es_def rate_ok_def)
  have len: "length es \<le> 1024" using ok length_gm_keep_le unfolding es_def rate_ok_def by (meson order.trans)
  have look: "map_of es k = (case map_of (rl_entries l) k of None \<Rightarrow> None
      | Some e \<Rightarrow> if now - started e \<ge> rl_window l then None else Some e)" for k
    using ok by (cases "map_of (rl_entries l) k") (auto simp: es_def rate_ok_def)
  have pos: "0 < hits e \<and> started e \<noteq> 0" if "map_of (rl_entries l) k = Some e" for k e
    using ok map_of_SomeD[OF that] by (fastforce simp: rate_ok_def)
  have all: "\<forall>e\<in>set es. 0 < hits (snd e) \<and> started (snd e) \<noteq> 0" using ok by (simp add: es_def rate_ok_def)
  have lim: "0 < rl_limit l" "0 < rl_window l" using ok by (simp_all add: rate_ok_def)
  have put: "length (gm_put key' e es) \<le> 1024"
    if "map_of es key' \<noteq> None \<or> length es < 1024" for e
  proof (cases "map_of es key'")
    case None
    then show ?thesis using that length_gm_put_le[of key' e es] by simp
  next
    case (Some v)
    then have "(key', v) \<in> set es" by (rule map_of_SomeD)
    then have "length (gm_del key' es) < length es" by (auto simp: gm_del_def intro: length_filter_less)
    then show ?thesis using len by (simp add: gm_put_def)
  qed
  have keep: "budget t0 key (l\<lparr>rl_entries := es\<rparr>) \<le> budget t0 key l"
    using look[of key] now lim by (auto simp: budget_def split: option.splits if_splits)
  have keep_ok: "rate_ok (l\<lparr>rl_entries := es\<rparr>)" using ok wf len all by (simp add: rate_ok_def)
  have put_ok: "rate_ok (l\<lparr>rl_entries := gm_put key' e es\<rparr>)"
    if "map_of es key' \<noteq> None \<or> length es < 1024" "0 < hits e" "started e \<noteq> 0" for e
    using ok wf all put[OF that(1)] that(2,3) by (simp add: rate_ok_def)
  have put_other: "budget t0 key (l\<lparr>rl_entries := gm_put key' e es\<rparr>) = budget t0 key (l\<lparr>rl_entries := es\<rparr>)"
    if "key' \<noteq> key" for e using that by (auto simp: budget_def split: option.splits)
  show ?thesis
  proof (cases "map_of es key'")
    case None
    have eq: "Allow now key' (Some l) = (if length es \<ge> 1024 then (False, Some (l\<lparr>rl_entries := es\<rparr>))
        else (1 \<le> rl_limit l, Some (l\<lparr>rl_entries := gm_put key' \<lparr>started = now, hits = 1\<rparr> es\<rparr>)))"
      using None by (simp add: Allow_def es_def[symmetric] Let_def)
    show ?thesis
    proof (cases "length es \<ge> 1024")
      case True
      then show ?thesis using eq st keep keep_ok by auto
    next
      case False
      have "budget t0 key (l\<lparr>rl_entries := gm_put key' \<lparr>started = now, hits = 1\<rparr> es\<rparr>) + 1 \<le> budget t0 key l"
        if "key' = key" using that keep None lim now by (simp add: budget_def)
      then show ?thesis using eq st False keep put_other put_ok[of "\<lparr>started = now, hits = 1\<rparr>"] now lim by auto
    qed
  next
    case (Some e)
    then have e: "map_of (rl_entries l) key' = Some e" "\<not> now - started e \<ge> rl_window l"
      using look[of key'] by (auto split: option.splits if_splits)
    have p: "0 < hits e" "started e \<noteq> 0" using pos[OF e(1)] by auto
    have eq: "Allow now key' (Some l) =
        (hits e + 1 \<le> rl_limit l, Some (l\<lparr>rl_entries := gm_put key' (e\<lparr>hits := hits e + 1\<rparr>) es\<rparr>))"
      using Some e(2) p by (simp add: Allow_def es_def[symmetric] Let_def)
    have "budget t0 key (l\<lparr>rl_entries := gm_put key' (e\<lparr>hits := hits e + 1\<rparr>) es\<rparr>) +
        (if hits e + 1 \<le> rl_limit l then 1 else 0) \<le> budget t0 key l"
      if "key' = key" using that e(1) by (simp add: budget_def)
    then show ?thesis using eq st keep put_other put_ok[of "e\<lparr>hits := hits e + 1\<rparr>"] Some p
      by (cases "key' = key") auto
  qed
qed

lemma granted_Cons: "granted key ((now, k) # rs) (b # bs) = (if b \<and> k = key then 1 else 0) + granted key rs bs"
  by (simp add: granted_def)

lemma granted_le_budget:
  "rate_ok l \<Longrightarrow> 0 < t0 \<Longrightarrow> \<forall>r\<in>set rs. t0 \<le> fst r \<and> fst r < t0 + rl_window l \<Longrightarrow>
    int (granted key rs (fst (run_limiter rs (Some l)))) \<le> budget t0 key l"
proof (induction rs arbitrary: l)
  case Nil
  then show ?case by (auto simp: granted_def budget_def rate_ok_def split: option.splits)
next
  case (Cons r rs)
  obtain now k where r: "r = (now, k)" by fastforce
  obtain b l1 where a: "Allow now k (Some l) = (b, l1)" by fastforce
  from Allow_step[OF Cons.prems(1,2) _ _ a, of key] Cons.prems(3) r obtain l' where
    l': "l1 = Some l'" "rate_ok l'" "rl_limit l' = rl_limit l" "rl_window l' = rl_window l"
    "budget t0 key l' + (if b \<and> k = key then 1 else 0) \<le> budget t0 key l" by auto
  have "int (granted key rs (fst (run_limiter rs (Some l')))) \<le> budget t0 key l'"
    using Cons.IH[OF l'(2) Cons.prems(2)] Cons.prems(3) l'(4) by simp
  then show ?case using r a l' by (auto simp: Let_def case_prod_beta granted_Cons split: if_splits)
qed

lemma budget_le: "rate_ok l \<Longrightarrow> budget t0 key l \<le> 2 * rl_limit l"
  by (auto simp: budget_def rate_ok_def dest!: map_of_SomeD split: option.splits)

section \<open>Properties of the OAuth stores\<close>

text \<open>An authorization code identifier is redeemed at most as often as it was stored, over any
  sequence of Store and Consume calls and clock readings; the store never exceeds its bound.\<close>

theorem code_store_single_use:
  "count_list (fst (run_store code_issue code_redeem (\<lambda>c. snd (snd c)) ops (NewCodeStore m))) (Consumed t)
     \<le> count_list (fst (run_store code_issue code_redeem (\<lambda>c. snd (snd c)) ops (NewCodeStore m))) (Issued t) \<and>
   int (length (code_entries (snd (run_store code_issue code_redeem (\<lambda>c. snd (snd c)) ops (NewCodeStore m)))))
     \<le> code_max (NewCodeStore m)"
proof -
  have "length (code_entries (snd (run_store code_issue code_redeem (\<lambda>c. snd (snd c)) ops (NewCodeStore m))))
      \<le> nat (code_max (NewCodeStore m))"
    using codes.run_bounded[OF NewCodeStore_inv(1), of m ops] NewCodeStore_inv(2) by simp
  then show ?thesis
    using codes.consumed_le_issued[OF NewCodeStore_inv(1), of m t ops] NewCodeStore_inv(2)[of m]
      NewCodeStore_inv(3)[of m] by simp
qed

text \<open>Once a client assertion identifier has been accepted, every later use of it is rejected until
  its expiry has passed, whatever other assertions arrive in between.\<close>

theorem replay_store_rejects_reuse:
  assumes "j < k" "k < length us" "fst (run_replay us (Some (NewAssertionReplayStore m))) ! j"
    and "us ! j = (a1, a2, aid, expiry)" "us ! k = (b1, b2, aid, expiry')"
    and "\<forall>i. j < i \<and> i \<le> k \<longrightarrow> fst (snd (us ! i)) < expiry"
  shows "\<not> fst (run_replay us (Some (NewAssertionReplayStore m))) ! k"
proof -
  define s0 where "s0 = Some (NewAssertionReplayStore m)"
  have ok0: "replay_ok s0" by (simp add: replay_ok_def s0_def NewAssertionReplayStore_def)
  define pre where "pre = take j us"
  define post where "post = drop (Suc j) us"
  have us: "us = pre @ (a1, a2, aid, expiry) # post" and lp: "length pre = j"
    using assms(1,2,4) id_take_nth_drop[of j us] by (auto simp: pre_def post_def)
  define s1 where "s1 = snd (run_replay pre s0)"
  have ok1: "replay_ok s1" using run_replay_ok[OF ok0] by (simp add: s1_def)
  obtain b s2 where use: "Use a1 a2 aid expiry s1 = (b, s2)" by fastforce
  have out: "fst (run_replay us s0) = fst (run_replay pre s0) @ b # fst (run_replay post s2)"
    using us use by (simp add: run_replay_append s1_def[symmetric] Let_def case_prod_beta)
  have "b" using assms(3) out lp run_replay_length[of pre s0] by (simp add: s0_def[symmetric] nth_append)
  then have mem: "remembers aid expiry s2" and ok2: "replay_ok s2"
    using Use_remembers[OF ok1] Use_ok[OF ok1, of a1 a2 aid expiry] use by auto
  have nth: "post ! i = us ! (Suc j + i)" if "Suc j + i < length us" for i
    using that by (simp add: post_def)
  have "\<not> fst (run_replay post s2) ! (k - Suc j)"
  proof (rule run_replay_blocks[OF ok2 mem])
    show "k - Suc j < length post" using assms(1,2) by (simp add: post_def)
    show "\<forall>i\<le>k - Suc j. fst (snd (post ! i)) < expiry" using nth assms(1,2,6) by fastforce
    show "fst (snd (snd (post ! (k - Suc j)))) = aid" using nth[of "k - Suc j"] assms(1,2,5) by simp
  qed
  then show ?thesis using out lp run_replay_length[of pre s0] assms(1)
    by (simp add: s0_def[symmetric] nth_append nth_Cons' Suc_diff_Suc)
qed

theorem replay_store_rejects_reuse_witness:
  "\<not> fst (run_replay [(1, 1, ''x'', 9), (2, 2, ''y'', 5), (8, 8, ''x'', 20)] (Some (NewAssertionReplayStore 7))) ! 2"
proof -
  have *: "fst (run_replay [(1, 1, ''x'', 9), (2, 2, ''y'', 5), (8, 8, ''x'', 20)] (Some (NewAssertionReplayStore 7))) ! 0"
    by code_simp
  show ?thesis
    by (rule replay_store_rejects_reuse[OF _ _ *]) (auto simp: numeral_eq_Suc le_Suc_eq)
qed

text \<open>C22: In any stretch of requests shorter than the window, at most twice the limit are granted for
  one key (the fixed-window bound), and at most the limit when the key has no entry yet.\<close>

theorem rate_limiter_bound:
  assumes "rate_ok l" "0 < t0" "\<forall>r\<in>set rs. t0 \<le> fst r \<and> fst r < t0 + rl_window l"
  shows "int (granted key rs (fst (run_limiter rs (Some l)))) \<le>
    (if map_of (rl_entries l) key = None then rl_limit l else 2 * rl_limit l)"
  using granted_le_budget[OF assms, of key] budget_le[OF assms(1), of t0 key] by (auto simp: budget_def)

theorem rate_limiter_bound_witness:
  "int (granted ''k'' [(5, ''k''), (6, ''k''), (7, ''k'')] (fst (run_limiter [(5, ''k''), (6, ''k''), (7, ''k'')]
     (Some (NewRequestRateLimiter 2 100))))) \<le> 2"
  using rate_limiter_bound[OF rate_ok_new, of 5 "[(5, ''k''), (6, ''k''), (7, ''k'')]" 2 100 "''k''"]
  by (simp add: NewRequestRateLimiter_def)

end
