(* ===== verification/OAuth_Service.thy ===== *)
theory OAuth_Service
  imports OAuth_Envelope OAuth_Stores
begin

text \<open>
  internal/oauth/types.go, service.go and credential_context.go with the credential rules of
  internal/inventree/auth.go: claims and their validation, issuing and exchanging authorization
  codes, refreshing, the access-token verifier. The code store is the only state and is passed
  explicitly; a call's environment carries its clock readings, random nonces and generated ID.
  json.Marshal of the claims and the metadata fetch are fields of the service record.
\<close>

section \<open>Credentials and claims\<close>

definition AuthSchemeToken :: string where "AuthSchemeToken = ''Token''"
definition AuthSchemeBearer :: string where "AuthSchemeBearer = ''Bearer''"
definition AuthSchemeBasic :: string where "AuthSchemeBasic = ''Basic''"

record credential =
  Scheme :: string
  Token :: string

definition Credential_Validate :: "credential \<Rightarrow> bool" where
  "Credential_Validate c = (Scheme c \<in> {AuthSchemeToken, AuthSchemeBearer, AuthSchemeBasic} \<and> Token c \<noteq> '''')"

definition ValidateForEnvelope :: "credential \<Rightarrow> bool" where
  "ValidateForEnvelope c = (Credential_Validate c \<and> Scheme c \<noteq> AuthSchemeBasic)"

definition TokenTypeAccess :: string where "TokenTypeAccess = ''access''"
definition TokenTypeRefresh :: string where "TokenTypeRefresh = ''refresh''"
definition TokenTypeCode :: string where "TokenTypeCode = ''authorization_code''"
definition TokenTypeBootstrapAccess :: string where "TokenTypeBootstrapAccess = ''bootstrap_access''"

lemmas token_type_defs = TokenTypeAccess_def TokenTypeRefresh_def TokenTypeCode_def TokenTypeBootstrapAccess_def

definition minute :: duration where "minute = 60 * 1000000000"
definition DefaultAccessTokenLifetime :: duration where "DefaultAccessTokenLifetime = 15 * minute"
definition DefaultRefreshTokenLifetime :: duration where "DefaultRefreshTokenLifetime = 30 * 24 * 60 * minute"
definition DefaultSessionLifetime :: duration where "DefaultSessionLifetime = 90 * 24 * 60 * minute"
definition DefaultCodeLifetime :: duration where "DefaultCodeLifetime = 5 * minute"

definition defaultDuration :: "duration \<Rightarrow> duration \<Rightarrow> duration" where
  "defaultDuration v fallback = (if v = 0 then fallback else v)"

record token_claims =
  tc_Type :: string
  tc_Issuer :: string
  tc_Audience :: string
  tc_Subject :: string
  tc_ClientID :: string
  tc_Scopes :: "string list"
  tc_IssuedAt :: go_time
  tc_ExpiresAt :: go_time
  tc_SessionExpiresAt :: go_time
  tc_Credential :: credential
  tc_CredentialSource :: string

definition TokenClaims_validateForUse :: "token_claims \<Rightarrow> go_time \<Rightarrow> string \<Rightarrow> associated_data \<Rightarrow> bool" where
  "TokenClaims_validateForUse c now expectedType aad =
    (if expectedType \<noteq> '''' \<and> tc_Type c \<noteq> expectedType then False
     else if tc_Issuer c \<noteq> Issuer aad \<or> tc_Audience c \<noteq> Audience aad \<or> tc_ClientID c \<noteq> ClientID aad then False
     else if tc_Subject c = '''' \<or> tc_IssuedAt c = 0 \<or> tc_IssuedAt c > now then False
     else if \<not> tc_ExpiresAt c > now then False
     else if \<not> tc_ExpiresAt c > tc_IssuedAt c then False
     else if tc_SessionExpiresAt c = 0 \<or> \<not> tc_SessionExpiresAt c > now \<or> tc_ExpiresAt c > tc_SessionExpiresAt c then False
     else ValidateForEnvelope (tc_Credential c))"

record code_claims =
  cc_Type :: string
  cc_CodeID :: string
  cc_Issuer :: string
  cc_Audience :: string
  cc_Subject :: string
  cc_ClientID :: string
  cc_RedirectURI :: string
  cc_PKCEChallenge :: string
  cc_PKCEChallengeMethod :: string
  cc_Scopes :: "string list"
  cc_IssuedAt :: go_time
  cc_ExpiresAt :: go_time
  cc_Credential :: credential
  cc_CredentialSource :: string

definition CodeClaims_validateForUse :: "(string \<Rightarrow> string) \<Rightarrow> code_claims \<Rightarrow> go_time \<Rightarrow> associated_data \<Rightarrow> string \<Rightarrow> string \<Rightarrow> bool" where
  "CodeClaims_validateForUse sha256 c now aad redirectURI pkceVerifier =
    (if cc_Type c \<noteq> TokenTypeCode then False
     else if cc_Issuer c \<noteq> Issuer aad \<or> cc_Audience c \<noteq> Audience aad \<or> cc_ClientID c \<noteq> ClientID aad then False
     else if cc_RedirectURI c \<noteq> redirectURI then False
     else if cc_CodeID c = '''' \<or> cc_PKCEChallenge c = '''' \<or> cc_PKCEChallengeMethod c \<noteq> ''S256'' then False
     else if \<not> verifyPKCES256 sha256 pkceVerifier (cc_PKCEChallenge c) then False
     else if \<not> cc_ExpiresAt c > now then False
     else ValidateForEnvelope (cc_Credential c))"

section \<open>The service\<close>

record service =
  sv_aead :: aead
  sv_keyring :: keyring
  sv_sha256 :: "string \<Rightarrow> string"
  sv_marshal_code :: "code_claims \<Rightarrow> string + string"
  sv_unmarshal_code :: "string \<Rightarrow> code_claims option"
  sv_marshal_token :: "token_claims \<Rightarrow> string + string"
  sv_unmarshal_token :: "string \<Rightarrow> token_claims option"
  sv_FetchAndValidate :: "string \<Rightarrow> string \<Rightarrow> string option"
  sv_CredentialValidator :: "(credential \<Rightarrow> string option) option"
  AccessLifetime :: duration
  RefreshLifetime :: duration
  SessionLifetime :: duration
  CodeLifetime :: duration

record call_env =
  now1 :: go_time
  store_now1 :: go_time
  store_now2 :: go_time
  now2 :: go_time
  now3 :: go_time
  new_id :: "string + string"
  nonce1 :: "string + string"
  nonce2 :: "string + string"

record authorization_request =
  ar_Issuer :: string
  ar_Audience :: string
  ar_Subject :: string
  ar_ClientID :: string
  ar_RedirectURI :: string
  ar_PKCEChallenge :: string
  ar_Scopes :: "string list"
  ar_Credential :: credential
  ar_CredentialSource :: string

record token_pair =
  AccessToken :: string
  RefreshToken :: string
  Scopes :: "string list"
  AccessExpiresAt :: go_time
  RefreshExpiresAt :: go_time
  SessionExpiresAt :: go_time
  CredentialSource :: string

datatype oauth_error = ErrRequestIncomplete | ErrCredential | ErrMetadata string | ErrCodeStoreRequired
  | ErrID string | ErrSeal string | ErrStore code_error | ErrInvalidCode | ErrInvalidOAuthToken | ErrValidator string

definition code_claims_for :: "service \<Rightarrow> authorization_request \<Rightarrow> string \<Rightarrow> go_time \<Rightarrow> code_claims" where
  "code_claims_for sv req codeID now = \<lparr>cc_Type = TokenTypeCode, cc_CodeID = codeID, cc_Issuer = ar_Issuer req,
     cc_Audience = ar_Audience req, cc_Subject = ar_Subject req, cc_ClientID = ar_ClientID req,
     cc_RedirectURI = ar_RedirectURI req, cc_PKCEChallenge = ar_PKCEChallenge req, cc_PKCEChallengeMethod = ''S256'',
     cc_Scopes = ar_Scopes req, cc_IssuedAt = now,
     cc_ExpiresAt = now + defaultDuration (CodeLifetime sv) DefaultCodeLifetime,
     cc_Credential = ar_Credential req, cc_CredentialSource = ar_CredentialSource req\<rparr>"

definition IssueAuthorizationCode :: "service \<Rightarrow> call_env \<Rightarrow> authorization_request \<Rightarrow> code_store option \<Rightarrow>
    (oauth_error + string) \<times> code_store option" where
  "IssueAuthorizationCode sv env req st =
    (if ar_Issuer req = '''' \<or> ar_Audience req = '''' \<or> ar_Subject req = '''' \<or> ar_PKCEChallenge req = ''''
     then (Inl ErrRequestIncomplete, st)
     else if \<not> ValidateForEnvelope (ar_Credential req) then (Inl ErrCredential, st)
     else (case sv_FetchAndValidate sv (ar_ClientID req) (ar_RedirectURI req) of Some e \<Rightarrow> (Inl (ErrMetadata e), st)
     | None \<Rightarrow> (case st of None \<Rightarrow> (Inl ErrCodeStoreRequired, st)
     | Some store \<Rightarrow> (case new_id env of Inl e \<Rightarrow> (Inl (ErrID e), st)
     | Inr codeID \<Rightarrow>
       (let claims = code_claims_for sv req codeID (now1 env);
            aad = \<lparr>Issuer = ar_Issuer req, Audience = ar_Audience req, ClientID = ar_ClientID req, Type = TokenTypeCode\<rparr>
        in (case Seal (sv_aead sv) (sv_keyring sv) (nonce1 env) (sv_marshal_code sv) aad claims of
              Inl e \<Rightarrow> (Inl (ErrSeal e), st)
            | Inr code \<Rightarrow> (case code_Store (store_now1 env) (store_now2 env) codeID (cc_ExpiresAt claims) store of
                (Inl e, store') \<Rightarrow> (Inl (ErrStore e), Some store')
              | (Inr _, store') \<Rightarrow> (Inr code, Some store'))))))))"

definition issuePair :: "service \<Rightarrow> go_time \<Rightarrow> string + string \<Rightarrow> string + string \<Rightarrow> token_claims \<Rightarrow> go_time \<Rightarrow> oauth_error + token_pair" where
  "issuePair sv now nonceA nonceB base sessionExpiresAt =
    (let access = now + defaultDuration (AccessLifetime sv) DefaultAccessTokenLifetime;
         refresh = now + defaultDuration (RefreshLifetime sv) DefaultRefreshTokenLifetime;
         refresh = (if sessionExpiresAt < refresh then sessionExpiresAt else refresh);
         access = (if sessionExpiresAt < access then sessionExpiresAt else access);
         accessClaims = base\<lparr>tc_Type := TokenTypeAccess, tc_IssuedAt := now, tc_ExpiresAt := access, tc_SessionExpiresAt := sessionExpiresAt\<rparr>;
         refreshClaims = base\<lparr>tc_Type := TokenTypeRefresh, tc_IssuedAt := now, tc_ExpiresAt := refresh, tc_SessionExpiresAt := sessionExpiresAt\<rparr>;
         aad = (\<lambda>t. \<lparr>Issuer = tc_Issuer base, Audience = tc_Audience base, ClientID = tc_ClientID base, Type = t\<rparr>)
     in (case Seal (sv_aead sv) (sv_keyring sv) nonceA (sv_marshal_token sv) (aad TokenTypeAccess) accessClaims of
           Inl e \<Rightarrow> Inl (ErrSeal e) | Inr accessToken \<Rightarrow>
        (case Seal (sv_aead sv) (sv_keyring sv) nonceB (sv_marshal_token sv) (aad TokenTypeRefresh) refreshClaims of
           Inl e \<Rightarrow> Inl (ErrSeal e) | Inr refreshToken \<Rightarrow>
           Inr \<lparr>AccessToken = accessToken, RefreshToken = refreshToken, Scopes = tc_Scopes base,
                AccessExpiresAt = access, RefreshExpiresAt = refresh, SessionExpiresAt = sessionExpiresAt,
                CredentialSource = tc_CredentialSource base\<rparr>)))"

definition base_of_code :: "code_claims \<Rightarrow> token_claims" where
  "base_of_code c = \<lparr>tc_Type = '''', tc_Issuer = cc_Issuer c, tc_Audience = cc_Audience c, tc_Subject = cc_Subject c,
     tc_ClientID = cc_ClientID c, tc_Scopes = cc_Scopes c, tc_IssuedAt = 0, tc_ExpiresAt = 0, tc_SessionExpiresAt = 0,
     tc_Credential = cc_Credential c, tc_CredentialSource = cc_CredentialSource c\<rparr>"

definition open_code :: "service \<Rightarrow> string \<Rightarrow> associated_data \<Rightarrow> open_error + code_claims" where
  "open_code sv code aad = Open (sv_aead sv) (sv_keyring sv) (sv_unmarshal_code sv) code (aad\<lparr>Type := TokenTypeCode\<rparr>)"

definition ExchangeAuthorizationCode :: "service \<Rightarrow> call_env \<Rightarrow> string \<Rightarrow> associated_data \<Rightarrow> string \<Rightarrow> string \<Rightarrow>
    code_store option \<Rightarrow> (oauth_error + token_pair) \<times> code_store option" where
  "ExchangeAuthorizationCode sv env code aad redirectURI pkceVerifier st =
    (case open_code sv code aad of Inl _ \<Rightarrow> (Inl ErrInvalidCode, st)
     | Inr claims \<Rightarrow>
       if \<not> CodeClaims_validateForUse (sv_sha256 sv) claims (now1 env) aad redirectURI pkceVerifier then (Inl ErrInvalidCode, st)
       else (case st of None \<Rightarrow> (Inl ErrCodeStoreRequired, st) | Some store \<Rightarrow>
        (case code_Consume (store_now1 env) (store_now2 env) (cc_CodeID claims) store of
           (Inl e, store') \<Rightarrow> (Inl (ErrStore e), Some store')
         | (Inr _, store') \<Rightarrow> (issuePair sv (now3 env) (nonce1 env) (nonce2 env) (base_of_code claims)
              (now2 env + defaultDuration (SessionLifetime sv) DefaultSessionLifetime), Some store'))))"

definition Refresh :: "service \<Rightarrow> call_env \<Rightarrow> string \<Rightarrow> associated_data \<Rightarrow> oauth_error + token_pair" where
  "Refresh sv env refreshToken aad =
    (case Open (sv_aead sv) (sv_keyring sv) (sv_unmarshal_token sv) refreshToken (aad\<lparr>Type := TokenTypeRefresh\<rparr>) of
       Inl _ \<Rightarrow> Inl ErrInvalidOAuthToken
     | Inr claims \<Rightarrow>
       if \<not> TokenClaims_validateForUse claims (now1 env) TokenTypeRefresh aad then Inl ErrInvalidOAuthToken
       else (case (case sv_CredentialValidator sv of None \<Rightarrow> None | Some v \<Rightarrow> v (tc_Credential claims)) of
          Some e \<Rightarrow> Inl (ErrValidator e)
        | None \<Rightarrow> issuePair sv (now3 env) (nonce1 env) (nonce2 env)
            (claims\<lparr>tc_Type := '''', tc_IssuedAt := 0, tc_ExpiresAt := 0, tc_SessionExpiresAt := 0\<rparr>) (tc_SessionExpiresAt claims)))"

section \<open>The access-token verifier\<close>

record token_info =
  ti_Scopes :: "string list"
  ti_Expiration :: go_time
  ti_UserID :: string
  ti_credential :: "credential option"

definition TokenInfoWithCredential :: "token_info option \<Rightarrow> credential \<Rightarrow> token_info" where
  "TokenInfoWithCredential ti c = (case ti of
     None \<Rightarrow> \<lparr>ti_Scopes = [], ti_Expiration = 0, ti_UserID = '''', ti_credential = Some c\<rparr>
   | Some t \<Rightarrow> t\<lparr>ti_credential := Some c\<rparr>)"

definition CredentialFromTokenInfo :: "token_info option \<Rightarrow> credential option" where
  "CredentialFromTokenInfo ti = (case ti of None \<Rightarrow> None | Some t \<Rightarrow>
     (case ti_credential t of None \<Rightarrow> None | Some c \<Rightarrow> if ValidateForEnvelope c then Some c else None))"

definition info_of_claims :: "token_claims \<Rightarrow> token_info" where
  "info_of_claims c = TokenInfoWithCredential (Some \<lparr>ti_Scopes = tc_Scopes c, ti_Expiration = tc_ExpiresAt c,
     ti_UserID = tc_Subject c, ti_credential = None\<rparr>) (tc_Credential c)"

fun verify_clients :: "service \<Rightarrow> string \<Rightarrow> string \<Rightarrow> string list \<Rightarrow> go_time \<Rightarrow> string \<Rightarrow> token_info option option" where
  "verify_clients sv iss aud [] now token = None"
| "verify_clients sv iss aud (clientID # rest) now token =
    (let aad = \<lparr>Issuer = iss, Audience = aud, ClientID = clientID, Type = TokenTypeAccess\<rparr> in
     case Open (sv_aead sv) (sv_keyring sv) (sv_unmarshal_token sv) token aad of
       Inl _ \<Rightarrow> verify_clients sv iss aud rest now token
     | Inr claims \<Rightarrow> Some (if TokenClaims_validateForUse claims now TokenTypeAccess aad then Some (info_of_claims claims) else None))"

text \<open>None is auth.ErrInvalidToken.\<close>

definition AccessTokenVerifier :: "service \<Rightarrow> string \<Rightarrow> string \<Rightarrow> string list \<Rightarrow> bool \<Rightarrow> go_time \<Rightarrow> string \<Rightarrow> token_info option" where
  "AccessTokenVerifier sv iss aud clientIDs bootstrapEnabled now token =
    (case verify_clients sv iss aud clientIDs now token of Some r \<Rightarrow> r
     | None \<Rightarrow> if bootstrapEnabled then
         (let aad = \<lparr>Issuer = iss, Audience = aud, ClientID = '''', Type = TokenTypeBootstrapAccess\<rparr> in
          case Open (sv_aead sv) (sv_keyring sv) (sv_unmarshal_token sv) token aad of Inl _ \<Rightarrow> None
          | Inr claims \<Rightarrow> if TokenClaims_validateForUse claims now TokenTypeBootstrapAccess aad
                          then Some (info_of_claims claims) else None)
       else None)"


section \<open>The service as a single-use store\<close>

definition service_inv :: "code_store option \<Rightarrow> bool" where
  "service_inv st = (case st of None \<Rightarrow> True | Some s \<Rightarrow> gm_wf (code_entries s))"

definition service_live :: "code_store option \<Rightarrow> string \<Rightarrow> go_time option" where
  "service_live st = (case st of None \<Rightarrow> Map.empty | Some s \<Rightarrow> map_of (code_entries s))"

definition service_issue :: "service \<Rightarrow> call_env \<times> authorization_request \<Rightarrow> code_store option \<Rightarrow> string option \<times> code_store option" where
  "service_issue sv i st = (case IssueAuthorizationCode sv (fst i) (snd i) st of
     (Inl _, st') \<Rightarrow> (None, st') | (Inr _, st') \<Rightarrow> (case new_id (fst i) of Inl _ \<Rightarrow> None | Inr c \<Rightarrow> Some c, st'))"

record exchange_request =
  ex_env :: call_env
  ex_code :: string
  ex_aad :: associated_data
  ex_redirect :: string
  ex_verifier :: string

definition service_exchange :: "service \<Rightarrow> exchange_request \<Rightarrow> code_store option \<Rightarrow> bool \<times> code_store option" where
  "service_exchange sv x st = (case ExchangeAuthorizationCode sv (ex_env x) (ex_code x) (ex_aad x) (ex_redirect x) (ex_verifier x) st of
     (r, st') \<Rightarrow> (is_ok r, st'))"

definition code_id_of :: "service \<Rightarrow> exchange_request \<Rightarrow> string" where
  "code_id_of sv x = (case open_code sv (ex_code x) (ex_aad x) of Inl _ \<Rightarrow> '''' | Inr c \<Rightarrow> cc_CodeID c)"

definition exchange_matches :: "service \<Rightarrow> exchange_request \<Rightarrow> go_time \<Rightarrow> bool" where
  "exchange_matches sv x e \<longleftrightarrow> store_now2 (ex_env x) < e \<and>
     (\<exists>c. open_code sv (ex_code x) (ex_aad x) = Inr c \<and>
       CodeClaims_validateForUse (sv_sha256 sv) c (now1 (ex_env x)) (ex_aad x) (ex_redirect x) (ex_verifier x))"

lemma Issue_state:
  assumes "IssueAuthorizationCode sv env req st = (r, st')"
  shows "(st' = st \<and> \<not> is_ok r) \<or> (\<exists>store cid store' q. st = Some store \<and> new_id env = Inr cid \<and> st' = Some store' \<and>
     code_Store (store_now1 env) (store_now2 env) cid (now1 env + defaultDuration (CodeLifetime sv) DefaultCodeLifetime) store = (q, store') \<and>
     (is_ok r \<longleftrightarrow> is_ok q))"
  using assms by (auto simp: IssueAuthorizationCode_def Let_def code_claims_for_def split: if_splits option.splits sum.splits prod.splits)

lemma Exchange_state:
  assumes "ExchangeAuthorizationCode sv env code aad ru pv st = (r, st')"
  shows "(st' = st \<and> \<not> is_ok r) \<or> (\<exists>store store' claims q. st = Some store \<and> st' = Some store' \<and>
     open_code sv code aad = Inr claims \<and> CodeClaims_validateForUse (sv_sha256 sv) claims (now1 env) aad ru pv \<and>
     code_Consume (store_now1 env) (store_now2 env) (cc_CodeID claims) store = (q, store') \<and> (is_ok r \<longrightarrow> is_ok q))"
  using assms by (auto simp: ExchangeAuthorizationCode_def split: if_splits option.splits sum.splits prod.splits)

lemma code_Store_laws:
  assumes "gm_wf (code_entries s)" "code_Store n1 n2 cid ex s = (q, s')"
  shows "gm_wf (code_entries s')" "is_ok q \<Longrightarrow> map_of (code_entries s') cid = Some ex"
    "map_of (code_entries s') u = Some e \<Longrightarrow> \<not> (is_ok q \<and> u = cid) \<Longrightarrow> map_of (code_entries s) u = Some e"
  using assms by (auto simp: code_Store_def Let_def split: if_splits)

lemma code_Consume_laws:
  assumes "gm_wf (code_entries s)" "code_Consume n1 n2 cid s = (q, s')"
  shows "gm_wf (code_entries s')" "map_of (code_entries s') u = Some e \<Longrightarrow> map_of (code_entries s) u = Some e"
    "is_ok q \<Longrightarrow> map_of (code_entries s') cid = None \<and> (\<exists>e. map_of (code_entries s) cid = Some e \<and> n2 < e)"
  using assms by (auto simp: code_Consume_def Let_def split: if_splits option.splits)

lemmas service_defs = service_inv_def service_live_def service_issue_def service_exchange_def

lemma service_issue_laws:
  assumes "service_inv st" "service_issue sv i st = (r, st')"
  shows "service_inv st'"
    "r = Some t \<Longrightarrow> service_live st' t = Some (now1 (fst i) + defaultDuration (CodeLifetime sv) DefaultCodeLifetime)"
    "r \<noteq> Some u \<Longrightarrow> service_live st' u = Some e \<Longrightarrow> service_live st u = Some e"
proof -
  obtain q where q: "IssueAuthorizationCode sv (fst i) (snd i) st = (q, st')"
    and r: "r = (if is_ok q then case new_id (fst i) of Inl _ \<Rightarrow> None | Inr c \<Rightarrow> Some c else None)"
    using assms(2) by (auto simp: service_issue_def split: prod.splits sum.splits)
  note st = Issue_state[OF q]
  show "service_inv st'" using st assms(1) code_Store_laws(1) by (auto simp: service_inv_def)
  show "service_live st' t = Some (now1 (fst i) + defaultDuration (CodeLifetime sv) DefaultCodeLifetime)" if "r = Some t"
    using st r that assms(1) code_Store_laws(2) by (auto simp: service_inv_def service_live_def split: if_splits)
  show "service_live st u = Some e" if "r \<noteq> Some u" "service_live st' u = Some e"
    using st r that assms(1) code_Store_laws(3) by (auto simp: service_inv_def service_live_def split: if_splits)
qed

lemma service_exchange_laws:
  assumes "service_inv st" "service_exchange sv x st = (b, st')"
  shows "service_inv st'" "service_live st' u = Some e \<Longrightarrow> service_live st u = Some e"
    "b \<Longrightarrow> service_live st' (code_id_of sv x) = None \<and>
       (\<exists>e. service_live st (code_id_of sv x) = Some e \<and> exchange_matches sv x e)"
proof -
  obtain q where q: "ExchangeAuthorizationCode sv (ex_env x) (ex_code x) (ex_aad x) (ex_redirect x) (ex_verifier x) st = (q, st')"
    and b: "b = is_ok q" using assms(2) by (auto simp: service_exchange_def split: prod.splits)
  note st = Exchange_state[OF q]
  show "service_inv st'" using st assms(1) code_Consume_laws(1) by (auto simp: service_inv_def)
  show "service_live st u = Some e" if "service_live st' u = Some e"
    using st that assms(1) code_Consume_laws(2) by (auto simp: service_inv_def service_live_def)
  show "service_live st' (code_id_of sv x) = None \<and>
       (\<exists>e. service_live st (code_id_of sv x) = Some e \<and> exchange_matches sv x e)" if b
    using st that b assms(1) code_Consume_laws(3)
    by (fastforce simp: service_inv_def service_live_def code_id_of_def exchange_matches_def)
qed

interpretation auth_service: single_use_store service_inv service_live "service_issue sv" "service_exchange sv"
    "code_id_of sv" "\<lambda>i. now1 (fst i) + defaultDuration (CodeLifetime sv) DefaultCodeLifetime" "exchange_matches sv" for sv
  by unfold_locales
     (auto dest: service_issue_laws(1,3) service_issue_laws(2)[OF _ _ refl] service_exchange_laws(1,2)
       service_exchange_laws(3)[OF _ _ TrueI])

section \<open>Token lifetimes\<close>

lemma issuePair_shape:
  assumes "issuePair sv now na nb base session = Inr pair"
  shows "SessionExpiresAt pair = session \<and> AccessExpiresAt pair \<le> session \<and> RefreshExpiresAt pair \<le> session \<and>
    AccessExpiresAt pair \<le> now + defaultDuration (AccessLifetime sv) DefaultAccessTokenLifetime \<and>
    RefreshExpiresAt pair \<le> now + defaultDuration (RefreshLifetime sv) DefaultRefreshTokenLifetime \<and>
    Scopes pair = tc_Scopes base \<and> CredentialSource pair = tc_CredentialSource base \<and>
    Seal (sv_aead sv) (sv_keyring sv) na (sv_marshal_token sv)
      \<lparr>Issuer = tc_Issuer base, Audience = tc_Audience base, ClientID = tc_ClientID base, Type = TokenTypeAccess\<rparr>
      (base\<lparr>tc_Type := TokenTypeAccess, tc_IssuedAt := now, tc_ExpiresAt := AccessExpiresAt pair, tc_SessionExpiresAt := session\<rparr>)
      = Inr (AccessToken pair) \<and>
    Seal (sv_aead sv) (sv_keyring sv) nb (sv_marshal_token sv)
      \<lparr>Issuer = tc_Issuer base, Audience = tc_Audience base, ClientID = tc_ClientID base, Type = TokenTypeRefresh\<rparr>
      (base\<lparr>tc_Type := TokenTypeRefresh, tc_IssuedAt := now, tc_ExpiresAt := RefreshExpiresAt pair, tc_SessionExpiresAt := session\<rparr>)
      = Inr (RefreshToken pair)"
  using assms by (auto simp: issuePair_def Let_def split: sum.splits if_splits)

text \<open>What the service relies on: AES-GCM, JSON round trips of the claims, nonces of 12 bytes.\<close>

definition codec_laws :: "service \<Rightarrow> bool" where
  "codec_laws sv \<longleftrightarrow> keyring_ok (sv_keyring sv) \<and> aead_laws (sv_aead sv) \<and>
     (\<forall>c. \<exists>p. sv_marshal_token sv c = Inr p \<and> sv_unmarshal_token sv p = Some c) \<and>
     (\<forall>c. \<exists>p. sv_marshal_code sv c = Inr p \<and> sv_unmarshal_code sv p = Some c)"

definition nonces_ok :: "call_env \<Rightarrow> bool" where
  "nonces_ok env \<longleftrightarrow> (\<forall>n. nonce1 env = Inr n \<longrightarrow> length n = nonceBytes) \<and> (\<forall>n. nonce2 env = Inr n \<longrightarrow> length n = nonceBytes)"

lemma Open_of_Seal:
  assumes laws: "keyring_ok kr" "aead_laws cr" and rt: "\<exists>p. marshal v = Inr p \<and> unmarshal p = Some v"
    and nonce: "\<forall>n. rnd = Inr n \<longrightarrow> length n = nonceBytes" and seal: "Seal cr kr rnd marshal aad v = Inr token"
  shows "Open cr kr unmarshal token aad = Inr v"
    and "Open cr kr unmarshal token aad' = Inr v' \<Longrightarrow> v' = v"
proof -
  obtain n p where np: "rnd = Inr n" "marshal v = Inr p" "keyAEAD (active kr)"
    and tok: "token = join_on CHR ''.'' [tokenPrefix, ID (active kr), raw_encode alpha_url
       (n @ aead_seal cr (Material (active kr)) n p (associatedDataBytes aad))]"
    using sealed_shape[OF seal] by auto
  have len: "length n = nonceBytes" using nonce np(1) by simp
  have un: "unmarshal p = Some v" using rt np(2) by auto
  have look: "map_of (keys kr) (ID (active kr)) = Some (active kr)" using laws(1) by (simp add: keyring_ok_def)
  have opened: "Open cr kr unmarshal token x =
      (case aead_open cr (Material (active kr)) n (aead_seal cr (Material (active kr)) n p (associatedDataBytes aad)) (associatedDataBytes x) of
         None \<Rightarrow> Inl ErrInvalidToken
       | Some q \<Rightarrow> (case unmarshal q of None \<Rightarrow> Inl ErrInvalidToken | Some w \<Rightarrow> Inr w))" for x
    unfolding tok by (rule Open_sealed[OF laws len np(3) look refl])
  show "Open cr kr unmarshal token aad = Inr v"
    using opened[of aad] laws(2) un by (simp add: aead_laws_def)
  assume "Open cr kr unmarshal token aad' = Inr v'"
  then obtain p' where p': "aead_open cr (Material (active kr)) n
      (aead_seal cr (Material (active kr)) n p (associatedDataBytes aad)) (associatedDataBytes aad') = Some p'" "unmarshal p' = Some v'"
    using opened[of aad'] by (auto split: option.splits)
  then have "aead_seal cr (Material (active kr)) n p (associatedDataBytes aad) =
      aead_seal cr (Material (active kr)) n p' (associatedDataBytes aad')" using laws(2) by (simp add: aead_laws_def)
  then have "p = p'" using laws(2) unfolding aead_laws_def by blast
  then show "v' = v" using p' un by simp
qed

section \<open>Refresh and verification of issued tokens\<close>

lemma Refresh_ok:
  assumes "Refresh sv env tok aad = Inr pair"
  shows "\<exists>c. Open (sv_aead sv) (sv_keyring sv) (sv_unmarshal_token sv) tok (aad\<lparr>Type := TokenTypeRefresh\<rparr>) = Inr c \<and>
    TokenClaims_validateForUse c (now1 env) TokenTypeRefresh aad \<and>
    issuePair sv (now3 env) (nonce1 env) (nonce2 env)
      (c\<lparr>tc_Type := '''', tc_IssuedAt := 0, tc_ExpiresAt := 0, tc_SessionExpiresAt := 0\<rparr>) (tc_SessionExpiresAt c) = Inr pair"
  using assms by (auto simp: Refresh_def split: sum.splits if_splits option.splits)

lemma issued_refresh_opens_only_to_itself:
  assumes "codec_laws sv" "nonces_ok env" "issuePair sv now (nonce1 env) (nonce2 env) base session = Inr pair"
    "Open (sv_aead sv) (sv_keyring sv) (sv_unmarshal_token sv) (RefreshToken pair) aad' = Inr c"
  shows "c = base\<lparr>tc_Type := TokenTypeRefresh, tc_IssuedAt := now, tc_ExpiresAt := RefreshExpiresAt pair, tc_SessionExpiresAt := session\<rparr>"
proof -
  note shape = issuePair_shape[OF assms(3)]
  show ?thesis
  proof (rule Open_of_Seal(2)[where kr = "sv_keyring sv" and cr = "sv_aead sv" and marshal = "sv_marshal_token sv" and rnd = "nonce2 env"])
    show "Seal (sv_aead sv) (sv_keyring sv) (nonce2 env) (sv_marshal_token sv)
      \<lparr>Issuer = tc_Issuer base, Audience = tc_Audience base, ClientID = tc_ClientID base, Type = TokenTypeRefresh\<rparr>
      (base\<lparr>tc_Type := TokenTypeRefresh, tc_IssuedAt := now, tc_ExpiresAt := RefreshExpiresAt pair, tc_SessionExpiresAt := session\<rparr>)
      = Inr (RefreshToken pair)" using shape by blast
    show "Open (sv_aead sv) (sv_keyring sv) (sv_unmarshal_token sv) (RefreshToken pair) aad' = Inr c" by (rule assms(4))
  qed (use assms(1,2) in \<open>auto simp: codec_laws_def nonces_ok_def\<close>)
qed

fun refresh_chain :: "service \<Rightarrow> associated_data \<Rightarrow> call_env list \<Rightarrow> string \<Rightarrow> token_pair list" where
  "refresh_chain sv aad [] tok = []"
| "refresh_chain sv aad (env # envs) tok = (case Refresh sv env tok aad of Inl _ \<Rightarrow> []
     | Inr pair \<Rightarrow> pair # refresh_chain sv aad envs (RefreshToken pair))"

lemma refresh_chain_capped:
  assumes "codec_laws sv" "nonces_ok env0" "issuePair sv now (nonce1 env0) (nonce2 env0) base session = Inr pair"
    "\<forall>env\<in>set envs. nonces_ok env" "i < length (refresh_chain sv aad envs (RefreshToken pair))"
  shows "SessionExpiresAt (refresh_chain sv aad envs (RefreshToken pair) ! i) = session \<and>
    AccessExpiresAt (refresh_chain sv aad envs (RefreshToken pair) ! i) \<le> session \<and>
    RefreshExpiresAt (refresh_chain sv aad envs (RefreshToken pair) ! i) \<le> session \<and>
    Scopes (refresh_chain sv aad envs (RefreshToken pair) ! i) = tc_Scopes base \<and> now1 (envs ! i) < session"
  using assms(2-)
proof (induction envs arbitrary: env0 now base pair i)
  case (Cons env envs)
  from Cons.prems(4) obtain pair1 where r: "Refresh sv env (RefreshToken pair) aad = Inr pair1"
    by (auto split: sum.splits)
  obtain c where c: "Open (sv_aead sv) (sv_keyring sv) (sv_unmarshal_token sv) (RefreshToken pair) (aad\<lparr>Type := TokenTypeRefresh\<rparr>) = Inr c"
    "TokenClaims_validateForUse c (now1 env) TokenTypeRefresh aad"
    "issuePair sv (now3 env) (nonce1 env) (nonce2 env)
      (c\<lparr>tc_Type := '''', tc_IssuedAt := 0, tc_ExpiresAt := 0, tc_SessionExpiresAt := 0\<rparr>) (tc_SessionExpiresAt c) = Inr pair1"
    using Refresh_ok[OF r] by blast
  have ceq: "tc_SessionExpiresAt c = session" "tc_Scopes c = tc_Scopes base"
    using issued_refresh_opens_only_to_itself[OF assms(1) Cons.prems(1,2) c(1)] by simp_all
  have t: "now1 env < session" using c(2) ceq by (auto simp: TokenClaims_validateForUse_def split: if_splits)
  show ?case
  proof (cases i)
    case 0
    then show ?thesis using r t issuePair_shape[OF c(3)] ceq by simp
  next
    case (Suc j)
    have "nonces_ok env" using Cons.prems(3) by simp
    from Cons.IH[OF this c(3)[unfolded ceq(1)], of j] show ?thesis using Suc r Cons.prems(3,4) ceq by simp
  qed
qed simp

lemma issued_access_opens:
  assumes "codec_laws sv" "nonces_ok env" "issuePair sv now (nonce1 env) (nonce2 env) base session = Inr pair"
  defines "claims \<equiv> base\<lparr>tc_Type := TokenTypeAccess, tc_IssuedAt := now, tc_ExpiresAt := AccessExpiresAt pair, tc_SessionExpiresAt := session\<rparr>"
  shows "Open (sv_aead sv) (sv_keyring sv) (sv_unmarshal_token sv) (AccessToken pair)
      \<lparr>Issuer = tc_Issuer base, Audience = tc_Audience base, ClientID = tc_ClientID base, Type = TokenTypeAccess\<rparr> = Inr claims"
    and "Open (sv_aead sv) (sv_keyring sv) (sv_unmarshal_token sv) (AccessToken pair) aad' = Inr c \<Longrightarrow> c = claims"
proof -
  have seal: "Seal (sv_aead sv) (sv_keyring sv) (nonce1 env) (sv_marshal_token sv)
      \<lparr>Issuer = tc_Issuer base, Audience = tc_Audience base, ClientID = tc_ClientID base, Type = TokenTypeAccess\<rparr> claims
      = Inr (AccessToken pair)" using issuePair_shape[OF assms(3)] unfolding claims_def by blast
  have l: "keyring_ok (sv_keyring sv)" "aead_laws (sv_aead sv)"
    "\<exists>p. sv_marshal_token sv claims = Inr p \<and> sv_unmarshal_token sv p = Some claims"
    "\<forall>n. nonce1 env = Inr n \<longrightarrow> length n = nonceBytes"
    using assms(1,2) by (auto simp: codec_laws_def nonces_ok_def)
  show "Open (sv_aead sv) (sv_keyring sv) (sv_unmarshal_token sv) (AccessToken pair)
      \<lparr>Issuer = tc_Issuer base, Audience = tc_Audience base, ClientID = tc_ClientID base, Type = TokenTypeAccess\<rparr> = Inr claims"
    by (rule Open_of_Seal(1)[OF l seal])
  show "Open (sv_aead sv) (sv_keyring sv) (sv_unmarshal_token sv) (AccessToken pair) aad' = Inr c \<Longrightarrow> c = claims"
    by (rule Open_of_Seal(2)[OF l seal])
qed

lemma verify_clients_some:
  "verify_clients sv iss aud ids now token = Some (Some info) \<Longrightarrow> \<exists>cid\<in>set ids. \<exists>c.
     Open (sv_aead sv) (sv_keyring sv) (sv_unmarshal_token sv) token
       \<lparr>Issuer = iss, Audience = aud, ClientID = cid, Type = TokenTypeAccess\<rparr> = Inr c \<and>
     TokenClaims_validateForUse c now TokenTypeAccess \<lparr>Issuer = iss, Audience = aud, ClientID = cid, Type = TokenTypeAccess\<rparr> \<and>
     info = info_of_claims c"
  by (induction ids) (auto simp: Let_def split: sum.splits if_splits)

lemma verifier_accepts_cases:
  assumes "AccessTokenVerifier sv iss aud ids boot now token = Some info"
  shows "\<exists>cid ty c. ((cid \<in> set ids \<and> ty = TokenTypeAccess) \<or> (boot \<and> cid = '''' \<and> ty = TokenTypeBootstrapAccess)) \<and>
     Open (sv_aead sv) (sv_keyring sv) (sv_unmarshal_token sv) token \<lparr>Issuer = iss, Audience = aud, ClientID = cid, Type = ty\<rparr> = Inr c \<and>
     TokenClaims_validateForUse c now ty \<lparr>Issuer = iss, Audience = aud, ClientID = cid, Type = ty\<rparr> \<and> info = info_of_claims c"
proof (cases "verify_clients sv iss aud ids now token")
  case None
  then show ?thesis using assms by (auto simp: AccessTokenVerifier_def Let_def split: sum.splits if_splits)
next
  case (Some r)
  then have "verify_clients sv iss aud ids now token = Some (Some info)" using assms by (simp add: AccessTokenVerifier_def)
  from verify_clients_some[OF this] show ?thesis by blast
qed


end
