(* ===== verification/OAuth_Client.thy ===== *)
theory OAuth_Client
  imports OAuth_Service
begin

text \<open>
  Client authentication of internal/oauth: the client ID metadata document (cimd.go) and the
  private_key_jwt assertion (private_key_jwt.go). url.Parse, the JSON decoders, the web and the JWT
  library are arguments; the web may answer every request differently, and a fetch ends after the
  number of requests that fit its timeout.
\<close>

section \<open>Metadata documents\<close>

record client_url =
  cu_Scheme :: string
  cu_Host :: string
  cu_User :: bool
  cu_Fragment :: string
  cu_rest :: string

record client_metadata =
  cm_ClientID :: string
  cm_RedirectURIs :: "string list"
  cm_TokenEndpointAuthMethod :: string
  cm_TokenEndpointAuthMethodsSupported :: "string list"
  cm_GrantTypes :: "string list"
  cm_ResponseTypes :: "string list"
  cm_Scope :: string
  cm_JWKSURI :: string

datatype web_reply = WebRedirect client_url | WebFinal int string bool | WebFail

type_synonym web = "nat \<Rightarrow> client_url \<Rightarrow> web_reply"

datatype client_error = ClientIDNotConfigured | ClientIDNotURL | ClientIDNotHTTPS | ClientIDUserinfo | OriginsRequired
  | OriginNotAllowed | FetchFailed | FetchStatus | ReadFailed | TooManyBytes | DecodeFailed | TrailingContent
  | ClientIDMismatch | RedirectNotRegistered | AuthMethodMissing | JWKSRequired | JWKSOrigin | ResponseTypes | GrantTypes

record metadata_fetcher =
  mf_AllowedOrigins :: "string list"
  mf_AllowedClientIDs :: "string list"
  mf_MaxBytes :: int
  mf_parse :: "string \<Rightarrow> client_url option"
  mf_decode :: "string \<Rightarrow> (client_metadata \<times> bool) option"

definition DefaultClientMetadataMaxBytes :: int where "DefaultClientMetadataMaxBytes = 64 * 1024"

definition sameOrigin :: "client_url \<Rightarrow> client_url \<Rightarrow> bool" where
  "sameOrigin a b = (to_lower (cu_Scheme a) = to_lower (cu_Scheme b) \<and> to_lower (cu_Host a) = to_lower (cu_Host b))"

definition originAllowed :: "(string \<Rightarrow> client_url option) \<Rightarrow> client_url \<Rightarrow> string list \<Rightarrow> bool" where
  "originAllowed parse u allowedOrigins = list_ex (\<lambda>raw. case parse raw of None \<Rightarrow> False
     | Some allowed \<Rightarrow> cu_Scheme allowed \<noteq> '''' \<and> cu_Host allowed \<noteq> '''' \<and> sameOrigin allowed u) allowedOrigins"

definition exactConfiguredClientID :: "string \<Rightarrow> string list \<Rightarrow> string option" where
  "exactConfiguredClientID requested configured = List.find (\<lambda>candidate. candidate = requested) configured"

definition validateClientIDURL :: "(string \<Rightarrow> client_url option) \<Rightarrow> string \<Rightarrow> string list \<Rightarrow> client_error + client_url" where
  "validateClientIDURL parse raw allowedOrigins = (case parse raw of None \<Rightarrow> Inl ClientIDNotURL
   | Some u \<Rightarrow>
     if cu_Scheme u = '''' \<or> cu_Host u = '''' then Inl ClientIDNotURL
     else if cu_Scheme u \<noteq> ''https'' then Inl ClientIDNotHTTPS
     else if cu_User u \<or> cu_Fragment u \<noteq> '''' then Inl ClientIDUserinfo
     else if allowedOrigins = [] then Inl OriginsRequired
     else if \<not> originAllowed parse u allowedOrigins then Inl OriginNotAllowed
     else Inr u)"

definition validateMetadataShape :: "(string \<Rightarrow> client_url option) \<Rightarrow> client_metadata \<Rightarrow> string \<Rightarrow> string \<Rightarrow> client_error + unit" where
  "validateMetadataShape parse m clientID redirectURI =
    (if cm_ClientID m \<noteq> '''' \<and> cm_ClientID m \<noteq> clientID then Inl ClientIDMismatch
     else if redirectURI \<noteq> '''' \<and> (cm_RedirectURIs m = [] \<or> redirectURI \<notin> set (cm_RedirectURIs m)) then Inl RedirectNotRegistered
     else (let methods = (if cm_TokenEndpointAuthMethodsSupported m = [] \<and> cm_TokenEndpointAuthMethod m \<noteq> ''''
             then [cm_TokenEndpointAuthMethod m] else cm_TokenEndpointAuthMethodsSupported m) in
       if ''private_key_jwt'' \<notin> set methods then Inl AuthMethodMissing
       else if cm_JWKSURI m = '''' then Inl JWKSRequired
       else (case parse (cm_JWKSURI m) of None \<Rightarrow> Inl JWKSOrigin | Some jwks \<Rightarrow>
         if cu_Scheme jwks \<noteq> ''https'' \<or> cu_User jwks \<or> cu_Fragment jwks \<noteq> '''' \<or>
            \<not> (case parse clientID of None \<Rightarrow> False | Some c \<Rightarrow> sameOrigin c jwks) then Inl JWKSOrigin
         else if cm_ResponseTypes m \<noteq> [] \<and> ''code'' \<notin> set (cm_ResponseTypes m) then Inl ResponseTypes
         else if cm_GrantTypes m \<noteq> [] \<and> ''authorization_code'' \<notin> set (cm_GrantTypes m) then Inl GrantTypes
         else Inr ())))"

text \<open>client.Do of the cloned client: redirects stay on the origin and on HTTPS. The list holds the URLs
  requested.\<close>

fun safe_get :: "web \<Rightarrow> client_url \<Rightarrow> nat \<Rightarrow> nat \<Rightarrow> client_url \<Rightarrow> (int \<times> string \<times> bool) option \<times> client_url list" where
  "safe_get web origin 0 t u = (None, [])"
| "safe_get web origin (Suc hops) t u = (case web t u of
     WebFail \<Rightarrow> (None, [u])
   | WebFinal status body readError \<Rightarrow> (Some (status, body, readError), [u])
   | WebRedirect next \<Rightarrow>
       if cu_Scheme next \<noteq> ''https'' \<or> \<not> sameOrigin origin next then (None, [u])
       else (case safe_get web origin hops (t + 1) next of (r, us) \<Rightarrow> (r, u # us)))"

definition read_limited :: "int \<Rightarrow> (int \<times> string \<times> bool) option \<Rightarrow> client_error + string" where
  "read_limited maxBytes r = (case r of None \<Rightarrow> Inl FetchFailed
   | Some (status, body, readError) \<Rightarrow>
     if status \<noteq> 200 then Inl FetchStatus
     else if readError \<and> int (length body) \<le> maxBytes then Inl ReadFailed
     else if int (length body) > maxBytes then Inl TooManyBytes else Inr body)"

definition Fetch :: "metadata_fetcher \<Rightarrow> web \<Rightarrow> nat \<Rightarrow> string \<Rightarrow> (client_error + client_metadata) \<times> client_url list" where
  "Fetch f web hops clientID = (case exactConfiguredClientID clientID (mf_AllowedClientIDs f) of
     None \<Rightarrow> (Inl ClientIDNotConfigured, [])
   | Some configured \<Rightarrow> (case validateClientIDURL (mf_parse f) configured (mf_AllowedOrigins f) of
       Inl e \<Rightarrow> (Inl e, [])
     | Inr u \<Rightarrow> (case safe_get web u hops 0 u of (r, us) \<Rightarrow>
         (sum_bind (read_limited (if mf_MaxBytes f = 0 then DefaultClientMetadataMaxBytes else mf_MaxBytes f) r) (\<lambda>body.
            case mf_decode f body of None \<Rightarrow> Inl DecodeFailed
            | Some (m, trailing) \<Rightarrow> if trailing then Inl TrailingContent
              else sum_bind (validateMetadataShape (mf_parse f) m clientID '''') (\<lambda>_. Inr m)), us))))"

definition FetchAndValidate :: "metadata_fetcher \<Rightarrow> web \<Rightarrow> nat \<Rightarrow> string \<Rightarrow> string \<Rightarrow> (client_error + client_metadata) \<times> client_url list" where
  "FetchAndValidate f web hops clientID redirectURI = (case Fetch f web hops clientID of (r, us) \<Rightarrow>
     (sum_bind r (\<lambda>m. sum_bind (validateMetadataShape (mf_parse f) m clientID redirectURI) (\<lambda>_. Inr m)), us))"

lemma sameOrigin_refl [simp]: "sameOrigin a a"
  by (simp add: sameOrigin_def)

lemma safe_get_origin:
  "safe_get web origin hops t u = (r, us) \<Longrightarrow> cu_Scheme u = ''https'' \<Longrightarrow> sameOrigin origin u \<Longrightarrow>
   (\<forall>v\<in>set us. cu_Scheme v = ''https'' \<and> sameOrigin origin v) \<and> length us \<le> hops"
proof (induction web origin hops t u arbitrary: r us rule: safe_get.induct)
  case (2 web origin hops t u)
  show ?case
  proof (cases "web t u")
    case (WebRedirect n)
    show ?thesis
    proof (cases "cu_Scheme n \<noteq> ''https'' \<or> \<not> sameOrigin origin n")
      case False
      obtain r2 us2 where rec: "safe_get web origin hops (t + 1) n = (r2, us2)" by fastforce
      show ?thesis using 2(1)[OF WebRedirect False rec] False 2(2-4) WebRedirect rec by auto
    qed (use 2(2-4) WebRedirect in auto)
  qed (use 2(2-4) in auto)
qed simp

lemma exactConfigured_iff: "exactConfiguredClientID c cs = (if c \<in> set cs then Some c else None)"
  by (induction cs) (auto simp: exactConfiguredClientID_def)

lemma validateMetadataShape_ok:
  "validateMetadataShape parse m clientID redirectURI = Inr x \<Longrightarrow>
    (redirectURI = '''' \<or> redirectURI \<in> set (cm_RedirectURIs m)) \<and> (cm_ClientID m = '''' \<or> cm_ClientID m = clientID) \<and>
    (\<exists>c jwks. parse clientID = Some c \<and> parse (cm_JWKSURI m) = Some jwks \<and> cu_Scheme jwks = ''https'' \<and> sameOrigin c jwks) \<and> cm_JWKSURI m \<noteq> ''''"
  by (auto simp: validateMetadataShape_def Let_def split: if_splits option.splits)

section \<open>Client assertions\<close>

definition ClientAssertionTypeJWTBearer :: string where
  "ClientAssertionTypeJWTBearer = ''urn:ietf:params:oauth:client-assertion-type:jwt-bearer''"

definition defaultJWKSMaxBytes :: int where "defaultJWKSMaxBytes = 64 * 1024"
definition defaultClientAssertionAge :: duration where "defaultClientAssertionAge = 5 * minute"
definition assertion_leeway :: duration where "assertion_leeway = 30 * 1000000000"

record jwk =
  Kty :: string
  Key_Use :: string
  Alg :: string
  Kid :: string
  jwk_N :: string
  jwk_E :: string
  Crv :: string
  jwk_X :: string
  jwk_Y :: string

text \<open>The key a key function hands to the JWT library; NoKey is a nil key without an error.\<close>

datatype public_key = NoKey | RSAKey nat nat | ECKey nat nat

definition big_endian :: "string \<Rightarrow> nat" where
  "big_endian data = foldl (\<lambda>n c. n * 256 + of_char c) 0 data"

definition decodeBigInt :: "string \<Rightarrow> nat option" where
  "decodeBigInt raw = (case raw_decode alpha_url raw of None \<Rightarrow> None
     | Some data \<Rightarrow> if data = '''' then None else Some (big_endian data))"

definition publicKey :: "(nat \<Rightarrow> nat \<Rightarrow> bool) \<Rightarrow> jwk \<Rightarrow> public_key option" where
  "publicKey on_curve k =
    (if Kty k = ''RSA'' then
       (case decodeBigInt (jwk_N k) of None \<Rightarrow> None
        | Some n \<Rightarrow> if n < 2 ^ 2047 then Some NoKey else
            (case decodeBigInt (jwk_E k) of None \<Rightarrow> None
             | Some e \<Rightarrow> if e \<ge> 2 ^ 63 \<or> e < 3 \<or> even e then None else Some (RSAKey n e)))
     else if Kty k = ''EC'' then
       (if Crv k \<noteq> ''P-256'' then None else
        (case decodeBigInt (jwk_X k) of None \<Rightarrow> None
         | Some x \<Rightarrow> (case decodeBigInt (jwk_Y k) of None \<Rightarrow> None
            | Some y \<Rightarrow> if x \<ge> 2 ^ 256 \<or> y \<ge> 2 ^ 256 then None else if on_curve x y then Some (ECKey x y) else None)))
     else None)"

record jwt_claims =
  jc_Issuer :: string
  jc_Subject :: string
  jc_Audience :: "string list"
  jc_ExpiresAt :: "go_time option"
  jc_IssuedAt :: "go_time option"
  jc_ID :: string

text \<open>jwt.ParseWithClaims: the key function gets the kid and alg of the header; the other arguments are
  the required audience, issuer and subject, the accepted algorithms, the leeway, the time and the
  assertion. The result is the claims and whether the token is valid, or none on an error.\<close>

type_synonym jwt_library = "(string \<Rightarrow> string \<Rightarrow> public_key option) \<Rightarrow> string \<Rightarrow> string \<Rightarrow> string \<Rightarrow> string list \<Rightarrow> duration \<Rightarrow> go_time \<Rightarrow>
  string \<Rightarrow> (jwt_claims \<times> bool) option"

record jwt_verifier =
  pv_TokenEndpoint :: string
  pv_MaxJWKSBytes :: int
  pv_parse :: "string \<Rightarrow> client_url option"
  pv_decode :: "string \<Rightarrow> jwk list option"
  pv_on_curve :: "nat \<Rightarrow> nat \<Rightarrow> bool"
  pv_jwt :: jwt_library

definition fetchKeys :: "jwt_verifier \<Rightarrow> web \<Rightarrow> nat \<Rightarrow> string \<Rightarrow> string \<Rightarrow> jwk list option \<times> client_url list" where
  "fetchKeys v web hops clientID rawJWKSURL = (case pv_parse v clientID of None \<Rightarrow> (None, [])
   | Some c \<Rightarrow> (case validateClientIDURL (pv_parse v) rawJWKSURL [cu_Scheme c @ ''://'' @ cu_Host c] of Inl _ \<Rightarrow> (None, [])
     | Inr u \<Rightarrow> (case safe_get web u hops 0 u of (r, us) \<Rightarrow>
         (case read_limited (if pv_MaxJWKSBytes v = 0 then defaultJWKSMaxBytes else pv_MaxJWKSBytes v) r of Inl _ \<Rightarrow> None
          | Inr body \<Rightarrow> (case pv_decode v body of None \<Rightarrow> None | Some ks \<Rightarrow> if ks = [] then None else Some ks), us))))"

fun key_for :: "(nat \<Rightarrow> nat \<Rightarrow> bool) \<Rightarrow> jwk list \<Rightarrow> string \<Rightarrow> string \<Rightarrow> public_key option" where
  "key_for on_curve [] kid alg = None"
| "key_for on_curve (k # ks) kid alg =
    (if Kid k = kid \<and> (Alg k = '''' \<or> Alg k = alg) \<and> (Key_Use k = '''' \<or> Key_Use k = ''sig'') then publicKey on_curve k
     else key_for on_curve ks kid alg)"

definition keyfunc :: "(nat \<Rightarrow> nat \<Rightarrow> bool) \<Rightarrow> jwk list \<Rightarrow> string \<Rightarrow> string \<Rightarrow> public_key option" where
  "keyfunc on_curve ks kid alg = (if kid = '''' then None else key_for on_curve ks kid alg)"

record verify_env =
  ve_web :: web
  ve_hops :: nat
  ve_now :: go_time
  ve_use1 :: go_time
  ve_use2 :: go_time

definition validMethods :: "string list" where "validMethods = [''RS256'', ''PS256'', ''ES256'']"

definition assertion_claims :: "jwt_verifier \<Rightarrow> verify_env \<Rightarrow> string \<Rightarrow> client_metadata \<Rightarrow> string \<Rightarrow> string \<Rightarrow> jwt_claims option" where
  "assertion_claims v env clientID metadata assertionType assertion =
    (if assertionType \<noteq> ClientAssertionTypeJWTBearer \<or> assertion = '''' \<or> cm_JWKSURI metadata = '''' then None
     else (case fst (fetchKeys v (ve_web env) (ve_hops env) clientID (cm_JWKSURI metadata)) of None \<Rightarrow> None
     | Some ks \<Rightarrow> (case pv_jwt v (keyfunc (pv_on_curve v) ks) (pv_TokenEndpoint v) clientID clientID validMethods assertion_leeway (ve_now env) assertion of
         None \<Rightarrow> None
       | Some (c, valid) \<Rightarrow> (case (jc_ExpiresAt c, jc_IssuedAt c) of
           (Some e, Some i) \<Rightarrow>
             if \<not> valid \<or> jc_ID c = '''' then None
             else if e > ve_now env + defaultClientAssertionAge \<or> i < ve_now env - defaultClientAssertionAge \<or> i > ve_now env + assertion_leeway then None
             else Some c
         | _ \<Rightarrow> None))))"

definition Verify :: "jwt_verifier \<Rightarrow> verify_env \<Rightarrow> string \<Rightarrow> client_metadata \<Rightarrow> string \<Rightarrow> string \<Rightarrow> replay_store option \<Rightarrow> bool \<times> replay_store option" where
  "Verify v env clientID metadata assertionType assertion st =
    (case assertion_claims v env clientID metadata assertionType assertion of None \<Rightarrow> (False, st)
     | Some c \<Rightarrow> Use (ve_use1 env) (ve_use2 env) (clientID @ CHR 0x00 # jc_ID c) (the (jc_ExpiresAt c)) st)"

text \<open>What the JWT library documents: a valid token is signed, with one of the accepted algorithms, by the
  key the key function returned for its header, and its registered claims satisfy the options.\<close>

definition jwt_laws :: "(public_key \<Rightarrow> string \<Rightarrow> bool) \<Rightarrow> jwt_library \<Rightarrow> bool" where
  "jwt_laws signs lib \<longleftrightarrow> (\<forall>kf aud iss sub methods leeway now a c. lib kf aud iss sub methods leeway now a = Some (c, True) \<longrightarrow>
     (\<exists>kid alg k. alg \<in> set methods \<and> kf kid alg = Some k \<and> k \<noteq> NoKey \<and> signs k a) \<and>
     aud \<in> set (jc_Audience c) \<and> jc_Issuer c = iss \<and> jc_Subject c = sub \<and>
     (\<exists>e. jc_ExpiresAt c = Some e \<and> now < e + leeway))"

lemma key_for_some: "key_for oc ks kid alg = Some pk \<Longrightarrow>
    \<exists>k\<in>set ks. Kid k = kid \<and> (Alg k = '''' \<or> Alg k = alg) \<and> (Key_Use k = '''' \<or> Key_Use k = ''sig'') \<and> publicKey oc k = Some pk"
  by (induction oc ks kid alg rule: key_for.induct) (auto split: if_splits)

lemma publicKey_strength:
  "publicKey oc k = Some (RSAKey n e) \<Longrightarrow> 2 ^ 2047 \<le> n \<and> 3 \<le> e \<and> odd e"
  "publicKey oc k = Some (ECKey x y) \<Longrightarrow> oc x y \<and> Crv k = ''P-256''"
  by (auto simp: publicKey_def split: if_splits option.splits)

lemma fetchKeys_origin:
  assumes "fetchKeys v web hops clientID raw = (Some ks, us)"
  shows "(\<exists>u. pv_parse v raw = Some u \<and> (\<forall>w\<in>set us. cu_Scheme w = ''https'' \<and> sameOrigin u w)) \<and> length us \<le> hops \<and> ks \<noteq> []"
proof -
  from assms obtain c u where u: "pv_parse v clientID = Some c" "validateClientIDURL (pv_parse v) raw [cu_Scheme c @ ''://'' @ cu_Host c] = Inr u"
      "us = snd (safe_get web u hops 0 u)" "ks \<noteq> []"
    by (auto simp: fetchKeys_def split: option.splits sum.splits prod.splits if_splits)
  have p: "pv_parse v raw = Some u" "cu_Scheme u = ''https''"
    using u(2) by (auto simp: validateClientIDURL_def split: option.splits if_splits)
  obtain r where "safe_get web u hops 0 u = (r, us)" using u(3) by (cases "safe_get web u hops 0 u") auto
  from safe_get_origin[OF this p(2)] p(1) u(4) show ?thesis by auto
qed

section \<open>What an accepted client and assertion mean\<close>

lemma Fetch_ok:
  assumes "FetchAndValidate f web hops clientID redirectURI = (Inr m, us)"
  shows "clientID \<in> set (mf_AllowedClientIDs f) \<and> (redirectURI = '''' \<or> redirectURI \<in> set (cm_RedirectURIs m)) \<and>
    (\<exists>u. mf_parse f clientID = Some u \<and> cu_Scheme u = ''https'' \<and> originAllowed (mf_parse f) u (mf_AllowedOrigins f) \<and>
      (\<forall>v\<in>set us. cu_Scheme v = ''https'' \<and> sameOrigin u v) \<and> length us \<le> hops \<and>
      (\<exists>jwks. mf_parse f (cm_JWKSURI m) = Some jwks \<and> cu_Scheme jwks = ''https'' \<and> sameOrigin u jwks))"
proof -
  from assms have f: "Fetch f web hops clientID = (Inr m, us)"
    and v: "validateMetadataShape (mf_parse f) m clientID redirectURI = Inr ()"
    by (auto simp: FetchAndValidate_def sum_bind_Inr split: prod.splits)
  from f obtain u where u: "clientID \<in> set (mf_AllowedClientIDs f)" "validateClientIDURL (mf_parse f) clientID (mf_AllowedOrigins f) = Inr u"
      "us = snd (safe_get web u hops 0 u)"
    by (auto simp: Fetch_def exactConfigured_iff split: if_splits sum.splits prod.splits)
  have p: "mf_parse f clientID = Some u" "cu_Scheme u = ''https''" "originAllowed (mf_parse f) u (mf_AllowedOrigins f)"
    using u(2) by (auto simp: validateClientIDURL_def split: option.splits if_splits)
  obtain r where "safe_get web u hops 0 u = (r, us)" using u(3) by (cases "safe_get web u hops 0 u") auto
  from safe_get_origin[OF this p(2)] u(1) p validateMetadataShape_ok[OF v] show ?thesis by auto
qed

lemma Verify_ok:
  assumes "jwt_laws signs (pv_jwt v)" "Verify v env clientID m ty a st = (True, st')"
  obtains c ks us kid alg k pk e i where "assertion_claims v env clientID m ty a = Some c"
    "fetchKeys v (ve_web env) (ve_hops env) clientID (cm_JWKSURI m) = (Some ks, us)"
    "k \<in> set ks" "Kid k = kid" "Key_Use k = '''' \<or> Key_Use k = ''sig''" "publicKey (pv_on_curve v) k = Some pk" "pk \<noteq> NoKey" "signs pk a" "alg \<in> set validMethods"
    "pv_TokenEndpoint v \<in> set (jc_Audience c)" "jc_Issuer c = clientID" "jc_Subject c = clientID" "jc_ID c \<noteq> ''''"
    "jc_ExpiresAt c = Some e" "e \<le> ve_now env + defaultClientAssertionAge" "jc_IssuedAt c = Some i" "ve_now env - defaultClientAssertionAge \<le> i"
    "i \<le> ve_now env + assertion_leeway"
    "Use (ve_use1 env) (ve_use2 env) (clientID @ CHR 0x00 # jc_ID c) e st = (True, st')"
proof -
  from assms(2) obtain c where c: "assertion_claims v env clientID m ty a = Some c"
      "Use (ve_use1 env) (ve_use2 env) (clientID @ CHR 0x00 # jc_ID c) (the (jc_ExpiresAt c)) st = (True, st')"
    by (auto simp: Verify_def split: option.splits)
  obtain ks us where ks: "fetchKeys v (ve_web env) (ve_hops env) clientID (cm_JWKSURI m) = (Some ks, us)"
    using c(1) by (cases "fetchKeys v (ve_web env) (ve_hops env) clientID (cm_JWKSURI m)")
      (auto simp: assertion_claims_def split: if_splits option.splits)
  obtain e i where ei: "jc_ExpiresAt c = Some e" "jc_IssuedAt c = Some i" "e \<le> ve_now env + defaultClientAssertionAge"
      "ve_now env - defaultClientAssertionAge \<le> i" "i \<le> ve_now env + assertion_leeway" "jc_ID c \<noteq> ''''"
      "pv_jwt v (keyfunc (pv_on_curve v) ks) (pv_TokenEndpoint v) clientID clientID validMethods assertion_leeway (ve_now env) a = Some (c, True)"
    using c(1) ks by (auto simp: assertion_claims_def split: if_splits option.splits)
  from assms(1) ei(7) obtain kid alg pk where l: "alg \<in> set validMethods" "keyfunc (pv_on_curve v) ks kid alg = Some pk" "pk \<noteq> NoKey" "signs pk a"
      "pv_TokenEndpoint v \<in> set (jc_Audience c)" "jc_Issuer c = clientID" "jc_Subject c = clientID"
    unfolding jwt_laws_def by meson
  obtain k where k: "k \<in> set ks" "Kid k = kid" "Key_Use k = '''' \<or> Key_Use k = ''sig''" "publicKey (pv_on_curve v) k = Some pk"
    using key_for_some[of "pv_on_curve v" ks kid alg pk] l(2) by (auto simp: keyfunc_def split: if_splits)
  show ?thesis using that[OF c(1) ks k l(3,4,1,5,6,7) ei(6,1,3,2,4,5)] c(2) ei(1) by simp
qed

text \<open>The verifications of one process, in order; each result carries the claims it was decided on.\<close>

record assertion_call =
  ac_env :: verify_env
  ac_client :: string
  ac_metadata :: client_metadata
  ac_type :: string
  ac_assertion :: string

definition call_claims :: "jwt_verifier \<Rightarrow> assertion_call \<Rightarrow> jwt_claims option" where
  "call_claims v c = assertion_claims v (ac_env c) (ac_client c) (ac_metadata c) (ac_type c) (ac_assertion c)"

fun run_verify :: "jwt_verifier \<Rightarrow> assertion_call list \<Rightarrow> replay_store option \<Rightarrow> bool list" where
  "run_verify v [] st = []"
| "run_verify v (c # cs) st = (case Verify v (ac_env c) (ac_client c) (ac_metadata c) (ac_type c) (ac_assertion c) st of
     (b, st') \<Rightarrow> b # run_verify v cs st')"

definition replay_key :: "string \<Rightarrow> jwt_claims \<Rightarrow> string" where
  "replay_key clientID c = clientID @ CHR 0x00 # jc_ID c"

lemma Verify_eq: "Verify v env cl m ty a st = (case assertion_claims v env cl m ty a of None \<Rightarrow> (False, st)
     | Some c \<Rightarrow> Use (ve_use1 env) (ve_use2 env) (replay_key cl c) (the (jc_ExpiresAt c)) st)"
  unfolding Verify_def replay_key_def by simp

lemma Verify_replay_ok: "replay_ok st \<Longrightarrow> Verify v env cl m ty a st = (b, st') \<Longrightarrow> replay_ok st'"
  using Use_ok[of st] by (auto simp: Verify_eq split: option.splits) (metis snd_conv)

lemma Verify_keeps:
  assumes "replay_ok st" "remembers aid expiry st" "ve_use2 env < expiry" "Verify v env cl m ty a st = (b, st')"
  shows "remembers aid expiry st' \<and> (\<forall>c. assertion_claims v env cl m ty a = Some c \<longrightarrow> replay_key cl c = aid \<longrightarrow> \<not> b)"
  using Use_keeps[OF assms(1-3)] assms(2,4) by (auto simp: Verify_eq split: option.splits) (metis fst_conv snd_conv)+

lemma run_verify_blocks:
  "\<lbrakk>replay_ok st; remembers aid expiry st; k < length cs; \<forall>j\<le>k. ve_use2 (ac_env (cs ! j)) < expiry;
    call_claims v (cs ! k) = Some c; replay_key (ac_client (cs ! k)) c = aid\<rbrakk> \<Longrightarrow> \<not> run_verify v cs st ! k"
proof (induction cs arbitrary: st k)
  case (Cons x cs)
  obtain b st' where v: "Verify v (ac_env x) (ac_client x) (ac_metadata x) (ac_type x) (ac_assertion x) st = (b, st')" by fastforce
  have t: "ve_use2 (ac_env x) < expiry" using Cons.prems(4) by auto
  note keep = Verify_keeps[OF Cons.prems(1,2) t v]
  show ?case
  proof (cases k)
    case 0
    then show ?thesis using keep Cons.prems(5,6) v by (simp add: call_claims_def)
  next
    case (Suc k')
    have "\<forall>j\<le>k'. ve_use2 (ac_env (cs ! j)) < expiry" using Cons.prems(4) Suc by (metis Suc_le_mono nth_Cons_Suc)
    then have "\<not> run_verify v cs st' ! k'"
      using Cons.IH[OF Verify_replay_ok[OF Cons.prems(1) v], of k'] keep Cons.prems(3,5,6) Suc by simp
    then show ?thesis using v Suc by simp
  qed
qed simp

fun verify_state :: "jwt_verifier \<Rightarrow> assertion_call list \<Rightarrow> replay_store option \<Rightarrow> replay_store option" where
  "verify_state v [] st = st"
| "verify_state v (c # cs) st = verify_state v cs (snd (Verify v (ac_env c) (ac_client c) (ac_metadata c) (ac_type c) (ac_assertion c) st))"

lemma run_verify_append: "run_verify v (as @ bs) st = run_verify v as st @ run_verify v bs (verify_state v as st)"
  by (induction as arbitrary: st) (auto split: prod.splits)

lemma run_verify_length [simp]: "length (run_verify v cs st) = length cs"
  by (induction cs arbitrary: st) (auto split: prod.splits)

lemma verify_state_ok: "replay_ok st \<Longrightarrow> replay_ok (verify_state v cs st)"
proof (induction cs arbitrary: st)
  case (Cons c cs)
  then show ?case using Verify_replay_ok[OF Cons.prems prod.collapse[symmetric]] by simp
qed simp

text \<open>What a decision rests on: the claims and their expiry, the window, and a signing key served on the
  origin of the metadata document's jwks_uri.\<close>

definition assertion_sound :: "(public_key \<Rightarrow> string \<Rightarrow> bool) \<Rightarrow> jwt_verifier \<Rightarrow> assertion_call \<Rightarrow> jwt_claims \<Rightarrow> go_time \<Rightarrow> bool" where
  "assertion_sound signs v x c e \<longleftrightarrow> call_claims v x = Some c \<and> jc_ExpiresAt c = Some e \<and>
    jc_Issuer c = ac_client x \<and> jc_Subject c = ac_client x \<and> pv_TokenEndpoint v \<in> set (jc_Audience c) \<and>
    e \<le> ve_now (ac_env x) + 5 * minute \<and> (\<exists>t. jc_IssuedAt c = Some t \<and> ve_now (ac_env x) - 5 * minute \<le> t) \<and>
    (\<exists>ks us k pk u. fetchKeys v (ve_web (ac_env x)) (ve_hops (ac_env x)) (ac_client x) (cm_JWKSURI (ac_metadata x)) = (Some ks, us) \<and>
      k \<in> set ks \<and> publicKey (pv_on_curve v) k = Some pk \<and> signs pk (ac_assertion x) \<and>
      pv_parse v (cm_JWKSURI (ac_metadata x)) = Some u \<and> (\<forall>w\<in>set us. cu_Scheme w = ''https'' \<and> sameOrigin u w))"

lemma Verify_sound:
  assumes "jwt_laws signs (pv_jwt v)" "replay_ok st"
    "Verify v (ac_env x) (ac_client x) (ac_metadata x) (ac_type x) (ac_assertion x) st = (True, st')"
  shows "\<exists>c e. assertion_sound signs v x c e \<and> remembers (replay_key (ac_client x) c) e st'"
  using assms(1,3)
proof (rule Verify_ok)
  fix c ks us kid alg k pk e t
  assume "assertion_claims v (ac_env x) (ac_client x) (ac_metadata x) (ac_type x) (ac_assertion x) = Some c"
    and ks: "fetchKeys v (ve_web (ac_env x)) (ve_hops (ac_env x)) (ac_client x) (cm_JWKSURI (ac_metadata x)) = (Some ks, us)"
    and "k \<in> set ks" "publicKey (pv_on_curve v) k = Some pk" "signs pk (ac_assertion x)"
    and "pv_TokenEndpoint v \<in> set (jc_Audience c)" "jc_Issuer c = ac_client x" "jc_Subject c = ac_client x"
    and "jc_ExpiresAt c = Some e" "e \<le> ve_now (ac_env x) + defaultClientAssertionAge"
    and "jc_IssuedAt c = Some t" "ve_now (ac_env x) - defaultClientAssertionAge \<le> t"
    and use: "Use (ve_use1 (ac_env x)) (ve_use2 (ac_env x)) (ac_client x @ CHR 0x00 # jc_ID c) e st = (True, st')"
  then have "assertion_sound signs v x c e" using fetchKeys_origin[OF ks]
    unfolding assertion_sound_def call_claims_def defaultClientAssertionAge_def by blast
  then show ?thesis using Use_remembers[OF assms(2) use] by (auto simp: replay_key_def)
qed


definition demo_jwt :: jwt_library where
  "demo_jwt kf aud iss sub methods leeway now a =
    (if a = ''A'' \<and> ''ES256'' \<in> set methods \<and> kf ''k'' ''ES256'' \<notin> {None, Some NoKey} \<and> now < 100 + leeway
     then Some (\<lparr>jc_Issuer = iss, jc_Subject = sub, jc_Audience = [aud], jc_ExpiresAt = Some 100, jc_IssuedAt = Some 10, jc_ID = ''j''\<rparr>, True) else None)"

definition demo_parse :: "string \<Rightarrow> client_url option" where
  "demo_parse raw = Some \<lparr>cu_Scheme = ''https'', cu_Host = ''c'', cu_User = False, cu_Fragment = '''', cu_rest = ''''\<rparr>"

definition demo_verifier :: jwt_verifier where
  "demo_verifier = \<lparr>pv_TokenEndpoint = ''token'', pv_MaxJWKSBytes = 0, pv_parse = demo_parse,
     pv_decode = (\<lambda>b. Some [\<lparr>Kty = ''EC'', Key_Use = ''sig'', Alg = '''', Kid = ''k'', jwk_N = '''', jwk_E = '''', Crv = ''P-256'', jwk_X = ''AQ'', jwk_Y = ''AQ''\<rparr>]),
     pv_on_curve = (\<lambda>x y. True), pv_jwt = demo_jwt\<rparr>"

definition demo_metadata :: client_metadata where
  "demo_metadata = \<lparr>cm_ClientID = '''', cm_RedirectURIs = [''r''], cm_TokenEndpointAuthMethod = '''',
     cm_TokenEndpointAuthMethodsSupported = [''private_key_jwt''], cm_GrantTypes = [], cm_ResponseTypes = [], cm_Scope = '''', cm_JWKSURI = ''jwks''\<rparr>"

definition demo_web :: web where "demo_web t u = WebFinal 200 ''body'' False"

definition demo_call :: "go_time \<Rightarrow> assertion_call" where
  "demo_call t = \<lparr>ac_env = \<lparr>ve_web = demo_web, ve_hops = Suc 0, ve_now = t, ve_use1 = t, ve_use2 = t\<rparr>, ac_client = ''c'',
     ac_metadata = demo_metadata, ac_type = ClientAssertionTypeJWTBearer, ac_assertion = ''A''\<rparr>"

lemma demo_jwt_laws: "jwt_laws (\<lambda>k a. a = ''A'') demo_jwt"
  by (force simp: jwt_laws_def demo_jwt_def split: if_splits)

lemma demo_publicKey: "publicKey (\<lambda>x y. True) \<lparr>Kty = ''EC'', Key_Use = ''sig'', Alg = '''', Kid = ''k'', jwk_N = '''', jwk_E = '''', Crv = ''P-256'', jwk_X = ''AQ'', jwk_Y = ''AQ''\<rparr>
    = Some (ECKey 1 1)"
proof -
  have "decodeBigInt ''AQ'' = Some 1" by code_simp
  then show ?thesis by (simp add: publicKey_def)
qed

lemma demo_claims:
  assumes "t < 100" "0 < t"
  shows "\<exists>c. assertion_claims demo_verifier (ac_env (demo_call t)) ''c'' demo_metadata ClientAssertionTypeJWTBearer ''A'' = Some c \<and> jc_ExpiresAt c = Some 100 \<and> jc_ID c = ''j''"
  using assms by (simp add: demo_call_def demo_verifier_def assertion_claims_def fetchKeys_def demo_metadata_def demo_parse_def
      validateClientIDURL_def originAllowed_def demo_web_def read_limited_def defaultJWKSMaxBytes_def demo_jwt_def
      validMethods_def keyfunc_def demo_publicKey defaultClientAssertionAge_def assertion_leeway_def minute_def ClientAssertionTypeJWTBearer_def)

lemma demo_verify:
  assumes "0 < t" "t < 100"
  shows "fst (Verify demo_verifier (ac_env (demo_call t)) ''c'' demo_metadata ClientAssertionTypeJWTBearer ''A'' (Some (NewAssertionReplayStore 8)))"
proof -
  obtain c where "assertion_claims demo_verifier (ac_env (demo_call t)) ''c'' demo_metadata ClientAssertionTypeJWTBearer ''A'' = Some c" "jc_ExpiresAt c = Some 100" "jc_ID c = ''j''"
    using demo_claims assms by blast
  then show ?thesis using assms by (simp add: Verify_def demo_call_def Use_def NewAssertionReplayStore_def gm_keep_def)
qed


text \<open>The boundary the window leaves open: Use compares the expiry with a clock reading taken before the
  lock and purges with a later one, so an accepted assertion that expires between the two readings of its
  second presentation is accepted again.\<close>

lemma replay_boundary:
  assumes "replay_ok st" "0 < n" "aid \<noteq> ''''" "t1 < e" "e \<le> t2"
  shows "fst (Use t1 t2 aid e (Some \<lparr>rp_entries = [(aid, e)], rp_max = n\<rparr>))"
  using assms by (simp add: Use_def gm_keep_def)

end
