(* ===== verification/OAuth_Server.thy ===== *)
theory OAuth_Server
  imports OAuth_Client
begin

text \<open>
  The authorization server of internal/oauth/authorization_server.go: the setup page, its submission, the
  redirect with the authorization code, and the token endpoint. A request is the values its handler reads;
  the environment of a request holds its clock readings, random bytes, the web and the credential broker's
  answers. The state is the setup store, the code store, the rate limiter and the replay store.
\<close>

section \<open>Requests, environments and responses\<close>

definition setupStateType :: string where "setupStateType = ''setup_state''"
definition CredentialSourceDedicated :: string where "CredentialSourceDedicated = ''dedicated_token''"
definition CredentialSourceSupplied :: string where "CredentialSourceSupplied = ''supplied_token''"

record setup_state =
  ss_Type :: string
  ss_ClientID :: string
  ss_RedirectURI :: string
  ss_Resource :: string
  ss_State :: string
  ss_PKCEChallenge :: string
  ss_Scopes :: "string list"
  ss_CSRFHash :: string
  ss_SetupID :: string
  ss_AllowSuppliedCredential :: bool
  ss_ExpiresAt :: go_time

record auth_server =
  as_Issuer :: string
  as_Resource :: string
  as_AuthorizePath :: string
  as_TokenPath :: string
  as_Scopes :: "string list"
  as_Service :: service
  as_fetcher :: metadata_fetcher
  as_verifier :: jwt_verifier
  as_marshal_setup :: "setup_state \<Rightarrow> string + string"
  as_unmarshal_setup :: "string \<Rightarrow> setup_state option"
  as_redirect_parses :: "string \<Rightarrow> bool"

record server_state =
  st_codes :: "code_store option"
  st_setup :: code_store
  st_limiter :: "rate_limiter option"
  st_replay :: "replay_store option"

record request =
  rq_Method :: string
  rq_Path :: string
  rq_Query :: "string \<Rightarrow> string"
  rq_PostForm :: "string \<Rightarrow> string"
  rq_mediaType :: "string option"
  rq_ParseForm :: bool
  rq_Cookie :: "string option"
  rq_SourceIP :: "string option"
  rq_RemoteHost :: "string option"
  rq_RemoteAddr :: string

record request_env =
  e_ip_now :: go_time
  e_client_now :: go_time
  e_now :: go_time
  e_consume1 :: go_time
  e_consume2 :: go_time
  e_store1 :: go_time
  e_store2 :: go_time
  e_cookie_now :: go_time
  e_pair_now :: go_time
  e_web :: web
  e_hops :: nat
  e_csrf :: "string option"
  e_setup_id :: "string option"
  e_nonce :: "string + string"
  e_validate :: "credential \<Rightarrow> string option"
  e_create :: "credential \<Rightarrow> string \<Rightarrow> credential option"
  e_call :: call_env
  e_verify :: verify_env

record setup_page =
  pg_SetupState :: string
  pg_ClientID :: string
  pg_CSRF :: string
  pg_Scopes :: "string list"
  pg_AllowFallback :: bool
  pg_Message :: string
  pg_Cookie :: string
  pg_MaxAge :: int

datatype response = HTTPError nat string | MethodNotAllowed | SetupPage setup_page
  | RedirectCode string string string | RedirectError string string string | Panicked
  | TokenResponse token_pair int | OAuthError nat string

section \<open>Guards\<close>

definition remote_key :: "request \<Rightarrow> string" where
  "remote_key req = (case rq_SourceIP req of Some ip \<Rightarrow> ip | None \<Rightarrow>
     (case rq_RemoteHost req of Some h \<Rightarrow> h | None \<Rightarrow> if rq_RemoteAddr req \<noteq> '''' then rq_RemoteAddr req else ''unknown''))"

definition allow :: "request_env \<Rightarrow> request \<Rightarrow> server_state \<Rightarrow> bool \<times> server_state" where
  "allow env req s = (case Allow (e_ip_now env) (rq_Path req @ CHR 0x00 # ''ip:'' @ remote_key req) (st_limiter s) of
     (b, l) \<Rightarrow> (b, s\<lparr>st_limiter := l\<rparr>))"

definition allowClient :: "auth_server \<Rightarrow> request_env \<Rightarrow> string \<Rightarrow> server_state \<Rightarrow> bool \<times> server_state" where
  "allowClient sv env clientID s =
    (if clientID = '''' \<or> length clientID > 2048 then (False, s)
     else if mf_AllowedClientIDs (as_fetcher sv) \<noteq> [] \<and> clientID \<notin> set (mf_AllowedClientIDs (as_fetcher sv)) then (False, s)
     else (case Allow (e_client_now env) (''client:'' @ raw_encode alpha_url (sv_sha256 (as_Service sv) clientID)) (st_limiter s) of
       (b, l) \<Rightarrow> (b, s\<lparr>st_limiter := l\<rparr>)))"

definition pkce_char :: "char \<Rightarrow> bool" where
  "pkce_char c = ((CHR ''A'' \<le> c \<and> c \<le> CHR ''Z'') \<or> (CHR ''a'' \<le> c \<and> c \<le> CHR ''z'') \<or> (CHR ''0'' \<le> c \<and> c \<le> CHR ''9'') \<or> c \<in> set ''-._~'')"

definition validPKCEChallenge :: "string \<Rightarrow> bool" where
  "validPKCEChallenge v = (\<not> (length v < 43 \<or> length v > 128) \<and> list_all pkce_char v)"

definition parseScopes :: "string \<Rightarrow> string list \<Rightarrow> string list option" where
  "parseScopes raw supported = (let values = str_fields raw in
     if values = [] then None else if list_ex (\<lambda>v. v \<notin> set supported) values then None else Some values)"

definition isFormRequest :: "request \<Rightarrow> bool" where
  "isFormRequest req = (rq_mediaType req = Some ''application/x-www-form-urlencoded'')"

definition validSetupCSRF :: "(string \<Rightarrow> string) \<Rightarrow> request \<Rightarrow> setup_state \<Rightarrow> bool" where
  "validSetupCSRF sha256 req state = (case rq_Cookie req of None \<Rightarrow> False
   | Some c \<Rightarrow> c \<noteq> '''' \<and> rq_PostForm req ''csrf'' \<noteq> '''' \<and> c = rq_PostForm req ''csrf'' \<and>
       raw_decode alpha_url (ss_CSRFHash state) = Some (sha256 c))"

definition dedicatedTokenName :: "string \<Rightarrow> string" where
  "dedicatedTokenName setupID = ''inventree-mcp-chatgpt-'' @ setupID"

definition setup_aad :: "auth_server \<Rightarrow> string \<Rightarrow> associated_data" where
  "setup_aad sv clientID = \<lparr>Issuer = as_Issuer sv, Audience = as_Resource sv, ClientID = clientID, Type = setupStateType\<rparr>"

section \<open>The authorization endpoint\<close>

definition renderSetup :: "auth_server \<Rightarrow> request_env \<Rightarrow> setup_state \<Rightarrow> string \<Rightarrow> server_state \<Rightarrow> response \<times> server_state" where
  "renderSetup sv env state0 message s = (case e_csrf env of None \<Rightarrow> (HTTPError 500 ''Setup unavailable'', s)
   | Some csrfBytes \<Rightarrow> (case e_setup_id env of None \<Rightarrow> (HTTPError 500 ''Setup unavailable'', s)
   | Some idBytes \<Rightarrow>
     (let csrf = raw_encode alpha_url csrfBytes; state1 = state0\<lparr>ss_SetupID := raw_encode alpha_url idBytes\<rparr> in
      case code_Store (e_store1 env) (e_store2 env) (ss_SetupID state1) (ss_ExpiresAt state1) (st_setup s) of
        (Inl _, store) \<Rightarrow> (HTTPError 503 ''Setup unavailable'', s\<lparr>st_setup := store\<rparr>)
      | (Inr _, store) \<Rightarrow>
        (let s' = s\<lparr>st_setup := store\<rparr>;
             state2 = state1\<lparr>ss_CSRFHash := raw_encode alpha_url (sv_sha256 (as_Service sv) csrf)\<rparr> in
         case Seal (sv_aead (as_Service sv)) (sv_keyring (as_Service sv)) (e_nonce env) (as_marshal_setup sv) (setup_aad sv (ss_ClientID state2)) state2 of
           Inl _ \<Rightarrow> (HTTPError 500 ''Setup unavailable'', s')
         | Inr token \<Rightarrow> (SetupPage \<lparr>pg_SetupState = token, pg_ClientID = ss_ClientID state2, pg_CSRF = csrf, pg_Scopes = ss_Scopes state2,
             pg_AllowFallback = ss_AllowSuppliedCredential state2, pg_Message = message, pg_Cookie = csrf,
             pg_MaxAge = max 1 ((ss_ExpiresAt state2 - e_cookie_now env) div 1000000000)\<rparr>, s')))))"

definition requested_setup :: "auth_server \<Rightarrow> request_env \<Rightarrow> (string \<Rightarrow> string) \<Rightarrow> string list \<Rightarrow> setup_state" where
  "requested_setup sv env q scopes = \<lparr>ss_Type = setupStateType, ss_ClientID = q ''client_id'', ss_RedirectURI = q ''redirect_uri'',
     ss_Resource = as_Resource sv, ss_State = q ''state'', ss_PKCEChallenge = q ''code_challenge'', ss_Scopes = scopes,
     ss_CSRFHash = '''', ss_SetupID = '''', ss_AllowSuppliedCredential = False,
     ss_ExpiresAt = e_now env + defaultDuration (CodeLifetime (as_Service sv)) DefaultCodeLifetime\<rparr>"

definition beginAuthorization :: "auth_server \<Rightarrow> request_env \<Rightarrow> request \<Rightarrow> server_state \<Rightarrow> response \<times> server_state" where
  "beginAuthorization sv env req s0 = (case allow env req s0 of (ok, s) \<Rightarrow>
     if \<not> ok then (HTTPError 429 ''Too many authorization attempts'', s) else
     (let q = rq_Query req; clientID = q ''client_id''; redirectURI = q ''redirect_uri'' in
      if q ''response_type'' \<noteq> ''code'' \<or> q ''code_challenge_method'' \<noteq> ''S256'' \<or> \<not> validPKCEChallenge (q ''code_challenge'') \<or>
         q ''state'' = '''' \<or> q ''resource'' \<noteq> as_Resource sv then (HTTPError 400 ''Invalid OAuth authorization request'', s)
      else (case allowClient sv env clientID s of (ok, s) \<Rightarrow>
        if \<not> ok then (HTTPError 429 ''Too many authorization attempts'', s)
        else (case fst (FetchAndValidate (as_fetcher sv) (e_web env) (e_hops env) clientID redirectURI) of
          Inl _ \<Rightarrow> (HTTPError 400 ''Invalid OAuth client'', s)
        | Inr _ \<Rightarrow> (case parseScopes (q ''scope'') (as_Scopes sv) of None \<Rightarrow> (HTTPError 400 ''Invalid OAuth scope'', s)
          | Some scopes \<Rightarrow> renderSetup sv env (requested_setup sv env q scopes) '''' s)))))"

text \<open>http.Redirect to the redirect URI with the given query parameters set; url.Parse's error is dropped,
  so an unparsable redirect URI is a nil dereference.\<close>

definition redirectAuthorizationCode :: "auth_server \<Rightarrow> string \<Rightarrow> string \<Rightarrow> string \<Rightarrow> response" where
  "redirectAuthorizationCode sv redirectURI state code = (if as_redirect_parses sv redirectURI then RedirectCode redirectURI state code else Panicked)"

definition redirectAuthorizationError :: "auth_server \<Rightarrow> string \<Rightarrow> string \<Rightarrow> string \<Rightarrow> response" where
  "redirectAuthorizationError sv redirectURI state code = (if as_redirect_parses sv redirectURI then RedirectError redirectURI state code else Panicked)"

definition openSetup :: "auth_server \<Rightarrow> request_env \<Rightarrow> request \<Rightarrow> setup_state option" where
  "openSetup sv env req = (let clientID = rq_PostForm req ''client_id'' in
     case Open (sv_aead (as_Service sv)) (sv_keyring (as_Service sv)) (as_unmarshal_setup sv) (rq_PostForm req ''setup_state'') (setup_aad sv clientID) of
       Inl _ \<Rightarrow> None
     | Inr state \<Rightarrow> if ss_Type state \<noteq> setupStateType \<or> ss_ClientID state \<noteq> clientID \<or> \<not> ss_ExpiresAt state > e_now env then None else Some state)"

definition selectCredential :: "request_env \<Rightarrow> request \<Rightarrow> setup_state \<Rightarrow> credential \<Rightarrow> (credential \<times> string) option" where
  "selectCredential env req state credential =
    (if ss_AllowSuppliedCredential state \<and> rq_PostForm req ''use_supplied_credential'' = ''true''
     then Some (credential, CredentialSourceSupplied)
     else map_option (\<lambda>d. (d, CredentialSourceDedicated)) (e_create env credential (dedicatedTokenName (ss_SetupID state))))"

definition grantCode :: "auth_server \<Rightarrow> request_env \<Rightarrow> request \<Rightarrow> setup_state \<Rightarrow> server_state \<Rightarrow> response \<times> server_state" where
  "grantCode sv env req state s =
    (let credential = \<lparr>Scheme = rq_PostForm req ''credential_scheme'', Token = trim_space (rq_PostForm req ''credential'')\<rparr> in
     if \<not> ValidateForEnvelope credential then renderSetup sv env state ''The InvenTree credential could not be validated.'' s
     else (case e_validate env credential of None \<Rightarrow> renderSetup sv env state ''The InvenTree credential could not be validated.'' s
     | Some subject \<Rightarrow> (case selectCredential env req state credential of
         None \<Rightarrow> renderSetup sv env (state\<lparr>ss_AllowSuppliedCredential := True\<rparr>) ''A dedicated connector token could not be created.'' s
       | Some (selected, source) \<Rightarrow>
         (case IssueAuthorizationCode (as_Service sv) (e_call env) \<lparr>ar_Issuer = as_Issuer sv, ar_Audience = as_Resource sv, ar_Subject = subject,
              ar_ClientID = ss_ClientID state, ar_RedirectURI = ss_RedirectURI state, ar_PKCEChallenge = ss_PKCEChallenge state,
              ar_Scopes = ss_Scopes state, ar_Credential = selected, ar_CredentialSource = source\<rparr> (st_codes s) of
            (Inl _, codes) \<Rightarrow> (HTTPError 400 ''Authorization could not be completed'', s\<lparr>st_codes := codes\<rparr>)
          | (Inr code, codes) \<Rightarrow> (redirectAuthorizationCode sv (ss_RedirectURI state) (ss_State state) code, s\<lparr>st_codes := codes\<rparr>)))))"

definition completeAuthorization :: "auth_server \<Rightarrow> request_env \<Rightarrow> request \<Rightarrow> server_state \<Rightarrow> response \<times> server_state" where
  "completeAuthorization sv env req s0 = (case allow env req s0 of (ok, s) \<Rightarrow>
     if \<not> ok then (HTTPError 429 ''Too many setup attempts'', s)
     else if \<not> isFormRequest req then (HTTPError 415 ''Invalid setup submission'', s)
     else if \<not> rq_ParseForm req then (HTTPError 400 ''Invalid setup submission'', s)
     else (case allowClient sv env (rq_PostForm req ''client_id'') s of (ok, s) \<Rightarrow>
       if \<not> ok then (HTTPError 429 ''Too many setup attempts'', s)
       else (case openSetup sv env req of None \<Rightarrow> (HTTPError 400 ''Invalid or expired setup session'', s)
       | Some state \<Rightarrow>
         if \<not> validSetupCSRF (sv_sha256 (as_Service sv)) req state then (HTTPError 403 ''Invalid setup session'', s)
         else (case code_Consume (e_consume1 env) (e_consume2 env) (ss_SetupID state) (st_setup s) of
           (Inl _, store) \<Rightarrow> (HTTPError 400 ''Invalid or expired setup session'', s\<lparr>st_setup := store\<rparr>)
         | (Inr _, store) \<Rightarrow> (let s = s\<lparr>st_setup := store\<rparr> in
             if rq_PostForm req ''cancel'' = ''true'' then (redirectAuthorizationError sv (ss_RedirectURI state) (ss_State state) ''access_denied'', s)
             else grantCode sv env req state s)))))"

definition handleAuthorize :: "auth_server \<Rightarrow> request_env \<Rightarrow> request \<Rightarrow> server_state \<Rightarrow> response \<times> server_state" where
  "handleAuthorize sv env req s = (if rq_Method req = ''GET'' then beginAuthorization sv env req s
     else if rq_Method req = ''POST'' then completeAuthorization sv env req s else (MethodNotAllowed, s))"

section \<open>The token endpoint\<close>

definition token_metadata :: "auth_server \<Rightarrow> request_env \<Rightarrow> request \<Rightarrow> client_error + client_metadata" where
  "token_metadata sv env req = (let clientID = rq_PostForm req ''client_id'' in
     if rq_PostForm req ''grant_type'' = ''authorization_code''
     then fst (FetchAndValidate (as_fetcher sv) (e_web env) (e_hops env) clientID (rq_PostForm req ''redirect_uri''))
     else fst (Fetch (as_fetcher sv) (e_web env) (e_hops env) clientID))"

definition grantToken :: "auth_server \<Rightarrow> request_env \<Rightarrow> request \<Rightarrow> server_state \<Rightarrow> response \<times> server_state" where
  "grantToken sv env req s =
    (let aad = \<lparr>Issuer = as_Issuer sv, Audience = as_Resource sv, ClientID = rq_PostForm req ''client_id'', Type = ''''\<rparr>;
         respond = (\<lambda>r s. (case r of Inl _ \<Rightarrow> OAuthError 400 ''invalid_grant''
           | Inr pair \<Rightarrow> TokenResponse pair (max 0 ((AccessExpiresAt pair - e_pair_now env) div 1000000000)), s)) in
     if rq_PostForm req ''grant_type'' = ''authorization_code'' then
       (case ExchangeAuthorizationCode (as_Service sv) (e_call env) (rq_PostForm req ''code'') aad (rq_PostForm req ''redirect_uri'')
          (rq_PostForm req ''code_verifier'') (st_codes s) of (r, codes) \<Rightarrow> respond r (s\<lparr>st_codes := codes\<rparr>))
     else if rq_PostForm req ''grant_type'' = ''refresh_token'' then
       respond (Refresh (as_Service sv) (e_call env) (rq_PostForm req ''refresh_token'') aad) s
     else (OAuthError 400 ''unsupported_grant_type'', s))"

definition handleToken :: "auth_server \<Rightarrow> request_env \<Rightarrow> request \<Rightarrow> server_state \<Rightarrow> response \<times> server_state" where
  "handleToken sv env req s0 = (if rq_Method req \<noteq> ''POST'' then (MethodNotAllowed, s0) else
     (case allow env req s0 of (ok, s) \<Rightarrow>
     if \<not> ok then (OAuthError 429 ''temporarily_unavailable'', s)
     else if \<not> isFormRequest req then (OAuthError 415 ''invalid_request'', s)
     else if \<not> rq_ParseForm req then (OAuthError 400 ''invalid_request'', s)
     else (let clientID = rq_PostForm req ''client_id'' in
       case allowClient sv env clientID s of (ok, s) \<Rightarrow>
       if \<not> ok then (OAuthError 429 ''temporarily_unavailable'', s)
       else (case token_metadata sv env req of Inl _ \<Rightarrow> (OAuthError 401 ''invalid_client'', s)
       | Inr metadata \<Rightarrow> (case Verify (as_verifier sv) (e_verify env) clientID metadata (rq_PostForm req ''client_assertion_type'')
             (rq_PostForm req ''client_assertion'') (st_replay s) of (verified, replay) \<Rightarrow>
           (let s = s\<lparr>st_replay := replay\<rparr> in
            if \<not> verified then (OAuthError 401 ''invalid_client'', s)
            else if rq_PostForm req ''resource'' \<noteq> as_Resource sv then (OAuthError 400 ''invalid_target'', s)
            else grantToken sv env req s))))))"

section \<open>Registration and metadata\<close>

text \<open>The issuer URL's scheme, host and path come from url.Parse; with_path is the issuer with its path
  replaced and its query and fragment dropped.\<close>

definition paths :: "(string \<Rightarrow> (string \<times> string \<times> string) option) \<Rightarrow> auth_server \<Rightarrow> (string \<times> string \<times> string) option" where
  "paths parse sv = (case parse (as_Issuer sv) of None \<Rightarrow> None
   | Some (scheme, host, path) \<Rightarrow> if scheme = '''' \<or> host = '''' then None
       else Some (''/.well-known/oauth-authorization-server'' @ trim_suffix path ''/'', as_AuthorizePath sv, as_TokenPath sv))"

record server_metadata =
  md_Issuer :: string
  md_AuthorizationEndpoint :: string
  md_TokenEndpoint :: string
  md_ClientIDMetadataDocumentSupported :: bool
  md_ResponseTypesSupported :: "string list"
  md_GrantTypesSupported :: "string list"
  md_CodeChallengeMethodsSupported :: "string list"
  md_TokenEndpointAuthMethodsSupported :: "string list"
  md_ScopesSupported :: "string list"

text \<open>The result is the status and, on success, the document.\<close>

definition handleMetadata :: "(string \<Rightarrow> (string \<times> string \<times> string) option) \<Rightarrow> (string \<Rightarrow> string \<Rightarrow> string) \<Rightarrow> auth_server \<Rightarrow> string \<Rightarrow>
    nat \<times> server_metadata option" where
  "handleMetadata parse with_path sv meth = (if meth \<noteq> ''GET'' then (405, None) else
     (case paths parse sv of None \<Rightarrow> (500, None)
      | Some (_, authorizePath, tokenPath) \<Rightarrow> (200, Some \<lparr>md_Issuer = as_Issuer sv,
          md_AuthorizationEndpoint = with_path (as_Issuer sv) authorizePath, md_TokenEndpoint = with_path (as_Issuer sv) tokenPath,
          md_ClientIDMetadataDocumentSupported = True, md_ResponseTypesSupported = [''code''],
          md_GrantTypesSupported = [''authorization_code'', ''refresh_token''], md_CodeChallengeMethodsSupported = [''S256''],
          md_TokenEndpointAuthMethodsSupported = [''private_key_jwt''], md_ScopesSupported = as_Scopes sv\<rparr>)))"

text \<open>Register: the three paths, the token endpoint assertions must name, and the setup store.\<close>

definition Register :: "(string \<Rightarrow> (string \<times> string \<times> string) option) \<Rightarrow> (string \<Rightarrow> string \<Rightarrow> string) \<Rightarrow> bool \<Rightarrow> auth_server \<Rightarrow> code_store option \<Rightarrow>
    (auth_server \<times> code_store \<times> string list) option" where
  "Register parse with_path broker_set sv store =
    (if as_Issuer sv = '''' \<or> as_Resource sv = '''' \<or> as_AuthorizePath sv = '''' \<or> as_TokenPath sv = '''' \<or> \<not> broker_set then None
     else (case paths parse sv of None \<Rightarrow> None
     | Some (metadataPath, authorizePath, tokenPath) \<Rightarrow>
         Some (if pv_TokenEndpoint (as_verifier sv) = '''' then sv\<lparr>as_verifier := (as_verifier sv)\<lparr>pv_TokenEndpoint := with_path (as_Issuer sv) tokenPath\<rparr>\<rparr> else sv,
           (case store of None \<Rightarrow> NewCodeStore 1024 | Some st \<Rightarrow> st), [metadataPath, authorizePath, tokenPath])))"

end
