(* ===== verification/OAuth_Consent.thy ===== *)
theory OAuth_Consent
  imports OAuth_Server
begin

text \<open>
  Properties of the authorization server over whole runs of requests: which authorization request a
  code redirect answers, and what the token endpoint requires.
\<close>

section \<open>Runs\<close>

datatype endpoint = AuthorizeEndpoint | TokenEndpoint

type_synonym event = "endpoint \<times> request_env \<times> request"

definition serve :: "auth_server \<Rightarrow> event \<Rightarrow> server_state \<Rightarrow> response \<times> server_state" where
  "serve sv ev s = (case ev of (AuthorizeEndpoint, env, req) \<Rightarrow> handleAuthorize sv env req s
     | (TokenEndpoint, env, req) \<Rightarrow> handleToken sv env req s)"

fun states :: "auth_server \<Rightarrow> event list \<Rightarrow> server_state \<Rightarrow> nat \<Rightarrow> server_state" where
  "states sv evs s 0 = s"
| "states sv evs s (Suc n) = snd (serve sv (evs ! n) (states sv evs s n))"

definition answer :: "auth_server \<Rightarrow> event list \<Rightarrow> server_state \<Rightarrow> nat \<Rightarrow> response" where
  "answer sv evs s n = fst (serve sv (evs ! n) (states sv evs s n))"

section \<open>What a page carries\<close>

definition same_request :: "setup_state \<Rightarrow> setup_state \<Rightarrow> bool" where
  "same_request a b \<longleftrightarrow> ss_ClientID a = ss_ClientID b \<and> ss_RedirectURI a = ss_RedirectURI b \<and> ss_State a = ss_State b \<and>
     ss_PKCEChallenge a = ss_PKCEChallenge b \<and> ss_Scopes a = ss_Scopes b \<and> ss_ExpiresAt a = ss_ExpiresAt b"

definition page_of :: "auth_server \<Rightarrow> request_env \<Rightarrow> setup_page \<Rightarrow> setup_state \<Rightarrow> bool" where
  "page_of sv env pg st \<longleftrightarrow> Seal (sv_aead (as_Service sv)) (sv_keyring (as_Service sv)) (e_nonce env) (as_marshal_setup sv)
      (setup_aad sv (ss_ClientID st)) st = Inr (pg_SetupState pg) \<and>
     ss_CSRFHash st = raw_encode alpha_url (sv_sha256 (as_Service sv) (pg_CSRF pg)) \<and> pg_AllowFallback pg = ss_AllowSuppliedCredential st"

text \<open>The authorization request behind a setup state: a GET whose client metadata was fetched and checked.\<close>

definition begun :: "auth_server \<Rightarrow> event \<Rightarrow> setup_state \<Rightarrow> bool" where
  "begun sv ev st \<longleftrightarrow> (case ev of (ep, env, req) \<Rightarrow> ep = AuthorizeEndpoint \<and> rq_Method req = ''GET'' \<and>
     rq_Query req ''client_id'' = ss_ClientID st \<and> rq_Query req ''redirect_uri'' = ss_RedirectURI st \<and> rq_Query req ''state'' = ss_State st \<and>
     rq_Query req ''code_challenge'' = ss_PKCEChallenge st \<and> rq_Query req ''code_challenge_method'' = ''S256'' \<and>
     rq_Query req ''resource'' = as_Resource sv \<and> validPKCEChallenge (ss_PKCEChallenge st) \<and>
     ss_Scopes st = str_fields (rq_Query req ''scope'') \<and> ss_Scopes st \<noteq> [] \<and> set (ss_Scopes st) \<subseteq> set (as_Scopes sv) \<and>
     (\<exists>m. fst (FetchAndValidate (as_fetcher sv) (e_web env) (e_hops env) (ss_ClientID st) (ss_RedirectURI st)) = Inr m))"

lemma begun_same: "same_request a b \<Longrightarrow> begun sv ev a = begun sv ev b"
  by (simp add: begun_def same_request_def)

lemma renderSetup_page:
  assumes "renderSetup sv env st0 msg s = (SetupPage pg, s')"
  shows "\<exists>st idb. page_of sv env pg st \<and> same_request st st0 \<and> e_setup_id env = Some idb \<and> ss_SetupID st = raw_encode alpha_url idb"
proof -
  obtain cb idb where c: "e_csrf env = Some cb" "e_setup_id env = Some idb" using assms by (auto simp: renderSetup_def split: option.splits)
  define st where "st = st0\<lparr>ss_SetupID := raw_encode alpha_url idb, ss_CSRFHash := raw_encode alpha_url (sv_sha256 (as_Service sv) (raw_encode alpha_url cb))\<rparr>"
  have "page_of sv env pg st" using assms c by (auto simp: renderSetup_def Let_def page_of_def st_def split: prod.splits sum.splits)
  moreover have "same_request st st0" by (simp add: same_request_def st_def)
  ultimately show ?thesis using c by (auto simp: st_def)
qed

lemma renderSetup_other:
  "renderSetup sv env st0 msg s = (r, s') \<Longrightarrow> r \<noteq> RedirectCode u a c \<and> r \<noteq> RedirectError u a c \<and> r \<noteq> TokenResponse p x \<and> st_codes s' = st_codes s \<and> st_replay s' = st_replay s"
  by (auto simp: renderSetup_def Let_def split: option.splits prod.splits sum.splits)

lemma parseScopes_ok: "parseScopes raw supported = Some sc \<Longrightarrow> sc = str_fields raw \<and> sc \<noteq> [] \<and> set sc \<subseteq> set supported"
  by (auto simp: parseScopes_def Let_def list_ex_iff split: if_splits)

lemma begin_page:
  assumes "beginAuthorization sv env req s = (SetupPage pg, s')" "rq_Method req = ''GET''"
  shows "\<exists>st. page_of sv env pg st \<and> begun sv (AuthorizeEndpoint, env, req) st"
proof -
  let ?q = "rq_Query req"
  obtain m scopes s1 where q: "validPKCEChallenge (?q ''code_challenge'')" "?q ''code_challenge_method'' = ''S256''" "?q ''resource'' = as_Resource sv"
      "fst (FetchAndValidate (as_fetcher sv) (e_web env) (e_hops env) (?q ''client_id'') (?q ''redirect_uri'')) = Inr m"
      "parseScopes (?q ''scope'') (as_Scopes sv) = Some scopes"
      "renderSetup sv env (requested_setup sv env ?q scopes) '''' s1 = (SetupPage pg, s')"
    using assms(1) by (auto simp: beginAuthorization_def Let_def split: if_splits prod.splits sum.splits option.splits)
  obtain st where st: "page_of sv env pg st" "same_request st (requested_setup sv env ?q scopes)" using renderSetup_page[OF q(6)] by blast
  have "begun sv (AuthorizeEndpoint, env, req) (requested_setup sv env ?q scopes)"
    using q(1-4) assms(2) parseScopes_ok[OF q(5)] by (auto simp: begun_def requested_setup_def)
  then show ?thesis using st begun_same by blast
qed

lemma begin_no_redirect: "beginAuthorization sv env req s = (r, s') \<Longrightarrow> r \<noteq> RedirectCode u a c \<and> r \<noteq> RedirectError u a c"
  by (auto simp: beginAuthorization_def Let_def split: if_splits prod.splits sum.splits option.splits dest: renderSetup_other)

text \<open>A submission that gets past the setup checks.\<close>

lemma complete_cases:
  assumes "completeAuthorization sv env req s = (r, s')" "(\<exists>pg. r = SetupPage pg) \<or> (\<exists>u a c. r = RedirectCode u a c) \<or> (\<exists>u a c. r = RedirectError u a c)"
  obtains st s1 where "openSetup sv env req = Some st" "validSetupCSRF (sv_sha256 (as_Service sv)) req st"
    "st_setup s1 = st_setup s" "st_codes s1 = st_codes s" "is_ok (fst (code_Consume (e_consume1 env) (e_consume2 env) (ss_SetupID st) (st_setup s)))"
    "(r, s') = (if rq_PostForm req ''cancel'' = ''true'' then
        (redirectAuthorizationError sv (ss_RedirectURI st) (ss_State st) ''access_denied'', s1\<lparr>st_setup := snd (code_Consume (e_consume1 env) (e_consume2 env) (ss_SetupID st) (st_setup s))\<rparr>)
      else grantCode sv env req st (s1\<lparr>st_setup := snd (code_Consume (e_consume1 env) (e_consume2 env) (ss_SetupID st) (st_setup s))\<rparr>))"
proof -
  obtain ok1 s1 where a1: "allow env req s = (ok1, s1)" by fastforce
  obtain ok2 s2 where a2: "allowClient sv env (rq_PostForm req ''client_id'') s1 = (ok2, s2)" by fastforce
  have keep: "st_setup s1 = st_setup s" "st_codes s1 = st_codes s" "st_setup s2 = st_setup s1" "st_codes s2 = st_codes s1"
    using a1 a2 by (auto simp: allow_def allowClient_def split: prod.splits if_splits)
  obtain st where st: "openSetup sv env req = Some st" "validSetupCSRF (sv_sha256 (as_Service sv)) req st"
    using assms a1 a2 by (auto simp: completeAuthorization_def split: if_splits option.splits)
  obtain q store where c: "code_Consume (e_consume1 env) (e_consume2 env) (ss_SetupID st) (st_setup s) = (q, store)" by fastforce
  have q: "is_ok q" using assms a1 a2 st c keep by (cases q) (auto simp: completeAuthorization_def split: if_splits)
  show ?thesis
    using assms a1 a2 st c keep q
    by (intro that[of st s2]) (auto simp: completeAuthorization_def is_ok_iff Let_def split: if_splits)
qed

lemma grantCode_page:
  assumes "grantCode sv env req st s = (SetupPage pg, s')"
  shows "\<exists>st'. page_of sv env pg st' \<and> same_request st' st"
proof -
  have *: "same_request st' (st\<lparr>ss_AllowSuppliedCredential := b\<rparr>) = same_request st' st" for st' b by (simp add: same_request_def)
  from assms obtain b msg s1 where "renderSetup sv env (st\<lparr>ss_AllowSuppliedCredential := b\<rparr>) msg s1 = (SetupPage pg, s') \<or> renderSetup sv env st msg s1 = (SetupPage pg, s')"
    by (auto simp: grantCode_def Let_def redirectAuthorizationCode_def split: if_splits option.splits prod.splits sum.splits)
  then show ?thesis using renderSetup_page * by blast
qed

definition posted_credential :: "request \<Rightarrow> credential" where
  "posted_credential req = \<lparr>Scheme = rq_PostForm req ''credential_scheme'', Token = trim_space (rq_PostForm req ''credential'')\<rparr>"

definition granted_request :: "auth_server \<Rightarrow> setup_state \<Rightarrow> string \<Rightarrow> credential \<Rightarrow> string \<Rightarrow> authorization_request" where
  "granted_request sv st subject selected source = \<lparr>ar_Issuer = as_Issuer sv, ar_Audience = as_Resource sv, ar_Subject = subject,
     ar_ClientID = ss_ClientID st, ar_RedirectURI = ss_RedirectURI st, ar_PKCEChallenge = ss_PKCEChallenge st,
     ar_Scopes = ss_Scopes st, ar_Credential = selected, ar_CredentialSource = source\<rparr>"

lemma grantCode_code:
  assumes "grantCode sv env req st s = (RedirectCode u a code, s')"
  shows "u = ss_RedirectURI st \<and> a = ss_State st \<and> st_setup s' = st_setup s \<and> ValidateForEnvelope (posted_credential req) \<and>
    (\<exists>subject selected source codes. e_validate env (posted_credential req) = Some subject \<and>
      selectCredential env req st (posted_credential req) = Some (selected, source) \<and>
      IssueAuthorizationCode (as_Service sv) (e_call env) (granted_request sv st subject selected source) (st_codes s) = (Inr code, codes))"
  using assms unfolding grantCode_def posted_credential_def[symmetric] granted_request_def[symmetric] Let_def
  by (auto simp: redirectAuthorizationCode_def split: if_splits option.splits prod.splits sum.splits dest: renderSetup_other)

lemma grantCode_no_error: "grantCode sv env req st s \<noteq> (RedirectError u a c, s')"
  by (auto simp: grantCode_def Let_def redirectAuthorizationCode_def split: if_splits option.splits prod.splits sum.splits dest: renderSetup_other)

lemma token_no_page:
  "handleToken sv env req s = (r, s') \<Longrightarrow> r \<noteq> SetupPage pg \<and> r \<noteq> RedirectCode u a c \<and> r \<noteq> RedirectError u a c"
  by (auto simp: handleToken_def grantToken_def Let_def split: if_splits prod.splits sum.splits)

section \<open>The setup store\<close>

definition setup_live :: "server_state \<Rightarrow> string \<Rightarrow> go_time option" where
  "setup_live s = map_of (code_entries (st_setup s))"

definition setup_wf :: "server_state \<Rightarrow> bool" where
  "setup_wf s \<longleftrightarrow> gm_wf (code_entries (st_setup s))"

text \<open>What a request may do to the setup store: no identifier becomes live but one it drew at random.\<close>

definition setup_step :: "request_env \<Rightarrow> server_state \<Rightarrow> server_state \<Rightarrow> bool" where
  "setup_step env s s' \<longleftrightarrow> (setup_wf s \<longrightarrow> setup_wf s' \<and>
     (\<forall>u e. setup_live s' u = Some e \<longrightarrow> setup_live s u = Some e \<or> (\<exists>b. e_setup_id env = Some b \<and> u = raw_encode alpha_url b)))"

lemma setup_step_same: "st_setup s' = st_setup s \<Longrightarrow> setup_step env s s'"
  by (simp add: setup_step_def setup_wf_def setup_live_def)

lemma setup_step_trans: "setup_step env s s1 \<Longrightarrow> setup_step env s1 s2 \<Longrightarrow> setup_step env s s2"
  unfolding setup_step_def by blast

lemma setup_step_render: "renderSetup sv env st msg s = (r, s') \<Longrightarrow> setup_step env s s'"
proof -
  assume r: "renderSetup sv env st msg s = (r, s')"
  show ?thesis
  proof (cases "st_setup s' = st_setup s")
    case True then show ?thesis by (rule setup_step_same)
  next
    case False
    then obtain b e q where "e_setup_id env = Some b" "code_Store (e_store1 env) (e_store2 env) (raw_encode alpha_url b) e (st_setup s) = (q, st_setup s')"
      using r by (auto simp: renderSetup_def Let_def split: option.splits prod.splits sum.splits)
    then show ?thesis using code_Store_laws(1,3)[where s = "st_setup s"]
      unfolding setup_step_def setup_wf_def setup_live_def by blast
  qed
qed

lemma setup_step_grant: "grantCode sv env req st s = (r, s') \<Longrightarrow> setup_step env s s'"
  by (auto simp: grantCode_def Let_def split: if_splits option.splits prod.splits sum.splits
    intro: setup_step_render setup_step_same)

lemma guards_keep:
  "allow env req s = (b, s') \<Longrightarrow> st_setup s' = st_setup s \<and> st_codes s' = st_codes s \<and> st_replay s' = st_replay s"
  "allowClient sv env c s = (b, s') \<Longrightarrow> st_setup s' = st_setup s \<and> st_codes s' = st_codes s \<and> st_replay s' = st_replay s"
  by (auto simp: allow_def allowClient_def split: prod.splits if_splits)

lemma setup_step_consume:
  "code_Consume n1 n2 cid (st_setup s) = (q, store) \<Longrightarrow> setup_step env s (s\<lparr>st_setup := store\<rparr>)"
  using code_Consume_laws(1,2)[where s = "st_setup s"] unfolding setup_step_def setup_wf_def setup_live_def by fastforce

lemma setup_step_complete: "completeAuthorization sv env req s = (r, s') \<Longrightarrow> setup_step env s s'"
proof -
  assume r: "completeAuthorization sv env req s = (r, s')"
  obtain b1 s1 where a1: "allow env req s = (b1, s1)" by fastforce
  obtain b2 s2 where a2: "allowClient sv env (rq_PostForm req ''client_id'') s1 = (b2, s2)" by fastforce
  have k: "setup_step env s s1" "setup_step env s s2" using guards_keep(1)[OF a1] guards_keep(2)[OF a2] by (auto intro: setup_step_same)
  have c: "setup_step env s (s2\<lparr>st_setup := snd (code_Consume n1 n2 cid (st_setup s2))\<rparr>)" for n1 n2 cid
    using setup_step_trans[OF k(2) setup_step_consume[of n1 n2 cid s2]] by (metis prod.collapse)
  show ?thesis
    using r a1 a2 k c by (auto simp: completeAuthorization_def Let_def split: if_splits option.splits prod.splits sum.splits)
      (metis setup_step_trans setup_step_grant snd_conv)+
qed

lemma setup_step_begin: "beginAuthorization sv env req s = (r, s') \<Longrightarrow> setup_step env s s'"
proof -
  assume r: "beginAuthorization sv env req s = (r, s')"
  obtain b1 s1 where a1: "allow env req s = (b1, s1)" by fastforce
  obtain b2 s2 where a2: "allowClient sv env (rq_Query req ''client_id'') s1 = (b2, s2)" by fastforce
  have k: "setup_step env s s1" "setup_step env s s2" using guards_keep(1)[OF a1] guards_keep(2)[OF a2] by (auto intro: setup_step_same)
  show ?thesis
    using r a1 a2 k by (auto simp: beginAuthorization_def Let_def split: if_splits option.splits prod.splits sum.splits
      intro: setup_step_trans setup_step_render)
qed

lemma setup_step_token: "handleToken sv env req s = (r, s') \<Longrightarrow> st_setup s' = st_setup s"
proof -
  assume r: "handleToken sv env req s = (r, s')"
  obtain b1 s1 where a1: "allow env req s = (b1, s1)" by fastforce
  obtain b2 s2 where a2: "allowClient sv env (rq_PostForm req ''client_id'') s1 = (b2, s2)" by fastforce
  show ?thesis using r a1 a2 guards_keep(1)[OF a1] guards_keep(2)[OF a2]
    by (auto simp: handleToken_def grantToken_def Let_def split: if_splits option.splits prod.splits sum.splits)
qed

definition event_env :: "event \<Rightarrow> request_env" where "event_env ev = fst (snd ev)"

lemma setup_step_serve: "setup_step (event_env ev) s (snd (serve sv ev s))"
proof -
  obtain ep env req where ev: "ev = (ep, env, req)" by (cases ev)
  obtain r s' where r: "serve sv ev s = (r, s')" by fastforce
  show ?thesis
  proof (cases ep)
    case AuthorizeEndpoint
    then show ?thesis using r ev by (auto simp: serve_def event_env_def handleAuthorize_def setup_step_same split: if_splits
      dest: setup_step_begin setup_step_complete)
  next
    case TokenEndpoint
    then show ?thesis using r ev setup_step_token[of sv env req s r s'] by (auto simp: serve_def event_env_def setup_step_same)
  qed
qed

lemma setup_wf_states: "setup_wf s \<Longrightarrow> setup_wf (states sv evs s n)"
  by (induction n) (use setup_step_serve in \<open>auto simp: setup_step_def\<close>)

lemma setup_dead:
  assumes "setup_wf s" "setup_live (states sv evs s n) u = None" "n \<le> k"
    "\<forall>i. n \<le> i \<longrightarrow> i < k \<longrightarrow> (\<forall>b. e_setup_id (event_env (evs ! i)) = Some b \<longrightarrow> raw_encode alpha_url b \<noteq> u)"
  shows "setup_live (states sv evs s k) u = None"
  using assms(3,4)
proof (induction k)
  case (Suc k)
  show ?case
  proof (cases "n = Suc k")
    case False
    then have dead: "setup_live (states sv evs s k) u = None" using Suc by simp
    show ?thesis
    proof (rule ccontr)
      assume "\<not> ?thesis"
      then obtain e where "setup_live (snd (serve sv (evs ! k) (states sv evs s k))) u = Some e" by auto
      then obtain b where "e_setup_id (event_env (evs ! k)) = Some b" "u = raw_encode alpha_url b"
        using setup_step_serve[of "evs ! k" "states sv evs s k" sv] setup_wf_states[OF assms(1)] dead unfolding setup_step_def by fastforce
      then show False using Suc.prems(2)[rule_format, of k b] Suc.prems(1) False by simp
    qed
  qed (use assms(2) in simp)
qed (use assms(2) in simp)

section \<open>Which request a code answers\<close>

text \<open>What the server relies on: the laws of the token service, a JSON round trip of the setup state,
  nonces of 12 bytes, and the authenticity of AES-GCM (only setup tokens of its own pages open).\<close>

definition server_laws :: "auth_server \<Rightarrow> event list \<Rightarrow> bool" where
  "server_laws sv evs \<longleftrightarrow> codec_laws (as_Service sv) \<and> (\<forall>v. \<exists>p. as_marshal_setup sv v = Inr p \<and> as_unmarshal_setup sv p = Some v) \<and>
     (\<forall>ev\<in>set evs. nonces_ok (e_call (event_env ev)) \<and> (\<forall>x. e_nonce (event_env ev) = Inr x \<longrightarrow> length x = nonceBytes))"

definition unforged :: "auth_server \<Rightarrow> event list \<Rightarrow> server_state \<Rightarrow> bool" where
  "unforged sv evs s \<longleftrightarrow> (\<forall>n<length evs. case evs ! n of (ep, env, req) \<Rightarrow> ep = AuthorizeEndpoint \<longrightarrow> openSetup sv env req \<noteq> None \<longrightarrow>
     (\<exists>j<n. \<exists>pg. answer sv evs s j = SetupPage pg \<and> pg_SetupState pg = rq_PostForm req ''setup_state''))"

lemma openSetup_Some:
  "openSetup sv env req = Some st \<Longrightarrow> Open (sv_aead (as_Service sv)) (sv_keyring (as_Service sv)) (as_unmarshal_setup sv)
     (rq_PostForm req ''setup_state'') (setup_aad sv (rq_PostForm req ''client_id'')) = Inr st \<and> ss_ClientID st = rq_PostForm req ''client_id'' \<and> e_now env < ss_ExpiresAt st"
  by (auto simp: openSetup_def Let_def split: sum.splits if_splits)

lemma page_opens_to_itself:
  assumes "server_laws sv evs" "ev \<in> set evs" "page_of sv (event_env ev) pg st" "rq_PostForm req ''setup_state'' = pg_SetupState pg" "openSetup sv env req = Some st'"
  shows "st' = st"
proof (rule Open_of_Seal(2)[where marshal = "as_marshal_setup sv" and rnd = "e_nonce (event_env ev)"])
  show "keyring_ok (sv_keyring (as_Service sv))" "aead_laws (sv_aead (as_Service sv))" "\<exists>p. as_marshal_setup sv st = Inr p \<and> as_unmarshal_setup sv p = Some st"
    "\<forall>n. e_nonce (event_env ev) = Inr n \<longrightarrow> length n = nonceBytes"
    using assms(1,2) by (auto simp: server_laws_def codec_laws_def)
  show "Seal (sv_aead (as_Service sv)) (sv_keyring (as_Service sv)) (e_nonce (event_env ev)) (as_marshal_setup sv) (setup_aad sv (ss_ClientID st)) st = Inr (pg_SetupState pg)"
    using assms(3) by (simp add: page_of_def)
  show "Open (sv_aead (as_Service sv)) (sv_keyring (as_Service sv)) (as_unmarshal_setup sv) (pg_SetupState pg) (setup_aad sv (rq_PostForm req ''client_id'')) = Inr st'"
    using openSetup_Some[OF assms(5)] assms(4) by simp
qed

lemma page_origin:
  assumes "server_laws sv evs" "unforged sv evs s" "n < length evs" "answer sv evs s n = SetupPage pg"
  shows "\<exists>st m. m \<le> n \<and> page_of sv (event_env (evs ! n)) pg st \<and> begun sv (evs ! m) st"
  using assms(3,4)
proof (induction n arbitrary: pg rule: less_induct)
  case (less n)
  obtain ep env req where ev: "evs ! n = (ep, env, req)" by (cases "evs ! n")
  obtain s' where r: "serve sv (evs ! n) (states sv evs s n) = (SetupPage pg, s')"
    using less.prems(2) by (cases "serve sv (evs ! n) (states sv evs s n)") (auto simp: answer_def)
  have ep: "ep = AuthorizeEndpoint" using r ev token_no_page by (cases ep) (auto simp: serve_def, blast)
  show ?case
  proof (cases "rq_Method req = ''GET''")
    case True
    then have "beginAuthorization sv env req (states sv evs s n) = (SetupPage pg, s')" using r ev ep by (simp add: serve_def handleAuthorize_def)
    from begin_page[OF this True] obtain st where "page_of sv env pg st" "begun sv (AuthorizeEndpoint, env, req) st" by blast
    then show ?thesis using ev ep by (intro exI[of _ st] exI[of _ n]) (simp add: event_env_def)
  next
    case False
    then have c: "completeAuthorization sv env req (states sv evs s n) = (SetupPage pg, s')"
      using r ev ep by (auto simp: serve_def handleAuthorize_def split: if_splits)
    from c show ?thesis
    proof (rule complete_cases)
      fix st s1
      assume st: "openSetup sv env req = Some st" and g: "(SetupPage pg, s') = (if rq_PostForm req ''cancel'' = ''true'' then
        (redirectAuthorizationError sv (ss_RedirectURI st) (ss_State st) ''access_denied'', s1\<lparr>st_setup := snd (code_Consume (e_consume1 env) (e_consume2 env) (ss_SetupID st) (st_setup (states sv evs s n)))\<rparr>)
      else grantCode sv env req st (s1\<lparr>st_setup := snd (code_Consume (e_consume1 env) (e_consume2 env) (ss_SetupID st) (st_setup (states sv evs s n)))\<rparr>))"
      obtain st' where st': "page_of sv env pg st'" "same_request st' st"
        using g grantCode_page[OF sym] by (fastforce simp: redirectAuthorizationError_def split: if_splits)
      obtain j pj where j: "j < n" "answer sv evs s j = SetupPage pj" "pg_SetupState pj = rq_PostForm req ''setup_state''"
        using assms(2) less.prems(1) st ev ep unfolding unforged_def by fastforce
      obtain sj m where m: "m \<le> j" "page_of sv (event_env (evs ! j)) pj sj" "begun sv (evs ! m) sj"
        using less.IH[OF j(1) _ j(2)] less.prems(1) j(1) by auto
      have "st = sj" using page_opens_to_itself[OF assms(1) _ m(2) _ st] j less.prems(1) by simp
      then have "begun sv (evs ! m) st'" using m(3) st'(2) begun_same by blast
      then show ?thesis using st'(1) m(1) j(1) ev by (intro exI[of _ st'] exI[of _ m]) (simp add: event_env_def)
    qed blast
  qed
qed

lemma Issue_sealed:
  assumes "IssueAuthorizationCode sv env req st = (Inr code, st')" "codec_laws sv" "nonces_ok env"
  shows "\<exists>cid. open_code sv code \<lparr>Issuer = ar_Issuer req, Audience = ar_Audience req, ClientID = ar_ClientID req, Type = ty\<rparr> =
    Inr (code_claims_for sv req cid (now1 env))"
proof -
  obtain cid where "Seal (sv_aead sv) (sv_keyring sv) (nonce1 env) (sv_marshal_code sv)
      \<lparr>Issuer = ar_Issuer req, Audience = ar_Audience req, ClientID = ar_ClientID req, Type = TokenTypeCode\<rparr> (code_claims_for sv req cid (now1 env)) = Inr code"
    using assms(1) by (auto simp: IssueAuthorizationCode_def Let_def split: if_splits option.splits sum.splits prod.splits)
  from Open_of_Seal(1)[OF _ _ _ _ this, of "sv_unmarshal_code sv"] assms(2,3) show ?thesis
    by (auto simp: open_code_def codec_laws_def nonces_ok_def)
qed

text \<open>What the code carries: the request's client, redirect URI, challenge and scopes, and a credential the
  broker accepted: a dedicated one unless the submitted page offered the fallback and it was chosen.\<close>

definition code_carries :: "auth_server \<Rightarrow> request_env \<Rightarrow> request \<Rightarrow> setup_page \<Rightarrow> setup_state \<Rightarrow> string \<Rightarrow> bool" where
  "code_carries sv env req pg st code \<longleftrightarrow> (\<exists>c. open_code (as_Service sv) code
      \<lparr>Issuer = as_Issuer sv, Audience = as_Resource sv, ClientID = ss_ClientID st, Type = ''''\<rparr> = Inr c \<and>
    cc_ClientID c = ss_ClientID st \<and> cc_RedirectURI c = ss_RedirectURI st \<and> cc_PKCEChallenge c = ss_PKCEChallenge st \<and> cc_Scopes c = ss_Scopes st \<and>
    e_validate env (posted_credential req) = Some (cc_Subject c) \<and>
    (cc_CredentialSource c = CredentialSourceDedicated \<and> (\<exists>name. e_create env (posted_credential req) name = Some (cc_Credential c)) \<or>
     cc_CredentialSource c = CredentialSourceSupplied \<and> cc_Credential c = posted_credential req \<and> pg_AllowFallback pg \<and>
       rq_PostForm req ''use_supplied_credential'' = ''true''))"

definition consented_by :: "auth_server \<Rightarrow> event list \<Rightarrow> server_state \<Rightarrow> nat \<Rightarrow> nat \<Rightarrow> nat \<Rightarrow> setup_page \<Rightarrow> setup_state \<Rightarrow> bool" where
  "consented_by sv evs s m j n pg st \<longleftrightarrow> m \<le> j \<and> j < n \<and> begun sv (evs ! m) st \<and> answer sv evs s j = SetupPage pg \<and>
     page_of sv (event_env (evs ! j)) pg st \<and> (case evs ! n of (ep, env, req) \<Rightarrow> ep = AuthorizeEndpoint \<and> rq_Method req = ''POST'' \<and> rq_PostForm req ''setup_state'' = pg_SetupState pg \<and>
       (\<exists>cookie. rq_Cookie req = Some cookie \<and> rq_PostForm req ''csrf'' = cookie \<and>
         sv_sha256 (as_Service sv) cookie = sv_sha256 (as_Service sv) (pg_CSRF pg)) \<and> e_now env < ss_ExpiresAt st)"

lemma redirect_origin:
  assumes laws: "server_laws sv evs" "unforged sv evs s" and n: "n < length evs" "evs ! n = (ep, env, req)"
    and r: "answer sv evs s n = RedirectCode u a code \<or> answer sv evs s n = RedirectError u a code"
  shows "\<exists>m j pg st. consented_by sv evs s m j n pg st \<and> u = ss_RedirectURI st \<and> a = ss_State st \<and> openSetup sv env req = Some st \<and>
    is_ok (fst (code_Consume (e_consume1 env) (e_consume2 env) (ss_SetupID st) (st_setup (states sv evs s n)))) \<and>
    st_setup (states sv evs s (Suc n)) = snd (code_Consume (e_consume1 env) (e_consume2 env) (ss_SetupID st) (st_setup (states sv evs s n))) \<and>
    (answer sv evs s n = RedirectCode u a code \<longrightarrow> code_carries sv env req pg st code)"
proof -
  obtain r s' where serve: "serve sv (evs ! n) (states sv evs s n) = (r, s')" by fastforce
  then have ans: "answer sv evs s n = r" and nxt: "states sv evs s (Suc n) = s'" by (simp_all add: answer_def)
  have ep: "ep = AuthorizeEndpoint" using serve ans r n(2) token_no_page[of sv env req "states sv evs s n" r s'] by (cases ep) (auto simp: serve_def)
  have post: "rq_Method req = ''POST'' \<and> completeAuthorization sv env req (states sv evs s n) = (r, s')"
    using serve ans r n(2) ep begin_no_redirect[of sv env req "states sv evs s n" r s'] by (auto simp: serve_def handleAuthorize_def split: if_splits)
  then have c: "completeAuthorization sv env req (states sv evs s n) = (r, s')" by simp
  from c show ?thesis
  proof (rule complete_cases)
    show "(\<exists>pg. r = SetupPage pg) \<or> (\<exists>u a c. r = RedirectCode u a c) \<or> (\<exists>u a c. r = RedirectError u a c)" using r ans by blast
  next
    fix st :: setup_state and s1 :: server_state
    let ?c = "code_Consume (e_consume1 env) (e_consume2 env) (ss_SetupID st) (st_setup (states sv evs s n))"
    assume st: "openSetup sv env req = Some st" and csrf: "validSetupCSRF (sv_sha256 (as_Service sv)) req st" and ok: "is_ok (fst ?c)"
      and g: "(r, s') = (if rq_PostForm req ''cancel'' = ''true'' then (redirectAuthorizationError sv (ss_RedirectURI st) (ss_State st) ''access_denied'', s1\<lparr>st_setup := snd ?c\<rparr>)
        else grantCode sv env req st (s1\<lparr>st_setup := snd ?c\<rparr>))"
    obtain j pj where j: "j < n" "answer sv evs s j = SetupPage pj" "pg_SetupState pj = rq_PostForm req ''setup_state''"
      using laws(2) n st ep unfolding unforged_def by fastforce
    obtain sj m where m: "m \<le> j" "page_of sv (event_env (evs ! j)) pj sj" "begun sv (evs ! m) sj"
      using page_origin[OF laws _ j(2)] j(1) n(1) by auto
    have eq: "sj = st" using page_opens_to_itself[OF laws(1) _ m(2) _ st] j n(1) by simp
    have hash: "raw_decode alpha_url (ss_CSRFHash st) = Some (sv_sha256 (as_Service sv) (pg_CSRF pj))"
      using m(2) eq by (simp add: page_of_def raw_roundtrip[OF good_alphas(2)])
    have consent: "consented_by sv evs s m j n pj st"
      using m j post csrf hash openSetup_Some[OF st] eq n(2) ep by (auto simp: consented_by_def validSetupCSRF_def split: option.splits)
    have main: "u = ss_RedirectURI st \<and> a = ss_State st \<and> st_setup s' = snd ?c \<and> (r = RedirectCode u a code \<longrightarrow> code_carries sv env req pj st code)"
    proof (cases "rq_PostForm req ''cancel'' = ''true''")
      case True
      then show ?thesis using g r ans by (auto simp: redirectAuthorizationError_def split: if_splits)
    next
      case False
      then have gc: "grantCode sv env req st (s1\<lparr>st_setup := snd ?c\<rparr>) = (RedirectCode u a code, s')"
        using g r ans grantCode_no_error by (metis (full_types))
      from grantCode_code[OF gc] obtain subject selected source codes where i: "u = ss_RedirectURI st" "a = ss_State st" "st_setup s' = snd ?c"
          "e_validate env (posted_credential req) = Some subject" "selectCredential env req st (posted_credential req) = Some (selected, source)"
          "IssueAuthorizationCode (as_Service sv) (e_call env) (granted_request sv st subject selected source) (st_codes (s1\<lparr>st_setup := snd ?c\<rparr>)) = (Inr code, codes)"
        by auto
      have cl: "codec_laws (as_Service sv)" "nonces_ok (e_call env)"
        using laws(1) n nth_mem[OF n(1)] by (force simp: server_laws_def event_env_def)+
      from Issue_sealed[OF i(6) cl, of "''''"] obtain cid where "open_code (as_Service sv) code \<lparr>Issuer = as_Issuer sv, Audience = as_Resource sv, ClientID = ss_ClientID st, Type = ''''\<rparr> =
          Inr (code_claims_for (as_Service sv) (granted_request sv st subject selected source) cid (now1 (e_call env)))"
        by (auto simp: granted_request_def)
      moreover have "pg_AllowFallback pj = ss_AllowSuppliedCredential st" using m(2) eq by (simp add: page_of_def)
      ultimately have "code_carries sv env req pj st code" using i(4,5)
        by (auto simp: code_carries_def code_claims_for_def granted_request_def selectCredential_def split: if_splits)
      then show ?thesis using i by simp
    qed
    then show ?thesis using consent st ok ans nxt by auto
  qed
qed

lemma begun_registered:
  assumes "begun sv ev st"
  shows "ss_ClientID st \<in> set (mf_AllowedClientIDs (as_fetcher sv)) \<and> (ss_RedirectURI st = '''' \<or>
    (\<exists>meta. fst (FetchAndValidate (as_fetcher sv) (e_web (event_env ev)) (e_hops (event_env ev)) (ss_ClientID st) (ss_RedirectURI st)) = Inr meta \<and>
      ss_RedirectURI st \<in> set (cm_RedirectURIs meta)))"
proof -
  obtain meta where "fst (FetchAndValidate (as_fetcher sv) (e_web (event_env ev)) (e_hops (event_env ev)) (ss_ClientID st) (ss_RedirectURI st)) = Inr meta"
    using assms by (auto simp: begun_def event_env_def split: prod.splits)
  then obtain us where "FetchAndValidate (as_fetcher sv) (e_web (event_env ev)) (e_hops (event_env ev)) (ss_ClientID st) (ss_RedirectURI st) = (Inr meta, us)"
    by (cases "FetchAndValidate (as_fetcher sv) (e_web (event_env ev)) (e_hops (event_env ev)) (ss_ClientID st) (ss_RedirectURI st)") auto
  from this Fetch_ok[OF this] show ?thesis by auto
qed


section \<open>The token endpoint\<close>

lemma grantToken_ok:
  assumes "grantToken sv env req s = (TokenResponse pair x, s')"
  shows "let aad = \<lparr>Issuer = as_Issuer sv, Audience = as_Resource sv, ClientID = rq_PostForm req ''client_id'', Type = ''''\<rparr> in
     (rq_PostForm req ''grant_type'' = ''authorization_code'' \<and>
       ExchangeAuthorizationCode (as_Service sv) (e_call env) (rq_PostForm req ''code'') aad (rq_PostForm req ''redirect_uri'') (rq_PostForm req ''code_verifier'') (st_codes s)
         = (Inr pair, st_codes s')) \<or>
     (rq_PostForm req ''grant_type'' = ''refresh_token'' \<and> st_codes s' = st_codes s \<and>
       Refresh (as_Service sv) (e_call env) (rq_PostForm req ''refresh_token'') aad = Inr pair)"
  using assms by (auto simp: grantToken_def Let_def split: if_splits prod.splits sum.splits)

text \<open>C30: The token endpoint returns tokens only after verifying the client's assertion against the client's
  freshly fetched metadata, which makes the assertion's identifier used, and only for the right resource; the
  tokens are those of an authorization code exchanged with its redirect URI and PKCE verifier, or of a
  refresh, which touches no code.\<close>

theorem token_endpoint_authenticated:
  assumes "handleToken sv env req s = (TokenResponse pair x, s')" "jwt_laws signs (pv_jwt (as_verifier sv))" "replay_ok (st_replay s)"
  shows "\<exists>m c e. token_metadata sv env req = Inr m \<and>
    assertion_sound signs (as_verifier sv) \<lparr>ac_env = e_verify env, ac_client = rq_PostForm req ''client_id'', ac_metadata = m,
      ac_type = rq_PostForm req ''client_assertion_type'', ac_assertion = rq_PostForm req ''client_assertion''\<rparr> c e \<and>
    remembers (replay_key (rq_PostForm req ''client_id'') c) e (st_replay s') \<and>
    rq_PostForm req ''client_id'' \<in> set (mf_AllowedClientIDs (as_fetcher sv)) \<and> rq_PostForm req ''resource'' = as_Resource sv \<and> rq_Method req = ''POST'' \<and>
    (let aad = \<lparr>Issuer = as_Issuer sv, Audience = as_Resource sv, ClientID = rq_PostForm req ''client_id'', Type = ''''\<rparr> in
     (rq_PostForm req ''grant_type'' = ''authorization_code'' \<and>
       ExchangeAuthorizationCode (as_Service sv) (e_call env) (rq_PostForm req ''code'') aad (rq_PostForm req ''redirect_uri'') (rq_PostForm req ''code_verifier'') (st_codes s)
         = (Inr pair, st_codes s')) \<or>
     (rq_PostForm req ''grant_type'' = ''refresh_token'' \<and> st_codes s' = st_codes s \<and>
       Refresh (as_Service sv) (e_call env) (rq_PostForm req ''refresh_token'') aad = Inr pair))"
proof -
  let ?cl = "rq_PostForm req ''client_id''" and ?f = "rq_PostForm req"
  obtain b1 s1 where a1: "allow env req s = (b1, s1)" by fastforce
  obtain b2 s2 where a2: "allowClient sv env ?cl s1 = (b2, s2)" by fastforce
  note keep = guards_keep(1)[OF a1] guards_keep(2)[OF a2]
  obtain m where m: "token_metadata sv env req = Inr m"
    using assms(1) a1 a2 by (auto simp: handleToken_def Let_def split: if_splits sum.splits)
  obtain ok replay where v: "Verify (as_verifier sv) (e_verify env) ?cl m (?f ''client_assertion_type'') (?f ''client_assertion'') (st_replay s) = (ok, replay)"
    by fastforce
  have g: "ok" "?f ''resource'' = as_Resource sv" "rq_Method req = ''POST''" "grantToken sv env req (s2\<lparr>st_replay := replay\<rparr>) = (TokenResponse pair x, s')"
    using assms(1) a1 a2 m v keep by (auto simp: handleToken_def Let_def split: if_splits)
  let ?x = "\<lparr>ac_env = e_verify env, ac_client = ?cl, ac_metadata = m, ac_type = ?f ''client_assertion_type'', ac_assertion = ?f ''client_assertion''\<rparr>"
  obtain c e where ce: "assertion_sound signs (as_verifier sv) ?x c e" "remembers (replay_key ?cl c) e replay"
    using Verify_sound[OF assms(2,3), of ?x replay] v g(1) by auto
  have rp: "st_replay s' = replay" using g(4) by (auto simp: grantToken_def Let_def split: if_splits prod.splits sum.splits)
  have al: "?cl \<in> set (mf_AllowedClientIDs (as_fetcher sv))"
    using m by (auto simp: token_metadata_def Let_def FetchAndValidate_def Fetch_def exactConfigured_iff sum_bind_Inr split: if_splits prod.splits)
  have "st_codes (s2\<lparr>st_replay := replay\<rparr>) = st_codes s" using keep by simp
  with grantToken_ok[OF g(4)] show ?thesis using m ce rp al g(2,3) by auto
qed

end
