(* ===== verification/OAuth_Flow.thy ===== *)
theory OAuth_Flow
  imports OAuth_Service
begin

text \<open>
  The properties of the token service over whole flows: issue, exchange, refresh, verify. A small
  lawful codec of the claims stands in for encoding/json in the witnesses.
\<close>

section \<open>A concrete codec of the claims for the witnesses\<close>

definition enc_str :: "string \<Rightarrow> string" where
  "enc_str s = concat (map (\<lambda>c. [CHR ''+'', c]) s) @ [CHR ''-'']"

fun dec_str :: "string \<Rightarrow> (string \<times> string) option" where
  "dec_str (x # r) = (if x = CHR ''-'' then Some ([], r) else
     (case r of [] \<Rightarrow> None | c # r' \<Rightarrow> (case dec_str r' of None \<Rightarrow> None | Some (s, r2) \<Rightarrow> Some (c # s, r2))))"
| "dec_str [] = None"

fun bits :: "nat \<Rightarrow> string" where
  "bits n = (if n = 0 then [] else (if n mod 2 = 1 then CHR ''1'' else CHR ''0'') # bits (n div 2))"

declare bits.simps [simp del]

fun unbits :: "string \<Rightarrow> nat" where
  "unbits [] = 0" | "unbits (b # bs) = (if b = CHR ''1'' then 1 else 0) + 2 * unbits bs"

definition enc_int :: "int \<Rightarrow> string" where
  "enc_int i = enc_str ((if i < 0 then CHR ''n'' else CHR ''p'') # bits (nat \<bar>i\<bar>))"

definition dec_int :: "string \<Rightarrow> (int \<times> string) option" where
  "dec_int s = (case dec_str s of Some (x # b, r) \<Rightarrow> Some (if x = CHR ''n'' then - int (unbits b) else int (unbits b), r) | _ \<Rightarrow> None)"

fun enc_strs :: "string list \<Rightarrow> string" where
  "enc_strs [] = [CHR ''-'']" | "enc_strs (s # ss) = CHR ''+'' # enc_str s @ enc_strs ss"

fun dec_strs :: "nat \<Rightarrow> string \<Rightarrow> (string list \<times> string) option" where
  "dec_strs 0 s = None"
| "dec_strs (Suc n) s = (case s of [] \<Rightarrow> None | x # r \<Rightarrow> if x = CHR ''-'' then Some ([], r) else
     Option.bind (dec_str r) (\<lambda>(p, r1). Option.bind (dec_strs n r1) (\<lambda>(ps, r2). Some (p # ps, r2))))"

lemma dec_enc_str: "dec_str (enc_str s @ r) = Some (s, r)"
  by (induction s) (simp_all add: enc_str_def)

lemma unbits_bits: "unbits (bits n) = n"
  by (induction n rule: bits.induct) (subst bits.simps, auto, presburger+)

lemma dec_enc_int: "dec_int (enc_int i @ r) = Some (i, r)"
  by (simp add: dec_int_def enc_int_def dec_enc_str unbits_bits)

lemma dec_enc_strs: "length ss < n \<Longrightarrow> dec_strs n (enc_strs ss @ r) = Some (ss, r)"
proof (induction ss arbitrary: n)
  case Nil then show ?case by (cases n) simp_all
next
  case (Cons s ss) then show ?case by (cases n) (simp_all add: dec_enc_str)
qed

lemma length_enc_strs: "length ss < length (enc_strs ss)"
  by (induction ss) auto

definition enc_token :: "token_claims \<Rightarrow> string" where
  "enc_token c = enc_str (tc_Type c) @ enc_str (tc_Issuer c) @ enc_str (tc_Audience c) @ enc_str (tc_Subject c) @
     enc_str (tc_ClientID c) @ enc_strs (tc_Scopes c) @ enc_int (tc_IssuedAt c) @ enc_int (tc_ExpiresAt c) @
     enc_int (tc_SessionExpiresAt c) @ enc_str (Scheme (tc_Credential c)) @ enc_str (Token (tc_Credential c)) @
     enc_str (tc_CredentialSource c)"

definition dec_token :: "string \<Rightarrow> token_claims option" where
  "dec_token s = do {
     (a, s1) \<leftarrow> dec_str s; (b, s2) \<leftarrow> dec_str s1; (c, s3) \<leftarrow> dec_str s2; (d, s4) \<leftarrow> dec_str s3;
     (e, s5) \<leftarrow> dec_str s4; (f, s6) \<leftarrow> dec_strs (length s5) s5; (g, s7) \<leftarrow> dec_int s6; (h, s8) \<leftarrow> dec_int s7;
     (i, s9) \<leftarrow> dec_int s8; (j, s10) \<leftarrow> dec_str s9; (k, s11) \<leftarrow> dec_str s10; (l, s12) \<leftarrow> dec_str s11;
     Some \<lparr>tc_Type = a, tc_Issuer = b, tc_Audience = c, tc_Subject = d, tc_ClientID = e, tc_Scopes = f, tc_IssuedAt = g,
       tc_ExpiresAt = h, tc_SessionExpiresAt = i, tc_Credential = \<lparr>Scheme = j, Token = k\<rparr>, tc_CredentialSource = l\<rparr> }"

definition enc_code :: "code_claims \<Rightarrow> string" where
  "enc_code c = enc_str (cc_Type c) @ enc_str (cc_CodeID c) @ enc_str (cc_Issuer c) @ enc_str (cc_Audience c) @
     enc_str (cc_Subject c) @ enc_str (cc_ClientID c) @ enc_str (cc_RedirectURI c) @ enc_str (cc_PKCEChallenge c) @
     enc_str (cc_PKCEChallengeMethod c) @ enc_strs (cc_Scopes c) @ enc_int (cc_IssuedAt c) @ enc_int (cc_ExpiresAt c) @
     enc_str (Scheme (cc_Credential c)) @ enc_str (Token (cc_Credential c)) @ enc_str (cc_CredentialSource c)"

definition dec_code :: "string \<Rightarrow> code_claims option" where
  "dec_code s = do {
     (a, s1) \<leftarrow> dec_str s; (b, s2) \<leftarrow> dec_str s1; (c, s3) \<leftarrow> dec_str s2; (d, s4) \<leftarrow> dec_str s3;
     (e, s5) \<leftarrow> dec_str s4; (f, s6) \<leftarrow> dec_str s5; (g, s7) \<leftarrow> dec_str s6; (h, s8) \<leftarrow> dec_str s7; (i, s9) \<leftarrow> dec_str s8;
     (j, s10) \<leftarrow> dec_strs (length s9) s9; (k, s11) \<leftarrow> dec_int s10; (l, s12) \<leftarrow> dec_int s11;
     (m, s13) \<leftarrow> dec_str s12; (n, s14) \<leftarrow> dec_str s13; (q, s15) \<leftarrow> dec_str s14;
     Some \<lparr>cc_Type = a, cc_CodeID = b, cc_Issuer = c, cc_Audience = d, cc_Subject = e, cc_ClientID = f, cc_RedirectURI = g,
       cc_PKCEChallenge = h, cc_PKCEChallengeMethod = i, cc_Scopes = j, cc_IssuedAt = k, cc_ExpiresAt = l,
       cc_Credential = \<lparr>Scheme = m, Token = n\<rparr>, cc_CredentialSource = q\<rparr> }"

lemma dec_enc_strs_here: "dec_strs (length (enc_strs ss @ r)) (enc_strs ss @ r) = Some (ss, r)"
  using length_enc_strs[of ss] by (intro dec_enc_strs) simp

lemma dec_enc_str_end: "dec_str (enc_str s) = Some (s, [])"
  using dec_enc_str[of s "[]"] by simp

lemma dec_enc_token: "dec_token (enc_token c) = Some c"
  unfolding dec_token_def enc_token_def
  by (simp only: dec_enc_str dec_enc_str_end dec_enc_int dec_enc_strs_here append_assoc Option.bind.simps prod.case) simp

lemma dec_enc_code: "dec_code (enc_code c) = Some c"
  unfolding dec_code_def enc_code_def
  by (simp only: dec_enc_str dec_enc_str_end dec_enc_int dec_enc_strs_here append_assoc Option.bind.simps prod.case) simp

section \<open>Properties of the service\<close>

text \<open>C25: Over any sequence of IssueAuthorizationCode and ExchangeAuthorizationCode calls on a fresh
  store, an authorization code is exchanged for tokens at most as often as its code ID was issued.\<close>

theorem authorization_code_exchanged_once:
  "count_list (fst (run_store (service_issue sv) (service_exchange sv) (code_id_of sv) ops (Some (NewCodeStore m)))) (Consumed cid)
   \<le> count_list (fst (run_store (service_issue sv) (service_exchange sv) (code_id_of sv) ops (Some (NewCodeStore m)))) (Issued cid)"
  using auth_service.consumed_le_issued[of "Some (NewCodeStore m)" cid sv ops]
  by (simp add: service_inv_def service_live_def NewCodeStore_def)

definition demo_service :: service where
  "demo_service = \<lparr>sv_aead = demo_aead, sv_keyring = demo_ring [demo_key ''k1'' ''active''], sv_sha256 = (\<lambda>s. s),
     sv_marshal_code = (\<lambda>c. Inr (enc_code c)), sv_unmarshal_code = dec_code,
     sv_marshal_token = (\<lambda>c. Inr (enc_token c)), sv_unmarshal_token = dec_token,
     sv_FetchAndValidate = (\<lambda>_ _. None), sv_CredentialValidator = None,
     AccessLifetime = 20, RefreshLifetime = 30, SessionLifetime = 40, CodeLifetime = 10\<rparr>"

definition demo_env :: "go_time \<Rightarrow> call_env" where
  "demo_env t = \<lparr>now1 = t, store_now1 = t, store_now2 = t, now2 = t, now3 = t, new_id = Inr ''id'',
     nonce1 = Inr (replicate 12 CHR ''n''), nonce2 = Inr (replicate 12 CHR ''n'')\<rparr>"

definition demo_request :: authorization_request where
  "demo_request = \<lparr>ar_Issuer = ''i'', ar_Audience = ''a'', ar_Subject = ''u'', ar_ClientID = ''c'', ar_RedirectURI = ''r'',
     ar_PKCEChallenge = ''dg'', ar_Scopes = [''read''], ar_Credential = \<lparr>Scheme = AuthSchemeToken, Token = ''t''\<rparr>,
     ar_CredentialSource = ''s''\<rparr>"

text \<open>C26: An exchange that succeeds after any history of a fresh store was authorized: the code opens
  under the caller's issuer, audience and client, its PKCE challenge is the hash of the verifier
  presented, its redirect URI is the one presented, it has not expired, its credential is not
  Basic, and an earlier IssueAuthorizationCode stored its ID less than the code lifetime before.\<close>

theorem exchange_authorized:
  assumes "is_ok (fst (ExchangeAuthorizationCode sv env code aad ru pv
     (snd (run_store (service_issue sv) (service_exchange sv) (code_id_of sv) ops (Some (NewCodeStore m))))))"
  shows "\<exists>c n i. open_code sv code aad = Inr c \<and> cc_Issuer c = Issuer aad \<and> cc_Audience c = Audience aad \<and>
     cc_ClientID c = ClientID aad \<and> cc_RedirectURI c = ru \<and> pv \<noteq> '''' \<and>
     raw_encode alpha_url (sv_sha256 sv pv) = cc_PKCEChallenge c \<and> now1 env < cc_ExpiresAt c \<and>
     Scheme (cc_Credential c) \<noteq> AuthSchemeBasic \<and>
     n < length ops \<and> ops ! n = Issue_Op i \<and>
     fst (run_store (service_issue sv) (service_exchange sv) (code_id_of sv) ops (Some (NewCodeStore m))) ! n = Issued (cc_CodeID c) \<and>
     store_now2 env < now1 (fst i) + defaultDuration (CodeLifetime sv) DefaultCodeLifetime"
proof -
  define x where "x = \<lparr>ex_env = env, ex_code = code, ex_aad = aad, ex_redirect = ru, ex_verifier = pv\<rparr>"
  have "service_inv (Some (NewCodeStore m))" "service_live (Some (NewCodeStore m)) (code_id_of sv x) = None"
    by (simp_all add: service_inv_def service_live_def NewCodeStore_def)
  moreover have "fst (service_exchange sv x (snd (run_store (service_issue sv) (service_exchange sv) (code_id_of sv) ops (Some (NewCodeStore m)))))"
    using assms by (simp add: service_exchange_def x_def case_prod_beta)
  ultimately obtain n i where ni: "n < length ops" "ops ! n = Issue_Op i"
    "fst (run_store (service_issue sv) (service_exchange sv) (code_id_of sv) ops (Some (NewCodeStore m))) ! n = Issued (code_id_of sv x)"
    "exchange_matches sv x (now1 (fst i) + defaultDuration (CodeLifetime sv) DefaultCodeLifetime)"
    using auth_service.consume_authorized[of "Some (NewCodeStore m)" sv x ops] by blast
  then obtain c where "open_code sv code aad = Inr c" "CodeClaims_validateForUse (sv_sha256 sv) c (now1 env) aad ru pv"
    by (auto simp: exchange_matches_def x_def)
  then show ?thesis using ni
    by (intro exI[of _ c] exI[of _ n] exI[of _ i])
       (auto simp: x_def code_id_of_def exchange_matches_def CodeClaims_validateForUse_def verifyPKCES256_def
         PKCEChallengeS256_def ValidateForEnvelope_def split: if_splits)
qed

lemma issuePair_expiry:
  "issuePair sv now na nb base session = Inr pair \<Longrightarrow>
    RefreshExpiresAt pair = min session (now + defaultDuration (RefreshLifetime sv) DefaultRefreshTokenLifetime) \<and>
    AccessExpiresAt pair = min session (now + defaultDuration (AccessLifetime sv) DefaultAccessTokenLifetime)"
  by (auto simp: issuePair_def Let_def min_def split: sum.splits)

lemma issuePair_total:
  assumes "codec_laws sv" "is_ok na" "is_ok nb"
  shows "\<exists>pair. issuePair sv now na nb base session = Inr pair"
proof -
  have ne: "Seal (sv_aead sv) (sv_keyring sv) n (sv_marshal_token sv) a c \<noteq> Inl e" if n: "is_ok n" for n a c e
  proof -
    obtain x where x: "n = Inr x" using n by (auto simp: is_ok_iff)
    obtain p where p: "sv_marshal_token sv c = Inr p" using assms(1) unfolding codec_laws_def by blast
    have "keyring_ok (sv_keyring sv)" using assms(1) by (simp add: codec_laws_def)
    from Seal_total[where kr = "sv_keyring sv" and marshal = "sv_marshal_token sv" and v = c, OF this p] show ?thesis unfolding x by (metis Inl_Inr_False)
  qed
  show ?thesis using ne[OF assms(2)] ne[OF assms(3)] by (simp add: issuePair_def Let_def split: sum.splits)
qed

lemma exchange_after_issue:
  assumes "codec_laws sv" "nonces_ok env1" "nonces_ok env2"
    and issued: "IssueAuthorizationCode sv env1 req (Some (NewCodeStore m)) = (Inr code, st)"
    and aad: "Issuer aad = ar_Issuer req" "Audience aad = ar_Audience req" "ClientID aad = ar_ClientID req"
    and pkce: "pv \<noteq> ''''" "PKCEChallengeS256 (sv_sha256 sv) pv = ar_PKCEChallenge req"
    and times: "max (now1 env2) (max (store_now1 env2) (store_now2 env2)) < now1 env1 + defaultDuration (CodeLifetime sv) DefaultCodeLifetime"
    and nonces: "is_ok (nonce1 env2)" "is_ok (nonce2 env2)" and pos: "0 < now3 env2"
  shows "\<exists>cid pair store'. ExchangeAuthorizationCode sv env2 code aad (ar_RedirectURI req) pv st = (Inr pair, Some store') \<and>
    issuePair sv (now3 env2) (nonce1 env2) (nonce2 env2) (base_of_code (code_claims_for sv req cid (now1 env1)))
       (now2 env2 + defaultDuration (SessionLifetime sv) DefaultSessionLifetime) = Inr pair \<and>
    ar_Subject req \<noteq> '''' \<and> ValidateForEnvelope (ar_Credential req) \<and>
    (\<forall>env3 ru' pv'. \<not> is_ok (fst (ExchangeAuthorizationCode sv env3 code aad ru' pv' (Some store'))))"
proof -
  define e where "e = now1 env1 + defaultDuration (CodeLifetime sv) DefaultCodeLifetime"
  obtain cid store where cid: "new_id env1 = Inr cid" and st: "st = Some store"
    and put: "code_Store (store_now1 env1) (store_now2 env1) cid e (NewCodeStore m) = (Inr (), store)"
    and seal: "Seal (sv_aead sv) (sv_keyring sv) (nonce1 env1) (sv_marshal_code sv)
       \<lparr>Issuer = ar_Issuer req, Audience = ar_Audience req, ClientID = ar_ClientID req, Type = TokenTypeCode\<rparr>
       (code_claims_for sv req cid (now1 env1)) = Inr code"
    and rq: "ar_PKCEChallenge req \<noteq> ''''" "ar_Subject req \<noteq> ''''" "ValidateForEnvelope (ar_Credential req)"
    using issued by (auto simp: IssueAuthorizationCode_def Let_def code_claims_for_def e_def split: if_splits option.splits sum.splits prod.splits)
  define c where "c = code_claims_for sv req cid (now1 env1)"
  have laws: "keyring_ok (sv_keyring sv)" "aead_laws (sv_aead sv)"
    "\<exists>p. sv_marshal_code sv c = Inr p \<and> sv_unmarshal_code sv p = Some c"
    "\<forall>n. nonce1 env1 = Inr n \<longrightarrow> length n = nonceBytes"
    using assms(1,2) by (auto simp: codec_laws_def nonces_ok_def)
  note seal' = seal[folded c_def]
  have "aad\<lparr>Type := TokenTypeCode\<rparr> = \<lparr>Issuer = ar_Issuer req, Audience = ar_Audience req, ClientID = ar_ClientID req, Type = TokenTypeCode\<rparr>"
    using aad by simp
  then have oc: "open_code sv code aad = Inr c" using Open_of_Seal(1)[OF laws seal'] by (simp add: open_code_def)
  have cid_ne: "cid \<noteq> ''''" using put by (auto simp: code_Store_def Let_def)
  have val: "CodeClaims_validateForUse (sv_sha256 sv) c (now1 env2) aad (ar_RedirectURI req) pv"
    using aad pkce times rq cid_ne
    by (simp add: CodeClaims_validateForUse_def c_def code_claims_for_def verifyPKCES256_def)
  have store: "code_entries store = [(cid, e)]"
    using put by (auto simp: code_Store_def NewCodeStore_def Let_def gm_put_def gm_del_def gm_keep_def split: if_splits)
  define store' where "store' = store\<lparr>code_entries := []\<rparr>"
  have cons: "code_Consume (store_now1 env2) (store_now2 env2) cid store = (Inr (), store')"
    using store times by (simp add: code_Consume_def Let_def gm_keep_def gm_del_def e_def store'_def purgeExpiredLocked_def)
  define session where "session = now2 env2 + defaultDuration (SessionLifetime sv) DefaultSessionLifetime"
  have ex: "ExchangeAuthorizationCode sv env2 code aad (ar_RedirectURI req) pv st =
      (issuePair sv (now3 env2) (nonce1 env2) (nonce2 env2) (base_of_code c) session, Some store')"
    using oc val st cons by (simp add: ExchangeAuthorizationCode_def c_def code_claims_for_def session_def)
  obtain pair where pair: "issuePair sv (now3 env2) (nonce1 env2) (nonce2 env2) (base_of_code c) session = Inr pair"
    using issuePair_total[OF assms(1) nonces] by blast
  have again: "\<not> is_ok (fst (ExchangeAuthorizationCode sv env3 code aad ru' pv' (Some store')))" for env3 ru' pv'
    using oc by (simp add: ExchangeAuthorizationCode_def code_Consume_def Let_def store'_def gm_keep_def purgeExpiredLocked_def)
  show ?thesis using ex pair rq again unfolding c_def session_def by (intro exI[of _ cid] exI[of _ pair] exI[of _ store']) simp
qed

lemma Refresh_issued:
  assumes "codec_laws sv" "nonces_ok env0" "issuePair sv now (nonce1 env0) (nonce2 env0) base session = Inr pair"
    "0 < now" "now \<le> now1 env" "now1 env < RefreshExpiresAt pair" "ValidateForEnvelope (tc_Credential base)" "tc_Subject base \<noteq> ''''"
    "sv_CredentialValidator sv = None" "is_ok (nonce1 env)" "is_ok (nonce2 env)"
    "Issuer aad = tc_Issuer base" "Audience aad = tc_Audience base" "ClientID aad = tc_ClientID base"
  shows "\<exists>pair' base'. Refresh sv env (RefreshToken pair) aad = Inr pair' \<and>
    issuePair sv (now3 env) (nonce1 env) (nonce2 env) base' session = Inr pair' \<and>
    tc_Credential base' = tc_Credential base \<and> tc_Subject base' = tc_Subject base \<and> tc_Issuer base' = tc_Issuer base \<and>
    tc_Audience base' = tc_Audience base \<and> tc_ClientID base' = tc_ClientID base"
proof -
  define c where "c = base\<lparr>tc_Type := TokenTypeRefresh, tc_IssuedAt := now, tc_ExpiresAt := RefreshExpiresAt pair, tc_SessionExpiresAt := session\<rparr>"
  have seal: "Seal (sv_aead sv) (sv_keyring sv) (nonce2 env0) (sv_marshal_token sv) (aad\<lparr>Type := TokenTypeRefresh\<rparr>) c = Inr (RefreshToken pair)"
    and le: "RefreshExpiresAt pair \<le> session"
  proof -
    have "aad\<lparr>Type := TokenTypeRefresh\<rparr> = \<lparr>Issuer = tc_Issuer base, Audience = tc_Audience base, ClientID = tc_ClientID base, Type = TokenTypeRefresh\<rparr>"
      using assms(12-14) by simp
    then show "Seal (sv_aead sv) (sv_keyring sv) (nonce2 env0) (sv_marshal_token sv) (aad\<lparr>Type := TokenTypeRefresh\<rparr>) c = Inr (RefreshToken pair)"
      "RefreshExpiresAt pair \<le> session" using issuePair_shape[OF assms(3)] by (simp_all add: c_def)
  qed
  have l: "keyring_ok (sv_keyring sv)" "aead_laws (sv_aead sv)" "\<exists>p. sv_marshal_token sv c = Inr p \<and> sv_unmarshal_token sv p = Some c"
    "\<forall>n. nonce2 env0 = Inr n \<longrightarrow> length n = nonceBytes" using assms(1,2) by (auto simp: codec_laws_def nonces_ok_def)
  have val: "TokenClaims_validateForUse c (now1 env) TokenTypeRefresh aad"
    using assms(4-8,12-14) le by (simp add: TokenClaims_validateForUse_def c_def)
  define base' where "base' = c\<lparr>tc_Type := '''', tc_IssuedAt := 0, tc_ExpiresAt := 0, tc_SessionExpiresAt := 0\<rparr>"
  obtain pair' where p: "issuePair sv (now3 env) (nonce1 env) (nonce2 env) base' session = Inr pair'"
    using issuePair_total[OF assms(1,10,11)] by blast
  have "Refresh sv env (RefreshToken pair) aad = Inr pair'"
    using Open_of_Seal(1)[OF l seal] val p assms(9) by (simp add: Refresh_def base'_def c_def)
  then show ?thesis using p by (intro exI[of _ pair'] exI[of _ base']) (simp add: base'_def c_def)
qed

definition demo_code :: string where
  "demo_code = (case IssueAuthorizationCode demo_service (demo_env 5) demo_request (Some (NewCodeStore 0)) of
     (Inr c, _) \<Rightarrow> c | _ \<Rightarrow> [])"

definition demo_client :: associated_data where
  "demo_client = \<lparr>Issuer = ''i'', Audience = ''a'', ClientID = ''c'', Type = ''''\<rparr>"

definition demo_store1 :: "code_store option" where
  "demo_store1 = snd (IssueAuthorizationCode demo_service (demo_env 5) demo_request (Some (NewCodeStore 0)))"

lemma demo_laws: "codec_laws demo_service" "nonces_ok (demo_env t)"
proof -
  have "keyring_ok (demo_ring [demo_key ''k1'' ''active''])"
    by (rule NewKeyring_ok[OF demo_ring]) code_simp
  then show "codec_laws demo_service"
    by (auto simp: codec_laws_def demo_service_def demo_aead_laws dec_enc_code dec_enc_token)
  show "nonces_ok (demo_env t)" by (simp add: nonces_ok_def demo_env_def nonceBytes_def)
qed

lemma demo_issue: "IssueAuthorizationCode demo_service (demo_env 5) demo_request (Some (NewCodeStore 0)) = (Inr demo_code, demo_store1)"
proof -
  have "keyring_ok (sv_keyring demo_service)" using demo_laws(1) by (simp add: codec_laws_def)
  then obtain t where t: "Seal (sv_aead demo_service) (sv_keyring demo_service) (Inr (replicate 12 CHR ''n'')) (sv_marshal_code demo_service)
      \<lparr>Issuer = ''i'', Audience = ''a'', ClientID = ''c'', Type = TokenTypeCode\<rparr>
      (code_claims_for demo_service demo_request ''id'' 5) = Inr t"
    using Seal_total[of "sv_keyring demo_service" "sv_marshal_code demo_service"] by (metis (no_types, lifting) demo_service_def service.select_convs(4))
  have "ValidateForEnvelope (ar_Credential demo_request)" by code_simp
  then have "\<exists>c st. IssueAuthorizationCode demo_service (demo_env 5) demo_request (Some (NewCodeStore 0)) = (Inr c, st)"
    using t by (simp add: IssueAuthorizationCode_def demo_request_def demo_env_def Let_def)
      (simp add: demo_service_def code_Store_def NewCodeStore_def Let_def gm_keep_def purgeExpiredLocked_def code_claims_for_def defaultDuration_def)
  then show ?thesis by (auto simp: demo_code_def demo_store1_def)
qed

lemma demo_pkce: "PKCEChallengeS256 (sv_sha256 demo_service) ''v'' = ar_PKCEChallenge demo_request"
  by code_simp

lemma demo_exchange:
  "\<exists>cid pair store'. ExchangeAuthorizationCode demo_service (demo_env 7) demo_code demo_client ''r'' ''v'' demo_store1 = (Inr pair, Some store') \<and>
    issuePair demo_service 7 (nonce1 (demo_env 7)) (nonce2 (demo_env 7)) (base_of_code (code_claims_for demo_service demo_request cid 5)) 47 = Inr pair"
  using exchange_after_issue[OF demo_laws(1) demo_laws(2)[of 5] demo_laws(2)[of 7] demo_issue, of demo_client "''v''"] demo_pkce
  by (simp add: demo_client_def demo_request_def demo_env_def defaultDuration_def demo_service_def) blast

lemma demo_exchange_ok: "is_ok (fst (ExchangeAuthorizationCode demo_service (demo_env 7) demo_code demo_client ''r'' ''v'' demo_store1))"
  using demo_exchange by auto

theorem exchange_authorized_witness:
  "\<exists>c n i. raw_encode alpha_url ''v'' = cc_PKCEChallenge (c :: code_claims) \<and> n < 1 \<and>
     7 < now1 (fst i) + 10 \<and> [Issue_Op (demo_env 5, demo_request) :: (call_env \<times> authorization_request, exchange_request) store_op] ! n = Issue_Op i"
proof -
  have "snd (run_store (service_issue demo_service) (service_exchange demo_service) (code_id_of demo_service)
        [Issue_Op (demo_env 5, demo_request)] (Some (NewCodeStore 0))) = demo_store1"
    by (simp add: demo_store1_def service_issue_def case_prod_beta split: sum.splits)
  then have "is_ok (fst (ExchangeAuthorizationCode demo_service (demo_env 7) demo_code demo_client ''r'' ''v''
      (snd (run_store (service_issue demo_service) (service_exchange demo_service) (code_id_of demo_service)
        [Issue_Op (demo_env 5, demo_request)] (Some (NewCodeStore 0))))))" using demo_exchange_ok by simp
  from exchange_authorized[OF this] show ?thesis
    by (auto simp: demo_service_def demo_env_def defaultDuration_def)
qed

lemma verifier_accepts_issued:
  assumes "codec_laws sv" "nonces_ok env" "issuePair sv now (nonce1 env) (nonce2 env) base session = Inr pair"
    "0 < now" "now \<le> t" "t < AccessExpiresAt pair" "ValidateForEnvelope (tc_Credential base)" "tc_Subject base \<noteq> ''''"
  shows "\<exists>info. AccessTokenVerifier sv (tc_Issuer base) (tc_Audience base) [tc_ClientID base] boot t (AccessToken pair) = Some info \<and>
    ti_UserID info = tc_Subject base \<and> ti_Scopes info = tc_Scopes base \<and> ti_Expiration info = AccessExpiresAt pair \<and>
    CredentialFromTokenInfo (Some info) = Some (tc_Credential base)"
proof -
  have le: "AccessExpiresAt pair \<le> session" using issuePair_shape[OF assms(3)] by blast
  define c where "c = base\<lparr>tc_Type := TokenTypeAccess, tc_IssuedAt := now, tc_ExpiresAt := AccessExpiresAt pair, tc_SessionExpiresAt := session\<rparr>"
  have "TokenClaims_validateForUse c t TokenTypeAccess
      \<lparr>Issuer = tc_Issuer base, Audience = tc_Audience base, ClientID = tc_ClientID base, Type = TokenTypeAccess\<rparr>"
    using assms(4-8) le by (simp add: TokenClaims_validateForUse_def c_def)
  then have "AccessTokenVerifier sv (tc_Issuer base) (tc_Audience base) [tc_ClientID base] boot t (AccessToken pair) = Some (info_of_claims c)"
    using issued_access_opens(1)[OF assms(1-3)] by (simp add: AccessTokenVerifier_def Let_def c_def)
  then show ?thesis using assms(7)
    by (simp add: info_of_claims_def TokenInfoWithCredential_def CredentialFromTokenInfo_def c_def)
qed





text \<open>A bearer token the verifier accepts opens, for the configured issuer and audience, to claims
  of type access for one of the configured clients (or of type bootstrap access with no client, when
  bootstrap is enabled) that are unexpired and within their session; the token information carries
  their scopes, expiry and subject and a credential that is never Basic.\<close>

theorem verifier_accepts_only_access:
  assumes "AccessTokenVerifier sv iss aud ids boot now token = Some info"
  shows "\<exists>c. ((tc_ClientID c \<in> set ids \<and> tc_Type c = TokenTypeAccess) \<or>
       (boot \<and> tc_ClientID c = '''' \<and> tc_Type c = TokenTypeBootstrapAccess)) \<and>
     Open (sv_aead sv) (sv_keyring sv) (sv_unmarshal_token sv) token
       \<lparr>Issuer = iss, Audience = aud, ClientID = tc_ClientID c, Type = tc_Type c\<rparr> = Inr c \<and>
     tc_Issuer c = iss \<and> tc_Audience c = aud \<and> tc_IssuedAt c \<le> now \<and> now < tc_ExpiresAt c \<and>
     tc_ExpiresAt c \<le> tc_SessionExpiresAt c \<and>
     ti_Scopes info = tc_Scopes c \<and> ti_Expiration info = tc_ExpiresAt c \<and> ti_UserID info = tc_Subject c \<and> tc_Subject c \<noteq> '''' \<and>
     CredentialFromTokenInfo (Some info) = Some (tc_Credential c) \<and> Scheme (tc_Credential c) \<noteq> AuthSchemeBasic"
proof -
  obtain cid ty c where *: "(cid \<in> set ids \<and> ty = TokenTypeAccess) \<or> (boot \<and> cid = '''' \<and> ty = TokenTypeBootstrapAccess)"
    "Open (sv_aead sv) (sv_keyring sv) (sv_unmarshal_token sv) token \<lparr>Issuer = iss, Audience = aud, ClientID = cid, Type = ty\<rparr> = Inr c"
    "TokenClaims_validateForUse c now ty \<lparr>Issuer = iss, Audience = aud, ClientID = cid, Type = ty\<rparr>" "info = info_of_claims c"
    using verifier_accepts_cases[OF assms] by blast
  have "ty \<noteq> ''''" using *(1) by (auto simp: token_type_defs)
  then have f: "tc_ClientID c = cid" "tc_Type c = ty" "ValidateForEnvelope (tc_Credential c)"
    using *(3) by (auto simp: TokenClaims_validateForUse_def split: if_splits)
  show ?thesis using *(1-2) *(3) *(4) f
    by (intro exI[of _ c])
      (auto simp: TokenClaims_validateForUse_def info_of_claims_def TokenInfoWithCredential_def
        CredentialFromTokenInfo_def ValidateForEnvelope_def split: if_splits)
qed

theorem verifier_accepts_only_access_witness:
  "\<exists>c :: token_claims. tc_Type c = TokenTypeAccess \<and> tc_ClientID c = ''c'' \<and> tc_Subject c = ''u'' \<and> Scheme (tc_Credential c) \<noteq> AuthSchemeBasic"
proof -
  obtain cid pair where ip: "issuePair demo_service 7 (nonce1 (demo_env 7)) (nonce2 (demo_env 7)) (base_of_code (code_claims_for demo_service demo_request cid 5)) 47 = Inr pair"
    using demo_exchange by blast
  have cred: "ValidateForEnvelope (ar_Credential demo_request)" by code_simp
  have "AccessExpiresAt pair = 27" using issuePair_expiry[OF ip] by (simp add: demo_service_def defaultDuration_def)
  then obtain info where "AccessTokenVerifier demo_service ''i'' ''a'' [''c''] False 9 (AccessToken pair) = Some info"
    "ti_UserID info = ''u''"
    using verifier_accepts_issued[OF demo_laws(1) demo_laws(2)[of 7] ip, of 9 False] cred
    by (simp add: base_of_code_def code_claims_for_def) (simp add: demo_request_def, blast)
  from verifier_accepts_only_access[OF this(1)] this(2) show ?thesis by auto
qed

text \<open>A refresh token issued by the service is never accepted as a bearer access token, at any time
  and for any client list, issuer and audience.\<close>

theorem refresh_token_not_bearer:
  assumes "codec_laws sv" "nonces_ok env" "issuePair sv now (nonce1 env) (nonce2 env) base session = Inr pair"
  shows "AccessTokenVerifier sv iss aud ids boot t (RefreshToken pair) = None"
proof (rule ccontr)
  assume "AccessTokenVerifier sv iss aud ids boot t (RefreshToken pair) \<noteq> None"
  then obtain info where "AccessTokenVerifier sv iss aud ids boot t (RefreshToken pair) = Some info" by blast
  from verifier_accepts_cases[OF this] obtain cid ty c where *: "ty = TokenTypeAccess \<or> ty = TokenTypeBootstrapAccess"
    "Open (sv_aead sv) (sv_keyring sv) (sv_unmarshal_token sv) (RefreshToken pair) \<lparr>Issuer = iss, Audience = aud, ClientID = cid, Type = ty\<rparr> = Inr c"
    "TokenClaims_validateForUse c t ty \<lparr>Issuer = iss, Audience = aud, ClientID = cid, Type = ty\<rparr>" by blast
  have "tc_Type c = TokenTypeRefresh" using issued_refresh_opens_only_to_itself[OF assms *(2)] by simp
  then show False using *(1,3) by (auto simp: TokenClaims_validateForUse_def token_type_defs split: if_splits)
qed

theorem refresh_token_not_bearer_witness:
  "\<exists>pair :: token_pair. RefreshToken pair \<noteq> '''' \<and> AccessTokenVerifier demo_service ''i'' ''a'' [''c''] True 9 (RefreshToken pair) = None"
proof -
  obtain cid pair where ip: "issuePair demo_service 7 (nonce1 (demo_env 7)) (nonce2 (demo_env 7)) (base_of_code (code_claims_for demo_service demo_request cid 5)) 47 = Inr pair"
    using demo_exchange by blast
  have "RefreshToken pair \<noteq> ''''"
    using issuePair_shape[OF ip] by (auto simp: tokenPrefix_def dest!: sealed_shape)
  then show ?thesis using refresh_token_not_bearer[OF demo_laws(1) demo_laws(2)[of 7] ip] by blast
qed

end
