(* ===== verification/OAuth_Consent_Run.thy ===== *)
theory OAuth_Consent_Run
  imports OAuth_Consent OAuth_Flow
begin

text \<open>
  A concrete server and run for the properties of OAuth_Consent: the setup page, its submission and the
  redirect with the code, and an exchange at the token endpoint.
\<close>

definition enc_bool :: "bool \<Rightarrow> string" where "enc_bool b = enc_str (if b then ''t'' else '''')"

definition enc_setup :: "setup_state \<Rightarrow> string" where
  "enc_setup s = enc_str (ss_Type s) @ enc_str (ss_ClientID s) @ enc_str (ss_RedirectURI s) @ enc_str (ss_Resource s) @ enc_str (ss_State s) @
     enc_str (ss_PKCEChallenge s) @ enc_strs (ss_Scopes s) @ enc_str (ss_CSRFHash s) @ enc_str (ss_SetupID s) @
     enc_bool (ss_AllowSuppliedCredential s) @ enc_int (ss_ExpiresAt s)"

definition dec_setup :: "string \<Rightarrow> setup_state option" where
  "dec_setup s = do {
     (a, s1) \<leftarrow> dec_str s; (b, s2) \<leftarrow> dec_str s1; (c, s3) \<leftarrow> dec_str s2; (d, s4) \<leftarrow> dec_str s3; (e, s5) \<leftarrow> dec_str s4;
     (f, s6) \<leftarrow> dec_str s5; (g, s7) \<leftarrow> dec_strs (length s6) s6; (h, s8) \<leftarrow> dec_str s7; (i, s9) \<leftarrow> dec_str s8;
     (j, s10) \<leftarrow> dec_str s9; (k, s11) \<leftarrow> dec_int s10;
     Some \<lparr>ss_Type = a, ss_ClientID = b, ss_RedirectURI = c, ss_Resource = d, ss_State = e, ss_PKCEChallenge = f, ss_Scopes = g,
       ss_CSRFHash = h, ss_SetupID = i, ss_AllowSuppliedCredential = (j \<noteq> ''''), ss_ExpiresAt = k\<rparr> }"

lemma dec_enc_int_end: "dec_int (enc_int i) = Some (i, [])"
  using dec_enc_int[of i "[]"] by simp

lemma dec_enc_setup: "dec_setup (enc_setup s) = Some s"
  by (cases "ss_AllowSuppliedCredential s") (simp_all add: dec_setup_def enc_setup_def enc_bool_def dec_enc_str dec_enc_int dec_enc_int_end dec_enc_strs_here del: length_append)

definition demo_server :: auth_server where
  "demo_server = \<lparr>as_Issuer = ''i'', as_Resource = ''a'', as_AuthorizePath = ''/oauth/authorize'', as_TokenPath = ''/oauth/token'',
     as_Scopes = [''read''], as_Service = demo_service,
     as_fetcher = \<lparr>mf_AllowedOrigins = [''o''], mf_AllowedClientIDs = [''c''], mf_MaxBytes = 0, mf_parse = demo_parse, mf_decode = (\<lambda>b. Some (demo_metadata, False))\<rparr>,
     as_verifier = demo_verifier, as_marshal_setup = (\<lambda>s. Inr (enc_setup s)), as_unmarshal_setup = dec_setup, as_redirect_parses = (\<lambda>u. True)\<rparr>"

definition form :: "(string \<times> string) list \<Rightarrow> string \<Rightarrow> string" where
  "form kvs k = (case map_of kvs k of None \<Rightarrow> '''' | Some v \<Rightarrow> v)"

definition demo_csrf :: string where "demo_csrf = raw_encode alpha_url ''x''"

definition demo_renv :: "go_time \<Rightarrow> request_env" where
  "demo_renv t = \<lparr>e_ip_now = t, e_client_now = t, e_now = t, e_consume1 = t, e_consume2 = t, e_store1 = t, e_store2 = t, e_cookie_now = t, e_pair_now = t,
     e_web = demo_web, e_hops = Suc 0, e_csrf = Some ''x'', e_setup_id = Some ''s'', e_nonce = Inr (replicate 12 CHR ''n''),
     e_validate = (\<lambda>c. Some ''u''), e_create = (\<lambda>c n. Some \<lparr>Scheme = AuthSchemeToken, Token = ''dedicated''\<rparr>), e_call = demo_env t, e_verify = ac_env (demo_call t)\<rparr>"

definition demo_challenge :: string where "demo_challenge = replicate 43 CHR ''q''"

definition demo_get :: request where
  "demo_get = \<lparr>rq_Method = ''GET'', rq_Path = ''/oauth/authorize'', rq_Query = form [(''client_id'', ''c''), (''redirect_uri'', ''r''), (''response_type'', ''code''),
     (''code_challenge_method'', ''S256''), (''code_challenge'', demo_challenge), (''state'', ''xyz''), (''resource'', ''a''), (''scope'', ''read'')],
     rq_PostForm = form [], rq_mediaType = None, rq_ParseForm = True, rq_Cookie = None, rq_SourceIP = None, rq_RemoteHost = None, rq_RemoteAddr = ''''\<rparr>"

definition demo_post :: "string \<Rightarrow> request" where
  "demo_post tok = \<lparr>rq_Method = ''POST'', rq_Path = ''/oauth/authorize'', rq_Query = form [], rq_PostForm = form [(''client_id'', ''c''), (''setup_state'', tok),
     (''csrf'', demo_csrf), (''credential_scheme'', ''Token''), (''credential'', ''t'')],
     rq_mediaType = Some ''application/x-www-form-urlencoded'', rq_ParseForm = True, rq_Cookie = Some demo_csrf, rq_SourceIP = None, rq_RemoteHost = None, rq_RemoteAddr = ''''\<rparr>"

definition demo_start :: server_state where
  "demo_start = \<lparr>st_codes = Some (NewCodeStore 0), st_setup = NewCodeStore 1024, st_limiter = None, st_replay = Some (NewAssertionReplayStore 8)\<rparr>"

definition demo_setup :: setup_state where
  "demo_setup = \<lparr>ss_Type = setupStateType, ss_ClientID = ''c'', ss_RedirectURI = ''r'', ss_Resource = ''a'', ss_State = ''xyz'', ss_PKCEChallenge = demo_challenge,
     ss_Scopes = [''read''], ss_CSRFHash = raw_encode alpha_url demo_csrf, ss_SetupID = raw_encode alpha_url ''s'', ss_AllowSuppliedCredential = False, ss_ExpiresAt = 15\<rparr>"

lemma demo_server_laws: "(\<forall>ev\<in>set evs. \<exists>t. event_env ev = demo_renv t) \<Longrightarrow> server_laws demo_server evs"
  using demo_laws by (fastforce simp: server_laws_def demo_server_def dec_enc_setup demo_renv_def nonceBytes_def)

lemma demo_fetch_client: "fst (FetchAndValidate (as_fetcher demo_server) demo_web (Suc 0) ''c'' ''r'') = Inr demo_metadata"
  by code_simp

lemma demo_token: "\<exists>tok. Seal (sv_aead demo_service) (sv_keyring demo_service) (Inr (replicate 12 CHR ''n'')) (as_marshal_setup demo_server)
    (setup_aad demo_server ''c'') demo_setup = Inr tok"
proof -
  have "keyring_ok (sv_keyring demo_service)" using demo_laws(1) by (simp add: codec_laws_def)
  then show ?thesis using Seal_total[of "sv_keyring demo_service" "as_marshal_setup demo_server" demo_setup] by (simp add: demo_server_def)
qed

lemma demo_begin:
  assumes "Seal (sv_aead demo_service) (sv_keyring demo_service) (Inr (replicate 12 CHR ''n'')) (as_marshal_setup demo_server) (setup_aad demo_server ''c'') demo_setup = Inr tok"
  shows "\<exists>pg s'. serve demo_server (AuthorizeEndpoint, demo_renv 5, demo_get) demo_start = (SetupPage pg, s') \<and> pg_SetupState pg = tok \<and>
    st_codes s' = Some (NewCodeStore 0) \<and> code_entries (st_setup s') = [(raw_encode alpha_url ''s'', 15)] \<and> st_limiter s' = None"
proof -
  have v: "validPKCEChallenge demo_challenge" "parseScopes ''read'' [''read''] = Some [''read'']" by code_simp+
  have q: "rq_Query demo_get ''client_id'' = ''c''" "rq_Query demo_get ''redirect_uri'' = ''r''" "rq_Query demo_get ''response_type'' = ''code''"
    "rq_Query demo_get ''code_challenge_method'' = ''S256''" "rq_Query demo_get ''code_challenge'' = demo_challenge" "rq_Query demo_get ''state'' = ''xyz''"
    "rq_Query demo_get ''resource'' = ''a''" "rq_Query demo_get ''scope'' = ''read''" by (simp_all add: demo_get_def form_def)
  have id: "raw_encode alpha_url ''s'' \<noteq> ''''" by code_simp
  have seal: "Seal (sv_aead (as_Service demo_server)) (sv_keyring (as_Service demo_server)) (e_nonce (demo_renv 5)) (as_marshal_setup demo_server) (setup_aad demo_server ''c'') demo_setup = Inr tok"
    using assms by (simp add: demo_renv_def) (simp add: demo_server_def)
  have r: "requested_setup demo_server (demo_renv 5) (rq_Query demo_get) [''read''] \<lparr>ss_SetupID := raw_encode alpha_url ''s'', ss_CSRFHash := raw_encode alpha_url demo_csrf\<rparr> = demo_setup"
    unfolding requested_setup_def q by (simp add: demo_setup_def demo_server_def demo_renv_def demo_service_def defaultDuration_def)
  have st: "code_Store 5 5 (raw_encode alpha_url ''s'') 15 (NewCodeStore 1024) = (Inr (), (NewCodeStore 1024)\<lparr>code_entries := [(raw_encode alpha_url ''s'', 15)]\<rparr>)"
    using id by (simp add: code_Store_def NewCodeStore_def purgeExpiredLocked_def gm_keep_def gm_put_def gm_del_def)
  have e: "e_csrf (demo_renv 5) = Some ''x''" "e_setup_id (demo_renv 5) = Some ''s''" "e_store1 (demo_renv 5) = 5" "e_store2 (demo_renv 5) = 5"
    "e_cookie_now (demo_renv 5) = 5" "e_web (demo_renv 5) = demo_web" "e_hops (demo_renv 5) = Suc 0" by (simp_all add: demo_renv_def)
  have sv: "sv_sha256 (as_Service demo_server) = (\<lambda>s. s)" "as_Scopes demo_server = [''read'']" "as_Resource demo_server = ''a''"
    "mf_AllowedClientIDs (as_fetcher demo_server) = [''c'']" by (simp_all add: demo_server_def demo_service_def)
  let ?r = "requested_setup demo_server (demo_renv 5) (rq_Query demo_get) [''read'']"
  have rf: "ss_ExpiresAt ?r = 15" by (simp add: requested_setup_def demo_renv_def demo_server_def demo_service_def defaultDuration_def)
  have r': "?r\<lparr>ss_SetupID := raw_encode alpha_url ''s'', ss_CSRFHash := raw_encode alpha_url (raw_encode alpha_url ''x'')\<rparr> = demo_setup"
    using r by (simp add: demo_csrf_def)
  have cl: "ss_ClientID demo_setup = ''c''" "ss_ExpiresAt demo_setup = 15" by (simp_all add: demo_setup_def)
  have d: "st_setup demo_start = NewCodeStore 1024" by (simp add: demo_start_def)
  have page: "\<exists>pg. renderSetup demo_server (demo_renv 5) ?r '''' demo_start =
      (SetupPage pg, demo_start\<lparr>st_setup := (NewCodeStore 1024)\<lparr>code_entries := [(raw_encode alpha_url ''s'', 15)]\<rparr>\<rparr>) \<and> pg_SetupState pg = tok"
    unfolding renderSetup_def Let_def e option.case sv
    using seal st rf by (simp only: r') (simp add: cl d)
  have a: "allow (demo_renv 5) demo_get demo_start = (True, demo_start)" "allowClient demo_server (demo_renv 5) ''c'' demo_start = (True, demo_start)"
    by (simp_all add: allow_def allowClient_def demo_start_def Allow_def sv)
  obtain pg where p: "renderSetup demo_server (demo_renv 5) ?r '''' demo_start =
      (SetupPage pg, demo_start\<lparr>st_setup := (NewCodeStore 1024)\<lparr>code_entries := [(raw_encode alpha_url ''s'', 15)]\<rparr>\<rparr>)" "pg_SetupState pg = tok"
    using page by blast
  have m: "rq_Method demo_get = ''GET''" by (simp add: demo_get_def)
  have "serve demo_server (AuthorizeEndpoint, demo_renv 5, demo_get) demo_start =
      (SetupPage pg, demo_start\<lparr>st_setup := (NewCodeStore 1024)\<lparr>code_entries := [(raw_encode alpha_url ''s'', 15)]\<rparr>\<rparr>)"
    by (simp add: serve_def handleAuthorize_def beginAuthorization_def a q v sv Let_def e demo_fetch_client p m)
  then show ?thesis using p(2) by (intro exI[of _ pg] exI conjI) (auto simp: demo_start_def)
qed

lemma demo_complete:
  assumes seal: "Seal (sv_aead demo_service) (sv_keyring demo_service) (Inr (replicate 12 CHR ''n'')) (as_marshal_setup demo_server) (setup_aad demo_server ''c'') demo_setup = Inr tok"
    and s: "st_codes s = Some (NewCodeStore 0)" "code_entries (st_setup s) = [(raw_encode alpha_url ''s'', 15)]" "st_limiter s = None"
  shows "\<exists>code. fst (serve demo_server (AuthorizeEndpoint, demo_renv 7, demo_post tok) s) = RedirectCode ''r'' ''xyz'' code"
proof -
  let ?f = "rq_PostForm (demo_post tok)"
  have f: "?f ''client_id'' = ''c''" "?f ''setup_state'' = tok" "?f ''csrf'' = demo_csrf" "?f ''credential_scheme'' = ''Token''"
    "?f ''credential'' = ''t''" "?f ''cancel'' = ''''" "rq_Method (demo_post tok) = ''POST''" "rq_Cookie (demo_post tok) = Some demo_csrf"
    "rq_ParseForm (demo_post tok)" "isFormRequest (demo_post tok)" by (simp_all add: demo_post_def form_def isFormRequest_def)
  have laws: "keyring_ok (sv_keyring demo_service)" "aead_laws (sv_aead demo_service)" using demo_laws(1) by (simp_all add: codec_laws_def)
  have op: "Open (sv_aead demo_service) (sv_keyring demo_service) dec_setup tok (setup_aad demo_server ''c'') = Inr demo_setup"
    using Open_of_Seal(1)[OF laws _ _ seal] by (simp add: demo_server_def dec_enc_setup nonceBytes_def)
  have ds: "ss_Type demo_setup = setupStateType" "ss_ClientID demo_setup = ''c''" "ss_ExpiresAt demo_setup = 15" "ss_CSRFHash demo_setup = raw_encode alpha_url demo_csrf"
    "ss_SetupID demo_setup = raw_encode alpha_url ''s''" "ss_AllowSuppliedCredential demo_setup = False" "ss_RedirectURI demo_setup = ''r''" "ss_State demo_setup = ''xyz''"
    by (simp_all add: demo_setup_def)
  have sv: "as_Service demo_server = demo_service" "as_unmarshal_setup demo_server = dec_setup" "sv_sha256 demo_service = (\<lambda>s. s)"
    "mf_AllowedClientIDs (as_fetcher demo_server) = [''c'']" "as_redirect_parses demo_server = (\<lambda>u. True)"
    by (simp_all add: demo_server_def demo_service_def)
  have e: "e_now (demo_renv 7) = 7" "e_consume1 (demo_renv 7) = 7" "e_consume2 (demo_renv 7) = 7" "e_call (demo_renv 7) = demo_env 7"
    "e_validate (demo_renv 7) = (\<lambda>c. Some ''u'')" "e_create (demo_renv 7) = (\<lambda>c n. Some \<lparr>Scheme = AuthSchemeToken, Token = ''dedicated''\<rparr>)"
    by (simp_all add: demo_renv_def)
  have o: "openSetup demo_server (demo_renv 7) (demo_post tok) = Some demo_setup" by (simp add: openSetup_def f sv op ds e)
  have csrf: "demo_csrf \<noteq> ''''" by code_simp
  then have v: "validSetupCSRF (\<lambda>s. s) (demo_post tok) demo_setup" by (simp add: validSetupCSRF_def f ds raw_roundtrip[OF good_alphas(2)])
  have a: "allow (demo_renv 7) (demo_post tok) s = (True, s)" "allowClient demo_server (demo_renv 7) ''c'' s = (True, s)"
    using s(3) by (simp_all add: allow_def allowClient_def Allow_def sv)
  obtain st' where c: "code_Consume 7 7 (raw_encode alpha_url ''s'') (st_setup s) = (Inr (), st')"
    using s(2) by (simp add: code_Consume_def gm_keep_def)
  have cred: "ValidateForEnvelope \<lparr>Scheme = ''Token'', Token = ''t''\<rparr>" "ValidateForEnvelope \<lparr>Scheme = AuthSchemeToken, Token = ''dedicated''\<rparr>" "trim_space ''t'' = ''t''"
    by code_simp+
  define ar where "ar = granted_request demo_server demo_setup ''u'' \<lparr>Scheme = AuthSchemeToken, Token = ''dedicated''\<rparr> CredentialSourceDedicated"
  obtain code where code: "Seal (sv_aead demo_service) (sv_keyring demo_service) (Inr (replicate 12 CHR ''n'')) (sv_marshal_code demo_service)
      \<lparr>Issuer = ar_Issuer ar, Audience = ar_Audience ar, ClientID = ar_ClientID ar, Type = TokenTypeCode\<rparr> (code_claims_for demo_service ar ''id'' 7) = Inr code"
    using Seal_total[OF laws(1), of "sv_marshal_code demo_service"] by (metis (no_types, lifting) demo_service_def service.select_convs(4))
  have i: "\<exists>codes. IssueAuthorizationCode demo_service (demo_env 7) ar (Some (NewCodeStore 0)) = (Inr code, codes)"
    using code cred by (simp add: IssueAuthorizationCode_def demo_env_def Let_def ar_def granted_request_def demo_server_def demo_setup_def demo_challenge_def)
      (simp add: demo_service_def code_Store_def NewCodeStore_def Let_def gm_keep_def purgeExpiredLocked_def code_claims_for_def defaultDuration_def)
  have arq: "\<lparr>ar_Issuer = as_Issuer demo_server, ar_Audience = as_Resource demo_server, ar_Subject = ''u'', ar_ClientID = ''c'', ar_RedirectURI = ''r'',
      ar_PKCEChallenge = ss_PKCEChallenge demo_setup, ar_Scopes = ss_Scopes demo_setup, ar_Credential = \<lparr>Scheme = AuthSchemeToken, Token = ''dedicated''\<rparr>,
      ar_CredentialSource = CredentialSourceDedicated\<rparr> = ar" by (simp add: ar_def granted_request_def ds)
  show ?thesis using i s(1)
    by (auto simp: serve_def handleAuthorize_def completeAuthorization_def f a o v sv c e ds Let_def grantCode_def cred selectCredential_def arq redirectAuthorizationCode_def)
qed


definition demo_token_post :: request where
  "demo_token_post = \<lparr>rq_Method = ''POST'', rq_Path = ''/oauth/token'', rq_Query = form [], rq_PostForm = form [(''client_id'', ''c''), (''grant_type'', ''authorization_code''),
     (''redirect_uri'', ''r''), (''client_assertion_type'', ClientAssertionTypeJWTBearer), (''client_assertion'', ''A''), (''resource'', ''a''),
     (''code'', demo_code), (''code_verifier'', ''v'')],
     rq_mediaType = Some ''application/x-www-form-urlencoded'', rq_ParseForm = True, rq_Cookie = None, rq_SourceIP = None, rq_RemoteHost = None, rq_RemoteAddr = ''''\<rparr>"

theorem token_endpoint_authenticated_witness:
  "\<exists>pair x s' c e. handleToken demo_server (demo_renv 7) demo_token_post (demo_start\<lparr>st_codes := demo_store1\<rparr>) = (TokenResponse pair x, s') \<and>
    remembers (replay_key ''c'' c) e (st_replay s')"
proof -
  let ?s = "demo_start\<lparr>st_codes := demo_store1\<rparr>"
  have f: "rq_PostForm demo_token_post ''client_id'' = ''c''" "rq_PostForm demo_token_post ''grant_type'' = ''authorization_code''"
    "rq_PostForm demo_token_post ''redirect_uri'' = ''r''" "rq_PostForm demo_token_post ''client_assertion_type'' = ClientAssertionTypeJWTBearer"
    "rq_PostForm demo_token_post ''client_assertion'' = ''A''" "rq_PostForm demo_token_post ''resource'' = ''a''" "rq_PostForm demo_token_post ''code'' = demo_code"
    "rq_PostForm demo_token_post ''code_verifier'' = ''v''" "rq_Method demo_token_post = ''POST''" "isFormRequest demo_token_post" "rq_ParseForm demo_token_post"
    by (simp_all add: demo_token_post_def form_def isFormRequest_def)
  have sv: "as_Service demo_server = demo_service" "as_Resource demo_server = ''a''" "as_Issuer demo_server = ''i''" "as_verifier demo_server = demo_verifier"
    "mf_AllowedClientIDs (as_fetcher demo_server) = [''c'']" by (simp_all add: demo_server_def)
  have e: "e_web (demo_renv 7) = demo_web" "e_hops (demo_renv 7) = Suc 0" "e_call (demo_renv 7) = demo_env 7" "e_verify (demo_renv 7) = ac_env (demo_call 7)"
    by (simp_all add: demo_renv_def)
  have a: "allow (demo_renv 7) demo_token_post ?s = (True, ?s)" "allowClient demo_server (demo_renv 7) ''c'' ?s = (True, ?s)"
    by (simp_all add: allow_def allowClient_def Allow_def sv demo_start_def)
  have rp: "st_replay demo_start = Some (NewAssertionReplayStore 8)" and cd: "st_codes ?s = demo_store1" by (simp_all add: demo_start_def)
  have m: "token_metadata demo_server (demo_renv 7) demo_token_post = Inr demo_metadata"
    by (simp add: token_metadata_def f e demo_fetch_client)
  obtain st' where v: "Verify demo_verifier (ac_env (demo_call 7)) ''c'' demo_metadata ClientAssertionTypeJWTBearer ''A'' (Some (NewAssertionReplayStore 8)) = (True, st')"
    using demo_verify[of 7] by (auto simp: prod_eq_iff)
  obtain pair store' where x: "ExchangeAuthorizationCode demo_service (demo_env 7) demo_code demo_client ''r'' ''v'' demo_store1 = (Inr pair, store')"
    using demo_exchange by blast
  have run: "handleToken demo_server (demo_renv 7) demo_token_post ?s = (TokenResponse pair (max 0 ((AccessExpiresAt pair - e_pair_now (demo_renv 7)) div 1000000000)),
      (?s\<lparr>st_replay := st'\<rparr>)\<lparr>st_codes := store'\<rparr>)"
    using v x by (simp add: handleToken_def f a m sv e Let_def grantToken_def demo_client_def rp cd)
  have j: "jwt_laws (\<lambda>k a. a = ''A'') (pv_jwt (as_verifier demo_server))" using demo_jwt_laws by (simp add: sv demo_verifier_def)
  have r: "replay_ok (st_replay ?s)" by (simp add: demo_start_def replay_ok_def NewAssertionReplayStore_def)
  from token_endpoint_authenticated[OF run j r] obtain c e where "remembers (replay_key ''c'' c) e (st_replay ((?s\<lparr>st_replay := st'\<rparr>)\<lparr>st_codes := store'\<rparr>))" unfolding f(1) by blast
  then show ?thesis using run by blast
qed

end
