(* ===== verification/OAuth_Bootstrap.thy ===== *)
theory OAuth_Bootstrap
  imports OAuth_Server OAuth_Flow
begin

text \<open>
  The bearer bootstrap endpoint (internal/oauth/bootstrap.go) and the credential broker in front of
  InvenTree (inventree_credentials.go). The InvenTree client's answers, the generated names and the
  readings of the context are arguments that may differ from attempt to attempt.
\<close>

section \<open>The credential broker\<close>

record inventree_api =
  GetCurrentUser :: "credential \<Rightarrow> (int \<times> string) option"
  CreateCurrentUserToken :: "credential \<Rightarrow> string \<Rightarrow> string option"

definition broker_client :: "bool \<Rightarrow> credential \<Rightarrow> bool" where
  "broker_client base_url_ok c = (Credential_Validate c \<and> base_url_ok \<and> Credential_Validate c)"

definition broker_ValidateCredential :: "bool \<Rightarrow> inventree_api \<Rightarrow> credential \<Rightarrow> string option" where
  "broker_ValidateCredential base_url_ok api c = (if \<not> broker_client base_url_ok c then None else
     (case GetCurrentUser api c of None \<Rightarrow> None
      | Some (pk, username) \<Rightarrow> if pk \<le> 0 \<or> trim_space username = '''' then None
          else Some (''inventree-user:'' @ show_int pk @ '':'' @ username)))"

definition broker_CreateDedicatedCredential :: "bool \<Rightarrow> inventree_api \<Rightarrow> credential \<Rightarrow> string \<Rightarrow> credential option" where
  "broker_CreateDedicatedCredential base_url_ok api c tokenName = (if \<not> broker_client base_url_ok c then None else
     (let name = trim_space tokenName in if name = '''' \<or> length name > 100 then None else
     (case CreateCurrentUserToken api c name of None \<Rightarrow> None
      | Some token \<Rightarrow> if trim_space token = '''' then None else Some \<lparr>Scheme = AuthSchemeToken, Token = token\<rparr>)))"

section \<open>The endpoint\<close>

definition maxBootstrapAuthHeaderBytes :: nat where "maxBootstrapAuthHeaderBytes = 8 * 1024"
definition maxDedicatedTokenAttempts :: nat where "maxDedicatedTokenAttempts = 3"
definition DefaultBootstrapEnvelopeLifetime :: duration where "DefaultBootstrapEnvelopeLifetime = 30 * 24 * 60 * minute"

definition equal_fold :: "string \<Rightarrow> string \<Rightarrow> bool" where "equal_fold a b = (to_lower a = to_lower b)"

definition parseBootstrapAuthorization :: "string \<Rightarrow> credential option" where
  "parseBootstrapAuthorization header0 = (let header = trim_space header0 in
     if header = '''' \<or> length header > maxBootstrapAuthHeaderBytes then None
     else (case cut_on CHR '' '' header of (scheme, v, found) \<Rightarrow>
       if \<not> found then None
       else (let v = trim_space v in
         if equal_fold scheme AuthSchemeBasic then Some \<lparr>Scheme = AuthSchemeBasic, Token = v\<rparr>
         else if equal_fold scheme AuthSchemeToken then Some \<lparr>Scheme = AuthSchemeToken, Token = v\<rparr>
         else if equal_fold scheme AuthSchemeBearer then Some \<lparr>Scheme = AuthSchemeBearer, Token = v\<rparr>
         else None)))"

record bootstrap_server =
  bs_Issuer :: string
  bs_Resource :: string
  bs_Scopes :: "string list"
  bs_EnvelopeLifetime :: duration
  bs_service :: service

text \<open>One request: what the handler reads and, per attempt, the context's state, the generated name and the
  answers of InvenTree.\<close>

record bootstrap_call =
  bc_request :: request
  bc_drained :: bool
  bc_Authorization :: string
  bc_ip_now :: go_time
  bc_credential_now :: go_time
  bc_now :: go_time
  bc_base_url_ok :: bool
  bc_validate_api :: inventree_api
  bc_done :: "nat \<Rightarrow> bool"
  bc_new_id :: "nat \<Rightarrow> string option"
  bc_create_api :: "nat \<Rightarrow> inventree_api"
  bc_nonce :: "string + string"

datatype bootstrap_response = BootError nat string | BootMethodNotAllowed | BootToken string go_time

definition dedicatedBootstrapTokenName :: "string \<Rightarrow> string" where
  "dedicatedBootstrapTokenName random = ''inventree-mcp-static-'' @ random"

text \<open>The list holds the names tried.\<close>

fun attempts :: "bootstrap_call \<Rightarrow> credential \<Rightarrow> nat \<Rightarrow> nat \<Rightarrow> credential option \<times> string list" where
  "attempts bc c k 0 = (None, [])"
| "attempts bc c k (Suc left) = (if bc_done bc k then (None, []) else
     (case bc_new_id bc k of None \<Rightarrow> (None, [])
      | Some n \<Rightarrow> (let name = dedicatedBootstrapTokenName n in
          case broker_CreateDedicatedCredential (bc_base_url_ok bc) (bc_create_api bc k) c name of
            Some d \<Rightarrow> (Some d, [name])
          | None \<Rightarrow> (case attempts bc c (Suc k) left of (r, names) \<Rightarrow> (r, name # names)))))"

definition createDedicatedCredential :: "bootstrap_call \<Rightarrow> credential \<Rightarrow> credential option \<times> string list" where
  "createDedicatedCredential bc c = attempts bc c 0 maxDedicatedTokenAttempts"

definition boot_allow :: "bootstrap_call \<Rightarrow> rate_limiter option \<Rightarrow> bool \<times> rate_limiter option" where
  "boot_allow bc l = Allow (bc_ip_now bc) (rq_Path (bc_request bc) @ CHR 0x00 # ''ip:'' @ remote_key (bc_request bc)) l"

definition allowCredential :: "bootstrap_server \<Rightarrow> bootstrap_call \<Rightarrow> credential \<Rightarrow> rate_limiter option \<Rightarrow> bool \<times> rate_limiter option" where
  "allowCredential bs bc c l = Allow (bc_credential_now bc)
     (''credential:'' @ raw_encode alpha_url (sv_sha256 (bs_service bs) (Scheme c @ CHR 0x00 # Token c))) l"

definition bootstrap_claims :: "bootstrap_server \<Rightarrow> string \<Rightarrow> credential \<Rightarrow> go_time \<Rightarrow> token_claims" where
  "bootstrap_claims bs subject dedicated now = (let expiresAt = now + defaultDuration (bs_EnvelopeLifetime bs) DefaultBootstrapEnvelopeLifetime in
     \<lparr>tc_Type = TokenTypeBootstrapAccess, tc_Issuer = bs_Issuer bs, tc_Audience = bs_Resource bs, tc_Subject = subject, tc_ClientID = '''',
      tc_Scopes = bs_Scopes bs, tc_IssuedAt = now, tc_ExpiresAt = expiresAt, tc_SessionExpiresAt = expiresAt, tc_Credential = dedicated,
      tc_CredentialSource = CredentialSourceDedicated\<rparr>)"

definition handleBootstrap :: "bootstrap_server \<Rightarrow> bootstrap_call \<Rightarrow> rate_limiter option \<Rightarrow> bootstrap_response \<times> rate_limiter option" where
  "handleBootstrap bs bc l0 = (if rq_Method (bc_request bc) \<noteq> ''POST'' then (BootMethodNotAllowed, l0) else
     (case boot_allow bc l0 of (ok, l) \<Rightarrow>
      if \<not> ok then (BootError 429 ''Too many bootstrap attempts'', l)
      else if \<not> bc_drained bc then (BootError 400 ''Invalid bootstrap request'', l)
      else (case parseBootstrapAuthorization (bc_Authorization bc) of None \<Rightarrow> (BootError 400 ''Invalid bootstrap request'', l)
      | Some credential \<Rightarrow> (case allowCredential bs bc credential l of (ok, l) \<Rightarrow>
        if \<not> ok then (BootError 429 ''Too many bootstrap attempts'', l)
        else (case broker_ValidateCredential (bc_base_url_ok bc) (bc_validate_api bc) credential of
          None \<Rightarrow> (BootError 401 ''InvenTree credential could not be validated'', l)
        | Some subject \<Rightarrow> (case fst (createDedicatedCredential bc credential) of
            None \<Rightarrow> (BootError 502 ''Dedicated InvenTree token unavailable'', l)
          | Some dedicated \<Rightarrow> if \<not> ValidateForEnvelope dedicated then (BootError 502 ''Dedicated InvenTree token unavailable'', l)
            else (let claims = bootstrap_claims bs subject dedicated (bc_now bc) in
              case Seal (sv_aead (bs_service bs)) (sv_keyring (bs_service bs)) (bc_nonce bc) (sv_marshal_token (bs_service bs))
                  \<lparr>Issuer = bs_Issuer bs, Audience = bs_Resource bs, ClientID = '''', Type = TokenTypeBootstrapAccess\<rparr> claims of
                Inl _ \<Rightarrow> (BootError 500 ''Bootstrap unavailable'', l)
              | Inr token \<Rightarrow> (BootToken token (tc_ExpiresAt claims), l))))))))"

section \<open>What a bootstrap token is\<close>

lemma broker_create_scheme:
  "broker_CreateDedicatedCredential ok api c n = Some d \<Longrightarrow> Scheme d = AuthSchemeToken \<and> CreateCurrentUserToken api c (trim_space n) = Some (Token d) \<and> trim_space (Token d) \<noteq> ''''"
  by (auto simp: broker_CreateDedicatedCredential_def Let_def split: if_splits option.splits)

lemma attempts_result:
  "attempts bc c k left = (r, names) \<Longrightarrow> length names \<le> left \<and> (\<forall>n\<in>set names. \<exists>i. bc_new_id bc i \<noteq> None \<and> n = dedicatedBootstrapTokenName (the (bc_new_id bc i))) \<and>
    (\<forall>d. r = Some d \<longrightarrow> names \<noteq> [] \<and> (\<exists>i. broker_CreateDedicatedCredential (bc_base_url_ok bc) (bc_create_api bc i) c (last names) = Some d))"
proof (induction bc c k left arbitrary: r names rule: attempts.induct)
  case (2 bc c k left)
  show ?case
  proof (cases "bc_done bc k \<or> bc_new_id bc k = None")
    case True
    then show ?thesis using 2(2) by (auto split: if_splits)
  next
    case False
    then obtain n where n: "\<not> bc_done bc k" "bc_new_id bc k = Some n" by auto
    show ?thesis
    proof (cases "broker_CreateDedicatedCredential (bc_base_url_ok bc) (bc_create_api bc k) c (dedicatedBootstrapTokenName n)")
      case None
      obtain r2 names2 where rec: "attempts bc c (Suc k) left = (r2, names2)" by fastforce
      have eq: "r = r2" "names = dedicatedBootstrapTokenName n # names2" using 2(2) n None rec by (auto simp: Let_def)
      have "dedicatedBootstrapTokenName n = dedicatedBootstrapTokenName (the (bc_new_id bc k))" using n by simp
      then show ?thesis using 2(1)[OF n refl None rec] eq n(2) by auto
    next
      case (Some d)
      have "names = [dedicatedBootstrapTokenName n]" "r = Some d" using 2(2) n Some by (auto simp: Let_def)
      then show ?thesis using n Some by (auto intro: exI[of _ k])
    qed
  qed
qed simp

lemma handleBootstrap_token:
  assumes "handleBootstrap bs bc l = (BootToken token e, l')"
  obtains credential subject dedicated names where "parseBootstrapAuthorization (bc_Authorization bc) = Some credential"
    "broker_ValidateCredential (bc_base_url_ok bc) (bc_validate_api bc) credential = Some subject"
    "createDedicatedCredential bc credential = (Some dedicated, names)" "ValidateForEnvelope dedicated"
    "Seal (sv_aead (bs_service bs)) (sv_keyring (bs_service bs)) (bc_nonce bc) (sv_marshal_token (bs_service bs))
       \<lparr>Issuer = bs_Issuer bs, Audience = bs_Resource bs, ClientID = '''', Type = TokenTypeBootstrapAccess\<rparr>
       (bootstrap_claims bs subject dedicated (bc_now bc)) = Inr token"
    "e = tc_ExpiresAt (bootstrap_claims bs subject dedicated (bc_now bc))"
proof -
  from assms obtain credential subject dedicated where "parseBootstrapAuthorization (bc_Authorization bc) = Some credential"
    "broker_ValidateCredential (bc_base_url_ok bc) (bc_validate_api bc) credential = Some subject"
    "fst (createDedicatedCredential bc credential) = Some dedicated" "ValidateForEnvelope dedicated"
    "Seal (sv_aead (bs_service bs)) (sv_keyring (bs_service bs)) (bc_nonce bc) (sv_marshal_token (bs_service bs))
       \<lparr>Issuer = bs_Issuer bs, Audience = bs_Resource bs, ClientID = '''', Type = TokenTypeBootstrapAccess\<rparr>
       (bootstrap_claims bs subject dedicated (bc_now bc)) = Inr token"
    "e = tc_ExpiresAt (bootstrap_claims bs subject dedicated (bc_now bc))"
    by (auto simp: handleBootstrap_def Let_def split: if_splits prod.splits option.splits sum.splits)
  then show ?thesis using that by (cases "createDedicatedCredential bc credential") auto
qed


definition demo_bootstrap :: bootstrap_server where
  "demo_bootstrap = \<lparr>bs_Issuer = ''i'', bs_Resource = ''a'', bs_Scopes = [''read''], bs_EnvelopeLifetime = 100, bs_service = demo_service\<rparr>"

definition demo_boot_call :: bootstrap_call where
  "demo_boot_call = \<lparr>bc_request = \<lparr>rq_Method = ''POST'', rq_Path = ''/bootstrap'', rq_Query = (\<lambda>_. ''''), rq_PostForm = (\<lambda>_. ''''), rq_mediaType = None,
       rq_ParseForm = True, rq_Cookie = None, rq_SourceIP = None, rq_RemoteHost = None, rq_RemoteAddr = ''''\<rparr>,
     bc_drained = True, bc_Authorization = ''basic dTpw'', bc_ip_now = 5, bc_credential_now = 5, bc_now = 5, bc_base_url_ok = True,
     bc_validate_api = \<lparr>GetCurrentUser = (\<lambda>c. Some (7, ''u'')), CreateCurrentUserToken = (\<lambda>c n. None)\<rparr>,
     bc_done = (\<lambda>k. False), bc_new_id = (\<lambda>k. Some ''id''),
     bc_create_api = (\<lambda>k. \<lparr>GetCurrentUser = (\<lambda>c. None), CreateCurrentUserToken = (\<lambda>c n. if k = 0 then None else Some ''dedicated'')\<rparr>),
     bc_nonce = Inr (replicate 12 CHR ''n'')\<rparr>"


end
