(* ===== verification/Plan_Stores.thy ===== *)
theory Plan_Stores
  imports OAuth_Service
begin

text \<open>
  The per-tool confirmation stores of internal/tools (the *PlanStore types). They share one shape:
  a table from random tokens to confirmations (digest, principal, the identifying fields of the
  plan, expiry), issue and consume. Two code shapes exist: most stores purge and supersede in one
  loop, the others call deleteExpired first; \<open>plan_issue_inline\<close> and
  \<open>plan_issue_purge\<close> transcribe them, and each store instantiates one with its plan type,
  key fields, limits and lifetime. The plan digest (SHA-256 over json.Marshal) is an argument.
\<close>

section \<open>The shared shape\<close>

record 'k confirmation =
  cf_digest :: string
  cf_principal :: string
  cf_key :: 'k
  cf_expiresAt :: go_time

record 'k plan_store =
  ps_entries :: "(string, 'k confirmation) go_map"
  ps_maxEntries :: int
  ps_maxEntriesPerPrincipal :: int

text \<open>One call: the clock reading, the token generator's answer and the caller's token information.\<close>

record plan_call =
  pc_now :: go_time
  pc_token :: "string + string"
  pc_info :: "token_info option"

datatype plan_error = PlanDigestError string | PlanTokenError string | PlanCapacity

definition stockPlanPrincipal :: "token_info option \<Rightarrow> string" where
  "stockPlanPrincipal info = (case info of Some i \<Rightarrow> ''oauth:'' @ ti_UserID i | None \<Rightarrow> ''stdio'')"

definition randomStockPlanToken :: "string + string \<Rightarrow> string + string" where
  "randomStockPlanToken random = sum_bind random (\<lambda>bytes. Inr (raw_encode alpha_url bytes))"

definition stockPlanLifetime :: duration where "stockPlanLifetime = 5 * minute"
definition stockPlanMaxEntries :: int where "stockPlanMaxEntries = 4096"
definition stockPlanMaxEntriesPerPrincipal :: int where "stockPlanMaxEntriesPerPrincipal = 64"

definition deleteExpired :: "go_time \<Rightarrow> (string, 'k confirmation) go_map \<Rightarrow> (string, 'k confirmation) go_map" where
  "deleteExpired now es = gm_keep (\<lambda>e. now < cf_expiresAt e) es"

fun purgeSupersedeLoop :: "go_time \<Rightarrow> string \<Rightarrow> 'k \<Rightarrow> (string, 'k confirmation) go_map \<Rightarrow> (string, 'k confirmation) go_map \<times> int" where
  "purgeSupersedeLoop now prin k [] = ([], 0)"
| "purgeSupersedeLoop now prin k ((t, e) # es) =
    (let (kept, principalEntries) = purgeSupersedeLoop now prin k es in
     if \<not> now < cf_expiresAt e \<or> (cf_principal e = prin \<and> cf_key e = k) then (kept, principalEntries)
     else ((t, e) # kept, if cf_principal e = prin then principalEntries + 1 else principalEntries))"

fun supersedePlanLoop :: "string \<Rightarrow> 'k \<Rightarrow> (string, 'k confirmation) go_map \<Rightarrow> (string, 'k confirmation) go_map \<times> int" where
  "supersedePlanLoop prin k [] = ([], 0)"
| "supersedePlanLoop prin k ((t, e) # es) =
    (let (kept, principalEntries) = supersedePlanLoop prin k es in
     if cf_principal e = prin \<and> cf_key e = k then (kept, principalEntries)
     else ((t, e) # kept, if cf_principal e = prin then principalEntries + 1 else principalEntries))"

definition plan_insert :: "duration \<Rightarrow> string \<Rightarrow> string \<Rightarrow> 'k \<Rightarrow> string \<Rightarrow> go_time \<Rightarrow>
    (string, 'k confirmation) go_map \<times> int \<Rightarrow> 'k plan_store \<Rightarrow> (plan_error + string) \<times> 'k plan_store" where
  "plan_insert life d prin k token now scan s = (case scan of (kept, principalEntries) \<Rightarrow>
     if int (length kept) \<ge> ps_maxEntries s \<or> principalEntries \<ge> ps_maxEntriesPerPrincipal s
     then (Inl PlanCapacity, s\<lparr>ps_entries := kept\<rparr>)
     else (Inr token, s\<lparr>ps_entries := gm_put token
        \<lparr>cf_digest = d, cf_principal = prin, cf_key = k, cf_expiresAt = now + life\<rparr> kept\<rparr>))"

definition plan_issue_inline :: "duration \<Rightarrow> ('p \<Rightarrow> string + string) \<Rightarrow> ('p \<Rightarrow> 'k) \<Rightarrow> plan_call \<Rightarrow> 'p \<Rightarrow> 'k plan_store \<Rightarrow>
    (plan_error + string) \<times> 'k plan_store" where
  "plan_issue_inline life dig key c plan s = (case dig plan of Inl e \<Rightarrow> (Inl (PlanDigestError e), s) | Inr d \<Rightarrow>
     (case pc_token c of Inl e \<Rightarrow> (Inl (PlanTokenError e), s) | Inr token \<Rightarrow>
      (let prin = stockPlanPrincipal (pc_info c) in
       plan_insert life d prin (key plan) token (pc_now c)
         (purgeSupersedeLoop (pc_now c) prin (key plan) (ps_entries s)) s)))"

definition plan_issue_purge :: "duration \<Rightarrow> ('p \<Rightarrow> string + string) \<Rightarrow> ('p \<Rightarrow> 'k) \<Rightarrow> plan_call \<Rightarrow> 'p \<Rightarrow> 'k plan_store \<Rightarrow>
    (plan_error + string) \<times> 'k plan_store" where
  "plan_issue_purge life dig key c plan s = (case dig plan of Inl e \<Rightarrow> (Inl (PlanDigestError e), s) | Inr d \<Rightarrow>
     (case pc_token c of Inl e \<Rightarrow> (Inl (PlanTokenError e), s) | Inr token \<Rightarrow>
      (let prin = stockPlanPrincipal (pc_info c) in
       plan_insert life d prin (key plan) token (pc_now c)
         (supersedePlanLoop prin (key plan) (deleteExpired (pc_now c) (ps_entries s))) s)))"

definition plan_consume :: "('p \<Rightarrow> string + string) \<Rightarrow> ('p \<Rightarrow> 'k) \<Rightarrow> plan_call \<Rightarrow> string \<Rightarrow> 'p \<Rightarrow> 'k plan_store \<Rightarrow>
    bool \<times> 'k plan_store" where
  "plan_consume dig key c token plan s = (case dig plan of Inl e \<Rightarrow> (False, s) | Inr d \<Rightarrow>
     (let es = deleteExpired (pc_now c) (ps_entries s) in
      case map_of es token of None \<Rightarrow> (False, s\<lparr>ps_entries := es\<rparr>) | Some e \<Rightarrow>
        if cf_digest e \<noteq> d \<or> cf_principal e \<noteq> stockPlanPrincipal (pc_info c) \<or> cf_key e \<noteq> key plan \<or>
           \<not> pc_now c < cf_expiresAt e
        then (False, s\<lparr>ps_entries := es\<rparr>) else (True, s\<lparr>ps_entries := gm_del token es\<rparr>)))"

definition new_plan_store :: "int \<Rightarrow> int \<Rightarrow> 'k plan_store" where
  "new_plan_store m mp = \<lparr>ps_entries = [], ps_maxEntries = m, ps_maxEntriesPerPrincipal = mp\<rparr>"

section \<open>The stores\<close>

text \<open>An InvenTree record: its key and, as text, the fields the code only copies and digests.\<close>

record inventree_ref =
  PK :: int
  Body :: string

record assign_address_plan =
  aa_Action :: string
  aa_PurchaseOrderID :: int
  aa_CompanyID :: int
  aa_CurrentAddressID :: "int option"
  aa_NewAddressID :: "int option"

definition addressPlanLifetime :: duration where "addressPlanLifetime = 5 * minute"
definition addressPlanMaxEntries :: int where "addressPlanMaxEntries = 4096"
definition addressPlanMaxEntriesPerPrincipal :: int where "addressPlanMaxEntriesPerPrincipal = 64"

definition newAddressPlanStore :: "int plan_store" where
  "newAddressPlanStore = new_plan_store addressPlanMaxEntries addressPlanMaxEntriesPerPrincipal"

definition address_issue :: "(assign_address_plan \<Rightarrow> string + string) \<Rightarrow> plan_call \<Rightarrow> assign_address_plan \<Rightarrow> int plan_store \<Rightarrow> (plan_error + string) \<times> int plan_store" where
  "address_issue dig = plan_issue_inline addressPlanLifetime dig aa_PurchaseOrderID"

definition address_consume :: "(assign_address_plan \<Rightarrow> string + string) \<Rightarrow> plan_call \<Rightarrow> string \<Rightarrow> assign_address_plan \<Rightarrow> int plan_store \<Rightarrow> bool \<times> int plan_store" where
  "address_consume dig = plan_consume dig aa_PurchaseOrderID"

record 'b category_delete_plan =
  cd_Action :: string
  cd_Category :: inventree_ref
  cd_Blocking :: 'b

definition categoryDeletePlanLifetime :: duration where "categoryDeletePlanLifetime = 5 * minute"
definition categoryDeletePlanMaxEntries :: int where "categoryDeletePlanMaxEntries = 4096"
definition categoryDeletePlanMaxEntriesPerPrincipal :: int where "categoryDeletePlanMaxEntriesPerPrincipal = 64"

definition newCategoryDeletePlanStore :: "int plan_store" where
  "newCategoryDeletePlanStore = new_plan_store categoryDeletePlanMaxEntries categoryDeletePlanMaxEntriesPerPrincipal"

definition category_delete_issue :: "('b category_delete_plan \<Rightarrow> string + string) \<Rightarrow> plan_call \<Rightarrow> 'b category_delete_plan \<Rightarrow> int plan_store \<Rightarrow> (plan_error + string) \<times> int plan_store" where
  "category_delete_issue dig = plan_issue_inline categoryDeletePlanLifetime dig (\<lambda>p. PK (cd_Category p))"

definition category_delete_consume :: "('b category_delete_plan \<Rightarrow> string + string) \<Rightarrow> plan_call \<Rightarrow> string \<Rightarrow> 'b category_delete_plan \<Rightarrow> int plan_store \<Rightarrow> bool \<times> int plan_store" where
  "category_delete_consume dig = plan_consume dig (\<lambda>p. PK (cd_Category p))"

record company_role_plan =
  cr_Action :: string
  cr_CompanyID :: int
  cr_Name :: string
  cr_Role :: string

definition companyRolePlanLifetime :: duration where "companyRolePlanLifetime = 5 * minute"
definition companyRolePlanMaxEntries :: int where "companyRolePlanMaxEntries = 4096"
definition companyRolePlanMaxEntriesPerPrincipal :: int where "companyRolePlanMaxEntriesPerPrincipal = 64"

definition newCompanyRolePlanStore :: "int plan_store" where
  "newCompanyRolePlanStore = new_plan_store companyRolePlanMaxEntries companyRolePlanMaxEntriesPerPrincipal"

definition company_role_issue :: "(company_role_plan \<Rightarrow> string + string) \<Rightarrow> plan_call \<Rightarrow> company_role_plan \<Rightarrow> int plan_store \<Rightarrow> (plan_error + string) \<times> int plan_store" where
  "company_role_issue dig = plan_issue_inline companyRolePlanLifetime dig cr_CompanyID"

definition company_role_consume :: "(company_role_plan \<Rightarrow> string + string) \<Rightarrow> plan_call \<Rightarrow> string \<Rightarrow> company_role_plan \<Rightarrow> int plan_store \<Rightarrow> bool \<times> int plan_store" where
  "company_role_consume dig = plan_consume dig cr_CompanyID"

record assign_contact_plan =
  ac_Action :: string
  ac_PurchaseOrderID :: int
  ac_CompanyID :: int
  ac_CurrentContactID :: "int option"
  ac_NewContactID :: "int option"

definition contactPlanLifetime :: duration where "contactPlanLifetime = 5 * minute"
definition contactPlanMaxEntries :: int where "contactPlanMaxEntries = 4096"
definition contactPlanMaxEntriesPerPrincipal :: int where "contactPlanMaxEntriesPerPrincipal = 64"

definition newContactPlanStore :: "int plan_store" where
  "newContactPlanStore = new_plan_store contactPlanMaxEntries contactPlanMaxEntriesPerPrincipal"

definition contact_issue :: "(assign_contact_plan \<Rightarrow> string + string) \<Rightarrow> plan_call \<Rightarrow> assign_contact_plan \<Rightarrow> int plan_store \<Rightarrow> (plan_error + string) \<times> int plan_store" where
  "contact_issue dig = plan_issue_inline contactPlanLifetime dig ac_PurchaseOrderID"

definition contact_consume :: "(assign_contact_plan \<Rightarrow> string + string) \<Rightarrow> plan_call \<Rightarrow> string \<Rightarrow> assign_contact_plan \<Rightarrow> int plan_store \<Rightarrow> bool \<times> int plan_store" where
  "contact_consume dig = plan_consume dig ac_PurchaseOrderID"

record 't object_parameter_delete_plan =
  op_Action :: string
  op_Parameter :: inventree_ref
  op_Template :: 't

definition objectParameterDeletePlanLifetime :: duration where "objectParameterDeletePlanLifetime = 5 * minute"
definition objectParameterDeletePlanMaxEntries :: int where "objectParameterDeletePlanMaxEntries = 4096"
definition objectParameterDeletePlanMaxEntriesPerPrincipal :: int where "objectParameterDeletePlanMaxEntriesPerPrincipal = 64"

definition newObjectParameterDeletePlanStore :: "int plan_store" where
  "newObjectParameterDeletePlanStore = new_plan_store objectParameterDeletePlanMaxEntries objectParameterDeletePlanMaxEntriesPerPrincipal"

definition object_parameter_delete_issue :: "('t object_parameter_delete_plan \<Rightarrow> string + string) \<Rightarrow> plan_call \<Rightarrow> 't object_parameter_delete_plan \<Rightarrow> int plan_store \<Rightarrow> (plan_error + string) \<times> int plan_store" where
  "object_parameter_delete_issue dig = plan_issue_inline objectParameterDeletePlanLifetime dig (\<lambda>p. PK (op_Parameter p))"

definition object_parameter_delete_consume :: "('t object_parameter_delete_plan \<Rightarrow> string + string) \<Rightarrow> plan_call \<Rightarrow> string \<Rightarrow> 't object_parameter_delete_plan \<Rightarrow> int plan_store \<Rightarrow> bool \<times> int plan_store" where
  "object_parameter_delete_consume dig = plan_consume dig (\<lambda>p. PK (op_Parameter p))"

record assign_owner_plan =
  ao_Action :: string
  ao_ObjectType :: string
  ao_ObjectID :: int
  ao_CurrentOwnerID :: "int option"
  ao_NewOwnerID :: "int option"

definition ownerPlanLifetime :: duration where "ownerPlanLifetime = 5 * minute"
definition ownerPlanMaxEntries :: int where "ownerPlanMaxEntries = 4096"
definition ownerPlanMaxEntriesPerPrincipal :: int where "ownerPlanMaxEntriesPerPrincipal = 64"

definition newOwnerPlanStore :: "(string \<times> int) plan_store" where
  "newOwnerPlanStore = new_plan_store ownerPlanMaxEntries ownerPlanMaxEntriesPerPrincipal"

definition owner_issue :: "(assign_owner_plan \<Rightarrow> string + string) \<Rightarrow> plan_call \<Rightarrow> assign_owner_plan \<Rightarrow> (string \<times> int) plan_store \<Rightarrow> (plan_error + string) \<times> (string \<times> int) plan_store" where
  "owner_issue dig = plan_issue_inline ownerPlanLifetime dig (\<lambda>p. (ao_ObjectType p, ao_ObjectID p))"

definition owner_consume :: "(assign_owner_plan \<Rightarrow> string + string) \<Rightarrow> plan_call \<Rightarrow> string \<Rightarrow> assign_owner_plan \<Rightarrow> (string \<times> int) plan_store \<Rightarrow> bool \<times> (string \<times> int) plan_store" where
  "owner_consume dig = plan_consume dig (\<lambda>p. (ao_ObjectType p, ao_ObjectID p))"

record ('u, 'x) template_uniqueness_plan =
  tu_Action :: string
  tu_Template :: inventree_ref
  tu_TargetUnique :: 'u
  tu_RowIDs :: "int list"
  tu_Conflicts :: "'x list"

definition parameterTemplateUniquenessPlanLifetime :: duration where "parameterTemplateUniquenessPlanLifetime = 5 * minute"
definition parameterTemplateUniquenessPlanMaxEntries :: int where "parameterTemplateUniquenessPlanMaxEntries = 4096"
definition parameterTemplateUniquenessPlanMaxEntriesPerPrincipal :: int where "parameterTemplateUniquenessPlanMaxEntriesPerPrincipal = 64"

definition newParameterTemplateUniquenessPlanStore :: "int plan_store" where
  "newParameterTemplateUniquenessPlanStore = new_plan_store parameterTemplateUniquenessPlanMaxEntries parameterTemplateUniquenessPlanMaxEntriesPerPrincipal"

definition template_uniqueness_issue :: "(('u, 'x) template_uniqueness_plan \<Rightarrow> string + string) \<Rightarrow> plan_call \<Rightarrow> ('u, 'x) template_uniqueness_plan \<Rightarrow> int plan_store \<Rightarrow> (plan_error + string) \<times> int plan_store" where
  "template_uniqueness_issue dig = plan_issue_inline parameterTemplateUniquenessPlanLifetime dig (\<lambda>p. PK (tu_Template p))"

definition template_uniqueness_consume :: "(('u, 'x) template_uniqueness_plan \<Rightarrow> string + string) \<Rightarrow> plan_call \<Rightarrow> string \<Rightarrow> ('u, 'x) template_uniqueness_plan \<Rightarrow> int plan_store \<Rightarrow> bool \<times> int plan_store" where
  "template_uniqueness_consume dig = plan_consume dig (\<lambda>p. PK (tu_Template p))"

record part_relation_plan =
  pr_Action :: string
  pr_Before :: inventree_ref
  pr_After :: "inventree_ref option"

definition partRelationPlanLifetime :: duration where "partRelationPlanLifetime = 5 * minute"
definition partRelationPlanMaxEntries :: int where "partRelationPlanMaxEntries = 4096"
definition partRelationPlanMaxEntriesPerPrincipal :: int where "partRelationPlanMaxEntriesPerPrincipal = 64"

definition newPartRelationPlanStore :: "int plan_store" where
  "newPartRelationPlanStore = new_plan_store partRelationPlanMaxEntries partRelationPlanMaxEntriesPerPrincipal"

definition part_relation_issue :: "(part_relation_plan \<Rightarrow> string + string) \<Rightarrow> plan_call \<Rightarrow> part_relation_plan \<Rightarrow> int plan_store \<Rightarrow> (plan_error + string) \<times> int plan_store" where
  "part_relation_issue dig = plan_issue_inline partRelationPlanLifetime dig (\<lambda>p. PK (pr_Before p))"

definition part_relation_consume :: "(part_relation_plan \<Rightarrow> string + string) \<Rightarrow> plan_call \<Rightarrow> string \<Rightarrow> part_relation_plan \<Rightarrow> int plan_store \<Rightarrow> bool \<times> int plan_store" where
  "part_relation_consume dig = plan_consume dig (\<lambda>p. PK (pr_Before p))"

record assign_project_code_plan =
  pj_Action :: string
  pj_ObjectType :: string
  pj_ObjectID :: int
  pj_CurrentProjectCodeID :: "int option"
  pj_NewProjectCodeID :: "int option"

definition projectCodePlanLifetime :: duration where "projectCodePlanLifetime = 5 * minute"
definition projectCodePlanMaxEntries :: int where "projectCodePlanMaxEntries = 4096"
definition projectCodePlanMaxEntriesPerPrincipal :: int where "projectCodePlanMaxEntriesPerPrincipal = 64"

definition newProjectCodePlanStore :: "(string \<times> int) plan_store" where
  "newProjectCodePlanStore = new_plan_store projectCodePlanMaxEntries projectCodePlanMaxEntriesPerPrincipal"

definition project_code_issue :: "(assign_project_code_plan \<Rightarrow> string + string) \<Rightarrow> plan_call \<Rightarrow> assign_project_code_plan \<Rightarrow> (string \<times> int) plan_store \<Rightarrow> (plan_error + string) \<times> (string \<times> int) plan_store" where
  "project_code_issue dig = plan_issue_inline projectCodePlanLifetime dig (\<lambda>p. (pj_ObjectType p, pj_ObjectID p))"

definition project_code_consume :: "(assign_project_code_plan \<Rightarrow> string + string) \<Rightarrow> plan_call \<Rightarrow> string \<Rightarrow> assign_project_code_plan \<Rightarrow> (string \<times> int) plan_store \<Rightarrow> bool \<times> (string \<times> int) plan_store" where
  "project_code_consume dig = plan_consume dig (\<lambda>p. (pj_ObjectType p, pj_ObjectID p))"

record 'r location_delete_plan =
  ld_Action :: string
  ld_Location :: inventree_ref
  ld_References :: 'r

definition stockLocationDeletePlanLifetime :: duration where "stockLocationDeletePlanLifetime = 5 * minute"
definition stockLocationDeletePlanMaxEntries :: int where "stockLocationDeletePlanMaxEntries = 4096"
definition stockLocationDeletePlanMaxEntriesPerPrincipal :: int where "stockLocationDeletePlanMaxEntriesPerPrincipal = 64"

definition newStockLocationDeletePlanStore :: "int plan_store" where
  "newStockLocationDeletePlanStore = new_plan_store stockLocationDeletePlanMaxEntries stockLocationDeletePlanMaxEntriesPerPrincipal"

definition location_delete_issue :: "('r location_delete_plan \<Rightarrow> string + string) \<Rightarrow> plan_call \<Rightarrow> 'r location_delete_plan \<Rightarrow> int plan_store \<Rightarrow> (plan_error + string) \<times> int plan_store" where
  "location_delete_issue dig = plan_issue_inline stockLocationDeletePlanLifetime dig (\<lambda>p. PK (ld_Location p))"

definition location_delete_consume :: "('r location_delete_plan \<Rightarrow> string + string) \<Rightarrow> plan_call \<Rightarrow> string \<Rightarrow> 'r location_delete_plan \<Rightarrow> int plan_store \<Rightarrow> bool \<times> int plan_store" where
  "location_delete_consume dig = plan_consume dig (\<lambda>p. PK (ld_Location p))"

record location_type_delete_plan =
  lt_Action :: string
  lt_Type :: inventree_ref
  lt_ReferencingLocationIDs :: "int list"

definition stockLocationTypeDeletePlanLifetime :: duration where "stockLocationTypeDeletePlanLifetime = 5 * minute"
definition stockLocationTypeDeletePlanMaxEntries :: int where "stockLocationTypeDeletePlanMaxEntries = 4096"
definition stockLocationTypeDeletePlanMaxEntriesPerPrincipal :: int where "stockLocationTypeDeletePlanMaxEntriesPerPrincipal = 64"

definition newStockLocationTypeDeletePlanStore :: "int plan_store" where
  "newStockLocationTypeDeletePlanStore = new_plan_store stockLocationTypeDeletePlanMaxEntries stockLocationTypeDeletePlanMaxEntriesPerPrincipal"

definition location_type_delete_issue :: "(location_type_delete_plan \<Rightarrow> string + string) \<Rightarrow> plan_call \<Rightarrow> location_type_delete_plan \<Rightarrow> int plan_store \<Rightarrow> (plan_error + string) \<times> int plan_store" where
  "location_type_delete_issue dig = plan_issue_inline stockLocationTypeDeletePlanLifetime dig (\<lambda>p. PK (lt_Type p))"

definition location_type_delete_consume :: "(location_type_delete_plan \<Rightarrow> string + string) \<Rightarrow> plan_call \<Rightarrow> string \<Rightarrow> location_type_delete_plan \<Rightarrow> int plan_store \<Rightarrow> bool \<times> int plan_store" where
  "location_type_delete_consume dig = plan_consume dig (\<lambda>p. PK (lt_Type p))"

record part_family_state =
  pf_PartID :: int
  pf_RevisionOf :: "int option"
  pf_RevisionCount :: "int option"
  pf_VariantOf :: "int option"

record 'n part_family_plan =
  pf_Before :: part_family_state
  pf_After :: part_family_state
  pf_TopologyEvidence :: "'n list"

definition partFamilyPlanLifetime :: duration where "partFamilyPlanLifetime = 5 * minute"
definition partFamilyPlanMaxEntries :: int where "partFamilyPlanMaxEntries = 4096"
definition partFamilyPlanMaxEntriesPerPrincipal :: int where "partFamilyPlanMaxEntriesPerPrincipal = 64"

definition newPartFamilyPlanStore :: "int plan_store" where
  "newPartFamilyPlanStore = new_plan_store partFamilyPlanMaxEntries partFamilyPlanMaxEntriesPerPrincipal"

definition part_family_issue :: "('n part_family_plan \<Rightarrow> string + string) \<Rightarrow> plan_call \<Rightarrow> 'n part_family_plan \<Rightarrow> int plan_store \<Rightarrow> (plan_error + string) \<times> int plan_store" where
  "part_family_issue dig = plan_issue_purge partFamilyPlanLifetime dig (\<lambda>p. pf_PartID (pf_Before p))"

definition part_family_consume :: "('n part_family_plan \<Rightarrow> string + string) \<Rightarrow> plan_call \<Rightarrow> string \<Rightarrow> 'n part_family_plan \<Rightarrow> int plan_store \<Rightarrow> bool \<times> int plan_store" where
  "part_family_consume dig = plan_consume dig (\<lambda>p. pf_PartID (pf_Before p))"

record ('o, 'l, 'x) po_lifecycle_plan =
  po_Action :: string
  po_OrderID :: int
  po_Order :: 'o
  po_Lines :: "'l list"
  po_ExtraLines :: "'x list"
  po_TargetStatus :: int


definition newPurchaseOrderLifecyclePlanStore :: "(int \<times> string) plan_store" where
  "newPurchaseOrderLifecyclePlanStore = new_plan_store stockPlanMaxEntries stockPlanMaxEntriesPerPrincipal"

definition po_lifecycle_issue :: "(('o, 'l, 'x) po_lifecycle_plan \<Rightarrow> string + string) \<Rightarrow> plan_call \<Rightarrow> ('o, 'l, 'x) po_lifecycle_plan \<Rightarrow> (int \<times> string) plan_store \<Rightarrow> (plan_error + string) \<times> (int \<times> string) plan_store" where
  "po_lifecycle_issue dig = plan_issue_purge stockPlanLifetime dig (\<lambda>p. (po_OrderID p, po_Action p))"

definition po_lifecycle_consume :: "(('o, 'l, 'x) po_lifecycle_plan \<Rightarrow> string + string) \<Rightarrow> plan_call \<Rightarrow> string \<Rightarrow> ('o, 'l, 'x) po_lifecycle_plan \<Rightarrow> (int \<times> string) plan_store \<Rightarrow> bool \<times> (int \<times> string) plan_store" where
  "po_lifecycle_consume dig = plan_consume dig (\<lambda>p. (po_OrderID p, po_Action p))"

record ('s, 'o) provenance_plan =
  sp_Before :: inventree_ref
  sp_After :: inventree_ref
  sp_SupplierPart :: "'s option"
  sp_PurchaseOrder :: "'o option"


definition newStockProvenancePlanStore :: "int plan_store" where
  "newStockProvenancePlanStore = new_plan_store stockPlanMaxEntries stockPlanMaxEntriesPerPrincipal"

definition provenance_issue :: "(('s, 'o) provenance_plan \<Rightarrow> string + string) \<Rightarrow> plan_call \<Rightarrow> ('s, 'o) provenance_plan \<Rightarrow> int plan_store \<Rightarrow> (plan_error + string) \<times> int plan_store" where
  "provenance_issue dig = plan_issue_purge stockPlanLifetime dig (\<lambda>p. PK (sp_Before p))"

definition provenance_consume :: "(('s, 'o) provenance_plan \<Rightarrow> string + string) \<Rightarrow> plan_call \<Rightarrow> string \<Rightarrow> ('s, 'o) provenance_plan \<Rightarrow> int plan_store \<Rightarrow> bool \<times> int plan_store" where
  "provenance_consume dig = plan_consume dig (\<lambda>p. PK (sp_Before p))"

record 'a bulk_parameter_plan =
  bp_TemplateID :: int
  bp_TemplateName :: string
  bp_Value :: string
  bp_PartIDs :: "int list"
  bp_CategoryID :: int
  bp_IncludeSubcategories :: bool
  bp_OverwriteExisting :: bool
  bp_Actions :: "'a list"

definition selector_of_parts :: "int list \<Rightarrow> string" where
  "selector_of_parts ids = CHR ''['' # join_on CHR '' '' (map show_int ids) @ '']''"

definition bulkParameterSelector :: "'a bulk_parameter_plan \<Rightarrow> string" where
  "bulkParameterSelector p = show_int (bp_TemplateID p) @ CHR '':'' # show_int (bp_CategoryID p) @ CHR '':'' #
     (if bp_IncludeSubcategories p then ''true'' else ''false'') @ CHR '':'' # selector_of_parts (bp_PartIDs p)"

definition parameterPlanLifetime :: duration where "parameterPlanLifetime = 5 * minute"
definition parameterPlanMaxEntries :: int where "parameterPlanMaxEntries = 4096"
definition parameterPlanMaxEntriesPerOwner :: int where "parameterPlanMaxEntriesPerOwner = 64"

definition newParameterPlanStore :: "string plan_store" where
  "newParameterPlanStore = new_plan_store parameterPlanMaxEntries parameterPlanMaxEntriesPerOwner"

definition bulk_parameter_issue :: "('a bulk_parameter_plan \<Rightarrow> string + string) \<Rightarrow> plan_call \<Rightarrow> 'a bulk_parameter_plan \<Rightarrow> string plan_store \<Rightarrow> (plan_error + string) \<times> string plan_store" where
  "bulk_parameter_issue dig = plan_issue_purge parameterPlanLifetime dig bulkParameterSelector"

definition bulk_parameter_consume :: "('a bulk_parameter_plan \<Rightarrow> string + string) \<Rightarrow> plan_call \<Rightarrow> string \<Rightarrow> 'a bulk_parameter_plan \<Rightarrow> string plan_store \<Rightarrow> bool \<times> string plan_store" where
  "bulk_parameter_consume dig = plan_consume dig bulkParameterSelector"

section \<open>Laws\<close>

definition plan_superseded :: "string \<Rightarrow> 'k \<Rightarrow> 'k confirmation \<Rightarrow> bool" where
  "plan_superseded prin k e \<longleftrightarrow> cf_principal e = prin \<and> cf_key e = k"

definition plan_load :: "string \<Rightarrow> (string, 'k confirmation) go_map \<Rightarrow> nat" where
  "plan_load prin es = length (filter (\<lambda>e. cf_principal (snd e) = prin) es)"

lemma purgeSupersedeLoop_eq:
  "purgeSupersedeLoop now prin k es = supersedePlanLoop prin k (deleteExpired now es)"
  by (induction es rule: purgeSupersedeLoop.induct) (auto simp: deleteExpired_def gm_keep_def Let_def split: prod.splits)

lemma plan_issue_inline_eq: "plan_issue_inline life dig key = plan_issue_purge life dig key"
  by (intro ext) (simp add: plan_issue_inline_def plan_issue_purge_def purgeSupersedeLoop_eq Let_def split: sum.splits)

lemma supersedePlanLoop_eq:
  "supersedePlanLoop prin k es = (gm_keep (\<lambda>e. \<not> plan_superseded prin k e) es,
     int (plan_load prin (gm_keep (\<lambda>e. \<not> plan_superseded prin k e) es)))"
  by (induction es rule: supersedePlanLoop.induct) (auto simp: gm_keep_def plan_superseded_def plan_load_def)

definition plan_inv :: "int \<Rightarrow> int \<Rightarrow> 'k plan_store \<Rightarrow> bool" where
  "plan_inv m mp s \<longleftrightarrow> ps_maxEntries s = m \<and> ps_maxEntriesPerPrincipal s = mp \<and> gm_wf (ps_entries s) \<and>
     (\<forall>prin. int (plan_load prin (ps_entries s)) \<le> mp) \<and>
     distinct (map (\<lambda>e. (cf_principal (snd e), cf_key (snd e))) (ps_entries s))"

lemma plan_load_filter: "plan_load prin (filter P es) \<le> plan_load prin es"
  by (induction es) (auto simp: plan_load_def)

lemma plan_inv_filter [inv_intros]: "plan_inv m mp s \<Longrightarrow> plan_inv m mp (s\<lparr>ps_entries := filter P (ps_entries s)\<rparr>)"
  using plan_load_filter[of _ P "ps_entries s"]
  by (auto simp: plan_inv_def gm_wf_filter distinct_map_filter intro: order.trans[OF of_nat_mono])

definition plan_kept :: "plan_call \<Rightarrow> 'k \<Rightarrow> (string, 'k confirmation) go_map \<Rightarrow> (string, 'k confirmation) go_map" where
  "plan_kept c k es = gm_keep (\<lambda>e. \<not> plan_superseded (stockPlanPrincipal (pc_info c)) k e) (deleteExpired (pc_now c) es)"

definition plan_entry :: "duration \<Rightarrow> ('p \<Rightarrow> string + string) \<Rightarrow> ('p \<Rightarrow> 'k) \<Rightarrow> plan_call \<Rightarrow> 'p \<Rightarrow> 'k confirmation" where
  "plan_entry life dig key c plan = \<lparr>cf_digest = (case dig plan of Inr d \<Rightarrow> d | Inl _ \<Rightarrow> []),
     cf_principal = stockPlanPrincipal (pc_info c), cf_key = key plan, cf_expiresAt = pc_now c + life\<rparr>"

lemma plan_issue_cases:
  "plan_issue_purge life dig key c plan s = (case dig plan of Inl e \<Rightarrow> (Inl (PlanDigestError e), s) | Inr d \<Rightarrow>
     (case pc_token c of Inl e \<Rightarrow> (Inl (PlanTokenError e), s) | Inr token \<Rightarrow>
       if int (length (plan_kept c (key plan) (ps_entries s))) \<ge> ps_maxEntries s \<or>
          int (plan_load (stockPlanPrincipal (pc_info c)) (plan_kept c (key plan) (ps_entries s))) \<ge> ps_maxEntriesPerPrincipal s
       then (Inl PlanCapacity, s\<lparr>ps_entries := plan_kept c (key plan) (ps_entries s)\<rparr>)
       else (Inr token, s\<lparr>ps_entries := gm_put token (plan_entry life dig key c plan) (plan_kept c (key plan) (ps_entries s))\<rparr>)))"
  by (simp add: plan_issue_purge_def plan_insert_def supersedePlanLoop_eq plan_kept_def plan_entry_def Let_def split: sum.splits)

lemma plan_kept_filter: "\<exists>P. plan_kept c k es = filter P es"
  unfolding plan_kept_def gm_keep_def deleteExpired_def by (auto simp: filter_filter)

lemma plan_kept_inv: "plan_inv m mp s \<Longrightarrow> plan_inv m mp (s\<lparr>ps_entries := plan_kept c k (ps_entries s)\<rparr>)"
  using plan_kept_filter[of c k "ps_entries s"] plan_inv_filter by (elim exE) simp

lemma plan_put_inv:
  assumes inv: "plan_inv m mp (s\<lparr>ps_entries := es\<rparr>)" and room: "int (plan_load (cf_principal e) es) < mp"
    and fresh: "\<forall>x\<in>set es. \<not> plan_superseded (cf_principal e) (cf_key e) (snd x)"
  shows "plan_inv m mp (s\<lparr>ps_entries := gm_put t e es\<rparr>)"
proof -
  have "int (plan_load prin (gm_put t e es)) \<le> mp" for prin
  proof -
    have "plan_load prin (gm_del t es) \<le> plan_load prin es" by (simp add: gm_del_def plan_load_filter)
    moreover have "int (plan_load prin es) \<le> mp" using inv by (simp add: plan_inv_def)
    ultimately show ?thesis using room by (auto simp: gm_put_def plan_load_def)
  qed
  moreover have "distinct (map (\<lambda>e. (cf_principal (snd e), cf_key (snd e))) (gm_put t e es))"
    using inv fresh by (auto simp: plan_inv_def gm_put_def gm_del_def plan_superseded_def distinct_map_filter)
  ultimately show ?thesis using inv by (simp add: plan_inv_def)
qed

lemma plan_issue_inv:
  assumes "plan_inv m mp s" shows "plan_inv m mp (snd (plan_issue_purge life dig key c plan s))"
proof -
  define es where "es = plan_kept c (key plan) (ps_entries s)"
  have k: "plan_inv m mp (s\<lparr>ps_entries := es\<rparr>)" using plan_kept_inv[OF assms] by (simp add: es_def)
  have lim: "ps_maxEntriesPerPrincipal s = mp" using assms by (simp add: plan_inv_def)
  have "plan_inv m mp (s\<lparr>ps_entries := gm_put t (plan_entry life dig key c plan) es\<rparr>)"
    if "int (plan_load (stockPlanPrincipal (pc_info c)) es) < mp" for t
    using that by (intro plan_put_inv[OF k]) (simp_all add: plan_entry_def es_def plan_kept_def)
  then show ?thesis using assms k lim
    by (auto simp: plan_issue_cases es_def[symmetric] not_le split: sum.splits)
qed

lemma plan_issue_size:
  assumes "length (ps_entries s) \<le> nat (ps_maxEntries s)"
  shows "length (ps_entries (snd (plan_issue_purge life dig key c plan s))) \<le> nat (ps_maxEntries s)"
proof -
  define es where "es = plan_kept c (key plan) (ps_entries s)"
  have le: "length es \<le> length (ps_entries s)" using plan_kept_filter[of c "key plan" "ps_entries s"] by (auto simp: es_def)
  have "length (gm_put t e es) \<le> Suc (length es)" for t e by (rule length_gm_put_le)
  then have "length (gm_put t e es) \<le> nat (ps_maxEntries s)" if "int (length es) < ps_maxEntries s" for t e
    using that by (meson Suc_leI le_trans nat_less_eq_zless of_nat_0_le_iff zless_nat_eq_int_zless)
  then show ?thesis using assms le by (auto simp: plan_issue_cases es_def[symmetric] not_le split: sum.splits)
qed

definition plan_matches :: "('p \<Rightarrow> string + string) \<Rightarrow> ('p \<Rightarrow> 'k) \<Rightarrow> plan_call \<Rightarrow> 'p \<Rightarrow> 'k confirmation \<Rightarrow> bool" where
  "plan_matches dig key c plan e \<longleftrightarrow> dig plan = Inr (cf_digest e) \<and> cf_principal e = stockPlanPrincipal (pc_info c) \<and>
     cf_key e = key plan \<and> pc_now c < cf_expiresAt e"

lemma plan_consume_result:
  assumes "gm_wf (ps_entries s)"
  shows "fst (plan_consume dig key c token plan s) \<longleftrightarrow>
    (\<exists>e. map_of (ps_entries s) token = Some e \<and> plan_matches dig key c plan e)"
  using assms by (auto simp: plan_consume_def plan_matches_def deleteExpired_def Let_def split: sum.splits option.splits)

lemma plan_consume_shape: "\<exists>P. snd (plan_consume dig key c token plan s) = s\<lparr>ps_entries := filter P (ps_entries s)\<rparr>"
proof -
  have id: "s = s\<lparr>ps_entries := filter (\<lambda>_. True) (ps_entries s)\<rparr>" by simp
  show ?thesis
    by (auto simp: plan_consume_def deleteExpired_def gm_keep_def gm_del_def Let_def split: sum.splits option.splits intro: id)
qed

lemma plan_consume_removes:
  "fst (plan_consume dig key c token plan s) \<Longrightarrow> map_of (ps_entries (snd (plan_consume dig key c token plan s))) token = None"
  by (auto simp: plan_consume_def Let_def split: sum.splits option.splits if_splits)

definition plan_issue_op :: "duration \<Rightarrow> ('p \<Rightarrow> string + string) \<Rightarrow> ('p \<Rightarrow> 'k) \<Rightarrow> plan_call \<times> 'p \<Rightarrow> 'k plan_store \<Rightarrow> string option \<times> 'k plan_store" where
  "plan_issue_op life dig key i s = (case plan_issue_purge life dig key (fst i) (snd i) s of
     (Inl _, s') \<Rightarrow> (None, s') | (Inr t, s') \<Rightarrow> (Some t, s'))"

definition plan_consume_op :: "('p \<Rightarrow> string + string) \<Rightarrow> ('p \<Rightarrow> 'k) \<Rightarrow> plan_call \<times> string \<times> 'p \<Rightarrow> 'k plan_store \<Rightarrow> bool \<times> 'k plan_store" where
  "plan_consume_op dig key x s = plan_consume dig key (fst x) (fst (snd x)) (snd (snd x)) s"

lemma plan_issue_op_eqs:
  "snd (plan_issue_op life dig key i s) = snd (plan_issue_purge life dig key (fst i) (snd i) s)"
  "fst (plan_issue_op life dig key i s) = Some t \<longleftrightarrow> fst (plan_issue_purge life dig key (fst i) (snd i) s) = Inr t"
  by (auto simp: plan_issue_op_def split: prod.splits sum.splits)

lemma plan_issue_entries:
  assumes "gm_wf (ps_entries s)"
  shows "fst (plan_issue_purge life dig key c plan s) = Inr t \<Longrightarrow>
      map_of (ps_entries (snd (plan_issue_purge life dig key c plan s))) t = Some (plan_entry life dig key c plan)"
    and "fst (plan_issue_purge life dig key c plan s) \<noteq> Inr u \<Longrightarrow>
      map_of (ps_entries (snd (plan_issue_purge life dig key c plan s))) u = Some e \<Longrightarrow> map_of (ps_entries s) u = Some e"
  using assms by (auto simp: plan_issue_cases plan_kept_def deleteExpired_def split: sum.splits if_splits)

interpretation plans: bounded_store "plan_inv m mp" "\<lambda>s. map_of (ps_entries s)" "plan_issue_op life dig key"
    "plan_consume_op dig key" "\<lambda>x. fst (snd x)" "\<lambda>i. plan_entry life dig key (fst i) (snd i)"
    "\<lambda>x e. plan_matches dig key (fst x) (snd (snd x)) e" "\<lambda>s. length (ps_entries s)" "nat m"
  for m mp :: int and life and dig :: "'p \<Rightarrow> string + string" and key :: "'p \<Rightarrow> 'k"
proof unfold_locales
  fix s i r s' assume "plan_inv m mp s" "plan_issue_op life dig key i s = (r, s')"
  then show "plan_inv m mp s'" using plan_issue_inv[of m mp s life dig key "fst i" "snd i"] plan_issue_op_eqs(1) by (metis snd_conv)
next
  fix s x b s' assume a: "plan_inv m mp s" "plan_consume_op dig key x s = (b, s')"
  obtain P where "s' = s\<lparr>ps_entries := filter P (ps_entries s)\<rparr>"
    using plan_consume_shape[of dig key "fst x" "fst (snd x)" "snd (snd x)" s] a(2) by (auto simp: plan_consume_op_def)
  then show "plan_inv m mp s'" using plan_inv_filter[OF a(1)] by simp
next
  fix s i t s' assume a: "plan_inv m mp s" "plan_issue_op life dig key i s = (Some t, s')"
  then show "map_of (ps_entries s') t = Some (plan_entry life dig key (fst i) (snd i))"
    using plan_issue_entries(1)[of s life dig key "fst i" "snd i" t] plan_issue_op_eqs(1)[of life dig key i s]
      plan_issue_op_eqs(2)[of life dig key i s t] by (simp add: plan_inv_def)
next
  fix s i r s' u e assume a: "plan_inv m mp s" "plan_issue_op life dig key i s = (r, s')" "r \<noteq> Some u" "map_of (ps_entries s') u = Some e"
  then show "map_of (ps_entries s) u = Some e"
    using plan_issue_entries(2)[of s life dig key "fst i" "snd i" u e] plan_issue_op_eqs(1)[of life dig key i s]
      plan_issue_op_eqs(2)[of life dig key i s u] by (simp add: plan_inv_def)
next
  fix s x b s' u e assume a: "plan_inv m mp s" "plan_consume_op dig key x s = (b, s')" "map_of (ps_entries s') u = Some e"
  obtain P where "s' = s\<lparr>ps_entries := filter P (ps_entries s)\<rparr>"
    using plan_consume_shape[of dig key "fst x" "fst (snd x)" "snd (snd x)" s] a(2) by (auto simp: plan_consume_op_def)
  then show "map_of (ps_entries s) u = Some e" using a by (simp add: plan_inv_def map_of_filter_Some)
next
  fix s x s' assume "plan_inv m mp s" "plan_consume_op dig key x s = (True, s')"
  then show "map_of (ps_entries s') (fst (snd x)) = None"
    using plan_consume_removes[of dig key "fst x" "fst (snd x)" "snd (snd x)" s] by (simp add: plan_consume_op_def)
next
  fix s x s' assume "plan_inv m mp s" "plan_consume_op dig key x s = (True, s')"
  then show "\<exists>e. map_of (ps_entries s) (fst (snd x)) = Some e \<and> plan_matches dig key (fst x) (snd (snd x)) e"
    using plan_consume_result[of s dig key "fst x" "fst (snd x)" "snd (snd x)"] by (simp add: plan_consume_op_def plan_inv_def)
next
  fix s :: "'k plan_store" and i :: "plan_call \<times> 'p" assume "plan_inv m mp s" "length (ps_entries s) \<le> nat m"
  then show "length (ps_entries (snd (plan_issue_op life dig key i s))) \<le> nat m"
    using plan_issue_size[of s life dig key "fst i" "snd i"] by (simp add: plan_issue_op_eqs plan_inv_def)
next
  fix s :: "'k plan_store" and x :: "plan_call \<times> string \<times> 'p" assume "plan_inv m mp s" "length (ps_entries s) \<le> nat m"
  moreover obtain P where "snd (plan_consume_op dig key x s) = s\<lparr>ps_entries := filter P (ps_entries s)\<rparr>"
    using plan_consume_shape[of dig key "fst x" "fst (snd x)" "snd (snd x)" s] by (auto simp: plan_consume_op_def)
  ultimately show "length (ps_entries (snd (plan_consume_op dig key x s))) \<le> nat m" by (auto intro: order.trans[OF length_filter_le])
qed

section \<open>Properties of the plan stores\<close>

lemma new_plan_store_inv: "0 \<le> mp \<Longrightarrow> plan_inv m mp (new_plan_store m mp)"
  by (simp add: plan_inv_def new_plan_store_def plan_load_def)

lemma stockPlanPrincipal_inj: "stockPlanPrincipal a = stockPlanPrincipal b \<longleftrightarrow> map_option ti_UserID a = map_option ti_UserID b"
  by (auto simp: stockPlanPrincipal_def split: option.splits)

text \<open>The two code shapes of issue agree: purging and superseding in one loop gives the same
  result, table and capacity decision as deleteExpired followed by the supersede loop, for every
  plan type, key, limit and table.\<close>

theorem plan_issue_shapes_agree:
  "plan_issue_inline life dig key c plan s = plan_issue_purge life dig key c plan s"
  by (simp add: plan_issue_inline_eq)

text \<open>C33: In every per-tool store, over any sequence of calls from an empty table: a token is consumed at
  most as often as it was issued; a consume that succeeds was preceded by an issue of that token to
  the same user for a plan with the same digest and key less than the lifetime ago; and the
  table, each principal's share and the one-token-per-key rule stay within their limits.\<close>

theorem plan_store_tokens:
  assumes "0 \<le> mp"
    and "run_store (plan_issue_op life dig key) (plan_consume_op dig key) (\<lambda>x. fst (snd x)) ops (new_plan_store m mp) = (outs, s)"
  shows "count_list outs (Consumed t) \<le> count_list outs (Issued t) \<and>
    (fst (plan_consume dig key c t plan s) \<longrightarrow> (\<exists>n c0 plan0. n < length ops \<and> ops ! n = Issue_Op (c0, plan0) \<and> outs ! n = Issued t \<and>
       map_option ti_UserID (pc_info c0) = map_option ti_UserID (pc_info c) \<and> key plan0 = key plan \<and>
       (\<forall>d d0. dig plan = Inr d \<longrightarrow> dig plan0 = Inr d0 \<longrightarrow> d = d0) \<and> pc_now c < pc_now c0 + life)) \<and>
    length (ps_entries s) \<le> nat m \<and> (\<forall>prin. int (plan_load prin (ps_entries s)) \<le> mp) \<and>
    distinct (map (\<lambda>e. (cf_principal (snd e), cf_key (snd e))) (ps_entries s))"
proof -
  have inv: "plan_inv m mp (new_plan_store m mp)" by (rule new_plan_store_inv[OF assms(1)])
  have em: "ps_entries (new_plan_store m mp) = []" by (simp add: new_plan_store_def)
  have outs: "outs = fst (plans.run life dig key ops (new_plan_store m mp))" and s: "s = snd (plans.run life dig key ops (new_plan_store m mp))"
    using assms(2) by simp_all
  have 1: "count_list outs (Consumed t) \<le> count_list outs (Issued t)"
    using plans.consumed_le_issued[OF inv, of t life dig key ops] unfolding outs em by simp
  have 2: "\<exists>n c0 plan0. n < length ops \<and> ops ! n = Issue_Op (c0, plan0) \<and> outs ! n = Issued t \<and>
       map_option ti_UserID (pc_info c0) = map_option ti_UserID (pc_info c) \<and> key plan0 = key plan \<and>
       (\<forall>d d0. dig plan = Inr d \<longrightarrow> dig plan0 = Inr d0 \<longrightarrow> d = d0) \<and> pc_now c < pc_now c0 + life"
    if "fst (plan_consume dig key c t plan s)"
  proof -
    have "fst (plan_consume_op dig key (c, t, plan) (snd (plans.run life dig key ops (new_plan_store m mp))))"
      using that by (simp add: plan_consume_op_def s)
    then obtain n i where "n < length ops" "ops ! n = Issue_Op i" "outs ! n = Issued t"
      "plan_matches dig key c plan (plan_entry life dig key (fst i) (snd i))"
      using plans.consume_authorized[OF inv, of "(c, t, plan)" dig key life ops] unfolding outs by (auto simp: em)
    then show ?thesis
      by (intro exI[of _ n] exI[of _ "fst i"] exI[of _ "snd i"])
         (auto simp: plan_matches_def plan_entry_def stockPlanPrincipal_inj)
  qed
  have 3: "length (ps_entries s) \<le> nat m" using plans.run_bounded[OF inv, of life dig key ops] unfolding s by (simp add: em)
  have "plan_inv m mp s" using plans.run_inv[OF inv, of life dig key ops] s by simp
  then show ?thesis using 1 2 3 by (simp add: plan_inv_def)
qed

definition demo_call :: "go_time \<Rightarrow> string \<Rightarrow> plan_call" where
  "demo_call t tk = \<lparr>pc_now = t, pc_token = Inr tk, pc_info = None\<rparr>"

theorem plan_store_tokens_witness:
  "\<exists>outs s. run_store (plan_issue_op 10 (\<lambda>p. Inr (cr_Name p)) cr_CompanyID) (plan_consume_op (\<lambda>p. Inr (cr_Name p)) cr_CompanyID) (\<lambda>x. fst (snd x))
     [Issue_Op (demo_call 1 ''a'', \<lparr>cr_Action = ''s'', cr_CompanyID = 4, cr_Name = ''n'', cr_Role = ''r''\<rparr>),
      Consume_Op (demo_call 2 ''b'', ''a'', \<lparr>cr_Action = ''s'', cr_CompanyID = 4, cr_Name = ''n'', cr_Role = ''r''\<rparr>)]
     newCompanyRolePlanStore = (outs, s) \<and> count_list outs (Consumed ''a'') = 1 \<and> count_list outs (Consumed ''a'') \<le> count_list outs (Issued ''a'')"
proof -
  let ?ops = "[Issue_Op (demo_call 1 ''a'', \<lparr>cr_Action = ''s'', cr_CompanyID = 4, cr_Name = ''n'', cr_Role = ''r''\<rparr>),
      Consume_Op (demo_call 2 ''b'', ''a'', \<lparr>cr_Action = ''s'', cr_CompanyID = 4, cr_Name = ''n'', cr_Role = ''r''\<rparr>)]"
  obtain outs s where r: "run_store (plan_issue_op 10 (\<lambda>p. Inr (cr_Name p)) cr_CompanyID) (plan_consume_op (\<lambda>p. Inr (cr_Name p)) cr_CompanyID)
      (\<lambda>x. fst (snd x)) ?ops (new_plan_store companyRolePlanMaxEntries companyRolePlanMaxEntriesPerPrincipal) = (outs, s)" by fastforce
  have "count_list (fst (run_store (plan_issue_op 10 (\<lambda>p. Inr (cr_Name p)) cr_CompanyID) (plan_consume_op (\<lambda>p. Inr (cr_Name p)) cr_CompanyID)
      (\<lambda>x. fst (snd x)) ?ops (new_plan_store companyRolePlanMaxEntries companyRolePlanMaxEntriesPerPrincipal))) (Consumed ''a'') = 1"
    by code_simp
  then have "count_list outs (Consumed ''a'') = 1" using r by simp
  moreover have "0 \<le> companyRolePlanMaxEntriesPerPrincipal" by (simp add: companyRolePlanMaxEntriesPerPrincipal_def)
  ultimately show ?thesis using plan_store_tokens[OF _ r, of "''a''"] r unfolding newCompanyRolePlanStore_def by blast
qed

end
