(* ===== verification/Stocktake.thy ===== *)
theory Stocktake
  imports Plan_Stores
begin

text \<open>
  internal/tools/stocktake_generation_tools.go: the stocktake plan store (no supersede rule), the
  task-handle store with its reservations, plan selection and the generate_stocktake handler.
\<close>

section \<open>Plan store\<close>

record stocktake_plan =
  Selector :: string
  SelectorID :: int
  GenerateEntry :: bool
  GenerateReport :: bool

record stocktake_plan_entry =
  se_digest :: string
  se_principal :: string
  se_expiresAt :: go_time

record stocktake_plan_store =
  st_entries :: "(string, stocktake_plan_entry) go_map"
  st_maxEntries :: int
  st_maxEntriesPerPrincipal :: int

definition newStocktakePlanStore :: stocktake_plan_store where
  "newStocktakePlanStore = \<lparr>st_entries = [], st_maxEntries = stockPlanMaxEntries,
     st_maxEntriesPerPrincipal = stockPlanMaxEntriesPerPrincipal\<rparr>"

definition stocktake_issue :: "(stocktake_plan \<Rightarrow> string + string) \<Rightarrow> plan_call \<Rightarrow> stocktake_plan \<Rightarrow> stocktake_plan_store \<Rightarrow>
    (plan_error + string) \<times> stocktake_plan_store" where
  "stocktake_issue dig c plan s = (case dig plan of Inl e \<Rightarrow> (Inl (PlanDigestError e), s) | Inr d \<Rightarrow>
     (case pc_token c of Inl e \<Rightarrow> (Inl (PlanTokenError e), s) | Inr token \<Rightarrow>
      (let prin = stockPlanPrincipal (pc_info c);
           kept = gm_keep (\<lambda>e. pc_now c < se_expiresAt e) (st_entries s);
           principalEntries = length (filter (\<lambda>e. se_principal (snd e) = prin) kept)
       in if int (length kept) \<ge> st_maxEntries s \<or> int principalEntries \<ge> st_maxEntriesPerPrincipal s
          then (Inl PlanCapacity, s\<lparr>st_entries := kept\<rparr>)
          else (Inr token, s\<lparr>st_entries := gm_put token
            \<lparr>se_digest = d, se_principal = prin, se_expiresAt = pc_now c + stockPlanLifetime\<rparr> kept\<rparr>))))"

definition stocktake_consume :: "(stocktake_plan \<Rightarrow> string + string) \<Rightarrow> plan_call \<Rightarrow> string \<Rightarrow> stocktake_plan \<Rightarrow> stocktake_plan_store \<Rightarrow>
    bool \<times> stocktake_plan_store" where
  "stocktake_consume dig c token plan s = (case dig plan of Inl e \<Rightarrow> (False, s) | Inr d \<Rightarrow>
     (case map_of (st_entries s) token of None \<Rightarrow> (False, s) | Some e \<Rightarrow>
        if \<not> pc_now c < se_expiresAt e \<or> se_digest e \<noteq> d \<or> se_principal e \<noteq> stockPlanPrincipal (pc_info c) then (False, s)
        else (True, s\<lparr>st_entries := gm_del token (st_entries s)\<rparr>)))"

section \<open>Task store\<close>

definition stocktakeTaskLifetime :: duration where "stocktakeTaskLifetime = 24 * 60 * minute"
definition stocktakeTaskMaxEntries :: int where "stocktakeTaskMaxEntries = 4096"
definition stocktakeTaskMaxEntriesPerPrincipal :: int where "stocktakeTaskMaxEntriesPerPrincipal = 64"

record task_entry =
  te_principal :: string
  te_reportRequired :: bool
  te_expiresAt :: go_time

record task_store =
  tk_entries :: "(int, task_entry) go_map"
  tk_reservations :: "(string, int) go_map"
  tk_maxEntries :: int
  tk_maxEntriesPerPrincipal :: int

datatype task_error = TaskCapacity | BindWithoutReservation | TaskOtherPrincipal | TaskReused

definition newStocktakeTaskStore :: task_store where
  "newStocktakeTaskStore = \<lparr>tk_entries = [], tk_reservations = [], tk_maxEntries = stocktakeTaskMaxEntries,
     tk_maxEntriesPerPrincipal = stocktakeTaskMaxEntriesPerPrincipal\<rparr>"

definition reserved :: "task_store \<Rightarrow> string \<Rightarrow> int" where
  "reserved s prin = (case map_of (tk_reservations s) prin of None \<Rightarrow> 0 | Some n \<Rightarrow> n)"

definition removeExpired :: "go_time \<Rightarrow> task_store \<Rightarrow> task_store" where
  "removeExpired now s = s\<lparr>tk_entries := gm_keep (\<lambda>e. now < te_expiresAt e) (tk_entries s)\<rparr>"

definition principalCount :: "string \<Rightarrow> task_store \<Rightarrow> int" where
  "principalCount prin s = int (length (filter (\<lambda>e. te_principal (snd e) = prin) (tk_entries s)))"

definition reservedTotal :: "task_store \<Rightarrow> int" where
  "reservedTotal s = sum_list (map snd (tk_reservations s))"

definition reserve :: "go_time \<Rightarrow> string \<Rightarrow> task_store \<Rightarrow> (task_error + unit) \<times> task_store" where
  "reserve now prin s = (let s = removeExpired now s in
     if int (length (tk_entries s)) + reservedTotal s \<ge> tk_maxEntries s \<or>
        principalCount prin s + reserved s prin \<ge> tk_maxEntriesPerPrincipal s
     then (Inl TaskCapacity, s)
     else (Inr (), s\<lparr>tk_reservations := gm_put prin (reserved s prin + 1) (tk_reservations s)\<rparr>))"

definition releaseReservationLocked :: "string \<Rightarrow> task_store \<Rightarrow> task_store" where
  "releaseReservationLocked prin s = (if reserved s prin > 1
     then s\<lparr>tk_reservations := gm_put prin (reserved s prin - 1) (tk_reservations s)\<rparr>
     else s\<lparr>tk_reservations := gm_del prin (tk_reservations s)\<rparr>)"

definition release :: "string \<Rightarrow> task_store \<Rightarrow> task_store" where
  "release prin s = (if reserved s prin > 1
     then s\<lparr>tk_reservations := gm_put prin (reserved s prin - 1) (tk_reservations s)\<rparr>
     else s\<lparr>tk_reservations := gm_del prin (tk_reservations s)\<rparr>)"

definition bind :: "go_time \<Rightarrow> string \<Rightarrow> int \<Rightarrow> bool \<Rightarrow> task_store \<Rightarrow> (task_error + unit) \<times> task_store" where
  "bind now prin taskID report s = (let s = removeExpired now s in
     if reserved s prin \<le> 0 then (Inl BindWithoutReservation, s)
     else if int (length (tk_entries s)) \<ge> tk_maxEntries s \<or> principalCount prin s \<ge> tk_maxEntriesPerPrincipal s
     then (Inl TaskCapacity, s)
     else (case map_of (tk_entries s) taskID of
         Some existing \<Rightarrow> (Inl (if te_principal existing \<noteq> prin then TaskOtherPrincipal else TaskReused), s)
       | None \<Rightarrow> (Inr (), releaseReservationLocked prin (s\<lparr>tk_entries := gm_put taskID
           \<lparr>te_principal = prin, te_reportRequired = report, te_expiresAt = now + stocktakeTaskLifetime\<rparr> (tk_entries s)\<rparr>))))"

definition lookup :: "go_time \<Rightarrow> go_time \<Rightarrow> string \<Rightarrow> int \<Rightarrow> task_store \<Rightarrow> task_entry option \<times> task_store" where
  "lookup nowA nowB prin taskID s = (case map_of (tk_entries s) taskID of None \<Rightarrow> (None, s) | Some e \<Rightarrow>
     if \<not> nowA < te_expiresAt e \<or> te_principal e \<noteq> prin
     then (None, if \<not> nowB < te_expiresAt e then s\<lparr>tk_entries := gm_del taskID (tk_entries s)\<rparr> else s)
     else (Some e, s))"

text \<open>The interleaved use of the store by concurrent handlers: one operation per step.\<close>

datatype task_op = Reserve go_time string | Release string | Bind go_time string int bool | Lookup go_time go_time string int

fun task_step :: "task_op \<Rightarrow> task_store \<Rightarrow> task_store" where
  "task_step (Reserve now prin) s = snd (reserve now prin s)"
| "task_step (Release prin) s = release prin s"
| "task_step (Bind now prin i r) s = snd (bind now prin i r s)"
| "task_step (Lookup a b prin i) s = snd (lookup a b prin i s)"

definition task_inv :: "int \<Rightarrow> int \<Rightarrow> task_store \<Rightarrow> bool" where
  "task_inv m mp s \<longleftrightarrow> tk_maxEntries s = m \<and> tk_maxEntriesPerPrincipal s = mp \<and> gm_wf (tk_entries s) \<and> gm_wf (tk_reservations s) \<and>
     (\<forall>e\<in>set (tk_reservations s). 0 < snd e) \<and> int (length (tk_entries s)) + reservedTotal s \<le> m \<and>
     (\<forall>prin. principalCount prin s + reserved s prin \<le> mp)"

lemma sum_list_filter_fst: "gm_wf m \<Longrightarrow> sum_list (map snd (gm_del k m)) = sum_list (map snd m) - (case map_of m k of None \<Rightarrow> (0::int) | Some v \<Rightarrow> v)"
proof (induction m)
  case (Cons e m)
  have "k \<notin> fst ` set m \<Longrightarrow> gm_del k m = m" by (auto simp: gm_del_def filter_id_conv)
  then show ?case using Cons by (cases e) (auto simp: gm_del_def map_of_eq_None_iff split: option.splits)
qed (simp add: gm_del_def)

lemma reservedTotal_put: "gm_wf (tk_reservations s) \<Longrightarrow>
    reservedTotal (s\<lparr>tk_reservations := gm_put p v (tk_reservations s)\<rparr>) = reservedTotal s - reserved s p + v"
  by (simp add: reservedTotal_def reserved_def gm_put_def sum_list_filter_fst)

lemma reservedTotal_del: "gm_wf (tk_reservations s) \<Longrightarrow>
    reservedTotal (s\<lparr>tk_reservations := gm_del p (tk_reservations s)\<rparr>) = reservedTotal s - reserved s p"
  by (simp add: reservedTotal_def reserved_def sum_list_filter_fst)

lemma reserved_pos: "\<forall>e\<in>set (tk_reservations s). 0 < snd e \<Longrightarrow> 0 \<le> reserved s p"
  by (auto simp: reserved_def dest!: map_of_SomeD split: option.splits)

lemma length_filter_filter: "length (filter P (filter Q xs)) \<le> length (filter P xs)"
  by (induction xs) auto

lemma task_inv_filter:
  assumes "task_inv m mp s" shows "task_inv m mp (s\<lparr>tk_entries := filter P (tk_entries s)\<rparr>)"
proof -
  have l: "length (filter P (tk_entries s)) \<le> length (tk_entries s)" by simp
  have "principalCount q (s\<lparr>tk_entries := filter P (tk_entries s)\<rparr>) \<le> principalCount q s" for q
    using length_filter_filter[of "\<lambda>e. te_principal (snd e) = q" P "tk_entries s"] by (simp add: principalCount_def)
  moreover have "reserved (s\<lparr>tk_entries := filter P (tk_entries s)\<rparr>) q = reserved s q" for q by (simp add: reserved_def)
  moreover have "reservedTotal (s\<lparr>tk_entries := filter P (tk_entries s)\<rparr>) = reservedTotal s" by (simp add: reservedTotal_def)
  moreover have "principalCount q s + reserved s q \<le> mp" for q using assms by (simp add: task_inv_def)
  ultimately have "principalCount q (s\<lparr>tk_entries := filter P (tk_entries s)\<rparr>) + reserved (s\<lparr>tk_entries := filter P (tk_entries s)\<rparr>) q \<le> mp"
    "reservedTotal (s\<lparr>tk_entries := filter P (tk_entries s)\<rparr>) = reservedTotal s" for q
    by (metis add_right_mono order.trans)+
  moreover have "int (length (filter P (tk_entries s))) + reservedTotal s \<le> m"
    using assms l unfolding task_inv_def by linarith
  ultimately show ?thesis using assms by (simp add: task_inv_def gm_wf_filter)
qed

lemma removeExpired_inv: "task_inv m mp s \<Longrightarrow> task_inv m mp (removeExpired now s)"
  using task_inv_filter by (simp add: removeExpired_def gm_keep_def)

lemma reserved_put: "reserved (s\<lparr>tk_reservations := gm_put p v (tk_reservations s)\<rparr>) q = (if q = p then v else reserved s q)"
  by (simp add: reserved_def)

lemma reserved_del: "reserved (s\<lparr>tk_reservations := gm_del p (tk_reservations s)\<rparr>) q = (if q = p then 0 else reserved s q)"
  by (simp add: reserved_def)

lemma task_fields [simp]:
  "principalCount p (s\<lparr>tk_reservations := r\<rparr>) = principalCount p s"
  by (simp add: principalCount_def)

lemma release_inv: assumes "task_inv m mp s" shows "task_inv m mp (release prin s)"
proof -
  have wf: "gm_wf (tk_reservations s)" and pos: "\<forall>e\<in>set (tk_reservations s). 0 < snd e" using assms by (simp_all add: task_inv_def)
  have r: "0 \<le> reserved s prin" by (rule reserved_pos[OF pos])
  have "principalCount q s + reserved s q \<le> mp" for q using assms by (simp add: task_inv_def)
  then have le: "principalCount q s \<le> mp" "principalCount q s + reserved s q \<le> mp" for q using reserved_pos[OF pos, of q] by (smt (verit))+
  show ?thesis
  proof (cases "reserved s prin > 1")
    case True
    have b: "principalCount q s + (if q = prin then reserved s prin - 1 else reserved s q) \<le> mp" for q using le(2)[of q] by (cases "q = prin") auto
    show ?thesis using assms r True by (auto simp: release_def task_inv_def reservedTotal_put reserved_put b)
  next
    case False
    have b: "principalCount q s + (if q = prin then 0 else reserved s q) \<le> mp" for q using le[of q] by (cases "q = prin") auto
    show ?thesis using assms r False by (auto simp: release_def task_inv_def reservedTotal_del reserved_del b)
  qed
qed

lemma reserve_inv: assumes "task_inv m mp s" shows "task_inv m mp (snd (reserve now prin s))"
proof -
  define s1 where "s1 = removeExpired now s"
  have inv: "task_inv m mp s1" using removeExpired_inv[OF assms] by (simp add: s1_def)
  then have "0 \<le> reserved s1 prin" using reserved_pos by (simp add: task_inv_def)
  then show ?thesis using inv
    by (auto simp: reserve_def s1_def[symmetric] Let_def task_inv_def reservedTotal_put reserved_put)
qed

text \<open>A handler holding a reservation never loses its slot: bind cannot fail for capacity.\<close>

lemma bind_slot:
  assumes "task_inv m mp s" "0 < reserved s prin"
  shows "int (length (tk_entries s)) < tk_maxEntries s \<and> principalCount prin s < tk_maxEntriesPerPrincipal s"
proof -
  have wf: "gm_wf (tk_reservations s)" and pos: "\<forall>e\<in>set (tk_reservations s). 0 < snd e" using assms by (simp_all add: task_inv_def)
  have "0 \<le> reservedTotal (s\<lparr>tk_reservations := gm_del prin (tk_reservations s)\<rparr>)"
    unfolding reservedTotal_def using pos by (intro sum_list_nonneg) auto
  then have "reserved s prin \<le> reservedTotal s" using reservedTotal_del[OF wf] by simp
  then show ?thesis using assms by (auto simp: task_inv_def) (smt (verit))+
qed

lemma bind_inv: assumes "task_inv m mp s" shows "task_inv m mp (snd (bind now prin i rep s))"
proof -
  define s1 where "s1 = removeExpired now s"
  have inv: "task_inv m mp s1" using removeExpired_inv[OF assms] by (simp add: s1_def)
  show ?thesis
  proof (cases "0 < reserved s1 prin \<and> map_of (tk_entries s1) i = None")
    case False
    then show ?thesis using inv by (auto simp: bind_def s1_def[symmetric] Let_def split: option.splits)
  next
    case True
    define e where "e = \<lparr>te_principal = prin, te_reportRequired = rep, te_expiresAt = now + stocktakeTaskLifetime\<rparr>"
    have new: "gm_del i (tk_entries s1) = tk_entries s1"
      using True by (auto simp: gm_del_def filter_id_conv map_of_eq_None_iff)
    have res: "snd (bind now prin i rep s) = release prin (s1\<lparr>tk_entries := gm_put i e (tk_entries s1)\<rparr>)"
      using True bind_slot[OF inv, of prin] by (simp add: bind_def s1_def[symmetric] Let_def releaseReservationLocked_def release_def e_def)
    have rel: "tk_entries (release prin t) = tk_entries t" "tk_maxEntries (release prin t) = tk_maxEntries t"
      "tk_maxEntriesPerPrincipal (release prin t) = tk_maxEntriesPerPrincipal t" for t by (simp_all add: release_def)
    have wf: "gm_wf (tk_reservations s1)" and pos: "\<forall>x\<in>set (tk_reservations s1). 0 < snd x" using inv by (simp_all add: task_inv_def)
    have tot: "reservedTotal (release prin (s1\<lparr>tk_entries := x\<rparr>)) = reservedTotal s1 - 1"
      "reserved (release prin (s1\<lparr>tk_entries := x\<rparr>)) q = (if q = prin then reserved s1 prin - 1 else reserved s1 q)" for x q
      using True wf by (auto simp: release_def reservedTotal_def reserved_def gm_put_def sum_list_filter_fst split: option.splits)
    have cnt: "principalCount q (release prin (s1\<lparr>tk_entries := gm_put i e (tk_entries s1)\<rparr>)) =
        principalCount q s1 + (if q = prin then 1 else 0)" for q
      by (simp add: principalCount_def rel gm_put_def new e_def)
    have res_ok: "gm_wf (tk_reservations (release prin (s1\<lparr>tk_entries := x\<rparr>)))"
      "\<forall>y\<in>set (tk_reservations (release prin (s1\<lparr>tk_entries := x\<rparr>))). 0 < snd y" for x
      using wf pos by (auto simp: release_def reserved_def split: option.splits)
    have wfe: "gm_wf (gm_put i e (tk_entries s1))" using inv by (simp add: task_inv_def)
    have len: "int (length (gm_put i e (tk_entries s1))) + (reservedTotal s1 - 1) \<le> m"
      using inv by (simp add: gm_put_def new task_inv_def)
    have b: "principalCount q s1 + (if q = prin then 1 else 0) + (if q = prin then reserved s1 prin - 1 else reserved s1 q) \<le> mp" for q
    proof -
      have "principalCount q s1 + reserved s1 q \<le> mp" using inv by (simp add: task_inv_def)
      then show ?thesis by (cases "q = prin") auto
    qed
    show ?thesis unfolding res task_inv_def rel tot cnt
      using inv res_ok wfe len b by (simp add: task_inv_def)
  qed
qed

lemma lookup_inv: "task_inv m mp s \<Longrightarrow> task_inv m mp (snd (lookup a b prin i s))"
  using task_inv_filter by (auto simp: lookup_def gm_del_def split: option.splits)

lemma task_step_inv: "task_inv m mp s \<Longrightarrow> task_inv m mp (task_step op s)"
  by (cases op) (simp_all add: reserve_inv release_inv bind_inv lookup_inv)

lemma newStocktakeTaskStore_inv: "task_inv stocktakeTaskMaxEntries stocktakeTaskMaxEntriesPerPrincipal newStocktakeTaskStore"
  by (simp add: task_inv_def newStocktakeTaskStore_def reservedTotal_def reserved_def principalCount_def
      stocktakeTaskMaxEntries_def stocktakeTaskMaxEntriesPerPrincipal_def)

lemma task_steps_inv: "task_inv m mp s \<Longrightarrow> task_inv m mp (fold task_step ops s)"
  by (induction ops arbitrary: s) (simp_all add: task_step_inv)

section \<open>The generate_stocktake handler\<close>

definition StatusOK :: string where "StatusOK = ''ok''"
definition StatusPending :: string where "StatusPending = ''pending''"
definition StatusClarificationRequired :: string where "StatusClarificationRequired = ''clarification_required''"
definition StatusPartialFailure :: string where "StatusPartialFailure = ''partial_failure''"
definition stocktakeGenerationRetryAfter :: int where "stocktakeGenerationRetryAfter = 1"

record generate_input =
  gi_DryRun :: bool
  gi_Confirm :: bool
  gi_PlanHash :: string
  gi_PartID :: int
  gi_CategoryID :: int
  gi_LocationID :: int
  gi_GenerateEntry :: bool
  gi_GenerateReport :: bool

fun selectLoop :: "(string \<times> int) list \<Rightarrow> int \<times> string \<times> int \<Rightarrow> int \<times> string \<times> int" where
  "selectLoop [] acc = acc"
| "selectLoop ((nm, i) # r) (n, sel, selid) = selectLoop r (if i > 0 then (n + 1, nm, i) else (n, sel, selid))"

text \<open>Inl carries the clarification's field.\<close>

definition stocktakeGenerationPlan :: "generate_input \<Rightarrow> string + stocktake_plan" where
  "stocktakeGenerationPlan inp =
    (case selectLoop [(''part'', gi_PartID inp), (''category'', gi_CategoryID inp), (''location'', gi_LocationID inp)] (0, '''', 0) of
       (n, sel, selid) \<Rightarrow>
       if n \<noteq> 1 then Inl ''part_id''
       else if \<not> gi_GenerateEntry inp \<and> \<not> gi_GenerateReport inp then Inl ''generate_entry''
       else Inr \<lparr>Selector = sel, SelectorID = selid, GenerateEntry = gi_GenerateEntry inp, GenerateReport = gi_GenerateReport inp\<rparr>)"

record generate_request =
  gr_Part :: "int option"
  gr_Category :: "int option"
  gr_Location :: "int option"
  gr_GenerateEntry :: bool
  gr_GenerateReport :: bool

record generate_output =
  go_Status :: string
  go_DryRun :: bool
  go_Plan :: "stocktake_plan option"
  go_PlanHash :: string
  go_Task :: "int option"
  go_RetryAfter :: int
  go_Clarification :: "string option"

definition gen_output :: "string \<Rightarrow> generate_output" where
  "gen_output st = \<lparr>go_Status = st, go_DryRun = False, go_Plan = None, go_PlanHash = '''', go_Task = None,
     go_RetryAfter = 0, go_Clarification = None\<rparr>"

definition stocktake_request :: "stocktake_plan \<Rightarrow> generate_request" where
  "stocktake_request plan = \<lparr>gr_Part = (if Selector plan = ''part'' then Some (SelectorID plan) else None),
     gr_Category = (if Selector plan = ''category'' then Some (SelectorID plan) else None),
     gr_Location = (if Selector plan = ''location'' then Some (SelectorID plan) else None),
     gr_GenerateEntry = GenerateEntry plan, gr_GenerateReport = GenerateReport plan\<rparr>"

text \<open>The client's answer to GeneratePartStocktake is an argument: an error or the optional primary key of
  its output record. The last component lists the requests sent upstream.\<close>

definition generateStocktake :: "(stocktake_plan \<Rightarrow> string + string) \<Rightarrow> (generate_request \<Rightarrow> string + int option) \<Rightarrow>
    plan_call \<Rightarrow> go_time \<Rightarrow> go_time \<Rightarrow> generate_input \<Rightarrow> stocktake_plan_store \<Rightarrow> task_store \<Rightarrow>
    (plan_error + generate_output) \<times> stocktake_plan_store \<times> task_store \<times> generate_request list" where
  "generateStocktake dig client c tReserve tBind inp ps ts = (case stocktakeGenerationPlan inp of
     Inl f \<Rightarrow> (Inr ((gen_output StatusClarificationRequired)\<lparr>go_Clarification := Some f\<rparr>), ps, ts, [])
   | Inr plan \<Rightarrow>
     if gi_DryRun inp then (case stocktake_issue dig c plan ps of
         (Inl e, ps') \<Rightarrow> (Inl e, ps', ts, [])
       | (Inr token, ps') \<Rightarrow> (Inr ((gen_output StatusOK)\<lparr>go_DryRun := True, go_Plan := Some plan, go_PlanHash := token\<rparr>), ps', ts, []))
     else (case (if gi_Confirm inp then stocktake_consume dig c (gi_PlanHash inp) plan ps else (False, ps)) of
       (False, ps') \<Rightarrow> (Inr ((gen_output StatusClarificationRequired)\<lparr>go_Clarification := Some ''confirmation''\<rparr>), ps', ts, [])
     | (True, ps') \<Rightarrow>
       (let prin = stockPlanPrincipal (pc_info c); req = stocktake_request plan in
        (case reserve tReserve prin ts of
          (Inl e, ts1) \<Rightarrow> (Inr (gen_output StatusPartialFailure), ps', ts1, [])
        | (Inr _, ts1) \<Rightarrow> (case client req of
            Inl e \<Rightarrow> (Inr (gen_output StatusPartialFailure), ps', release prin ts1, [req])
          | Inr queued \<Rightarrow>
            (case queued of None \<Rightarrow> (Inr (gen_output StatusPartialFailure), ps', release prin ts1, [req])
             | Some pk \<Rightarrow> if pk \<le> 0 then (Inr (gen_output StatusPartialFailure), ps', release prin ts1, [req])
               else (case bind tBind prin pk (GenerateReport plan) ts1 of
                   (Inl e, ts2) \<Rightarrow> (Inr (gen_output StatusPartialFailure), ps', release prin ts2, [req])
                 | (Inr _, ts2) \<Rightarrow> (Inr ((gen_output StatusPending)\<lparr>go_Plan := Some plan, go_Task := Some pk,
                      go_RetryAfter := stocktakeGenerationRetryAfter\<rparr>), ps', ts2, [req]))))))))"

definition one_selector :: "generate_request \<Rightarrow> bool" where
  "one_selector req \<longleftrightarrow> length (filter (\<lambda>x. x \<noteq> None) [gr_Part req, gr_Category req, gr_Location req]) = 1"

lemma gen_output_simps [simp]: "go_Status (gen_output st) = st" "go_Task (gen_output st) = None"
  "go_DryRun (gen_output st) = False"
  by (simp_all add: gen_output_def)

lemma reserved_removeExpired [simp]: "reserved (removeExpired now s) p = reserved s p"
  by (simp add: reserved_def removeExpired_def)

lemma reserve_reserved:
  "reserve now prin s = (Inr (), s') \<Longrightarrow> reserved s' q = reserved s q + (if q = prin then 1 else 0)"
  "reserve now prin s = (Inl e, s') \<Longrightarrow> reserved s' q = reserved s q"
  by (auto simp: reserve_def Let_def reserved_put split: if_splits)

lemma release_reserved: "0 \<le> reserved s prin \<Longrightarrow> reserved (release prin s) q = (if q = prin then max 0 (reserved s prin - 1) else reserved s q)"
  by (auto simp: release_def reserved_put reserved_del)

lemma bind_reserved:
  "bind now prin i rep s = (Inr (), s') \<Longrightarrow> \<forall>q. reserved s' q = reserved s q - (if q = prin then 1 else 0)"
  "bind now prin i rep s = (Inl e, s') \<Longrightarrow> \<forall>q. reserved s' q = reserved s q"
  by (auto simp: bind_def Let_def releaseReservationLocked_def reserved_def removeExpired_def split: if_splits option.splits)

lemma stocktake_consume_ok:
  "stocktake_consume dig c token plan ps = (True, ps') \<Longrightarrow> \<exists>e. map_of (st_entries ps) token = Some e \<and>
     dig plan = Inr (se_digest e) \<and> se_principal e = stockPlanPrincipal (pc_info c) \<and> pc_now c < se_expiresAt e \<and>
     map_of (st_entries ps') token = None"
  by (auto simp: stocktake_consume_def split: sum.splits option.splits if_splits)

lemma selectLoop_one:
  "selectLoop [(''part'', a), (''category'', b), (''location'', d)] (0, '''', 0) = (1, sel, i) \<Longrightarrow>
    0 < i \<and> ((sel = ''part'' \<and> i = a) \<or> (sel = ''category'' \<and> i = b) \<or> (sel = ''location'' \<and> i = d))"
  by (auto split: if_splits)

section \<open>Properties\<close>

text \<open>The task-handle store never holds more handles and reservations than its global limit, nor more
  for any principal than the per-principal limit, whatever operations concurrent handlers run; and
  a bind by a principal with a reservation is never refused for capacity.\<close>

theorem task_store_capacity:
  assumes "s = fold task_step ops newStocktakeTaskStore"
  shows "int (length (tk_entries s)) + reservedTotal s \<le> stocktakeTaskMaxEntries \<and>
    principalCount prin s + reserved s prin \<le> stocktakeTaskMaxEntriesPerPrincipal \<and>
    (0 < reserved s prin \<longrightarrow> fst (bind now prin i rep s) \<noteq> Inl TaskCapacity)"
proof -
  have inv: "task_inv stocktakeTaskMaxEntries stocktakeTaskMaxEntriesPerPrincipal s"
    unfolding assms by (rule task_steps_inv[OF newStocktakeTaskStore_inv])
  have "fst (bind now prin i rep s) \<noteq> Inl TaskCapacity" if "0 < reserved s prin"
    using bind_slot[OF removeExpired_inv[OF inv], of now prin] that
    by (auto simp: bind_def Let_def split: option.splits)
  then show ?thesis using inv by (simp add: task_inv_def)
qed

theorem task_store_capacity_witness:
  "fst (bind 5 ''p'' 7 True (fold task_step [Reserve 1 ''p'', Reserve 2 ''q''] newStocktakeTaskStore)) \<noteq> Inl TaskCapacity"
proof -
  have "0 < reserved (fold task_step [Reserve 1 ''p'', Reserve 2 ''q''] newStocktakeTaskStore) ''p''" by code_simp
  then show ?thesis using task_store_capacity[OF refl, of "[Reserve 1 ''p'', Reserve 2 ''q'']" "''p''" 5 7 True] by blast
qed

text \<open>C34: generate_stocktake sends at most one request upstream, and only outside a dry run, with confirm
  set and a live token issued for exactly this plan to this principal, which is consumed; the
  request names exactly one positive selector; and no outcome leaves a reservation behind.\<close>

theorem generate_stocktake_confirmed:
  assumes "generateStocktake dig client c t1 t2 inp ps ts = (out, ps', ts', reqs)" "task_inv m mp ts"
  shows "(\<forall>q. reserved ts' q = reserved ts q) \<and> length reqs \<le> 1 \<and>
    (\<forall>req\<in>set reqs. \<not> gi_DryRun inp \<and> gi_Confirm inp \<and>
       (\<exists>plan e. stocktakeGenerationPlan inp = Inr plan \<and> map_of (st_entries ps) (gi_PlanHash inp) = Some e \<and>
          dig plan = Inr (se_digest e) \<and> se_principal e = stockPlanPrincipal (pc_info c) \<and> pc_now c < se_expiresAt e \<and>
          map_of (st_entries ps') (gi_PlanHash inp) = None \<and> req = stocktake_request plan \<and>
          0 < SelectorID plan \<and> one_selector req))"
proof (cases "stocktakeGenerationPlan inp")
  case (Inl f)
  then show ?thesis using assms(1) by (auto simp: generateStocktake_def)
next
  case (Inr plan)
  have pos: "0 \<le> reserved ts q" for q using assms(2) reserved_pos by (simp add: task_inv_def)
  have sel: "0 < SelectorID plan" "one_selector (stocktake_request plan)"
    using Inr by (auto simp: one_selector_def stocktakeGenerationPlan_def stocktake_request_def dest!: selectLoop_one split: prod.splits if_splits)
  show ?thesis
  proof (cases "gi_DryRun inp \<or> \<not> gi_Confirm inp \<or> \<not> fst (stocktake_consume dig c (gi_PlanHash inp) plan ps)")
    case True
    then show ?thesis using assms(1) Inr
      by (cases "stocktake_consume dig c (gi_PlanHash inp) plan ps")
         (auto simp: generateStocktake_def split: prod.splits sum.splits if_splits)
  next
    case False
    define prin where "prin = stockPlanPrincipal (pc_info c)"
    obtain ps1 where con: "stocktake_consume dig c (gi_PlanHash inp) plan ps = (True, ps1)"
      using False by (metis prod.collapse)
    obtain r ts1 where res: "reserve t1 prin ts = (r, ts1)" by fastforce
    have ok: "reserved ts' q = reserved ts q" for q
      using assms(1) Inr False con res reserve_reserved[of t1 prin ts] pos
      by (auto simp: generateStocktake_def Let_def prin_def[symmetric] release_reserved
          dest!: bind_reserved[of t2 prin] split: sum.splits option.splits if_splits prod.splits)
    have "reqs = [] \<or> reqs = [stocktake_request plan]" and "ps' = ps1"
      using assms(1) Inr False con res
      by (auto simp: generateStocktake_def Let_def prin_def[symmetric] split: sum.splits option.splits if_splits prod.splits)
    then show ?thesis using ok stocktake_consume_ok[OF con] False Inr sel by auto
  qed
qed

definition demo_input :: "bool \<Rightarrow> string \<Rightarrow> generate_input" where
  "demo_input dry tk = \<lparr>gi_DryRun = dry, gi_Confirm = True, gi_PlanHash = tk, gi_PartID = 3, gi_CategoryID = 0, gi_LocationID = 0,
     gi_GenerateEntry = True, gi_GenerateReport = False\<rparr>"

definition demo_plans :: stocktake_plan_store where
  "demo_plans = fst (snd (generateStocktake (\<lambda>p. Inr (Selector p)) (\<lambda>_. Inl ''x'') (demo_call 1 ''tok'') 1 1 (demo_input True '''')
     newStocktakePlanStore newStocktakeTaskStore))"

theorem generate_stocktake_confirmed_witness:
  "\<exists>out ps' ts'. generateStocktake (\<lambda>p. Inr (Selector p)) (\<lambda>_. Inr (Some 9)) (demo_call 2 '''') 2 2 (demo_input False ''tok'')
     demo_plans newStocktakeTaskStore = (out, ps', ts', [\<lparr>gr_Part = Some 3, gr_Category = None, gr_Location = None, gr_GenerateEntry = True, gr_GenerateReport = False\<rparr>]) \<and>
     map_of (st_entries ps') ''tok'' = None \<and> reserved ts' ''stdio'' = 0"
proof -
  let ?g = "generateStocktake (\<lambda>p. Inr (Selector p)) (\<lambda>_. Inr (Some 9)) (demo_call 2 '''') 2 2 (demo_input False ''tok'') demo_plans newStocktakeTaskStore"
  obtain out ps' ts' reqs where g: "?g = (out, ps', ts', reqs)" by (metis prod_cases4)
  have "snd (snd (snd ?g)) = [\<lparr>gr_Part = Some 3, gr_Category = None, gr_Location = None, gr_GenerateEntry = True, gr_GenerateReport = False\<rparr>]"
    by code_simp
  then have r: "reqs = [\<lparr>gr_Part = Some 3, gr_Category = None, gr_Location = None, gr_GenerateEntry = True, gr_GenerateReport = False\<rparr>]"
    using g by simp
  have "reserved newStocktakeTaskStore ''stdio'' = 0" by code_simp
  then show ?thesis using generate_stocktake_confirmed[OF g newStocktakeTaskStore_inv] r g by (auto simp: demo_input_def)
qed

end
