(* ===== verification/Update_FS.thy ===== *)
theory Update_FS
  imports Prelude
begin

text \<open>
  The operating system as the self-updater uses it: a file system mapping paths to inodes, the
  calls of package os on it, and path/filepath. Every mutating call consults a list of faults: the
  call may succeed, fail, or be the point where the process is killed (a write may then have stored
  a prefix). Metadata reads (Lstat) are answered from the file system. os.CreateTemp draws its
  suffixes from a list of random numbers and retries on a name that exists, as Go's does.
\<close>

section \<open>Files, faults and the io monad\<close>

datatype file_kind = Regular | Directory | Symlink | OtherKind

record inode =
  f_data :: string
  f_perm :: nat
  f_special :: bool
  f_kind :: file_kind
  f_uid :: nat
  f_nlink :: nat
  f_ino :: nat

type_synonym file_system = "string \<rightharpoonup> inode"

datatype fault = Fine | Fail nat | Kill nat

record world =
  fs :: file_system
  faults :: "fault list"
  rand :: "32 word list"
  next_ino :: nat
  euid :: nat

datatype up_error = ErrNotExist | ErrIO | ErrExist | ErrText string | PublishError up_error
  | Wrap string up_error | Joined up_error up_error

fun is_not_exist :: "up_error \<Rightarrow> bool" where
  "is_not_exist ErrNotExist = True"
| "is_not_exist (PublishError e) = is_not_exist e"
| "is_not_exist (Wrap s e) = is_not_exist e"
| "is_not_exist (Joined a b) = (is_not_exist a \<or> is_not_exist b)"
| "is_not_exist _ = False"

definition os_error :: "up_error \<Rightarrow> bool" where
  "os_error e \<longleftrightarrow> e \<in> {ErrNotExist, ErrIO, ErrExist}"

lemma os_error_simps [simp]: "os_error ErrNotExist" "os_error ErrIO" "os_error ErrExist"
  by (simp_all add: os_error_def)

fun is_publish_error :: "up_error \<Rightarrow> bool" where
  "is_publish_error (PublishError e) = True"
| "is_publish_error (Wrap s e) = is_publish_error e"
| "is_publish_error (Joined a b) = (is_publish_error a \<or> is_publish_error b)"
| "is_publish_error _ = False"

datatype ('e, 'a) res = Done 'a | Failed 'e | Killed

type_synonym ('e, 'a) io = "world \<Rightarrow> ('e, 'a) res \<times> world"

definition ret :: "'a \<Rightarrow> ('e, 'a) io" where
  "ret x w = (Done x, w)"

definition throw :: "'e \<Rightarrow> ('e, 'a) io" where
  "throw e w = (Failed e, w)"

text \<open>\<open>tryio m h k\<close> is "x, err := m; if err != nil { h } k"; a killed process runs nothing more.\<close>

definition tryio :: "('e, 'a) io \<Rightarrow> ('e \<Rightarrow> ('d, 'b) io) \<Rightarrow> ('a \<Rightarrow> ('d, 'b) io) \<Rightarrow> ('d, 'b) io" where
  "tryio m h k w = (case m w of (Done x, v) \<Rightarrow> k x v | (Failed e, v) \<Rightarrow> h e v | (Killed, v) \<Rightarrow> (Killed, v))"

definition ck :: "string \<Rightarrow> (up_error, 'a) io \<Rightarrow> ('a \<Rightarrow> (up_error, 'b) io) \<Rightarrow> (up_error, 'b) io" where
  "ck s m k = tryio m (\<lambda>e. throw (Wrap s e)) k"

definition ignoring :: "('e, 'a) io \<Rightarrow> ('d, 'b) io \<Rightarrow> ('d, 'b) io" where
  "ignoring m k = tryio m (\<lambda>_. k) (\<lambda>_. k)"

text \<open>A deferred call: it runs after m returned, its own error is dropped.\<close>

definition deferred :: "('e, 'a) io \<Rightarrow> ('c, 'b) io \<Rightarrow> ('e, 'a) io" where
  "deferred m d = tryio m (\<lambda>e. ignoring d (throw e)) (\<lambda>x. ignoring d (ret x))"

definition lift :: "(file_system \<Rightarrow> 'e + 'a) \<Rightarrow> ('e, 'a) io" where
  "lift f w = (case f (fs w) of Inl e \<Rightarrow> Failed e | Inr x \<Rightarrow> Done x, w)"

definition syscall :: "(nat \<Rightarrow> world \<Rightarrow> world) \<Rightarrow> (up_error, 'a) io \<Rightarrow> (up_error, 'a) io" where
  "syscall partly act w = (case faults w of
     [] \<Rightarrow> act w
   | Fine # r \<Rightarrow> act (w\<lparr>faults := r\<rparr>)
   | Fail n # r \<Rightarrow> (Failed ErrIO, partly n (w\<lparr>faults := r\<rparr>))
   | Kill n # r \<Rightarrow> (Killed, partly n (w\<lparr>faults := r\<rparr>)))"

definition atomic :: "(up_error, 'a) io \<Rightarrow> (up_error, 'a) io" where
  "atomic = syscall (\<lambda>_ w. w)"

section \<open>path/filepath\<close>

abbreviation slash :: char where "slash \<equiv> CHR ''/''"

fun clean_parts :: "bool \<Rightarrow> string list \<Rightarrow> string list \<Rightarrow> string list" where
  "clean_parts rooted acc [] = rev acc"
| "clean_parts rooted acc (c # cs) =
    (if c = '''' \<or> c = ''.'' then clean_parts rooted acc cs
     else if c = ''..'' then
       (if acc \<noteq> [] \<and> hd acc \<noteq> ''..'' then clean_parts rooted (tl acc) cs
        else if rooted then clean_parts rooted acc cs
        else clean_parts rooted (c # acc) cs)
     else clean_parts rooted (c # acc) cs)"

definition path_clean :: "string \<Rightarrow> string" where
  "path_clean p = (if p = '''' then ''.''
     else if hd p = slash then slash # join_on slash (clean_parts True [] (split_on slash p))
     else (let q = join_on slash (clean_parts False [] (split_on slash p)) in if q = '''' then ''.'' else q))"

definition path_dir :: "string \<Rightarrow> string" where
  "path_dir p = path_clean (trim_right (\<lambda>c. c \<noteq> slash) p)"

definition joinPath :: "string \<Rightarrow> string \<Rightarrow> string" where
  "joinPath dir name = (if dir \<noteq> '''' \<and> last dir = slash then dir @ name else dir @ slash # name)"

section \<open>Calls of package os\<close>

fun pick_name :: "file_system \<Rightarrow> string \<Rightarrow> 32 word list \<Rightarrow> (string \<times> 32 word list) option" where
  "pick_name f pre [] = None"
| "pick_name f pre (s # ss) = (if f (pre @ show_nat (unat s)) = None then Some (pre @ show_nat (unat s), ss) else pick_name f pre ss)"

definition new_inode :: "world \<Rightarrow> inode" where
  "new_inode w = \<lparr>f_data = '''', f_perm = 384, f_special = False, f_kind = Regular, f_uid = euid w, f_nlink = 1, f_ino = next_ino w\<rparr>"

definition createTemp :: "string \<Rightarrow> string \<Rightarrow> (up_error, string) io" where
  "createTemp dir pre = atomic (\<lambda>w. case pick_name (fs w) (joinPath dir pre) (rand w) of
     None \<Rightarrow> (Failed ErrExist, w\<lparr>rand := []\<rparr>)
   | Some (p, r) \<Rightarrow> (Done p, w\<lparr>fs := (fs w)(p \<mapsto> new_inode w), rand := r, next_ino := next_ino w + 1\<rparr>))"

definition createExclusive :: "string \<Rightarrow> (up_error, unit) io" where
  "createExclusive p = atomic (\<lambda>w. if fs w p \<noteq> None then (Failed ErrExist, w)
     else (Done (), w\<lparr>fs := (fs w)(p \<mapsto> new_inode w), next_ino := next_ino w + 1\<rparr>))"

definition upd_file :: "string \<Rightarrow> (inode \<Rightarrow> inode) \<Rightarrow> world \<Rightarrow> world" where
  "upd_file p g w = w\<lparr>fs := (fs w)(p := map_option g (fs w p))\<rparr>"

definition write_file :: "string \<Rightarrow> string \<Rightarrow> (up_error, unit) io" where
  "write_file p d = syscall (\<lambda>n. upd_file p (\<lambda>i. i\<lparr>f_data := f_data i @ take n d\<rparr>))
     (\<lambda>w. (Done (), upd_file p (\<lambda>i. i\<lparr>f_data := f_data i @ d\<rparr>) w))"

definition chmod :: "string \<Rightarrow> nat \<Rightarrow> (up_error, unit) io" where
  "chmod p m = atomic (\<lambda>w. if fs w p = None then (Failed ErrNotExist, w) else (Done (), upd_file p (\<lambda>i. i\<lparr>f_perm := m\<rparr>) w))"

definition remove :: "string \<Rightarrow> (up_error, unit) io" where
  "remove p = atomic (\<lambda>w. if fs w p = None then (Failed ErrNotExist, w) else (Done (), w\<lparr>fs := (fs w)(p := None)\<rparr>))"

definition rename :: "string \<Rightarrow> string \<Rightarrow> (up_error, unit) io" where
  "rename a b = atomic (\<lambda>w. if fs w a = None then (Failed ErrNotExist, w)
     else (Done (), w\<lparr>fs := (fs w)(a := None, b := fs w a)\<rparr>))"

text \<open>Sync, Close, and opening a directory: they change no file.\<close>

definition sync_call :: "(up_error, unit) io" where
  "sync_call = atomic (\<lambda>w. (Done (), w))"

definition open_file :: "string \<Rightarrow> (up_error, inode) io" where
  "open_file p = atomic (\<lambda>w. case fs w p of None \<Rightarrow> (Failed ErrNotExist, w) | Some i \<Rightarrow> (Done i, w))"

definition Lstat :: "string \<Rightarrow> file_system \<Rightarrow> up_error + inode" where
  "Lstat p f = (case f p of None \<Rightarrow> Inl ErrNotExist | Some i \<Rightarrow> Inr i)"

definition SameFile :: "inode \<Rightarrow> inode \<Rightarrow> bool" where
  "SameFile a b = (f_ino a = f_ino b)"

definition file_mode :: "inode \<Rightarrow> file_kind \<times> bool \<times> nat" where
  "file_mode i = (f_kind i, f_special i, f_perm i)"

section \<open>Correctness triples\<close>

text \<open>From a file system with P, a call that returns leaves Q, one that fails leaves R, and one
  during which the process is killed leaves C; \<open>u\<close> is the effective user the temporaries belong to.\<close>

definition post :: "('a \<Rightarrow> file_system \<Rightarrow> bool) \<Rightarrow> ('e \<Rightarrow> file_system \<Rightarrow> bool) \<Rightarrow> (file_system \<Rightarrow> bool) \<Rightarrow>
    ('e, 'a) res \<Rightarrow> file_system \<Rightarrow> bool" where
  "post Q R C r f = (case r of Done x \<Rightarrow> Q x f | Failed e \<Rightarrow> R e f | Killed \<Rightarrow> C f)"

lemma post_simps [simp]:
  "post Q R C (Done x) f = Q x f" "post Q R C (Failed e) f = R e f" "post Q R C Killed f = C f"
  by (simp_all add: post_def)

definition spec :: "nat \<Rightarrow> (file_system \<Rightarrow> bool) \<Rightarrow> ('e, 'a) io \<Rightarrow> ('a \<Rightarrow> file_system \<Rightarrow> bool) \<Rightarrow>
    ('e \<Rightarrow> file_system \<Rightarrow> bool) \<Rightarrow> (file_system \<Rightarrow> bool) \<Rightarrow> bool" where
  "spec u P m Q R C = (\<forall>w. euid w = u \<longrightarrow> P (fs w) \<longrightarrow> (case m w of (r, v) \<Rightarrow> euid v = u \<and>
     post Q R C r (fs v)))"

lemma specD:
  "spec u P m Q R C \<Longrightarrow> euid w = u \<Longrightarrow> P (fs w) \<Longrightarrow> m w = (r, v) \<Longrightarrow>
    euid v = u \<and> post Q R C r (fs v)"
  unfolding spec_def by fastforce

lemma spec_pre: "(\<And>f. P f \<Longrightarrow> P' f) \<Longrightarrow> spec u P' m Q R C \<Longrightarrow> spec u P m Q R C"
  by (simp add: spec_def)

lemma post_mono:
  "post Q R C r f \<Longrightarrow> (\<And>x f. Q x f \<Longrightarrow> Q' x f) \<Longrightarrow> (\<And>e f. R e f \<Longrightarrow> R' e f) \<Longrightarrow> (\<And>f. C f \<Longrightarrow> C' f) \<Longrightarrow> post Q' R' C' r f"
  by (cases r) auto

lemma spec_conseq:
  assumes "spec u P m Q R C" "\<And>f. P' f \<Longrightarrow> P f" "\<And>x f. Q x f \<Longrightarrow> Q' x f" "\<And>e f. R e f \<Longrightarrow> R' e f" "\<And>f. C f \<Longrightarrow> C' f"
  shows "spec u P' m Q' R' C'"
  unfolding spec_def
proof (intro allI impI)
  fix w :: world assume w: "euid w = u" "P' (fs w)"
  obtain r v where mw: "m w = (r, v)" by fastforce
  have "euid v = u \<and> post Q R C r (fs v)" using specD[OF assms(1) w(1) assms(2)[OF w(2)] mw] .
  then show "case m w of (r, v) \<Rightarrow> euid v = u \<and> post Q' R' C' r (fs v)"
    using post_mono[of Q R C r "fs v" Q' R' C'] assms(3-5) by (simp add: mw)
qed

lemma spec_ret: "(\<And>f. P f \<Longrightarrow> Q x f) \<Longrightarrow> spec u P (ret x) Q R C"
  by (simp add: spec_def ret_def)

lemma spec_throw: "(\<And>f. P f \<Longrightarrow> R e f) \<Longrightarrow> spec u P (throw e) Q R C"
  by (simp add: spec_def throw_def)

lemma spec_tryio:
  assumes "spec u P m Q' R' C" "\<And>e. spec u (R' e) (h e) Q R C" "\<And>x. spec u (Q' x) (k x) Q R C"
  shows "spec u P (tryio m h k) Q R C"
  unfolding spec_def
proof (intro allI impI)
  fix w :: world assume w: "euid w = u" "P (fs w)"
  obtain r v where mw: "m w = (r, v)" by fastforce
  note d = specD[OF assms(1) w mw]
  show "case tryio m h k w of (r, v) \<Rightarrow> euid v = u \<and> post Q R C r (fs v)"
    using d assms(2,3) by (cases r) (auto simp: tryio_def mw spec_def)
qed

lemma spec_ck:
  assumes "spec u P m Q' R' C" "\<And>e f. R' e f \<Longrightarrow> R (Wrap s e) f" "\<And>x. spec u (Q' x) (k x) Q R C"
  shows "spec u P (ck s m k) Q R C"
  unfolding ck_def by (rule spec_tryio[OF assms(1) spec_throw assms(3)]) (rule assms(2))

lemma spec_ignoring:
  assumes "spec u P m (\<lambda>_. P') (\<lambda>_. P') C" "spec u P' k Q R C"
  shows "spec u P (ignoring m k) Q R C"
  unfolding ignoring_def by (rule spec_tryio[OF assms(1) assms(2) assms(2)])

lemma spec_deferred:
  assumes "spec u P m Q' R' C" "\<And>x. spec u (Q' x) d (\<lambda>_. Q x) (\<lambda>_. Q x) C" "\<And>e. spec u (R' e) d (\<lambda>_. R e) (\<lambda>_. R e) C"
  shows "spec u P (deferred m d) Q R C"
  unfolding deferred_def
  by (rule spec_tryio[OF assms(1)]) (rule spec_ignoring[OF assms(3) spec_throw] spec_ignoring[OF assms(2) spec_ret], assumption)+

lemma spec_lift:
  assumes "\<And>f e. P f \<Longrightarrow> g f = Inl e \<Longrightarrow> R e f" "\<And>f x. P f \<Longrightarrow> g f = Inr x \<Longrightarrow> Q x f"
  shows "spec u P (lift g) Q R C"
  unfolding spec_def
proof (intro allI impI)
  fix w :: world assume "euid w = u" "P (fs w)"
  then show "case lift g w of (r, v) \<Rightarrow> euid v = u \<and> post Q R C r (fs v)"
    using assms by (cases "g (fs w)") (simp_all add: lift_def)
qed

lemma faults_cases [case_names none fine fail kill]:
  assumes "l = [] \<Longrightarrow> thesis" "\<And>r. l = Fine # r \<Longrightarrow> thesis" "\<And>n r. l = Fail n # r \<Longrightarrow> thesis" "\<And>n r. l = Kill n # r \<Longrightarrow> thesis"
  shows thesis
proof (cases l)
  case (Cons f r)
  show thesis
  proof (cases f)
    case Fine
    show thesis by (rule assms(2)[of r]) (simp add: Cons Fine)
  next
    case (Fail n)
    show thesis by (rule assms(3)[of n r]) (simp add: Cons Fail)
  next
    case (Kill n)
    show thesis by (rule assms(4)[of n r]) (simp add: Cons Kill)
  qed
qed (rule assms(1))

lemma spec_syscall:
  assumes "spec u P act Q R C" "\<And>n w. P (fs w) \<Longrightarrow> R ErrIO (fs (part n w)) \<and> C (fs (part n w))"
    "\<And>n w. euid (part n w) = euid w"
  shows "spec u P (syscall part act) Q R C"
  unfolding spec_def
proof (intro allI impI)
  fix w :: world assume w: "euid w = u" "P (fs w)"
  have a: "case act v of (r, v) \<Rightarrow> euid v = u \<and> post Q R C r (fs v)"
    if "euid v = u" "P (fs v)" for v using assms(1)[unfolded spec_def, rule_format, OF that] .
  show "case syscall part act w of (r, v) \<Rightarrow> euid v = u \<and> post Q R C r (fs v)"
  proof (cases "faults w" rule: faults_cases)
    case none
    then show ?thesis using a[OF w] by (simp add: syscall_def)
  next
    case (fine r)
    then show ?thesis using a[of "w\<lparr>faults := r\<rparr>"] w by (simp add: syscall_def)
  next
    case (fail n r)
    then show ?thesis using assms(2)[of "w\<lparr>faults := r\<rparr>" n] assms(3)[of n "w\<lparr>faults := r\<rparr>"] w by (simp add: syscall_def)
  next
    case (kill n r)
    then show ?thesis using assms(2)[of "w\<lparr>faults := r\<rparr>" n] assms(3)[of n "w\<lparr>faults := r\<rparr>"] w by (simp add: syscall_def)
  qed
qed

lemma spec_atomic:
  assumes "spec u P act Q R C" "\<And>f. P f \<Longrightarrow> R ErrIO f" "\<And>f. P f \<Longrightarrow> C f"
  shows "spec u P (atomic act) Q R C"
  unfolding atomic_def by (rule spec_syscall) (use assms in auto)

definition plain_file :: "nat \<Rightarrow> inode \<Rightarrow> bool" where
  "plain_file u i \<longleftrightarrow> f_kind i = Regular \<and> f_uid i = u \<and> f_nlink i = 1 \<and> \<not> f_special i"

definition temp_name :: "string \<Rightarrow> string \<Rightarrow> string \<Rightarrow> bool" where
  "temp_name dir pre p \<longleftrightarrow> (\<exists>s :: 32 word. p = joinPath dir pre @ show_nat (unat s))"

lemma pick_name_Some: "pick_name f pre ss = Some (p, r) \<Longrightarrow> f p = None \<and> (\<exists>s :: 32 word. p = pre @ show_nat (unat s))"
  by (induction ss) (auto split: if_splits)

lemma spec_createTemp:
  assumes "\<And>f. P f \<Longrightarrow> R f" "\<And>f. P f \<Longrightarrow> C f"
    "\<And>f p i. P f \<Longrightarrow> f p = None \<Longrightarrow> temp_name dir pre p \<Longrightarrow> plain_file u i \<Longrightarrow> f_data i = '''' \<Longrightarrow> f_perm i = 384 \<Longrightarrow> Q p (f(p \<mapsto> i))"
  shows "spec u P (createTemp dir pre) Q (\<lambda>e f. os_error e \<and> R f) C"
  unfolding createTemp_def
proof (rule spec_atomic)
  show "spec u P (\<lambda>w. case pick_name (fs w) (joinPath dir pre) (rand w) of
     None \<Rightarrow> (Failed ErrExist, w\<lparr>rand := []\<rparr>)
   | Some (p, r) \<Rightarrow> (Done p, w\<lparr>fs := (fs w)(p \<mapsto> new_inode w), rand := r, next_ino := next_ino w + 1\<rparr>)) Q (\<lambda>e f. os_error e \<and> R f) C"
    unfolding spec_def
  proof (intro allI impI)
    fix w :: world assume w: "euid w = u" "P (fs w)"
    have n: "plain_file u (new_inode w)" "f_data (new_inode w) = ''''" "f_perm (new_inode w) = 384"
      using w by (simp_all add: new_inode_def plain_file_def)
    show "case (case pick_name (fs w) (joinPath dir pre) (rand w) of
        None \<Rightarrow> (Failed ErrExist, w\<lparr>rand := []\<rparr>)
      | Some (p, r) \<Rightarrow> (Done p, w\<lparr>fs := (fs w)(p \<mapsto> new_inode w), rand := r, next_ino := next_ino w + 1\<rparr>)) of
      (r, v) \<Rightarrow> euid v = u \<and> post Q (\<lambda>e f. os_error e \<and> R f) C r (fs v)"
    proof (cases "pick_name (fs w) (joinPath dir pre) (rand w)")
      case (Some pr)
      obtain p r where pr: "pr = (p, r)" by fastforce
      have "fs w p = None" "temp_name dir pre p" using pick_name_Some Some pr by (auto simp: temp_name_def)
      then show ?thesis using assms(3)[OF w(2) _ _ n] w(1) Some pr by simp
    qed (use w assms in simp)
  qed
qed (use assms in auto)

lemma spec_createExclusive:
  assumes "\<And>f. P f \<Longrightarrow> R f" "\<And>f. P f \<Longrightarrow> C f"
    "\<And>f i. P f \<Longrightarrow> f p = None \<Longrightarrow> plain_file u i \<Longrightarrow> f_data i = '''' \<Longrightarrow> f_perm i = 384 \<Longrightarrow> Q () (f(p \<mapsto> i))"
  shows "spec u P (createExclusive p) Q (\<lambda>e f. os_error e \<and> R f) C"
  unfolding createExclusive_def
  by (rule spec_atomic) (use assms in \<open>auto simp: spec_def new_inode_def plain_file_def\<close>)

lemma spec_write_file:
  assumes "\<And>f n. P f \<Longrightarrow> R (f(p := map_option (\<lambda>i. i\<lparr>f_data := f_data i @ take n d\<rparr>) (f p)))"
    "\<And>f n. P f \<Longrightarrow> C (f(p := map_option (\<lambda>i. i\<lparr>f_data := f_data i @ take n d\<rparr>) (f p)))"
    "\<And>f. P f \<Longrightarrow> Q () (f(p := map_option (\<lambda>i. i\<lparr>f_data := f_data i @ d\<rparr>) (f p)))"
  shows "spec u P (write_file p d) Q (\<lambda>e f. os_error e \<and> R f) C"
  unfolding write_file_def
  by (rule spec_syscall) (use assms in \<open>auto simp: spec_def upd_file_def\<close>)

lemma spec_chmod:
  assumes "\<And>f. P f \<Longrightarrow> R f" "\<And>f. P f \<Longrightarrow> C f"
    "\<And>f i. P f \<Longrightarrow> f p = Some i \<Longrightarrow> Q () (f(p \<mapsto> i\<lparr>f_perm := m\<rparr>))"
  shows "spec u P (chmod p m) Q (\<lambda>e f. os_error e \<and> R f) C"
  unfolding chmod_def
  by (rule spec_atomic) (use assms in \<open>auto simp: spec_def upd_file_def\<close>)

lemma spec_remove:
  assumes "\<And>f. P f \<Longrightarrow> R f" "\<And>f. P f \<Longrightarrow> C f" "\<And>f i. P f \<Longrightarrow> f p = Some i \<Longrightarrow> Q () (f(p := None))"
  shows "spec u P (remove p) Q (\<lambda>e f. os_error e \<and> R f) C"
  unfolding remove_def
  by (rule spec_atomic) (use assms in \<open>auto simp: spec_def\<close>)

text \<open>The error of remove tells whether the file was there.\<close>

lemma spec_remove_strict:
  assumes "\<And>f. P f \<Longrightarrow> R f" "\<And>f. P f \<Longrightarrow> C f" "\<And>f. P f \<Longrightarrow> Q (f(p := None))"
  shows "spec u P (remove p) (\<lambda>_. Q) (\<lambda>e f. os_error e \<and> R f \<and> (is_not_exist e \<longrightarrow> f p = None \<and> Q f)) C"
  unfolding remove_def
  by (rule spec_atomic) (use assms(1,2) assms(3) in \<open>auto simp: spec_def\<close>, metis fun_upd_triv)

lemma spec_rename:
  assumes "\<And>f. P f \<Longrightarrow> R f" "\<And>f. P f \<Longrightarrow> C f"
    "\<And>f i. P f \<Longrightarrow> f a = Some i \<Longrightarrow> Q () (f(a := None, b \<mapsto> i))"
  shows "spec u P (rename a b) Q (\<lambda>e f. os_error e \<and> R f) C"
  unfolding rename_def
  by (rule spec_atomic) (use assms in \<open>auto simp: spec_def\<close>)

lemma spec_sync_call:
  assumes "\<And>f. P f \<Longrightarrow> R f" "\<And>f. P f \<Longrightarrow> C f" "\<And>f. P f \<Longrightarrow> Q f"
  shows "spec u P sync_call (\<lambda>_. Q) (\<lambda>e f. os_error e \<and> R f) C"
  unfolding sync_call_def
  by (rule spec_atomic) (use assms in \<open>auto simp: spec_def\<close>)

lemma spec_open_file:
  assumes "\<And>f. P f \<Longrightarrow> R f" "\<And>f. P f \<Longrightarrow> C f" "\<And>f i. P f \<Longrightarrow> f p = Some i \<Longrightarrow> Q i f"
  shows "spec u P (open_file p) Q (\<lambda>e f. os_error e \<and> R f) C"
  unfolding open_file_def
  by (rule spec_atomic) (use assms in \<open>auto simp: spec_def split: option.splits\<close>)

section \<open>Facts about paths\<close>

lemma show_nat_last_digit: "is_digit (last (show_nat n)) \<and> show_nat n \<noteq> []"
proof (induction n rule: show_nat.induct)
  case (1 n)
  have "is_digit (digit_char k)" if "k < 10" for k using that
    by (simp add: is_digit_def digit_char_def Let_def)
  then show ?case by (subst (1 2) show_nat.simps) simp
qed

lemma show_nat_digits: "c \<in> set (show_nat n) \<Longrightarrow> is_digit c"
proof (induction n rule: show_nat.induct)
  case (1 n)
  have "is_digit (digit_char k)" if "k < 10" for k using that
    by (simp add: is_digit_def digit_char_def Let_def)
  then show ?case using 1 by (subst (asm) (2) show_nat.simps) (auto split: if_splits)
qed

lemma temp_name_not_suffix: "temp_name dir pre p \<Longrightarrow> \<not> is_digit (last q) \<Longrightarrow> q \<noteq> [] \<Longrightarrow> p \<noteq> e @ q"
  using show_nat_last_digit by (auto simp: temp_name_def) (metis last_appendR)

lemma split_on_snoc: "split_on c (s @ [c]) = split_on c s @ [[]]"
  by (induction s) (auto split: list.splits)

lemma clean_parts_snoc: "clean_parts r acc (cs @ ['''']) = clean_parts r acc cs"
  by (induction r acc cs rule: clean_parts.induct) auto

lemma path_clean_snoc: "d \<noteq> '''' \<Longrightarrow> path_clean (d @ [slash]) = path_clean d"
  by (simp add: path_clean_def split_on_snoc clean_parts_snoc hd_append)

lemma trim_right_append: "(\<forall>c\<in>set b. P c) \<Longrightarrow> \<not> P x \<Longrightarrow> trim_right P (a @ x # b) = a @ [x]"
  by (simp add: trim_right_def dropWhile_append3)

lemma path_dir_joinPath:
  assumes "path_clean d = d" "slash \<notin> set n"
  shows "path_dir (joinPath d n) = d"
proof -
  have ne: "d \<noteq> ''''" using assms(1) by (auto simp: path_clean_def)
  have n: "\<forall>c\<in>set n. c \<noteq> slash" using assms(2) by auto
  show ?thesis
  proof (cases "last d = slash")
    case True
    then obtain d' where d': "d = d' @ [slash]" using ne by (metis append_butlast_last_id)
    then show ?thesis using assms(1) n True by (simp add: joinPath_def path_dir_def trim_right_append)
  next
    case False
    then have "joinPath d n = d @ slash # n" using ne by (simp add: joinPath_def)
    then have "path_dir (joinPath d n) = path_clean (d @ [slash])" using n by (simp add: path_dir_def trim_right_append)
    then show ?thesis using path_clean_snoc[OF ne] assms(1) by simp
  qed
qed

lemma temp_name_dir:
  assumes "temp_name d pre p" "path_clean d = d" "slash \<notin> set pre"
  shows "path_dir p = d"
proof -
  obtain s :: "32 word" where p: "p = joinPath d (pre @ show_nat (unat s))" using assms(1) by (auto simp: temp_name_def joinPath_def split: if_splits)
  have "slash \<notin> set (show_nat (unat s))" using show_nat_digits[of slash "unat s"] by (auto simp: is_digit_def)
  then show ?thesis unfolding p using assms by (intro path_dir_joinPath) auto
qed

lemma parts_size:
  "sum_list (map (\<lambda>c. length c + 1) (clean_parts r acc cs)) \<le> sum_list (map (\<lambda>c. length c + 1) (acc @ cs))"
proof (induction r acc cs rule: clean_parts.induct)
  case (2 r acc c cs)
  then show ?case by (cases acc) (auto split: if_splits)
qed (simp add: rev_map[symmetric])

lemma length_join_on: "length (join_on c ps) + (if ps = [] then 0 else 1) = sum_list (map (\<lambda>p. length p + 1) ps)"
  by (induction c ps rule: join_on.induct) auto

lemma length_path_clean: "p \<noteq> '''' \<Longrightarrow> length (path_clean p) \<le> length p"
proof -
  assume ne: "p \<noteq> ''''"
  let ?n = "\<lambda>ps. sum_list (map (\<lambda>c. length c + 1) ps)"
  have tot: "?n (split_on slash s) = length s + 1" for s
    using length_join_on[of slash "split_on slash s"] by (simp add: join_split)
  show ?thesis
  proof (cases "hd p = slash")
    case True
    then obtain r where r: "p = slash # r" using ne by (cases p) auto
    have "?n (clean_parts True [] (split_on slash r)) \<le> length r + 1"
      using parts_size[of True "[]" "split_on slash r"] tot[of r] by simp
    then show ?thesis using length_join_on[of slash "clean_parts True [] (split_on slash r)"]
      by (simp add: path_clean_def r split: if_splits)
  next
    case False
    have "?n (clean_parts False [] (split_on slash p)) \<le> length p + 1"
      using parts_size[of False "[]" "split_on slash p"] tot[of p] by simp
    then show ?thesis using False ne length_join_on[of slash "clean_parts False [] (split_on slash p)"]
      by (cases p) (auto simp: path_clean_def Let_def split: if_splits)
  qed
qed

text \<open>The parent of a path is shorter, or a fixed point is near: the measure of the ancestor walk.\<close>

definition path_size :: "string \<Rightarrow> nat" where
  "path_size p = (if p = ''.'' then 0 else length p + 1)"

lemma path_dir_smaller:
  assumes "path_dir p \<noteq> p"
  shows "path_size (path_dir p) < path_size p"
proof -
  define q where "q = trim_right (\<lambda>c. c \<noteq> slash) p"
  have pd: "path_dir p = path_clean q" by (simp add: path_dir_def q_def)
  show ?thesis
  proof (cases "q = ''''")
    case True
    then show ?thesis using assms by (simp add: pd path_clean_def path_size_def)
  next
    case False
    then have "dropWhile (\<lambda>c. c \<noteq> slash) (rev p) \<noteq> []" by (auto simp: q_def trim_right_def)
    then have "last q = slash" using hd_dropWhile[of "\<lambda>c. c \<noteq> slash" "rev p"]
      by (simp add: q_def trim_right_def last_rev)
    then obtain d where d: "q = d @ [slash]" using False by (metis append_butlast_last_id)
    have le: "length q \<le> length p" using length_dropWhile_le[of "\<lambda>c. c \<noteq> slash" "rev p"] by (simp add: q_def trim_right_def)
    show ?thesis
    proof (cases "d = ''''")
      case True
      then have c: "path_clean q = [slash]" by (simp add: d path_clean_def)
      have "p \<noteq> ''.''" using False by (auto simp: q_def trim_right_def)
      moreover have "length p \<noteq> 1" 
      proof
        assume "length p = 1"
        then obtain x where "p = [x]" by (metis One_nat_def Suc_length_conv length_0_conv)
        then show False using False c assms pd by (auto simp: q_def trim_right_def split: if_splits)
      qed
      ultimately show ?thesis using c le d True by (simp add: pd path_size_def)
    next
      case ne: False
      have "length (path_clean q) \<le> length d" using path_clean_snoc[OF ne] length_path_clean[OF ne] by (simp add: d)
      moreover have "p \<noteq> ''.''" using False by (auto simp: q_def trim_right_def)
      ultimately show ?thesis using le d by (auto simp: pd path_size_def)
    qed
  qed
qed

end
