(* ===== verification/Release.thy ===== *)
theory Release
  imports Prelude
begin

text \<open>
  Version output and release verification: internal/buildinfo/porcelain.go and the pure parts of
  internal/selfupdate (version policy, platform, checksum file, archive layout, redirects).
  golang.org/x/mod/semver, SHA-256 and the gzip/tar readers are arguments: the readers give the
  entries and trailing bytes they find.
\<close>

section \<open>Porcelain version output\<close>

record porcelain_info =
  Version :: string
  Commit :: string
  Date :: string
  InvenTreeVersion :: string
  InvenTreeAPI :: string

definition PorcelainMarker :: string where "PorcelainMarker = ''1''"
definition keyPorcelain :: string where "keyPorcelain = ''porcelain''"
definition keyVersion :: string where "keyVersion = ''version''"
definition keyCommit :: string where "keyCommit = ''commit''"
definition keyDate :: string where "keyDate = ''date''"
definition keyInvenTreeVersion :: string where "keyInvenTreeVersion = ''inventree_version''"
definition keyInvenTreeAPI :: string where "keyInvenTreeAPI = ''inventree_api''"

lemmas porcelain_keys = keyPorcelain_def keyVersion_def keyCommit_def keyDate_def keyInvenTreeVersion_def keyInvenTreeAPI_def

definition PorcelainLines :: "porcelain_info \<Rightarrow> string list" where
  "PorcelainLines b = [keyPorcelain @ '': '' @ PorcelainMarker, keyVersion @ '': '' @ Version b, keyCommit @ '': '' @ Commit b,
      keyDate @ '': '' @ Date b] @
    (if InvenTreeVersion b \<noteq> '''' then [keyInvenTreeVersion @ '': '' @ InvenTreeVersion b] else []) @
    (if InvenTreeAPI b \<noteq> '''' then [keyInvenTreeAPI @ '': '' @ InvenTreeAPI b] else [])"

text \<open>strings.Cut with the two-byte separator.\<close>

fun cut2 :: "string \<Rightarrow> (string \<times> string) option" where
  "cut2 (a # b # r) = (if a = CHR '':'' \<and> b = CHR '' '' then Some ([], r)
     else (case cut2 (b # r) of None \<Rightarrow> None | Some (k, v) \<Rightarrow> Some (a # k, v)))"
| "cut2 _ = None"

fun parseLines :: "string list \<Rightarrow> (string, string) go_map \<Rightarrow> string + (string, string) go_map" where
  "parseLines [] fs = Inr fs"
| "parseLines (line # ls) fs = (if line = '''' then parseLines ls fs
     else (case cut2 line of None \<Rightarrow> Inl ''malformed version output line'' | Some (k, v) \<Rightarrow> parseLines ls (gm_put k v fs)))"

definition field :: "(string, string) go_map \<Rightarrow> string \<Rightarrow> string" where
  "field fs k = (case map_of fs k of None \<Rightarrow> '''' | Some v \<Rightarrow> v)"

definition newline :: char where "newline = CHR 0x0A"

definition ParsePorcelain :: "string \<Rightarrow> string + porcelain_info" where
  "ParsePorcelain output = sum_bind (parseLines (split_on newline (trim_right (\<lambda>c. c = newline) output)) []) (\<lambda>fs.
     if map_of fs keyPorcelain \<noteq> Some PorcelainMarker then Inl ''unsupported porcelain marker''
     else let info = \<lparr>Version = field fs keyVersion, Commit = field fs keyCommit, Date = field fs keyDate,
                      InvenTreeVersion = field fs keyInvenTreeVersion, InvenTreeAPI = field fs keyInvenTreeAPI\<rparr>
          in if Version info = '''' \<or> Commit info = '''' \<or> Date info = ''''
             then Inl ''version output missing required version, commit, or date field'' else Inr info)"

definition VersionOutput :: "porcelain_info \<Rightarrow> string" where
  "VersionOutput b = concat (map (\<lambda>l. l @ [newline]) (PorcelainLines b))"

definition info_ok :: "porcelain_info \<Rightarrow> bool" where
  "info_ok b \<longleftrightarrow> Version b \<noteq> '''' \<and> Commit b \<noteq> '''' \<and> Date b \<noteq> '''' \<and>
     (\<forall>v \<in> {Version b, Commit b, Date b, InvenTreeVersion b, InvenTreeAPI b}. newline \<notin> set v)"

lemma cut2_key: "CHR '':'' \<notin> set k \<Longrightarrow> cut2 (k @ '': '' @ v) = Some (k, v)"
proof (induction k)
  case (Cons a k)
  then show ?case by (cases "k @ '': '' @ v" rule: cut2.cases) (auto split: option.splits)
qed simp

lemma concat_lines: "ls \<noteq> [] \<Longrightarrow> concat (map (\<lambda>l. l @ [c]) ls) = join_on c ls @ [c]"
  by (induction c ls rule: join_on.induct) auto

lemma trim_right_snoc: "(\<not> P x) \<Longrightarrow> P c \<Longrightarrow> trim_right P (xs @ [x] @ [c]) = xs @ [x]"
  by (simp add: trim_right_def)

lemma join_on_last: "ls \<noteq> [] \<Longrightarrow> last ls \<noteq> [] \<Longrightarrow> \<exists>pre. join_on c ls = pre @ [last (last ls)]"
proof (induction c ls rule: join_on.induct)
  case (2 c p)
  then show ?case by (metis append_butlast_last_id join_on.simps(2) last.simps)
next
  case (3 c p q ps)
  then obtain pre where "join_on c (q # ps) = pre @ [last (last (q # ps))]" by auto
  then show ?case by (intro exI[of _ "p @ c # pre"]) simp
qed simp

lemma parseLines_append:
  "parseLines (xs @ ys) fs = sum_bind (parseLines xs fs) (parseLines ys)"
  by (induction xs fs rule: parseLines.induct) (auto split: option.splits)

lemma parse_key_line:
  "CHR '':'' \<notin> set k \<Longrightarrow> k \<noteq> '''' \<Longrightarrow> parseLines ((k @ CHR '':'' # CHR '' '' # v) # ls) fs = parseLines ls (gm_put k v fs)"
  using cut2_key[of k v] by auto

lemma split_VersionOutput:
  assumes "info_ok b"
  shows "split_on newline (trim_right (\<lambda>c. c = newline) (VersionOutput b)) = PorcelainLines b"
proof -
  let ?ls = "PorcelainLines b"
  have no: "\<forall>l\<in>set ?ls. newline \<notin> set l" using assms
    by (auto simp: PorcelainLines_def info_ok_def porcelain_keys PorcelainMarker_def newline_def)
  have ne: "?ls \<noteq> []" by (simp add: PorcelainLines_def)
  have last: "last ?ls \<noteq> []" by (simp add: PorcelainLines_def porcelain_keys)
  obtain pre where pre: "join_on newline ?ls = pre @ [last (last ?ls)]" using join_on_last[OF ne last] by blast
  have "last (last ?ls) \<noteq> newline" using no last ne by (metis last_in_set)
  then have "trim_right (\<lambda>c. c = newline) (VersionOutput b) = join_on newline ?ls"
    unfolding VersionOutput_def concat_lines[OF ne] pre by (simp add: trim_right_def)
  then show ?thesis using split_join[OF ne no] by simp
qed

section \<open>Version and platform policy\<close>

record semver =
  IsValid :: "string \<Rightarrow> bool"
  Canonical :: "string \<Rightarrow> string"
  Prerelease :: "string \<Rightarrow> string"
  Build :: "string \<Rightarrow> string"
  Compare :: "string \<Rightarrow> string \<Rightarrow> int"

definition canonicalStableVersion :: "semver \<Rightarrow> string \<Rightarrow> string + string" where
  "canonicalStableVersion sv raw = (let v = trim_space raw in
     if v = '''' \<or> v = ''dev'' \<or> v = ''unknown'' then Inl ''a released semantic version is required''
     else let v = (if hd v \<noteq> CHR ''v'' then CHR ''v'' # v else v) in
       if \<not> IsValid sv v then Inl ''not semantic version''
       else if Canonical sv v \<noteq> v then Inl ''version must use exact vX.Y.Z form''
       else if Prerelease sv v \<noteq> '''' \<or> Build sv v \<noteq> '''' then Inl ''prerelease and build metadata versions are unsupported''
       else Inr (Canonical sv v))"

definition supportedPlatform :: "string \<Rightarrow> string \<Rightarrow> bool" where
  "supportedPlatform goos goarch = (\<not> ((goos \<noteq> ''linux'' \<and> goos \<noteq> ''darwin'') \<or> (goarch \<noteq> ''amd64'' \<and> goarch \<noteq> ''arm64'')))"

definition binaryName :: string where "binaryName = ''inventree-mcp''"

definition releaseArchiveName :: "string \<Rightarrow> string \<Rightarrow> string" where
  "releaseArchiveName goos goarch =
     binaryName @ ''_'' @ field [(''darwin'', ''Darwin''), (''linux'', ''Linux'')] goos @ ''_'' @
     field [(''amd64'', ''x86_64''), (''arm64'', ''arm64'')] goarch @ ''.tar.gz''"

section \<open>Checksum file\<close>

definition is_hex :: "char \<Rightarrow> bool" where
  "is_hex c = (c \<in> set ''0123456789abcdefABCDEF'')"

definition hex_byte :: "nat \<Rightarrow> string" where
  "hex_byte n = [''0123456789abcdef'' ! (n div 16), ''0123456789abcdef'' ! (n mod 16)]"

definition hex_of :: "string \<Rightarrow> string" where
  "hex_of bs = concat (map (\<lambda>c. hex_byte (of_char c)) bs)"

datatype checksum_error = InvalidLine nat | DuplicateEntry string | InvalidSHA | NoEntry | Mismatch

fun checksumLines :: "string \<Rightarrow> nat \<Rightarrow> string list \<Rightarrow> string list \<Rightarrow> string \<Rightarrow> checksum_error + string" where
  "checksumLines filename n [] seen want = Inr want"
| "checksumLines filename n (raw # rest) seen want =
    (let line = trim_space raw in
     if line = '''' then checksumLines filename (n + 1) rest seen want
     else (case str_fields line of
       [h, f] \<Rightarrow> (let nm = trim_prefix f ''*'' in
         if nm \<in> set seen then Inl (DuplicateEntry nm)
         else if nm = filename then
           (if length h \<noteq> 64 then Inl InvalidSHA
            else if \<not> list_all is_hex h then Inl InvalidSHA
            else checksumLines filename (n + 1) rest (nm # seen) (to_lower h))
         else checksumLines filename (n + 1) rest (nm # seen) want)
     | _ \<Rightarrow> Inl (InvalidLine (n + 1))))"

definition verifyChecksum :: "(string \<Rightarrow> string) \<Rightarrow> string \<Rightarrow> string \<Rightarrow> string \<Rightarrow> checksum_error + unit" where
  "verifyChecksum sha256 filename archive checksumFile =
    sum_bind (checksumLines filename 0 (split_on newline checksumFile) [] '''') (\<lambda>want.
      if want = '''' then Inl NoEntry
      else if hex_of (sha256 archive) \<noteq> want then Inl Mismatch
      else Inr ())"

definition names_entry :: "string \<Rightarrow> string \<Rightarrow> string \<Rightarrow> bool" where
  "names_entry filename h raw \<longleftrightarrow> (\<exists>f. str_fields (trim_space raw) = [h, f] \<and> trim_prefix f ''*'' = filename)"

definition entry_ok :: "string \<Rightarrow> bool" where
  "entry_ok raw \<longleftrightarrow> trim_space raw = '''' \<or> (\<exists>h f. str_fields (trim_space raw) = [h, f])"

lemma two_fields: "(case fs of [h, f] \<Rightarrow> g h f | _ \<Rightarrow> Inl e) = Inr w \<Longrightarrow> \<exists>h f. fs = [h, f] \<and> g h f = Inr w"
  by (auto split: list.splits)

definition no_entry :: "string \<Rightarrow> string list \<Rightarrow> bool" where
  "no_entry filename ls \<longleftrightarrow> (\<forall>l\<in>set ls. \<forall>h. \<not> names_entry filename h l)"

definition unique_entry :: "string \<Rightarrow> string list \<Rightarrow> string \<Rightarrow> bool" where
  "unique_entry filename ls w \<longleftrightarrow> (\<exists>xs l ys h. ls = xs @ l # ys \<and> names_entry filename h l \<and> w = to_lower h \<and>
     length h = 64 \<and> list_all is_hex h \<and> no_entry filename xs \<and> no_entry filename ys)"

lemma no_entry_Cons [simp]: "no_entry f (l # ls) \<longleftrightarrow> (\<forall>h. \<not> names_entry f h l) \<and> no_entry f ls"
  by (simp add: no_entry_def)

lemma no_entry_Nil [simp]: "no_entry f []"
  by (simp add: no_entry_def)

lemma unique_entry_Cons: "unique_entry f ls w \<Longrightarrow> \<forall>h. \<not> names_entry f h l \<Longrightarrow> unique_entry f (l # ls) w"
  unfolding unique_entry_def by (metis append_Cons no_entry_Cons)

lemma unique_entry_here: "names_entry f h l \<Longrightarrow> length h = 64 \<Longrightarrow> list_all is_hex h \<Longrightarrow> no_entry f ls \<Longrightarrow>
    unique_entry f (l # ls) (to_lower h)"
  unfolding unique_entry_def by (metis append_Nil no_entry_Nil)

lemma checksumLines_sound:
  "checksumLines filename n ls seen want = Inr w \<Longrightarrow> list_all entry_ok ls \<and>
    (unique_entry filename ls w \<or> (no_entry filename ls \<and> w = want)) \<and>
    (filename \<in> set seen \<longrightarrow> no_entry filename ls)"
proof (induction ls arbitrary: n seen want)
  case (Cons raw rest)
  show ?case
  proof (cases "trim_space raw = ''''")
    case True
    have none: "\<forall>h. \<not> names_entry filename h raw" using True by (simp add: names_entry_def str_fields_def)
    have ok: "entry_ok raw" using True by (simp add: entry_ok_def)
    have "checksumLines filename (n + 1) rest seen want = Inr w" using Cons.prems True by simp
    from Cons.IH[OF this] show ?thesis using none ok unique_entry_Cons by auto
  next
    case False
    then obtain h f where hf: "str_fields (trim_space raw) = [h, f]"
      using Cons.prems by (auto simp: Let_def dest!: two_fields)
    define nm where "nm = trim_prefix f ''*''"
    have ok: "entry_ok raw" using hf by (simp add: entry_ok_def)
    have nms: "names_entry filename h' raw \<longleftrightarrow> h' = h \<and> nm = filename" for h' using hf by (auto simp: names_entry_def nm_def)
    have fresh: "nm \<notin> set seen" using Cons.prems False hf by (auto simp: Let_def nm_def split: if_splits)
    show ?thesis
    proof (cases "nm = filename")
      case True
      have l: "length h = 64" "list_all is_hex h" and rest: "checksumLines filename (n + 1) rest (nm # seen) (to_lower h) = Inr w"
        using Cons.prems False hf True fresh by (auto simp: Let_def nm_def split: if_splits)
      from Cons.IH[OF rest] have none: "no_entry filename rest" using True by simp
      then have w: "w = to_lower h" using Cons.IH[OF rest] by (auto simp: unique_entry_def no_entry_def)
      have "names_entry filename h raw" using nms True by simp
      then show ?thesis using unique_entry_here[OF _ l none] w True fresh ok Cons.IH[OF rest] by auto
    next
      case neq: False
      have rest: "checksumLines filename (n + 1) rest (nm # seen) want = Inr w"
        using Cons.prems False hf neq fresh by (auto simp: Let_def nm_def split: if_splits)
      have none: "\<forall>h'. \<not> names_entry filename h' raw" using nms neq by simp
      then show ?thesis using Cons.IH[OF rest] ok unique_entry_Cons by auto
    qed
  qed
qed simp

section \<open>Archive layout and redirects\<close>

record tar_entry =
  te_name :: string
  te_regular :: bool
  te_perm :: nat
  te_size :: int
  te_data :: string

text \<open>What the readers find: the entries (None where reading fails), the bytes after the tar end, the
  compressed bytes after the gzip stream.\<close>

record archive_view =
  gz_ok :: bool
  tar_entries :: "tar_entry option list"
  tar_trailing :: string
  gz_trailing :: string

definition extractExecutable :: "archive_view \<Rightarrow> int \<Rightarrow> string + string \<times> nat" where
  "extractExecutable a limit = (if \<not> gz_ok a then Inl ''open release gzip'' else
     (case tar_entries a of
        Some hdr # rest \<Rightarrow>
          if te_name hdr \<noteq> binaryName \<or> \<not> te_regular hdr then Inl ''exactly one regular executable''
          else if and (te_perm hdr) 73 = 0 then Inl ''no execute bits''
          else if te_size hdr < 1 \<or> te_size hdr > limit then Inl ''size exceeds policy''
          else (let binary = take (nat (limit + 1)) (te_data hdr) in
            if int (length binary) \<noteq> te_size hdr \<or> int (length binary) > limit then Inl ''truncated or oversized''
            else if rest \<noteq> [] then Inl ''unexpected or duplicate entries''
            else if take 2 (tar_trailing a) \<noteq> '''' then Inl ''tar contains trailing payload''
            else if gz_trailing a \<noteq> '''' then Inl ''trailing compressed payload''
            else Inr (binary, te_perm hdr))
      | _ \<Rightarrow> Inl ''read release archive''))"

record redirect_request =
  rr_scheme :: string
  rr_host :: string
  rr_user :: bool
  rr_authorization :: bool

definition allowedUpdateHosts :: "string list" where
  "allowedUpdateHosts = [''api.github.com'', ''github.com'', ''release-assets.githubusercontent.com'', ''objects.githubusercontent.com'']"

definition CheckRedirect :: "string list \<Rightarrow> redirect_request \<Rightarrow> nat \<Rightarrow> string + redirect_request" where
  "CheckRedirect extra req via = (if via \<ge> 5 then Inl ''too many redirects''
     else if rr_scheme req \<noteq> ''https'' \<or> rr_host req \<notin> set (allowedUpdateHosts @ extra) \<or> rr_user req then Inl ''redirect to untrusted origin''
     else Inr (if rr_host req \<noteq> ''api.github.com'' then req\<lparr>rr_authorization := False\<rparr> else req))"

section \<open>Properties\<close>

text \<open>The version command's output parses back: ParsePorcelain of the printed lines gives the build's
  version, commit, date and InvenTree baseline, for every build whose fields are nonempty where
  required and contain no newline (dates contain colons).\<close>

theorem porcelain_roundtrip:
  assumes "info_ok b"
  shows "ParsePorcelain (VersionOutput b) = Inr b"
proof -
  have keys: "CHR '':'' \<notin> set keyPorcelain" "CHR '':'' \<notin> set keyVersion" "CHR '':'' \<notin> set keyCommit" "CHR '':'' \<notin> set keyDate"
    "CHR '':'' \<notin> set keyInvenTreeVersion" "CHR '':'' \<notin> set keyInvenTreeAPI"
    "keyPorcelain \<noteq> ''''" "keyVersion \<noteq> ''''" "keyCommit \<noteq> ''''" "keyDate \<noteq> ''''" "keyInvenTreeVersion \<noteq> ''''" "keyInvenTreeAPI \<noteq> ''''"
    by (simp_all add: porcelain_keys)
  define fs4 where "fs4 = gm_put keyDate (Date b) (gm_put keyCommit (Commit b) (gm_put keyVersion (Version b) (gm_put keyPorcelain PorcelainMarker [])))"
  define fs5 where "fs5 = (if InvenTreeVersion b \<noteq> '''' then gm_put keyInvenTreeVersion (InvenTreeVersion b) fs4 else fs4)"
  define fs6 where "fs6 = (if InvenTreeAPI b \<noteq> '''' then gm_put keyInvenTreeAPI (InvenTreeAPI b) fs5 else fs5)"
  have "parseLines (PorcelainLines b) [] = Inr fs6"
    unfolding PorcelainLines_def append_Cons append_Nil
    by (simp add: parse_key_line keys fs4_def fs5_def fs6_def del: parseLines.simps(2))
  moreover have "map_of fs6 keyPorcelain = Some PorcelainMarker" "field fs6 keyVersion = Version b" "field fs6 keyCommit = Commit b"
    "field fs6 keyDate = Date b" "field fs6 keyInvenTreeVersion = InvenTreeVersion b" "field fs6 keyInvenTreeAPI = InvenTreeAPI b"
    by (simp_all add: field_def fs6_def fs5_def fs4_def porcelain_keys)
  ultimately show ?thesis using assms unfolding ParsePorcelain_def split_VersionOutput[OF assms]
    by (simp add: info_ok_def)
qed

theorem porcelain_roundtrip_witness:
  "ParsePorcelain (VersionOutput \<lparr>Version = ''v1.2.3'', Commit = ''abc'', Date = ''2026-01-02T03:04:05Z'', InvenTreeVersion = '''', InvenTreeAPI = ''480''\<rparr>)
   = Inr \<lparr>Version = ''v1.2.3'', Commit = ''abc'', Date = ''2026-01-02T03:04:05Z'', InvenTreeVersion = '''', InvenTreeAPI = ''480''\<rparr>"
  by (rule porcelain_roundtrip) (simp add: info_ok_def newline_def)

text \<open>An archive passes the checksum step only if every nonblank line of the checksum file has two
  fields, exactly one line names the archive, its digest is 64 hex digits, and that digest (in
  lower case) is the hex SHA-256 of the archive downloaded.\<close>

theorem checksum_sound:
  assumes "verifyChecksum sha256 filename archive file = Inr ()"
  shows "list_all entry_ok (split_on newline file) \<and> unique_entry filename (split_on newline file) (hex_of (sha256 archive))"
proof -
  obtain want where w: "checksumLines filename 0 (split_on newline file) [] '''' = Inr want" "want \<noteq> ''''" "hex_of (sha256 archive) = want"
    using assms by (auto simp: verifyChecksum_def sum_bind_Inr split: if_splits)
  from checksumLines_sound[OF w(1)] show ?thesis using w(2,3) by auto
qed

definition demo_digest :: string where
  "demo_digest = replicate 64 CHR ''a''"

theorem checksum_sound_witness:
  "unique_entry ''f'' (split_on newline (demo_digest @ ''  *f'')) (hex_of (replicate 32 (char_of (170 :: nat))))"
proof -
  have "verifyChecksum (\<lambda>_. replicate 32 (char_of (170 :: nat))) ''f'' ''data'' (demo_digest @ ''  *f'') = Inr ()" by code_simp
  from checksum_sound[OF this] show ?thesis by blast
qed

end
