(* ===== verification/Update_Install.thy ===== *)
theory Update_Install
  imports Update_FS Release
begin

text \<open>
  The installer of internal/selfupdate (install.go, ownership_unix.go, lock_unix.go's file checks):
  staging, the update transaction, replacement of the executable, rollback and recovery, as
  programs over the operating system of Update_FS. The JSON codec of the transaction record and the
  runner that executes the binary are arguments. File locks, timeouts and the injection seams of the
  tests (SyncDirectory and the like) take their production values.
\<close>

section \<open>Data\<close>

record command =
  Path :: string
  Args :: "string list"
  CmdDir :: string
  Env :: "string list"
  OutputLimit :: int

record transaction =
  BackupPath :: string
  CandidatePath :: string
  PreviousCandidate :: string
  PreviousBackupPath :: string
  PreviousMode :: nat
  Mode :: nat
  TargetVersion :: string
  Committed :: bool

record install_env =
  en_uid :: nat
  en_euid :: nat
  en_gid :: nat
  en_egid :: nat
  en_goos :: string
  en_encode :: "transaction \<Rightarrow> string"
  en_decode :: "string \<Rightarrow> transaction option"
  en_run :: "command \<Rightarrow> file_system \<Rightarrow> string + string"
  en_semver :: semver

record install_request =
  Executable :: string
  Binary :: string
  rq_TargetVersion :: string
  rq_OutputLimit :: int

record install_result =
  PreviousPath :: string
  Candidate :: porcelain_info

record bounded_buffer =
  buffer :: string
  limit :: int
  exceeded :: bool

text \<open>boundedBuffer.Write: the bytes accepted and whether an error is returned.\<close>

definition bounded_write :: "string \<Rightarrow> bounded_buffer \<Rightarrow> (int \<times> bool) \<times> bounded_buffer" where
  "bounded_write data w = (let remaining = limit w - int (length (buffer w)) in
     if remaining \<le> 0 then ((0, True), w\<lparr>exceeded := True\<rparr>)
     else if int (length data) > remaining
     then ((remaining, True), w\<lparr>exceeded := True, buffer := buffer w @ take (nat remaining) data\<rparr>)
     else ((int (length data), False), w\<lparr>buffer := buffer w @ data\<rparr>))"

text \<open>runCommand over the chunks the process writes, whether its deadline passed, and how it exits.\<close>

definition runCommand :: "int \<Rightarrow> string list \<Rightarrow> bool \<Rightarrow> string option \<Rightarrow> string \<times> string option" where
  "runCommand lim chunks timed_out exit_error =
    (let b = fold (\<lambda>d b. snd (bounded_write d b)) chunks \<lparr>buffer = '''', limit = lim, exceeded = False\<rparr> in
     (buffer b, if exceeded b then Some ''process output exceeds limit''
       else if timed_out then Some ''command timed out''
       else exit_error))"

section \<open>Ownership checks\<close>

definition exec_bits :: nat where "exec_bits = 73"
definition group_other_write :: nat where "group_other_write = 18"

definition validateOwnedRegular :: "install_env \<Rightarrow> string \<Rightarrow> bool \<Rightarrow> file_system \<Rightarrow> up_error + unit" where
  "validateOwnedRegular en path executable f = (if en_uid en \<noteq> en_euid en \<or> en_gid en \<noteq> en_egid en
     then Inl (ErrText ''real and effective credentials differ'')
     else sum_bind (Lstat path f) (\<lambda>info.
       if f_kind info \<noteq> Regular then Inl (ErrText ''not a regular non-symlink file'')
       else if f_uid info \<noteq> en_euid en then Inl (ErrText ''owner UID does not match effective UID'')
       else if f_nlink info \<noteq> 1 then Inl (ErrText ''hardlink count'')
       else if f_special info then Inl (ErrText ''special permission bits are unsupported'')
       else if executable \<and> and (f_perm info) exec_bits = 0 then Inl (ErrText ''file is not executable'')
       else if executable \<and> and (f_perm info) group_other_write \<noteq> 0 then Inl (ErrText ''executable is group- or world-writable'')
       else Inr ()))"

function validateTrustedAncestorChain :: "install_env \<Rightarrow> string \<Rightarrow> file_system \<Rightarrow> up_error + unit" where
  "validateTrustedAncestorChain en current f = sum_bind (Lstat current f) (\<lambda>info.
     if f_kind info \<noteq> Directory then Inl (ErrText ''ancestor is not a non-symlink directory'')
     else if f_uid info \<noteq> en_euid en \<and> f_uid info \<noteq> 0 then Inl (ErrText ''ancestor is owned by untrusted UID'')
     else if and (f_perm info) group_other_write \<noteq> 0 \<and> \<not> (f_uid info = 0 \<and> f_special info)
     then Inl (ErrText ''ancestor is group- or world-writable'')
     else if path_dir current = current then Inr ()
     else validateTrustedAncestorChain en (path_dir current) f)"
  by pat_completeness auto
termination
  by (relation "measure (\<lambda>(en, p, f). path_size p)") (auto simp: path_dir_smaller)

declare validateTrustedAncestorChain.simps [simp del]

definition validateOwnedDirectory :: "install_env \<Rightarrow> string \<Rightarrow> file_system \<Rightarrow> up_error + unit" where
  "validateOwnedDirectory en path f = sum_bind (Lstat path f) (\<lambda>info.
     if f_kind info \<noteq> Directory then Inl (ErrText ''not a non-symlink directory'')
     else if f_uid info \<noteq> en_euid en then Inl (ErrText ''directory owner UID does not match effective UID'')
     else if and (f_perm info) group_other_write \<noteq> 0 then Inl (ErrText ''directory is group- or world-writable'')
     else Inr ())"

definition validateInstallTarget :: "install_env \<Rightarrow> string \<Rightarrow> string \<Rightarrow> file_system \<Rightarrow> up_error + unit" where
  "validateInstallTarget en executable goos f = (let clean = path_clean executable in
     if goos = ''windows'' then Inl (ErrText ''unsupported platform'')
     else if goos = ''linux'' \<and> clean = ''/usr/bin/'' @ binaryName then Inl (ErrText ''package-managed installation'')
     else if goos = ''darwin'' \<and> (has_prefix clean ''/opt/homebrew/'' \<or> contains_sub clean ''/Cellar/'')
     then Inl (ErrText ''package-managed installation'')
     else (case validateOwnedRegular en clean True f of Inl e \<Rightarrow> Inl (ErrText ''unsafe update target: executable'')
       | Inr _ \<Rightarrow> (case validateOwnedDirectory en (path_dir clean) f of Inl e \<Rightarrow> Inl (ErrText ''unsafe update target: executable directory'')
         | Inr _ \<Rightarrow> (case validateTrustedAncestorChain en (path_dir clean) f of
             Inl e \<Rightarrow> Inl (ErrText ''unsafe update target: executable ancestor chain'')
           | Inr _ \<Rightarrow> Inr ()))))"

definition validateExistingPrevious :: "install_env \<Rightarrow> string \<Rightarrow> file_system \<Rightarrow> up_error + unit" where
  "validateExistingPrevious en path f = (case validateOwnedRegular en path True f of
     Inl e \<Rightarrow> (if is_not_exist e then Inr () else Inl (Wrap ''unsafe existing previous executable'' e))
   | Inr _ \<Rightarrow> Inr ())"

definition validatedTransactionMode :: "nat \<Rightarrow> up_error + nat" where
  "validatedTransactionMode raw = (if raw \<noteq> and raw 511 \<or> and raw exec_bits = 0 \<or> and raw group_other_write \<noteq> 0
     then Inl (ErrText ''unsafe rollback executable mode'') else Inr raw)"

section \<open>Direct-install marker\<close>

definition directInstallMarkerPath :: "string \<Rightarrow> string" where
  "directInstallMarkerPath executable = executable @ ''.direct-install''"

definition directInstallMarkerContent :: "string \<Rightarrow> string" where
  "directInstallMarkerContent executable = ''inventree-mcp-direct-install-v1'' @ [newline] @
     ''repository=davidvanlaatum/inventree-mcp'' @ [newline] @ ''executable='' @ path_clean executable @ [newline]"

definition syncDirectory :: "string \<Rightarrow> (up_error, unit) io" where
  "syncDirectory path = tryio sync_call throw (\<lambda>_.
     tryio sync_call (\<lambda>e. tryio sync_call (\<lambda>e'. throw (Joined e e')) (\<lambda>_. throw e)) (\<lambda>_. sync_call))"

definition validateDirectInstallMarker :: "install_env \<Rightarrow> string \<Rightarrow> (up_error, unit) io" where
  "validateDirectInstallMarker en executable = (let path = directInstallMarkerPath executable in
     ck ''direct-archive installation marker is missing or unsafe'' (lift (validateOwnedRegular en path False)) (\<lambda>_.
     tryio (lift (Lstat path)) throw (\<lambda>info.
     if f_perm info \<noteq> 384 \<or> length (f_data info) > 4096 then throw (ErrText ''marker has unsafe permissions or size'')
     else tryio (open_file path) throw (\<lambda>i.
     if f_data i \<noteq> directInstallMarkerContent executable then throw (ErrText ''marker does not match this executable path and repository'')
     else ret ()))))"

definition adoptDirectInstall :: "install_env \<Rightarrow> string \<Rightarrow> (up_error, unit) io" where
  "adoptDirectInstall en executable = (let path = directInstallMarkerPath executable in
     tryio (validateDirectInstallMarker en executable)
       (\<lambda>err. tryio (lift (Lstat path))
         (\<lambda>stat_err. if \<not> is_not_exist stat_err then throw stat_err
           else ck ''create direct-install marker'' (createExclusive path) (\<lambda>_.
             tryio (write_file path (directInstallMarkerContent executable))
               (\<lambda>e. ignoring sync_call (ignoring (remove path) (throw (Wrap ''write direct-install marker'' e)))) (\<lambda>_.
             tryio sync_call (\<lambda>e. ignoring sync_call (ignoring (remove path) (throw (Wrap ''sync direct-install marker'' e)))) (\<lambda>_.
             tryio sync_call (\<lambda>e. ignoring (remove path) (throw (Wrap ''close direct-install marker'' e))) (\<lambda>_.
             tryio (syncDirectory (path_dir executable))
               (\<lambda>e. ignoring (remove path) (throw (Wrap ''sync direct-install marker directory'' e))) (\<lambda>_.
             validateDirectInstallMarker en executable))))))
         (\<lambda>_. throw err))
       (\<lambda>_. ret ()))"

section \<open>Cloning and version probing\<close>

definition cloneToTemp :: "string \<Rightarrow> string \<Rightarrow> string \<Rightarrow> nat \<Rightarrow> (up_error, string) io" where
  "cloneToTemp source dir pre mode0 =
    tryio (open_file source) throw (\<lambda>input.
    let mode = (if mode0 = 0 then f_perm input else mode0) in
    tryio (createTemp dir pre) throw (\<lambda>path.
    let failing = (\<lambda>e. ignoring (remove path) (throw e)) in
    tryio (chmod path 384) failing (\<lambda>_.
    tryio (write_file path (f_data input)) failing (\<lambda>_.
    tryio (chmod path mode) failing (\<lambda>_.
    tryio sync_call failing (\<lambda>_.
    tryio sync_call failing (\<lambda>_.
    ret path)))))))"

definition requireVersion :: "install_env \<Rightarrow> string \<Rightarrow> string \<Rightarrow> string \<Rightarrow> int \<Rightarrow> file_system \<Rightarrow> up_error + porcelain_info" where
  "requireVersion en executable dir want outputLimit f =
    (case en_run en \<lparr>Path = executable, Args = [''version'', ''--porcelain'', PorcelainMarker], CmdDir = dir,
        Env = [''LANG=C'', ''LC_ALL=C'', ''PATH=/usr/bin:/bin''], OutputLimit = outputLimit\<rparr> f of
      Inl e \<Rightarrow> Inl (ErrText e)
    | Inr out \<Rightarrow> (case ParsePorcelain out of
        Inl e \<Rightarrow> Inl (Wrap ''malformed version output'' (ErrText e))
      | Inr info \<Rightarrow> (case canonicalStableVersion (en_semver en) (Version info) of
          Inl e \<Rightarrow> Inl (ErrText e)
        | Inr got \<Rightarrow> if got \<noteq> want then Inl (ErrText ''version mismatch'') else Inr info)))"

section \<open>The transaction record\<close>

definition transactionPath :: "string \<Rightarrow> string" where
  "transactionPath executable = executable @ ''.self-update.transaction''"

definition previousPath :: "string \<Rightarrow> string" where
  "previousPath executable = executable @ ''.previous''"

definition publishTransaction :: "install_env \<Rightarrow> string \<Rightarrow> transaction \<Rightarrow> (up_error, unit) io" where
  "publishTransaction en executable txn =
    ck ''create update transaction'' (createTemp (path_dir executable) (''.'' @ binaryName @ ''-transaction-'')) (\<lambda>tempPath.
    deferred
      (tryio (chmod tempPath 384) (\<lambda>e. ignoring sync_call (throw (Wrap ''protect update transaction'' e))) (\<lambda>_.
       tryio (write_file tempPath (en_encode en txn)) (\<lambda>e. ignoring sync_call (throw (Wrap ''write update transaction'' e))) (\<lambda>_.
       tryio sync_call (\<lambda>e. ignoring sync_call (throw (Wrap ''sync update transaction'' e))) (\<lambda>_.
       ck ''close update transaction'' sync_call (\<lambda>_.
       ck ''publish update transaction'' (rename tempPath (transactionPath executable)) (\<lambda>_.
       tryio (syncDirectory (path_dir executable)) (\<lambda>e. throw (PublishError e)) ret))))))
      (remove tempPath))"

definition writeTransaction :: "install_env \<Rightarrow> string \<Rightarrow> transaction \<Rightarrow> (up_error, unit) io" where
  "writeTransaction en executable txn =
    tryio (lift (Lstat (transactionPath executable)))
      (\<lambda>e. if \<not> is_not_exist e then throw (Wrap ''inspect update transaction'' e)
           else publishTransaction en executable txn)
      (\<lambda>_. throw (ErrText ''create update transaction: file already exists''))"

definition replaceTransaction :: "install_env \<Rightarrow> string \<Rightarrow> transaction \<Rightarrow> (up_error, unit) io" where
  "replaceTransaction en executable txn = publishTransaction en executable txn"

section \<open>Cleanup, rollback and recovery\<close>

fun cleanupArtifacts :: "install_env \<Rightarrow> string list \<Rightarrow> (up_error, unit) io" where
  "cleanupArtifacts en [] = ret ()"
| "cleanupArtifacts en (artifact # rest) =
    (if artifact = '''' then cleanupArtifacts en rest
     else tryio (lift (validateOwnedRegular en artifact False))
       (\<lambda>e. if is_not_exist e then cleanupArtifacts en rest else throw (Wrap ''unsafe committed cleanup artifact'' e))
       (\<lambda>_. tryio (remove artifact)
         (\<lambda>e. if is_not_exist e then cleanupArtifacts en rest else throw (Wrap ''remove committed cleanup artifact'' e))
         (\<lambda>_. cleanupArtifacts en rest)))"

definition cleanupCommittedTransaction :: "install_env \<Rightarrow> string \<Rightarrow> transaction \<Rightarrow> (up_error, unit) io" where
  "cleanupCommittedTransaction en executable txn = (let dir = path_dir executable in
    tryio (cleanupArtifacts en [BackupPath txn, CandidatePath txn, PreviousCandidate txn, PreviousBackupPath txn]) throw (\<lambda>_.
    ck ''sync committed artifact cleanup'' (syncDirectory dir) (\<lambda>_.
    let rest = tryio (syncDirectory dir)
        (\<lambda>e. tryio (replaceTransaction en executable txn)
          (\<lambda>e'. throw (Joined (Wrap ''sync committed transaction removal'' e) e'))
          (\<lambda>_. throw (Wrap ''sync committed transaction removal'' e)))
        ret in
    tryio (remove (transactionPath executable))
      (\<lambda>e. if is_not_exist e then rest else throw (Wrap ''remove committed transaction'' e))
      (\<lambda>_. rest))))"

definition join_cause :: "up_error option \<Rightarrow> up_error \<Rightarrow> up_error" where
  "join_cause cause e = (case cause of None \<Rightarrow> e | Some c \<Rightarrow> Joined c e)"

definition return_cause :: "up_error option \<Rightarrow> (up_error, unit) io" where
  "return_cause cause = (case cause of None \<Rightarrow> ret () | Some c \<Rightarrow> throw c)"

definition finishRollback :: "install_env \<Rightarrow> string \<Rightarrow> transaction \<Rightarrow> up_error option \<Rightarrow> (up_error, unit) io" where
  "finishRollback en executable txn cause =
    ignoring (remove (CandidatePath txn)) (
    ignoring (remove (PreviousCandidate txn)) (
    tryio (syncDirectory (path_dir executable)) (\<lambda>e. throw (join_cause cause (Wrap ''sync restored rollback state'' e))) (\<lambda>_.
    let txn = txn\<lparr>Committed := True\<rparr> in
    tryio (replaceTransaction en executable txn)
      (\<lambda>e. if is_publish_error e then return_cause cause
           else throw (join_cause cause (Wrap ''commit rollback cleanup state'' e))) (\<lambda>_.
    tryio (cleanupCommittedTransaction en executable txn)
      (\<lambda>e. throw (join_cause cause (Wrap ''clean completed rollback artifacts'' e))) (\<lambda>_.
    return_cause cause)))))"

definition restorePrevious :: "install_env \<Rightarrow> string \<Rightarrow> transaction \<Rightarrow> up_error option \<Rightarrow> (up_error, unit) io" where
  "restorePrevious en executable txn cause = (let prev = previousPath executable; dir = path_dir executable in
    if PreviousBackupPath txn = ''''
    then tryio (remove prev)
      (\<lambda>e. if is_not_exist e then finishRollback en executable txn cause
           else throw (join_cause cause (Wrap ''remove newly published previous executable'' e)))
      (\<lambda>_. finishRollback en executable txn cause)
    else
      tryio (lift (validateOwnedRegular en (PreviousBackupPath txn) False))
        (\<lambda>e. throw (join_cause cause (Wrap ''validate previous executable rollback'' e))) (\<lambda>_.
      case validatedTransactionMode (PreviousMode txn) of
        Inl e \<Rightarrow> throw (join_cause cause (Wrap ''validate prior previous executable mode'' e))
      | Inr previousMode \<Rightarrow>
          tryio (cloneToTemp (PreviousBackupPath txn) dir (''.'' @ binaryName @ ''-previous-restore-'') previousMode)
            (\<lambda>e. throw (join_cause cause (Wrap ''prepare prior previous executable rollback'' e))) (\<lambda>previousRestore.
          deferred
            (tryio (rename previousRestore prev)
              (\<lambda>e. throw (join_cause cause (Wrap ''restore prior previous executable'' e)))
              (\<lambda>_. finishRollback en executable txn cause))
            (remove previousRestore))))"

definition rollbackTransaction :: "install_env \<Rightarrow> string \<Rightarrow> transaction \<Rightarrow> up_error option \<Rightarrow> (up_error, unit) io" where
  "rollbackTransaction en executable txn cause = (case validatedTransactionMode (Mode txn) of
     Inl e \<Rightarrow> throw (join_cause cause e)
   | Inr mode \<Rightarrow>
       tryio (cloneToTemp (BackupPath txn) (path_dir executable) (''.'' @ binaryName @ ''-restore-'') mode)
         (\<lambda>e. throw (join_cause cause (Wrap ''prepare executable rollback'' e))) (\<lambda>restoreCandidate.
       deferred
         (tryio (rename restoreCandidate executable)
           (\<lambda>e. throw (join_cause cause (Wrap ''restore previous executable'' e)))
           (\<lambda>_. restorePrevious en executable txn cause))
         (remove restoreCandidate)))"

definition recoverInterruptedUpdate :: "install_env \<Rightarrow> string \<Rightarrow> (up_error, bool) io" where
  "recoverInterruptedUpdate en executable = (let path = transactionPath executable; dir = path_dir executable in
    tryio (lift (validateOwnedRegular en path False))
      (\<lambda>e. if is_not_exist e then ret False else throw (Wrap ''unsafe transaction file'' e)) (\<lambda>_.
    tryio (lift (Lstat path)) throw (\<lambda>info.
    if length (f_data info) > 65536 then throw (ErrText ''transaction file exceeds size policy'')
    else tryio (open_file path) throw (\<lambda>file.
    case en_decode en (f_data file) of
      None \<Rightarrow> throw (ErrText ''decode transaction'')
    | Some txn \<Rightarrow>
      if \<not> list_all (\<lambda>a. path_dir a = dir) [BackupPath txn, CandidatePath txn, PreviousCandidate txn]
      then throw (ErrText ''transaction paths leave executable directory'')
      else if PreviousBackupPath txn \<noteq> '''' \<and> path_dir (PreviousBackupPath txn) \<noteq> dir
      then throw (ErrText ''transaction paths leave executable directory'')
      else if Committed txn
      then tryio (cleanupCommittedTransaction en executable txn) throw (\<lambda>_. ret False)
      else ck ''unsafe rollback file'' (lift (validateOwnedRegular en (BackupPath txn) False)) (\<lambda>_.
        tryio (rollbackTransaction en executable txn None) throw (\<lambda>_. ret True))))))"

section \<open>Installing a verified binary\<close>

text \<open>The closure variable transactionOwnsArtifacts travels with every return: a deferred artifact
  removal runs unless the transaction owns the artifacts when the function returns.\<close>

type_synonym 'a owning_io = "(bool \<times> up_error, bool \<times> 'a) io"

definition ckO :: "bool \<Rightarrow> string \<Rightarrow> (up_error, 'a) io \<Rightarrow> ('a \<Rightarrow> 'b owning_io) \<Rightarrow> 'b owning_io" where
  "ckO owns s m k = tryio m (\<lambda>e. throw (owns, Wrap s e)) k"

definition defer_artifact :: "string \<Rightarrow> 'a owning_io \<Rightarrow> 'a owning_io" where
  "defer_artifact path m = tryio m
     (\<lambda>(owns, e). if owns then throw (owns, e) else ignoring (remove path) (throw (owns, e)))
     (\<lambda>(owns, x). if owns then ret (owns, x) else ignoring (remove path) (ret (owns, x)))"

definition empty_result :: install_result where
  "empty_result = \<lparr>PreviousPath = '''', Candidate = \<lparr>Version = '''', Commit = '''', Date = '''', InvenTreeVersion = '''', InvenTreeAPI = ''''\<rparr>\<rparr>"

definition rolling_back :: "install_env \<Rightarrow> install_request \<Rightarrow> transaction \<Rightarrow> string \<Rightarrow> (up_error, 'a) io \<Rightarrow>
    ('a \<Rightarrow> install_result owning_io) \<Rightarrow> install_result owning_io" where
  "rolling_back en rq txn s m k = tryio m
     (\<lambda>e. tryio (rollbackTransaction en (Executable rq) txn (Some (Wrap s e))) (\<lambda>e. throw (True, e))
       (\<lambda>_. ret (True, empty_result))) k"

definition commitInstall :: "install_env \<Rightarrow> install_request \<Rightarrow> transaction \<Rightarrow> porcelain_info \<Rightarrow> install_result owning_io" where
  "commitInstall en rq txn0 info = (let exe = Executable rq; txn = txn0\<lparr>Committed := True\<rparr>;
      result = \<lparr>PreviousPath = previousPath exe, Candidate = info\<rparr> in
    tryio (replaceTransaction en exe txn)
      (\<lambda>e. if is_publish_error e then ret (True, result)
           else tryio (rollbackTransaction en exe txn (Some (Wrap ''commit update transaction'' e))) (\<lambda>e. throw (True, e))
             (\<lambda>_. ret (True, empty_result)))
      (\<lambda>_. tryio (cleanupCommittedTransaction en exe txn) (\<lambda>_. ret (True, result)) (\<lambda>_. ret (False, result))))"

definition activateInstall :: "install_env \<Rightarrow> install_request \<Rightarrow> transaction \<Rightarrow> porcelain_info \<Rightarrow> install_result owning_io" where
  "activateInstall en rq txn info = (let exe = Executable rq; dir = path_dir exe; prev = previousPath exe in
    rolling_back en rq txn ''atomically replace executable'' (rename (CandidatePath txn) exe) (\<lambda>_.
    rolling_back en rq txn ''sync executable directory'' (syncDirectory dir) (\<lambda>_.
    rolling_back en rq txn ''validate installed executable''
      (lift (requireVersion en exe dir (rq_TargetVersion rq) (rq_OutputLimit rq))) (\<lambda>_.
    rolling_back en rq txn ''set previous executable mode'' (chmod (BackupPath txn) (Mode txn)) (\<lambda>_.
    rolling_back en rq txn ''set previous candidate mode'' (chmod (PreviousCandidate txn) (Mode txn)) (\<lambda>_.
    rolling_back en rq txn ''publish previous executable'' (rename (PreviousCandidate txn) prev) (\<lambda>_.
    rolling_back en rq txn ''sync previous executable'' (syncDirectory dir) (\<lambda>_.
    commitInstall en rq txn info))))))))"

definition same_target :: "inode \<Rightarrow> inode \<Rightarrow> bool" where
  "same_target info now \<longleftrightarrow> SameFile info now \<and> file_mode info = file_mode now \<and> length (f_data info) = length (f_data now)"

definition beginTransaction :: "install_env \<Rightarrow> install_request \<Rightarrow> inode \<Rightarrow> string \<Rightarrow> porcelain_info \<Rightarrow> string \<Rightarrow> string \<Rightarrow> nat \<Rightarrow> string \<Rightarrow>
    install_result owning_io" where
  "beginTransaction en rq info candidatePath candidateInfo backupPath previousBackupPath previousMode previousCandidate =
    ckO False ''final target validation'' (lift (Lstat (Executable rq))) (\<lambda>finalInfo.
    if \<not> same_target info finalInfo then throw (False, ErrText ''target changed before atomic replacement'')
    else ckO False ''set installed mode on candidate'' (chmod candidatePath (f_perm info)) (\<lambda>_.
    let txn = \<lparr>BackupPath = backupPath, CandidatePath = candidatePath, PreviousCandidate = previousCandidate,
      PreviousBackupPath = previousBackupPath, PreviousMode = previousMode, Mode = f_perm info,
      TargetVersion = rq_TargetVersion rq, Committed = False\<rparr> in
    tryio (writeTransaction en (Executable rq) txn)
      (\<lambda>e. tryio (lift (Lstat (transactionPath (Executable rq)))) (\<lambda>_. throw (False, e)) (\<lambda>_. throw (True, e)))
      (\<lambda>_. activateInstall en rq txn candidateInfo)))"

definition preparePrevious :: "install_env \<Rightarrow> install_request \<Rightarrow> inode \<Rightarrow> string \<Rightarrow> porcelain_info \<Rightarrow> string \<Rightarrow> string \<Rightarrow> nat \<Rightarrow>
    install_result owning_io" where
  "preparePrevious en rq info candidatePath candidateInfo backupPath previousBackupPath previousMode =
    ckO False ''prepare previous executable''
      (cloneToTemp backupPath (path_dir (Executable rq)) (''.'' @ binaryName @ ''-previous-candidate-'') 384) (\<lambda>previousCandidate.
    defer_artifact previousCandidate
      (beginTransaction en rq info candidatePath candidateInfo backupPath previousBackupPath previousMode previousCandidate))"

definition backupInstalled :: "install_env \<Rightarrow> install_request \<Rightarrow> inode \<Rightarrow> string \<Rightarrow> porcelain_info \<Rightarrow> string \<Rightarrow> install_result owning_io" where
  "backupInstalled en rq info candidatePath candidateInfo backupPath = (let exe = Executable rq; prev = previousPath exe in
    ckO False ''protect rollback file'' (chmod backupPath 384) (\<lambda>_.
    ckO False ''open installed executable for backup'' (open_file exe) (\<lambda>opened.
    tryio (write_file backupPath (f_data opened))
      (\<lambda>e. ignoring sync_call (throw (False, Wrap ''copy installed executable to rollback file'' e))) (\<lambda>_.
    ckO False ''close installed executable backup source'' sync_call (\<lambda>_.
    if \<not> SameFile info opened then throw (False, ErrText ''target changed while creating rollback file'')
    else ckO False ''sync rollback file'' sync_call (\<lambda>_.
    ckO False ''close rollback file'' sync_call (\<lambda>_.
    ckO False '''' (lift (validateExistingPrevious en prev)) (\<lambda>_.
    tryio (lift (Lstat prev))
      (\<lambda>e. if \<not> is_not_exist e then throw (False, e)
           else preparePrevious en rq info candidatePath candidateInfo backupPath '''' 0)
      (\<lambda>previousInfo.
        ckO False ''preserve existing previous executable''
          (cloneToTemp prev (path_dir exe) (''.'' @ binaryName @ ''-previous-backup-'') 384) (\<lambda>previousBackupPath.
        defer_artifact previousBackupPath
          (preparePrevious en rq info candidatePath candidateInfo backupPath previousBackupPath (f_perm previousInfo))))))))))))"

definition stageCandidate :: "install_env \<Rightarrow> install_request \<Rightarrow> inode \<Rightarrow> string \<Rightarrow> install_result owning_io" where
  "stageCandidate en rq info candidatePath = (let exe = Executable rq; dir = path_dir exe in
    ckO False ''protect update staging file'' (chmod candidatePath 448) (\<lambda>_.
    ckO False ''write update staging file'' (write_file candidatePath (Binary rq)) (\<lambda>_.
    ckO False ''sync update staging file'' sync_call (\<lambda>_.
    ckO False ''close update staging file'' sync_call (\<lambda>_.
    ckO False ''validate staged executable''
      (lift (requireVersion en candidatePath dir (rq_TargetVersion rq) (rq_OutputLimit rq))) (\<lambda>candidateInfo.
    ckO False ''target changed before replacement'' (lift (validateInstallTarget en exe (en_goos en))) (\<lambda>_.
    ckO False ''re-stat target before replacement'' (lift (Lstat exe)) (\<lambda>currentInfo.
    if \<not> same_target info currentInfo then throw (False, ErrText ''target identity, mode, or size changed before replacement'')
    else ckO False ''create rollback file'' (createTemp dir (''.'' @ binaryName @ ''-rollback-'')) (\<lambda>backupPath.
    defer_artifact backupPath (backupInstalled en rq info candidatePath candidateInfo backupPath))))))))))"

definition installVerified :: "install_env \<Rightarrow> install_request \<Rightarrow> (up_error, install_result) io" where
  "installVerified en rq = (let exe = Executable rq in
    tryio
      (ckO False '''' (lift (validateInstallTarget en exe (en_goos en))) (\<lambda>_.
       ckO False ''stat installed executable'' (lift (Lstat exe)) (\<lambda>info.
       ckO False ''create update staging file'' (createTemp (path_dir exe) (''.'' @ binaryName @ ''-update-'')) (\<lambda>candidatePath.
       defer_artifact candidatePath (stageCandidate en rq info candidatePath)))))
      (\<lambda>(_, e). throw e) (\<lambda>(_, r). ret r))"

end
