(* ===== verification/Update_Safety.thy ===== *)
theory Update_Safety
  imports Update_Install
begin

text \<open>
  Crash safety of the self-updater. An episode fixes what was installed before (program, mode, the
  prior .previous file) and the new binary; \<open>pending\<close> is the state of an uncommitted transaction from
  which the old program can be restored, \<open>finishing\<close> that of a committed one whose cleanup remains.
  The triples show that every outcome of every step, kills and failing calls included, stays within
  these states.
\<close>

section \<open>States of an update\<close>

record episode =
  old_data :: string
  old_mode :: nat
  prior :: "(string \<times> nat) option"
  new_data :: string

definition ok_mode :: "nat \<Rightarrow> bool" where
  "ok_mode m \<longleftrightarrow> and m 511 = m \<and> and m exec_bits \<noteq> 0 \<and> and m group_other_write = 0"

definition ok_episode :: "episode \<Rightarrow> bool" where
  "ok_episode ep \<longleftrightarrow> ok_mode (old_mode ep) \<and> (case prior ep of None \<Rightarrow> True | Some (d, m) \<Rightarrow> ok_mode m)"

definition prog :: "nat \<Rightarrow> string \<Rightarrow> nat \<Rightarrow> inode option \<Rightarrow> bool" where
  "prog u d m v \<longleftrightarrow> (\<exists>i. v = Some i \<and> plain_file u i \<and> f_data i = d \<and> f_perm i = m)"

definition holds_data :: "nat \<Rightarrow> string \<Rightarrow> inode option \<Rightarrow> bool" where
  "holds_data u d v \<longleftrightarrow> (\<exists>i. v = Some i \<and> plain_file u i \<and> f_data i = d)"

definition plainish :: "nat \<Rightarrow> inode option \<Rightarrow> bool" where
  "plainish u v \<longleftrightarrow> (\<forall>i. v = Some i \<longrightarrow> plain_file u i)"

definition at_old :: "nat \<Rightarrow> episode \<Rightarrow> string \<Rightarrow> file_system \<Rightarrow> bool" where
  "at_old u ep exe f \<longleftrightarrow> prog u (old_data ep) (old_mode ep) (f exe) \<and>
     (case prior ep of None \<Rightarrow> f (previousPath exe) = None | Some (d, m) \<Rightarrow> prog u d m (f (previousPath exe)))"

definition at_new :: "nat \<Rightarrow> episode \<Rightarrow> string \<Rightarrow> file_system \<Rightarrow> bool" where
  "at_new u ep exe f \<longleftrightarrow> prog u (new_data ep) (old_mode ep) (f exe) \<and> prog u (old_data ep) (old_mode ep) (f (previousPath exe))"

definition runnable :: "nat \<Rightarrow> episode \<Rightarrow> string \<Rightarrow> file_system \<Rightarrow> bool" where
  "runnable u ep exe f \<longleftrightarrow> prog u (old_data ep) (old_mode ep) (f exe) \<or> prog u (new_data ep) (old_mode ep) (f exe)"

definition fits :: "install_env \<Rightarrow> transaction \<Rightarrow> bool" where
  "fits en t \<longleftrightarrow> en_decode en (en_encode en t) = Some t \<and> length (en_encode en t) \<le> 65536"

definition recorded :: "install_env \<Rightarrow> string \<Rightarrow> transaction \<Rightarrow> file_system \<Rightarrow> bool" where
  "recorded en exe t f \<longleftrightarrow> (\<exists>i. f (transactionPath exe) = Some i \<and> plain_file (en_euid en) i \<and>
     length (f_data i) \<le> 65536 \<and> en_decode en (f_data i) = Some t)"

definition protected :: "string \<Rightarrow> transaction \<Rightarrow> string set" where
  "protected exe t = {exe, previousPath exe, transactionPath exe, BackupPath t} \<union>
     (if PreviousBackupPath t = '''' then {} else {PreviousBackupPath t})"

definition layout :: "string \<Rightarrow> transaction \<Rightarrow> bool" where
  "layout exe t \<longleftrightarrow> path_dir (BackupPath t) = path_dir exe \<and> path_dir (CandidatePath t) = path_dir exe \<and>
     path_dir (PreviousCandidate t) = path_dir exe \<and>
     (PreviousBackupPath t = '''' \<or> path_dir (PreviousBackupPath t) = path_dir exe) \<and>
     CandidatePath t \<notin> protected exe t \<and> PreviousCandidate t \<notin> protected exe t \<and>
     BackupPath t \<notin> {exe, previousPath exe, transactionPath exe} \<and>
     (PreviousBackupPath t = '''' \<or> PreviousBackupPath t \<notin> {exe, previousPath exe, transactionPath exe, BackupPath t})"

definition artifacts :: "transaction \<Rightarrow> string list" where
  "artifacts t = [BackupPath t, CandidatePath t, PreviousCandidate t, PreviousBackupPath t]"

definition artifacts_plain :: "nat \<Rightarrow> transaction \<Rightarrow> file_system \<Rightarrow> bool" where
  "artifacts_plain u t f \<longleftrightarrow> (\<forall>a \<in> set (artifacts t). a \<noteq> '''' \<longrightarrow> plainish u (f a))"

definition backups :: "nat \<Rightarrow> episode \<Rightarrow> transaction \<Rightarrow> file_system \<Rightarrow> bool" where
  "backups u ep t f \<longleftrightarrow> holds_data u (old_data ep) (f (BackupPath t)) \<and> Mode t = old_mode ep \<and>
     (case prior ep of None \<Rightarrow> PreviousBackupPath t = ''''
      | Some (d, m) \<Rightarrow> PreviousBackupPath t \<noteq> '''' \<and> holds_data u d (f (PreviousBackupPath t)) \<and> PreviousMode t = m)"

definition pending :: "install_env \<Rightarrow> episode \<Rightarrow> string \<Rightarrow> transaction \<Rightarrow> file_system \<Rightarrow> bool" where
  "pending en ep exe t f \<longleftrightarrow> \<not> Committed t \<and> layout exe t \<and> fits en (t\<lparr>Committed := True\<rparr>) \<and>
     runnable (en_euid en) ep exe f \<and> recorded en exe t f \<and> backups (en_euid en) ep t f \<and> artifacts_plain (en_euid en) t f"

definition finishing :: "install_env \<Rightarrow> string \<Rightarrow> (file_system \<Rightarrow> bool) \<Rightarrow> transaction \<Rightarrow> file_system \<Rightarrow> bool" where
  "finishing en exe X t f \<longleftrightarrow> Committed t \<and> layout exe t \<and> fits en t \<and> X f \<and> recorded en exe t f \<and> artifacts_plain (en_euid en) t f"

definition cleaned :: "install_env \<Rightarrow> string \<Rightarrow> (file_system \<Rightarrow> bool) \<Rightarrow> transaction \<Rightarrow> file_system \<Rightarrow> bool" where
  "cleaned en exe X t f \<longleftrightarrow> Committed t \<and> layout exe t \<and> fits en t \<and> X f \<and> f (transactionPath exe) = None \<and> artifacts_plain (en_euid en) t f"

text \<open>X speaks about the executable and .previous only.\<close>

definition about_target :: "string \<Rightarrow> (file_system \<Rightarrow> bool) \<Rightarrow> bool" where
  "about_target exe X \<longleftrightarrow> (\<forall>f p v. p \<noteq> exe \<longrightarrow> p \<noteq> previousPath exe \<longrightarrow> X (f(p := v)) = X f)"

lemma about_target_states [simp]: "about_target exe (at_old u ep exe)" "about_target exe (at_new u ep exe)"
  by (auto simp: about_target_def at_old_def at_new_def split: option.splits)

lemma about_targetD: "about_target exe X \<Longrightarrow> p \<noteq> exe \<Longrightarrow> p \<noteq> previousPath exe \<Longrightarrow> X (f(p := v)) = X f"
  by (simp add: about_target_def)

named_theorems plain_rules \<open>files made and changed by the updater stay plain\<close>

lemma plainish_rules [simp, plain_rules]: "plainish u None" "plainish u (Some i) = plain_file u i"
  by (auto simp: plainish_def)

lemma plain_upd [simp, plain_rules]: "plain_file u (i\<lparr>f_data := d\<rparr>) = plain_file u i" "plain_file u (i\<lparr>f_perm := m\<rparr>) = plain_file u i"
  by (auto simp: plain_file_def)

lemma plainish_write [simp, plain_rules]: "plainish u (map_option (\<lambda>i. i\<lparr>f_data := g i\<rparr>) v) = plainish u v"
  by (cases v) (auto simp: plainish_def plain_file_def)

lemma holds_data_plain: "holds_data u d v \<Longrightarrow> plainish u v"
  by (auto simp: holds_data_def)

lemma prog_holds: "prog u d m v \<Longrightarrow> holds_data u d v"
  by (auto simp: prog_def holds_data_def)

lemma prog_not_None [simp]: "\<not> prog u d m None"
  by (simp add: prog_def)

lemma holds_not_None [simp]: "\<not> holds_data u d None"
  by (simp add: holds_data_def)

section \<open>Frames\<close>

lemma artifacts_plain_upd: "plainish u v \<Longrightarrow> artifacts_plain u t f \<Longrightarrow> artifacts_plain u t (f(p := v))"
  by (auto simp: artifacts_plain_def)

lemma artifacts_plain_committed [simp]: "artifacts_plain u (t\<lparr>Committed := b\<rparr>) f = artifacts_plain u t f"
  by (simp add: artifacts_plain_def artifacts_def)

lemma layout_committed [simp]: "layout exe (t\<lparr>Committed := b\<rparr>) = layout exe t"
  by (simp add: layout_def protected_def)

lemma protected_committed [simp]: "protected exe (t\<lparr>Committed := b\<rparr>) = protected exe t"
  by (simp add: protected_def)

lemma pending_upd:
  "p \<notin> protected exe t \<Longrightarrow> plainish (en_euid en) v \<Longrightarrow> pending en ep exe t f \<Longrightarrow> pending en ep exe t (f(p := v))"
  by (auto simp: pending_def runnable_def recorded_def backups_def protected_def artifacts_plain_upd split: option.splits if_splits)

lemma finishing_upd:
  "p \<notin> {exe, previousPath exe, transactionPath exe} \<Longrightarrow> about_target exe X \<Longrightarrow> plainish (en_euid en) v \<Longrightarrow>
   finishing en exe X t f \<Longrightarrow> finishing en exe X t (f(p := v))"
  by (auto simp: finishing_def recorded_def artifacts_plain_upd about_targetD)

lemma cleaned_upd:
  "p \<notin> {exe, previousPath exe, transactionPath exe} \<Longrightarrow> about_target exe X \<Longrightarrow> plainish (en_euid en) v \<Longrightarrow>
   cleaned en exe X t f \<Longrightarrow> cleaned en exe X t (f(p := v))"
  by (auto simp: cleaned_def artifacts_plain_upd about_targetD)

lemma path_names [simp]: "previousPath exe \<noteq> exe" "transactionPath exe \<noteq> exe" "previousPath exe \<noteq> transactionPath exe"
  "exe \<noteq> previousPath exe" "exe \<noteq> transactionPath exe" "transactionPath exe \<noteq> previousPath exe"
  by (auto simp: previousPath_def transactionPath_def)

lemma temp_name_names:
  assumes "temp_name dir pre p"
  shows "p \<noteq> previousPath exe" "p \<noteq> transactionPath exe"
  using temp_name_not_suffix[OF assms] by (auto simp: previousPath_def transactionPath_def is_digit_def)

section \<open>Triples of the composite operations\<close>

lemma spec_sync:
  assumes "\<And>f. P f \<Longrightarrow> R f" "\<And>f. P f \<Longrightarrow> C f" "\<And>f. P f \<Longrightarrow> Q f"
  shows "spec u P sync_call (\<lambda>_. Q) (\<lambda>_. R) C"
  by (rule spec_conseq[OF spec_sync_call[of P P P P]]) (use assms in auto)

definition io_error :: "up_error \<Rightarrow> bool" where
  "io_error e \<longleftrightarrow> \<not> is_publish_error e"

lemma spec_syncDirectory: "spec u P (syncDirectory d) (\<lambda>_. P) (\<lambda>_. P) P"
  unfolding syncDirectory_def
  by (rule spec_tryio spec_sync[of P P P P] spec_throw | assumption)+

text \<open>A temporary file in the making: I holds and p, outside the protected names, is plain.\<close>

lemma spec_cloneToTemp:
  assumes fresh: "\<And>f p. I f \<Longrightarrow> f p = None \<Longrightarrow> temp_name dir pre p \<Longrightarrow> N p"
    and keep: "\<And>f p v. N p \<Longrightarrow> I f \<Longrightarrow> plainish u v \<Longrightarrow> I (f(p := v))"
    and src: "\<And>f i. I f \<Longrightarrow> f src = Some i \<Longrightarrow> f_data i = d"
    and m: "m \<noteq> 0"
  shows "spec u I (cloneToTemp src dir pre m) (\<lambda>p f. N p \<and> temp_name dir pre p \<and> I f \<and> prog u d m (f p)) (\<lambda>_. I) I"
proof -
  define T where "T p f \<longleftrightarrow> N p \<and> temp_name dir pre p \<and> I f" for p f
  have fail: "spec u (\<lambda>f. T p f) (ignoring (remove p) (throw e)) Q (\<lambda>_. I) I" for p e and Q :: "string \<Rightarrow> file_system \<Rightarrow> bool"
    by (rule spec_ignoring[where P' = I], rule spec_conseq[OF spec_remove[where P = "T p" and R = I and C = I and Q = "\<lambda>_. I"]])
       (auto simp: T_def keep intro: spec_throw)
  have 1: "spec u I (open_file src) (\<lambda>i f. I f \<and> f_data i = d) (\<lambda>_. I) I"
    by (rule spec_conseq[OF spec_open_file[of I I I]]) (auto dest: src)
  show ?thesis
    unfolding cloneToTemp_def Let_def if_not_P[OF m]
  proof (rule spec_tryio[OF 1 spec_throw], assumption)
    fix i
    show "spec u (\<lambda>f. I f \<and> f_data i = d)
      (tryio (createTemp dir pre) throw (\<lambda>path.
        tryio (chmod path 384) (\<lambda>e. ignoring (remove path) (throw e)) (\<lambda>_.
        tryio (write_file path (f_data i)) (\<lambda>e. ignoring (remove path) (throw e)) (\<lambda>_.
        tryio (chmod path m) (\<lambda>e. ignoring (remove path) (throw e)) (\<lambda>_.
        tryio sync_call (\<lambda>e. ignoring (remove path) (throw e)) (\<lambda>_.
        tryio sync_call (\<lambda>e. ignoring (remove path) (throw e)) (\<lambda>_. ret path)))))))
      (\<lambda>p f. N p \<and> temp_name dir pre p \<and> I f \<and> prog u d m (f p)) (\<lambda>_. I) I"
    proof (cases "f_data i = d")
      case True
      have c: "spec u (\<lambda>f. I f \<and> f_data i = d) (createTemp dir pre)
          (\<lambda>p f. T p f \<and> holds_data u '''' (f p)) (\<lambda>_. I) I"
        by (rule spec_conseq[OF spec_createTemp[of I I I dir pre u "\<lambda>p f. T p f \<and> holds_data u '''' (f p)"]])
           (auto simp: T_def holds_data_def fresh intro!: keep)
      have ch: "spec u (\<lambda>f. T p f \<and> holds_data u x (f p)) (chmod p k) (\<lambda>_ f. T p f \<and> prog u x k (f p)) (\<lambda>_. T p) I" for p x k
        by (rule spec_conseq[OF spec_chmod[of "\<lambda>f. T p f \<and> holds_data u x (f p)" "T p" I p "\<lambda>_ f. T p f \<and> prog u x k (f p)" k]])
           (auto simp: T_def holds_data_def prog_def intro!: keep)
      have wr: "spec u (\<lambda>f. T p f \<and> prog u '''' k (f p)) (write_file p d) (\<lambda>_ f. T p f \<and> holds_data u d (f p)) (\<lambda>_. T p) I" for p k
        by (rule spec_conseq[OF spec_write_file[of "\<lambda>f. T p f \<and> prog u '''' k (f p)" "T p" p d I "\<lambda>_ f. T p f \<and> holds_data u d (f p)"]])
           (auto simp: T_def holds_data_def prog_def intro!: keep)
      have sy: "spec u (\<lambda>f. T p f \<and> prog u d m (f p)) sync_call (\<lambda>_ f. T p f \<and> prog u d m (f p)) (\<lambda>_. T p) I" for p
        by (rule spec_sync) (auto simp: T_def)
      show ?thesis unfolding True
        by (rule spec_tryio[OF c[unfolded True] spec_throw] spec_tryio[OF ch fail] spec_tryio[OF wr fail] spec_tryio[OF sy fail] spec_ret
            | simp add: T_def)+
    qed (simp add: spec_def)
  qed
qed


lemma spec_static: "(b \<Longrightarrow> spec u P m Q R C) \<Longrightarrow> spec u (\<lambda>f. b \<and> P f) m Q R C"
  by (cases b) (simp_all add: spec_def)

lemma spec_split:
  assumes "\<And>f. P f \<Longrightarrow> \<exists>t. P' t f" "\<And>t. spec u (P' t) m Q R C"
  shows "spec u P m Q R C"
  unfolding spec_def
proof (intro allI impI)
  fix w :: world assume w: "euid w = u" "P (fs w)"
  then obtain t where t: "P' t (fs w)" using assms(1) by blast
  show "case m w of (r, v) \<Rightarrow> euid v = u \<and> post Q R C r (fs v)"
    using assms(2)[of t, unfolded spec_def, rule_format, OF w(1) t] .
qed

lemma os_not_publish [simp]: "os_error e \<Longrightarrow> \<not> is_publish_error e"
  by (auto simp: os_error_def)

lemma spec_publishTransaction:
  assumes fresh: "\<And>f p. I f \<Longrightarrow> f p = None \<Longrightarrow> temp_name (path_dir exe) (''.'' @ binaryName @ ''-transaction-'') p \<Longrightarrow> N p"
    and keep: "\<And>f p v. N p \<Longrightarrow> I f \<Longrightarrow> plainish u v \<Longrightarrow> I (f(p := v))"
    and keepK: "\<And>f p v. N p \<Longrightarrow> K f \<Longrightarrow> plainish u v \<Longrightarrow> K (f(p := v))"
    and pub: "\<And>f i. I f \<Longrightarrow> plain_file u i \<Longrightarrow> f_data i = en_encode en t \<Longrightarrow> K (f(transactionPath exe \<mapsto> i))"
  shows "spec u I (publishTransaction en exe t) (\<lambda>_. K) (\<lambda>e f. if is_publish_error e then K f else I f) (\<lambda>f. I f \<or> K f)"
proof -
  let ?tx = "transactionPath exe" and ?R = "\<lambda>e f. if is_publish_error e then K f else I f" and ?C = "\<lambda>f. I f \<or> K f"
  let ?T = "\<lambda>d p f. I f \<and> holds_data u d (f p)"
  have c: "spec u I (createTemp (path_dir exe) (''.'' @ binaryName @ ''-transaction-'')) (\<lambda>p f. N p \<and> ?T '''' p f) (\<lambda>e f. os_error e \<and> I f) ?C"
    by (rule spec_createTemp) (auto simp: holds_data_def fresh intro!: keep)
  have body: "spec u (?T '''' p)
    (tryio (chmod p 384) (\<lambda>e. ignoring sync_call (throw (Wrap ''protect update transaction'' e))) (\<lambda>_.
       tryio (write_file p (en_encode en t)) (\<lambda>e. ignoring sync_call (throw (Wrap ''write update transaction'' e))) (\<lambda>_.
       tryio sync_call (\<lambda>e. ignoring sync_call (throw (Wrap ''sync update transaction'' e))) (\<lambda>_.
       ck ''close update transaction'' sync_call (\<lambda>_.
       ck ''publish update transaction'' (rename p ?tx) (\<lambda>_.
       tryio (syncDirectory (path_dir exe)) (\<lambda>e. throw (PublishError e)) ret))))))
     (\<lambda>_. K) ?R ?C" if N: "N p" for p
  proof -
    have fail: "spec u (\<lambda>f. os_error e \<and> I f) (ignoring sync_call (throw (Wrap s e))) Q ?R ?C"
      for e s and Q :: "unit \<Rightarrow> file_system \<Rightarrow> bool"
      by (rule spec_static, rule spec_ignoring[where P' = I]) (auto intro: spec_sync spec_throw)
    have ch: "spec u (?T x p) (chmod p k) (\<lambda>_. ?T x p) (\<lambda>e f. os_error e \<and> I f) ?C" for x k
      by (rule spec_chmod) (auto simp: holds_data_def intro!: keep N)
    have wr: "spec u (?T '''' p) (write_file p d) (\<lambda>_. ?T d p) (\<lambda>e f. os_error e \<and> I f) ?C" for d
      by (rule spec_write_file) (auto simp: holds_data_def intro!: keep N)
    have sy: "spec u (?T x p) sync_call (\<lambda>_. ?T x p) (\<lambda>e f. os_error e \<and> I f) ?C" for x
      by (rule spec_sync_call) auto
    have rn: "spec u (?T (en_encode en t) p) (rename p ?tx) (\<lambda>_. K) (\<lambda>e f. os_error e \<and> I f) ?C"
    proof (rule spec_rename)
      fix f i assume a: "?T (en_encode en t) p f" "f p = Some i"
      then have "I (f(p := None))" using keep[OF N, of f None] by simp
      then show "K (f(p := None, ?tx \<mapsto> i))" using a by (intro pub) (auto simp: holds_data_def)
    qed auto
    have sd: "spec u K (syncDirectory (path_dir exe)) (\<lambda>_. K) (\<lambda>_. K) ?C"
      by (rule spec_conseq[OF spec_syncDirectory[of u K]]) auto
    show ?thesis
      by (rule spec_tryio[OF ch fail] spec_tryio[OF wr fail] spec_tryio[OF sy fail] spec_ck[OF sy] spec_ck[OF rn] spec_tryio[OF sd]
          spec_throw spec_ret | simp)+
  qed
  have rm: "spec u (\<lambda>f. J f) (remove p) (\<lambda>_. J) (\<lambda>_. J) ?C"
    if "N p" "J = K \<or> J = I \<or> (\<exists>e. J = ?R e)" for p J
  proof (rule spec_conseq[OF spec_remove[where P = J and R = J and C = ?C and Q = "\<lambda>_. J"]])
    show "J (f(p := None))" if "J f" "f p = Some i" for f i
      using that \<open>J = K \<or> J = I \<or> (\<exists>e. J = ?R e)\<close> keep[OF \<open>N p\<close>, of f None] keepK[OF \<open>N p\<close>, of f None] by (auto split: if_splits)
    show "J f \<Longrightarrow> ?C f" for f using \<open>J = K \<or> J = I \<or> (\<exists>e. J = ?R e)\<close> by (auto split: if_splits)
  qed auto
  show ?thesis
    unfolding publishTransaction_def
    by (rule spec_ck[OF c], simp, rule spec_static, rule spec_deferred[OF body]) (auto intro!: rm)
qed

section \<open>Cleanup of a committed transaction\<close>

lemma spec_cleanupArtifacts:
  assumes "set as \<subseteq> set (artifacts t)" "about_target exe X" "en_euid en = u"
  shows "spec u (finishing en exe X t) (cleanupArtifacts en as) (\<lambda>_. finishing en exe X t) (\<lambda>_. finishing en exe X t) (finishing en exe X t)"
  using assms(1)
proof (induction as)
  case Nil
  show ?case by (simp add: spec_ret)
next
  case (Cons a as)
  let ?F = "finishing en exe X t"
  have out: "a \<notin> {exe, previousPath exe, transactionPath exe}" if "a \<noteq> ''''" "?F f" for f
    using Cons.prems that by (auto simp: artifacts_def finishing_def layout_def protected_def split: if_splits)
  have v: "spec u ?F (lift g) (\<lambda>_. ?F) (\<lambda>_. ?F) ?F" for g :: "file_system \<Rightarrow> up_error + unit"
    by (rule spec_lift)
  have r: "spec u ?F (remove a) (\<lambda>_. ?F) (\<lambda>_. ?F) ?F" if "a \<noteq> ''''"
    by (rule spec_conseq[OF spec_remove[where P = ?F and R = ?F and C = ?F and Q = "\<lambda>_. ?F"]])
       (use out[OF that] assms(2) in \<open>auto intro!: finishing_upd\<close>)
  have IH: "spec u ?F (cleanupArtifacts en as) (\<lambda>_. ?F) (\<lambda>_. ?F) ?F" using Cons by simp
  show ?case
  proof (cases "a = ''''")
    case False
    then show ?thesis
      by (auto intro!: spec_tryio[OF v] spec_tryio[OF r] IH intro: spec_throw)
  qed (simp add: IH)
qed

lemma layout_tx: "layout exe t \<Longrightarrow> a \<in> set (artifacts t) \<Longrightarrow> a \<noteq> '''' \<Longrightarrow> a \<noteq> transactionPath exe"
  by (auto simp: artifacts_def layout_def protected_def split: if_splits)

lemma artifacts_plain_tx: "layout exe t \<Longrightarrow> artifacts_plain u t (f(transactionPath exe := v)) = artifacts_plain u t f"
  using layout_tx by (auto simp: artifacts_plain_def)

lemma cleaned_finishing:
  "cleaned en exe X t f \<Longrightarrow> about_target exe X \<Longrightarrow> plain_file (en_euid en) i \<Longrightarrow> f_data i = en_encode en t \<Longrightarrow>
   finishing en exe X t (f(transactionPath exe \<mapsto> i))"
  by (auto simp: cleaned_def finishing_def recorded_def artifacts_plain_tx about_targetD fits_def)

lemma finishing_cleaned:
  "finishing en exe X t f \<Longrightarrow> about_target exe X \<Longrightarrow> cleaned en exe X t (f(transactionPath exe := None))"
  by (auto simp: cleaned_def finishing_def artifacts_plain_tx about_targetD)

lemma spec_cleanup:
  assumes "about_target exe X" "en_euid en = u" "\<And>f. X f \<Longrightarrow> f exe \<noteq> None"
  shows "spec u (finishing en exe X t) (cleanupCommittedTransaction en exe t) (\<lambda>_. cleaned en exe X t)
     (\<lambda>_ f. finishing en exe X t f \<or> cleaned en exe X t f) (\<lambda>f. finishing en exe X t f \<or> cleaned en exe X t f)"
proof -
  let ?F = "finishing en exe X t" and ?G = "cleaned en exe X t" and ?FG = "\<lambda>f. finishing en exe X t f \<or> cleaned en exe X t f"
  have art: "spec u ?F (cleanupArtifacts en [BackupPath t, CandidatePath t, PreviousCandidate t, PreviousBackupPath t]) (\<lambda>_. ?F) (\<lambda>_. ?F) ?FG"
    by (rule spec_conseq[OF spec_cleanupArtifacts[of _ t exe X en u]]) (auto simp: artifacts_def assms)
  have sF: "spec u ?F (syncDirectory d) (\<lambda>_. ?F) (\<lambda>_. ?F) ?FG" for d
    by (rule spec_conseq[OF spec_syncDirectory[of u ?F]]) auto
  have sG: "spec u ?G (syncDirectory d) (\<lambda>_. ?G) (\<lambda>_. ?G) ?FG" for d
    by (rule spec_conseq[OF spec_syncDirectory[of u ?G]]) auto
  have p: "spec u ?G (replaceTransaction en exe t) (\<lambda>_. ?F) (\<lambda>_. ?FG) ?FG"
    unfolding replaceTransaction_def
  proof (rule spec_conseq[OF spec_publishTransaction[where I = ?G and K = ?F and N = "\<lambda>p. p \<notin> {exe, previousPath exe, transactionPath exe}"]])
    show "p \<notin> {exe, previousPath exe, transactionPath exe}"
      if "?G f" "f p = None" "temp_name (path_dir exe) (''.'' @ binaryName @ ''-transaction-'') p" for f p
      using that assms(3)[of f] temp_name_names[OF that(3)] by (auto simp: cleaned_def)
  qed (use assms cleaned_upd finishing_upd cleaned_finishing in \<open>auto split: if_splits\<close>)
  have rm: "spec u ?F (remove (transactionPath exe)) (\<lambda>_. ?G) (\<lambda>e f. ?F f \<and> (is_not_exist e \<longrightarrow> ?G f)) ?FG"
    by (rule spec_conseq[OF spec_remove_strict[where P = ?F and R = ?F and C = ?FG and Q = ?G]]) (auto intro: finishing_cleaned assms)
  have rest: "spec u ?G (tryio (syncDirectory d)
        (\<lambda>e. tryio (replaceTransaction en exe t)
          (\<lambda>e'. throw (Joined (Wrap ''sync committed transaction removal'' e) e'))
          (\<lambda>_. throw (Wrap ''sync committed transaction removal'' e)))
        ret) (\<lambda>_. ?G) (\<lambda>_. ?FG) ?FG" for d
    by (rule spec_tryio[OF sG] spec_tryio[OF p] spec_throw spec_ret | simp)+
  show ?thesis
    unfolding cleanupCommittedTransaction_def Let_def
  proof (rule spec_tryio[OF art spec_throw], simp, rule spec_ck[OF sF], simp, rule spec_tryio[OF rm])
    fix e
    show "spec u (\<lambda>f. ?F f \<and> (is_not_exist e \<longrightarrow> ?G f)) (if is_not_exist e then tryio (syncDirectory (path_dir exe))
        (\<lambda>e. tryio (replaceTransaction en exe t)
          (\<lambda>e'. throw (Joined (Wrap ''sync committed transaction removal'' e) e'))
          (\<lambda>_. throw (Wrap ''sync committed transaction removal'' e)))
        ret else throw (Wrap ''remove committed transaction'' e)) (\<lambda>_. ?G) (\<lambda>_. ?FG) ?FG"
      by (auto intro: spec_pre[OF _ rest] spec_throw)
  qed (rule rest)
qed

section \<open>Rollback\<close>

definition same_txn :: "transaction \<Rightarrow> transaction \<Rightarrow> bool" where
  "same_txn tt t \<longleftrightarrow> tt\<lparr>Committed := True\<rparr> = t\<lparr>Committed := True\<rparr>"

lemma same_txn_fields:
  assumes "same_txn tt t"
  shows "BackupPath tt = BackupPath t" "CandidatePath tt = CandidatePath t" "PreviousCandidate tt = PreviousCandidate t"
    "PreviousBackupPath tt = PreviousBackupPath t" "PreviousMode tt = PreviousMode t" "Mode tt = Mode t"
  using assms by (cases tt; cases t; simp add: same_txn_def)+

lemma same_txn_refl [simp]: "same_txn t t" "same_txn (t\<lparr>Committed := b\<rparr>) t"
  by (simp_all add: same_txn_def)

definition rolled_back :: "install_env \<Rightarrow> episode \<Rightarrow> string \<Rightarrow> transaction \<Rightarrow> file_system \<Rightarrow> bool" where
  "rolled_back en ep exe t f \<longleftrightarrow> finishing en exe (at_old (en_euid en) ep exe) (t\<lparr>Committed := True\<rparr>) f \<or>
     cleaned en exe (at_old (en_euid en) ep exe) (t\<lparr>Committed := True\<rparr>) f"

definition undoing :: "install_env \<Rightarrow> episode \<Rightarrow> string \<Rightarrow> transaction \<Rightarrow> file_system \<Rightarrow> bool" where
  "undoing en ep exe t f \<longleftrightarrow> pending en ep exe t f \<or> rolled_back en ep exe t f"

lemma pending_layout: "pending en ep exe t f \<Longrightarrow> layout exe t"
  by (simp add: pending_def)

lemma undoing_upd:
  assumes "p \<notin> protected exe t" "plainish (en_euid en) v"
  shows "pending en ep exe t f \<Longrightarrow> pending en ep exe t (f(p := v))"
    "rolled_back en ep exe t f \<Longrightarrow> rolled_back en ep exe t (f(p := v))"
    "undoing en ep exe t f \<Longrightarrow> undoing en ep exe t (f(p := v))"
proof -
  have n: "p \<notin> {exe, previousPath exe, transactionPath exe}" using assms(1) by (auto simp: protected_def)
  show a: "pending en ep exe t f \<Longrightarrow> pending en ep exe t (f(p := v))" by (rule pending_upd[OF assms])
  show b: "rolled_back en ep exe t f \<Longrightarrow> rolled_back en ep exe t (f(p := v))"
    using finishing_upd[OF n _ assms(2)] cleaned_upd[OF n _ assms(2)] by (auto simp: rolled_back_def)
  show "undoing en ep exe t f \<Longrightarrow> undoing en ep exe t (f(p := v))" using a b by (auto simp: undoing_def)
qed

lemma pending_fresh:
  assumes "pending en ep exe t f" "f p = None" "temp_name dir pre p"
  shows "p \<notin> protected exe t"
  using assms temp_name_names[OF assms(3)]
  by (auto simp: pending_def protected_def runnable_def backups_def split: option.splits if_splits)

lemma at_old_upd: "p \<notin> protected exe t \<Longrightarrow> at_old u ep exe f \<Longrightarrow> at_old u ep exe (f(p := v))"
  by (auto simp: at_old_def protected_def split: option.splits)

lemma pending_finishing:
  "pending en ep exe t f \<Longrightarrow> X f \<Longrightarrow> about_target exe X \<Longrightarrow> plain_file (en_euid en) i \<Longrightarrow> f_data i = en_encode en (t\<lparr>Committed := True\<rparr>) \<Longrightarrow>
   finishing en exe X (t\<lparr>Committed := True\<rparr>) (f(transactionPath exe \<mapsto> i))"
  by (auto simp: pending_def finishing_def recorded_def artifacts_plain_tx about_targetD fits_def)

lemma spec_remove_undoing:
  assumes "p \<notin> protected exe t" "en_euid en = u" "J \<in> {pending en ep exe t, rolled_back en ep exe t, undoing en ep exe t}"
  shows "spec u J (remove p) (\<lambda>_. J) (\<lambda>_. J) (undoing en ep exe t)"
  by (rule spec_conseq[OF spec_remove[where P = J and R = J and C = J and Q = "\<lambda>_. J"]])
     (use assms undoing_upd[OF assms(1), of en None ep] in \<open>auto simp: undoing_def\<close>)

lemma spec_return_cause: "spec u P (return_cause cause) (\<lambda>_ f. cause = None \<and> P f) (\<lambda>_. P) C"
  by (auto simp: return_cause_def intro: spec_ret spec_throw split: option.splits)

lemma spec_commit:
  assumes X: "about_target exe X" and u: "en_euid en = u"
  shows "spec u (\<lambda>f. pending en ep exe t f \<and> X f) (replaceTransaction en exe (t\<lparr>Committed := True\<rparr>))
     (\<lambda>_. finishing en exe X (t\<lparr>Committed := True\<rparr>))
     (\<lambda>e f. if is_publish_error e then finishing en exe X (t\<lparr>Committed := True\<rparr>) f else pending en ep exe t f \<and> X f)
     (\<lambda>f. pending en ep exe t f \<and> X f \<or> finishing en exe X (t\<lparr>Committed := True\<rparr>) f)"
  unfolding replaceTransaction_def
proof (rule spec_conseq[OF spec_publishTransaction[where I = "\<lambda>f. pending en ep exe t f \<and> X f" and N = "\<lambda>p. p \<notin> protected exe t"
      and K = "finishing en exe X (t\<lparr>Committed := True\<rparr>)"]])
  show "finishing en exe X (t\<lparr>Committed := True\<rparr>) (f(p := v))"
    if "p \<notin> protected exe t" "finishing en exe X (t\<lparr>Committed := True\<rparr>) f" "plainish u v" for f p v
    by (rule finishing_upd) (use that u X in \<open>auto simp: protected_def\<close>)
  show "pending en ep exe t (f(p := v)) \<and> X (f(p := v))"
    if "p \<notin> protected exe t" "pending en ep exe t f \<and> X f" "plainish u v" for f p v
    using that u about_targetD[OF X, of p] by (auto simp: pending_upd protected_def)
qed (use pending_fresh pending_finishing[OF _ _ X] u in auto)

lemma spec_finishRollback:
  assumes u: "en_euid en = u" and tt: "same_txn tt t"
  shows "spec u (\<lambda>f. pending en ep exe t f \<and> at_old u ep exe f) (finishRollback en exe tt cause)
     (\<lambda>_ f. cause = None \<and> rolled_back en ep exe t f) (\<lambda>_. undoing en ep exe t) (undoing en ep exe t)"
proof -
  let ?X = "at_old u ep exe" and ?T = "t\<lparr>Committed := True\<rparr>"
  let ?PO = "\<lambda>f. pending en ep exe t f \<and> ?X f" and ?U = "undoing en ep exe t"
  have rm: "spec u ?PO (remove a) (\<lambda>_. ?PO) (\<lambda>_. ?PO) ?U" if a: "a \<in> {CandidatePath tt, PreviousCandidate tt}" for a
  proof (rule spec_conseq[OF spec_remove[where P = ?PO and R = ?PO and C = ?PO and Q = "\<lambda>_. ?PO"]])
    fix f i assume f: "?PO f"
    then have "a \<notin> protected exe t" using a same_txn_fields[OF tt] pending_layout[of en ep exe t f] by (auto simp: layout_def)
    then show "?PO (f(a := None))" using f pending_upd at_old_upd by auto
  qed (auto simp: undoing_def)
  have sy: "spec u ?PO (syncDirectory d) (\<lambda>_. ?PO) (\<lambda>_. ?PO) ?U" for d
    by (rule spec_conseq[OF spec_syncDirectory[of u ?PO]]) (auto simp: undoing_def)
  have T: "tt\<lparr>Committed := True\<rparr> = ?T" using tt by (simp add: same_txn_def)
  have cm: "spec u ?PO (replaceTransaction en exe ?T) (\<lambda>_. finishing en exe ?X ?T)
      (\<lambda>e f. if is_publish_error e then rolled_back en ep exe t f else pending en ep exe t f) ?U"
    by (rule spec_conseq[OF spec_commit[OF about_target_states(1) u]]) (use u in \<open>auto simp: undoing_def rolled_back_def split: if_splits\<close>)
  have cl: "spec u (finishing en exe ?X ?T) (cleanupCommittedTransaction en exe ?T) (\<lambda>_. rolled_back en ep exe t) (\<lambda>_. ?U) ?U"
    by (rule spec_conseq[OF spec_cleanup[OF about_target_states(1) u]]) (use u in \<open>auto simp: undoing_def rolled_back_def at_old_def prog_def\<close>)
  have rc: "spec u (rolled_back en ep exe t) (return_cause cause) (\<lambda>_ f. cause = None \<and> rolled_back en ep exe t f) (\<lambda>_. ?U) ?U"
    by (rule spec_conseq[OF spec_return_cause[where P = "rolled_back en ep exe t"]]) (auto simp: undoing_def)
  show ?thesis
    unfolding finishRollback_def Let_def T
  proof (rule spec_ignoring[OF rm], simp, rule spec_ignoring[OF rm], simp, rule spec_tryio[OF sy spec_throw], simp add: undoing_def,
      rule spec_tryio[OF cm])
    fix e
    show "spec u (\<lambda>f. if is_publish_error e then rolled_back en ep exe t f else pending en ep exe t f)
        (if is_publish_error e then return_cause cause else throw (join_cause cause (Wrap ''commit rollback cleanup state'' e)))
        (\<lambda>_ f. cause = None \<and> rolled_back en ep exe t f) (\<lambda>_. ?U) ?U"
      using rc by (auto intro!: spec_throw simp: undoing_def)
  qed (rule spec_tryio[OF cl spec_throw], simp, rule rc)
qed

lemma pending_target:
  "pending en ep exe t f \<Longrightarrow> plainish (en_euid en) v \<Longrightarrow> pending en ep exe t (f(previousPath exe := v))"
  by (auto simp: pending_def runnable_def recorded_def backups_def artifacts_plain_upd layout_def protected_def split: option.splits if_splits)

lemma pending_restored:
  "pending en ep exe t f \<Longrightarrow> prog (en_euid en) (old_data ep) (old_mode ep) (Some i) \<Longrightarrow> pending en ep exe t (f(exe \<mapsto> i))"
  by (auto simp: pending_def runnable_def recorded_def backups_def layout_def protected_def prog_def
      split: option.splits if_splits intro!: artifacts_plain_upd)

lemma ok_mode_valid: "ok_mode m \<Longrightarrow> validatedTransactionMode m = Inr m \<and> m \<noteq> 0"
  by (cases "m = 0") (auto simp: ok_mode_def validatedTransactionMode_def)

definition reverted :: "install_env \<Rightarrow> episode \<Rightarrow> string \<Rightarrow> transaction \<Rightarrow> file_system \<Rightarrow> bool" where
  "reverted en ep exe t f \<longleftrightarrow> pending en ep exe t f \<and> prog (en_euid en) (old_data ep) (old_mode ep) (f exe)"

lemma spec_clone_backup:
  assumes "en_euid en = u" "m \<noteq> 0"
  shows "spec u (pending en ep exe t) (cloneToTemp (BackupPath t) (path_dir exe) (''.'' @ binaryName @ ''-restore-'') m)
      (\<lambda>q f. q \<notin> protected exe t \<and> pending en ep exe t f \<and> prog u (old_data ep) m (f q)) (\<lambda>_. pending en ep exe t) (pending en ep exe t)"
proof (rule spec_conseq[OF spec_cloneToTemp[where I = "pending en ep exe t" and N = "\<lambda>q. q \<notin> protected exe t"]])
  show "f_data i = old_data ep" if "pending en ep exe t f" "f (BackupPath t) = Some i" for f i
    using that by (auto simp: pending_def backups_def holds_data_def)
qed (use assms in \<open>auto dest: pending_fresh simp: pending_upd\<close>)

lemma spec_rename_restored:
  assumes u: "en_euid en = u" and q: "q \<notin> protected exe t"
  shows "spec u (\<lambda>f. pending en ep exe t f \<and> prog u (old_data ep) (old_mode ep) (f q)) (rename q exe) (\<lambda>_. reverted en ep exe t)
      (\<lambda>_. pending en ep exe t) (pending en ep exe t)"
proof (rule spec_conseq[OF spec_rename[where P = "\<lambda>f. pending en ep exe t f \<and> prog u (old_data ep) (old_mode ep) (f q)"
      and R = "pending en ep exe t" and C = "pending en ep exe t" and Q = "\<lambda>_. reverted en ep exe t"]])
  fix f i assume f: "pending en ep exe t f \<and> prog u (old_data ep) (old_mode ep) (f q)" "f q = Some i"
  then have "pending en ep exe t (f(q := None))" using pending_upd[OF q, of en None] by simp
  from pending_restored[OF this, of i] show "reverted en ep exe t (f(q := None, exe \<mapsto> i))" using f u by (simp add: reverted_def)
qed auto

lemma spec_clone_previous:
  assumes u: "en_euid en = u" and dm: "prior ep = Some (d, m)" "m \<noteq> 0"
  shows "spec u (reverted en ep exe t) (cloneToTemp (PreviousBackupPath t) (path_dir exe) (''.'' @ binaryName @ ''-previous-restore-'') m)
      (\<lambda>q f. q \<notin> protected exe t \<and> reverted en ep exe t f \<and> prog u d m (f q)) (\<lambda>_. reverted en ep exe t) (reverted en ep exe t)"
proof (rule spec_conseq[OF spec_cloneToTemp[where I = "reverted en ep exe t" and N = "\<lambda>q. q \<notin> protected exe t"]])
  show "reverted en ep exe t (f(p := v))" if "p \<notin> protected exe t" "reverted en ep exe t f" "plainish u v" for f p v
    using that u by (auto simp: reverted_def pending_upd protected_def)
  show "f_data i = d" if "reverted en ep exe t f" "f (PreviousBackupPath t) = Some i" for f i
    using that dm by (auto simp: reverted_def pending_def backups_def holds_data_def)
qed (use dm in \<open>auto dest: pending_fresh simp: reverted_def\<close>)

lemma spec_rename_previous:
  assumes u: "en_euid en = u" and q: "q \<notin> protected exe t" and dm: "prior ep = Some (d, m)"
  shows "spec u (\<lambda>f. reverted en ep exe t f \<and> prog u d m (f q)) (rename q (previousPath exe))
      (\<lambda>_ f. pending en ep exe t f \<and> at_old u ep exe f) (\<lambda>_. pending en ep exe t) (pending en ep exe t)"
proof (rule spec_conseq[OF spec_rename[where P = "\<lambda>f. reverted en ep exe t f \<and> prog u d m (f q)" and R = "pending en ep exe t"
      and C = "pending en ep exe t" and Q = "\<lambda>_ f. pending en ep exe t f \<and> at_old u ep exe f"]])
  fix f i assume f: "reverted en ep exe t f \<and> prog u d m (f q)" "f q = Some i"
  then have "pending en ep exe t (f(q := None))" using pending_upd[OF q, of en None] by (simp add: reverted_def)
  from pending_target[OF this, of "Some i"] have "pending en ep exe t (f(q := None, previousPath exe \<mapsto> i))"
    using f u by (auto simp: prog_def)
  moreover have "q \<noteq> exe" using q by (auto simp: protected_def)
  ultimately show "pending en ep exe t (f(q := None, previousPath exe \<mapsto> i)) \<and> at_old u ep exe (f(q := None, previousPath exe \<mapsto> i))"
    using f dm u by (auto simp: at_old_def reverted_def)
qed (auto simp: reverted_def)

lemma at_old_without_previous:
  "reverted en ep exe t f \<Longrightarrow> PreviousBackupPath t = '''' \<Longrightarrow>
   pending en ep exe t (f(previousPath exe := None)) \<and> at_old (en_euid en) ep exe (f(previousPath exe := None))"
  using pending_target[of en ep exe t f None] by (auto simp: reverted_def at_old_def pending_def backups_def split: option.splits)

lemma reverted_previous:
  "reverted en ep exe t f \<Longrightarrow> PreviousBackupPath t \<noteq> '''' \<Longrightarrow>
   \<exists>d. prior ep = Some (d, PreviousMode t) \<and> holds_data (en_euid en) d (f (PreviousBackupPath t))"
  by (auto simp: reverted_def pending_def backups_def split: option.splits)

text \<open>The deferred removal of a restored copy.\<close>

lemma spec_deferred_remove:
  assumes u: "en_euid en = u" and q: "q \<notin> protected exe t"
    and m: "spec u P m (\<lambda>_ f. b \<and> rolled_back en ep exe t f) (\<lambda>_. undoing en ep exe t) (undoing en ep exe t)"
  shows "spec u P (deferred m (remove q)) (\<lambda>_ f. b \<and> rolled_back en ep exe t f) (\<lambda>_. undoing en ep exe t) (undoing en ep exe t)"
proof (rule spec_deferred[OF m])
  show "spec u (\<lambda>f. b \<and> rolled_back en ep exe t f) (remove q) (\<lambda>_ f. b \<and> rolled_back en ep exe t f)
      (\<lambda>_ f. b \<and> rolled_back en ep exe t f) (undoing en ep exe t)"
    by (rule spec_static, rule spec_conseq[OF spec_remove_undoing[OF q u, of "rolled_back en ep exe t"]]) (auto simp: undoing_def)
  show "spec u (undoing en ep exe t) (remove q) (\<lambda>_. undoing en ep exe t) (\<lambda>_. undoing en ep exe t) (undoing en ep exe t)"
    by (rule spec_remove_undoing[OF q u]) simp
qed

lemma spec_restorePrevious:
  assumes u: "en_euid en = u" and tt: "same_txn tt t" and ep: "ok_episode ep"
  shows "spec u (reverted en ep exe t) (restorePrevious en exe tt cause)
     (\<lambda>_ f. cause = None \<and> rolled_back en ep exe t f) (\<lambda>_. undoing en ep exe t) (undoing en ep exe t)"
proof -
  let ?P = "reverted en ep exe t" and ?U = "undoing en ep exe t"
  let ?PO = "\<lambda>f. pending en ep exe t f \<and> at_old u ep exe f"
  let ?Q = "\<lambda>_ f. cause = None \<and> rolled_back en ep exe t f"
  note fields = same_txn_fields[OF tt]
  note fin = spec_finishRollback[OF u tt, of ep exe cause]
  have PU: "?P f \<Longrightarrow> ?U f" "pending en ep exe t f \<Longrightarrow> ?U f" for f by (simp_all add: reverted_def undoing_def)
  show ?thesis
  proof (cases "PreviousBackupPath t = ''''")
    case True
    have rm: "spec u ?P (remove (previousPath exe)) (\<lambda>_. ?PO) (\<lambda>e f. ?P f \<and> (is_not_exist e \<longrightarrow> ?PO f)) ?U"
      by (rule spec_conseq[OF spec_remove_strict[where P = ?P and R = ?P and C = ?P and Q = ?PO]])
         (use at_old_without_previous[OF _ True] u PU in auto)
    show ?thesis unfolding restorePrevious_def Let_def fields if_P[OF True]
      by (rule spec_tryio[OF rm _ fin]) (auto intro: spec_pre[OF _ fin] spec_throw PU)
  next
    case pb: False
    show ?thesis
    proof (rule spec_split[where P' = "\<lambda>d f. prior ep = Some (d, PreviousMode t) \<and> ?P f"])
      show "\<exists>d. prior ep = Some (d, PreviousMode t) \<and> ?P f" if "?P f" for f using reverted_previous[OF that pb] that by blast
      fix d
      show "spec u (\<lambda>f. prior ep = Some (d, PreviousMode t) \<and> ?P f) (restorePrevious en exe tt cause) ?Q (\<lambda>_. ?U) ?U"
      proof (rule spec_static)
        assume dm: "prior ep = Some (d, PreviousMode t)"
        let ?m = "PreviousMode t" and ?pre = "''.'' @ binaryName @ ''-previous-restore-''"
        have okm: "validatedTransactionMode ?m = Inr ?m" "?m \<noteq> 0" using ep dm ok_mode_valid by (auto simp: ok_episode_def)
        have val: "spec u ?P (lift g) (\<lambda>_. ?P) (\<lambda>_. ?P) ?U" for g :: "file_system \<Rightarrow> up_error + unit"
          by (rule spec_lift)
        have cl: "spec u ?P (cloneToTemp (PreviousBackupPath t) (path_dir exe) ?pre ?m)
            (\<lambda>q f. q \<notin> protected exe t \<and> ?P f \<and> prog u d ?m (f q)) (\<lambda>_. ?P) ?U"
          by (rule spec_conseq[OF spec_clone_previous[OF u dm okm(2)]]) (auto intro: PU)
        have rn: "spec u (\<lambda>f. ?P f \<and> prog u d ?m (f q)) (rename q (previousPath exe)) (\<lambda>_. ?PO) (\<lambda>_. ?U) ?U"
          if "q \<notin> protected exe t" for q
          by (rule spec_conseq[OF spec_rename_previous[OF u that dm]]) (auto intro: PU)
        have inner: "spec u (\<lambda>f. ?P f \<and> prog u d ?m (f q))
            (deferred (tryio (rename q (previousPath exe)) (\<lambda>e. throw (join_cause cause (Wrap ''restore prior previous executable'' e)))
                (\<lambda>_. finishRollback en exe tt cause)) (remove q)) ?Q (\<lambda>_. ?U) ?U" if q: "q \<notin> protected exe t" for q
          by (rule spec_deferred_remove[OF u q]) (rule spec_tryio[OF rn[OF q] spec_throw fin], assumption)
        show "spec u ?P (restorePrevious en exe tt cause) ?Q (\<lambda>_. ?U) ?U"
          unfolding restorePrevious_def Let_def fields if_not_P[OF pb] okm(1) sum.case
          by (rule spec_tryio[OF val spec_throw], rule PU, assumption, rule spec_tryio[OF cl spec_throw], rule PU, assumption,
              rule spec_static, rule inner)
      qed
    qed
  qed
qed

lemma spec_rollback:
  assumes u: "en_euid en = u" and tt: "same_txn tt t" and ep: "ok_episode ep"
  shows "spec u (pending en ep exe t) (rollbackTransaction en exe tt cause)
     (\<lambda>_ f. cause = None \<and> rolled_back en ep exe t f) (\<lambda>_. undoing en ep exe t) (undoing en ep exe t)"
proof -
  let ?P = "pending en ep exe t" and ?U = "undoing en ep exe t" and ?m = "old_mode ep" and ?d = "old_data ep"
  let ?Q = "\<lambda>_ f. cause = None \<and> rolled_back en ep exe t f"
  note fields = same_txn_fields[OF tt]
  have PU: "?P f \<Longrightarrow> ?U f" for f by (simp add: undoing_def)
  have okm: "validatedTransactionMode ?m = Inr ?m" "?m \<noteq> 0" using ep ok_mode_valid by (auto simp: ok_episode_def)
  have cl: "spec u ?P (cloneToTemp (BackupPath t) (path_dir exe) (''.'' @ binaryName @ ''-restore-'') ?m)
      (\<lambda>q f. q \<notin> protected exe t \<and> ?P f \<and> prog u ?d ?m (f q)) (\<lambda>_. ?P) ?U"
    by (rule spec_conseq[OF spec_clone_backup[OF u okm(2)]]) (auto intro: PU)
  have rn: "spec u (\<lambda>f. ?P f \<and> prog u ?d ?m (f q)) (rename q exe) (\<lambda>_. reverted en ep exe t) (\<lambda>_. ?U) ?U"
    if "q \<notin> protected exe t" for q
    by (rule spec_conseq[OF spec_rename_restored[OF u that]]) (auto intro: PU)
  have inner: "spec u (\<lambda>f. ?P f \<and> prog u ?d ?m (f q))
      (deferred (tryio (rename q exe) (\<lambda>e. throw (join_cause cause (Wrap ''restore previous executable'' e)))
          (\<lambda>_. restorePrevious en exe tt cause)) (remove q)) ?Q (\<lambda>_. ?U) ?U" if q: "q \<notin> protected exe t" for q
    by (rule spec_deferred_remove[OF u q]) (rule spec_tryio[OF rn[OF q] spec_throw spec_restorePrevious[OF u tt ep]], assumption)
  show ?thesis
  proof (rule spec_pre[where P' = "\<lambda>f. Mode t = ?m \<and> ?P f"])
    show "Mode t = ?m \<and> ?P f" if "?P f" for f using that by (auto simp: pending_def backups_def)
    show "spec u (\<lambda>f. Mode t = ?m \<and> ?P f) (rollbackTransaction en exe tt cause) ?Q (\<lambda>_. ?U) ?U"
    proof (rule spec_static)
      assume m: "Mode t = ?m"
      show "spec u ?P (rollbackTransaction en exe tt cause) ?Q (\<lambda>_. ?U) ?U"
        unfolding rollbackTransaction_def fields m okm(1) sum.case
        by (rule spec_tryio[OF cl spec_throw], rule PU, assumption, rule spec_static, rule inner)
    qed
  qed
qed

section \<open>Recovery\<close>

definition safe :: "install_env \<Rightarrow> episode \<Rightarrow> string \<Rightarrow> file_system \<Rightarrow> bool" where
  "safe en ep exe f \<longleftrightarrow>
    (at_old (en_euid en) ep exe f \<or> at_new (en_euid en) ep exe f) \<and> f (transactionPath exe) = None \<or>
    (\<exists>t. finishing en exe (at_old (en_euid en) ep exe) t f \<or> finishing en exe (at_new (en_euid en) ep exe) t f) \<or>
    (\<exists>t. pending en ep exe t f)"

definition kept :: "install_env \<Rightarrow> episode \<Rightarrow> string \<Rightarrow> (file_system \<Rightarrow> bool) \<Rightarrow> file_system \<Rightarrow> bool" where
  "kept en ep exe X f \<longleftrightarrow> X f \<and> f (transactionPath exe) = None \<or> (\<exists>t. finishing en exe X t f)"

lemma safe_kept: "kept en ep exe (at_old (en_euid en) ep exe) f \<Longrightarrow> safe en ep exe f"
  "kept en ep exe (at_new (en_euid en) ep exe) f \<Longrightarrow> safe en ep exe f"
  by (auto simp: safe_def kept_def)

lemma kept_cases: "finishing en exe X t f \<or> cleaned en exe X t f \<Longrightarrow> kept en ep exe X f"
  by (auto simp: kept_def cleaned_def)

lemma undoing_safe: "undoing en ep exe t f \<Longrightarrow> safe en ep exe f"
  by (auto simp: undoing_def rolled_back_def safe_def cleaned_def)

lemma rolled_back_kept: "rolled_back en ep exe t f \<Longrightarrow> kept en ep exe (at_old (en_euid en) ep exe) f"
  by (auto simp: rolled_back_def intro: kept_cases)

lemma target_exists: "at_old u ep exe f \<Longrightarrow> f exe \<noteq> None" "at_new u ep exe f \<Longrightarrow> f exe \<noteq> None"
  by (auto simp: at_old_def at_new_def prog_def)

lemma not_recorded: "finishing en exe X t f \<Longrightarrow> f (transactionPath exe) \<noteq> None" "pending en ep exe t f \<Longrightarrow> f (transactionPath exe) \<noteq> None"
  by (auto simp: finishing_def pending_def recorded_def)

lemma owned_not_exist: "validateOwnedRegular en p b f = Inl e \<Longrightarrow> is_not_exist e \<Longrightarrow> f p = None"
  by (auto simp: validateOwnedRegular_def Lstat_def sum_bind_def split: if_splits option.splits)

text \<open>Recovery with a known transaction record: what it decodes is t.\<close>

lemma spec_recover_recorded:
  assumes u: "en_euid en = u"
    and rec: "\<And>f. P f \<Longrightarrow> recorded en exe t f"
    and tail: "spec u P (if \<not> list_all (\<lambda>a. path_dir a = path_dir exe) [BackupPath t, CandidatePath t, PreviousCandidate t]
      then throw (ErrText ''transaction paths leave executable directory'')
      else if PreviousBackupPath t \<noteq> '''' \<and> path_dir (PreviousBackupPath t) \<noteq> path_dir exe
      then throw (ErrText ''transaction paths leave executable directory'')
      else if Committed t
      then tryio (cleanupCommittedTransaction en exe t) throw (\<lambda>_. ret False)
      else ck ''unsafe rollback file'' (lift (validateOwnedRegular en (BackupPath t) False)) (\<lambda>_.
        tryio (rollbackTransaction en exe t None) throw (\<lambda>_. ret True))) Q (\<lambda>_. R) C"
    and PR: "\<And>f. P f \<Longrightarrow> R f \<and> C f"
  shows "spec u P (recoverInterruptedUpdate en exe) Q (\<lambda>_. R) C"
  unfolding recoverInterruptedUpdate_def Let_def
proof (rule spec_tryio)
  let ?tx = "transactionPath exe"
  show "spec u P (lift (validateOwnedRegular en ?tx False)) (\<lambda>_. P) (\<lambda>e f. P f \<and> \<not> is_not_exist e) C"
    by (rule spec_lift) (auto dest!: owned_not_exist rec simp: recorded_def)
  show "spec u (\<lambda>f. P f \<and> \<not> is_not_exist e) (if is_not_exist e then ret False else throw (Wrap ''unsafe transaction file'' e)) Q (\<lambda>_. R) C" for e
    by (cases "is_not_exist e") (auto simp: PR spec_def throw_def)
  have st: "spec u P (lift (Lstat ?tx)) (\<lambda>i f. length (f_data i) \<le> 65536 \<and> P f) (\<lambda>_. P) C"
    by (rule spec_lift) (auto simp: Lstat_def recorded_def dest!: rec split: option.splits)
  have op: "spec u P (open_file ?tx) (\<lambda>i f. en_decode en (f_data i) = Some t \<and> P f) (\<lambda>_. P) C"
    by (rule spec_conseq[OF spec_open_file[where P = P and R = P and C = P and Q = "\<lambda>i f. en_decode en (f_data i) = Some t \<and> P f"]])
       (auto simp: PR recorded_def dest!: rec)
  have fin: "spec u (\<lambda>f. en_decode en (f_data i) = Some t \<and> P f) (case en_decode en (f_data i) of
      None \<Rightarrow> throw (ErrText ''decode transaction'')
    | Some txn \<Rightarrow> if \<not> list_all (\<lambda>a. path_dir a = path_dir exe) [BackupPath txn, CandidatePath txn, PreviousCandidate txn]
      then throw (ErrText ''transaction paths leave executable directory'')
      else if PreviousBackupPath txn \<noteq> '''' \<and> path_dir (PreviousBackupPath txn) \<noteq> path_dir exe
      then throw (ErrText ''transaction paths leave executable directory'')
      else if Committed txn
      then tryio (cleanupCommittedTransaction en exe txn) throw (\<lambda>_. ret False)
      else ck ''unsafe rollback file'' (lift (validateOwnedRegular en (BackupPath txn) False)) (\<lambda>_.
        tryio (rollbackTransaction en exe txn None) throw (\<lambda>_. ret True))) Q (\<lambda>_. R) C" for i
    by (rule spec_static, simp only: option.case, rule tail)
  show "spec u P (tryio (lift (Lstat ?tx)) throw (\<lambda>info.
      if 65536 < length (f_data info) then throw (ErrText ''transaction file exceeds size policy'')
      else tryio (open_file ?tx) throw (\<lambda>file. case en_decode en (f_data file) of
      None \<Rightarrow> throw (ErrText ''decode transaction'')
    | Some txn \<Rightarrow> if \<not> list_all (\<lambda>a. path_dir a = path_dir exe) [BackupPath txn, CandidatePath txn, PreviousCandidate txn]
      then throw (ErrText ''transaction paths leave executable directory'')
      else if PreviousBackupPath txn \<noteq> '''' \<and> path_dir (PreviousBackupPath txn) \<noteq> path_dir exe
      then throw (ErrText ''transaction paths leave executable directory'')
      else if Committed txn
      then tryio (cleanupCommittedTransaction en exe txn) throw (\<lambda>_. ret False)
      else ck ''unsafe rollback file'' (lift (validateOwnedRegular en (BackupPath txn) False)) (\<lambda>_.
        tryio (rollbackTransaction en exe txn None) throw (\<lambda>_. ret True))))) Q (\<lambda>_. R) C"
    by (rule spec_tryio[OF st spec_throw], simp add: PR, rule spec_static, simp only: not_less[symmetric] if_False,
        rule spec_tryio[OF op spec_throw fin]) (simp add: PR)
qed

end
