(* ===== verification/Update_Proof.thy ===== *)
theory Update_Proof
  imports Update_Safety
begin

text \<open>
  The triples of recovery and of the installer as a whole, and the crash-safety properties of the
  self-updater: no outcome loses the executable, success means the new program with the old one as
  .previous, and recovery restores or completes.
\<close>

section \<open>Recovery\<close>

lemma spec_recover_none:
  "spec u (\<lambda>f. X f \<and> f (transactionPath exe) = None) (recoverInterruptedUpdate en exe)
     (\<lambda>b f. \<not> b \<and> X f \<and> f (transactionPath exe) = None) (\<lambda>_ f. X f \<and> f (transactionPath exe) = None)
     (\<lambda>f. X f \<and> f (transactionPath exe) = None)"
proof -
  let ?P = "\<lambda>f. X f \<and> f (transactionPath exe) = None"
  have v: "spec u ?P (lift (validateOwnedRegular en (transactionPath exe) False)) (\<lambda>_ _. False) (\<lambda>_. ?P) ?P"
    by (rule spec_lift) (auto simp: validateOwnedRegular_def Lstat_def split: if_splits)
  have no: "spec u (\<lambda>_. False) m Q R C" for m :: "(up_error, bool) io" and Q R C by (simp add: spec_def)
  show ?thesis unfolding recoverInterruptedUpdate_def Let_def
  proof (rule spec_tryio[OF v _ no])
    fix e
    show "spec u ?P (if is_not_exist e then ret False else throw (Wrap ''unsafe transaction file'' e)) (\<lambda>b f. \<not> b \<and> ?P f) (\<lambda>_. ?P) ?P"
      by (auto intro: spec_ret spec_throw)
  qed
qed

lemma finishing_layout: "finishing en exe X t f \<Longrightarrow> Committed t \<and> layout exe t \<and> recorded en exe t f"
  by (simp add: finishing_def)

lemma layout_dirs:
  assumes "layout exe t"
  shows "list_all (\<lambda>a. path_dir a = path_dir exe) [BackupPath t, CandidatePath t, PreviousCandidate t]"
    "PreviousBackupPath t \<noteq> '''' \<Longrightarrow> path_dir (PreviousBackupPath t) = path_dir exe"
  using assms by (auto simp: layout_def)

lemma spec_recover_finishing:
  assumes u: "en_euid en = u" and X: "about_target exe X" "\<And>f. X f \<Longrightarrow> f exe \<noteq> None"
  shows "spec u (finishing en exe X t) (recoverInterruptedUpdate en exe)
     (\<lambda>b f. \<not> b \<and> X f \<and> f (transactionPath exe) = None) (\<lambda>_. kept en ep exe X) (kept en ep exe X)"
proof -
  let ?F = "finishing en exe X t"
  let ?Q = "\<lambda>b f. \<not> b \<and> X f \<and> f (transactionPath exe) = None" and ?K = "kept en ep exe X"
  have cl: "spec u ?F (cleanupCommittedTransaction en exe t) (\<lambda>_ f. X f \<and> f (transactionPath exe) = None) (\<lambda>_. ?K) ?K"
    by (rule spec_conseq[OF spec_cleanup[where X = X and exe = exe and en = en and u = u and t = t]]) (use X u in \<open>auto intro: kept_cases simp: cleaned_def\<close>)
  show ?thesis
  proof (rule spec_pre[where P' = "\<lambda>f. (Committed t \<and> layout exe t) \<and> ?F f"])
    show "spec u (\<lambda>f. (Committed t \<and> layout exe t) \<and> ?F f) (recoverInterruptedUpdate en exe) ?Q (\<lambda>_. ?K) ?K"
    proof (rule spec_static, rule spec_recover_recorded[OF u, where t = t])
      assume t: "Committed t \<and> layout exe t"
      note dirs = layout_dirs[OF conjunct2[OF t]]
      show "spec u ?F (if \<not> list_all (\<lambda>a. path_dir a = path_dir exe) [BackupPath t, CandidatePath t, PreviousCandidate t]
          then throw (ErrText ''transaction paths leave executable directory'')
          else if PreviousBackupPath t \<noteq> '''' \<and> path_dir (PreviousBackupPath t) \<noteq> path_dir exe
          then throw (ErrText ''transaction paths leave executable directory'')
          else if Committed t
          then tryio (cleanupCommittedTransaction en exe t) throw (\<lambda>_. ret False)
          else ck ''unsafe rollback file'' (lift (validateOwnedRegular en (BackupPath t) False)) (\<lambda>_.
            tryio (rollbackTransaction en exe t None) throw (\<lambda>_. ret True))) ?Q (\<lambda>_. ?K) ?K"
        using dirs t by (auto intro!: spec_tryio[OF cl] intro: spec_throw spec_ret)
    qed (auto simp: finishing_def kept_def)
  qed (use finishing_layout in auto)
qed

lemma spec_recover_pending:
  assumes u: "en_euid en = u" and ep: "ok_episode ep"
  shows "spec u (pending en ep exe t) (recoverInterruptedUpdate en exe)
     (\<lambda>b. kept en ep exe (at_old u ep exe)) (\<lambda>_. undoing en ep exe t) (undoing en ep exe t)"
proof -
  let ?P = "pending en ep exe t" and ?U = "undoing en ep exe t" and ?Q = "\<lambda>b :: bool. kept en ep exe (at_old u ep exe)"
  have v: "spec u ?P (lift g) (\<lambda>_. ?P) (\<lambda>_. ?P) ?U" for g :: "file_system \<Rightarrow> up_error + unit"
    by (rule spec_lift)
  have rb: "spec u ?P (rollbackTransaction en exe t None) (\<lambda>_. kept en ep exe (at_old u ep exe)) (\<lambda>_. ?U) ?U"
    by (rule spec_conseq[OF spec_rollback[OF u _ ep]]) (auto dest: rolled_back_kept simp: u)
  show ?thesis
  proof (rule spec_pre[where P' = "\<lambda>f. (\<not> Committed t \<and> layout exe t) \<and> ?P f"])
    show "spec u (\<lambda>f. (\<not> Committed t \<and> layout exe t) \<and> ?P f) (recoverInterruptedUpdate en exe) ?Q (\<lambda>_. ?U) ?U"
    proof (rule spec_static, rule spec_recover_recorded[OF u, where t = t])
      assume t: "\<not> Committed t \<and> layout exe t"
      note dirs = layout_dirs[OF conjunct2[OF t]]
      have "spec u ?P (ck ''unsafe rollback file'' (lift (validateOwnedRegular en (BackupPath t) False)) (\<lambda>_.
            tryio (rollbackTransaction en exe t None) throw (\<lambda>_. ret True))) ?Q (\<lambda>_. ?U) ?U"
        by (rule spec_ck[OF v], simp add: undoing_def, rule spec_tryio[OF rb spec_throw spec_ret]) auto
      then show "spec u ?P (if \<not> list_all (\<lambda>a. path_dir a = path_dir exe) [BackupPath t, CandidatePath t, PreviousCandidate t]
          then throw (ErrText ''transaction paths leave executable directory'')
          else if PreviousBackupPath t \<noteq> '''' \<and> path_dir (PreviousBackupPath t) \<noteq> path_dir exe
          then throw (ErrText ''transaction paths leave executable directory'')
          else if Committed t
          then tryio (cleanupCommittedTransaction en exe t) throw (\<lambda>_. ret False)
          else ck ''unsafe rollback file'' (lift (validateOwnedRegular en (BackupPath t) False)) (\<lambda>_.
            tryio (rollbackTransaction en exe t None) throw (\<lambda>_. ret True))) ?Q (\<lambda>_. ?U) ?U"
        using dirs t by auto
    qed (auto simp: pending_def undoing_def)
  qed (auto simp: pending_def)
qed

lemma spec_recover:
  assumes u: "en_euid en = u" and ep: "ok_episode ep"
  shows "spec u (safe en ep exe) (recoverInterruptedUpdate en exe)
     (\<lambda>_ f. kept en ep exe (at_old u ep exe) f \<or> kept en ep exe (at_new u ep exe) f) (\<lambda>_. safe en ep exe) (safe en ep exe)"
proof -
  let ?Q = "\<lambda>_ f. kept en ep exe (at_old u ep exe) f \<or> kept en ep exe (at_new u ep exe) f" and ?S = "safe en ep exe"
  have a: "spec u (\<lambda>f. (at_old u ep exe f \<or> at_new u ep exe f) \<and> f (transactionPath exe) = None) (recoverInterruptedUpdate en exe) ?Q (\<lambda>_. ?S) ?S"
    by (rule spec_conseq[OF spec_recover_none[where X = "\<lambda>f. at_old u ep exe f \<or> at_new u ep exe f"]])
       (use u in \<open>auto simp: kept_def safe_def\<close>)
  have b: "spec u (finishing en exe (X u ep exe) t) (recoverInterruptedUpdate en exe) ?Q (\<lambda>_. ?S) ?S"
    if "X = at_old \<or> X = at_new" for X t
    by (rule spec_conseq[OF spec_recover_finishing[OF u, where X = "X u ep exe" and ep = ep]])
       (use that u safe_kept[of en ep exe] in \<open>auto dest: target_exists simp: kept_def\<close>)
  have c: "spec u (pending en ep exe t) (recoverInterruptedUpdate en exe) ?Q (\<lambda>_. ?S) ?S" for t
    by (rule spec_conseq[OF spec_recover_pending[OF u ep]]) (auto intro: undoing_safe)
  let ?K = "\<lambda>k f. (case k of None \<Rightarrow> (at_old u ep exe f \<or> at_new u ep exe f) \<and> f (transactionPath exe) = None
      | Some (Inl (False, t)) \<Rightarrow> finishing en exe (at_old u ep exe) t f | Some (Inl (True, t)) \<Rightarrow> finishing en exe (at_new u ep exe) t f
      | Some (Inr t) \<Rightarrow> pending en ep exe t f)"
  show ?thesis
  proof (rule spec_split[where P' = ?K])
    show "\<exists>k. ?K k f" if S: "safe en ep exe f" for f
    proof -
      consider "(at_old u ep exe f \<or> at_new u ep exe f) \<and> f (transactionPath exe) = None"
        | t where "finishing en exe (at_old u ep exe) t f" | t where "finishing en exe (at_new u ep exe) t f" | t where "pending en ep exe t f"
        using S u by (auto simp: safe_def)
      then show ?thesis
      proof cases
        case 1 then show ?thesis by (intro exI[of _ None]) simp
      next
        case 2 then show ?thesis by (intro exI[of _ "Some (Inl (False, t))" for t]) simp
      next
        case 3 then show ?thesis by (intro exI[of _ "Some (Inl (True, t))" for t]) simp
      next
        case 4 then show ?thesis by (intro exI[of _ "Some (Inr t)" for t]) simp
      qed
    qed
    show "spec u (?K k) (recoverInterruptedUpdate en exe) ?Q (\<lambda>_. ?S) ?S" for k
    proof (cases k)
      case None
      then show ?thesis using a by simp
    next
      case (Some x)
      show ?thesis
      proof (cases x)
        case (Inl y)
        obtain c t where y: "y = (c, t)" by fastforce
        show ?thesis using b[of at_old] b[of at_new] by (cases c) (simp_all add: Some Inl y)
      next
        case (Inr t)
        then show ?thesis using c by (simp add: Some)
      qed
    qed
  qed
qed

section \<open>The installer\<close>

definition base :: "install_env \<Rightarrow> episode \<Rightarrow> string \<Rightarrow> file_system \<Rightarrow> bool" where
  "base en ep exe f \<longleftrightarrow> at_old (en_euid en) ep exe f \<and> f (transactionPath exe) = None"

definition finished :: "install_env \<Rightarrow> episode \<Rightarrow> string \<Rightarrow> bool \<times> 'a \<Rightarrow> file_system \<Rightarrow> bool" where
  "finished en ep exe r f \<longleftrightarrow> (if fst r then kept en ep exe (at_new (en_euid en) ep exe) f
     else at_new (en_euid en) ep exe f \<and> f (transactionPath exe) = None)"

definition aborted :: "install_env \<Rightarrow> episode \<Rightarrow> string \<Rightarrow> bool \<times> 'a \<Rightarrow> file_system \<Rightarrow> bool" where
  "aborted en ep exe r f \<longleftrightarrow> (if fst r then \<exists>t. undoing en ep exe t f else base en ep exe f)"

definition killed_ok :: "install_env \<Rightarrow> episode \<Rightarrow> string \<Rightarrow> file_system \<Rightarrow> bool" where
  "killed_ok en ep exe f \<longleftrightarrow> base en ep exe f \<or> (\<exists>t. undoing en ep exe t f) \<or> kept en ep exe (at_new (en_euid en) ep exe) f"

definition targets :: "string \<Rightarrow> string set" where
  "targets exe = {exe, previousPath exe, transactionPath exe}"

lemma outcome_simps [simp]:
  "aborted en ep exe (False, e) = base en ep exe" "aborted en ep exe (True, e) = (\<lambda>f. \<exists>t. undoing en ep exe t f)"
  "finished en ep exe (False, x) = (\<lambda>f. at_new (en_euid en) ep exe f \<and> f (transactionPath exe) = None)"
  "finished en ep exe (True, x) = kept en ep exe (at_new (en_euid en) ep exe)"
  by (simp_all add: fun_eq_iff aborted_def finished_def)

lemma base_upd: "p \<notin> targets exe \<Longrightarrow> base en ep exe f \<Longrightarrow> base en ep exe (f(p := v))"
  by (auto simp: base_def at_old_def targets_def split: option.splits)

lemma base_fresh: "base en ep exe f \<Longrightarrow> f p = None \<Longrightarrow> temp_name dir pre p \<Longrightarrow> p \<notin> targets exe"
  using temp_name_names[of dir pre p exe] by (auto simp: base_def targets_def at_old_def)

lemma spec_defer_artifact:
  assumes m: "spec u P m (finished en ep exe) (aborted en ep exe) (killed_ok en ep exe)" and p: "p \<notin> targets exe"
  shows "spec u P (defer_artifact p m) (finished en ep exe) (aborted en ep exe) (killed_ok en ep exe)"
  unfolding defer_artifact_def
proof (rule spec_tryio[OF m])
  let ?C = "killed_ok en ep exe"
  let ?N = "\<lambda>f. at_new (en_euid en) ep exe f \<and> f (transactionPath exe) = None"
  have rb: "spec u (base en ep exe) (remove p) (\<lambda>_. base en ep exe) (\<lambda>_. base en ep exe) ?C"
    by (rule spec_conseq[OF spec_remove[where P = "base en ep exe" and R = "base en ep exe" and C = "base en ep exe" and Q = "\<lambda>_. base en ep exe"]])
       (auto simp: killed_ok_def base_upd[OF p])
  have rn: "spec u ?N (remove p) (\<lambda>_. ?N) (\<lambda>_. ?N) ?C"
    by (rule spec_conseq[OF spec_remove[where P = ?N and R = ?N and C = ?N and Q = "\<lambda>_. ?N"]])
       (use p in \<open>auto simp: killed_ok_def kept_def targets_def at_new_def\<close>)
  show "spec u (aborted en ep exe x) (case x of (owns, e) \<Rightarrow> if owns then throw (owns, e) else ignoring (remove p) (throw (owns, e)))
      (finished en ep exe) (aborted en ep exe) ?C" for x
    by (cases x) (auto intro!: spec_throw spec_ignoring[OF rb])
  show "spec u (finished en ep exe x) (case x of (owns, y) \<Rightarrow> if owns then ret (owns, y) else ignoring (remove p) (ret (owns, y)))
      (finished en ep exe) (aborted en ep exe) ?C" for x
    by (cases x) (auto intro!: spec_ret spec_ignoring[OF rn])
qed

text \<open>A step of stage one: it keeps the base state and may establish more about the temporaries.\<close>

lemma spec_ckO:
  assumes "spec u P m Q' (\<lambda>_. base en ep exe) (base en ep exe)"
    "\<And>x. spec u (Q' x) (k x) (finished en ep exe) (aborted en ep exe) (killed_ok en ep exe)"
  shows "spec u P (ckO False s m k) (finished en ep exe) (aborted en ep exe) (killed_ok en ep exe)"
proof -
  have "spec u P m Q' (\<lambda>_. base en ep exe) (killed_ok en ep exe)"
    by (rule spec_conseq[OF assms(1)]) (auto simp: killed_ok_def)
  then show ?thesis unfolding ckO_def by (rule spec_tryio[OF _ spec_throw assms(2)]) (auto simp: aborted_def)
qed

lemma spec_rolling_back:
  assumes u: "en_euid en = u" and ep: "ok_episode ep"
    and m: "spec u P m Q' (\<lambda>_. pending en ep (Executable rq) t) (pending en ep (Executable rq) t)"
    and k: "\<And>x. spec u (Q' x) (k x) (finished en ep (Executable rq)) (aborted en ep (Executable rq)) (killed_ok en ep (Executable rq))"
  shows "spec u P (rolling_back en rq t s m k) (finished en ep (Executable rq)) (aborted en ep (Executable rq)) (killed_ok en ep (Executable rq))"
proof -
  let ?C = "killed_ok en ep (Executable rq)"
  have m': "spec u P m Q' (\<lambda>_. pending en ep (Executable rq) t) ?C"
    by (rule spec_conseq[OF m]) (auto simp: killed_ok_def undoing_def)
  have rb: "spec u (pending en ep (Executable rq) t) (rollbackTransaction en (Executable rq) t (Some c)) (\<lambda>_ _. False)
      (\<lambda>_. undoing en ep (Executable rq) t) ?C" for c
    by (rule spec_conseq[OF spec_rollback[OF u _ ep, where t = t]]) (auto simp: killed_ok_def)
  show ?thesis unfolding rolling_back_def
    by (rule spec_tryio[OF m' _ k], rule spec_tryio[OF rb spec_throw]) (auto simp: aborted_def spec_def)
qed

lemma spec_commitInstall:
  assumes u: "en_euid en = u" and ep: "ok_episode ep"
  shows "spec u (\<lambda>f. pending en ep (Executable rq) t f \<and> at_new u ep (Executable rq) f) (commitInstall en rq t info)
     (finished en ep (Executable rq)) (aborted en ep (Executable rq)) (killed_ok en ep (Executable rq))"
proof -
  let ?exe = "Executable rq" and ?T = "t\<lparr>Committed := True\<rparr>"
  let ?X = "at_new u ep ?exe" and ?C = "killed_ok en ep ?exe"
  let ?F = "finishing en ?exe ?X ?T"
  have cm: "spec u (\<lambda>f. pending en ep ?exe t f \<and> ?X f) (replaceTransaction en ?exe ?T) (\<lambda>_. ?F)
      (\<lambda>e f. if is_publish_error e then ?F f else pending en ep ?exe t f) ?C"
    by (rule spec_conseq[OF spec_commit[OF about_target_states(2) u]])
       (use u in \<open>auto simp: killed_ok_def undoing_def kept_def split: if_splits\<close>)
  have rb: "spec u (pending en ep ?exe t) (rollbackTransaction en ?exe ?T (Some c)) (\<lambda>_ _. False) (\<lambda>_. undoing en ep ?exe t) ?C" for c
    by (rule spec_conseq[OF spec_rollback[OF u _ ep, where t = t]]) (auto simp: killed_ok_def)
  have cl: "spec u ?F (cleanupCommittedTransaction en ?exe ?T) (\<lambda>_ f. ?X f \<and> f (transactionPath ?exe) = None) (\<lambda>_. kept en ep ?exe ?X) ?C"
    by (rule spec_conseq[OF spec_cleanup[where X = ?X and exe = ?exe and en = en and u = u and t = ?T]])
       (use u in \<open>auto simp: killed_ok_def cleaned_def kept_def dest: target_exists\<close>)
  show ?thesis unfolding commitInstall_def Let_def
  proof (rule spec_tryio[OF cm])
    fix e
    show "spec u (\<lambda>f. if is_publish_error e then ?F f else pending en ep ?exe t f)
        (if is_publish_error e then ret (True, \<lparr>PreviousPath = previousPath ?exe, Candidate = info\<rparr>)
         else tryio (rollbackTransaction en ?exe ?T (Some (Wrap ''commit update transaction'' e))) (\<lambda>e. throw (True, e))
           (\<lambda>_. ret (True, empty_result))) (finished en ep ?exe) (aborted en ep ?exe) ?C"
    proof (cases "is_publish_error e")
      case True
      then show ?thesis using u by (auto intro!: spec_ret simp: kept_def)
    next
      case False
      have "spec u (pending en ep ?exe t) (tryio (rollbackTransaction en ?exe ?T (Some (Wrap ''commit update transaction'' e))) (\<lambda>e. throw (True, e))
           (\<lambda>_. ret (True, empty_result))) (finished en ep ?exe) (aborted en ep ?exe) ?C"
        by (rule spec_tryio[OF rb spec_throw spec_ret]) auto
      then show ?thesis using False by simp
    qed
  qed (rule spec_tryio[OF cl spec_ret spec_ret]; use u in simp)
qed

lemma pending_activated:
  "pending en ep exe t f \<Longrightarrow> prog (en_euid en) (new_data ep) (old_mode ep) (Some i) \<Longrightarrow> pending en ep exe t (f(exe \<mapsto> i))"
  by (auto simp: pending_def runnable_def recorded_def backups_def layout_def protected_def prog_def
      split: option.splits if_splits intro!: artifacts_plain_upd)

lemma pending_chmod_backup:
  "pending en ep exe t f \<Longrightarrow> f (BackupPath t) = Some i \<Longrightarrow> pending en ep exe t (f(BackupPath t \<mapsto> i\<lparr>f_perm := m\<rparr>))"
  by (auto simp: pending_def runnable_def recorded_def backups_def layout_def protected_def holds_data_def
      split: option.splits if_splits intro!: artifacts_plain_upd)

lemma spec_activateInstall:
  assumes u: "en_euid en = u" and ep: "ok_episode ep" and m: "Mode t = old_mode ep"
    and c: "CandidatePath t \<notin> protected (Executable rq) t" and pc: "PreviousCandidate t \<notin> protected (Executable rq) t"
    and ne: "CandidatePath t \<noteq> PreviousCandidate t"
  shows "spec u (\<lambda>f. pending en ep (Executable rq) t f \<and> prog u (new_data ep) (old_mode ep) (f (CandidatePath t)) \<and>
      holds_data u (old_data ep) (f (PreviousCandidate t))) (activateInstall en rq t info)
     (finished en ep (Executable rq)) (aborted en ep (Executable rq)) (killed_ok en ep (Executable rq))"
proof -
  let ?exe = "Executable rq" and ?c = "CandidatePath t" and ?pc = "PreviousCandidate t" and ?b = "BackupPath t"
  let ?P = "pending en ep ?exe t"
  let ?A = "\<lambda>f. ?P f \<and> prog u (new_data ep) (old_mode ep) (f ?c) \<and> holds_data u (old_data ep) (f ?pc)"
  let ?B = "\<lambda>f. ?P f \<and> prog u (new_data ep) (old_mode ep) (f ?exe) \<and> holds_data u (old_data ep) (f ?pc)"
  let ?D = "\<lambda>f. ?P f \<and> prog u (new_data ep) (old_mode ep) (f ?exe) \<and> prog u (old_data ep) (old_mode ep) (f ?pc)"
  let ?N = "\<lambda>f. ?P f \<and> at_new u ep ?exe f"
  have nexe: "?c \<noteq> ?exe" "?pc \<noteq> ?exe" "?pc \<noteq> ?b" "?pc \<noteq> previousPath ?exe" using c pc by (auto simp: protected_def)
  have s1: "spec u ?A (rename ?c ?exe) (\<lambda>_. ?B) (\<lambda>_. ?P) ?P"
  proof (rule spec_conseq[OF spec_rename[where P = ?A and R = ?P and C = ?P and Q = "\<lambda>_. ?B"]])
    fix f i assume f: "?A f" "f ?c = Some i"
    then have "?P (f(?c := None))" using pending_upd[OF c, of en None] by simp
    from pending_activated[OF this, of i] show "?B (f(?c := None, ?exe \<mapsto> i))" using f u nexe ne by simp
  qed auto
  have sB: "spec u ?B (syncDirectory d) (\<lambda>_. ?B) (\<lambda>_. ?P) ?P" for d
    by (rule spec_conseq[OF spec_syncDirectory[where P = ?B]]) auto
  have sN: "spec u ?N (syncDirectory d) (\<lambda>_. ?N) (\<lambda>_. ?P) ?P" for d
    by (rule spec_conseq[OF spec_syncDirectory[where P = ?N]]) auto
  have v: "spec u ?B (lift g) (\<lambda>_. ?B) (\<lambda>_. ?P) ?P" for g :: "file_system \<Rightarrow> up_error + porcelain_info"
    by (rule spec_lift) auto
  have s4: "spec u ?B (chmod ?b k) (\<lambda>_. ?B) (\<lambda>_. ?P) ?P" for k
  proof (rule spec_conseq[OF spec_chmod[where P = ?B and R = ?P and C = ?P and Q = "\<lambda>_. ?B"]])
    fix f i assume f: "?B f" "f ?b = Some i"
    then have "?P (f(?b \<mapsto> i\<lparr>f_perm := k\<rparr>))" using pending_chmod_backup by blast
    then show "?B (f(?b \<mapsto> i\<lparr>f_perm := k\<rparr>))" using f nexe pending_layout[of en ep ?exe t f] by (auto simp: layout_def)
  qed auto
  have s5: "spec u ?B (chmod ?pc (old_mode ep)) (\<lambda>_. ?D) (\<lambda>_. ?P) ?P"
    by (rule spec_conseq[OF spec_chmod[where P = ?B and R = ?P and C = ?P and Q = "\<lambda>_. ?D"]])
       (use pending_upd[OF pc] u nexe in \<open>auto simp: holds_data_def prog_def\<close>)
  have s6: "spec u ?D (rename ?pc (previousPath ?exe)) (\<lambda>_. ?N) (\<lambda>_. ?P) ?P"
  proof (rule spec_conseq[OF spec_rename[where P = ?D and R = ?P and C = ?P and Q = "\<lambda>_. ?N"]])
    fix f i assume f: "?D f" "f ?pc = Some i"
    then have "?P (f(?pc := None))" using pending_upd[OF pc, of en None] by simp
    from pending_target[OF this, of "Some i"] show "?N (f(?pc := None, previousPath ?exe \<mapsto> i))"
      using f u nexe by (auto simp: at_new_def prog_def)
  qed auto
  note rolls = spec_rolling_back[OF u ep]
  show ?thesis
    unfolding activateInstall_def Let_def m
    by (rule rolls[OF s1] rolls[OF sB] rolls[OF v] rolls[OF s4] rolls[OF s5] rolls[OF s6] rolls[OF sN] spec_commitInstall[OF u ep])+
qed

section \<open>Stage one\<close>

definition tmp :: "string \<Rightarrow> string \<Rightarrow> string \<Rightarrow> bool" where
  "tmp exe kind p \<longleftrightarrow> temp_name (path_dir exe) (''.'' @ binaryName @ kind) p"

text \<open>The transactions an installation writes, and what it relies on: the directory is a clean path
  and the JSON codec reads back every such record within the size recovery accepts.\<close>

definition update_txn :: "string \<Rightarrow> string \<Rightarrow> transaction \<Rightarrow> bool" where
  "update_txn exe ver t \<longleftrightarrow> tmp exe ''-rollback-'' (BackupPath t) \<and> tmp exe ''-update-'' (CandidatePath t) \<and>
     tmp exe ''-previous-candidate-'' (PreviousCandidate t) \<and>
     (PreviousBackupPath t = '''' \<or> tmp exe ''-previous-backup-'' (PreviousBackupPath t)) \<and>
     PreviousMode t < 512 \<and> Mode t < 512 \<and> TargetVersion t = ver"

definition setup_ok :: "install_env \<Rightarrow> string \<Rightarrow> string \<Rightarrow> bool" where
  "setup_ok en exe ver \<longleftrightarrow> path_clean (path_dir exe) = path_dir exe \<and> (\<forall>t. update_txn exe ver t \<longrightarrow> fits en t)"

lemma tmp_dir:
  assumes "tmp exe k p" "path_clean (path_dir exe) = path_dir exe" "slash \<notin> set k"
  shows "path_dir p = path_dir exe"
  using temp_name_dir[of "path_dir exe" "''.'' @ binaryName @ k" p] assms by (simp add: tmp_def binaryName_def)

lemma ok_mode_bound: "ok_mode m \<Longrightarrow> m < 512"
proof -
  assume "ok_mode m"
  then have "take_bit 9 m = m" by (simp add: ok_mode_def take_bit_eq_mask mask_eq_exp_minus_1)
  then show ?thesis using take_bit_nat_less_exp[of 9 m] by simp
qed

definition staged :: "nat \<Rightarrow> episode \<Rightarrow> string \<Rightarrow> string \<Rightarrow> nat \<Rightarrow> file_system \<Rightarrow> bool" where
  "staged u ep b pb pm f \<longleftrightarrow> holds_data u (old_data ep) (f b) \<and>
     (case prior ep of None \<Rightarrow> pb = '''' \<and> pm = 0 | Some (d, m) \<Rightarrow> pb \<noteq> '''' \<and> holds_data u d (f pb) \<and> pm = m)"

definition names_ok :: "string \<Rightarrow> string \<Rightarrow> string \<Rightarrow> string \<Rightarrow> bool" where
  "names_ok exe c b pb \<longleftrightarrow> tmp exe ''-update-'' c \<and> tmp exe ''-rollback-'' b \<and> (pb = '''' \<or> tmp exe ''-previous-backup-'' pb) \<and>
     c \<notin> targets exe \<and> b \<notin> targets exe \<union> {c} \<and> (pb = '''' \<or> pb \<notin> targets exe \<union> {c, b})"

definition stage2 :: "install_env \<Rightarrow> episode \<Rightarrow> string \<Rightarrow> string \<Rightarrow> string \<Rightarrow> string \<Rightarrow> nat \<Rightarrow> file_system \<Rightarrow> bool" where
  "stage2 en ep exe c b pb pm f \<longleftrightarrow> base en ep exe f \<and> holds_data (en_euid en) (new_data ep) (f c) \<and> staged (en_euid en) ep b pb pm f"

lemma stage2_upd:
  "p \<notin> targets exe \<union> {c, b, pb} \<Longrightarrow> stage2 en ep exe c b pb pm f \<Longrightarrow> stage2 en ep exe c b pb pm (f(p := v))"
  by (auto simp: stage2_def staged_def base_upd split: option.splits)

lemma stage2_fresh:
  "stage2 en ep exe c b pb pm f \<Longrightarrow> f p = None \<Longrightarrow> temp_name dir pre p \<Longrightarrow> p \<noteq> '''' \<Longrightarrow> p \<notin> targets exe \<union> {c, b, pb}"
  using base_fresh[of en ep exe f p dir pre] by (auto simp: stage2_def staged_def split: option.splits)

lemma temp_name_nonempty: "temp_name dir pre p \<Longrightarrow> p \<noteq> ''''"
  using show_nat_last_digit by (auto simp: temp_name_def)

lemma stage2_pending:
  assumes s: "stage2 en ep exe c b pb pm f" and names: "names_ok exe c b pb" and pc: "tmp exe ''-previous-candidate-'' pc"
    "pc \<notin> targets exe \<union> {c, b, pb}" and S: "setup_ok en exe ver" and ep: "ok_episode ep" and h: "plainish (en_euid en) (f pc)"
    and t: "t = \<lparr>BackupPath = b, CandidatePath = c, PreviousCandidate = pc, PreviousBackupPath = pb, PreviousMode = pm,
      Mode = old_mode ep, TargetVersion = ver, Committed = False\<rparr>"
    and i: "plain_file (en_euid en) i" "f_data i = en_encode en t"
  shows "pending en ep exe t (f(transactionPath exe \<mapsto> i))"
proof -
  have dirs: "path_dir b = path_dir exe" "path_dir c = path_dir exe" "path_dir pc = path_dir exe" "pb \<noteq> '''' \<Longrightarrow> path_dir pb = path_dir exe"
    using names pc S by (auto simp: names_ok_def setup_ok_def intro: tmp_dir)
  have lay: "layout exe t" using dirs names pc by (auto simp: layout_def t names_ok_def targets_def protected_def)
  have "pm < 512" "old_mode ep < 512" using s ep
    by (auto simp: stage2_def staged_def ok_episode_def dest: ok_mode_bound split: option.splits)
  then have "update_txn exe ver t" "update_txn exe ver (t\<lparr>Committed := True\<rparr>)" using names pc by (auto simp: update_txn_def t names_ok_def)
  then have fit: "fits en t" "fits en (t\<lparr>Committed := True\<rparr>)" using S by (auto simp: setup_ok_def)
  have bk: "backups (en_euid en) ep t f" using s by (auto simp: backups_def stage2_def staged_def t split: option.splits)
  have ap: "artifacts_plain (en_euid en) t f" using s h bk
    by (auto simp: artifacts_plain_def artifacts_def t stage2_def backups_def dest: holds_data_plain split: option.splits)
  have tx: "transactionPath exe \<notin> {exe, b, pb}" using names by (auto simp: names_ok_def targets_def transactionPath_def)
  have "recorded en exe t (f(transactionPath exe \<mapsto> i))" using fit(1) i by (simp add: recorded_def fits_def)
  moreover have "artifacts_plain (en_euid en) t (f(transactionPath exe \<mapsto> i))" using artifacts_plain_tx[OF lay] ap by simp
  moreover have "backups (en_euid en) ep t (f(transactionPath exe \<mapsto> i))" using bk tx by (auto simp: backups_def t split: option.splits)
  moreover have "runnable (en_euid en) ep exe (f(transactionPath exe \<mapsto> i))" using s by (auto simp: stage2_def base_def at_old_def runnable_def)
  ultimately show ?thesis using lay fit(2) by (simp add: pending_def t)
qed

lemma spec_beginTransaction:
  assumes u: "en_euid en = u" and ep: "ok_episode ep" and S: "setup_ok en (Executable rq) (rq_TargetVersion rq)"
    and names: "names_ok (Executable rq) c b pb" and pc: "tmp (Executable rq) ''-previous-candidate-'' pc"
    "pc \<notin> targets (Executable rq) \<union> {c, b, pb}" and m: "f_perm info = old_mode ep"
  shows "spec u (\<lambda>f. stage2 en ep (Executable rq) c b pb pm f \<and> holds_data u (old_data ep) (f pc))
     (beginTransaction en rq info c ci b pb pm pc)
     (finished en ep (Executable rq)) (aborted en ep (Executable rq)) (killed_ok en ep (Executable rq))"
proof -
  let ?exe = "Executable rq"
  define t where "t = \<lparr>BackupPath = b, CandidatePath = c, PreviousCandidate = pc, PreviousBackupPath = pb, PreviousMode = pm,
      Mode = old_mode ep, TargetVersion = rq_TargetVersion rq, Committed = False\<rparr>"
  let ?P = "\<lambda>f. stage2 en ep ?exe c b pb pm f \<and> holds_data u (old_data ep) (f pc)"
  let ?P' = "\<lambda>f. ?P f \<and> prog u (new_data ep) (old_mode ep) (f c)"
  let ?A = "\<lambda>f. pending en ep ?exe t f \<and> prog u (new_data ep) (old_mode ep) (f c) \<and> holds_data u (old_data ep) (f pc)"
  let ?Q = "finished en ep ?exe" and ?R = "aborted en ep ?exe" and ?C = "killed_ok en ep ?exe"
  have base: "?P f \<Longrightarrow> base en ep ?exe f" for f by (simp add: stage2_def)
  have cn: "c \<notin> protected ?exe t" "pc \<notin> protected ?exe t" "c \<noteq> pc" using names pc by (auto simp: protected_def t_def names_ok_def targets_def)
  have tx: "transactionPath ?exe \<notin> {c, pc}" using names pc by (auto simp: names_ok_def targets_def)
  have v: "spec u ?P (lift g) (\<lambda>_. ?P) (\<lambda>_. base en ep ?exe) (base en ep ?exe)" for g :: "file_system \<Rightarrow> up_error + inode"
    by (rule spec_lift) (auto simp: base)
  have ch: "spec u ?P (chmod c (old_mode ep)) (\<lambda>_. ?P') (\<lambda>_. base en ep ?exe) (base en ep ?exe)"
  proof (rule spec_conseq[OF spec_chmod[where P = ?P and R = "base en ep ?exe" and C = "base en ep ?exe" and Q = "\<lambda>_. ?P'"]])
    fix f i assume f: "?P f" "f c = Some i"
    then show "?P' (f(c \<mapsto> i\<lparr>f_perm := old_mode ep\<rparr>))" using names pc u
      by (auto simp: stage2_def staged_def names_ok_def holds_data_def prog_def base_upd split: option.splits)
  qed (auto simp: base)
  have pub: "spec u ?P' (publishTransaction en ?exe t) (\<lambda>_. ?A) (\<lambda>e f. if is_publish_error e then ?A f else ?P' f) (\<lambda>f. ?P' f \<or> ?A f)"
  proof (rule spec_publishTransaction[where N = "\<lambda>p. p \<notin> targets ?exe \<union> {c, b, pb, pc}"])
    fix f p assume "?P' f" "f p = None" "temp_name (path_dir ?exe) (''.'' @ binaryName @ ''-transaction-'') p"
    then have "p \<notin> targets ?exe \<union> {c, b, pb}" "f pc \<noteq> None" "f p = None"
      using stage2_fresh[OF _ _ _ temp_name_nonempty] by (blast, auto simp: holds_data_def)
    then show "p \<notin> targets ?exe \<union> {c, b, pb, pc}" by auto
  next
    fix f p v assume "p \<notin> targets ?exe \<union> {c, b, pb, pc}" "?P' f" "plainish u v"
    then show "?P' (f(p := v))" using stage2_upd by auto
  next
    fix f p v assume p: "p \<notin> targets ?exe \<union> {c, b, pb, pc}" and f: "?A f" "plainish u v"
    then have "p \<notin> protected ?exe t" by (auto simp: protected_def t_def targets_def)
    then show "?A (f(p := v))" using f p u pending_upd[of p ?exe t en v ep f] by auto
  next
    fix f i assume f: "?P' f" and i: "plain_file u i" "f_data i = en_encode en t"
    have "pending en ep ?exe t (f(transactionPath ?exe \<mapsto> i))"
      by (rule stage2_pending[OF _ names pc S ep _ t_def]) (use f i u in \<open>auto dest: holds_data_plain\<close>)
    then show "?A (f(transactionPath ?exe \<mapsto> i))" using f tx by auto
  qed
  have wt: "spec u ?P' (writeTransaction en ?exe t) (\<lambda>_. ?A) (\<lambda>_ f. ?A f \<or> ?P' f) ?C"
    unfolding writeTransaction_def
  proof (rule spec_tryio[where Q' = "\<lambda>_ _. False" and R' = "\<lambda>e f. is_not_exist e \<and> ?P' f"])
    show "spec u ?P' (lift (Lstat (transactionPath ?exe))) (\<lambda>_ _. False) (\<lambda>e f. is_not_exist e \<and> ?P' f) ?C"
      by (rule spec_lift) (auto simp: Lstat_def stage2_def base_def split: option.splits)
    have "spec u ?P' (publishTransaction en ?exe t) (\<lambda>_. ?A) (\<lambda>_ f. ?A f \<or> ?P' f) ?C"
      by (rule spec_conseq[OF pub]) (use base in \<open>auto simp: killed_ok_def undoing_def split: if_splits\<close>)
    then show "spec u (\<lambda>f. is_not_exist e \<and> ?P' f) (if \<not> is_not_exist e then throw (Wrap ''inspect update transaction'' e)
        else publishTransaction en ?exe t) (\<lambda>_. ?A) (\<lambda>_ f. ?A f \<or> ?P' f) ?C" for e
      by (intro spec_static) simp
  qed (simp add: spec_def)
  have err: "spec u (\<lambda>f. ?A f \<or> ?P' f) (tryio (lift (Lstat (transactionPath ?exe))) (\<lambda>_. throw (False, e)) (\<lambda>_. throw (True, e))) ?Q ?R ?C" for e
  proof (rule spec_tryio[where Q' = "\<lambda>_. ?A" and R' = "\<lambda>_. ?P'"])
    show "spec u (\<lambda>f. ?A f \<or> ?P' f) (lift (Lstat (transactionPath ?exe))) (\<lambda>_. ?A) (\<lambda>_. ?P') ?C"
      by (rule spec_lift) (auto simp: Lstat_def stage2_def base_def dest: not_recorded split: option.splits)
  qed (use base in \<open>auto intro!: spec_throw simp: undoing_def\<close>)
  have "spec u ?A (activateInstall en rq t ci) ?Q ?R ?C"
    using spec_activateInstall[OF u ep _ _ _, of t rq ci] cn by (simp add: t_def)
  note main = spec_tryio[OF wt err this]
  show ?thesis unfolding beginTransaction_def m Let_def t_def[symmetric]
  proof (rule spec_ckO[OF v])
    fix fin
    show "spec u ?P (if \<not> same_target info fin then throw (False, ErrText ''target changed before atomic replacement'')
        else ckO False ''set installed mode on candidate'' (chmod c (old_mode ep)) (\<lambda>_.
          tryio (writeTransaction en ?exe t) (\<lambda>e. tryio (lift (Lstat (transactionPath ?exe))) (\<lambda>_. throw (False, e)) (\<lambda>_. throw (True, e)))
            (\<lambda>_. activateInstall en rq t ci))) ?Q ?R ?C"
      using base by (auto intro!: spec_throw spec_ckO[OF ch main])
  qed
qed

lemma spec_preparePrevious:
  assumes u: "en_euid en = u" and ep: "ok_episode ep" and S: "setup_ok en (Executable rq) (rq_TargetVersion rq)"
    and names: "names_ok (Executable rq) c b pb" and m: "f_perm info = old_mode ep"
  shows "spec u (stage2 en ep (Executable rq) c b pb pm) (preparePrevious en rq info c ci b pb pm)
     (finished en ep (Executable rq)) (aborted en ep (Executable rq)) (killed_ok en ep (Executable rq))"
proof -
  let ?exe = "Executable rq" and ?k = "''-previous-candidate-''"
  let ?P = "stage2 en ep ?exe c b pb pm"
  let ?N = "\<lambda>p. p \<notin> targets ?exe \<union> {c, b, pb}"
  have cl: "spec u ?P (cloneToTemp b (path_dir ?exe) (''.'' @ binaryName @ ?k) 384)
      (\<lambda>p f. (?N p \<and> tmp ?exe ?k p) \<and> ?P f \<and> holds_data u (old_data ep) (f p)) (\<lambda>_. base en ep ?exe) (base en ep ?exe)"
  proof (rule spec_conseq[OF spec_cloneToTemp[where I = ?P and N = ?N and d = "old_data ep" and m = 384]])
    show "?N p" if "?P f" "f p = None" "temp_name (path_dir ?exe) (''.'' @ binaryName @ ?k) p" for f p
      using stage2_fresh[OF that temp_name_nonempty[OF that(3)]] .
    show "f_data i = old_data ep" if "?P f" "f b = Some i" for f i
      using that by (auto simp: stage2_def staged_def holds_data_def)
    show "?P (f(p := v))" if "?N p" "?P f" "plainish u v" for f p v using stage2_upd that by blast
  qed (auto simp: stage2_def tmp_def dest: prog_holds)
  show ?thesis unfolding preparePrevious_def
  proof (rule spec_ckO[OF cl], rule spec_static, rule spec_defer_artifact)
    show "spec u (\<lambda>f. ?P f \<and> holds_data u (old_data ep) (f p)) (beginTransaction en rq info c ci b pb pm p)
        (finished en ep ?exe) (aborted en ep ?exe) (killed_ok en ep ?exe)" if "?N p \<and> tmp ?exe ?k p" for p
      using spec_beginTransaction[OF u ep S names _ _ m] that by blast
  qed auto
qed

definition stage1 :: "install_env \<Rightarrow> episode \<Rightarrow> string \<Rightarrow> string \<Rightarrow> string \<Rightarrow> string \<Rightarrow> file_system \<Rightarrow> bool" where
  "stage1 en ep exe c b x f \<longleftrightarrow> base en ep exe f \<and> holds_data (en_euid en) (new_data ep) (f c) \<and> holds_data (en_euid en) x (f b)"

lemma stage1_upd:
  "p \<notin> targets exe \<union> {c, b} \<Longrightarrow> stage1 en ep exe c b x f \<Longrightarrow> stage1 en ep exe c b x (f(p := v))"
  by (auto simp: stage1_def base_upd)

lemma spec_keep_base:
  assumes "\<And>f. P f \<Longrightarrow> base en ep exe f"
  shows "spec u P sync_call (\<lambda>_. P) (\<lambda>_. base en ep exe) (base en ep exe)"
    "spec u P (lift g) (\<lambda>x f. g f = Inr x \<and> P f) (\<lambda>_. base en ep exe) (base en ep exe)"
  by (rule spec_sync; simp add: assms) (rule spec_lift; simp add: assms)

lemma spec_backupInstalled:
  assumes u: "en_euid en = u" and ep: "ok_episode ep" and S: "setup_ok en (Executable rq) (rq_TargetVersion rq)"
    and names: "names_ok (Executable rq) c b ''''" and m: "f_perm info = old_mode ep"
  shows "spec u (stage1 en ep (Executable rq) c b '''') (backupInstalled en rq info c ci b)
     (finished en ep (Executable rq)) (aborted en ep (Executable rq)) (killed_ok en ep (Executable rq))"
proof -
  let ?exe = "Executable rq" and ?prev = "previousPath (Executable rq)"
  let ?B = "base en ep ?exe" and ?S = "\<lambda>x. stage1 en ep ?exe c b x"
  let ?Q = "finished en ep ?exe" and ?R = "aborted en ep ?exe" and ?C = "killed_ok en ep ?exe"
  have base: "?S x f \<Longrightarrow> ?B f" for x f by (simp add: stage1_def)
  have bn: "b \<notin> targets ?exe \<union> {c}" "?prev \<notin> {c, b}" using names by (auto simp: names_ok_def targets_def)
  have ch: "spec u (?S x) (chmod b k) (\<lambda>_. ?S x) (\<lambda>_. ?B) ?B" for x k
    by (rule spec_conseq[OF spec_chmod[where P = "?S x" and R = ?B and C = ?B and Q = "\<lambda>_. ?S x"]])
       (use bn in \<open>auto simp: stage1_def base_upd holds_data_def\<close>)
  have op: "spec u (?S x) (open_file ?exe) (\<lambda>i f. f_data i = old_data ep \<and> ?S x f) (\<lambda>_. ?B) ?B" for x
    by (rule spec_conseq[OF spec_open_file[where P = "?S x" and R = ?B and C = ?B and Q = "\<lambda>i f. f_data i = old_data ep \<and> ?S x f"]])
       (auto simp: stage1_def base_def at_old_def prog_def)
  have wr: "spec u (?S '''') (write_file b d) (\<lambda>_. ?S d) (\<lambda>_. ?B) ?C" for d
    by (rule spec_conseq[OF spec_write_file[where P = "?S ''''" and R = ?B and C = ?B and Q = "\<lambda>_. ?S d"]])
       (use bn in \<open>auto simp: stage1_def base_upd holds_data_def killed_ok_def\<close>)
  have wfail: "spec u ?B (ignoring sync_call (throw (False, e))) ?Q ?R ?C" for e
    by (rule spec_ignoring[where P' = ?B], rule spec_sync) (auto simp: killed_ok_def intro: spec_throw)
  note keep = spec_keep_base[of "?S (old_data ep)" en ep ?exe u, OF base[of "old_data ep"]]
  have prep: "spec u (stage2 en ep ?exe c b pb pm) (preparePrevious en rq info c ci b pb pm) ?Q ?R ?C" if "names_ok ?exe c b pb" for pb pm
    by (rule spec_preparePrevious[OF u ep S that m])
  let ?some = "\<lambda>i f. (\<exists>d. prior ep = Some (d, f_perm i)) \<and> ?S (old_data ep) f"
  have ls: "spec u (?S (old_data ep)) (lift (Lstat ?prev)) ?some (\<lambda>e f. (prior ep = None \<and> is_not_exist e) \<and> ?S (old_data ep) f) ?C"
    by (rule spec_lift) (auto simp: Lstat_def stage1_def base_def at_old_def prog_def split: option.splits)
  have none: "spec u (\<lambda>f. (prior ep = None \<and> is_not_exist e) \<and> ?S (old_data ep) f)
      (if \<not> is_not_exist e then throw (False, e) else preparePrevious en rq info c ci b '''' 0) ?Q ?R ?C" for e
  proof (rule spec_static, rule spec_pre[where P' = "stage2 en ep ?exe c b '''' 0"])
    assume e: "prior ep = None \<and> is_not_exist e"
    then show "spec u (stage2 en ep ?exe c b '''' 0) (if \<not> is_not_exist e then throw (False, e) else preparePrevious en rq info c ci b '''' 0) ?Q ?R ?C"
      using prep[OF names] by simp
    show "stage2 en ep ?exe c b '''' 0 f" if "?S (old_data ep) f" for f
      using that e by (auto simp: stage1_def stage2_def staged_def)
  qed
  have some: "spec u (?some i) (ckO False ''preserve existing previous executable''
      (cloneToTemp ?prev (path_dir ?exe) (''.'' @ binaryName @ ''-previous-backup-'') 384) (\<lambda>pb.
        defer_artifact pb (preparePrevious en rq info c ci b pb (f_perm i)))) ?Q ?R ?C" for i
  proof (rule spec_static)
    assume "\<exists>d. prior ep = Some (d, f_perm i)"
    then obtain d where d: "prior ep = Some (d, f_perm i)" by blast
    let ?N = "\<lambda>p. p \<notin> targets ?exe \<union> {c, b}"
    have cl: "spec u (?S (old_data ep)) (cloneToTemp ?prev (path_dir ?exe) (''.'' @ binaryName @ ''-previous-backup-'') 384)
        (\<lambda>p f. (names_ok ?exe c b p \<and> p \<notin> targets ?exe) \<and> stage2 en ep ?exe c b p (f_perm i) f) (\<lambda>_. ?B) ?B"
    proof (rule spec_conseq[OF spec_cloneToTemp[where I = "?S (old_data ep)" and N = ?N and d = d and m = 384]])
      show "?N p" if "?S (old_data ep) f" "f p = None" "temp_name (path_dir ?exe) (''.'' @ binaryName @ ''-previous-backup-'') p" for f p
        using that base_fresh[of en ep ?exe f p] by (auto simp: stage1_def)
      show "?S (old_data ep) (f(p := v))" if "?N p" "?S (old_data ep) f" "plainish u v" for f p v
        using that stage1_upd by blast
      show "f_data j = d" if "?S (old_data ep) f" "f ?prev = Some j" for f j
        using that d by (auto simp: stage1_def base_def at_old_def prog_def)
      show "(names_ok ?exe c b p \<and> p \<notin> targets ?exe) \<and> stage2 en ep ?exe c b p (f_perm i) f"
        if "?N p \<and> temp_name (path_dir ?exe) (''.'' @ binaryName @ ''-previous-backup-'') p \<and> ?S (old_data ep) f \<and> prog u d 384 (f p)" for p f
        using that names d u temp_name_nonempty
        by (auto simp: names_ok_def tmp_def stage1_def stage2_def staged_def dest: prog_holds)
    qed (auto simp: base)
    show "spec u (?S (old_data ep)) (ckO False ''preserve existing previous executable''
      (cloneToTemp ?prev (path_dir ?exe) (''.'' @ binaryName @ ''-previous-backup-'') 384) (\<lambda>pb.
        defer_artifact pb (preparePrevious en rq info c ci b pb (f_perm i)))) ?Q ?R ?C"
      by (rule spec_ckO[OF cl], rule spec_static, rule spec_defer_artifact[OF prep]) auto
  qed
  have tail: "spec u (?S (old_data ep)) (ckO False ''sync rollback file'' sync_call (\<lambda>_.
    ckO False ''close rollback file'' sync_call (\<lambda>_.
    ckO False '''' (lift (validateExistingPrevious en ?prev)) (\<lambda>_.
    tryio (lift (Lstat ?prev)) (\<lambda>e. if \<not> is_not_exist e then throw (False, e) else preparePrevious en rq info c ci b '''' 0)
      (\<lambda>i. ckO False ''preserve existing previous executable''
          (cloneToTemp ?prev (path_dir ?exe) (''.'' @ binaryName @ ''-previous-backup-'') 384) (\<lambda>pb.
        defer_artifact pb (preparePrevious en rq info c ci b pb (f_perm i)))))))) ?Q ?R ?C"
    by (rule spec_ckO[OF keep(1)], assumption, rule spec_ckO[OF keep(1)], assumption, rule spec_ckO[OF keep(2)], assumption,
        rule spec_pre[OF conjunct2], assumption,
        rule spec_tryio[OF ls none some])
  show ?thesis unfolding backupInstalled_def Let_def
  proof (rule spec_ckO[OF ch], rule spec_ckO[OF op], rule spec_static)
    fix opened :: inode assume o: "f_data opened = old_data ep"
    have "spec u (?S (old_data ep)) (if \<not> SameFile info opened then throw (False, ErrText ''target changed while creating rollback file'')
        else m) ?Q ?R ?C" if "spec u (?S (old_data ep)) m ?Q ?R ?C" for m
      using that base by (auto intro: spec_throw)
    note step = spec_ckO[OF keep(1) this[OF tail]]
    show "spec u (?S '''') (tryio (write_file b (f_data opened))
      (\<lambda>e. ignoring sync_call (throw (False, Wrap ''copy installed executable to rollback file'' e))) (\<lambda>_.
        ckO False ''close installed executable backup source'' sync_call (\<lambda>_.
        if \<not> SameFile info opened then throw (False, ErrText ''target changed while creating rollback file'')
        else ckO False ''sync rollback file'' sync_call (\<lambda>_.
          ckO False ''close rollback file'' sync_call (\<lambda>_.
          ckO False '''' (lift (validateExistingPrevious en ?prev)) (\<lambda>_.
          tryio (lift (Lstat ?prev)) (\<lambda>e. if \<not> is_not_exist e then throw (False, e) else preparePrevious en rq info c ci b '''' 0)
            (\<lambda>i. ckO False ''preserve existing previous executable''
                (cloneToTemp ?prev (path_dir ?exe) (''.'' @ binaryName @ ''-previous-backup-'') 384) (\<lambda>pb.
              defer_artifact pb (preparePrevious en rq info c ci b pb (f_perm i)))))))))) ?Q ?R ?C"
      unfolding o by (rule spec_tryio[OF wr wfail step])
  qed
qed

lemma spec_stageCandidate:
  assumes u: "en_euid en = u" and ep: "ok_episode ep" and S: "setup_ok en (Executable rq) (rq_TargetVersion rq)"
    and c: "tmp (Executable rq) ''-update-'' c" "c \<notin> targets (Executable rq)" and m: "f_perm info = old_mode ep" and bin: "Binary rq = new_data ep"
  shows "spec u (\<lambda>f. base en ep (Executable rq) f \<and> holds_data u '''' (f c)) (stageCandidate en rq info c)
     (finished en ep (Executable rq)) (aborted en ep (Executable rq)) (killed_ok en ep (Executable rq))"
proof -
  let ?exe = "Executable rq"
  let ?B = "base en ep ?exe" and ?S = "\<lambda>x f. base en ep ?exe f \<and> holds_data u x (f c)" and ?n = "new_data ep"
  let ?Q = "finished en ep ?exe" and ?R = "aborted en ep ?exe" and ?C = "killed_ok en ep ?exe"
  have ch: "spec u (?S x) (chmod c k) (\<lambda>_. ?S x) (\<lambda>_. ?B) ?B" for x k
    by (rule spec_conseq[OF spec_chmod[where P = "?S x" and R = ?B and C = ?B and Q = "\<lambda>_. ?S x"]])
       (use c in \<open>auto simp: base_upd holds_data_def\<close>)
  have wr: "spec u (?S '''') (write_file c d) (\<lambda>_. ?S d) (\<lambda>_. ?B) ?B" for d
    by (rule spec_conseq[OF spec_write_file[where P = "?S ''''" and R = ?B and C = ?B and Q = "\<lambda>_. ?S d"]])
       (use c in \<open>auto simp: base_upd holds_data_def\<close>)
  note keep = spec_keep_base[of "?S ?n" en ep ?exe u, OF conjunct1]
  have lifted: "spec u (\<lambda>f. b f \<and> ?S ?n f) k ?Q ?R ?C" if "spec u (?S ?n) k ?Q ?R ?C" for b k
    by (rule spec_pre[OF _ that]) simp
  have ct: "spec u (?S ?n) (createTemp (path_dir ?exe) (''.'' @ binaryName @ ''-rollback-''))
      (\<lambda>b f. names_ok ?exe c b '''' \<and> stage1 en ep ?exe c b '''' f) (\<lambda>_. ?B) ?B"
  proof (rule spec_conseq[OF spec_createTemp[where P = "?S ?n" and R = ?B and C = ?B
        and Q = "\<lambda>b f. names_ok ?exe c b '''' \<and> stage1 en ep ?exe c b '''' f"]])
    fix f p i assume f: "?S ?n f" "f p = None" "temp_name (path_dir ?exe) (''.'' @ binaryName @ ''-rollback-'') p"
      and i: "plain_file u i" "f_data i = ''''"
    have p: "p \<notin> targets ?exe \<union> {c}" using f base_fresh[of en ep ?exe f p] by auto
    then show "names_ok ?exe c p '''' \<and> stage1 en ep ?exe c p '''' (f(p \<mapsto> i))"
      using f i c u by (auto simp: names_ok_def tmp_def stage1_def base_upd holds_data_def)
  qed auto
  have bi: "spec u (\<lambda>f. names_ok ?exe c b '''' \<and> stage1 en ep ?exe c b '''' f)
      (defer_artifact b (backupInstalled en rq info c ci b)) ?Q ?R ?C" for ci b
    by (rule spec_static, rule spec_defer_artifact[OF spec_backupInstalled[OF u ep S _ m]]) (auto simp: names_ok_def)
  have same: "spec u (?S ?n) (if \<not> same_target info now then throw (False, ErrText ''target identity, mode, or size changed before replacement'')
      else k) ?Q ?R ?C" if "spec u (?S ?n) k ?Q ?R ?C" for now k
    using that by (auto intro: spec_throw)
  show ?thesis unfolding stageCandidate_def Let_def bin
    by (rule spec_ckO[OF ch], rule spec_ckO[OF wr], rule spec_ckO[OF keep(1)], assumption, rule spec_ckO[OF keep(1)], assumption,
        rule spec_ckO[OF keep(2)], assumption, rule lifted, rule spec_ckO[OF keep(2)], assumption, rule lifted,
        rule spec_ckO[OF keep(2)], assumption, rule lifted, rule same, rule spec_ckO[OF ct bi])
qed

theorem spec_installVerified:
  assumes u: "en_euid en = u" and ep: "ok_episode ep" and S: "setup_ok en (Executable rq) (rq_TargetVersion rq)"
    and bin: "Binary rq = new_data ep"
  shows "spec u (base en ep (Executable rq)) (installVerified en rq)
     (\<lambda>_. kept en ep (Executable rq) (at_new u ep (Executable rq)))
     (\<lambda>_ f. base en ep (Executable rq) f \<or> (\<exists>t. undoing en ep (Executable rq) t f))
     (killed_ok en ep (Executable rq))"
proof -
  let ?exe = "Executable rq"
  let ?B = "base en ep ?exe" and ?Q = "finished en ep ?exe" and ?R = "aborted en ep ?exe" and ?C = "killed_ok en ep ?exe"
  note keep = spec_keep_base[of ?B en ep ?exe u]
  have ct: "spec u ?B (createTemp (path_dir ?exe) (''.'' @ binaryName @ ''-update-''))
      (\<lambda>c f. (tmp ?exe ''-update-'' c \<and> c \<notin> targets ?exe) \<and> ?B f \<and> holds_data u '''' (f c)) (\<lambda>_. ?B) ?B"
  proof (rule spec_conseq[OF spec_createTemp[where P = ?B and R = ?B and C = ?B
        and Q = "\<lambda>c f. (tmp ?exe ''-update-'' c \<and> c \<notin> targets ?exe) \<and> ?B f \<and> holds_data u '''' (f c)"]])
    fix f p i assume f: "?B f" "f p = None" "temp_name (path_dir ?exe) (''.'' @ binaryName @ ''-update-'') p"
      and i: "plain_file u i" "f_data i = ''''"
    have "p \<notin> targets ?exe" using base_fresh[OF f] .
    then show "(tmp ?exe ''-update-'' p \<and> p \<notin> targets ?exe) \<and> ?B (f(p \<mapsto> i)) \<and> holds_data u '''' ((f(p \<mapsto> i)) p)"
      using f i by (auto simp: tmp_def base_upd holds_data_def)
  qed auto
  have st: "spec u (\<lambda>f. Lstat ?exe f = Inr info \<and> ?B f) (ckO False ''create update staging file''
       (createTemp (path_dir ?exe) (''.'' @ binaryName @ ''-update-'')) (\<lambda>c. defer_artifact c (stageCandidate en rq info c))) ?Q ?R ?C" for info
  proof (rule spec_pre[where P' = "\<lambda>f. f_perm info = old_mode ep \<and> ?B f"])
    show "f_perm info = old_mode ep \<and> ?B f" if "Lstat ?exe f = Inr info \<and> ?B f" for f
      using that by (auto simp: Lstat_def base_def at_old_def prog_def)
    show "spec u (\<lambda>f. f_perm info = old_mode ep \<and> ?B f) (ckO False ''create update staging file''
       (createTemp (path_dir ?exe) (''.'' @ binaryName @ ''-update-'')) (\<lambda>c. defer_artifact c (stageCandidate en rq info c))) ?Q ?R ?C"
      by (rule spec_static, rule spec_ckO[OF ct], rule spec_static, rule spec_defer_artifact[OF spec_stageCandidate[OF u ep S _ _ _ bin]]) auto
  qed
  have body: "spec u ?B (ckO False '''' (lift (validateInstallTarget en ?exe (en_goos en))) (\<lambda>_.
       ckO False ''stat installed executable'' (lift (Lstat ?exe)) (\<lambda>info.
       ckO False ''create update staging file'' (createTemp (path_dir ?exe) (''.'' @ binaryName @ ''-update-'')) (\<lambda>c.
       defer_artifact c (stageCandidate en rq info c))))) ?Q ?R ?C"
    by (rule spec_ckO[OF keep(2)], assumption, rule spec_pre[OF conjunct2], assumption, rule spec_ckO[OF keep(2)], assumption, rule st)
  show ?thesis unfolding installVerified_def Let_def
  proof (rule spec_tryio[OF body])
    show "spec u (?R x) (case x of (_, e) \<Rightarrow> throw e) (\<lambda>_. kept en ep ?exe (at_new u ep ?exe))
        (\<lambda>_ f. ?B f \<or> (\<exists>t. undoing en ep ?exe t f)) ?C" for x
      by (cases x; cases "fst x") (auto intro!: spec_throw)
    show "spec u (?Q x) (case x of (_, r) \<Rightarrow> ret r) (\<lambda>_. kept en ep ?exe (at_new u ep ?exe))
        (\<lambda>_ f. ?B f \<or> (\<exists>t. undoing en ep ?exe t f)) ?C" for x
      using u by (cases x; cases "fst x") (auto intro!: spec_ret simp: kept_def)
  qed
qed

end
