(* ===== verification/Update_Liveness.thy ===== *)
theory Update_Liveness
  imports Update_Proof
begin

text \<open>
  Recovery completes: when no operating system call fails and the random suffixes are unused, it
  returns without error from every state a kill can leave.
\<close>

section \<open>Calm worlds\<close>

definition ends_with :: "32 word \<Rightarrow> string \<Rightarrow> bool" where
  "ends_with s p \<longleftrightarrow> (\<exists>q. p = q @ CHR ''-'' # show_nat (unat s))"

definition name_supply :: "nat \<Rightarrow> file_system \<Rightarrow> 32 word list \<Rightarrow> bool" where
  "name_supply n f ss \<longleftrightarrow> n \<le> length ss \<and> distinct ss \<and> (\<forall>s\<in>set ss. \<forall>p. f p \<noteq> None \<longrightarrow> \<not> ends_with s p)"

definition calm :: "nat \<Rightarrow> nat \<Rightarrow> world \<Rightarrow> bool" where
  "calm u n w \<longleftrightarrow> euid w = u \<and> faults w = [] \<and> name_supply n (fs w) (rand w)"

definition live :: "nat \<Rightarrow> nat \<Rightarrow> (file_system \<Rightarrow> bool) \<Rightarrow> ('e, 'a) io \<Rightarrow> nat \<Rightarrow> bool" where
  "live u n P m k \<longleftrightarrow> (\<forall>w. calm u n w \<longrightarrow> P (fs w) \<longrightarrow> (\<exists>x v. m w = (Done x, v) \<and> calm u k v))"

definition quiet :: "nat \<Rightarrow> nat \<Rightarrow> (file_system \<Rightarrow> bool) \<Rightarrow> ('e, 'a) io \<Rightarrow> bool" where
  "quiet u n P m \<longleftrightarrow> (\<forall>w. calm u n w \<longrightarrow> P (fs w) \<longrightarrow> (\<exists>r v. m w = (r, v) \<and> r \<noteq> Killed \<and> calm u n v))"

lemma liveI: "(\<And>w. calm u n w \<Longrightarrow> P (fs w) \<Longrightarrow> \<exists>x v. m w = (Done x, v) \<and> calm u k v) \<Longrightarrow> live u n P m k"
  by (simp add: live_def)

lemma live_pre: "(\<And>f. P f \<Longrightarrow> P' f) \<Longrightarrow> live u n P' m k \<Longrightarrow> live u n P m k"
  by (simp add: live_def)

lemma live_static: "(b \<Longrightarrow> live u n P m k) \<Longrightarrow> live u n (\<lambda>f. b \<and> P f) m k"
  by (cases b) (simp_all add: live_def)

lemma live_tryio:
  assumes "live u n P m k" "spec u P m Q R C" "\<And>x. live u k (Q x) (f x) j"
  shows "live u n P (tryio m h f) j"
proof (rule liveI)
  fix w assume w: "calm u n w" "P (fs w)"
  then obtain x v where mw: "m w = (Done x, v)" and v: "calm u k v" using assms(1) by (auto simp: live_def)
  have "Q x (fs v)" using specD[OF assms(2) _ w(2) mw] w(1) by (simp add: calm_def)
  then obtain y z where "f x v = (Done y, z)" "calm u j z" using assms(3)[of x] v by (auto simp: live_def)
  then show "\<exists>y z. tryio m h f w = (Done y, z) \<and> calm u j z" by (simp add: tryio_def mw)
qed

lemma live_ck: "live u n P m k \<Longrightarrow> spec u P m Q R C \<Longrightarrow> (\<And>x. live u k (Q x) (f x) j) \<Longrightarrow> live u n P (ck s m f) j"
  unfolding ck_def by (rule live_tryio)

lemma live_ret: "live u n P (ret x) n"
  by (simp add: live_def ret_def)

lemma live_ignoring:
  assumes "quiet u n P m" "spec u P m (\<lambda>_. P') (\<lambda>_. P') C" "live u n P' f j"
  shows "live u n P (ignoring m f) j"
proof (rule liveI)
  fix w assume w: "calm u n w" "P (fs w)"
  then obtain r v where mw: "m w = (r, v)" and v: "r \<noteq> Killed" "calm u n v" using assms(1) by (auto simp: quiet_def)
  have "P' (fs v)" using specD[OF assms(2) _ w(2) mw] w(1) v(1) by (cases r) (simp_all add: calm_def)
  then have "\<exists>y z. f v = (Done y, z) \<and> calm u j z" using assms(3) v(2) by (simp add: live_def)
  then show "\<exists>y z. ignoring m f w = (Done y, z) \<and> calm u j z" using v(1) by (cases r) (simp_all add: ignoring_def tryio_def mw)
qed

lemma name_supply_del: "name_supply n f ss \<Longrightarrow> name_supply n (f(p := None)) ss"
  by (auto simp: name_supply_def)

lemma name_supply_upd: "name_supply n f ss \<Longrightarrow> (\<forall>s. \<not> ends_with s p) \<or> f p \<noteq> None \<Longrightarrow> name_supply n (f(p := v)) ss"
  by (auto simp: name_supply_def)

lemma name_supply_less: "name_supply n f ss \<Longrightarrow> k \<le> n \<Longrightarrow> name_supply k f ss"
  by (simp add: name_supply_def)

lemma quiet_remove: "quiet u n P (remove p)"
  by (auto simp: quiet_def remove_def atomic_def syscall_def calm_def name_supply_del)

lemma live_remove: "(\<And>f. P f \<Longrightarrow> f p \<noteq> None) \<Longrightarrow> live u n P (remove p) n"
  by (rule liveI) (fastforce simp: remove_def atomic_def syscall_def calm_def name_supply_del)

lemma live_sync: "live u n P sync_call n"
  by (simp add: live_def sync_call_def atomic_def syscall_def calm_def)

lemma live_syncDirectory: "live u n P (syncDirectory d) n"
proof -
  have s: "spec u P sync_call (\<lambda>_. P) (\<lambda>_. P) P" by (rule spec_sync)
  show ?thesis unfolding syncDirectory_def by (rule live_tryio[OF live_sync s live_tryio[OF live_sync s live_sync]])
qed

lemma live_lift: "(\<And>f. P f \<Longrightarrow> is_ok (g f)) \<Longrightarrow> live u n P (lift g) n"
  by (rule liveI) (fastforce simp: lift_def is_ok_iff)

lemma live_open: "(\<And>f. P f \<Longrightarrow> f p \<noteq> None) \<Longrightarrow> live u n P (open_file p) n"
  by (rule liveI) (fastforce simp: open_file_def atomic_def syscall_def calm_def)

lemma live_change:
  assumes "\<And>f. P f \<Longrightarrow> f p \<noteq> None"
  shows "live u n P (chmod p m) n" "live u n P (write_file p d) n"
  by (rule liveI, use assms in \<open>fastforce simp: chmod_def write_file_def atomic_def syscall_def calm_def upd_file_def intro: name_supply_upd\<close>)+

lemma live_rename:
  assumes "\<And>f. P f \<Longrightarrow> f a \<noteq> None" "(\<forall>s. \<not> ends_with s b) \<or> (\<forall>f. P f \<longrightarrow> f b \<noteq> None)" "a \<noteq> b"
  shows "live u n P (rename a b) n"
proof (rule liveI)
  fix w assume w: "calm u n w" "P (fs w)"
  obtain i where i: "fs w a = Some i" using assms(1)[OF w(2)] by auto
  have s: "name_supply n ((fs w)(a := None)) (rand w)" using w(1) by (simp add: calm_def name_supply_del)
  have "(\<forall>s. \<not> ends_with s b) \<or> ((fs w)(a := None)) b \<noteq> None" using assms(2,3) w(2) by auto
  from name_supply_upd[OF s this] show "\<exists>x v. rename a b w = (Done x, v) \<and> calm u n v"
    using w i by (simp add: rename_def atomic_def syscall_def calm_def del: fun_upd_apply)
qed

lemma digit_tail_unique:
  "q @ CHR ''-'' # show_nat a = q' @ CHR ''-'' # show_nat b \<Longrightarrow> show_nat a = show_nat b"
proof -
  assume e: "q @ CHR ''-'' # show_nat a = q' @ CHR ''-'' # show_nat b"
  have no: "CHR ''-'' \<notin> set (show_nat n)" for n
    using show_nat_digits[of "CHR ''-''" n] by (auto simp: is_digit_def Let_def)
  have "takeWhile (\<lambda>c. c \<noteq> CHR ''-'') (rev (p @ CHR ''-'' # show_nat n)) = rev (show_nat n)" for p n
  proof -
    have "\<forall>c\<in>set (rev (show_nat n)). c \<noteq> CHR ''-''" using no[of n] by auto
    then show ?thesis by (simp add: takeWhile_append2 takeWhile_tail)
  qed
  then show ?thesis using e by (metis rev_rev_ident)
qed

fun digits_value :: "nat \<Rightarrow> string \<Rightarrow> nat" where
  "digits_value acc [] = acc"
| "digits_value acc (c # cs) = digits_value (10 * acc + (of_char c - 48)) cs"

lemma digits_value_append: "digits_value acc (xs @ [c]) = 10 * digits_value acc xs + (of_char c - 48)"
  by (induction xs arbitrary: acc) auto

lemma digits_value_show: "digits_value 0 (show_nat n) = n"
proof (induction n rule: show_nat.induct)
  case (1 n)
  have d: "of_char (digit_char k) - 48 = k" if "k < 10" for k using that by (simp add: digit_char_def)
  show ?case using 1 d by (subst show_nat.simps) (auto simp: digits_value_append)
qed

lemma show_nat_inject: "show_nat a = show_nat b \<longleftrightarrow> a = b"
  by (metis digits_value_show)

lemma live_createTemp:
  assumes "pre = pre' @ ''-''"
  shows "live u (Suc n) P (createTemp dir pre) n"
proof (rule liveI)
  fix w assume w: "calm u (Suc n) w" "P (fs w)"
  then obtain s ss where r: "rand w = s # ss" by (cases "rand w") (auto simp: calm_def name_supply_def)
  have "joinPath dir pre = (if dir \<noteq> '''' \<and> last dir = slash then dir @ pre' else dir @ slash # pre') @ ''-''"
    using assms by (simp add: joinPath_def)
  then obtain pf where pf: "joinPath dir pre = pf @ ''-''" by blast
  let ?p = "joinPath dir pre @ show_nat (unat s)"
  have e: "ends_with s ?p" by (auto simp: ends_with_def pf)
  then have fresh: "fs w ?p = None" using w r unfolding calm_def name_supply_def by (metis list.set_intros(1))
  have "\<not> ends_with s' ?p" if "s' \<in> set ss" for s'
  proof
    assume "ends_with s' ?p"
    then obtain q where "?p = q @ CHR ''-'' # show_nat (unat s')" unfolding ends_with_def by blast
    then have "pf @ CHR ''-'' # show_nat (unat s) = q @ CHR ''-'' # show_nat (unat s')" by (simp add: pf)
    then have "unat s = unat s'" using digit_tail_unique show_nat_inject by blast
    then have "s = s'" by (rule word_unat_eq_iff[THEN iffD2])
    then show False using that w r by (auto simp: calm_def name_supply_def)
  qed
  moreover have "Suc n \<le> length (s # ss)" "distinct ss" "\<forall>x\<in>set ss. \<forall>p. fs w p \<noteq> None \<longrightarrow> \<not> ends_with x p"
    using w r by (auto simp: calm_def name_supply_def)
  ultimately have "name_supply n ((fs w)(?p \<mapsto> new_inode w)) ss" unfolding name_supply_def by simp
  then show "\<exists>x v. createTemp dir pre w = (Done x, v) \<and> calm u n v"
    using w fresh r by (simp add: createTemp_def atomic_def syscall_def calm_def)
qed

section \<open>Composite operations\<close>

lemma not_suffix_name: "\<not> is_digit (last q) \<Longrightarrow> q \<noteq> '''' \<Longrightarrow> \<not> ends_with s (e @ q)"
  using show_nat_last_digit[of "unat s"] by (auto simp: ends_with_def) (metis append_is_Nil_conv last.simps last_appendR list.discI)

lemma target_names_no_suffix: "\<not> ends_with s (previousPath exe)" "\<not> ends_with s (transactionPath exe)"
  unfolding previousPath_def transactionPath_def by (rule not_suffix_name; simp add: is_digit_def)+

lemma live_cloneToTemp:
  assumes "\<And>f. I f \<Longrightarrow> f src \<noteq> None" "m \<noteq> 0" "pre = pre' @ ''-''"
  shows "live u (Suc n) I (cloneToTemp src dir pre m) n"
proof -
  define T where "T p f \<longleftrightarrow> f p \<noteq> (None :: inode option)" for p :: string and f :: file_system
  let ?A = "\<lambda>_ :: file_system. True"
  have op: "spec u I (open_file src) (\<lambda>_. ?A) (\<lambda>_. ?A) ?A" by (rule spec_conseq[OF spec_open_file[of I I I src "\<lambda>_. ?A"]]) auto
  have ct: "spec u ?A (createTemp dir pre) (\<lambda>p. T p) (\<lambda>_. ?A) ?A"
    by (rule spec_conseq[OF spec_createTemp[of ?A ?A ?A dir pre u "\<lambda>p. T p"]]) (auto simp: T_def)
  have ch: "spec u (T p) (chmod p k) (\<lambda>_. T p) (\<lambda>_. ?A) ?A" for p k
    by (rule spec_conseq[OF spec_chmod[of "T p" ?A ?A p "\<lambda>_. T p"]]) (auto simp: T_def)
  have wr: "spec u (T p) (write_file p d) (\<lambda>_. T p) (\<lambda>_. ?A) ?A" for p d
    by (rule spec_conseq[OF spec_write_file[of "T p" ?A p d ?A "\<lambda>_. T p"]]) (auto simp: T_def)
  have sy: "spec u (T p) sync_call (\<lambda>_. T p) (\<lambda>_. T p) (T p)" for p by (rule spec_sync)
  have l: "live u n (T p) (chmod p k) n" "live u n (T p) (write_file p d) n" for p k d
    by (rule live_change; simp add: T_def)+
  show ?thesis unfolding cloneToTemp_def Let_def if_not_P[OF assms(2)]
    by (rule live_tryio[OF live_open op], rule assms(1), assumption, rule live_tryio[OF live_createTemp ct], rule assms(3),
        rule live_tryio[OF l(1) ch], rule live_tryio[OF l(2) wr], rule live_tryio[OF l(1) ch],
        rule live_tryio[OF live_sync sy], rule live_tryio[OF live_sync sy], rule live_ret)
qed

lemma live_deferred:
  assumes "live u n P m k" shows "live u n P (deferred m (remove p)) k"
proof (rule liveI)
  fix w assume "calm u n w" "P (fs w)"
  then obtain x v where mw: "m w = (Done x, v)" and v: "calm u k v" using assms by (auto simp: live_def)
  obtain r z where d: "remove p v = (r, z)" "r \<noteq> Killed" "calm u k z" using quiet_remove[of u k "\<lambda>_. True" p] v by (auto simp: quiet_def)
  then show "\<exists>x v. deferred m (remove p) w = (Done x, v) \<and> calm u k v"
    by (cases r) (simp_all add: deferred_def ignoring_def tryio_def mw ret_def)
qed

lemma live_publishTransaction: "live u (Suc n) P (publishTransaction en exe t) n"
proof -
  let ?tx = "transactionPath exe" and ?A = "\<lambda>_ :: file_system. True"
  define T where "T p f \<longleftrightarrow> f p \<noteq> (None :: inode option)" for p :: string and f :: file_system
  have ct: "spec u P (createTemp (path_dir exe) (''.'' @ binaryName @ ''-transaction-'')) (\<lambda>p f. p \<noteq> ?tx \<and> T p f) (\<lambda>_. ?A) ?A"
    by (rule spec_conseq[OF spec_createTemp[of P ?A ?A _ _ u "\<lambda>p f. p \<noteq> ?tx \<and> T p f"]]) (auto simp: T_def dest: temp_name_names)
  have ch: "spec u (T p) (chmod p k) (\<lambda>_. T p) (\<lambda>_. ?A) ?A" for p k
    by (rule spec_conseq[OF spec_chmod[of "T p" ?A ?A p "\<lambda>_. T p"]]) (auto simp: T_def)
  have wr: "spec u (T p) (write_file p d) (\<lambda>_. T p) (\<lambda>_. ?A) ?A" for p d
    by (rule spec_conseq[OF spec_write_file[of "T p" ?A p d ?A "\<lambda>_. T p"]]) (auto simp: T_def)
  have sy: "spec u (T p) sync_call (\<lambda>_. T p) (\<lambda>_. T p) (T p)" for p by (rule spec_sync)
  have rn: "spec u (T p) (rename p ?tx) (\<lambda>_. ?A) (\<lambda>_. ?A) ?A" for p
    by (rule spec_conseq[OF spec_rename[of "T p" ?A ?A p "\<lambda>_. ?A"]]) (auto simp: T_def)
  have sd: "spec u ?A (syncDirectory d) (\<lambda>_. ?A) (\<lambda>_. ?A) ?A" for d by (rule spec_syncDirectory)
  have l: "live u n (T p) (chmod p k) n" "live u n (T p) (write_file p d) n" for p k d
    by (rule live_change; simp add: T_def)+
  have lr: "live u n (T p) (rename p ?tx) n" if "p \<noteq> ?tx" for p
    by (rule live_rename) (use that target_names_no_suffix in \<open>auto simp: T_def\<close>)
  show ?thesis unfolding publishTransaction_def
    by (rule live_ck[OF live_createTemp ct], simp, rule live_static, rule live_deferred,
        rule live_tryio[OF l(1) ch], rule live_tryio[OF l(2) wr], rule live_tryio[OF live_sync sy], rule live_ck[OF live_sync sy],
        rule live_ck[OF lr rn], assumption, rule live_tryio[OF live_syncDirectory sd], rule live_ret)
qed

definition uid_ok :: "install_env \<Rightarrow> bool" where
  "uid_ok en \<longleftrightarrow> en_uid en = en_euid en \<and> en_gid en = en_egid en"

lemma owned_plain: "uid_ok en \<Longrightarrow> f p = Some i \<Longrightarrow> plain_file (en_euid en) i \<Longrightarrow> validateOwnedRegular en p False f = Inr ()"
  by (simp add: validateOwnedRegular_def uid_ok_def Lstat_def plain_file_def)

lemma owned_absent: "uid_ok en \<Longrightarrow> f p = None \<Longrightarrow> validateOwnedRegular en p False f = Inl ErrNotExist"
  by (simp add: validateOwnedRegular_def uid_ok_def Lstat_def)

lemma live_cleanupArtifacts:
  assumes "uid_ok en" "en_euid en = u"
  shows "live u n (\<lambda>f. \<forall>a\<in>set as. a \<noteq> '''' \<longrightarrow> plainish u (f a)) (cleanupArtifacts en as) n"
proof (induction as)
  case Nil
  show ?case by (simp add: live_ret)
next
  case (Cons a as)
  show ?case
  proof (rule liveI)
    fix w assume w: "calm u n w" "\<forall>b\<in>set (a # as). b \<noteq> '''' \<longrightarrow> plainish u (fs w b)"
    then have rest: "\<exists>x v. cleanupArtifacts en as w = (Done x, v) \<and> calm u n v" using Cons.IH by (simp add: live_def)
    show "\<exists>x v. cleanupArtifacts en (a # as) w = (Done x, v) \<and> calm u n v"
    proof (cases "a = '''' \<or> fs w a = None")
      case True
      then show ?thesis using rest owned_absent[OF assms(1), of "fs w" a] by (auto simp: tryio_def lift_def)
    next
      case False
      then obtain i where i: "fs w a = Some i" "plain_file u i" using w(2) by auto
      let ?v = "w\<lparr>fs := (fs w)(a := None)\<rparr>"
      have "calm u n ?v" using w(1) by (simp add: calm_def name_supply_del)
      moreover have "\<forall>b\<in>set as. b \<noteq> '''' \<longrightarrow> plainish u (fs ?v b)" using w(2) by auto
      ultimately have "\<exists>x v. cleanupArtifacts en as ?v = (Done x, v) \<and> calm u n v" using Cons.IH by (simp add: live_def)
      moreover have "remove a w = (Done (), ?v)" using i w(1) by (simp add: remove_def atomic_def syscall_def calm_def)
      ultimately show ?thesis using False i assms owned_plain[OF assms(1), of "fs w" a i]
        by (simp add: tryio_def lift_def)
    qed
  qed
qed

lemma live_cleanup:
  assumes X: "about_target exe X" "\<And>f. X f \<Longrightarrow> f exe \<noteq> None" and u: "uid_ok en" "en_euid en = u"
  shows "live u n (finishing en exe X t) (cleanupCommittedTransaction en exe t) n"
proof -
  let ?F = "finishing en exe X t" and ?as = "[BackupPath t, CandidatePath t, PreviousCandidate t, PreviousBackupPath t]"
  have la: "live u n ?F (cleanupArtifacts en ?as) n"
    by (rule live_pre[OF _ live_cleanupArtifacts[OF u]]) (use u in \<open>auto simp: finishing_def artifacts_plain_def artifacts_def\<close>)
  have sa: "spec u ?F (cleanupArtifacts en ?as) (\<lambda>_. ?F) (\<lambda>_. ?F) ?F"
    by (rule spec_cleanupArtifacts[of ?as t exe X en u]) (auto simp: artifacts_def X u)
  have sd: "spec u Q (syncDirectory d) (\<lambda>_. Q) (\<lambda>_. Q) Q" for Q d by (rule spec_syncDirectory)
  have lr: "live u n ?F (remove (transactionPath exe)) n" by (rule live_remove) (auto dest: not_recorded)
  have sr: "spec u ?F (remove (transactionPath exe)) (\<lambda>_ _. True) (\<lambda>_ _. True) (\<lambda>_. True)"
    by (rule spec_conseq[OF spec_remove[of ?F "\<lambda>_. True" "\<lambda>_. True" _ "\<lambda>_ _. True"]]) auto
  show ?thesis unfolding cleanupCommittedTransaction_def Let_def
    by (rule live_tryio[OF la sa], rule live_ck[OF live_syncDirectory sd], rule live_tryio[OF lr sr],
        rule live_tryio[OF live_syncDirectory sd], rule live_ret)
qed

lemma live_weaken: "live u n P m k \<Longrightarrow> j \<le> k \<Longrightarrow> live u n P m j"
  unfolding live_def calm_def by (blast intro: name_supply_less)

lemma live_finishRollback:
  assumes u: "en_euid en = u" "uid_ok en" and tt: "same_txn tt t"
  shows "live u (Suc n) (\<lambda>f. pending en ep exe t f \<and> at_old u ep exe f) (finishRollback en exe tt None) n"
proof -
  let ?X = "at_old u ep exe" and ?T = "t\<lparr>Committed := True\<rparr>"
  let ?PO = "\<lambda>f. pending en ep exe t f \<and> ?X f"
  have rm: "spec u ?PO (remove a) (\<lambda>_. ?PO) (\<lambda>_. ?PO) ?PO" if a: "a \<in> {CandidatePath tt, PreviousCandidate tt}" for a
  proof (rule spec_conseq[OF spec_remove[where P = ?PO and R = ?PO and C = ?PO and Q = "\<lambda>_. ?PO"]])
    fix f i assume f: "?PO f"
    then have "a \<notin> protected exe t" using a same_txn_fields[OF tt] pending_layout[of en ep exe t f] by (auto simp: layout_def)
    then show "?PO (f(a := None))" using f pending_upd at_old_upd by auto
  qed auto
  have T: "tt\<lparr>Committed := True\<rparr> = ?T" using tt by (simp add: same_txn_def)
  have sd: "spec u ?PO (syncDirectory d) (\<lambda>_. ?PO) (\<lambda>_. ?PO) ?PO" for d by (rule spec_syncDirectory)
  have lc: "live u n (finishing en exe ?X ?T) (cleanupCommittedTransaction en exe ?T) n"
    by (rule live_cleanup) (use u in \<open>auto dest: target_exists\<close>)
  have sc: "spec u (finishing en exe ?X ?T) (cleanupCommittedTransaction en exe ?T) (\<lambda>_. cleaned en exe ?X ?T)
      (\<lambda>_ f. finishing en exe ?X ?T f \<or> cleaned en exe ?X ?T f) (\<lambda>f. finishing en exe ?X ?T f \<or> cleaned en exe ?X ?T f)"
    by (rule spec_cleanup) (use u in \<open>auto dest: target_exists\<close>)
  show ?thesis unfolding finishRollback_def Let_def T return_cause_def option.case replaceTransaction_def
    by (rule live_ignoring[OF quiet_remove rm], simp, rule live_ignoring[OF quiet_remove rm], simp, rule live_tryio[OF live_syncDirectory sd],
        rule live_tryio[OF live_publishTransaction spec_commit[OF about_target_states(1) u(1), unfolded replaceTransaction_def]],
        rule live_tryio[OF lc sc], rule live_ret)
qed

lemma live_restorePrevious:
  assumes u: "en_euid en = u" "uid_ok en" and tt: "same_txn tt t" and ep: "ok_episode ep"
  shows "live u (Suc (Suc n)) (reverted en ep exe t) (restorePrevious en exe tt None) n"
proof -
  let ?P = "reverted en ep exe t" and ?PO = "\<lambda>f. pending en ep exe t f \<and> at_old u ep exe f" and ?prev = "previousPath exe"
  note fields = same_txn_fields[OF tt]
  note fin = live_finishRollback[OF u tt, of _ ep exe]
  show ?thesis
  proof (cases "PreviousBackupPath t = ''''")
    case True
    show ?thesis
    proof (rule liveI)
      fix w assume w: "calm u (Suc (Suc n)) w" "?P (fs w)"
      let ?v = "w\<lparr>fs := (fs w)(?prev := None)\<rparr>"
      have "calm u (Suc (Suc n)) ?v" using w(1) by (simp add: calm_def name_supply_del)
      then have "\<exists>x v. finishRollback en exe tt None ?v = (Done x, v) \<and> calm u n v"
        using live_weaken[OF fin, of n "Suc n"] at_old_without_previous[OF w(2) True] u by (simp add: live_def)
      moreover have "?v = w" if "fs w ?prev = None" using that by (metis (no_types, lifting) fun_upd_triv world.surjective world.update_convs(1))
      ultimately show "\<exists>x v. restorePrevious en exe tt None w = (Done x, v) \<and> calm u n v" using w(1)
        by (cases "fs w ?prev") (simp_all add: restorePrevious_def Let_def fields True tryio_def remove_def atomic_def syscall_def calm_def)
    qed
  next
    case pb: False
    let ?m = "PreviousMode t" and ?b = "PreviousBackupPath t"
    have lv: "live u (Suc (Suc n)) ?P (lift (validateOwnedRegular en ?b False)) (Suc (Suc n))"
    proof (rule live_lift)
      fix f assume "?P f"
      then obtain d where "holds_data (en_euid en) d (f ?b)" using reverted_previous pb by blast
      then show "is_ok (validateOwnedRegular en ?b False f)" using owned_plain[OF u(2)] by (auto simp: holds_data_def)
    qed
    have sv: "spec u ?P (lift (validateOwnedRegular en ?b False)) (\<lambda>_. ?P) (\<lambda>_. ?P) ?P" by (rule spec_lift)
    show ?thesis
    proof (rule liveI)
      fix w assume w: "calm u (Suc (Suc n)) w" "?P (fs w)"
      then obtain d where dm: "prior ep = Some (d, ?m)" using reverted_previous pb by blast
      have okm: "validatedTransactionMode ?m = Inr ?m" "?m \<noteq> 0" using ep dm ok_mode_valid by (auto simp: ok_episode_def)
      have lc: "live u (Suc (Suc n)) ?P (cloneToTemp ?b (path_dir exe) (''.'' @ binaryName @ ''-previous-restore-'') ?m) (Suc n)"
        by (rule live_cloneToTemp) (use okm pb in \<open>auto simp: holds_data_def dest!: reverted_previous\<close>)
      have lr: "live u (Suc n) (\<lambda>f. ?P f \<and> prog u d ?m (f q)) (rename q ?prev) (Suc n)" if "q \<notin> protected exe t" for q
        by (rule live_rename) (use that target_names_no_suffix in \<open>auto simp: prog_def protected_def\<close>)
      have "live u (Suc (Suc n)) ?P (restorePrevious en exe tt None) n"
        unfolding restorePrevious_def Let_def fields if_not_P[OF pb] okm(1) sum.case
        by (rule live_tryio[OF lv sv], rule live_tryio[OF lc spec_clone_previous[OF u(1) dm okm(2)]], rule live_static, rule live_deferred,
            rule live_tryio[OF lr spec_rename_previous[OF u(1) _ dm] fin])
      then show "\<exists>x v. restorePrevious en exe tt None w = (Done x, v) \<and> calm u n v" using w by (simp add: live_def)
    qed
  qed
qed

lemma live_rollback:
  assumes u: "en_euid en = u" "uid_ok en" and tt: "same_txn tt t" and ep: "ok_episode ep"
  shows "live u (Suc (Suc (Suc n))) (pending en ep exe t) (rollbackTransaction en exe tt None) n"
proof (rule live_pre[where P' = "\<lambda>f. Mode t = old_mode ep \<and> pending en ep exe t f"])
  show "Mode t = old_mode ep \<and> pending en ep exe t f" if "pending en ep exe t f" for f using that by (auto simp: pending_def backups_def)
  let ?P = "pending en ep exe t"
  have okm: "validatedTransactionMode (old_mode ep) = Inr (old_mode ep)" "old_mode ep \<noteq> 0" using ep ok_mode_valid by (auto simp: ok_episode_def)
  have lc: "live u (Suc (Suc (Suc n))) ?P (cloneToTemp (BackupPath t) (path_dir exe) (''.'' @ binaryName @ ''-restore-'') (old_mode ep)) (Suc (Suc n))"
    by (rule live_cloneToTemp) (use okm in \<open>auto simp: pending_def backups_def holds_data_def\<close>)
  have lr: "live u (Suc (Suc n)) (\<lambda>f. ?P f \<and> prog u (old_data ep) (old_mode ep) (f q)) (rename q exe) (Suc (Suc n))" if "q \<notin> protected exe t" for q
    by (rule live_rename) (use that in \<open>auto simp: prog_def protected_def pending_def runnable_def\<close>)
  show "live u (Suc (Suc (Suc n))) (\<lambda>f. Mode t = old_mode ep \<and> ?P f) (rollbackTransaction en exe tt None) n"
  proof (rule live_static)
    assume m: "Mode t = old_mode ep"
    show "live u (Suc (Suc (Suc n))) ?P (rollbackTransaction en exe tt None) n"
      unfolding rollbackTransaction_def same_txn_fields[OF tt] m okm(1) sum.case
      by (rule live_tryio[OF lc spec_clone_backup[OF u(1) okm(2)]], rule live_static, rule live_deferred,
          rule live_tryio[OF lr spec_rename_restored[OF u(1)] live_restorePrevious[OF u tt ep]])
  qed
qed

section \<open>Recovery\<close>

lemma recover_calm:
  assumes w: "calm u n w" "uid_ok en" and r: "recorded en exe t (fs w)" and lay: "layout exe t"
  shows "recoverInterruptedUpdate en exe w =
    (if Committed t then tryio (cleanupCommittedTransaction en exe t) throw (\<lambda>_. ret False)
     else ck ''unsafe rollback file'' (lift (validateOwnedRegular en (BackupPath t) False)) (\<lambda>_.
        tryio (rollbackTransaction en exe t None) throw (\<lambda>_. ret True))) w"
proof -
  obtain i where i: "fs w (transactionPath exe) = Some i" "plain_file (en_euid en) i" "length (f_data i) \<le> 65536" "en_decode en (f_data i) = Some t"
    using r by (auto simp: recorded_def)
  have d: "\<not> (PreviousBackupPath t \<noteq> '''' \<and> path_dir (PreviousBackupPath t) \<noteq> path_dir exe)"
    using layout_dirs(2)[OF lay] by blast
  show ?thesis unfolding recoverInterruptedUpdate_def Let_def using d w i owned_plain[of en "fs w" "transactionPath exe" i] layout_dirs[OF lay]
    by (auto simp: tryio_def lift_def Lstat_def open_file_def atomic_def syscall_def calm_def)
qed

lemma live_recover:
  assumes u: "uid_ok en" "en_euid en = u" and ep: "ok_episode ep"
  shows "live u 3 (safe en ep exe) (recoverInterruptedUpdate en exe) 0"
proof (rule liveI)
  fix w assume w: "calm u 3 w" "safe en ep exe (fs w)"
  have w0: "calm u 0 w" using w(1) by (auto simp: calm_def intro: name_supply_less)
  have w3: "calm u (Suc (Suc (Suc 0))) w" using w(1) by (simp add: numeral_3_eq_3)
  let ?goal = "\<exists>x v. recoverInterruptedUpdate en exe w = (Done x, v) \<and> calm u 0 v"
  have fin: ?goal if f: "finishing en exe (X u ep exe) t (fs w)" and X: "X = at_old \<or> X = at_new" for X t
  proof -
    have t: "Committed t" "layout exe t" "recorded en exe t (fs w)" using f finishing_layout by auto
    have "live u 0 (finishing en exe (X u ep exe) t) (cleanupCommittedTransaction en exe t) 0"
      by (rule live_cleanup) (use X u in \<open>auto dest: target_exists\<close>)
    then obtain x v where "cleanupCommittedTransaction en exe t w = (Done x, v)" "calm u 0 v" using f w0 by (auto simp: live_def)
    then show ?goal unfolding recover_calm[OF w(1) u(1) t(3,2)] using t(1) by (intro exI[of _ False] exI[of _ v]) (simp add: tryio_def ret_def)
  qed
  have pen: ?goal if p: "pending en ep exe t (fs w)" for t
  proof -
    have t: "\<not> Committed t" "layout exe t" "recorded en exe t (fs w)" "holds_data u (old_data ep) (fs w (BackupPath t))"
      using p u by (auto simp: pending_def backups_def)
    obtain x v where rb: "rollbackTransaction en exe t None w = (Done x, v)" "calm u 0 v"
      using live_rollback[where t = t and exe = exe and n = 0, OF u(2,1) same_txn_refl(1) ep] w3 p by (auto simp: live_def)
    obtain i where "fs w (BackupPath t) = Some i" "plain_file (en_euid en) i" using t(4) u by (auto simp: holds_data_def)
    with owned_plain[of en "fs w" "BackupPath t" i] u rb show ?goal
      unfolding recover_calm[OF w(1) u(1) t(3,2)] using t(1) by (intro exI[of _ True] exI[of _ v]) (simp add: ck_def tryio_def ret_def lift_def)
  qed
  show ?goal
  proof (cases "fs w (transactionPath exe) = None")
    case True
    with owned_absent[of en "fs w" "transactionPath exe"] u w0 show ?thesis
      by (intro exI[of _ False] exI[of _ w]) (simp add: recoverInterruptedUpdate_def Let_def tryio_def lift_def ret_def)
  next
    case False
    then show ?thesis using w(2) u fin[of at_old] fin[of at_new] pen by (auto simp: safe_def)
  qed
qed

end
