(* ===== verification/Update_Properties.thy ===== *)
theory Update_Properties
  imports Update_Liveness
begin

text \<open>
  The properties of the self-updater, stated on runs: what every outcome of an installation and of a
  recovery leaves, that recovery completes, and what a success means.
\<close>

lemma safe_runnable: "safe en ep exe f \<Longrightarrow> runnable (en_euid en) ep exe f"
  by (auto simp: safe_def finishing_def pending_def runnable_def at_old_def at_new_def)

lemma kept_target: "kept en ep exe X f \<Longrightarrow> X f"
  by (auto simp: kept_def finishing_def)

section \<open>A concrete environment\<close>

text \<open>A codec with the laws \<open>setup_ok\<close> asks for: characters escaped, numbers in unary.\<close>

definition put_str :: "string \<Rightarrow> string" where
  "put_str s = concat (map (\<lambda>c. [CHR ''c'', c]) s) @ ''.''"

fun get_str :: "string \<Rightarrow> string \<times> string" where
  "get_str (CHR ''c'' # c # r) = (case get_str r of (s, q) \<Rightarrow> (c # s, q))"
| "get_str r = ([], drop 1 r)"

definition put_num :: "nat \<Rightarrow> string" where
  "put_num n = replicate n CHR ''1'' @ ''.''"

fun get_num :: "string \<Rightarrow> nat \<times> string" where
  "get_num (CHR ''1'' # r) = (case get_num r of (n, q) \<Rightarrow> (Suc n, q))"
| "get_num r = (0, drop 1 r)"

definition demo_encode :: "transaction \<Rightarrow> string" where
  "demo_encode t = put_str (BackupPath t) @ put_str (CandidatePath t) @ put_str (PreviousCandidate t) @ put_str (PreviousBackupPath t) @
     put_num (PreviousMode t) @ put_num (Mode t) @ put_str (TargetVersion t) @ (if Committed t then ''t'' else ''f'')"

definition demo_decode :: "string \<Rightarrow> transaction option" where
  "demo_decode s = (case get_str s of (b, s) \<Rightarrow> case get_str s of (c, s) \<Rightarrow> case get_str s of (pc, s) \<Rightarrow> case get_str s of (pb, s) \<Rightarrow>
     case get_num s of (pm, s) \<Rightarrow> case get_num s of (m, s) \<Rightarrow> case get_str s of (v, s) \<Rightarrow>
     Some \<lparr>BackupPath = b, CandidatePath = c, PreviousCandidate = pc, PreviousBackupPath = pb, PreviousMode = pm, Mode = m,
       TargetVersion = v, Committed = (s = ''t'')\<rparr>)"

lemma get_put_str: "get_str (put_str s @ r) = (s, r)"
  by (induction s) (auto simp: put_str_def)

lemma get_put_num: "get_num (put_num n @ r) = (n, r)"
  by (induction n) (auto simp: put_num_def)

lemma demo_codec: "demo_decode (demo_encode t) = Some t"
  by (cases t) (simp add: demo_decode_def demo_encode_def get_put_str get_put_num)

lemma length_put: "length (put_str s) = 2 * length s + 1" "length (put_num n) = n + 1"
  by (induction s) (auto simp: put_str_def put_num_def)

lemma length_show_nat: "n < 10 ^ Suc k \<Longrightarrow> length (show_nat n) \<le> Suc k"
proof (induction k arbitrary: n)
  case 0
  then show ?case by (subst show_nat.simps) simp
next
  case (Suc k)
  have "n div 10 < 10 ^ Suc k" using Suc.prems by (simp add: less_mult_imp_div_less)
  then show ?case using Suc.IH[of "n div 10"] by (subst show_nat.simps) auto
qed

lemma length_temp: "temp_name dir pre p \<Longrightarrow> length p \<le> length dir + length pre + 11"
proof -
  assume "temp_name dir pre p"
  then obtain s :: "32 word" where p: "p = joinPath dir pre @ show_nat (unat s)" by (auto simp: temp_name_def)
  have "unat s < 10 ^ Suc 9" using unsigned_less[of s, where ?'a = nat] by simp
  from length_show_nat[OF this] show ?thesis by (auto simp: p joinPath_def)
qed

definition demo_semver :: semver where
  "demo_semver = \<lparr>IsValid = (\<lambda>_. True), Canonical = (\<lambda>s. s), Prerelease = (\<lambda>_. ''''), Build = (\<lambda>_. ''''), Compare = (\<lambda>a b. if a = b then 0 else 1)\<rparr>"

definition demo_info :: porcelain_info where
  "demo_info = \<lparr>Version = ''v2.0.0'', Commit = ''c'', Date = ''d'', InvenTreeVersion = '''', InvenTreeAPI = ''''\<rparr>"

definition demo_env :: install_env where
  "demo_env = \<lparr>en_uid = 7, en_euid = 7, en_gid = 7, en_egid = 7, en_goos = ''linux'', en_encode = demo_encode, en_decode = demo_decode,
     en_run = (\<lambda>_ _. Inr (VersionOutput demo_info)), en_semver = demo_semver\<rparr>"

definition demo_file :: "string \<Rightarrow> nat \<Rightarrow> inode" where
  "demo_file d m = \<lparr>f_data = d, f_perm = m, f_special = False, f_kind = Regular, f_uid = 7, f_nlink = 1, f_ino = 1\<rparr>"

definition demo_dir :: inode where
  "demo_dir = \<lparr>f_data = '''', f_perm = 493, f_special = False, f_kind = Directory, f_uid = 7, f_nlink = 2, f_ino = 2\<rparr>"

definition demo_episode :: episode where
  "demo_episode = \<lparr>old_data = ''old'', old_mode = 493, prior = None, new_data = ''new''\<rparr>"

definition demo_request :: install_request where
  "demo_request = \<lparr>Executable = ''/d/e'', Binary = ''new'', rq_TargetVersion = ''v2.0.0'', rq_OutputLimit = 65536\<rparr>"

definition demo_world :: "fault list \<Rightarrow> world" where
  "demo_world flt = \<lparr>fs = [''/d/e'' \<mapsto> demo_file ''old'' 493, ''/d'' \<mapsto> demo_dir, ''/'' \<mapsto> demo_dir], faults = flt,
     rand = [1, 2, 3, 4, 5, 6, 7, 8], next_ino = 10, euid = 7\<rparr>"

lemma demo_env_simps [simp]: "en_euid demo_env = 7" "en_encode demo_env = demo_encode" "en_decode demo_env = demo_decode"
  by (simp_all add: demo_env_def)

lemma demo_setup: "setup_ok demo_env (Executable demo_request) (rq_TargetVersion demo_request)"
proof -
  have d: "path_dir ''/d/e'' = ''/d''" "path_clean ''/d'' = ''/d''" by code_simp+
  have t: "length p \<le> 60" if "tmp ''/d/e'' k p" "length k \<le> 30" for k p
    using length_temp[of "''/d''" "''.'' @ binaryName @ k" p] that by (simp add: tmp_def d binaryName_def)
  have "length (demo_encode t) \<le> 65536" if u: "update_txn ''/d/e'' ''v2.0.0'' t" for t
  proof -
    have "length (BackupPath t) \<le> 60" "length (CandidatePath t) \<le> 60" "length (PreviousCandidate t) \<le> 60" "length (PreviousBackupPath t) \<le> 60"
      using u by (auto simp: update_txn_def intro: t)
    moreover have "PreviousMode t < 512" "Mode t < 512" "TargetVersion t = ''v2.0.0''" using u by (auto simp: update_txn_def)
    ultimately show ?thesis by (simp add: demo_encode_def length_put)
  qed
  then show ?thesis by (simp add: setup_ok_def demo_request_def d fits_def demo_codec)
qed

lemma demo_ok: "ok_episode demo_episode" "uid_ok demo_env"
  by (simp_all add: ok_episode_def ok_mode_def demo_episode_def exec_bits_def group_other_write_def uid_ok_def demo_env_def)

lemma demo_start: "at_old 7 demo_episode ''/d/e'' (fs (demo_world flt))" "fs (demo_world flt) (transactionPath ''/d/e'') = None"
  by (simp_all add: at_old_def demo_world_def demo_episode_def prog_def demo_file_def plain_file_def previousPath_def transactionPath_def)

text \<open>An interrupted update: the new program is in place, the record is not committed.\<close>

definition demo_txn :: transaction where
  "demo_txn = \<lparr>BackupPath = ''/d/b'', CandidatePath = ''/d/c'', PreviousCandidate = ''/d/p'', PreviousBackupPath = '''',
     PreviousMode = 0, Mode = 493, TargetVersion = ''v2.0.0'', Committed = False\<rparr>"

definition demo_interrupted :: world where
  "demo_interrupted = \<lparr>fs = [''/d/e'' \<mapsto> demo_file ''new'' 493, ''/d/b'' \<mapsto> demo_file ''old'' 384,
     transactionPath ''/d/e'' \<mapsto> demo_file (demo_encode demo_txn) 384], faults = [], rand = [1, 2, 3], next_ino = 10, euid = 7\<rparr>"

lemma demo_pending: "pending demo_env demo_episode ''/d/e'' demo_txn (fs demo_interrupted)"
proof -
  have d: "path_dir ''/d/e'' = ''/d''" "path_dir ''/d/b'' = ''/d''" "path_dir ''/d/c'' = ''/d''" "path_dir ''/d/p'' = ''/d''" by code_simp+
  have len: "length (demo_encode demo_txn) \<le> 65536" "length (demo_encode (demo_txn\<lparr>Committed := True\<rparr>)) \<le> 65536"
    by (simp_all add: demo_encode_def demo_txn_def length_put)
  have "layout ''/d/e'' demo_txn"
    by (simp add: layout_def protected_def demo_txn_def d previousPath_def transactionPath_def)
  then show ?thesis using len
    by (simp add: pending_def fits_def demo_codec runnable_def recorded_def backups_def artifacts_plain_def artifacts_def demo_interrupted_def
        prog_def holds_data_def demo_file_def plain_file_def plainish_def demo_episode_def transactionPath_def)
       (simp add: demo_txn_def)
qed

lemma ends_with_digit: "ends_with s p \<Longrightarrow> is_digit (last p)"
  using show_nat_last_digit[of "unat s"] by (auto simp: ends_with_def)

lemma demo_names: "name_supply 3 (fs demo_interrupted) (rand demo_interrupted)"
proof -
  have "\<not> is_digit (last p)" if "fs demo_interrupted p \<noteq> None" for p
    using that by (auto simp: demo_interrupted_def transactionPath_def is_digit_def split: if_splits)
  then show ?thesis using ends_with_digit by (auto simp: name_supply_def) (auto simp: demo_interrupted_def)
qed

section \<open>Properties\<close>



text \<open>C36: Recovery is safe to interrupt and to repeat: from any state an installation or an earlier
  recovery can leave, every outcome of recoverInterruptedUpdate, failures and kills included, is
  such a state again with a complete executable, and a nil error means the old installation (with
  its .previous) is restored or the new one completed.\<close>

theorem recover_any_outcome:
  assumes "ok_episode ep" "euid w = en_euid en" "safe en ep exe (fs w)" and run: "recoverInterruptedUpdate en exe w = (r, v)"
  shows "runnable (en_euid en) ep exe (fs v) \<and> safe en ep exe (fs v) \<and>
    (\<forall>b. r = Done b \<longrightarrow> at_old (en_euid en) ep exe (fs v) \<or> at_new (en_euid en) ep exe (fs v))"
proof -
  note d = specD[OF spec_recover[OF refl assms(1)] assms(2,3) run]
  have "safe en ep exe (fs v)" using d by (cases r) (auto intro: safe_kept)
  then show ?thesis using d safe_runnable by (cases r) (auto dest: kept_target)
qed

theorem recover_any_outcome_witness:
  "safe demo_env demo_episode ''/d/e'' (fs (snd (recoverInterruptedUpdate demo_env ''/d/e'' demo_interrupted)))"
proof -
  let ?r = "recoverInterruptedUpdate demo_env ''/d/e'' demo_interrupted"
  have "safe demo_env demo_episode ''/d/e'' (fs demo_interrupted)" using demo_pending by (auto simp: safe_def)
  then show ?thesis using recover_any_outcome[of demo_episode demo_interrupted demo_env "''/d/e''" "fst ?r" "snd ?r"] demo_ok(1)
    by (simp add: demo_interrupted_def)
qed

text \<open>C37: Recovery completes: when no call fails and three unused random suffixes are available, it
  returns without error from every state a kill can leave, and the installation is then whole, old
  or new.\<close>

theorem recover_completes:
  assumes "uid_ok en" "ok_episode ep" "safe en ep exe (fs w)" "euid w = en_euid en" "faults w = []" "name_supply 3 (fs w) (rand w)"
  shows "\<exists>b v. recoverInterruptedUpdate en exe w = (Done b, v) \<and> (at_old (en_euid en) ep exe (fs v) \<or> at_new (en_euid en) ep exe (fs v))"
proof -
  have "calm (en_euid en) 3 w" using assms by (simp add: calm_def)
  then obtain b v where r: "recoverInterruptedUpdate en exe w = (Done b, v)"
    using live_recover[OF assms(1) refl assms(2)] assms(3) unfolding live_def by blast
  then show ?thesis using specD[OF spec_recover[OF refl assms(2)] assms(4,3) r] by (auto dest: kept_target)
qed

theorem recover_completes_witness:
  "\<exists>b v. recoverInterruptedUpdate demo_env ''/d/e'' demo_interrupted = (Done b, v) \<and>
     (at_old 7 demo_episode ''/d/e'' (fs v) \<or> at_new 7 demo_episode ''/d/e'' (fs v))"
  using recover_completes[of demo_env demo_episode "''/d/e''" demo_interrupted] demo_ok demo_pending demo_names
  by (auto simp: safe_def demo_interrupted_def)

end
