(* ===== verification/Updater.thy ===== *)
theory Updater
  imports Update_Properties
begin

text \<open>
  The updater's driver (internal/selfupdate/selfupdate.go, http.go): release selection, bounded
  downloads and Run, which ties the version policy, the verification of the archive and the
  installer together. The HTTP client, JSON decoding of the release metadata, URL parsing, SHA-256
  and the archive readers are arguments; a held lock is an input of the run.
\<close>

section \<open>Requests\<close>

record url_parts =
  Scheme :: string
  Host :: string
  has_user :: bool
  url_Path :: string
  RawQuery :: string
  Fragment :: string

record http_request =
  rq_url :: string
  Accept :: string
  UserAgent :: string
  Authorization :: "string option"

record http_response =
  StatusOK :: bool
  Body :: string
  ReadError :: bool
  CloseError :: bool

record github_asset =
  Name :: string
  BrowserDownloadURL :: string

record github_release =
  TagName :: string
  Draft :: bool
  is_Prerelease :: bool
  Assets :: "github_asset list"

record release =
  rel_Version :: string
  ArchiveName :: string
  ArchiveURL :: string
  ChecksumURL :: string

record limits =
  MetadataBytes :: int
  ChecksumBytes :: int
  ArchiveBytes :: int
  ExecutableBytes :: int
  ProcessOutput :: int
  HTTPTimeout :: int
  ProcessTimeout :: int

definition second :: int where "second = 1000000000"

definition defaultLimits :: limits where
  "defaultLimits = \<lparr>MetadataBytes = 2 * 2 ^ 20, ChecksumBytes = 2 ^ 20, ArchiveBytes = 64 * 2 ^ 20, ExecutableBytes = 128 * 2 ^ 20,
     ProcessOutput = 64 * 2 ^ 10, HTTPTimeout = 30 * second, ProcessTimeout = 5 * second\<rparr>"

text \<open>The limits New stores: zero fields take their defaults.\<close>

definition or_default :: "int \<Rightarrow> int \<Rightarrow> int" where
  "or_default x d = (if x = 0 then d else x)"

definition effectiveLimits :: "limits \<Rightarrow> limits" where
  "effectiveLimits l = (let d = defaultLimits in
     \<lparr>MetadataBytes = or_default (MetadataBytes l) (MetadataBytes d), ChecksumBytes = or_default (ChecksumBytes l) (ChecksumBytes d),
      ArchiveBytes = or_default (ArchiveBytes l) (ArchiveBytes d), ExecutableBytes = or_default (ExecutableBytes l) (ExecutableBytes d),
      ProcessOutput = or_default (ProcessOutput l) (ProcessOutput d), HTTPTimeout = or_default (HTTPTimeout l) (HTTPTimeout d),
      ProcessTimeout = or_default (ProcessTimeout l) (ProcessTimeout d)\<rparr>)"

record updater =
  u_client :: "http_request \<Rightarrow> string + http_response"
  u_parse_url :: "string \<Rightarrow> url_parts option"
  u_decode_release :: "string \<Rightarrow> github_release option"
  u_path_escape :: "string \<Rightarrow> string"
  u_sha256 :: "string \<Rightarrow> string"
  u_archive_view :: "string \<Rightarrow> archive_view"
  u_ExecutablePath :: "string + string"
  u_env :: install_env
  u_GOARCH :: string
  u_limits :: limits
  u_APIBaseURL :: string
  u_UserAgent :: string

definition get :: "updater \<Rightarrow> string \<Rightarrow> string \<Rightarrow> int \<Rightarrow> string + string" where
  "get up rawURL token lim = (case u_parse_url up rawURL of None \<Rightarrow> Inl ''invalid request URL''
   | Some u \<Rightarrow>
     (case u_client up \<lparr>rq_url = rawURL, Accept = ''application/vnd.github+json'', UserAgent = u_UserAgent up,
        Authorization = (if token \<noteq> '''' \<and> Scheme u = ''https'' \<and> Host u = ''api.github.com'' then Some (''Bearer '' @ token) else None)\<rparr> of
       Inl e \<Rightarrow> Inl e
     | Inr resp \<Rightarrow>
       if \<not> StatusOK resp then Inl ''GET returned status''
       else (let d = take (nat (lim + 1)) (Body resp) in
         if ReadError resp then Inl ''read response''
         else if CloseError resp then Inl ''close response''
         else if int (length d) > lim then Inl ''response exceeds limit''
         else Inr d)))"

definition download :: "updater \<Rightarrow> string \<Rightarrow> string \<Rightarrow> int \<Rightarrow> string + string" where
  "download up rawURL token lim = get up rawURL token lim"

definition repositoryPath :: string where
  "repositoryPath = ''/davidvanlaatum/inventree-mcp''"

definition validateAssetURL :: "updater \<Rightarrow> string \<Rightarrow> string \<Rightarrow> string \<Rightarrow> string + unit" where
  "validateAssetURL up raw version filename = (case u_parse_url up raw of None \<Rightarrow> Inl ''invalid asset URL''
   | Some u \<Rightarrow>
     if Scheme u \<noteq> ''https'' \<or> Host u \<noteq> ''github.com'' \<or> has_user u \<or> Fragment u \<noteq> '''' then Inl ''untrusted canonical GitHub asset URL''
     else if path_clean (url_Path u) \<noteq> repositoryPath @ ''/releases/download/'' @ version @ ''/'' @ filename \<or> RawQuery u \<noteq> ''''
     then Inl ''asset URL does not match release asset'' else Inr ())"

fun selectAssets :: "string \<Rightarrow> github_asset list \<Rightarrow> string \<Rightarrow> string \<Rightarrow> string + string \<times> string" where
  "selectAssets archiveName [] a c = Inr (a, c)"
| "selectAssets archiveName (x # xs) a c =
    (if Name x = archiveName then
       (if a \<noteq> '''' then Inl ''duplicate release asset'' else selectAssets archiveName xs (BrowserDownloadURL x) c)
     else if Name x = ''checksums.txt'' then
       (if c \<noteq> '''' then Inl ''duplicate release asset checksums.txt'' else selectAssets archiveName xs a (BrowserDownloadURL x))
     else selectAssets archiveName xs a c)"

definition resolveRelease :: "updater \<Rightarrow> string \<Rightarrow> string \<Rightarrow> string + release" where
  "resolveRelease up target token = (let endpoint = trim_right (\<lambda>c. c = slash) (u_APIBaseURL up) @ ''/repos'' @ repositoryPath @ ''/releases/'' @
       (if target = '''' then ''latest'' else ''tags/'' @ u_path_escape up target) in
     sum_bind (get up endpoint token (MetadataBytes (u_limits up))) (\<lambda>body.
     case u_decode_release up body of None \<Rightarrow> Inl ''decode GitHub release metadata''
     | Some m \<Rightarrow>
       if Draft m \<or> is_Prerelease m then Inl ''release is draft or prerelease''
       else sum_bind (canonicalStableVersion (en_semver (u_env up)) (TagName m)) (\<lambda>version.
         if target \<noteq> '''' \<and> version \<noteq> target then Inl ''release tag does not match requested''
         else (let archiveName = releaseArchiveName (en_goos (u_env up)) (u_GOARCH up) in
           sum_bind (selectAssets archiveName (Assets m) '''' '''') (\<lambda>(archiveURL, checksumURL).
           if archiveURL = '''' \<or> checksumURL = '''' then Inl ''release is missing assets''
           else sum_bind (validateAssetURL up archiveURL version archiveName) (\<lambda>_.
             sum_bind (validateAssetURL up checksumURL version ''checksums.txt'') (\<lambda>_.
             Inr \<lparr>rel_Version = version, ArchiveName = archiveName, ArchiveURL = archiveURL, ChecksumURL = checksumURL\<rparr>)))))))"

section \<open>The update lock\<close>

definition lockPath :: "string \<Rightarrow> string" where
  "lockPath executable = executable @ ''.self-update.lock''"

definition open_create :: "string \<Rightarrow> (up_error, inode) io" where
  "open_create p = atomic (\<lambda>w. case fs w p of
     Some i \<Rightarrow> if f_kind i = Symlink then (Failed ErrIO, w) else (Done i, w)
   | None \<Rightarrow> (Done (new_inode w), w\<lparr>fs := (fs w)(p \<mapsto> new_inode w), next_ino := next_ino w + 1\<rparr>))"

definition acquireLock :: "install_env \<Rightarrow> bool \<Rightarrow> string \<Rightarrow> (up_error, unit) io" where
  "acquireLock en lock_free executable = (let path = lockPath executable in
     ck ''open self-update lock'' (open_create path) (\<lambda>info.
     ck ''unsafe self-update lock'' (lift (validateOwnedRegular en path False)) (\<lambda>_.
     ck ''unsafe self-update lock identity or permissions'' (lift (Lstat path)) (\<lambda>pathInfo.
     if \<not> SameFile info pathInfo \<or> and (f_perm info) 63 \<noteq> 0 then throw (ErrText ''unsafe self-update lock identity or permissions'')
     else if \<not> lock_free then throw (ErrText ''another self-update is active'')
     else ck ''self-update lock identity changed'' (lift (Lstat path)) (\<lambda>pathInfo.
       if \<not> SameFile info pathInfo then throw (ErrText ''self-update lock identity changed'') else ret ())))))"

section \<open>Run\<close>

record options =
  opt_TargetVersion :: string
  GitHubToken :: string
  AdoptDirectInstall :: bool

record run_result =
  PreviousVersion :: string
  res_Version :: string
  res_BackupPath :: string
  Updated :: bool
  Adopted :: bool
  New :: "porcelain_info option"

definition text_error :: "string + 'a \<Rightarrow> up_error + 'a" where
  "text_error r = (case r of Inl e \<Rightarrow> Inl (ErrText e) | Inr x \<Rightarrow> Inr x)"

definition checksum_text :: "checksum_error + 'a \<Rightarrow> up_error + 'a" where
  "checksum_text r = (case r of Inl e \<Rightarrow> Inl (ErrText ''checksum'') | Inr x \<Rightarrow> Inr x)"

definition verifyAndInstall :: "updater \<Rightarrow> options \<Rightarrow> string \<Rightarrow> string \<Rightarrow> release \<Rightarrow> (up_error, run_result) io" where
  "verifyAndInstall up opts executable current rel = (let en = u_env up; lim = u_limits up in
     ck ''download release archive'' (lift (\<lambda>_. text_error (download up (ArchiveURL rel) (GitHubToken opts) (ArchiveBytes lim)))) (\<lambda>archive.
     ck ''download release checksums'' (lift (\<lambda>_. text_error (download up (ChecksumURL rel) (GitHubToken opts) (ChecksumBytes lim)))) (\<lambda>checksums.
     ck '''' (lift (\<lambda>_. checksum_text (verifyChecksum (u_sha256 up) (ArchiveName rel) archive checksums))) (\<lambda>_.
     ck '''' (lift (\<lambda>_. text_error (extractExecutable (u_archive_view up archive) (ExecutableBytes lim)))) (\<lambda>(binary, mode).
     tryio (installVerified en \<lparr>Executable = executable, Binary = binary, rq_TargetVersion = rel_Version rel,
         rq_OutputLimit = ProcessOutput lim\<rparr>) throw (\<lambda>installed.
     ret \<lparr>PreviousVersion = current, res_Version = rel_Version rel, res_BackupPath = PreviousPath installed, Updated = True, Adopted = False,
       New = Some (Candidate installed)\<rparr>))))))"

definition selectTarget :: "semver \<Rightarrow> string \<Rightarrow> string \<Rightarrow> string + string" where
  "selectTarget sv current raw = (let target = trim_space raw in
     if target = '''' then Inr ''''
     else sum_bind (canonicalStableVersion sv target) (\<lambda>t. if Compare sv t current < 0 then Inl ''downgrade'' else Inr t))"

definition Run :: "updater \<Rightarrow> bool \<Rightarrow> string \<Rightarrow> options \<Rightarrow> (up_error, run_result) io" where
  "Run up lock_free currentVersion opts = (let en = u_env up; sv = en_semver en in
     ck ''current build version'' (lift (\<lambda>_. text_error (canonicalStableVersion sv currentVersion))) (\<lambda>current.
     if \<not> supportedPlatform (en_goos en) (u_GOARCH up) then throw (ErrText ''self-update is unsupported on this platform'')
     else if AdoptDirectInstall opts then
       (if opt_TargetVersion opts \<noteq> '''' then throw (ErrText ''adoption cannot be combined with a target version'')
        else ck ''locate current executable'' (lift (\<lambda>_. text_error (u_ExecutablePath up))) (\<lambda>executable.
          tryio (lift (validateInstallTarget en executable (en_goos en))) throw (\<lambda>_.
          tryio (adoptDirectInstall en executable) throw (\<lambda>_.
          ret \<lparr>PreviousVersion = current, res_Version = current, res_BackupPath = '''', Updated = False, Adopted = True, New = None\<rparr>))))
     else
       ck ''target version'' (lift (\<lambda>_. text_error (selectTarget sv current (opt_TargetVersion opts)))) (\<lambda>target.
       ck ''locate current executable'' (lift (\<lambda>_. text_error (u_ExecutablePath up))) (\<lambda>executable.
       tryio (lift (validateInstallTarget en executable (en_goos en))) throw (\<lambda>_.
       tryio (validateDirectInstallMarker en executable) throw (\<lambda>_.
       tryio (acquireLock en lock_free executable) throw (\<lambda>_.
       ck ''recover interrupted update'' (recoverInterruptedUpdate en executable) (\<lambda>recovered.
       if recovered then throw (ErrText ''recovered an interrupted self-update; rerun self-update'')
       else tryio (lift (\<lambda>_. text_error (resolveRelease up target (GitHubToken opts)))) throw (\<lambda>rel.
         if Compare sv (rel_Version rel) current < 0 then throw (ErrText ''resolved release is older'')
         else if Compare sv (rel_Version rel) current = 0
         then ret \<lparr>PreviousVersion = current, res_Version = rel_Version rel, res_BackupPath = '''', Updated = False, Adopted = False, New = None\<rparr>
         else verifyAndInstall up opts executable current rel)))))))))"

section \<open>What a successful run means\<close>

lemma tryio_Done: "tryio m h k w = (Done y, v) \<Longrightarrow> (\<And>e z. h e z \<noteq> (Done y, v)) \<Longrightarrow> \<exists>x z. m w = (Done x, z) \<and> k x z = (Done y, v)"
  by (auto simp: tryio_def split: prod.splits res.splits)

lemma ck_Done: "ck s m k w = (Done y, v) \<longleftrightarrow> (\<exists>x z. m w = (Done x, z) \<and> k x z = (Done y, v))"
  by (auto simp: ck_def tryio_def throw_def split: prod.splits res.splits)

lemma tryio_throw_Done: "tryio m throw k w = (Done y, v) \<longleftrightarrow> (\<exists>x z. m w = (Done x, z) \<and> k x z = (Done y, v))"
  by (auto simp: tryio_def throw_def split: prod.splits res.splits)

lemma lift_Done: "lift g w = (Done x, v) \<longleftrightarrow> g (fs w) = Inr x \<and> v = w"
  by (auto simp: lift_def split: sum.splits)

lemma throw_Done [simp]: "throw e w \<noteq> (Done x, v)"
  by (simp add: throw_def)

lemma text_error_Inr [simp]: "text_error r = Inr x \<longleftrightarrow> r = Inr x" "checksum_text c = Inr y \<longleftrightarrow> c = Inr y"
  by (auto simp: text_error_def checksum_text_def split: sum.splits)

lemmas done_rules = ck_Done tryio_throw_Done lift_Done

text \<open>An update that reports success installed a verified, newer release: the archive it downloaded
  passed the checksum step under the platform's archive name, the binary given to the installer is
  the single executable extracted from that archive, the release is stable, not older and not equal
  to the running version, is the requested one if a target was given, and the installer itself
  succeeded.\<close>

theorem run_installs_verified:
  assumes "Run up lock_free currentVersion opts w = (Done res, v)" "Updated res"
  shows "\<exists>current target rel exe archive sums binary mode ins w'.
    canonicalStableVersion (en_semver (u_env up)) currentVersion = Inr current \<and>
    selectTarget (en_semver (u_env up)) current (opt_TargetVersion opts) = Inr target \<and>
    resolveRelease up target (GitHubToken opts) = Inr rel \<and> (target = '''' \<or> rel_Version rel = target) \<and>
    Compare (en_semver (u_env up)) (rel_Version rel) current > 0 \<and>
    length archive \<le> nat (ArchiveBytes (u_limits up)) \<and>
    verifyChecksum (u_sha256 up) (ArchiveName rel) archive sums = Inr () \<and>
    extractExecutable (u_archive_view up archive) (ExecutableBytes (u_limits up)) = Inr (binary, mode) \<and>
    installVerified (u_env up) \<lparr>Executable = exe, Binary = binary, rq_TargetVersion = rel_Version rel,
      rq_OutputLimit = ProcessOutput (u_limits up)\<rparr> w' = (Done ins, v) \<and> res_Version res = rel_Version rel"
proof -
  have v1: "length d \<le> nat lim" if "download up url tok lim = Inr d" for url tok lim d
    using that by (auto simp: download_def get_def Let_def split: option.splits sum.splits if_splits)
  have v2: "t = '''' \<or> rel_Version rel = t" if "resolveRelease up t tok = Inr rel" for t tok rel
    using that by (auto simp: resolveRelease_def Let_def sum_bind_Inr split: option.splits if_splits)
  obtain current where c: "canonicalStableVersion (en_semver (u_env up)) currentVersion = Inr current"
    using assms by (auto simp: Run_def Let_def done_rules)
  have na: "\<not> AdoptDirectInstall opts" using assms by (auto simp: Run_def Let_def done_rules ret_def split: if_splits)
  obtain target exe rel z where t: "selectTarget (en_semver (u_env up)) current (opt_TargetVersion opts) = Inr target"
    and r: "resolveRelease up target (GitHubToken opts) = Inr rel"
    and cmp: "\<not> Compare (en_semver (u_env up)) (rel_Version rel) current < 0" "Compare (en_semver (u_env up)) (rel_Version rel) current \<noteq> 0"
    and ins: "verifyAndInstall up opts exe current rel z = (Done res, v)"
    using assms na c by (auto simp: Run_def Let_def done_rules ret_def split: if_splits)
  from ins obtain archive sums binary mode installed where a:
    "download up (ArchiveURL rel) (GitHubToken opts) (ArchiveBytes (u_limits up)) = Inr archive"
    "verifyChecksum (u_sha256 up) (ArchiveName rel) archive sums = Inr ()"
    "extractExecutable (u_archive_view up archive) (ExecutableBytes (u_limits up)) = Inr (binary, mode)"
    "installVerified (u_env up) \<lparr>Executable = exe, Binary = binary, rq_TargetVersion = rel_Version rel,
      rq_OutputLimit = ProcessOutput (u_limits up)\<rparr> z = (Done installed, v)"
    "res_Version res = rel_Version rel"
    by (auto simp: verifyAndInstall_def Let_def done_rules ret_def split: prod.splits)
  have "Compare (en_semver (u_env up)) (rel_Version rel) current > 0" using cmp by simp
  then show ?thesis using c t r v2[OF r] v1[OF a(1)] a by blast
qed

end
