(* ===== verification/Net_Address.thy ===== *)
theory Net_Address
  imports Prelude "HOL-Library.Word"
begin

unbundle bit_operations_syntax

text \<open>
  IP addresses at their width as net/netip has them, prefixes, and the address policies: the
  addresses a URL upload may not reach (internal/upload/url.go) and the client address behind
  trusted proxies (internal/server/source_ip.go). Parsing of address text is an argument.
\<close>

section \<open>Addresses and prefixes\<close>

datatype ip_addr = NoAddr | V4 "32 word" | V6 "128 word" string

datatype ip_prefix = P4 "32 word" nat | P6 "128 word" nat

definition Is4In6 :: "ip_addr \<Rightarrow> bool" where
  "Is4In6 a = (case a of V6 w z \<Rightarrow> drop_bit 32 w = 0xffff | _ \<Rightarrow> False)"

definition Unmap :: "ip_addr \<Rightarrow> ip_addr" where
  "Unmap a = (case a of V6 w z \<Rightarrow> if drop_bit 32 w = 0xffff then V4 (ucast w) else a | _ \<Rightarrow> a)"

definition Contains :: "ip_prefix \<Rightarrow> ip_addr \<Rightarrow> bool" where
  "Contains p a = (case p of
     P4 b n \<Rightarrow> (case a of V4 w \<Rightarrow> drop_bit (32 - n) (w XOR b) = 0 | _ \<Rightarrow> False)
   | P6 b n \<Rightarrow> (case a of V6 w z \<Rightarrow> z = '''' \<and> drop_bit (128 - n) (w XOR b) = 0 | _ \<Rightarrow> False))"

definition Bits :: "ip_prefix \<Rightarrow> nat" where
  "Bits p = (case p of P4 b n \<Rightarrow> n | P6 b n \<Rightarrow> n)"

definition ip4 :: "nat \<Rightarrow> nat \<Rightarrow> nat \<Rightarrow> nat \<Rightarrow> 32 word" where
  "ip4 a b c d = of_nat (((a * 256 + b) * 256 + c) * 256 + d)"

text \<open>The first two 16-bit groups of an IPv6 address, the rest zero.\<close>

definition ip6 :: "nat \<Rightarrow> nat \<Rightarrow> 128 word" where
  "ip6 g0 g1 = of_nat ((g0 * 65536 + g1) * 2 ^ 96)"

definition IsLoopback :: "ip_addr \<Rightarrow> bool" where
  "IsLoopback a = (case Unmap a of NoAddr \<Rightarrow> False | V4 w \<Rightarrow> drop_bit 24 w = 127 | V6 w z \<Rightarrow> w = 1)"

definition IsPrivate :: "ip_addr \<Rightarrow> bool" where
  "IsPrivate a = (case Unmap a of NoAddr \<Rightarrow> False
   | V4 w \<Rightarrow> drop_bit 24 w = 10 \<or> drop_bit 20 w = 0xac1 \<or> drop_bit 16 w = 0xc0a8
   | V6 w z \<Rightarrow> drop_bit 121 w = 0x7e)"

definition IsLinkLocalUnicast :: "ip_addr \<Rightarrow> bool" where
  "IsLinkLocalUnicast a = (case Unmap a of NoAddr \<Rightarrow> False | V4 w \<Rightarrow> drop_bit 16 w = 0xa9fe | V6 w z \<Rightarrow> drop_bit 118 w = 0x3fa)"

definition IsLinkLocalMulticast :: "ip_addr \<Rightarrow> bool" where
  "IsLinkLocalMulticast a = (case Unmap a of NoAddr \<Rightarrow> False | V4 w \<Rightarrow> drop_bit 8 w = 0xe00000 | V6 w z \<Rightarrow> drop_bit 112 w AND 0xff0f = 0xff02)"

definition IsMulticast :: "ip_addr \<Rightarrow> bool" where
  "IsMulticast a = (case Unmap a of NoAddr \<Rightarrow> False | V4 w \<Rightarrow> drop_bit 28 w = 0xe | V6 w z \<Rightarrow> drop_bit 120 w = 0xff)"

definition IsUnspecified :: "ip_addr \<Rightarrow> bool" where
  "IsUnspecified a = (a = V4 0 \<or> a = V6 0 '''')"

section \<open>Addresses URL uploads may not reach\<close>

definition blockedPrefixes4 :: "ip_prefix list" where
  "blockedPrefixes4 = [P4 (ip4 0 0 0 0) 8, P4 (ip4 10 0 0 0) 8, P4 (ip4 100 64 0 0) 10, P4 (ip4 127 0 0 0) 8,
     P4 (ip4 169 254 0 0) 16, P4 (ip4 172 16 0 0) 12, P4 (ip4 192 0 0 0) 24, P4 (ip4 192 0 2 0) 24, P4 (ip4 192 168 0 0) 16,
     P4 (ip4 198 18 0 0) 15, P4 (ip4 198 51 100 0) 24, P4 (ip4 203 0 113 0) 24, P4 (ip4 224 0 0 0) 4, P4 (ip4 240 0 0 0) 4]"

definition blockedPrefixes6 :: "ip_prefix list" where
  "blockedPrefixes6 = [P6 0 128, P6 1 128, P6 0xffff00000000 96, P6 (ip6 0x64 0xff9b) 96, P6 (ip6 0x100 0) 64,
     P6 (ip6 0x2001 0) 23, P6 (ip6 0x2001 0xdb8) 32, P6 (ip6 0xfc00 0) 7, P6 (ip6 0xfe80 0) 10, P6 (ip6 0xff00 0) 8]"

definition blockedIPv4 :: "ip_addr \<Rightarrow> bool" where
  "blockedIPv4 a = list_ex (\<lambda>p. Contains p a) blockedPrefixes4"

definition blockedIPv6 :: "ip_addr \<Rightarrow> bool" where
  "blockedIPv6 a = list_ex (\<lambda>p. Contains p a) blockedPrefixes6"

definition blockedAddress :: "ip_addr \<Rightarrow> bool" where
  "blockedAddress addr = (let a = Unmap addr in
     if a = NoAddr then True
     else if IsLoopback a \<or> IsPrivate a \<or> IsLinkLocalUnicast a \<or> IsLinkLocalMulticast a \<or> IsMulticast a \<or> IsUnspecified a then True
     else if Is4In6 a then True
     else (case a of V4 _ \<Rightarrow> blockedIPv4 a | _ \<Rightarrow> blockedIPv6 a))"

text \<open>Reference: the blocked addresses as closed intervals of address numbers.\<close>

definition blocked_intervals4 :: "(nat \<times> nat) list" where
  "blocked_intervals4 = [(0, 0x00ffffff), (0x0a000000, 0x0affffff), (0x64400000, 0x647fffff), (0x7f000000, 0x7fffffff),
     (0xa9fe0000, 0xa9feffff), (0xac100000, 0xac1fffff), (0xc0000000, 0xc00000ff), (0xc0000200, 0xc00002ff), (0xc0a80000, 0xc0a8ffff),
     (0xc6120000, 0xc613ffff), (0xc6336400, 0xc63364ff), (0xcb007100, 0xcb0071ff), (0xe0000000, 0xffffffff)]"

definition blocked_intervals6 :: "(nat \<times> nat) list" where
  "blocked_intervals6 = [(0, 0), (1, 1), (0xffff00000000, 0xffffffffffff),
     (0x0064ff9b000000000000000000000000, 0x0064ff9b0000000000000000ffffffff),
     (0x01000000000000000000000000000000, 0x0100000000000000ffffffffffffffff),
     (0x20010000000000000000000000000000, 0x200101ffffffffffffffffffffffffff),
     (0x20010db8000000000000000000000000, 0x20010db8ffffffffffffffffffffffff),
     (0xfc000000000000000000000000000000, 0xfdffffffffffffffffffffffffffffff),
     (0xfe800000000000000000000000000000, 0xfebfffffffffffffffffffffffffffff),
     (0xff000000000000000000000000000000, 0xffffffffffffffffffffffffffffffff)]"

definition in_intervals :: "(nat \<times> nat) list \<Rightarrow> nat \<Rightarrow> bool" where
  "in_intervals is n = list_ex (\<lambda>(lo, hi). lo \<le> n \<and> n \<le> hi) is"

lemma xor_zero: "(a XOR b = 0) = (a = b)" for a b :: "'a :: len word"
  by (metis xor.assoc xor.left_neutral xor_self_eq)

lemma unat_drop: "unat (drop_bit k a) = unat a div 2 ^ k" for a :: "'a :: len word"
  by (subst unat_drop_bit_eq) (simp only: drop_bit_eq_div)

lemma drop_xor_zero: "drop_bit k (a XOR b) = 0 \<longleftrightarrow> unat a div 2 ^ k = unat b div 2 ^ k" for a b :: "'a :: len word"
proof -
  have "drop_bit k (a XOR b) = 0 \<longleftrightarrow> drop_bit k a = drop_bit k b" by (simp only: drop_bit_xor xor_zero)
  also have "\<dots> \<longleftrightarrow> unat (drop_bit k a) = unat (drop_bit k b)" by (simp only: word_unat_eq_iff)
  finally show ?thesis by (simp only: unat_drop)
qed

lemma drop_eq_iff: "drop_bit k a = b \<longleftrightarrow> unat a div 2 ^ k = unat b" for a b :: "'a :: len word"
  by (simp only: word_unat_eq_iff unat_drop)

lemma div_interval: "0 < d \<Longrightarrow> (n::nat) div d = q \<longleftrightarrow> q * d \<le> n \<and> n \<le> q * d + (d - 1)"
  by (metis Suc_pred' div_nat_eqI add.commute le_Suc_eq less_Suc_eq_le mult.commute mult_Suc_right div_times_less_eq_dividend dividend_less_div_times plus_1_eq_Suc add_Suc)

definition zone_intervals6 :: "(nat \<times> nat) list" where
  "zone_intervals6 = [(1, 1), (0xfc000000000000000000000000000000, 0xfdffffffffffffffffffffffffffffff),
     (0xfe800000000000000000000000000000, 0xfebfffffffffffffffffffffffffffff),
     (0xff000000000000000000000000000000, 0xffffffffffffffffffffffffffffffff)]"

definition blocked_range :: "ip_addr \<Rightarrow> bool" where
  "blocked_range a = (case a of NoAddr \<Rightarrow> True
   | V4 w \<Rightarrow> in_intervals blocked_intervals4 (unat w)
   | V6 w z \<Rightarrow> if unat w div 2 ^ 32 = 0xffff then in_intervals blocked_intervals4 (unat w mod 2 ^ 32)
       else if z = '''' then in_intervals blocked_intervals6 (unat w) else in_intervals zone_intervals6 (unat w))"

lemma Unmap_cases: "Unmap (V6 w z) = (if unat w div 2 ^ 32 = 0xffff then V4 (ucast w) else V6 w z)"
  by (simp add: Unmap_def drop_eq_iff)

lemma Unmap_idem [simp]: "Unmap (Unmap a) = Unmap a"
  by (simp add: Unmap_def split: ip_addr.splits)

lemma Is4In6_Unmap [simp]: "\<not> Is4In6 (Unmap a)"
  by (cases a) (simp_all add: Unmap_def Is4In6_def)

lemma Contains4:
  assumes "unat b = q * 2 ^ (32 - n)"
  shows "Contains (P4 b n) (V4 w) \<longleftrightarrow> q * 2 ^ (32 - n) \<le> unat w \<and> unat w \<le> q * 2 ^ (32 - n) + (2 ^ (32 - n) - 1)"
proof -
  have "Contains (P4 b n) (V4 w) \<longleftrightarrow> unat w div 2 ^ (32 - n) = q"
    unfolding Contains_def ip_prefix.case ip_addr.case drop_xor_zero assms by simp
  then show ?thesis using div_interval[of "2 ^ (32 - n)" "unat w" q] by simp
qed

lemma Contains6:
  assumes "unat b = q * 2 ^ (128 - n)"
  shows "Contains (P6 b n) (V6 w z) \<longleftrightarrow> z = '''' \<and> q * 2 ^ (128 - n) \<le> unat w \<and> unat w \<le> q * 2 ^ (128 - n) + (2 ^ (128 - n) - 1)"
proof -
  have "Contains (P6 b n) (V6 w z) \<longleftrightarrow> z = '''' \<and> unat w div 2 ^ (128 - n) = q"
    unfolding Contains_def ip_prefix.case ip_addr.case drop_xor_zero assms by simp
  then show ?thesis using div_interval[of "2 ^ (128 - n)" "unat w" q] by simp
qed

lemma prefix4:
  "Contains (P4 (ip4 0 0 0 0) 8) (V4 w) \<longleftrightarrow> unat w \<le> 0x00ffffff"
  "Contains (P4 (ip4 10 0 0 0) 8) (V4 w) \<longleftrightarrow> 0x0a000000 \<le> unat w \<and> unat w \<le> 0x0affffff"
  "Contains (P4 (ip4 100 64 0 0) 10) (V4 w) \<longleftrightarrow> 0x64400000 \<le> unat w \<and> unat w \<le> 0x647fffff"
  "Contains (P4 (ip4 127 0 0 0) 8) (V4 w) \<longleftrightarrow> 0x7f000000 \<le> unat w \<and> unat w \<le> 0x7fffffff"
  "Contains (P4 (ip4 169 254 0 0) 16) (V4 w) \<longleftrightarrow> 0xa9fe0000 \<le> unat w \<and> unat w \<le> 0xa9feffff"
  "Contains (P4 (ip4 172 16 0 0) 12) (V4 w) \<longleftrightarrow> 0xac100000 \<le> unat w \<and> unat w \<le> 0xac1fffff"
  "Contains (P4 (ip4 192 0 0 0) 24) (V4 w) \<longleftrightarrow> 0xc0000000 \<le> unat w \<and> unat w \<le> 0xc00000ff"
  "Contains (P4 (ip4 192 0 2 0) 24) (V4 w) \<longleftrightarrow> 0xc0000200 \<le> unat w \<and> unat w \<le> 0xc00002ff"
  "Contains (P4 (ip4 192 168 0 0) 16) (V4 w) \<longleftrightarrow> 0xc0a80000 \<le> unat w \<and> unat w \<le> 0xc0a8ffff"
  "Contains (P4 (ip4 198 18 0 0) 15) (V4 w) \<longleftrightarrow> 0xc6120000 \<le> unat w \<and> unat w \<le> 0xc613ffff"
  "Contains (P4 (ip4 198 51 100 0) 24) (V4 w) \<longleftrightarrow> 0xc6336400 \<le> unat w \<and> unat w \<le> 0xc63364ff"
  "Contains (P4 (ip4 203 0 113 0) 24) (V4 w) \<longleftrightarrow> 0xcb007100 \<le> unat w \<and> unat w \<le> 0xcb0071ff"
  "Contains (P4 (ip4 224 0 0 0) 4) (V4 w) \<longleftrightarrow> 0xe0000000 \<le> unat w \<and> unat w \<le> 0xefffffff"
  "Contains (P4 (ip4 240 0 0 0) 4) (V4 w) \<longleftrightarrow> 0xf0000000 \<le> unat w \<and> unat w \<le> 0xffffffff"
  using Contains4[of "ip4 0 0 0 0" 0 8 w] Contains4[of "ip4 10 0 0 0" 10 8 w] Contains4[of "ip4 100 64 0 0" "100 * 4 + 1" 10 w]
    Contains4[of "ip4 127 0 0 0" 127 8 w] Contains4[of "ip4 169 254 0 0" "169 * 256 + 254" 16 w] Contains4[of "ip4 172 16 0 0" "172 * 16 + 1" 12 w]
    Contains4[of "ip4 192 0 0 0" "192 * 65536" 24 w] Contains4[of "ip4 192 0 2 0" "192 * 65536 + 2" 24 w]
    Contains4[of "ip4 192 168 0 0" "192 * 256 + 168" 16 w] Contains4[of "ip4 198 18 0 0" "198 * 128 + 9" 15 w]
    Contains4[of "ip4 198 51 100 0" "(198 * 256 + 51) * 256 + 100" 24 w] Contains4[of "ip4 203 0 113 0" "203 * 65536 + 113" 24 w]
    Contains4[of "ip4 224 0 0 0" 14 4 w] Contains4[of "ip4 240 0 0 0" 15 4 w]
  by (simp_all add: ip4_def)

lemma blocked4_intervals: "blockedIPv4 (V4 w) \<longleftrightarrow> in_intervals blocked_intervals4 (unat w)"
proof -
  have l: "(0xe0000000 \<le> unat w \<and> unat w \<le> 0xefffffff) \<or> (0xf0000000 \<le> unat w \<and> unat w \<le> 0xffffffff) \<longleftrightarrow> 0xe0000000 \<le> unat w \<and> unat w \<le> 0xffffffff"
    by auto
  show ?thesis
    by (simp add: blockedIPv4_def blockedPrefixes4_def prefix4 in_intervals_def blocked_intervals4_def l)
qed

text \<open>The blocked IPv6 prefixes as intervals.\<close>

lemma prefix6_0: "Contains (P6 0 128) (V6 w z) \<longleftrightarrow> z = '''' \<and> unat w = 0"
  by (subst Contains6[of "0" "0"]) (simp_all add: ip6_def)

lemma prefix6_1: "Contains (P6 1 128) (V6 w z) \<longleftrightarrow> z = '''' \<and> unat w = 1"
  by (subst Contains6[of "1" "1"]) (auto simp: ip6_def)

lemma prefix6_2: "Contains (P6 0xffff00000000 96) (V6 w z) \<longleftrightarrow> z = '''' \<and> 0xffff00000000 \<le> unat w \<and> unat w \<le> 0xffffffffffff"
  by (subst Contains6[of "0xffff00000000" "0xffff"]) (simp_all add: ip6_def)

lemma prefix6_3: "Contains (P6 (ip6 0x64 0xff9b) 96) (V6 w z) \<longleftrightarrow> z = '''' \<and> 0x0064ff9b000000000000000000000000 \<le> unat w \<and> unat w \<le> 0x0064ff9b0000000000000000ffffffff"
  by (subst Contains6[of "ip6 0x64 0xff9b" "0x0064ff9b0000000000000000"]) (simp_all add: ip6_def)

lemma prefix6_4: "Contains (P6 (ip6 0x100 0) 64) (V6 w z) \<longleftrightarrow> z = '''' \<and> 0x01000000000000000000000000000000 \<le> unat w \<and> unat w \<le> 0x0100000000000000ffffffffffffffff"
  by (subst Contains6[of "ip6 0x100 0" "0x0100000000000000"]) (simp_all add: ip6_def)

lemma prefix6_5: "Contains (P6 (ip6 0x2001 0) 23) (V6 w z) \<longleftrightarrow> z = '''' \<and> 0x20010000000000000000000000000000 \<le> unat w \<and> unat w \<le> 0x200101ffffffffffffffffffffffffff"
  by (subst Contains6[of "ip6 0x2001 0" "0x100080"]) (simp_all add: ip6_def)

lemma prefix6_6: "Contains (P6 (ip6 0x2001 0xdb8) 32) (V6 w z) \<longleftrightarrow> z = '''' \<and> 0x20010db8000000000000000000000000 \<le> unat w \<and> unat w \<le> 0x20010db8ffffffffffffffffffffffff"
  by (subst Contains6[of "ip6 0x2001 0xdb8" "0x20010db8"]) (simp_all add: ip6_def)

lemma prefix6_7: "Contains (P6 (ip6 0xfc00 0) 7) (V6 w z) \<longleftrightarrow> z = '''' \<and> 0xfc000000000000000000000000000000 \<le> unat w \<and> unat w \<le> 0xfdffffffffffffffffffffffffffffff"
  by (subst Contains6[of "ip6 0xfc00 0" "0x7e"]) (simp_all add: ip6_def)

lemma prefix6_8: "Contains (P6 (ip6 0xfe80 0) 10) (V6 w z) \<longleftrightarrow> z = '''' \<and> 0xfe800000000000000000000000000000 \<le> unat w \<and> unat w \<le> 0xfebfffffffffffffffffffffffffffff"
  by (subst Contains6[of "ip6 0xfe80 0" "0x3fa"]) (simp_all add: ip6_def)

lemma prefix6_9: "Contains (P6 (ip6 0xff00 0) 8) (V6 w z) \<longleftrightarrow> z = '''' \<and> 0xff000000000000000000000000000000 \<le> unat w \<and> unat w \<le> 0xffffffffffffffffffffffffffffffff"
  by (subst Contains6[of "ip6 0xff00 0" "0xff"]) (simp_all add: ip6_def)

lemmas prefix6 = prefix6_0 prefix6_1 prefix6_2 prefix6_3 prefix6_4 prefix6_5 prefix6_6 prefix6_7 prefix6_8 prefix6_9

lemma predicates6:
  assumes "Unmap (V6 w z) = V6 w z"
  shows "IsLoopback (V6 w z) \<longleftrightarrow> unat w = 1"
    "IsPrivate (V6 w z) \<longleftrightarrow> 0xfc000000000000000000000000000000 \<le> unat w \<and> unat w \<le> 0xfdffffffffffffffffffffffffffffff"
    "IsLinkLocalUnicast (V6 w z) \<longleftrightarrow> 0xfe800000000000000000000000000000 \<le> unat w \<and> unat w \<le> 0xfebfffffffffffffffffffffffffffff"
    "IsMulticast (V6 w z) \<longleftrightarrow> 0xff000000000000000000000000000000 \<le> unat w \<and> unat w \<le> 0xffffffffffffffffffffffffffffffff"
  using div_interval[of "2 ^ 121" "unat w" "0x7e"] div_interval[of "2 ^ 118" "unat w" "0x3fa"] div_interval[of "2 ^ 120" "unat w" "0xff"]
  by (simp_all add: IsLoopback_def IsPrivate_def IsLinkLocalUnicast_def IsMulticast_def assms unat_drop word_unat_eq_iff)

lemma predicates4:
  "IsLoopback (V4 w) \<longleftrightarrow> 0x7f000000 \<le> unat w \<and> unat w \<le> 0x7fffffff"
  "IsPrivate (V4 w) \<longleftrightarrow> 0x0a000000 \<le> unat w \<and> unat w \<le> 0x0affffff \<or> 0xac100000 \<le> unat w \<and> unat w \<le> 0xac1fffff \<or>
     0xc0a80000 \<le> unat w \<and> unat w \<le> 0xc0a8ffff"
  "IsLinkLocalUnicast (V4 w) \<longleftrightarrow> 0xa9fe0000 \<le> unat w \<and> unat w \<le> 0xa9feffff"
  "IsMulticast (V4 w) \<longleftrightarrow> 0xe0000000 \<le> unat w \<and> unat w \<le> 0xefffffff"
  "IsLinkLocalMulticast (V4 w) \<longleftrightarrow> 0xe0000000 \<le> unat w \<and> unat w \<le> 0xe00000ff"
  "IsUnspecified (V4 w) \<longleftrightarrow> unat w = 0"
  using div_interval[of "2 ^ 24" "unat w" 127] div_interval[of "2 ^ 24" "unat w" 10] div_interval[of "2 ^ 20" "unat w" "0xac1"]
    div_interval[of "2 ^ 16" "unat w" "0xc0a8"] div_interval[of "2 ^ 16" "unat w" "0xa9fe"] div_interval[of "2 ^ 28" "unat w" "0xe"]
    div_interval[of "2 ^ 8" "unat w" "0xe00000"]
  by (simp_all add: IsLoopback_def IsPrivate_def IsLinkLocalUnicast_def IsMulticast_def IsLinkLocalMulticast_def IsUnspecified_def Unmap_def
      unat_drop word_unat_eq_iff)

lemma link_local_multicast: "IsLinkLocalMulticast a \<Longrightarrow> IsMulticast a"
proof (cases "Unmap a")
  case (V4 w)
  assume "IsLinkLocalMulticast a"
  then show ?thesis using V4 predicates4(4,5)[of w] by (simp add: IsLinkLocalMulticast_def IsMulticast_def Unmap_def)
next
  case (V6 w z)
  let ?x = "drop_bit 112 w"
  assume "IsLinkLocalMulticast a"
  then have "drop_bit 8 (?x AND 0xff0f) = drop_bit 8 (0xff02 :: 128 word)" using V6 by (simp add: IsLinkLocalMulticast_def)
  then have e: "drop_bit 8 ?x AND 0xff = 0xff" by (simp only: drop_bit_and) simp
  have "unat (drop_bit 8 ?x) < 256"
    using unsigned_less[of w, where ?'a = nat] by (simp only: drop_bit_drop_bit unat_drop) simp
  then have "drop_bit 8 ?x AND 0xff = drop_bit 8 ?x"
  proof -
    assume l: "unat (drop_bit 8 ?x) < 256"
    have "drop_bit 8 ?x AND 0xff = take_bit 8 (drop_bit 8 ?x)" by (simp add: take_bit_eq_mask mask_eq_exp_minus_1)
    moreover have "unat (take_bit 8 (drop_bit 8 ?x)) = unat (drop_bit 8 ?x)"
      by (simp only: unsigned_take_bit_eq) (rule take_bit_nat_eq_self, use l in simp)
    ultimately show ?thesis by (simp only: word_unat_eq_iff)
  qed
  then show ?thesis using e V6 by (simp add: IsMulticast_def drop_bit_drop_bit)
qed (simp add: IsLinkLocalMulticast_def)

lemma blocked6_intervals: "blockedIPv6 (V6 w '''') \<longleftrightarrow> in_intervals blocked_intervals6 (unat w)"
proof -
  have l: "Suc 0 \<le> unat w \<and> unat w \<le> Suc 0 \<longleftrightarrow> unat w = Suc 0" by auto
  show ?thesis by (simp add: blockedIPv6_def blockedPrefixes6_def prefix6 in_intervals_def blocked_intervals6_def l)
qed

lemma flags4:
  assumes "IsLoopback (V4 w) \<or> IsPrivate (V4 w) \<or> IsLinkLocalUnicast (V4 w) \<or> IsLinkLocalMulticast (V4 w) \<or> IsMulticast (V4 w) \<or> IsUnspecified (V4 w)"
  shows "in_intervals blocked_intervals4 (unat w)"
proof -
  consider "IsLoopback (V4 w)" | "IsPrivate (V4 w)" | "IsLinkLocalUnicast (V4 w)" | "IsMulticast (V4 w)" | "IsUnspecified (V4 w)"
    using assms link_local_multicast by blast
  then show ?thesis
  proof cases
    case 2
    then consider "0x0a000000 \<le> unat w \<and> unat w \<le> 0x0affffff" | "0xac100000 \<le> unat w \<and> unat w \<le> 0xac1fffff"
      | "0xc0a80000 \<le> unat w \<and> unat w \<le> 0xc0a8ffff" by (simp only: predicates4) blast
    then show ?thesis by cases (simp_all add: in_intervals_def blocked_intervals4_def)
  qed (simp_all add: predicates4 in_intervals_def blocked_intervals4_def)
qed

lemma flags6:
  assumes "Unmap (V6 w z) = V6 w z"
  shows "IsLoopback (V6 w z) \<or> IsPrivate (V6 w z) \<or> IsLinkLocalUnicast (V6 w z) \<or> IsMulticast (V6 w z) \<longleftrightarrow> in_intervals zone_intervals6 (unat w)"
proof -
  have l: "Suc 0 \<le> unat w \<and> unat w \<le> Suc 0 \<longleftrightarrow> unat w = Suc 0" by auto
  show ?thesis by (simp add: predicates6[OF assms] in_intervals_def zone_intervals6_def l)
qed

lemma zone_blocked: "in_intervals zone_intervals6 n \<Longrightarrow> in_intervals blocked_intervals6 n"
  by (simp add: in_intervals_def zone_intervals6_def blocked_intervals6_def) blast

lemma blocked6_zone: "z \<noteq> '''' \<Longrightarrow> \<not> blockedIPv6 (V6 w z)"
  by (simp add: blockedIPv6_def blockedPrefixes6_def prefix6)

text \<open>The addresses a URL upload may not reach are exactly these intervals: for IPv4 the special-use
  blocks, for an IPv4-mapped IPv6 address those of the address it embeds, for IPv6 the loopback,
  unspecified, mapped, NAT64, discard, protocol-assignment, documentation, unique-local, link-local
  and multicast ranges (an address with a zone is matched against the flag ranges only), and an
  invalid address is always blocked.\<close>

theorem blocked_address_ranges: "blockedAddress a = blocked_range a"
proof (cases a)
  case (V4 w)
  show ?thesis using flags4[of w] blocked4_intervals[of w]
    by (auto simp: V4 blockedAddress_def blocked_range_def Unmap_def Let_def Is4In6_def)
next
  case (V6 w z)
  show ?thesis
  proof (cases "unat w div 2 ^ 32 = 0xffff")
    case True
    let ?v = "ucast w :: 32 word"
    have u: "Unmap a = V4 ?v" using True by (simp add: V6 Unmap_cases)
    have v: "unat ?v = unat w mod 2 ^ 32" by (simp add: unsigned_ucast_eq take_bit_eq_mod)
    have "blockedAddress a = in_intervals blocked_intervals4 (unat ?v)" using flags4[of ?v] blocked4_intervals[of ?v]
      by (auto simp: blockedAddress_def Let_def u Is4In6_def)
    then show ?thesis using True v by (simp add: V6 blocked_range_def)
  next
    case False
    then have u: "Unmap (V6 w z) = V6 w z" by (simp add: Unmap_cases)
    let ?flags = "IsLoopback (V6 w z) \<or> IsPrivate (V6 w z) \<or> IsLinkLocalUnicast (V6 w z) \<or> IsMulticast (V6 w z)"
    note fl = flags6[OF u] and sub = zone_blocked[of "unat w"]
    have zero: "IsUnspecified (V6 w z) \<longleftrightarrow> unat w = 0 \<and> z = ''''" by (auto simp: IsUnspecified_def word_unat_eq_iff)
    have b: "blockedAddress (V6 w z) \<longleftrightarrow> ?flags \<or> IsUnspecified (V6 w z) \<or> blockedIPv6 (V6 w z)"
      using link_local_multicast[of "V6 w z"] Is4In6_Unmap[of "V6 w z"] unfolding blockedAddress_def Let_def u by auto
    show ?thesis
    proof (cases "z = ''''")
      case True
      have "unat w = 0 \<Longrightarrow> in_intervals blocked_intervals6 (unat w)" by (simp add: in_intervals_def blocked_intervals6_def)
      then show ?thesis using b fl sub zero blocked6_intervals[of w] False True by (auto simp: V6 blocked_range_def)
    next
      case zone: False
      then show ?thesis using b fl zero blocked6_zone[OF zone] False by (auto simp: V6 blocked_range_def)
    qed
  qed
qed (simp add: blockedAddress_def blocked_range_def Unmap_def)

end
