(* ===== verification/Source_IP.thy ===== *)
theory Source_IP
  imports Net_Address
begin

text \<open>
  The client address behind trusted reverse proxies (internal/server/source_ip.go and the request
  context of internal/requestctx). net/netip's text parsers and net.SplitHostPort are arguments.
\<close>

record ip_parser =
  ParsePrefix :: "string \<Rightarrow> ip_prefix option"
  ParseAddr :: "string \<Rightarrow> ip_addr option"
  SplitHost :: "string \<Rightarrow> string option"

record sourceIPResolver =
  trusted :: "ip_prefix list"

definition Masked :: "ip_prefix \<Rightarrow> ip_prefix" where
  "Masked p = (case p of P4 b n \<Rightarrow> P4 (push_bit (32 - n) (drop_bit (32 - n) b)) n
   | P6 b n \<Rightarrow> P6 (push_bit (128 - n) (drop_bit (128 - n) b)) n)"

fun parseTrusted :: "ip_parser \<Rightarrow> string list \<Rightarrow> string + ip_prefix list" where
  "parseTrusted ps [] = Inr []"
| "parseTrusted ps (raw # rest) = (case ParsePrefix ps (trim_space raw) of None \<Rightarrow> Inl ''parse trusted proxy CIDR''
   | Some p \<Rightarrow> if Bits p = 0 then Inl ''trusted proxy CIDR must not trust every address''
       else sum_bind (parseTrusted ps rest) (\<lambda>ts. Inr (Masked p # ts)))"

definition newSourceIPResolver :: "ip_parser \<Rightarrow> string list \<Rightarrow> string + sourceIPResolver" where
  "newSourceIPResolver ps rawCIDRs = sum_bind (parseTrusted ps rawCIDRs) (\<lambda>ts. Inr \<lparr>trusted = ts\<rparr>)"

definition isTrusted :: "sourceIPResolver \<Rightarrow> ip_addr \<Rightarrow> bool" where
  "isTrusted r a = list_ex (\<lambda>p. Contains p (Unmap a)) (trusted r)"

definition parseRemoteIP :: "ip_parser \<Rightarrow> string \<Rightarrow> ip_addr option" where
  "parseRemoteIP ps remote = (let host = (case SplitHost ps remote of None \<Rightarrow> remote | Some h \<Rightarrow> h) in
     map_option Unmap (ParseAddr ps (trim_space host)))"

text \<open>The candidates in the order the two loops visit them: header values from the last, and in each
  value the comma-separated parts from the right.\<close>

definition candidates :: "string list \<Rightarrow> string list" where
  "candidates values = concat (map (\<lambda>v. rev (split_on CHR '','' v)) (rev values))"

fun walk :: "ip_parser \<Rightarrow> sourceIPResolver \<Rightarrow> ip_addr \<Rightarrow> string list \<Rightarrow> ip_addr \<times> bool \<Rightarrow> ip_addr \<times> bool" where
  "walk ps r peer [] result = result"
| "walk ps r peer (raw # rest) result = (case ParseAddr ps (trim_space raw) of None \<Rightarrow> (peer, False)
   | Some c \<Rightarrow> (let c = Unmap c in if \<not> isTrusted r c then (c, True) else walk ps r peer rest (c, True)))"

definition resolve :: "ip_parser \<Rightarrow> sourceIPResolver \<Rightarrow> string \<Rightarrow> string list \<Rightarrow> ip_addr \<times> bool" where
  "resolve ps r remoteAddr forwardedFor = (case parseRemoteIP ps remoteAddr of None \<Rightarrow> (NoAddr, False)
   | Some peer \<Rightarrow> if \<not> isTrusted r peer then (peer, False) else walk ps r peer (candidates forwardedFor) (peer, False))"

text \<open>requestctx: a source address is recorded only when it is valid, and unmapped.\<close>

definition WithSourceIP :: "ip_addr option \<Rightarrow> ip_addr \<Rightarrow> ip_addr option" where
  "WithSourceIP ctx a = (if a = NoAddr then ctx else Some (Unmap a))"

definition SourceIP :: "ip_addr option \<Rightarrow> ip_addr option" where
  "SourceIP ctx = (case ctx of None \<Rightarrow> None | Some a \<Rightarrow> if a = NoAddr then None else Some a)"

definition sourceIPMiddleware :: "ip_parser \<Rightarrow> sourceIPResolver \<Rightarrow> string \<Rightarrow> string list \<Rightarrow> ip_addr option \<Rightarrow> ip_addr option" where
  "sourceIPMiddleware ps r remote fwd ctx = (let a = fst (resolve ps r remote fwd) in if a = NoAddr then ctx else WithSourceIP ctx a)"

section \<open>Properties\<close>

lemma split_on_join_two: "split_on c (x @ c # y) = split_on c x @ split_on c y"
  by (induction x) (auto split: list.splits)

lemma candidates_extend:
  "candidates (extra @ vs) = candidates vs @ candidates extra"
  "candidates ((x @ CHR '','' # v) # vs) = candidates (v # vs) @ rev (split_on CHR '','' x)"
  by (simp_all add: candidates_def split_on_join_two)

lemma walk_prefix:
  "walk ps r peer xs res = (a, True) \<Longrightarrow> \<not> isTrusted r a \<Longrightarrow> isTrusted r (fst res) \<Longrightarrow> walk ps r peer (xs @ ys) res = (a, True)"
  by (induction ps r peer xs res rule: walk.induct) (auto simp: Let_def split: option.splits if_splits)

lemma walk_chain:
  "walk ps r peer xs res = (a, True) \<Longrightarrow> (res = (a, True) \<and> xs = []) \<or>
     (\<exists>ts c rest. xs = ts @ c # rest \<and> map_option Unmap (ParseAddr ps (trim_space c)) = Some a \<and>
       (\<forall>t\<in>set ts. \<exists>b. ParseAddr ps (trim_space t) = Some b \<and> isTrusted r (Unmap b)) \<and> (isTrusted r a \<longrightarrow> rest = []))"
proof (induction ps r peer xs res rule: walk.induct)
  case (2 ps r peer raw rest result)
  then obtain c where c: "ParseAddr ps (trim_space raw) = Some c" by (auto split: option.splits)
  show ?case
  proof (cases "isTrusted r (Unmap c)")
    case False
    then show ?thesis using 2 c by (intro disjI2 exI[of _ "[]"] exI[of _ raw] exI[of _ rest]) (auto simp: Let_def)
  next
    case True
    then have "walk ps r peer rest (Unmap c, True) = (a, True)" using 2 c by (simp add: Let_def)
    from 2(1)[OF c refl _ this] True consider "Unmap c = a" "rest = []"
      | ts d rs where "rest = ts @ d # rs" "map_option Unmap (ParseAddr ps (trim_space d)) = Some a"
        "\<forall>t\<in>set ts. \<exists>b. ParseAddr ps (trim_space t) = Some b \<and> isTrusted r (Unmap b)" "isTrusted r a \<longrightarrow> rs = []"
      by auto
    then show ?thesis
    proof cases
      case 1
      then show ?thesis using c by (intro disjI2 exI[of _ "[]"] exI[of _ raw] exI[of _ "[]"]) auto
    next
      case 2
      then show ?thesis using c True by (intro disjI2 exI[of _ "raw # ts"] exI[of _ d] exI[of _ rs]) auto
    qed
  qed
qed simp

text \<open>C38: A forwarded client address cannot be spoofed from the left: once the resolver has settled on an
  address that is not a trusted proxy, neither more header lines before the ones it saw nor more
  entries prepended to the first line change the result.\<close>

theorem source_ip_spoof_resistant:
  assumes "resolve ps r remote (v # vs) = (a, True)" "\<not> isTrusted r a"
  shows "resolve ps r remote (extra @ v # vs) = (a, True) \<and> resolve ps r remote ((x @ CHR '','' # v) # vs) = (a, True)"
proof -
  obtain peer where p: "parseRemoteIP ps remote = Some peer" "isTrusted r peer"
    and w: "walk ps r peer (candidates (v # vs)) (peer, False) = (a, True)"
    using assms(1) by (auto simp: resolve_def split: option.splits if_splits)
  show ?thesis using walk_prefix[OF w assms(2)] p by (simp add: resolve_def candidates_extend)
qed

text \<open>A forwarded result is believed only through trusted hops: the peer is trusted, the address is a
  parsed entry, every entry to its right is a trusted proxy, and a trusted address is reported only
  when it is the leftmost entry; without that the peer's own address is used.\<close>

theorem source_ip_trust_chain:
  assumes "resolve ps r remote fwd = (a, True)"
  shows "\<exists>peer ts c rest. parseRemoteIP ps remote = Some peer \<and> isTrusted r peer \<and> candidates fwd = ts @ c # rest \<and>
    map_option Unmap (ParseAddr ps (trim_space c)) = Some a \<and>
    (\<forall>t\<in>set ts. \<exists>b. ParseAddr ps (trim_space t) = Some b \<and> isTrusted r (Unmap b)) \<and> (isTrusted r a \<longrightarrow> rest = [])"
proof -
  obtain peer where p: "parseRemoteIP ps remote = Some peer" "isTrusted r peer"
    and w: "walk ps r peer (candidates fwd) (peer, False) = (a, True)"
    using assms by (auto simp: resolve_def split: option.splits if_splits)
  from walk_chain[OF w] p show ?thesis by auto
qed

definition demo_parser :: ip_parser where
  "demo_parser = \<lparr>ParsePrefix = (\<lambda>_. Some (P4 (ip4 10 0 0 0) 8)),
     ParseAddr = (\<lambda>s. if s = ''p'' then Some (V4 (ip4 10 0 0 5)) else if s = ''c'' then Some (V4 (ip4 203 0 113 9)) else None),
     SplitHost = (\<lambda>_. Some ''p'')\<rparr>"

definition demo_resolver :: sourceIPResolver where
  "demo_resolver = \<lparr>trusted = [P4 (ip4 10 0 0 0) 8]\<rparr>"

lemma demo_trusted: "isTrusted demo_resolver (V4 (ip4 10 0 0 5))" "\<not> isTrusted demo_resolver (V4 (ip4 203 0 113 9))"
  by (simp_all add: isTrusted_def demo_resolver_def Unmap_def prefix4) (simp_all add: ip4_def)

lemma demo_resolve: "resolve demo_parser demo_resolver ''x'' [''c,p''] = (V4 (ip4 203 0 113 9), True)" "\<not> isTrusted demo_resolver (V4 (ip4 203 0 113 9))"
proof -
  have c: "candidates [''c,p''] = [''p'', ''c'']" by (simp add: candidates_def)
  have t: "trim_space ''p'' = ''p''" "trim_space ''c'' = ''c''" by code_simp+
  have u: "Unmap (V4 w) = V4 w" for w by (simp add: Unmap_def)
  have q: "ParseAddr demo_parser ''p'' = Some (V4 (ip4 10 0 0 5))" "ParseAddr demo_parser ''c'' = Some (V4 (ip4 203 0 113 9))"
    "SplitHost demo_parser ''x'' = Some ''p''" by (simp_all add: demo_parser_def)
  show "resolve demo_parser demo_resolver ''x'' [''c,p''] = (V4 (ip4 203 0 113 9), True)"
    by (simp add: resolve_def parseRemoteIP_def c t q u demo_trusted Let_def)
  show "\<not> isTrusted demo_resolver (V4 (ip4 203 0 113 9))" by (rule demo_trusted)
qed

theorem source_ip_spoof_resistant_witness:
  "resolve demo_parser demo_resolver ''x'' ([''junk''] @ [''c,p'']) = (V4 (ip4 203 0 113 9), True)"
  using source_ip_spoof_resistant[OF demo_resolve] by blast

theorem source_ip_trust_chain_witness: "\<exists>peer. parseRemoteIP demo_parser ''x'' = Some peer \<and> isTrusted demo_resolver peer"
  using source_ip_trust_chain[OF demo_resolve(1)] by blast

end
