(* ===== verification/Net_Upload.thy ===== *)
theory Net_Upload
  imports Net_Address Update_FS
begin

text \<open>
  Upload sources (internal/upload): bounded reads and inline sources (sources.go), fetching a URL with
  every hop checked at dial time (url.go), local files confined to allowlisted roots
  (local_file.go) and the company image policy (image.go). The resolver, the servers, URL and media
  type parsing, symlink evaluation and image decoding are arguments; the resolver may answer
  differently on every consultation.
\<close>

section \<open>Bounded sources\<close>

definition DefaultMaxBytes :: int where "DefaultMaxBytes = 5 * 1024 * 1024"

definition effectiveMaxBytes :: "int \<Rightarrow> int" where
  "effectiveMaxBytes v = (if v > 0 then v else DefaultMaxBytes)"

datatype source_kind = SourceInline | SourceLocal | SourceURL

record resolved_source =
  Kind :: source_kind
  Filename :: string
  ContentType :: string
  Size :: int
  Content :: string

text \<open>path.Base.\<close>

definition path_base :: "string \<Rightarrow> string" where
  "path_base p = (if p = '''' then ''.'' else (let q = trim_right (\<lambda>c. c = slash) p;
     b = rev (takeWhile (\<lambda>c. c \<noteq> slash) (rev q)) in if b = '''' then ''/'' else b))"

definition cleanFilename :: "string \<Rightarrow> string" where
  "cleanFilename value = (let v = trim_space value in if v = '''' then ''''
     else path_base (map (\<lambda>c. if c = CHR 0x5C then slash else c) v))"

text \<open>A reader: the bytes it yields, whether it ends in an error, whether the context is done first.\<close>

record reader =
  r_data :: string
  r_error :: bool
  r_done :: bool

text \<open>maxBytes+1 is an int64 sum: at the largest limit it wraps, and the limited reader yields nothing.\<close>

definition readBounded :: "reader \<Rightarrow> int \<Rightarrow> string + string" where
  "readBounded r maxBytes0 = (let maxBytes = effectiveMaxBytes maxBytes0;
       limit = nat (sint (word_of_int (maxBytes + 1) :: 64 word)); content = take limit (r_data r) in
     if r_done r then Inl ''context''
     else if r_error r \<and> length (r_data r) < limit then Inl ''read''
     else if int (length content) > maxBytes then Inl ''upload source exceeds maxBytes''
     else Inr content)"

definition resolveBytes :: "source_kind \<Rightarrow> bool \<Rightarrow> string \<Rightarrow> string \<Rightarrow> string \<Rightarrow> int \<Rightarrow> string + resolved_source" where
  "resolveBytes kind ctx_done content filename contentType maxBytes =
    (if int (length content) > effectiveMaxBytes maxBytes then Inl ''upload source exceeds maxBytes''
     else if ctx_done then Inl ''context''
     else Inr \<lparr>Kind = kind, Filename = cleanFilename filename, ContentType = trim_space contentType, Size = int (length content), Content = content\<rparr>)"

definition ResolveInline :: "bool \<Rightarrow> string \<Rightarrow> string \<Rightarrow> string \<Rightarrow> int \<Rightarrow> string + resolved_source" where
  "ResolveInline ctx_done content filename contentType maxBytes = resolveBytes SourceInline ctx_done content filename contentType maxBytes"

section \<open>URL sources\<close>

record fetch_url =
  fu_scheme :: string
  fu_hostname :: string
  fu_port :: string
  fu_user :: bool
  fu_base :: string

record allow_entry =
  ae_Scheme :: string
  ae_Host :: string
  ae_Port :: string

definition defaultMaxRedirects :: nat where "defaultMaxRedirects = 3"

definition parseFetchURL :: "(string \<Rightarrow> fetch_url option) \<Rightarrow> string \<Rightarrow> string + fetch_url" where
  "parseFetchURL parse raw = (case parse (trim_space raw) of None \<Rightarrow> Inl ''parse URL upload source failed''
   | Some u \<Rightarrow>
     if fu_scheme u \<noteq> ''http'' \<and> fu_scheme u \<noteq> ''https'' then Inl ''URL upload source scheme must be http or https''
     else if fu_hostname u = '''' then Inl ''URL upload source host is required''
     else if fu_user u then Inl ''URL upload source must not include userinfo''
     else Inr u)"

definition effectivePort :: "fetch_url \<Rightarrow> string" where
  "effectivePort u = (if fu_port u \<noteq> '''' then fu_port u else if fu_scheme u = ''http'' then ''80''
     else if fu_scheme u = ''https'' then ''443'' else '''')"

definition normalizedHost :: "string \<Rightarrow> string" where
  "normalizedHost h = trim_suffix (to_lower (trim_space h)) ''.''"

definition allowlistMatches :: "fetch_url \<Rightarrow> allow_entry list \<Rightarrow> bool" where
  "allowlistMatches u al = list_ex (\<lambda>e. to_lower (ae_Scheme e) = to_lower (fu_scheme u) \<and>
     normalizedHost (ae_Host e) = normalizedHost (fu_hostname u) \<and> ae_Port e = effectivePort u) al"

definition validateFetchURL :: "ip_addr list option \<Rightarrow> fetch_url \<Rightarrow> allow_entry list \<Rightarrow> string + unit" where
  "validateFetchURL resolved u al = (case resolved of None \<Rightarrow> Inl ''resolve URL upload source host failed''
   | Some addresses \<Rightarrow>
     if addresses = [] then Inl ''resolve URL upload source host returned no addresses''
     else if allowlistMatches u al then Inr ()
     else if list_ex blockedAddress addresses then Inl ''URL upload source resolved to a blocked address''
     else Inr ())"

text \<open>DialContext of the transport: the host is resolved again, and the address dialled is the first one
  allowed (the scheme, host and port are those of the request).\<close>

fun pickAddress :: "bool \<Rightarrow> ip_addr list \<Rightarrow> ip_addr option" where
  "pickAddress allowlisted [] = None"
| "pickAddress allowlisted (a # as) =
    (let a = Unmap a in if \<not> allowlisted \<and> blockedAddress a then pickAddress allowlisted as else Some a)"

definition dialAddress :: "ip_addr list option \<Rightarrow> fetch_url \<Rightarrow> allow_entry list \<Rightarrow> string + ip_addr" where
  "dialAddress resolved u al = (case resolved of None \<Rightarrow> Inl ''resolve URL upload source host failed''
   | Some addresses \<Rightarrow>
     if addresses = [] then Inl ''resolve URL upload source host returned no addresses''
     else (case pickAddress (allowlistMatches (u\<lparr>fu_port := effectivePort u\<rparr>) al) addresses of
         None \<Rightarrow> Inl ''URL upload source resolved to a blocked address'' | Some a \<Rightarrow> Inr a))"

datatype 'resp reply = Redirect fetch_url | Final 'resp | TransportError

record http_reply =
  rp_status :: int
  rp_body :: reader
  rp_contentType :: string
  rp_filename :: string

text \<open>client.Do with the redirect policy: n redirects have been followed, t counts the consultations of
  the resolver; the trace is the list of addresses dialled with the URL of each request.\<close>

function client_do :: "(nat \<Rightarrow> string \<Rightarrow> ip_addr list option) \<Rightarrow> (ip_addr \<Rightarrow> fetch_url \<Rightarrow> http_reply reply) \<Rightarrow> allow_entry list \<Rightarrow>
    nat \<Rightarrow> nat \<Rightarrow> nat \<Rightarrow> fetch_url \<Rightarrow> (string + http_reply) \<times> (ip_addr \<times> fetch_url) list" where
  "client_do resolver server al maxR n t u =
    (if fu_scheme u \<noteq> ''http'' \<and> fu_scheme u \<noteq> ''https'' then (Inl ''unsupported protocol scheme'', []) else
     case dialAddress (resolver t (fu_hostname u)) u al of Inl e \<Rightarrow> (Inl e, [])
     | Inr ip \<Rightarrow> (case server ip u of
         TransportError \<Rightarrow> (Inl ''transport'', [(ip, u)])
       | Final resp \<Rightarrow> (Inr resp, [(ip, u)])
       | Redirect u' \<Rightarrow>
           if n + 1 \<ge> maxR then (Inl ''URL upload redirect limit exceeded'', [(ip, u)])
           else (case validateFetchURL (resolver (t + 1) (fu_hostname u')) u' al of
               Inl e \<Rightarrow> (Inl e, [(ip, u)])
             | Inr _ \<Rightarrow> (case client_do resolver server al maxR (n + 1) (t + 2) u' of (r, tr) \<Rightarrow> (r, (ip, u) # tr)))))"
  by pat_completeness auto
termination by (relation "measure (\<lambda>(resolver, server, al, maxR, n, t, u). maxR - n)") auto

declare client_do.simps [simp del]

definition filenameFromHTTP :: "http_reply \<Rightarrow> string \<Rightarrow> string" where
  "filenameFromHTTP resp fallback = (let f = cleanFilename (rp_filename resp) in if f \<noteq> '''' then f else cleanFilename fallback)"

definition Fetch :: "(string \<Rightarrow> fetch_url option) \<Rightarrow> (nat \<Rightarrow> string \<Rightarrow> ip_addr list option) \<Rightarrow> (ip_addr \<Rightarrow> fetch_url \<Rightarrow> http_reply reply) \<Rightarrow>
    allow_entry list \<Rightarrow> int \<Rightarrow> string \<Rightarrow> string \<Rightarrow> int \<Rightarrow> (string + resolved_source) \<times> (ip_addr \<times> fetch_url) list" where
  "Fetch parse resolver server al maxRedirects0 rawURL filename maxBytes = (case parseFetchURL parse rawURL of Inl e \<Rightarrow> (Inl e, [])
   | Inr target \<Rightarrow> (case validateFetchURL (resolver 0 (fu_hostname target)) target al of Inl e \<Rightarrow> (Inl e, [])
     | Inr _ \<Rightarrow> (let maxR = (if maxRedirects0 \<le> 0 then defaultMaxRedirects else nat maxRedirects0) in
       case client_do resolver server al maxR 0 1 target of (r, tr) \<Rightarrow>
         ((case r of Inl e \<Rightarrow> Inl ''fetch URL upload source failed''
          | Inr resp \<Rightarrow> if rp_status resp < 200 \<or> rp_status resp \<ge> 300 then Inl ''fetch URL upload source returned status''
            else sum_bind (readBounded (rp_body resp) maxBytes) (\<lambda>content.
              let name = (if filename = '''' then filenameFromHTTP resp (fu_base target) else filename) in
              Inr \<lparr>Kind = SourceURL, Filename = cleanFilename name, ContentType = rp_contentType resp, Size = int (length content), Content = content\<rparr>)), tr))))"

section \<open>Properties of fetching\<close>

definition dial_ok :: "allow_entry list \<Rightarrow> ip_addr \<times> fetch_url \<Rightarrow> bool" where
  "dial_ok al d \<longleftrightarrow> \<not> blockedAddress (fst d) \<or> allowlistMatches ((snd d)\<lparr>fu_port := effectivePort (snd d)\<rparr>) al"

lemma pickAddress_ok: "pickAddress b as = Some a \<Longrightarrow> b \<or> \<not> blockedAddress a"
  by (induction b as rule: pickAddress.induct) (auto simp: Let_def split: if_splits)

lemma dialAddress_ok: "dialAddress res u al = Inr a \<Longrightarrow> dial_ok al (a, u)"
  using pickAddress_ok by (auto simp: dialAddress_def dial_ok_def split: option.splits if_splits)

lemma client_do_trace:
  "client_do resolver server al maxR n t u = (r, tr) \<Longrightarrow> n < maxR \<Longrightarrow> (\<forall>d\<in>set tr. dial_ok al d) \<and> length tr \<le> maxR - n"
proof (induction resolver server al maxR n t u arbitrary: r tr rule: client_do.induct)
  case (1 resolver server al maxR n t u)
  show ?case
  proof (cases "fu_scheme u \<noteq> ''http'' \<and> fu_scheme u \<noteq> ''https''")
    case True
    then show ?thesis using 1(2) by (auto simp: client_do.simps[of resolver server al maxR n t u])
  next
    case scheme: False
    note simps = client_do.simps[of resolver server al maxR n t u] scheme
    show ?thesis
  proof (cases "dialAddress (resolver t (fu_hostname u)) u al")
    case (Inl e)
    then show ?thesis using 1(2) by (auto simp: simps)
  next
    case (Inr ip)
    note ok = dialAddress_ok[OF Inr]
    show ?thesis
    proof (cases "server ip u")
      case (Redirect u')
      show ?thesis
      proof (cases "n + 1 \<ge> maxR \<or> \<not> is_ok (validateFetchURL (resolver (t + 1) (fu_hostname u')) u' al)")
        case True
        then have "tr = [(ip, u)]" using 1(2) Inr Redirect
          by (auto simp: simps split: sum.splits if_splits)
        then show ?thesis using ok 1(3) by simp
      next
        case False
        then obtain x where v: "validateFetchURL (resolver (t + 1) (fu_hostname u')) u' al = Inr x" by (auto simp: is_ok_iff)
        obtain r2 tr2 where rec: "client_do resolver server al maxR (n + 1) (t + 2) u' = (r2, tr2)" by fastforce
        have "tr = (ip, u) # tr2" using 1(2) Inr Redirect v False rec
          by (simp add: simps)
        then show ?thesis using 1(1)[OF scheme Inr Redirect _ v rec] False ok by auto
      qed
    qed (use 1(2,3) Inr ok in \<open>auto simp: simps\<close>)
  qed
  qed
qed

text \<open>C39: Whatever the resolver answers from one consultation to the next and wherever the servers redirect,
  every address a URL upload connects to is outside the blocked ranges or belongs to an allowlisted
  origin, at most the redirect limit of requests is made, and a result is within the size limit.\<close>

theorem fetch_only_allowed_addresses:
  assumes "Fetch parse resolver server al maxRedirects rawURL filename maxBytes = (r, tr)"
  shows "(\<forall>(ip, u)\<in>set tr. \<not> blockedAddress ip \<or> allowlistMatches (u\<lparr>fu_port := effectivePort u\<rparr>) al) \<and>
    int (length tr) \<le> (if maxRedirects \<le> 0 then 3 else maxRedirects) \<and>
    (\<forall>res. r = Inr res \<longrightarrow> Size res = int (length (Content res)) \<and> Size res \<le> effectiveMaxBytes maxBytes)"
proof -
  let ?m = "if maxRedirects \<le> 0 then defaultMaxRedirects else nat maxRedirects"
  have m: "0 < ?m" "int ?m = (if maxRedirects \<le> 0 then 3 else maxRedirects)" by (simp_all add: defaultMaxRedirects_def)
  have tr: "(\<forall>d\<in>set tr. dial_ok al d) \<and> length tr \<le> ?m"
  proof (cases "tr = []")
    case False
    then obtain target r' where "client_do resolver server al ?m 0 1 target = (r', tr)"
      using assms by (auto simp: Fetch_def Let_def split: sum.splits prod.splits)
    from client_do_trace[OF this m(1)] show ?thesis by simp
  qed simp
  have "\<forall>res. r = Inr res \<longrightarrow> Size res = int (length (Content res)) \<and> Size res \<le> effectiveMaxBytes maxBytes"
    using assms by (auto simp: Fetch_def Let_def sum_bind_Inr readBounded_def split: sum.splits prod.splits if_splits)
  then show ?thesis using tr m(2) by (auto simp: dial_ok_def)
qed

text \<open>A run: the first server redirects, the second answers; the name is resolved anew at each step.\<close>

definition demo_url :: "string \<Rightarrow> fetch_url" where
  "demo_url h = \<lparr>fu_scheme = ''https'', fu_hostname = h, fu_port = '''', fu_user = False, fu_base = ''f.txt''\<rparr>"

definition demo_server :: "ip_addr \<Rightarrow> fetch_url \<Rightarrow> http_reply reply" where
  "demo_server ip u = (if fu_hostname u = ''a'' then Redirect (demo_url ''b'')
     else Final \<lparr>rp_status = 200, rp_body = \<lparr>r_data = ''data'', r_error = False, r_done = False\<rparr>, rp_contentType = ''text/plain'', rp_filename = ''''\<rparr>)"

definition demo_resolver :: "nat \<Rightarrow> string \<Rightarrow> ip_addr list option" where
  "demo_resolver t h = Some (if t = 3 then [V4 (ip4 10 8 8 8), V4 (ip4 93 184 216 34)] else [V4 (ip4 8 8 8 8)])"

lemma demo_addresses:
  "blockedAddress (V4 (ip4 8 8 8 8)) = False" "blockedAddress (V4 (ip4 93 184 216 34)) = False" "blockedAddress (V4 (ip4 10 8 8 8)) = True"
  by (simp_all add: blockedAddress_def blockedIPv4_def blockedPrefixes4_def Contains_def Unmap_def Is4In6_def IsLoopback_def
    IsPrivate_def IsLinkLocalUnicast_def IsLinkLocalMulticast_def IsMulticast_def IsUnspecified_def ip4_def)

lemma demo_fetch:
  "Fetch (\<lambda>s. Some (demo_url s)) demo_resolver demo_server [] 0 ''a'' '''' 0 =
    (Inr \<lparr>Kind = SourceURL, Filename = ''f.txt'', ContentType = ''text/plain'', Size = 4, Content = ''data''\<rparr>,
     [(V4 (ip4 8 8 8 8), demo_url ''a''), (V4 (ip4 93 184 216 34), demo_url ''b'')])"
proof -
  note step = client_do.simps dialAddress_def validateFetchURL_def demo_resolver_def demo_addresses allowlistMatches_def
  have p: "parseFetchURL (\<lambda>s. Some (demo_url s)) ''a'' = Inr (demo_url ''a'')" by code_simp
  have d: "cleanFilename (if ('''' :: string) = '''' then filenameFromHTTP resp ''f.txt'' else '''') = ''f.txt''"
    if "rp_filename resp = ''''" for resp
    using that by (simp add: filenameFromHTTP_def Let_def) code_simp
  have r: "readBounded \<lparr>r_data = ''data'', r_error = False, r_done = False\<rparr> 0 = Inr ''data''"
    by (simp add: readBounded_def effectiveMaxBytes_def DefaultMaxBytes_def)
  have u: "Unmap (V4 a) = V4 a" for a by (simp add: Unmap_def)
  let ?ok = "\<lparr>rp_status = 200, rp_body = \<lparr>r_data = ''data'', r_error = False, r_done = False\<rparr>, rp_contentType = ''text/plain'', rp_filename = ''''\<rparr>"
  have c1: "client_do demo_resolver demo_server [] 3 1 3 (demo_url ''b'') = (Inr ?ok, [(V4 (ip4 93 184 216 34), demo_url ''b'')])"
    by (subst client_do.simps) (simp add: Let_def dialAddress_def demo_resolver_def demo_addresses allowlistMatches_def demo_server_def u, simp add: demo_url_def)
  have c: "client_do demo_resolver demo_server [] 3 0 1 (demo_url ''a'') = (Inr ?ok,
     [(V4 (ip4 8 8 8 8), demo_url ''a''), (V4 (ip4 93 184 216 34), demo_url ''b'')])"
    using c1 by (subst client_do.simps)
      (simp add: Let_def dialAddress_def validateFetchURL_def demo_resolver_def demo_addresses allowlistMatches_def demo_server_def u numeral_2_eq_2 numeral_3_eq_3, simp add: demo_url_def)
  show ?thesis
    using d by (simp add: Fetch_def p c[simplified] validateFetchURL_def demo_resolver_def demo_addresses allowlistMatches_def defaultMaxRedirects_def
      Let_def r) (simp add: demo_url_def)
qed

theorem fetch_only_allowed_addresses_witness:
  "\<exists>r tr. Fetch (\<lambda>s. Some (demo_url s)) demo_resolver demo_server [] 0 ''a'' '''' 0 = (r, tr) \<and> length tr = 2 \<and>
    (\<forall>(ip, u)\<in>set tr. \<not> blockedAddress ip)"
  using fetch_only_allowed_addresses[OF demo_fetch] by (auto simp: demo_fetch allowlistMatches_def)

end
