(* ===== verification/Net_Local.thy ===== *)
theory Net_Local
  imports Net_Upload
begin

text \<open>
  Local upload sources (internal/upload/local_file.go) and the company image policy (image.go). The
  file system is a record of functions: the working directory, symlink evaluation and the file a path
  opens; filepath.Clean is that of Update_FS, filepath.Rel is written over path components. The image
  decoders and mime.ParseMediaType are arguments.
\<close>

section \<open>filepath.Rel\<close>

definition path_parts :: "string \<Rightarrow> string list" where
  "path_parts p = filter (\<lambda>c. c \<noteq> '''') (split_on slash p)"

fun strip_common :: "string list \<Rightarrow> string list \<Rightarrow> string list \<times> string list" where
  "strip_common (b # bs) (t # ts) = (if b = t then strip_common bs ts else (b # bs, t # ts))"
| "strip_common bs ts = (bs, ts)"

text \<open>Base and target are cleaned; a base that is left over is climbed with ".." elements.\<close>

definition path_Rel :: "string \<Rightarrow> string \<Rightarrow> string option" where
  "path_Rel basepath targpath = (let base0 = path_clean basepath; targ = path_clean targpath in
     if targ = base0 then Some ''.''
     else (let base = (if base0 = ''.'' then '''' else base0) in
       if (base \<noteq> '''' \<and> hd base = slash) \<noteq> (targ \<noteq> '''' \<and> hd targ = slash) then None
       else (case strip_common (path_parts base) (path_parts targ) of (bs, ts) \<Rightarrow>
         if bs \<noteq> [] \<and> hd bs = ''..'' then None
         else Some (join_on slash (map (\<lambda>_. ''..'') bs @ ts)))))"

section \<open>Allowlisted roots\<close>

record local_fs =
  lf_os :: bool
  lf_cwd :: "string option"
  lf_EvalSymlinks :: "string \<Rightarrow> string option"
  lf_Open :: "string \<Rightarrow> ((file_kind \<times> reader) option) option"

datatype local_error = ErrHTTPMode | ErrPathRequired | ErrAllowlistRequired | ErrOutsideAllowlist
  | ErrEmptyPath | ErrAbs | ErrSymlinks | ErrOpen | ErrStat | ErrNotRegular | ErrRead string

definition path_Abs :: "string option \<Rightarrow> string \<Rightarrow> string option" where
  "path_Abs cwd p = (if p \<noteq> '''' \<and> hd p = slash then Some (path_clean p)
     else map_option (\<lambda>d. path_clean (d @ slash # p)) cwd)"

definition canonicalPath :: "local_fs \<Rightarrow> string \<Rightarrow> local_error + string" where
  "canonicalPath lf s = (let cleaned = path_clean s in
     if cleaned = ''.'' then Inl ErrEmptyPath
     else if lf_os lf then
       (case path_Abs (lf_cwd lf) cleaned of None \<Rightarrow> Inl ErrAbs
        | Some a \<Rightarrow> (case lf_EvalSymlinks lf a of None \<Rightarrow> Inl ErrSymlinks | Some r \<Rightarrow> Inr (path_clean r)))
     else Inr (path_clean (if cleaned \<noteq> '''' \<and> hd cleaned = slash then cleaned else slash # cleaned)))"

fun canonicalLoop :: "local_fs \<Rightarrow> string list \<Rightarrow> string list \<Rightarrow> local_error + string list" where
  "canonicalLoop lf seen [] = Inr (rev seen)"
| "canonicalLoop lf seen (root # roots) = sum_bind (canonicalPath lf root) (\<lambda>r.
     if r \<in> set seen then canonicalLoop lf seen roots else canonicalLoop lf (r # seen) roots)"

definition CanonicalAllowRoots :: "local_fs \<Rightarrow> string list \<Rightarrow> local_error + string list" where
  "CanonicalAllowRoots lf roots = canonicalLoop lf [] roots"

definition pathWithinRoot :: "string \<Rightarrow> string \<Rightarrow> bool" where
  "pathWithinRoot candidate0 root0 = (let candidate = path_clean candidate0; root = path_clean root0 in
     candidate = root \<or> (case path_Rel root candidate of None \<Rightarrow> False
       | Some rel \<Rightarrow> rel \<noteq> ''.'' \<and> rel \<noteq> ''..'' \<and> \<not> has_prefix rel ''../''))"

definition requireAllowedPath :: "local_fs \<Rightarrow> string \<Rightarrow> string list \<Rightarrow> local_error + unit" where
  "requireAllowedPath lf candidate roots = (if roots = [] then Inl ErrAllowlistRequired
     else sum_bind (CanonicalAllowRoots lf roots) (\<lambda>resolved.
       if list_ex (\<lambda>r. pathWithinRoot candidate r) resolved then Inr () else Inl ErrOutsideAllowlist))"

datatype upload_mode = ModeStdio | ModeHTTP

record local_source =
  ls_Path :: string
  ls_Filename :: string
  ls_ContentType :: string

definition ResolveLocalFile :: "local_fs \<Rightarrow> upload_mode \<Rightarrow> string list \<Rightarrow> int \<Rightarrow> local_source \<Rightarrow> local_error + resolved_source" where
  "ResolveLocalFile lf mode allowRoots maxBytes source =
    (if mode = ModeHTTP then Inl ErrHTTPMode
     else if trim_space (ls_Path source) = '''' then Inl ErrPathRequired
     else if allowRoots = [] then Inl ErrAllowlistRequired
     else sum_bind (canonicalPath lf (ls_Path source)) (\<lambda>resolvedPath.
       sum_bind (requireAllowedPath lf resolvedPath allowRoots) (\<lambda>_.
         case lf_Open lf resolvedPath of None \<Rightarrow> Inl ErrOpen
         | Some None \<Rightarrow> Inl ErrStat
         | Some (Some (kind, rd)) \<Rightarrow>
             if kind \<noteq> Regular then Inl ErrNotRegular
             else (case readBounded rd maxBytes of Inl e \<Rightarrow> Inl (ErrRead e)
               | Inr content \<Rightarrow>
                   let filename = (if ls_Filename source = '''' then path_base resolvedPath else ls_Filename source) in
                   Inr \<lparr>Kind = SourceLocal, Filename = cleanFilename filename, ContentType = trim_space (ls_ContentType source),
                     Size = int (length content), Content = content\<rparr>))))"

section \<open>Confinement\<close>

definition plain_part :: "string \<Rightarrow> bool" where
  "plain_part c \<longleftrightarrow> c \<noteq> '''' \<and> c \<noteq> ''.'' \<and> c \<noteq> ''..'' \<and> slash \<notin> set c"

lemma clean_parts_rooted:
  "\<lbrakk>\<forall>c\<in>set acc. plain_part c; \<forall>c\<in>set cs. slash \<notin> set c\<rbrakk> \<Longrightarrow> \<forall>c\<in>set (clean_parts True acc cs). plain_part c"
proof (induction cs arbitrary: acc)
  case (Cons c cs)
  have tl: "\<forall>c\<in>set (tl acc). plain_part c" using Cons.prems(1) by (cases acc) simp_all
  have "\<exists>a. clean_parts True acc (c # cs) = clean_parts True a cs \<and> (\<forall>c\<in>set a. plain_part c)"
  proof (cases "c = '''' \<or> c = ''.'' \<or> c = ''..''")
    case True
    then have "clean_parts True acc (c # cs) = clean_parts True acc cs \<or> clean_parts True acc (c # cs) = clean_parts True (tl acc) cs"
      unfolding clean_parts.simps(2) by (auto split: if_split)
    then show ?thesis using Cons.prems(1) tl by blast
  next
    case False
    then have "plain_part c" using Cons.prems(2) by (simp add: plain_part_def)
    then have "\<forall>d\<in>set (c # acc). plain_part d" using Cons.prems(1) by simp
    moreover have "clean_parts True acc (c # cs) = clean_parts True (c # acc) cs" using False by simp
    ultimately show ?thesis by blast
  qed
  then show ?case using Cons by auto
qed simp

definition abs_parts :: "string \<Rightarrow> string list" where
  "abs_parts p = clean_parts True [] (split_on slash p)"

lemma abs_parts_plain: "\<forall>c\<in>set (abs_parts p). plain_part c"
  using clean_parts_rooted[of "[]" "split_on slash p"] split_on_parts[of _ slash p] by (auto simp: abs_parts_def)

lemma path_clean_abs: "p \<noteq> '''' \<Longrightarrow> hd p = slash \<Longrightarrow> path_clean p = slash # join_on slash (abs_parts p)"
  by (simp add: path_clean_def abs_parts_def)

lemma clean_parts_id: "\<forall>c\<in>set cs. plain_part c \<Longrightarrow> clean_parts True acc cs = rev acc @ cs"
proof (induction cs arbitrary: acc)
  case (Cons c cs)
  then have "clean_parts True acc (c # cs) = clean_parts True (c # acc) cs" by (simp add: plain_part_def)
  then show ?case using Cons by simp
qed simp

lemma split_rooted:
  assumes "\<forall>c\<in>set cs. plain_part c"
  shows "split_on slash (slash # join_on slash cs) = (if cs = [] then ['''', ''''] else '''' # cs)"
  using assms by (auto simp: split_join plain_part_def)

lemma abs_parts_clean:
  assumes "\<forall>c\<in>set cs. plain_part c"
  shows "abs_parts (slash # join_on slash cs) = cs" "path_parts (slash # join_on slash cs) = cs"
proof -
  show "abs_parts (slash # join_on slash cs) = cs"
    using clean_parts_id[OF assms, of "[]"] by (simp only: abs_parts_def split_rooted[OF assms]) simp
  have "filter (\<lambda>c. c \<noteq> '''') cs = cs" using assms by (auto simp: filter_id_conv plain_part_def)
  then show "path_parts (slash # join_on slash cs) = cs"
    by (simp only: path_parts_def split_rooted[OF assms]) auto
qed

lemma strip_common_prefix: "strip_common bs ts = ([], rest) \<longleftrightarrow> ts = bs @ rest"
  by (induction bs ts rule: strip_common.induct) auto

lemma strip_common_set: "strip_common bs ts = (bs', ts') \<Longrightarrow> set bs' \<subseteq> set bs"
  by (induction bs ts rule: strip_common.induct) (auto split: if_splits)

lemma join_head: "join_on c (p # ps) = p \<or> (\<exists>r. join_on c (p # ps) = p @ c # r)"
  by (cases ps) auto

lemma not_climbing:
  assumes "plain_part p"
  shows "join_on slash (p # ps) \<noteq> ''.''" "join_on slash (p # ps) \<noteq> ''..''" "\<not> has_prefix (join_on slash (p # ps)) ''../''"
proof -
  have sp: "split_on slash (join_on slash (p # ps)) ! 0 = p"
    using join_head[of slash p ps] assms by (auto simp: plain_part_def split_on_append)
  have dots: "split_on slash ''.'' ! 0 = ''.''" "split_on slash ''..'' ! 0 = ''..''" by simp_all
  show "join_on slash (p # ps) \<noteq> ''.''" "join_on slash (p # ps) \<noteq> ''..''"
    using sp dots assms by (metis plain_part_def)+
  show "\<not> has_prefix (join_on slash (p # ps)) ''../''"
  proof
    assume "has_prefix (join_on slash (p # ps)) ''../''"
    then obtain r where "join_on slash (p # ps) = ''../'' @ r"
      by (metis append_take_drop_id has_prefix_def)
    then have "split_on slash (join_on slash (p # ps)) ! 0 = ''..''" using split_on_append[of slash "''..''" r] by simp
    then show False using sp assms by (simp add: plain_part_def)
  qed
qed

lemma climbing: "join_on slash (''..'' # ps) = ''..'' \<or> has_prefix (join_on slash (''..'' # ps)) ''../''"
  using join_head[of slash "''..''" ps] by (auto simp: has_prefix_def)

lemma pathWithinRoot_parts:
  assumes "c \<noteq> ''''" "hd c = slash" "r \<noteq> ''''" "hd r = slash"
  shows "pathWithinRoot c r \<longleftrightarrow> prefix (abs_parts r) (abs_parts c)"
proof -
  let ?c = "slash # join_on slash (abs_parts c)" and ?r = "slash # join_on slash (abs_parts r)"
  have cl: "path_clean c = ?c" "path_clean r = ?r" using path_clean_abs assms by auto
  have cc: "path_clean ?c = ?c" "path_clean ?r = ?r"
    using path_clean_abs[of ?c] path_clean_abs[of ?r] by (simp_all add: abs_parts_clean abs_parts_plain)
  have eq: "?c = ?r \<longleftrightarrow> abs_parts c = abs_parts r" using abs_parts_clean(1)[OF abs_parts_plain] by metis
  obtain bs ts where st: "strip_common (abs_parts r) (abs_parts c) = (bs, ts)" by fastforce
  have parts: "path_parts ?c = abs_parts c" "path_parts ?r = abs_parts r" using abs_parts_clean(2) abs_parts_plain by auto
  show ?thesis
  proof (cases "abs_parts c = abs_parts r")
    case True
    then show ?thesis using cl by (simp add: pathWithinRoot_def)
  next
    case ne: False
    have up: "bs = [] \<or> hd bs \<noteq> ''..''"
      using strip_common_set[OF st] abs_parts_plain[of r] by (cases bs) (auto simp: plain_part_def)
    have rel: "path_Rel ?r ?c = Some (join_on slash (map (\<lambda>_. ''..'') bs @ ts))"
      using ne eq up by (auto simp: path_Rel_def cc parts st)
    show ?thesis
    proof (cases bs)
      case Nil
      then have pre: "abs_parts c = abs_parts r @ ts" using st strip_common_prefix by blast
      then obtain t ts' where ts: "ts = t # ts'" using ne by (cases ts) auto
      then have "plain_part t" using abs_parts_plain[of c] pre by auto
      from not_climbing[OF this, of ts'] show ?thesis
        using pre ne eq rel Nil by (simp add: pathWithinRoot_def cl ts prefix_def)
    next
      case (Cons b bs')
      have "\<not> prefix (abs_parts r) (abs_parts c)"
        using st Cons strip_common_prefix by (metis list.distinct(1) old.prod.inject prefix_def)
      then show ?thesis using climbing[of "map (\<lambda>_. ''..'') bs' @ ts"] rel ne eq Cons by (auto simp: pathWithinRoot_def cl)
    qed
  qed
qed

text \<open>On absolute paths pathWithinRoot is exactly containment by path components: the candidate's
  components, "." and ".." resolved, extend those of the root. A sibling whose name extends the root's
  name is outside, and names that merely begin with ".." are inside.\<close>

theorem path_within_root_components:
  assumes "c \<noteq> ''''" "hd c = slash" "r \<noteq> ''''" "hd r = slash"
  shows "pathWithinRoot c r \<longleftrightarrow> prefix (abs_parts r) (abs_parts c)"
  using assms by (rule pathWithinRoot_parts)

theorem path_within_root_components_witness:
  "pathWithinRoot ''/a/b/../c/..d'' ''/a/c/'' \<and> \<not> pathWithinRoot ''/a/cc'' ''/a/c'' \<and> \<not> pathWithinRoot ''/a/c/../d'' ''/a/c''"
proof -
  have "abs_parts ''/a/b/../c/..d'' = [''a'', ''c'', ''..d'']" "abs_parts ''/a/c/'' = [''a'', ''c'']" "abs_parts ''/a/cc'' = [''a'', ''cc'']"
    "abs_parts ''/a/c'' = [''a'', ''c'']" "abs_parts ''/a/c/../d'' = [''a'', ''d'']" by code_simp+
  then show ?thesis by (simp add: path_within_root_components)
qed

text \<open>What the operating system promises: the working directory is absolute, and evaluating the symlinks
  of an absolute path gives an absolute path.\<close>

definition rooted :: "string \<Rightarrow> bool" where "rooted p \<longleftrightarrow> p \<noteq> '''' \<and> hd p = slash"

definition os_paths :: "local_fs \<Rightarrow> bool" where
  "os_paths lf \<longleftrightarrow> (\<forall>d. lf_cwd lf = Some d \<longrightarrow> rooted d) \<and> (\<forall>a r. rooted a \<longrightarrow> lf_EvalSymlinks lf a = Some r \<longrightarrow> rooted r)"

lemma rooted_clean: "rooted p \<Longrightarrow> rooted (path_clean p)"
  by (auto simp: rooted_def path_clean_abs)

lemma path_Abs_rooted: "path_Abs cwd p = Some a \<Longrightarrow> (\<And>d. cwd = Some d \<Longrightarrow> rooted d) \<Longrightarrow> rooted a"
  unfolding path_Abs_def by (auto simp: rooted_def path_clean_abs split: if_splits)

lemma canonicalPath_rooted:
  assumes "os_paths lf" "canonicalPath lf s = Inr p"
  shows "rooted p"
proof (cases "lf_os lf")
  case True
  then obtain a r where ar: "path_Abs (lf_cwd lf) (path_clean s) = Some a" "lf_EvalSymlinks lf a = Some r" "p = path_clean r"
    using assms(2) by (auto simp: canonicalPath_def Let_def split: if_splits option.splits)
  have "rooted a" using path_Abs_rooted[OF ar(1)] assms(1) by (auto simp: os_paths_def)
  then show ?thesis using ar(2,3) assms(1) rooted_clean by (auto simp: os_paths_def)
next
  case False
  then have "p = path_clean (if path_clean s \<noteq> '''' \<and> hd (path_clean s) = slash then path_clean s else slash # path_clean s)"
    using assms(2) unfolding canonicalPath_def Let_def by (simp only: if_False sum.inject split: if_splits) auto
  moreover have "rooted (if path_clean s \<noteq> '''' \<and> hd (path_clean s) = slash then path_clean s else slash # path_clean s)"
    by (simp add: rooted_def)
  ultimately show ?thesis using rooted_clean by blast
qed

lemma canonicalLoop_mem:
  "canonicalLoop lf seen roots = Inr out \<Longrightarrow> r \<in> set out \<Longrightarrow> r \<in> set seen \<or> (\<exists>root\<in>set roots. canonicalPath lf root = Inr r)"
  by (induction lf seen roots rule: canonicalLoop.induct) (fastforce simp: sum_bind_Inr split: if_splits)+

lemma canonicalLoop_distinct: "canonicalLoop lf seen roots = Inr out \<Longrightarrow> distinct seen \<Longrightarrow> distinct out"
  by (induction lf seen roots rule: canonicalLoop.induct) (auto simp: sum_bind_Inr split: if_splits)

lemma requireAllowedPath_Inr:
  assumes "requireAllowedPath lf p roots = Inr x"
  obtains root r where "root \<in> set roots" "canonicalPath lf root = Inr r" "pathWithinRoot p r"
  using assms that canonicalLoop_mem[of lf "[]" roots]
  by (fastforce simp: requireAllowedPath_def CanonicalAllowRoots_def sum_bind_Inr list_ex_iff split: if_splits)

lemma readBounded_Inr: "readBounded rd m = Inr content \<Longrightarrow> prefix content (r_data rd) \<and> int (length content) \<le> effectiveMaxBytes m"
  by (auto simp: readBounded_def Let_def take_is_prefix split: if_splits)

text \<open>C40: A local upload succeeds only over stdio, and the file it reads is the regular file at the
  canonical path, which lies in an allowlisted root by path components after symlinks and dot elements
  are resolved; the content is a prefix of that file within the size limit.\<close>

theorem local_upload_confined:
  assumes "os_paths lf" "ResolveLocalFile lf mode roots maxBytes source = Inr res"
  shows "mode = ModeStdio \<and> (\<exists>p root r rd. canonicalPath lf (ls_Path source) = Inr p \<and> root \<in> set roots \<and>
    canonicalPath lf root = Inr r \<and> prefix (abs_parts r) (abs_parts p) \<and> lf_Open lf p = Some (Some (Regular, rd)) \<and>
    prefix (Content res) (r_data rd) \<and> Size res = int (length (Content res)) \<and> Size res \<le> effectiveMaxBytes maxBytes)"
proof -
  obtain p u rd content where p: "canonicalPath lf (ls_Path source) = Inr p" "requireAllowedPath lf p roots = Inr u"
      "lf_Open lf p = Some (Some (Regular, rd))" "readBounded rd maxBytes = Inr content"
      "Content res = content" "Size res = int (length content)" and m: "mode = ModeStdio"
    using assms(2) by (cases mode) (auto simp: ResolveLocalFile_def Let_def sum_bind_Inr split: if_splits option.splits sum.splits)
  obtain root r where r: "root \<in> set roots" "canonicalPath lf root = Inr r" "pathWithinRoot p r"
    using p(2) by (rule requireAllowedPath_Inr)
  have "prefix (abs_parts r) (abs_parts p)"
    using r(3) canonicalPath_rooted[OF assms(1)] p(1) r(2) by (auto simp: rooted_def pathWithinRoot_parts)
  then show ?thesis using p r m readBounded_Inr[OF p(4)] by auto
qed

definition demo_lf :: local_fs where
  "demo_lf = \<lparr>lf_os = True, lf_cwd = Some ''/w'', lf_EvalSymlinks = (\<lambda>p. if p = ''/w/link'' then Some ''/data/f.txt'' else Some p),
     lf_Open = (\<lambda>p. if p = ''/data/f.txt'' then Some (Some (Regular, \<lparr>r_data = ''abc'', r_error = False, r_done = False\<rparr>)) else None)\<rparr>"

theorem local_upload_confined_witness:
  "\<exists>res. ResolveLocalFile demo_lf ModeStdio [''/other'', ''/data/''] 0 \<lparr>ls_Path = ''x/../link'', ls_Filename = '''', ls_ContentType = ''''\<rparr> = Inr res \<and>
    Filename res = ''f.txt'' \<and> Size res \<le> effectiveMaxBytes 0"
proof -
  let ?s = "\<lparr>ls_Path = ''x/../link'', ls_Filename = '''', ls_ContentType = ''''\<rparr>"
  have "os_paths demo_lf" by (auto simp: os_paths_def demo_lf_def rooted_def split: if_splits)
  moreover have run: "\<exists>res. ResolveLocalFile demo_lf ModeStdio [''/other'', ''/data/''] 0 ?s = Inr res \<and> Filename res = ''f.txt''"
  proof -
    have c: "canonicalPath demo_lf ''x/../link'' = Inr ''/data/f.txt''" "requireAllowedPath demo_lf ''/data/f.txt'' [''/other'', ''/data/''] = Inr ()"
      "trim_space ''x/../link'' = ''x/../link''" "cleanFilename (path_base ''/data/f.txt'') = ''f.txt''" by code_simp+
    show ?thesis by (simp add: ResolveLocalFile_def c)
      (simp add: demo_lf_def readBounded_def effectiveMaxBytes_def DefaultMaxBytes_def c)
  qed
  ultimately show ?thesis using local_upload_confined by blast
qed

section \<open>The company image policy\<close>

definition path_ext :: "string \<Rightarrow> string" where
  "path_ext p = (let r = rev p; e = takeWhile (\<lambda>c. c \<noteq> CHR ''.'' \<and> c \<noteq> slash) r in
     case drop (length e) r of [] \<Rightarrow> '''' | c # _ \<Rightarrow> if c = CHR ''.'' then c # rev e else '''')"

definition CompanyImageMaxBytes :: int where "CompanyImageMaxBytes = 5 * 1024 * 1024"
definition CompanyImageMaxDimension :: int where "CompanyImageMaxDimension = 4096"
definition CompanyImageMaxPixelCount :: int where "CompanyImageMaxPixelCount = 16000000"

record ImageMetadata =
  Format :: string
  im_ContentType :: string
  Width :: int
  Height :: int

definition imageFormats :: "string \<Rightarrow> (string \<times> string list) option" where
  "imageFormats = map_of [(''png'', (''image/png'', [''.png''])), (''jpeg'', (''image/jpeg'', [''.jpg'', ''.jpeg''])),
     (''webp'', (''image/webp'', [''.webp'']))]"

datatype image_error = ImgEmpty | ImgTooLarge | ImgInvalid | ImgFormat | ImgNotPositive | ImgDimension | ImgPixels
  | ImgIncomplete | ImgExtension | ImgContentType

text \<open>decodeConfig gives width, height and format, decode the format of the complete image.\<close>

definition ValidateCompanyImage :: "(string \<Rightarrow> (int \<times> int \<times> string) option) \<Rightarrow> (string \<Rightarrow> string option) \<Rightarrow> (string \<Rightarrow> string option) \<Rightarrow>
    resolved_source \<Rightarrow> image_error + ImageMetadata" where
  "ValidateCompanyImage decodeConfig decode parseMedia source =
    (if Content source = '''' then Inl ImgEmpty
     else if int (length (Content source)) > CompanyImageMaxBytes then Inl ImgTooLarge
     else case decodeConfig (Content source) of None \<Rightarrow> Inl ImgInvalid
     | Some (w, h, format) \<Rightarrow> (case imageFormats format of None \<Rightarrow> Inl ImgFormat
       | Some (contentType, extensions) \<Rightarrow>
         if w \<le> 0 \<or> h \<le> 0 then Inl ImgNotPositive
         else if w > CompanyImageMaxDimension \<or> h > CompanyImageMaxDimension then Inl ImgDimension
         else if sint (word_of_int w * word_of_int h :: 64 word) > CompanyImageMaxPixelCount then Inl ImgPixels
         else if decode (Content source) \<noteq> Some format then Inl ImgIncomplete
         else if to_lower (path_ext (Filename source)) \<notin> set extensions then Inl ImgExtension
         else (case parseMedia (trim_space (ContentType source)) of None \<Rightarrow> Inl ImgContentType
           | Some mt \<Rightarrow> if to_lower mt \<noteq> contentType then Inl ImgContentType
             else Inr \<lparr>Format = format, im_ContentType = contentType, Width = w, Height = h\<rparr>)))"

lemma pixel_product:
  assumes "0 < w" "w \<le> 4096" "0 < h" "h \<le> (4096 :: int)"
  shows "sint (word_of_int w * word_of_int h :: 64 word) = w * h"
proof -
  have "w * h \<le> 4096 * 4096" using assms by (intro mult_mono) auto
  moreover have "0 < w * h" using assms by simp
  ultimately have "sint (word_of_int (w * h) :: 64 word) = w * h"
    by transfer (simp add: signed_take_bit_int_eq_self)
  then show ?thesis by (simp only: wi_hom_mult)
qed

definition company_image_ok :: "(string \<Rightarrow> (int \<times> int \<times> string) option) \<Rightarrow> (string \<Rightarrow> string option) \<Rightarrow> (string \<Rightarrow> string option) \<Rightarrow>
    resolved_source \<Rightarrow> ImageMetadata \<Rightarrow> bool" where
  "company_image_ok decodeConfig decode parseMedia source m \<longleftrightarrow>
    Content source \<noteq> '''' \<and> length (Content source) \<le> 5242880 \<and>
    decodeConfig (Content source) = Some (Width m, Height m, Format m) \<and> decode (Content source) = Some (Format m) \<and>
    0 < Width m \<and> Width m \<le> 4096 \<and> 0 < Height m \<and> Height m \<le> 4096 \<and> Width m * Height m \<le> 16000000 \<and>
    (\<exists>exts mt. imageFormats (Format m) = Some (im_ContentType m, exts) \<and> to_lower (path_ext (Filename source)) \<in> set exts \<and>
      parseMedia (trim_space (ContentType source)) = Some mt \<and> to_lower mt = im_ContentType m)"

text \<open>A company image is accepted exactly when it is non-empty, at most 5 MiB, decodes completely in a
  supported format, is at most 4096 in each dimension and 16 million pixels in all (the 64-bit product
  does not wrap), and its file extension and media type agree with the decoded format.\<close>

theorem company_image_accepted_iff:
  "ValidateCompanyImage decodeConfig decode parseMedia source = Inr m \<longleftrightarrow> company_image_ok decodeConfig decode parseMedia source m"
proof -
  note defs = ValidateCompanyImage_def CompanyImageMaxBytes_def CompanyImageMaxDimension_def CompanyImageMaxPixelCount_def
  show ?thesis
  proof
    assume ok: "ValidateCompanyImage decodeConfig decode parseMedia source = Inr m"
    then obtain w h f ct exts mt where c: "decodeConfig (Content source) = Some (w, h, f)" "imageFormats f = Some (ct, exts)"
        "parseMedia (trim_space (ContentType source)) = Some mt" "0 < w" "w \<le> 4096" "0 < h" "h \<le> 4096"
      by (auto simp: defs split: if_splits option.splits)
    have "m = \<lparr>Format = f, im_ContentType = ct, Width = w, Height = h\<rparr>"
      using ok c by (simp add: defs split: if_splits)
    then show "company_image_ok decodeConfig decode parseMedia source m"
      using ok c pixel_product[OF c(4-7)] by (simp add: defs company_image_ok_def split: if_splits)
  next
    assume r: "company_image_ok decodeConfig decode parseMedia source m"
    then show "ValidateCompanyImage decodeConfig decode parseMedia source = Inr m"
      using pixel_product[of "Width m" "Height m"] by (auto simp: defs company_image_ok_def)
  qed
qed

end
