(* ===== verification/Tools_Guard.thy ===== *)
theory Tools_Guard
  imports OAuth_Service
begin

text \<open>
  The authorization of tool calls (internal/tools/lookup_tools.go, auth_guard.go, register.go,
  manifest.go, annotations.go): the table of every tool's scopes, mutation class and annotations as
  the package's init builds it, the guard that checks a bearer token's scopes before a handler
  runs, and the challenge it answers with. A handler is a state transformer; the guard's effect on
  the outcome recorder is left out.
\<close>

section \<open>The authorization table\<close>

definition ScopeInventreeRead :: string where "ScopeInventreeRead = ''inventree.read''"
definition ScopeInventreeWrite :: string where "ScopeInventreeWrite = ''inventree.write''"
definition ScopeInventreeUpload :: string where "ScopeInventreeUpload = ''inventree.upload''"
definition ScopeInventreeOperational :: string where "ScopeInventreeOperational = ''inventree.operational''"
definition ScopeInventreeDestructive :: string where "ScopeInventreeDestructive = ''inventree.destructive''"

record annotation_class =
  an_ReadOnly :: bool
  an_Destructive :: bool
  an_Idempotent :: bool
  an_OpenWorld :: bool

record tool_authorization =
  au_Name :: string
  au_MilestoneStatus :: string
  au_MutationClass :: string
  au_Scopes :: "string list"
  au_Annotations :: annotation_class

definition ReadOnlyAnnotations :: annotation_class where
  "ReadOnlyAnnotations = \<lparr>an_ReadOnly = True, an_Destructive = False, an_Idempotent = True, an_OpenWorld = False\<rparr>"

definition WriteAnnotations :: annotation_class where
  "WriteAnnotations = \<lparr>an_ReadOnly = False, an_Destructive = False, an_Idempotent = False, an_OpenWorld = False\<rparr>"

definition ToolMilestone1 :: string where "ToolMilestone1 = ''milestone_1''"

definition HealthVersionToolName :: string where "HealthVersionToolName = ''health_version''"
definition GetLocalUploadPolicyToolName :: string where "GetLocalUploadPolicyToolName = ''get_local_upload_policy''"
definition RenderComponentImageToolName :: string where "RenderComponentImageToolName = ''render_component_image''"
definition PollStocktakeGenerationToolName :: string where "PollStocktakeGenerationToolName = ''poll_stocktake_generation''"

definition lookupToolNames :: "string list" where
  "lookupToolNames = [
    ''search_notes'', ''get_note'', ''search_parts'', ''get_part'', ''list_part_relations'', ''get_part_relation'',
    ''search_part_categories'', ''get_part_category'', ''search_parameter_templates'', ''get_part_parameters'',
    ''search_part_parameters'', ''search_object_parameters'', ''search_category_parameter_defaults'',
    ''audit_parameter_consistency'', ''search_companies'', ''search_suppliers'', ''search_manufacturers'',
    ''get_company'', ''search_supplier_parts'', ''get_supplier_part'', ''search_manufacturer_parts'',
    ''get_manufacturer_part'', ''search_stock_locations'', ''get_stock_location'', ''search_stock_location_types'',
    ''get_stock_location_type'', ''search_stock_items'', ''get_stock_item'', ''list_stock_tracking_entries'',
    ''get_stock_tracking_entry'', ''search_stock_serials'', ''get_part_next_serial'', ''list_part_stocktakes'',
    ''get_part_stocktake'', ''poll_stocktake_generation'', ''list_attachments'', ''get_attachment_metadata'',
    ''download_attachment'', ''download_part_image'', ''preview_purchase_order_with_lines'', ''search_purchase_orders'',
    ''get_purchase_order'', ''search_purchase_order_lines'', ''get_purchase_order_line'',
    ''search_purchase_order_extra_lines'', ''get_purchase_order_extra_line'', ''get_inventree_instance_info'',
    ''search_owners'', ''get_owner'', ''search_users'', ''get_user'', ''search_contacts'', ''get_contact'',
    ''search_addresses'', ''get_address'', ''search_project_codes'', ''get_project_code'', ''global_search'',
    ''search_tags'', ''search_internal_price_breaks'', ''search_sale_price_breaks'', ''search_supplier_price_breaks'',
    ''get_part_pricing'', ''search_barcode_scan_history'', ''search_part_test_templates'', ''get_part_test_template'',
    ''search_stock_item_test_results'', ''get_stock_item_test_result'', ''download_stock_item_test_result_attachment'',
    ''get_part_requirements'']"

definition writeToolNames :: "string list" where
  "writeToolNames = [
    ''create_note'', ''update_note'', ''delete_note'', ''bulk_create_notes'', ''bulk_update_notes'', ''create_part'',
    ''update_part'', ''update_part_family_relationships'', ''delete_part'', ''create_part_relation'',
    ''update_part_relation'', ''delete_part_relation'', ''create_part_category'', ''update_part_category'',
    ''delete_part_category'', ''set_part_parameters'', ''delete_part_parameter'', ''create_object_parameter'',
    ''delete_object_parameter'', ''bulk_update_object_parameters'', ''create_parameter_template'',
    ''update_parameter_template'', ''update_parameter_template_uniqueness'', ''delete_parameter_template'',
    ''merge_parameter_templates'', ''create_category_parameter_default'', ''update_category_parameter_default'',
    ''delete_category_parameter_default'', ''bulk_propagate_part_parameters'', ''create_company'',
    ''create_supplier_part'', ''create_manufacturer_part'', ''update_company'', ''remove_company_customer_role'',
    ''update_supplier_part'', ''update_manufacturer_part'', ''bulk_update_parts'', ''bulk_update_companies'',
    ''bulk_update_part_categories'', ''bulk_update_supplier_parts'', ''bulk_update_manufacturer_parts'',
    ''upsert_part_with_supplier_and_manufacturer'', ''create_stock_item'', ''create_stock_location'',
    ''update_stock_location'', ''restructure_stock_location'', ''create_stock_location_type'',
    ''update_stock_location_type'', ''delete_stock_location_type'', ''delete_stock_location'',
    ''update_stock_item_metadata'', ''bulk_update_stock_item_metadata'', ''update_stock_item_provenance'',
    ''create_initial_stock_entry'', ''adjust_stock_quantity'', ''set_stock_status'', ''bulk_set_stock_status'',
    ''stocktake_adjustment'', ''set_stock_delete_on_deplete'', ''deplete_stock_item'', ''transfer_stock_item'',
    ''bulk_transfer_stock_items'', ''assign_stock_serial'', ''set_stock_serial'', ''install_stock_item'',
    ''uninstall_stock_item'', ''create_purchase_order'', ''update_purchase_order'', ''bulk_update_purchase_orders'',
    ''add_purchase_order_line'', ''update_purchase_order_line'', ''bulk_update_purchase_order_lines'',
    ''delete_purchase_order_line'', ''create_purchase_order_extra_line'', ''update_purchase_order_extra_line'',
    ''bulk_update_purchase_order_extra_lines'', ''delete_purchase_order_extra_line'',
    ''create_purchase_order_with_lines'', ''issue_purchase_order'', ''receive_purchase_order_items'',
    ''complete_purchase_order'', ''hold_purchase_order'', ''resume_purchase_order'', ''cancel_purchase_order'',
    ''upload_attachment'', ''upload_attachment_from_url'', ''create_link_attachment'', ''update_attachment_metadata'',
    ''bulk_update_attachment_metadata'', ''delete_attachment'', ''set_primary_image'',
    ''render_and_attach_component_image'', ''set_company_image'', ''set_company_image_from_url'',
    ''clear_company_image'', ''assign_owner'', ''assign_contact'', ''assign_address'', ''assign_project_code'',
    ''generate_stocktake'', ''create_internal_price_break'', ''update_internal_price_break'',
    ''delete_internal_price_break'', ''create_sale_price_break'', ''update_sale_price_break'',
    ''delete_sale_price_break'', ''create_supplier_price_break'', ''update_supplier_price_break'',
    ''delete_supplier_price_break'', ''update_part_pricing_override'', ''refresh_part_pricing'', ''generate_barcode'',
    ''resolve_barcode'', ''assign_barcode'', ''unassign_barcode'']"

definition noteWriteTools :: "string list" where
  "noteWriteTools = [
    ''create_note'', ''update_note'', ''bulk_create_notes'', ''bulk_update_notes'']"

definition noteDeleteTools :: "string list" where
  "noteDeleteTools = [
    ''delete_note'']"

definition recordWriteTools :: "string list" where
  "recordWriteTools = [
    ''create_part'', ''update_part'', ''create_part_relation'', ''update_part_relation'', ''create_company'',
    ''create_supplier_part'', ''create_manufacturer_part'', ''upsert_part_with_supplier_and_manufacturer'',
    ''create_parameter_template'', ''update_parameter_template'', ''create_object_parameter'',
    ''create_category_parameter_default'', ''update_category_parameter_default'', ''create_part_category'',
    ''update_part_category'', ''update_company'', ''update_supplier_part'', ''update_manufacturer_part'',
    ''create_stock_location'', ''update_stock_location'', ''create_stock_location_type'', ''update_stock_location_type'',
    ''create_purchase_order_extra_line'', ''update_purchase_order_extra_line'', ''update_purchase_order'',
    ''create_purchase_order_with_lines'', ''issue_purchase_order'', ''complete_purchase_order'',
    ''create_internal_price_break'', ''update_internal_price_break'', ''create_sale_price_break'',
    ''update_sale_price_break'', ''create_supplier_price_break'', ''update_supplier_price_break'',
    ''update_part_pricing_override'']"

definition barcodeTools :: "string list" where
  "barcodeTools = [
    ''generate_barcode'', ''resolve_barcode'', ''assign_barcode'', ''unassign_barcode'']"

definition propagateTools :: "string list" where
  "propagateTools = [
    ''bulk_propagate_part_parameters'']"

definition stockCreateTools :: "string list" where
  "stockCreateTools = [
    ''create_stock_item'', ''create_initial_stock_entry'']"

definition operationalTools :: "string list" where
  "operationalTools = [
    ''adjust_stock_quantity'', ''set_stock_status'', ''stocktake_adjustment'', ''generate_stocktake'',
    ''transfer_stock_item'', ''bulk_transfer_stock_items'', ''restructure_stock_location'',
    ''update_stock_item_metadata'', ''assign_stock_serial'', ''install_stock_item'',
    ''update_parameter_template_uniqueness'', ''hold_purchase_order'', ''resume_purchase_order'', ''bulk_update_parts'',
    ''bulk_update_companies'', ''bulk_update_part_categories'', ''bulk_update_supplier_parts'',
    ''bulk_update_manufacturer_parts'', ''bulk_update_stock_item_metadata'', ''bulk_set_stock_status'',
    ''bulk_update_purchase_orders'', ''bulk_update_purchase_order_lines'', ''bulk_update_purchase_order_extra_lines'',
    ''bulk_update_object_parameters'', ''refresh_part_pricing'']"

definition attachmentBulkTools :: "string list" where
  "attachmentBulkTools = [
    ''bulk_update_attachment_metadata'']"

definition operationalDestructiveTools :: "string list" where
  "operationalDestructiveTools = [
    ''set_stock_delete_on_deplete'', ''deplete_stock_item'', ''update_part_family_relationships'',
    ''update_stock_item_provenance'', ''set_stock_serial'', ''uninstall_stock_item'', ''cancel_purchase_order'',
    ''delete_stock_location'']"

definition assignTools :: "string list" where
  "assignTools = [
    ''remove_company_customer_role'', ''assign_owner'', ''assign_contact'', ''assign_address'', ''assign_project_code'']"

definition receiveTools :: "string list" where
  "receiveTools = [
    ''receive_purchase_order_items'']"

definition uploadTools :: "string list" where
  "uploadTools = [
    ''upload_attachment'', ''upload_attachment_from_url'', ''create_link_attachment'', ''update_attachment_metadata'',
    ''set_primary_image'']"

definition imageTools :: "string list" where
  "imageTools = [
    ''set_company_image'', ''set_company_image_from_url'', ''render_and_attach_component_image'']"

definition deleteTools :: "string list" where
  "deleteTools = [
    ''delete_part_parameter'', ''delete_object_parameter'', ''delete_parameter_template'', ''merge_parameter_templates'',
    ''delete_category_parameter_default'', ''delete_purchase_order_extra_line'', ''delete_purchase_order_line'',
    ''delete_part'', ''delete_part_relation'', ''delete_stock_location_type'', ''delete_part_category'']"

definition priceBreakDeleteTools :: "string list" where
  "priceBreakDeleteTools = [
    ''delete_internal_price_break'', ''delete_sale_price_break'', ''delete_supplier_price_break'']"

definition attachmentDeleteTools :: "string list" where
  "attachmentDeleteTools = [
    ''delete_attachment'']"

definition imageClearTools :: "string list" where
  "imageClearTools = [
    ''clear_company_image'']"

definition destructiveAnnotated :: "string list" where
  "destructiveAnnotated = [
    ''delete_note'', ''delete_attachment'', ''clear_company_image'', ''delete_part_parameter'',
    ''delete_object_parameter'', ''delete_parameter_template'', ''merge_parameter_templates'',
    ''delete_category_parameter_default'', ''delete_purchase_order_extra_line'', ''delete_purchase_order_line'',
    ''bulk_propagate_part_parameters'', ''set_stock_delete_on_deplete'', ''deplete_stock_item'',
    ''update_part_family_relationships'', ''update_stock_item_provenance'', ''delete_part'', ''delete_part_relation'',
    ''remove_company_customer_role'', ''assign_owner'', ''assign_contact'', ''assign_address'', ''assign_project_code'',
    ''delete_stock_location_type'', ''delete_stock_location'', ''delete_part_category'', ''set_stock_serial'',
    ''uninstall_stock_item'', ''cancel_purchase_order'']"

text \<open>The cases of the switch over the tool name, in order: the names, their scopes and mutation class.\<close>

definition scopeCases :: "(string list \<times> string list \<times> string) list" where
  "scopeCases = [
    (noteWriteTools, [ScopeInventreeRead, ScopeInventreeWrite], ''write''),
    (noteDeleteTools, [ScopeInventreeRead, ScopeInventreeWrite, ScopeInventreeDestructive], ''destructive''),
    (recordWriteTools, [ScopeInventreeRead, ScopeInventreeWrite], ''write''),
    (barcodeTools, [ScopeInventreeRead, ScopeInventreeWrite], ''write''),
    (propagateTools, [ScopeInventreeRead, ScopeInventreeWrite, ScopeInventreeDestructive], ''destructive''),
    (stockCreateTools, [ScopeInventreeWrite, ScopeInventreeOperational], ''operational''),
    (operationalTools, [ScopeInventreeRead, ScopeInventreeWrite, ScopeInventreeOperational], ''operational''),
    (attachmentBulkTools, [ScopeInventreeRead, ScopeInventreeWrite, ScopeInventreeUpload, ScopeInventreeOperational], ''operational''),
    (operationalDestructiveTools, [ScopeInventreeRead, ScopeInventreeWrite, ScopeInventreeOperational, ScopeInventreeDestructive], ''destructive''),
    (assignTools, [ScopeInventreeRead, ScopeInventreeWrite, ScopeInventreeDestructive], ''destructive''),
    (receiveTools, [ScopeInventreeRead, ScopeInventreeWrite, ScopeInventreeOperational], ''operational''),
    (uploadTools, [ScopeInventreeWrite, ScopeInventreeUpload], ''write''),
    (imageTools, [ScopeInventreeRead, ScopeInventreeWrite, ScopeInventreeUpload], ''write''),
    (deleteTools, [ScopeInventreeRead, ScopeInventreeWrite, ScopeInventreeDestructive], ''destructive''),
    (priceBreakDeleteTools, [ScopeInventreeRead, ScopeInventreeWrite], ''write''),
    (attachmentDeleteTools, [ScopeInventreeWrite, ScopeInventreeUpload, ScopeInventreeDestructive], ''destructive''),
    (imageClearTools, [ScopeInventreeRead, ScopeInventreeWrite, ScopeInventreeUpload, ScopeInventreeDestructive], ''destructive'')]"

definition writeScopes :: "string \<Rightarrow> string list \<times> string" where
  "writeScopes name = (case find (\<lambda>c. name \<in> set (fst c)) scopeCases of
     Some c \<Rightarrow> snd c | None \<Rightarrow> ([ScopeInventreeWrite], ''write''))"

definition read_only_auth :: "string \<Rightarrow> string list \<Rightarrow> tool_authorization" where
  "read_only_auth name scopes = \<lparr>au_Name = name, au_MilestoneStatus = ToolMilestone1, au_MutationClass = ''read_only'',
     au_Scopes = scopes, au_Annotations = ReadOnlyAnnotations\<rparr>"

definition initialAuthorizations :: "(string, tool_authorization) go_map" where
  "initialAuthorizations = [
    (HealthVersionToolName, read_only_auth HealthVersionToolName []),
    (GetLocalUploadPolicyToolName, read_only_auth GetLocalUploadPolicyToolName []),
    (RenderComponentImageToolName, read_only_auth RenderComponentImageToolName [ScopeInventreeRead])]"

definition writeAnnotations :: "string \<Rightarrow> annotation_class" where
  "writeAnnotations name = WriteAnnotations\<lparr>
     an_OpenWorld := (name = ''upload_attachment_from_url'' \<or> name = ''set_company_image_from_url''),
     an_Destructive := (name \<in> set destructiveAnnotated)\<rparr>"

definition write_auth :: "string \<Rightarrow> tool_authorization" where
  "write_auth name = \<lparr>au_Name = name, au_MilestoneStatus = ToolMilestone1, au_MutationClass = snd (writeScopes name),
     au_Scopes = fst (writeScopes name), au_Annotations = writeAnnotations name\<rparr>"

text \<open>The zero value a missing key reads as.\<close>

definition zero_auth :: tool_authorization where
  "zero_auth = \<lparr>au_Name = '''', au_MilestoneStatus = '''', au_MutationClass = '''', au_Scopes = [],
     au_Annotations = \<lparr>an_ReadOnly = False, an_Destructive = False, an_Idempotent = False, an_OpenWorld = False\<rparr>\<rparr>"

definition update_auth :: "(tool_authorization \<Rightarrow> tool_authorization) \<Rightarrow> string \<Rightarrow> (string, tool_authorization) go_map \<Rightarrow>
    (string, tool_authorization) go_map" where
  "update_auth f name t = gm_put name (f (case map_of t name of None \<Rightarrow> zero_auth | Some a \<Rightarrow> a)) t"

definition set_idempotent :: "tool_authorization \<Rightarrow> tool_authorization" where
  "set_idempotent a = a\<lparr>au_Annotations := (au_Annotations a)\<lparr>an_Idempotent := True\<rparr>\<rparr>"

definition idempotentUpdates :: "string list" where
  "idempotentUpdates = [''update_part_category'',
    ''update_company'', ''update_supplier_part'', ''update_manufacturer_part'', ''bulk_update_companies'',
    ''bulk_update_part_categories'', ''bulk_update_supplier_parts'', ''bulk_update_manufacturer_parts'',
    ''update_stock_location'', ''restructure_stock_location'', ''update_stock_location_type'',
    ''update_stock_item_metadata'', ''bulk_update_stock_item_metadata'',
    ''update_internal_price_break'', ''update_sale_price_break'', ''update_supplier_price_break'',
    ''update_part_pricing_override'',
    ''update_purchase_order_extra_line'', ''update_purchase_order'',
    ''bulk_update_purchase_orders'', ''bulk_update_purchase_order_extra_lines'']"

definition purchaseOrderMilestoneTools :: "string list" where
  "purchaseOrderMilestoneTools = [
    ''search_purchase_orders'', ''get_purchase_order'', ''search_purchase_order_lines'', ''get_purchase_order_line'',
    ''search_purchase_order_extra_lines'', ''get_purchase_order_extra_line'', ''create_purchase_order'',
    ''update_purchase_order'', ''add_purchase_order_line'', ''update_purchase_order_line'',
    ''delete_purchase_order_line'', ''create_purchase_order_extra_line'', ''update_purchase_order_extra_line'',
    ''delete_purchase_order_extra_line'', ''create_purchase_order_with_lines'', ''issue_purchase_order'',
    ''receive_purchase_order_items'', ''complete_purchase_order'']"

text \<open>The package's init function.\<close>

definition ToolAuthorizations :: "(string, tool_authorization) go_map" where
  "ToolAuthorizations =
    (let t1 = fold (\<lambda>name. gm_put name (read_only_auth name [ScopeInventreeRead])) lookupToolNames initialAuthorizations;
         t2 = fold (\<lambda>name. gm_put name (write_auth name)) writeToolNames t1;
         t3 = update_auth (\<lambda>a. a\<lparr>au_MutationClass := ''read_only'', au_Scopes := [ScopeInventreeRead, ScopeInventreeOperational],
           au_Annotations := ReadOnlyAnnotations\<rparr>) PollStocktakeGenerationToolName t2;
         t4 = fold (update_auth set_idempotent) idempotentUpdates t3
     in fold (update_auth (\<lambda>a. a\<lparr>au_MilestoneStatus := ToolMilestone1\<rparr>)) purchaseOrderMilestoneTools t4)"

definition RegisteredToolNames :: "bool \<Rightarrow> string list" where
  "RegisteredToolNames enableWriteTools =
    [HealthVersionToolName, GetLocalUploadPolicyToolName, RenderComponentImageToolName] @ lookupToolNames @
    (if enableWriteTools then writeToolNames else [])"

definition httpRegistrationForTool :: "string \<Rightarrow> string \<Rightarrow> string" where
  "httpRegistrationForTool name mutationClass =
    (if name = GetLocalUploadPolicyToolName then ''stdio_only''
     else if name = HealthVersionToolName \<or> mutationClass = ''read_only'' then ''registered''
     else ''registered_with_oauth_scope_guard'')"

section \<open>The guard\<close>

datatype authorization_mode = AuthorizationModeNone | AuthorizationModeOAuth

record call_result =
  cr_Challenge :: string
  cr_Text :: string
  cr_IsError :: bool

definition hasScope :: "string list \<Rightarrow> string \<Rightarrow> bool" where
  "hasScope scopes required = list_ex (\<lambda>scope. scope = required) scopes"

text \<open>The q verb of fmt; bytes from 0x80 on are kept, as for printable UTF-8.\<close>

definition hex_digit :: "nat \<Rightarrow> char" where
  "hex_digit n = (if n < 10 then char_of (48 + n) else char_of (87 + n))"

definition quote_char :: "char \<Rightarrow> string" where
  "quote_char c = (let n = (of_char c :: nat) in
     if n = 34 then [CHR 0x5C, CHR 0x22] else if n = 92 then [CHR 0x5C, CHR 0x5C]
     else if n = 7 then [CHR 0x5C, CHR ''a''] else if n = 8 then [CHR 0x5C, CHR ''b'']
     else if n = 12 then [CHR 0x5C, CHR ''f''] else if n = 10 then [CHR 0x5C, CHR ''n'']
     else if n = 13 then [CHR 0x5C, CHR ''r''] else if n = 9 then [CHR 0x5C, CHR ''t'']
     else if n = 11 then [CHR 0x5C, CHR ''v'']
     else if n < 32 \<or> n = 127 then [CHR 0x5C, CHR ''x'', hex_digit (n div 16), hex_digit (n mod 16)]
     else [c])"

definition go_quote :: "string \<Rightarrow> string" where
  "go_quote s = CHR 0x22 # concat (map quote_char s) @ [CHR 0x22]"

fun joinWith :: "string \<Rightarrow> string list \<Rightarrow> string" where
  "joinWith sep [] = ''''"
| "joinWith sep [p] = p"
| "joinWith sep (p # ps) = p @ sep @ joinWith sep ps"

definition bearerChallenge :: "string \<Rightarrow> string list \<Rightarrow> string \<Rightarrow> string \<Rightarrow> string" where
  "bearerChallenge resourceMetadataURL scopes errorCode errorDescription =
    (let params =
       (if resourceMetadataURL \<noteq> '''' then [''resource_metadata='' @ go_quote resourceMetadataURL] else []) @
       (if scopes \<noteq> [] then [''scope='' @ go_quote (joinWith '' '' scopes)] else []) @
       (if errorCode \<noteq> '''' then [''error='' @ go_quote errorCode] else []) @
       (if errorDescription \<noteq> '''' then [''error_description='' @ go_quote errorDescription] else [])
     in if params = [] then ''Bearer'' else ''Bearer '' @ joinWith '', '' params)"

definition authChallengeResult :: "string \<Rightarrow> string list \<Rightarrow> string \<Rightarrow> call_result" where
  "authChallengeResult url scopes message =
    \<lparr>cr_Challenge = bearerChallenge url scopes ''insufficient_scope'' message, cr_Text = message, cr_IsError = True\<rparr>"

text \<open>None stands for the call being let through.\<close>

definition authorizeTool :: "token_info option \<Rightarrow> string \<Rightarrow> string \<Rightarrow> call_result option" where
  "authorizeTool info url toolName = (case map_of ToolAuthorizations toolName of
     None \<Rightarrow> Some (authChallengeResult url [] ''tool authorization metadata is missing'')
   | Some authz \<Rightarrow>
     if au_Scopes authz = [] then None
     else (case info of
       None \<Rightarrow> Some (authChallengeResult url (au_Scopes authz) ''OAuth bearer token is required for this tool'')
     | Some ti \<Rightarrow> (case find (\<lambda>required. \<not> hasScope (ti_Scopes ti) required) (au_Scopes authz) of
         None \<Rightarrow> None
       | Some required \<Rightarrow> Some (authChallengeResult url (au_Scopes authz)
           (''OAuth bearer token is missing required scope '' @ go_quote required)))))"

definition GuardTool :: "authorization_mode \<Rightarrow> string \<Rightarrow> string \<Rightarrow> token_info option \<Rightarrow> ('s \<Rightarrow> 'out \<times> 's) \<Rightarrow> 's \<Rightarrow>
    (call_result + 'out) \<times> 's" where
  "GuardTool mode url toolName info handler s =
    (if mode \<noteq> AuthorizationModeOAuth then (case handler s of (r, s') \<Rightarrow> (Inr r, s'))
     else (case authorizeTool info url toolName of
       Some denied \<Rightarrow> (Inl denied, s)
     | None \<Rightarrow> (case handler s of (r, s') \<Rightarrow> (Inr r, s'))))"

section \<open>Laws\<close>

definition access_of :: "tool_authorization \<Rightarrow> string list \<times> string \<times> bool" where
  "access_of a = (au_Scopes a, au_MutationClass a, an_Destructive (au_Annotations a))"

lemma map_of_update_auth:
  "map_of (update_auth f name t) k =
    (if k = name then Some (f (case map_of t name of None \<Rightarrow> zero_auth | Some a \<Rightarrow> a)) else map_of t k)"
  by (simp add: update_auth_def)

lemma fold_update_access:
  assumes "\<And>a. access_of (f a) = access_of a"
  shows "map_of t k = Some a \<Longrightarrow> \<exists>b. map_of (fold (update_auth f) names t) k = Some b \<and> access_of b = access_of a"
proof (induction names arbitrary: t a)
  case (Cons n names)
  have "\<exists>b. map_of (update_auth f n t) k = Some b \<and> access_of b = access_of a"
    using Cons.prems assms by (auto simp: map_of_update_auth)
  then show ?case using Cons.IH by (metis fold_simps(2))
qed simp

lemma fold_put:
  "map_of (fold (\<lambda>name. gm_put name (g name)) names t) k = (if k \<in> set names then Some (g k) else map_of t k)"
  by (induction names arbitrary: t) auto

definition good_case :: "string list \<times> string \<Rightarrow> bool" where
  "good_case c \<longleftrightarrow> ScopeInventreeWrite \<in> set (fst c) \<and>
     (snd c = ''destructive'' \<longrightarrow> ScopeInventreeDestructive \<in> set (fst c)) \<and>
     (snd c = ''operational'' \<longrightarrow> ScopeInventreeOperational \<in> set (fst c))"

lemma scopeCases_good: "list_all (\<lambda>c. good_case (snd c)) scopeCases"
  by (simp add: scopeCases_def good_case_def)

lemma writeScopes_good: "good_case (writeScopes name)"
proof (cases "find (\<lambda>c. name \<in> set (fst c)) scopeCases")
  case None
  then show ?thesis by (simp add: writeScopes_def good_case_def)
next
  case (Some c)
  then have "c \<in> set scopeCases" by (metis find_Some_iff nth_mem)
  then show ?thesis using Some scopeCases_good by (auto simp: writeScopes_def list_all_iff)
qed

lemmas writeScopes_write = writeScopes_good [unfolded good_case_def, THEN conjunct1]
lemmas writeScopes_classes = writeScopes_good [unfolded good_case_def, THEN conjunct2]

lemma poll_not_write: "PollStocktakeGenerationToolName \<notin> set writeToolNames"
  by code_simp

lemma ToolAuthorizations_write:
  assumes "name \<in> set writeToolNames"
  shows "\<exists>a. map_of ToolAuthorizations name = Some a \<and> access_of a = access_of (write_auth name)"
proof -
  define t2 where "t2 = fold (\<lambda>name. gm_put name (write_auth name)) writeToolNames
    (fold (\<lambda>name. gm_put name (read_only_auth name [ScopeInventreeRead])) lookupToolNames initialAuthorizations)"
  define t3 where "t3 = update_auth (\<lambda>a. a\<lparr>au_MutationClass := ''read_only'', au_Scopes := [ScopeInventreeRead, ScopeInventreeOperational],
           au_Annotations := ReadOnlyAnnotations\<rparr>) PollStocktakeGenerationToolName t2"
  have "map_of t2 name = Some (write_auth name)" using assms by (simp add: t2_def fold_put)
  then have "map_of t3 name = Some (write_auth name)" using assms poll_not_write by (auto simp: t3_def map_of_update_auth)
  then obtain b where b: "map_of (fold (update_auth set_idempotent) idempotentUpdates t3) name = Some b" "access_of b = access_of (write_auth name)"
    using fold_update_access[of set_idempotent t3 name] by (auto simp: access_of_def set_idempotent_def)
  then show ?thesis
    using fold_update_access[of "\<lambda>a. a\<lparr>au_MilestoneStatus := ToolMilestone1\<rparr>" _ name b purchaseOrderMilestoneTools]
    by (simp add: ToolAuthorizations_def Let_def t2_def[symmetric] t3_def[symmetric] access_of_def)
qed

lemmas group_defs = noteWriteTools_def noteDeleteTools_def recordWriteTools_def barcodeTools_def propagateTools_def
  stockCreateTools_def operationalTools_def attachmentBulkTools_def operationalDestructiveTools_def assignTools_def
  receiveTools_def uploadTools_def imageTools_def deleteTools_def priceBreakDeleteTools_def attachmentDeleteTools_def
  imageClearTools_def

text \<open>The names listed for the destructive hint are those of the destructive cases, checked name by name.\<close>

lemma destructive_groups:
  "list_all (\<lambda>n. n \<in> set destructiveAnnotated) noteDeleteTools"
  "list_all (\<lambda>n. n \<in> set destructiveAnnotated) propagateTools"
  "list_all (\<lambda>n. n \<in> set destructiveAnnotated) operationalDestructiveTools"
  "list_all (\<lambda>n. n \<in> set destructiveAnnotated) assignTools"
  "list_all (\<lambda>n. n \<in> set destructiveAnnotated) deleteTools"
  "list_all (\<lambda>n. n \<in> set destructiveAnnotated) attachmentDeleteTools"
  "list_all (\<lambda>n. n \<in> set destructiveAnnotated) imageClearTools"
  by (simp_all add: destructiveAnnotated_def group_defs)

lemma other_groups:
  "list_all (\<lambda>n. n \<notin> set destructiveAnnotated) noteWriteTools"
  "list_all (\<lambda>n. n \<notin> set destructiveAnnotated) recordWriteTools"
  "list_all (\<lambda>n. n \<notin> set destructiveAnnotated) barcodeTools"
  "list_all (\<lambda>n. n \<notin> set destructiveAnnotated) stockCreateTools"
  "list_all (\<lambda>n. n \<notin> set destructiveAnnotated) operationalTools"
  "list_all (\<lambda>n. n \<notin> set destructiveAnnotated) attachmentBulkTools"
  "list_all (\<lambda>n. n \<notin> set destructiveAnnotated) receiveTools"
  "list_all (\<lambda>n. n \<notin> set destructiveAnnotated) uploadTools"
  "list_all (\<lambda>n. n \<notin> set destructiveAnnotated) imageTools"
  "list_all (\<lambda>n. n \<notin> set destructiveAnnotated) priceBreakDeleteTools"
  by (simp_all add: destructiveAnnotated_def group_defs)

lemma annotated_covered: "set destructiveAnnotated \<subseteq> set (noteDeleteTools @ propagateTools @ operationalDestructiveTools @ assignTools @ deleteTools @ attachmentDeleteTools @ imageClearTools)"
  by (simp add: destructiveAnnotated_def group_defs)

lemma scopeCases_checked:
  "list_all (\<lambda>c. list_all (\<lambda>n. n \<in> set destructiveAnnotated \<longleftrightarrow> snd (snd c) = ''destructive'') (fst c)) scopeCases"
  using destructive_groups other_groups by (simp add: scopeCases_def)

lemma scopeCases_annotated:
  "c \<in> set scopeCases \<Longrightarrow> n \<in> set (fst c) \<Longrightarrow> n \<in> set destructiveAnnotated \<longleftrightarrow> snd (snd c) = ''destructive''"
  using scopeCases_checked unfolding list_all_iff by blast

lemma annotated_found: "name \<in> set destructiveAnnotated \<Longrightarrow> \<exists>c\<in>set scopeCases. name \<in> set (fst c)"
  using annotated_covered by (auto simp: scopeCases_def)

lemma destructive_iff: "name \<in> set destructiveAnnotated \<longleftrightarrow> snd (writeScopes name) = ''destructive''"
proof (cases "find (\<lambda>c. name \<in> set (fst c)) scopeCases")
  case None
  then have "name \<notin> set destructiveAnnotated" using annotated_found[of name] unfolding find_None_iff by blast
  then show ?thesis using None by (simp add: writeScopes_def)
next
  case (Some c)
  then have "c \<in> set scopeCases" "name \<in> set (fst c)" by (metis find_Some_iff nth_mem)+
  then show ?thesis using Some scopeCases_annotated by (simp add: writeScopes_def)
qed

lemma authorizeTool_scopes:
  assumes "authorizeTool info url toolName = None" "map_of ToolAuthorizations toolName = Some a" "s \<in> set (au_Scopes a)"
  shows "\<exists>ti. info = Some ti \<and> s \<in> set (ti_Scopes ti)"
  using assms by (auto simp: authorizeTool_def hasScope_def find_None_iff list_ex_iff split: if_splits option.splits)

section \<open>Properties\<close>

text \<open>C17: Under OAuth the handler of a write tool runs, and any state changes, only for a token that carries
  the write scope, the operational scope when the tool's class is operational and the destructive
  scope when it is destructive; and the destructive hint shown to clients is set exactly for the
  tools of the destructive class.\<close>

theorem write_tools_guarded:
  assumes "name \<in> set writeToolNames" "GuardTool AuthorizationModeOAuth url name info handler s = (r, s')"
  shows "(\<exists>a. map_of ToolAuthorizations name = Some a \<and>
      (an_Destructive (au_Annotations a) \<longleftrightarrow> au_MutationClass a = ''destructive'') \<and>
      (case r of Inl denied \<Rightarrow> s' = s \<and> cr_IsError denied
       | Inr out \<Rightarrow> handler s = (out, s') \<and> (\<exists>ti. info = Some ti \<and> ScopeInventreeWrite \<in> set (ti_Scopes ti) \<and>
           (au_MutationClass a = ''operational'' \<longrightarrow> ScopeInventreeOperational \<in> set (ti_Scopes ti)) \<and>
           (au_MutationClass a = ''destructive'' \<longrightarrow> ScopeInventreeDestructive \<in> set (ti_Scopes ti)))))"
proof -
  obtain a where a: "map_of ToolAuthorizations name = Some a" "access_of a = access_of (write_auth name)"
    using ToolAuthorizations_write[OF assms(1)] by blast
  have eqs: "au_Scopes a = fst (writeScopes name)" "au_MutationClass a = snd (writeScopes name)"
    "an_Destructive (au_Annotations a) \<longleftrightarrow> name \<in> set destructiveAnnotated"
    using a(2) by (simp_all add: access_of_def write_auth_def writeAnnotations_def)
  show ?thesis
  proof (cases "authorizeTool info url name")
    case None
    note sc = authorizeTool_scopes[OF None a(1)]
    obtain ti where ti: "info = Some ti" "ScopeInventreeWrite \<in> set (ti_Scopes ti)"
      using sc[of ScopeInventreeWrite] writeScopes_write eqs(1) by auto
    then show ?thesis using a(1) assms(2) None eqs destructive_iff writeScopes_classes[of name] sc
      by (fastforce simp: GuardTool_def split: prod.splits)
  next
    case (Some denied)
    then have "cr_IsError denied"
      by (auto simp: authorizeTool_def authChallengeResult_def split: option.splits if_splits)
    moreover have "r = Inl denied" "s' = s" using assms(2) Some by (simp_all add: GuardTool_def)
    ultimately show ?thesis using a(1) eqs destructive_iff by simp
  qed
qed

definition demo_info :: "string list \<Rightarrow> token_info option" where
  "demo_info scopes = Some \<lparr>ti_Scopes = scopes, ti_Expiration = 0, ti_UserID = ''u'', ti_credential = None\<rparr>"

theorem write_tools_guarded_witness:
  "fst (GuardTool AuthorizationModeOAuth ''u'' ''deplete_stock_item'' (demo_info [ScopeInventreeRead, ScopeInventreeWrite, ScopeInventreeOperational])
     (\<lambda>n::nat. (True, n + 1)) 4) \<noteq> Inr True"
proof
  let ?g = "GuardTool AuthorizationModeOAuth ''u'' ''deplete_stock_item'' (demo_info [ScopeInventreeRead, ScopeInventreeWrite, ScopeInventreeOperational])
     (\<lambda>n::nat. (True, n + 1)) 4"
  assume "fst ?g = Inr True"
  then obtain s' where g: "?g = (Inr True, s')" by (metis prod.collapse)
  have w: "''deplete_stock_item'' \<in> set writeToolNames" by (simp add: writeToolNames_def)
  have "snd (writeScopes ''deplete_stock_item'') = ''destructive''" by (simp add: writeScopes_def scopeCases_def group_defs)
  then have d: "an_Destructive (au_Annotations (write_auth ''deplete_stock_item''))"
    using destructive_iff by (simp add: write_auth_def writeAnnotations_def)
  obtain a where a: "map_of ToolAuthorizations ''deplete_stock_item'' = Some a" "an_Destructive (au_Annotations a)"
    using ToolAuthorizations_write[OF w] d by (auto simp: access_of_def)
  have "ScopeInventreeDestructive \<notin> set [ScopeInventreeRead, ScopeInventreeWrite, ScopeInventreeOperational]" by code_simp
  then show False using write_tools_guarded[OF w g] a by (auto simp: demo_info_def)
qed

end
