(* ===== verification/Inventree_Errors.thy ===== *)
theory Inventree_Errors
  imports Prelude "HOL-Library.Product_Lexorder"
begin

text \<open>
  Errors of the InvenTree client (internal/inventree/errors.go) and what the tools make of them
  (internal/tools/validation_errors.go, outcome.go). Decoding a body as a JSON object, encoding a
  nested object and http.StatusText are arguments. An error value is classified by what its chain
  holds: a context error (the HTTP client wraps it), another transport error (*url.Error), an
  APIError, or something else; the client never builds a chain with two of these beyond a
  *url.Error around a context error, which counts as the context error.
\<close>

section \<open>errors.go\<close>

datatype error_kind = KindValidation | KindAuthentication | KindPermission | KindNotFound
  | KindConflict | KindRateLimit | KindServer | KindUnexpected

datatype json = JNull | JBool bool | JNum string | JStr string | JArr "json list" | JObj "(string \<times> json) list"

record api_error =
  ae_StatusCode :: int
  ae_Kind :: error_kind
  ae_Method :: string
  ae_Path :: string
  ae_Detail :: string
  ae_FieldErrors :: "(string, string list) go_map"

datatype go_error = Canceled | DeadlineExceeded | UrlError string | ApiError api_error | OtherError string

definition classifyStatus :: "int \<Rightarrow> error_kind" where
  "classifyStatus status =
    (if status = 400 \<or> status = 422 then KindValidation
     else if status = 401 then KindAuthentication
     else if status = 403 then KindPermission
     else if status = 404 then KindNotFound
     else if status = 409 then KindConflict
     else if status = 429 \<or> status = 408 then KindRateLimit
     else if status = 425 then KindUnexpected
     else if status \<ge> 500 then KindServer
     else KindUnexpected)"

fun firstString :: "json \<Rightarrow> string" where
  "firstString (JStr s) = s"
| "firstString (JArr (x # xs)) = firstString x"
| "firstString _ = ''''"

fun onlyStrings :: "json list \<Rightarrow> string list" where
  "onlyStrings [] = []"
| "onlyStrings (JStr s # xs) = s # onlyStrings xs"
| "onlyStrings (_ # xs) = onlyStrings xs"

fun stringList :: "((string \<times> json) list \<Rightarrow> string option) \<Rightarrow> json \<Rightarrow> string list" where
  "stringList enc (JStr s) = [s]"
| "stringList enc (JArr xs) = onlyStrings xs"
| "stringList enc (JObj o') = (case enc o' of Some s \<Rightarrow> [s] | None \<Rightarrow> [])"
| "stringList enc _ = []"

fun fieldErrorsLoop :: "((string \<times> json) list \<Rightarrow> string option) \<Rightarrow> (string \<times> json) list \<Rightarrow>
    (string, string list) go_map \<Rightarrow> (string, string list) go_map" where
  "fieldErrorsLoop enc [] acc = acc"
| "fieldErrorsLoop enc ((key, v) # rest) acc =
    (if key = ''detail'' then fieldErrorsLoop enc rest acc
     else let messages = stringList enc v in
       fieldErrorsLoop enc rest (if messages \<noteq> [] then gm_put key messages acc else acc))"

definition maxErrorBodyBytes :: nat where "maxErrorBodyBytes = 2 ^ 20"

text \<open>\<open>body\<close> is the response body, None when reading it fails; a missing detail reads as nil.\<close>

definition parseAPIError :: "(string \<Rightarrow> (string \<times> json) list option) \<Rightarrow> ((string \<times> json) list \<Rightarrow> string option) \<Rightarrow>
    (int \<Rightarrow> string) \<Rightarrow> int \<Rightarrow> string \<Rightarrow> string \<Rightarrow> string option \<Rightarrow> api_error" where
  "parseAPIError parse enc statusText status method path body =
    (let e = \<lparr>ae_StatusCode = status, ae_Kind = classifyStatus status, ae_Method = method, ae_Path = path,
        ae_Detail = '''', ae_FieldErrors = []\<rparr> in
     case body of None \<Rightarrow> e\<lparr>ae_Detail := ''failed to read error response''\<rparr>
     | Some full \<Rightarrow> (let b = take maxErrorBodyBytes full in
       case parse b of None \<Rightarrow> e\<lparr>ae_Detail := trim_space b\<rparr>
       | Some payload \<Rightarrow>
         (let detail = (case map_of payload ''detail'' of None \<Rightarrow> '''' | Some v \<Rightarrow> firstString v) in
          e\<lparr>ae_Detail := (if detail = '''' then statusText status else detail),
            ae_FieldErrors := fieldErrorsLoop enc payload []\<rparr>)))"

section \<open>What the tools ask of an error\<close>

definition isNotFound :: "go_error \<Rightarrow> bool" where
  "isNotFound e = (case e of ApiError a \<Rightarrow> ae_Kind a = KindNotFound | _ \<Rightarrow> False)"

definition IsOmittableFetchError :: "go_error \<Rightarrow> bool" where
  "IsOmittableFetchError e = (case e of ApiError a \<Rightarrow> ae_Kind a = KindNotFound \<or> ae_Kind a = KindPermission | _ \<Rightarrow> False)"

definition definiteMutationRejection :: "int \<Rightarrow> bool" where
  "definiteMutationRejection statusCode = (statusCode \<ge> 400 \<and> statusCode < 500 \<and>
     statusCode \<noteq> 408 \<and> statusCode \<noteq> 425 \<and> statusCode \<noteq> 429)"

text \<open>The check errors.As and definiteMutationRejection every mutating tool makes.\<close>

definition definitely_rejected :: "go_error \<Rightarrow> bool" where
  "definitely_rejected e = (case e of ApiError a \<Rightarrow> definiteMutationRejection (ae_StatusCode a) | _ \<Rightarrow> False)"

section \<open>validation_errors.go\<close>

definition validationFieldAllowlist :: "(string \<times> string) list" where
  "validationFieldAllowlist =
    map (\<lambda>f. (f, f)) [''active'', ''assembly'', ''attachment'', ''batch'', ''category'', ''comment'', ''component'', ''creation_date'',
      ''currency'', ''data'', ''default_location'', ''description'', ''destination'', ''filename'', ''image''] @
    [(''ipn'', ''IPN'')] @
    map (\<lambda>f. (f, f)) [''is_manufacturer'', ''is_supplier'', ''line'', ''link'', ''manufacturer'', ''manufacturer_part'', ''model_id'',
      ''model_type''] @
    [(''mpn'', ''MPN'')] @
    map (\<lambda>f. (f, f)) [''name'', ''non_field_errors'', ''note'', ''notes'', ''order'', ''pack_quantity'', ''packaging'', ''part'',
      ''primary'', ''purchase_price'', ''purchase_price_currency'', ''purchaseable'', ''quantity'', ''reference'', ''serial''] @
    [(''sku'', ''SKU'')] @
    map (\<lambda>f. (f, f)) [''start_date'', ''status'', ''supplier'', ''supplier_reference'', ''tags'', ''price'', ''price_currency'',
      ''target_date'', ''template'', ''trackable'', ''units'', ''virtual'', ''website'']"

definition maxValidationFields :: nat where "maxValidationFields = 16"
definition maxMessages :: nat where "maxMessages = 4"

record validation_failure =
  vf_StatusCode :: int
  vf_Fields :: "(string \<times> string list) list"

definition safe_message :: "string \<Rightarrow> string" where
  "safe_message message = (let lower = to_lower message in
     if contains_sub lower ''blank'' then ''This field may not be blank.''
     else if contains_sub lower ''required'' then ''This field is required.''
     else if contains_sub lower ''null'' then ''This field may not be null.''
     else if contains_sub lower ''valid url'' \<or> contains_sub lower ''valid uri'' then ''Enter a valid URL.''
     else if contains_sub lower ''valid date'' then ''Enter a valid date.''
     else if contains_sub lower ''valid choice'' then ''Not a valid choice.''
     else if contains_sub lower ''greater than'' \<or> contains_sub lower ''less than'' \<or> contains_sub lower ''maximum'' \<or>
        contains_sub lower ''minimum'' then ''Value is outside the allowed range.''
     else ''Rejected by InvenTree.'')"

fun safeMessagesLoop :: "string list \<Rightarrow> string list \<Rightarrow> string list" where
  "safeMessagesLoop [] messages = messages"
| "safeMessagesLoop (message # raw) messages =
    (let safe = safe_message message in
     if safe \<in> set messages then safeMessagesLoop raw messages
     else if length (messages @ [safe]) = maxMessages then messages @ [safe]
     else safeMessagesLoop raw (messages @ [safe]))"

definition safeValidationMessages :: "string list \<Rightarrow> string list" where
  "safeValidationMessages raw = safeMessagesLoop raw []"

fun mergeLoop :: "string list \<Rightarrow> string list \<Rightarrow> string list" where
  "mergeLoop [] merged = merged"
| "mergeLoop (message # rest) merged =
    (if message \<in> set merged then mergeLoop rest merged
     else if length (merged @ [message]) = maxMessages then merged @ [message]
     else mergeLoop rest (merged @ [message]))"

definition mergeValidationMessages :: "string list \<Rightarrow> string list \<Rightarrow> string list" where
  "mergeValidationMessages existing additional = mergeLoop (existing @ additional) []"

fun canonicalLoop :: "(string, string list) go_map \<Rightarrow> string list \<Rightarrow> (string, string list) go_map \<Rightarrow>
    (string, string list) go_map" where
  "canonicalLoop fe [] acc = acc"
| "canonicalLoop fe (key # keys) acc =
    (case map_of validationFieldAllowlist (to_lower (trim_space key)) of None \<Rightarrow> canonicalLoop fe keys acc
     | Some canonical \<Rightarrow>
       (let safe = safeValidationMessages (case map_of fe key of None \<Rightarrow> [] | Some ms \<Rightarrow> ms);
            messages = (if safe = [] then [''Rejected by InvenTree.''] else safe);
            existing = (case map_of acc canonical of None \<Rightarrow> [] | Some ms \<Rightarrow> ms) in
        canonicalLoop fe keys (gm_put canonical (mergeValidationMessages existing messages) acc)))"

definition safeValidationFailure :: "go_error \<Rightarrow> validation_failure option" where
  "safeValidationFailure e = (case e of
     ApiError a \<Rightarrow>
       if ae_Kind a \<noteq> KindValidation \<and> ae_StatusCode a \<noteq> 400 \<and> ae_StatusCode a \<noteq> 422 then None
       else (let rawKeys = sort_key (\<lambda>k. (to_lower k, k)) (map fst (ae_FieldErrors a));
                 byCanonicalField = canonicalLoop (ae_FieldErrors a) rawKeys [];
                 keys = take maxValidationFields (sort_key to_lower (map fst byCanonicalField)) in
             Some \<lparr>vf_StatusCode = ae_StatusCode a,
               vf_Fields = map (\<lambda>k. (k, case map_of byCanonicalField k of None \<Rightarrow> [] | Some ms \<Rightarrow> ms)) keys\<rparr>)
   | _ \<Rightarrow> None)"

datatype tool_outcome = OutcomeSuccess | OutcomeValidationFailure | OutcomeAuthorizationFailure | OutcomeUpstreamFailure
  | OutcomeCancellation | OutcomeInternalFailure

text \<open>join_with is strings.Join.\<close>

fun join_with :: "string \<Rightarrow> string list \<Rightarrow> string" where
  "join_with sep [] = ''''"
| "join_with sep [p] = p"
| "join_with sep (p # ps) = p @ sep @ join_with sep ps"

definition field_text :: "string \<times> string list \<Rightarrow> string" where
  "field_text f = fst f @ '': '' @ join_with '' '' (snd f)"

text \<open>The error shown to the caller and the outcome recorded for the completion log.\<close>

definition safeToolError :: "go_error \<Rightarrow> go_error \<times> tool_outcome" where
  "safeToolError e = (case e of
     Canceled \<Rightarrow> (Canceled, OutcomeCancellation)
   | DeadlineExceeded \<Rightarrow> (DeadlineExceeded, OutcomeCancellation)
   | UrlError _ \<Rightarrow> (OtherError ''upstream request failed'', OutcomeUpstreamFailure)
   | OtherError m \<Rightarrow> (OtherError m, OutcomeInternalFailure)
   | ApiError a \<Rightarrow> (case safeValidationFailure e of
       Some v \<Rightarrow> (let parts = map field_text (vf_Fields v); head = ''InvenTree validation failed with status '' @ show_int (vf_StatusCode v) in
         (OtherError (if parts \<noteq> [] then head @ '': '' @ join_with ''; '' parts else head), OutcomeValidationFailure))
     | None \<Rightarrow> (OtherError (''InvenTree request failed with status '' @ show_int (ae_StatusCode a)),
         if ae_Kind a = KindAuthentication \<or> ae_Kind a = KindPermission then OutcomeAuthorizationFailure
         else OutcomeUpstreamFailure)))"

text \<open>LookupHandler around a tool whose client is available: an error reaches the caller made safe.\<close>

definition lookup_call :: "('i \<Rightarrow> 's \<Rightarrow> (go_error + 'o) \<times> 's) \<Rightarrow> 'i \<Rightarrow> 's \<Rightarrow> (go_error + 'o) \<times> 's" where
  "lookup_call handler inp st = (case handler inp st of
     (Inl e, st') \<Rightarrow> (Inl (fst (safeToolError e)), st') | (Inr out, st') \<Rightarrow> (Inr out, st'))"

section \<open>What reaches the caller\<close>

definition safe_messages :: "string list" where
  "safe_messages = [''This field may not be blank.'', ''This field is required.'', ''This field may not be null.'',
     ''Enter a valid URL.'', ''Enter a valid date.'', ''Not a valid choice.'', ''Value is outside the allowed range.'',
     ''Rejected by InvenTree.'']"

definition good_messages :: "string list \<Rightarrow> bool" where
  "good_messages ms \<longleftrightarrow> set ms \<subseteq> set safe_messages \<and> distinct ms \<and> length ms \<le> maxMessages"

lemma safe_message_in [simp]: "safe_message m \<in> set safe_messages"
  unfolding safe_message_def Let_def safe_messages_def by (simp only: list.set insert_iff simp_thms split: if_split)

lemma safeMessagesLoop_good: "good_messages acc \<Longrightarrow> length acc < maxMessages \<Longrightarrow> good_messages (safeMessagesLoop raw acc)"
  by (induction raw arbitrary: acc) (auto simp: good_messages_def Let_def)

lemma mergeLoop_good:
  "good_messages acc \<Longrightarrow> length acc < maxMessages \<Longrightarrow> set ms \<subseteq> set safe_messages \<Longrightarrow> good_messages (mergeLoop ms acc)"
  by (induction ms arbitrary: acc) (auto simp: good_messages_def)

lemma good_Nil [simp]: "good_messages []"
  by (simp add: good_messages_def)

lemma merge_good: "good_messages a \<Longrightarrow> good_messages b \<Longrightarrow> good_messages (mergeValidationMessages a b)"
  unfolding mergeValidationMessages_def by (rule mergeLoop_good) (auto simp: good_messages_def maxMessages_def)

lemma safe_validation_good: "good_messages (safeValidationMessages raw)"
  by (simp add: safeValidationMessages_def safeMessagesLoop_good maxMessages_def)

lemma rejected_good: "good_messages [''Rejected by InvenTree.'']"
proof -
  have "''Rejected by InvenTree.'' \<in> set safe_messages" unfolding safe_messages_def by (simp only: list.set insert_iff simp_thms)
  then show ?thesis by (simp add: good_messages_def maxMessages_def)
qed

lemma mergeLoop_nonempty: "acc \<noteq> [] \<Longrightarrow> mergeLoop ms acc \<noteq> []"
  by (induction ms arbitrary: acc) simp_all

lemma merge_nonempty: "b \<noteq> [] \<Longrightarrow> mergeValidationMessages a b \<noteq> []"
proof -
  assume "b \<noteq> []"
  then obtain x xs where "a @ b = x # xs" by (cases "a @ b") auto
  then show ?thesis by (simp add: mergeValidationMessages_def mergeLoop_nonempty)
qed

definition good_fields :: "(string, string list) go_map \<Rightarrow> bool" where
  "good_fields m \<longleftrightarrow> gm_wf m \<and> (\<forall>(k, ms) \<in> set m. k \<in> snd ` set validationFieldAllowlist \<and> good_messages ms \<and> ms \<noteq> [])"

lemma canonicalLoop_good: "good_fields acc \<Longrightarrow> good_fields (canonicalLoop fe keys acc)"
proof (induction keys arbitrary: acc)
  case (Cons key keys)
  show ?case
  proof (cases "map_of validationFieldAllowlist (to_lower (trim_space key))")
    case None
    then show ?thesis using Cons by simp
  next
    case (Some canonical)
    define safe where "safe = safeValidationMessages (case map_of fe key of None \<Rightarrow> [] | Some ms \<Rightarrow> ms)"
    define ms where "ms = (if safe = [] then [''Rejected by InvenTree.''] else safe)"
    define ex where "ex = (case map_of acc canonical of None \<Rightarrow> [] | Some ms \<Rightarrow> ms)"
    have "good_messages ms" "ms \<noteq> []"
      using safe_validation_good rejected_good by (simp_all add: ms_def safe_def)
    moreover have "good_messages ex"
      using Cons.prems by (auto simp: ex_def good_fields_def split: option.splits dest!: map_of_SomeD)
    moreover have "canonical \<in> snd ` set validationFieldAllowlist" using map_of_SomeD[OF Some] by force
    ultimately have "good_fields (gm_put canonical (mergeValidationMessages ex ms) acc)"
      using Cons.prems by (auto simp: good_fields_def merge_good merge_nonempty)
    then have "good_fields (canonicalLoop fe keys (gm_put canonical (mergeValidationMessages ex ms) acc))" by (rule Cons.IH)
    then show ?thesis by (simp only: canonicalLoop.simps Some option.case Let_def safe_def ms_def ex_def)
  qed
qed simp

text \<open>C18: Whatever fields and messages InvenTree's validation error carries, the failure shown to the
  caller names at most 16 distinct fields, each a canonical name of the allowlist, and under each
  between one and four distinct messages, each one of eight fixed sentences: no text of the server
  passes through.\<close>

theorem validation_text_safe:
  assumes "safeValidationFailure e = Some v"
  shows "length (vf_Fields v) \<le> 16 \<and> distinct (map fst (vf_Fields v)) \<and>
    (\<forall>f ms. (f, ms) \<in> set (vf_Fields v) \<longrightarrow> f \<in> snd ` set validationFieldAllowlist \<and>
       ms \<noteq> [] \<and> distinct ms \<and> length ms \<le> 4 \<and> set ms \<subseteq> set safe_messages)"
proof -
  obtain a where e: "e = ApiError a" using assms by (cases e) (auto simp: safeValidationFailure_def)
  define m where "m = canonicalLoop (ae_FieldErrors a) (sort_key (\<lambda>k. (to_lower k, k)) (map fst (ae_FieldErrors a))) []"
  define keys where "keys = take maxValidationFields (sort_key to_lower (map fst m))"
  have v: "vf_Fields v = map (\<lambda>k. (k, case map_of m k of None \<Rightarrow> [] | Some ms \<Rightarrow> ms)) keys"
    using assms by (auto simp: e safeValidationFailure_def Let_def m_def[symmetric] keys_def[symmetric] split: if_splits)
  have g: "good_fields m" unfolding m_def by (rule canonicalLoop_good) (simp add: good_fields_def)
  have wf: "distinct (map fst m)" using g by (simp add: good_fields_def gm_wf_def)
  have keys: "set keys \<subseteq> fst ` set m" using set_take_subset[of maxValidationFields "sort_key to_lower (map fst m)"] by (simp add: keys_def)
  have field: "f \<in> snd ` set validationFieldAllowlist \<and> good_messages ms \<and> ms \<noteq> []" if "(f, ms) \<in> set (vf_Fields v)" for f ms
  proof -
    have f: "f \<in> set keys" "ms = (case map_of m f of None \<Rightarrow> [] | Some ms \<Rightarrow> ms)" using that by (auto simp: v)
    then obtain ms' where "(f, ms') \<in> set m" using keys by auto
    moreover from this have "ms = ms'" using f(2) wf by simp
    ultimately show ?thesis using g unfolding good_fields_def by (simp only:) (drule conjunct2, drule (1) bspec, simp)
  qed
  have "distinct keys" "length keys \<le> 16" using wf by (simp_all add: keys_def maxValidationFields_def)
  moreover have "map fst (vf_Fields v) = keys" "length (vf_Fields v) = length keys" by (simp_all add: v comp_def)
  moreover have "distinct ms \<and> length ms \<le> 4 \<and> set ms \<subseteq> set safe_messages" if "good_messages ms" for ms
    using that by (simp only: good_messages_def maxMessages_def)
  ultimately show ?thesis using field by simp
qed

definition demo_rejection :: go_error where
  "demo_rejection = ApiError \<lparr>ae_StatusCode = 400, ae_Kind = KindValidation, ae_Method = ''POST'', ae_Path = ''/'', ae_Detail = '''',
     ae_FieldErrors = [(''Name'', [''secret'']), (''token'', [''secret''])]\<rparr>"

lemma rejection_reported: "ae_StatusCode a = 400 \<Longrightarrow> \<exists>v. safeValidationFailure (ApiError a) = Some v"
  by (simp add: safeValidationFailure_def Let_def)

theorem validation_text_safe_witness:
  "\<exists>v. safeValidationFailure demo_rejection = Some v \<and> length (vf_Fields v) \<le> 16"
proof -
  obtain v where "safeValidationFailure demo_rejection = Some v"
    unfolding demo_rejection_def using rejection_reported by fastforce
  then show ?thesis using validation_text_safe by blast
qed

end
