(* ===== verification/Reviewed_Tool.thy ===== *)
theory Reviewed_Tool
  imports Plan_Stores Inventree_Errors
begin

text \<open>
  The contract of every tool that writes only what a dry run showed: a call issues a token for a
  plan and shows both, or redeems a token for the plan it computes now and may then write, or does
  neither. The locale states what one call may do; inside it, over any sequence of calls, a token
  lets at most as many calls write as dry runs returned it, and whatever a call writes fits a plan
  with the digest, key and user of a plan shown earlier, within the token's lifetime.
\<close>

text \<open>What a sequence of calls did: each call with the state before it, its output and the state after.\<close>

fun tool_trace :: "('c \<Rightarrow> 's \<Rightarrow> 'o \<times> 's) \<Rightarrow> 'c list \<Rightarrow> 's \<Rightarrow> ('c \<times> 's \<times> 'o \<times> 's) list" where
  "tool_trace step [] s = []"
| "tool_trace step (c # cs) s = (let (out, s') = step c s in (c, s, out, s') # tool_trace step cs s')"

fun tool_end :: "('c \<Rightarrow> 's \<Rightarrow> 'o \<times> 's) \<Rightarrow> 'c list \<Rightarrow> 's \<Rightarrow> 's" where
  "tool_end step [] s = s"
| "tool_end step (c # cs) s = tool_end step cs (snd (step c s))"

lemma tool_trace_length [simp]: "length (tool_trace step cs s) = length cs"
  by (induction cs arbitrary: s) (auto simp: Let_def split: prod.splits)

lemma tool_trace_nth:
  "n < length cs \<Longrightarrow> tool_trace step cs s ! n =
    (let s0 = tool_end step (take n cs) s in (cs ! n, s0, fst (step (cs ! n) s0), snd (step (cs ! n) s0)))"
proof (induction cs arbitrary: s n)
  case (Cons c cs)
  then show ?case by (cases n) (auto simp: Let_def split: prod.splits)
qed simp

lemma tool_trace_take: "n \<le> length cs \<Longrightarrow> tool_trace step (take n cs) s = take n (tool_trace step cs s)"
proof (induction cs arbitrary: s n)
  case (Cons c cs)
  then show ?case by (cases n) (auto simp: Let_def split: prod.splits)
qed simp

locale reviewed_tool =
  fixes step :: "'c \<Rightarrow> 's \<Rightarrow> 'o \<times> 's"
    and store :: "'s \<Rightarrow> 'k plan_store"
    and sent :: "'s \<Rightarrow> 'r list"
    and life :: duration
    and dig :: "'p \<Rightarrow> string + string"
    and key :: "'p \<Rightarrow> 'k"
    and call_of :: "'c \<Rightarrow> plan_call"
    and token_of :: "'c \<Rightarrow> string"
    and shown :: "'o \<Rightarrow> (string \<times> 'p) option"
    and fits :: "'c \<Rightarrow> 'p \<Rightarrow> 'r list \<Rightarrow> bool"
  assumes effect: "step c s = (out, s') \<Longrightarrow>
      (store s' = store s \<and> sent s' = sent s \<and> shown out = None) \<or>
      (\<exists>plan t. plan_issue_op life dig key (call_of c, plan) (store s) = (t, store s') \<and> sent s' = sent s \<and>
         shown out = map_option (\<lambda>t. (t, plan)) t) \<or>
      (\<exists>plan b reqs. plan_consume_op dig key (call_of c, token_of c, plan) (store s) = (b, store s') \<and>
         sent s' = sent s @ reqs \<and> shown out = None \<and> (reqs = [] \<or> b \<and> fits c plan reqs))"
begin

abbreviation live :: "'s \<Rightarrow> string \<Rightarrow> 'k confirmation option" where
  "live s \<equiv> map_of (ps_entries (store s))"

abbreviation shows_token :: "string \<Rightarrow> 'o \<Rightarrow> bool" where
  "shows_token t out \<equiv> map_option fst (shown out) = Some t"

abbreviation trace where "trace \<equiv> tool_trace step"

lemma step_inv: "plan_inv m mp (store s) \<Longrightarrow> plan_inv m mp (store (snd (step c s)))"
proof -
  assume inv: "plan_inv m mp (store s)"
  obtain out s' where st: "step c s = (out, s')" by fastforce
  consider "store s' = store s" | plan t where "plan_issue_op life dig key (call_of c, plan) (store s) = (t, store s')"
    | plan b where "plan_consume_op dig key (call_of c, token_of c, plan) (store s) = (b, store s')"
    using effect[OF st] by blast
  then show ?thesis
  proof cases
    case 1
    then show ?thesis using st inv by simp
  next
    case 2
    then show ?thesis using plans.issue_inv[OF inv 2] st by simp
  next
    case 3
    then show ?thesis using plans.consume_inv[OF inv 3] st by simp
  qed
qed

text \<open>A live token was live before or has just been shown with its plan.\<close>

lemma step_live:
  assumes inv: "plan_inv m mp (store s)" and st: "step c s = (out, s')" and l: "live s' t = Some e"
  shows "live s t = Some e \<or> (\<exists>plan. shown out = Some (t, plan) \<and> e = plan_entry life dig key (call_of c) plan \<and> dig plan = Inr (cf_digest e))"
proof -
  consider "store s' = store s" | plan u where "plan_issue_op life dig key (call_of c, plan) (store s) = (u, store s')"
      "shown out = map_option (\<lambda>t. (t, plan)) u"
    | plan b where "plan_consume_op dig key (call_of c, token_of c, plan) (store s) = (b, store s')"
    using effect[OF st] by blast
  then show ?thesis
  proof cases
    case 2
    show ?thesis
    proof (cases "u = Some t")
      case True
      then have e: "e = plan_entry life dig key (call_of c) plan" using plans.issue_new[OF inv 2(1)[unfolded True]] l by simp
      have "fst (plan_issue_purge life dig key (call_of c) plan (store s)) = Inr t"
        using 2(1) plan_issue_op_eqs(2)[of life dig key "(call_of c, plan)" "store s" t] True by simp
      then obtain d where "dig plan = Inr d" by (auto simp: plan_issue_purge_def split: sum.splits)
      then show ?thesis using e True 2(2) by (simp add: plan_entry_def)
    qed (use plans.issue_old[OF inv 2(1)] l in blast)
  next
    case 3
    then show ?thesis using plans.consume_old[OF inv 3] l by blast
  qed (use l in simp)
qed

lemma step_sends:
  assumes inv: "plan_inv m mp (store s)" and st: "step c s = (out, s')" and ne: "sent s' \<noteq> sent s"
  shows "\<exists>plan reqs e. sent s' = sent s @ reqs \<and> fits c plan reqs \<and> live s (token_of c) = Some e \<and>
    plan_matches dig key (call_of c) plan e \<and> live s' (token_of c) = None \<and> shown out = None"
proof -
  obtain plan reqs where a: "plan_consume_op dig key (call_of c, token_of c, plan) (store s) = (True, store s')"
      "sent s' = sent s @ reqs" "shown out = None" "fits c plan reqs"
    using effect[OF st] ne by (metis (full_types) append_Nil2)
  then show ?thesis using plans.consume_live[OF inv a(1)] plans.consume_removes[OF inv a(1)] by auto
qed

lemma end_inv: "plan_inv m mp (store s) \<Longrightarrow> plan_inv m mp (store (tool_end step cs s))"
  by (induction cs arbitrary: s) (simp_all add: step_inv)

lemma writes_le_shown_gen:
  "plan_inv m mp (store s) \<Longrightarrow>
    length (filter (\<lambda>(c, s, out, s'). token_of c = t \<and> sent s' \<noteq> sent s) (trace cs s)) \<le>
    length (filter (\<lambda>(c, s, out, s'). shows_token t out) (trace cs s)) + (if live s t = None then 0 else 1)"
proof (induction cs arbitrary: s)
  case (Cons c cs)
  obtain out s' where st: "step c s = (out, s')" by fastforce
  have inv: "plan_inv m mp (store s')" using step_inv[OF Cons.prems, of c] st by simp
  define W :: "'c \<times> 's \<times> 'o \<times> 's \<Rightarrow> bool" where "W = (\<lambda>(c, s, out, s'). token_of c = t \<and> sent s' \<noteq> sent s)"
  define R :: "'c \<times> 's \<times> 'o \<times> 's \<Rightarrow> bool" where "R = (\<lambda>(c, s, out, s'). shows_token t out)"
  have ih: "length (filter W (trace cs s')) \<le> length (filter R (trace cs s')) + (if live s' t = None then 0 else 1)"
    unfolding W_def R_def by (rule Cons.IH[OF inv])
  have spent: "live s t \<noteq> None \<and> live s' t = None \<and> \<not> R (c, s, out, s')" if "W (c, s, out, s')"
    using step_sends[OF Cons.prems st] that by (auto simp: W_def R_def)
  have new: "R (c, s, out, s')" if "live s t = None" "live s' t \<noteq> None"
    using step_live[OF Cons.prems st, of t] that by (fastforce simp: R_def)
  have tr: "trace (c # cs) s = (c, s, out, s') # trace cs s'" by (simp add: st)
  show ?case unfolding W_def[symmetric] R_def[symmetric] tr
    using ih spent new by (cases "W (c, s, out, s')"; cases "R (c, s, out, s')"; cases "live s t = None"; cases "live s' t = None") auto
qed simp

text \<open>A token lets at most as many calls write as outputs showed it.\<close>

lemma writes_le_shown:
  "plan_inv m mp (store s) \<Longrightarrow> live s t = None \<Longrightarrow>
    length (filter (\<lambda>(c, s, out, s'). token_of c = t \<and> sent s' \<noteq> sent s) (trace cs s)) \<le>
    length (filter (\<lambda>(c, s, out, s'). shows_token t out) (trace cs s))"
  using writes_le_shown_gen[of m mp s t cs] by simp

lemma live_origin:
  "plan_inv m mp (store s) \<Longrightarrow> live (tool_end step cs s) t = Some e \<Longrightarrow> live s t = Some e \<or>
    (\<exists>j c0 s0 out s1 p0. j < length cs \<and> trace cs s ! j = (c0, s0, out, s1) \<and> shown out = Some (t, p0) \<and>
       e = plan_entry life dig key (call_of c0) p0 \<and> dig p0 = Inr (cf_digest e))"
proof (induction cs arbitrary: s)
  case (Cons c cs)
  obtain out s' where st: "step c s = (out, s')" by fastforce
  have inv: "plan_inv m mp (store s')" using step_inv[OF Cons.prems(1), of c] st by simp
  have "live (tool_end step cs s') t = Some e" using Cons.prems(2) st by simp
  from Cons.IH[OF inv this] show ?case
  proof (elim disjE exE conjE)
    assume "live s' t = Some e"
    from step_live[OF Cons.prems(1) st this] show ?thesis
    proof (elim disjE exE conjE)
      fix plan assume "shown out = Some (t, plan)" "e = plan_entry life dig key (call_of c) plan" "dig plan = Inr (cf_digest e)"
      then show ?thesis by (intro disjI2 exI[of _ 0] exI[of _ c] exI[of _ s] exI[of _ out] exI[of _ s'] exI[of _ plan]) (simp add: st)
    qed simp
  next
    fix j c0 s0 out0 s1 p0
    assume "j < length cs" "trace cs s' ! j = (c0, s0, out0, s1)" "shown out0 = Some (t, p0)"
      "e = plan_entry life dig key (call_of c0) p0" "dig p0 = Inr (cf_digest e)"
    then show ?thesis
      by (intro disjI2 exI[of _ "Suc j"] exI[of _ c0] exI[of _ s0] exI[of _ out0] exI[of _ s1] exI[of _ p0]) (simp add: st)
  qed
qed simp

text \<open>Whatever a call writes fits a plan that an earlier call showed with the token, for the same user,
  the same digest and key, less than the lifetime ago.\<close>

lemma writes_were_shown:
  assumes inv: "plan_inv m mp (store s)" and none: "\<And>t. live s t = None" and n: "n < length cs"
    and tr: "trace cs s ! n = (c, s1, out, s2)" and ne: "sent s2 \<noteq> sent s1"
  shows "\<exists>j c0 s0 out0 s0' p0 plan reqs. j < n \<and> trace cs s ! j = (c0, s0, out0, s0') \<and> shown out0 = Some (token_of c, p0) \<and>
    sent s2 = sent s1 @ reqs \<and> fits c plan reqs \<and> is_ok (dig p0) \<and> dig plan = dig p0 \<and> key plan = key p0 \<and>
    map_option ti_UserID (pc_info (call_of c0)) = map_option ti_UserID (pc_info (call_of c)) \<and>
    pc_now (call_of c) < pc_now (call_of c0) + life"
proof -
  have s1: "s1 = tool_end step (take n cs) s" and c: "c = cs ! n" and st: "step c s1 = (out, s2)"
    using tr unfolding tool_trace_nth[OF n] by (auto simp: Let_def)
  have inv1: "plan_inv m mp (store s1)" using end_inv[OF inv] by (simp add: s1)
  obtain plan reqs e where a: "sent s2 = sent s1 @ reqs" "fits c plan reqs" "live s1 (token_of c) = Some e"
      "plan_matches dig key (call_of c) plan e" using step_sends[OF inv1 st ne] by blast
  obtain j c0 s0 out0 s0' p0 where j: "j < length (take n cs)" "trace (take n cs) s ! j = (c0, s0, out0, s0')"
      "shown out0 = Some (token_of c, p0)" "e = plan_entry life dig key (call_of c0) p0" "dig p0 = Inr (cf_digest e)"
    using live_origin[OF inv, of "take n cs" "token_of c" e] a(3) none by (auto simp: s1)
  have t: "trace cs s ! j = (c0, s0, out0, s0')" using j(1,2) n by (simp add: tool_trace_take)
  have e: "dig plan = Inr (cf_digest e)" "cf_principal e = stockPlanPrincipal (pc_info (call_of c))" "cf_key e = key plan"
      "pc_now (call_of c) < cf_expiresAt e" using a(4) by (simp_all add: plan_matches_def)
  have e0: "cf_principal e = stockPlanPrincipal (pc_info (call_of c0))" "cf_key e = key p0" "cf_expiresAt e = pc_now (call_of c0) + life"
    unfolding j(4) by (simp_all add: plan_entry_def)
  have m: "dig plan = dig p0" "key plan = key p0" "pc_now (call_of c) < pc_now (call_of c0) + life"
      "map_option ti_UserID (pc_info (call_of c0)) = map_option ti_UserID (pc_info (call_of c))"
    using e e0 j(5) by (simp_all add: stockPlanPrincipal_inj[symmetric])
  have d: "is_ok (dig p0)" using j(5) by simp
  have "j < n" using j(1) by simp
  then show ?thesis
    by (intro exI[of _ j] exI[of _ c0] exI[of _ s0] exI[of _ out0] exI[of _ s0'] exI[of _ p0] exI[of _ plan] exI[of _ reqs] conjI
        t j(3) a(1,2) d m)
qed

end

section \<open>Ways through a handler\<close>

text \<open>What one call does to the store, the requests sent and the output, as the locale demands it.\<close>

definition reviewed_effect :: "('s \<Rightarrow> 'k plan_store) \<Rightarrow> ('s \<Rightarrow> 'r list) \<Rightarrow> ('o \<Rightarrow> (string \<times> 'p) option) \<Rightarrow> duration \<Rightarrow> ('p \<Rightarrow> string + string) \<Rightarrow>
    ('p \<Rightarrow> 'k) \<Rightarrow> plan_call \<Rightarrow> string \<Rightarrow> ('p \<Rightarrow> 'r list \<Rightarrow> bool) \<Rightarrow> 's \<Rightarrow> 'o \<times> 's \<Rightarrow> bool" where
  "reviewed_effect store sent shown life dig key call token fits st r = (case r of (out, st') \<Rightarrow>
      (store st' = store st \<and> sent st' = sent st \<and> shown out = None) \<or>
      (\<exists>plan t. plan_issue_op life dig key (call, plan) (store st) = (t, store st') \<and> sent st' = sent st \<and>
         shown out = map_option (\<lambda>t. (t, plan)) t) \<or>
      (\<exists>plan b reqs. plan_consume_op dig key (call, token, plan) (store st) = (b, store st') \<and>
         sent st' = sent st @ reqs \<and> shown out = None \<and> (reqs = [] \<or> b \<and> fits plan reqs)))"

named_theorems reviewed

lemma reviewed_idle [reviewed]:
  "store st' = store st \<Longrightarrow> sent st' = sent st \<Longrightarrow> shown out = None \<Longrightarrow>
    reviewed_effect store sent shown life dig key call token fits st (out, st')"
  by (simp add: reviewed_effect_def)

lemma reviewed_issue:
  assumes "plan_issue_purge life dig key call plan (store st) = (r, store st')" "sent st' = sent st"
    and "shown out = (case r of Inl _ \<Rightarrow> None | Inr t \<Rightarrow> Some (t, plan))"
  shows "reviewed_effect store sent shown life dig key call token fits st (out, st')"
proof -
  have "plan_issue_op life dig key (call, plan) (store st) = (case r of Inl _ \<Rightarrow> None | Inr t \<Rightarrow> Some t, store st')"
    using assms(1) by (auto simp: plan_issue_op_def split: sum.splits)
  moreover have "shown out = map_option (\<lambda>t. (t, plan)) (case r of Inl _ \<Rightarrow> None | Inr t \<Rightarrow> Some t)"
    using assms(3) by (auto split: sum.splits)
  ultimately show ?thesis unfolding reviewed_effect_def prod.case using assms(2) by blast
qed

lemma reviewed_consume:
  assumes "plan_consume dig key call token plan (store st) = (b, store st')" "sent st' = sent st @ reqs"
    and "shown out = None" "reqs = [] \<or> b \<and> fits plan reqs"
  shows "reviewed_effect store sent shown life dig key call token fits st (out, st')"
  using assms unfolding reviewed_effect_def plan_consume_op_def by auto

text \<open>The confirmation gate a handler ends in.\<close>

lemma reviewed_gate:
  assumes "store st2 = store st" "sent st2 = sent st" "shown o1 = None" "shown o2 = None" "shown o3 = None"
    and "reviewed_effect store sent shown life dig key call token fits st issued"
    and "plan_consume dig key call token plan (store st) = (b, ps)" "store st3 = ps" "sent st3 = sent st"
    and "store st4 = ps" "sent st4 = sent st @ reqs" "shown out = None" "\<not> preview \<Longrightarrow> go \<Longrightarrow> fits plan reqs"
  shows "reviewed_effect store sent shown life dig key call token fits st (if preview then issued else if \<not> go then (o1, st2)
    else if token = '''' then (o2, st2) else if b then (out, st4) else (o3, st3))"
proof -
  consider "preview" | "\<not> preview" "\<not> go" | "\<not> preview" "go" "token = ''''" | "\<not> preview" "go" "token \<noteq> ''''" b
    | "\<not> preview" "go" "token \<noteq> ''''" "\<not> b" by blast
  then show ?thesis
  proof cases
    case 4
    then show ?thesis using assms by (simp add: reviewed_consume[where plan = plan and b = True])
  next
    case 5
    then show ?thesis using assms by (simp add: reviewed_consume[where plan = plan and b = False and reqs = "[]"])
  qed (use assms in \<open>simp_all add: reviewed_idle\<close>)
qed


lemma reviewed_lookup_call:
  assumes "\<And>e. shown (Inl e) = None" "reviewed_effect store sent shown life dig key call token fits st (h inp st)"
  shows "reviewed_effect store sent shown life dig key call token fits st (lookup_call h inp st)"
  using assms(2) by (cases "h inp st"; cases "fst (h inp st)") (auto simp: reviewed_effect_def lookup_call_def assms(1))

end
