(* ===== verification/Float64.thy ===== *)
theory Float64
  imports Complex_Main Prelude
begin

text \<open>
  Go's float64 as the program uses it: IEEE 754 binary64 with round-to-nearest-even over the
  rationals, the comparisons, abs, copysign, addition and subtraction of package math and the
  language, strconv.FormatFloat with format 'f' and five digits, strconv.ParseFloat on decimal
  texts without an exponent. \<open>Fin\<close> holds a finite value other than negative zero. NaN's
  sign is taken to be positive, which only math.Copysign could observe.
\<close>

datatype float64 = NaN | PosInf | NegInf | NegZero | Fin rat

section \<open>Rounding to a double\<close>

fun ilog2 :: "nat \<Rightarrow> nat" where
  "ilog2 n = (if n < 2 then 0 else Suc (ilog2 (n div 2)))"

declare ilog2.simps [simp del]

definition pow2 :: "int \<Rightarrow> rat" where
  "pow2 e = (if 0 \<le> e then 2 ^ nat e else 1 / 2 ^ nat (- e))"

definition round_half_even :: "rat \<Rightarrow> int" where
  "round_half_even x = (let f = \<lfloor>x\<rfloor>; d = x - of_int f in
     if d < 1 / 2 then f else if 1 / 2 < d then f + 1 else if even f then f else f + 1)"

text \<open>The exponent of the binade of a positive number: the greatest e with 2 ^ e at most x.\<close>

definition binade :: "rat \<Rightarrow> int" where
  "binade x = (if 1 \<le> x then int (ilog2 (nat \<lfloor>x\<rfloor>)) else - int (ilog2 (nat (\<lceil>1 / x\<rceil> - 1))) - 1)"

definition ulp_exp :: "rat \<Rightarrow> int" where
  "ulp_exp x = max (binade \<bar>x\<bar> - 52) (- 1074)"

definition round64 :: "rat \<Rightarrow> float64" where
  "round64 x = (if x = 0 then Fin 0 else
     let r = of_int (round_half_even (\<bar>x\<bar> / pow2 (ulp_exp x))) * pow2 (ulp_exp x) in
     if 2 ^ 1024 \<le> r then (if x < 0 then NegInf else PosInf)
     else if r = 0 then (if x < 0 then NegZero else Fin 0)
     else Fin (if x < 0 then - r else r))"

section \<open>Operations\<close>

fun fval :: "float64 \<Rightarrow> rat" where
  "fval (Fin q) = q"
| "fval _ = 0"

fun f_neg :: "float64 \<Rightarrow> float64" where
  "f_neg NaN = NaN"
| "f_neg PosInf = NegInf"
| "f_neg NegInf = PosInf"
| "f_neg NegZero = Fin 0"
| "f_neg (Fin q) = (if q = 0 then NegZero else Fin (- q))"

fun signbit :: "float64 \<Rightarrow> bool" where
  "signbit NaN = False"
| "signbit PosInf = False"
| "signbit NegInf = True"
| "signbit NegZero = True"
| "signbit (Fin q) = (q < 0)"

definition f_abs :: "float64 \<Rightarrow> float64" where
  "f_abs x = (if signbit x then f_neg x else x)"

definition copysign :: "float64 \<Rightarrow> float64 \<Rightarrow> float64" where
  "copysign x y = (if signbit x = signbit y then x else f_neg x)"

fun f_add :: "float64 \<Rightarrow> float64 \<Rightarrow> float64" where
  "f_add NaN _ = NaN"
| "f_add _ NaN = NaN"
| "f_add PosInf b = (if b = NegInf then NaN else PosInf)"
| "f_add NegInf b = (if b = PosInf then NaN else NegInf)"
| "f_add _ PosInf = PosInf"
| "f_add _ NegInf = NegInf"
| "f_add NegZero NegZero = NegZero"
| "f_add a b = round64 (fval a + fval b)"

definition f_sub :: "float64 \<Rightarrow> float64 \<Rightarrow> float64" where
  "f_sub a b = f_add a (f_neg b)"

fun is_NaN :: "float64 \<Rightarrow> bool" where
  "is_NaN NaN = True"
| "is_NaN _ = False"

fun is_Inf :: "float64 \<Rightarrow> bool" where
  "is_Inf PosInf = True"
| "is_Inf NegInf = True"
| "is_Inf _ = False"

fun f_class :: "float64 \<Rightarrow> int" where
  "f_class PosInf = 1"
| "f_class NegInf = - 1"
| "f_class _ = 0"

definition f_lt :: "float64 \<Rightarrow> float64 \<Rightarrow> bool" where
  "f_lt a b = (\<not> is_NaN a \<and> \<not> is_NaN b \<and> (f_class a < f_class b \<or> f_class a = f_class b \<and> fval a < fval b))"

definition f_eq :: "float64 \<Rightarrow> float64 \<Rightarrow> bool" where
  "f_eq a b = (\<not> is_NaN a \<and> \<not> is_NaN b \<and> f_class a = f_class b \<and> fval a = fval b)"

definition f_le :: "float64 \<Rightarrow> float64 \<Rightarrow> bool" where
  "f_le a b = (f_lt a b \<or> f_eq a b)"

text \<open>The literal 1e-9.\<close>

definition nano :: float64 where "nano = round64 (1 / 10 ^ 9)"

section \<open>Decimal text\<close>

definition digit_val :: "char \<Rightarrow> nat" where
  "digit_val c = (of_char c :: nat) - 48"

definition digits_val :: "string \<Rightarrow> nat" where
  "digits_val s = foldl (\<lambda>a c. 10 * a + digit_val c) 0 s"

text \<open>The value of a decimal text: digits, optionally a point and more digits.\<close>

definition dec_val :: "string \<Rightarrow> rat" where
  "dec_val s = (case cut_on CHR ''.'' s of (a, b, _) \<Rightarrow>
     of_nat (digits_val a) + of_nat (digits_val b) / 10 ^ length b)"

definition pad_left :: "nat \<Rightarrow> string \<Rightarrow> string" where
  "pad_left n s = replicate (n - length s) CHR ''0'' @ s"

definition fixed5 :: "nat \<Rightarrow> string" where
  "fixed5 n = show_nat (n div 10 ^ 5) @ CHR ''.'' # pad_left 5 (show_nat (n mod 10 ^ 5))"

definition scaled5 :: "rat \<Rightarrow> nat" where
  "scaled5 q = nat (round_half_even (q * 10 ^ 5))"

fun FormatFloat5 :: "float64 \<Rightarrow> string" where
  "FormatFloat5 NaN = ''NaN''"
| "FormatFloat5 PosInf = ''+Inf''"
| "FormatFloat5 NegInf = ''-Inf''"
| "FormatFloat5 NegZero = CHR ''-'' # fixed5 0"
| "FormatFloat5 (Fin q) = (if q < 0 then CHR ''-'' # fixed5 (scaled5 (- q)) else fixed5 (scaled5 q))"

definition is_decimal :: "string \<Rightarrow> bool" where
  "is_decimal s = (case cut_on CHR ''.'' s of (a, b, f) \<Rightarrow> list_all is_digit (a @ b) \<and> a @ b \<noteq> [])"

text \<open>ParseFloat on a plain decimal text; the range error of an overflowing text is None too.\<close>

definition ParseFloat :: "string \<Rightarrow> float64 option" where
  "ParseFloat s = (let (neg, t) = (case s of c # r \<Rightarrow> if c = CHR ''-'' then (True, r) else (False, s) | [] \<Rightarrow> (False, [])) in
     if is_decimal t then
       (let f = round64 (dec_val t); g = (if neg then f_neg f else f) in if is_Inf g then None else Some g)
     else None)"

section \<open>Laws\<close>

lemma round_half_even_of_int [simp]: "round_half_even (of_int n) = n"
  by (simp add: round_half_even_def)

lemma round_half_even_numeral [simp]:
  "round_half_even 0 = 0" "round_half_even 1 = 1" "round_half_even (numeral k) = numeral k"
  using round_half_even_of_int[of 0] round_half_even_of_int[of 1] round_half_even_of_int[of "numeral k"] by simp_all

lemma round_half_even_bound: "\<bar>of_int (round_half_even x) - x\<bar> \<le> 1 / 2"
proof -
  have "of_int \<lfloor>x\<rfloor> \<le> x" "x < of_int \<lfloor>x\<rfloor> + 1" by linarith+
  then show ?thesis by (auto simp: round_half_even_def Let_def abs_le_iff)
qed

lemma round_half_even_nonneg: "0 \<le> x \<Longrightarrow> 0 \<le> round_half_even x"
  by (auto simp: round_half_even_def Let_def)

lemma digit_val_char [simp]: "n < 10 \<Longrightarrow> digit_val (digit_char n) = n"
  by (simp add: digit_val_def digit_char_def)

lemma is_digit_char [simp]: "n < 10 \<Longrightarrow> is_digit (digit_char n)"
  by (simp add: is_digit_def digit_char_def Let_def)

lemma digits_val_snoc [simp]: "digits_val (s @ [c]) = 10 * digits_val s + digit_val c"
  by (simp add: digits_val_def)

lemma digits_val_show_nat [simp]: "digits_val (show_nat n) = n"
proof (induction n rule: show_nat.induct)
  case (1 n)
  then show ?case by (subst show_nat.simps) (auto simp: digits_val_def)
qed

lemma digits_show_nat [simp]: "list_all is_digit (show_nat n)"
proof (induction n rule: show_nat.induct)
  case (1 n)
  then show ?case by (subst show_nat.simps) auto
qed

lemma digits_val_append: "digits_val (a @ b) = digits_val a * 10 ^ length b + digits_val b"
  by (induction b rule: rev_induct) (simp_all add: append_assoc [symmetric] algebra_simps del: append_assoc, simp add: digits_val_def)

lemma digits_val_zeros: "digits_val (replicate n CHR ''0'') = 0"
  by (induction n) (simp_all add: digits_val_def digit_val_def)

lemma digits_val_pad [simp]: "digits_val (pad_left n s) = digits_val s"
  by (simp add: pad_left_def digits_val_append digits_val_zeros)

lemma digits_pad [simp]: "list_all is_digit s \<Longrightarrow> list_all is_digit (pad_left n s)"
  by (auto simp: pad_left_def list_all_iff is_digit_def set_replicate_conv_if split: if_splits)

lemma show_nat_width: "length (show_nat n) \<le> k \<longleftrightarrow> n < 10 ^ k" if "0 < k" for k
  using that
proof (induction n arbitrary: k rule: show_nat.induct)
  case (1 n)
  show ?case
  proof (cases "n < 10")
    case True
    have "10 ^ 1 \<le> (10::nat) ^ k" using 1(2) by (intro power_increasing) auto
    then have "n < 10 ^ k" using True by simp
    then show ?thesis using True 1(2) by (subst show_nat.simps) (simp add: Suc_leI)
  next
    case False
    then obtain j where k: "k = Suc j" using 1(2) by (cases k) auto
    show ?thesis
    proof (cases j)
      case 0
      have "show_nat (n div 10) \<noteq> []" by (subst show_nat.simps) simp
      then show ?thesis using k 0 False by (subst show_nat.simps) simp
    next
      case (Suc i)
      have ih: "length (show_nat (n div 10)) \<le> j \<longleftrightarrow> n div 10 < 10 ^ j" using 1(1)[OF False] Suc by simp
      have "n div 10 < 10 ^ j \<longleftrightarrow> n < 10 ^ j * 10" by (rule div_less_iff_less_mult) simp
      then have d: "n div 10 < 10 ^ j \<longleftrightarrow> n < 10 ^ k" by (simp add: k mult.commute)
      have "length (show_nat n) \<le> k \<longleftrightarrow> length (show_nat (n div 10)) \<le> j" using False k by (subst show_nat.simps) simp
      then show ?thesis using ih d by simp
    qed
  qed
qed

lemma length_pad [simp]: "length (pad_left n s) = max n (length s)"
  by (simp add: pad_left_def)

lemma digit_not_point: "list_all is_digit s \<Longrightarrow> CHR ''.'' \<notin> set s"
  by (auto simp: list_all_iff is_digit_def)

lemma fixed5_cut: "cut_on CHR ''.'' (fixed5 n) = (show_nat (n div 10 ^ 5), pad_left 5 (show_nat (n mod 10 ^ 5)), True)"
  unfolding fixed5_def by (rule cut_on_append) (simp add: digit_not_point)

lemma length_frac5: "length (pad_left 5 (show_nat (n mod 10 ^ 5))) = 5"
  using show_nat_width[of 5 "n mod 10 ^ 5"] by simp

lemma dec_val_fixed5: "dec_val (fixed5 n) = of_nat n / 10 ^ 5"
proof -
  define a b where "a = n div 10 ^ 5" and "b = n mod 10 ^ 5"
  have n: "n = a * 10 ^ 5 + b" by (simp only: a_def b_def div_mult_mod_eq)
  have l: "length (pad_left 5 (show_nat b)) = 5" using length_frac5[of n] by (simp add: b_def)
  have "cut_on CHR ''.'' (fixed5 n) = (show_nat a, pad_left 5 (show_nat b), True)" by (simp only: fixed5_cut a_def b_def)
  moreover have "of_nat n = (of_nat a * 10 ^ 5 + of_nat b :: rat)" by (subst n) simp
  ultimately show ?thesis using l by (simp add: dec_val_def field_simps del: length_pad)
qed

lemma is_decimal_fixed5 [simp]: "is_decimal (fixed5 n)"
proof -
  have "pad_left 5 s \<noteq> []" for s by (auto simp: pad_left_def)
  then show ?thesis by (simp add: is_decimal_def fixed5_cut)
qed

end
