(* ===== verification/Stock_Model.thy ===== *)
theory Stock_Model
  imports Plan_Stores Float64 Inventree_Errors
begin

text \<open>
  What the stock tools of internal/tools share (stock_adjustment_tools.go): the stock item and
  location records they read, the plans they show for review, the decimal text of quantities, the
  requests they send, and the confirmation gate every execution passes. The InvenTree client is a
  record of functions over an abstract world (the server and everything else outside), so the
  order of reads and writes is explicit; every write is also logged in \<open>ss_sent\<close>. A
  clarification keeps its field and retry argument, not its prose. JSON encoding, plan digests and
  url.Parse are arguments.
\<close>

section \<open>Records of the InvenTree client\<close>

record stock_item =
  si_PK :: int
  si_Part :: int
  si_Location :: "int option"
  si_Quantity :: float64
  si_Serial :: "string option"
  si_Batch :: "string option"
  si_ExpiryDate :: "string option"
  si_Packaging :: "string option"
  si_Link :: string
  si_Status :: int
  si_StatusCustomKey :: "int option"
  si_DeleteOnDeplete :: bool
  si_InStock :: bool
  si_IsBuilding :: bool
  si_Owner :: "int option"
  si_SupplierPart :: "int option"
  si_Build :: "int option"
  si_ConsumedBy :: "int option"
  si_Customer :: "int option"
  si_SalesOrder :: "int option"
  si_BelongsTo :: "int option"
  si_Parent :: "int option"
  si_Allocated :: "float64 option"
  si_InstalledItems :: "int option"
  si_ChildItems :: "int option"
  si_TrackingItems :: "int option"
  si_PurchasePrice :: "string option"
  si_PurchasePriceCurrency :: string
  si_CreationDate :: "string option"
  si_PurchaseOrder :: "int option"

record stock_location =
  sl_PK :: int
  sl_Name :: string
  sl_Parent :: "int option"
  sl_Path :: "(int \<times> string) list"
  sl_Structural :: bool
  sl_External :: bool
  sl_Owner :: "int option"
  sl_LocationType :: "int option"

record part_record =
  pr_PK :: int
  pr_Trackable :: bool

record bom_item =
  bi_Part :: int
  bi_SubPart :: int

record stock_item_query =
  sq_PartID :: int
  sq_Serial :: string
  sq_Limit :: int

record bom_item_query =
  bq_Uses :: int
  bq_Limit :: int

record stock_adjustment =
  sa_Items :: "(int \<times> string) list"
  sa_Notes :: string

datatype patch_value = PatchBool bool | PatchStr string | PatchNull

datatype stock_write = AddStock stock_adjustment | RemoveStock stock_adjustment | CountStock stock_adjustment
  | ChangeStockStatus "int list" int string
  | UpdateStockItem int "(string \<times> patch_value) list"
  | TransferStock "(int \<times> string) list" string int
  | InstallStockItem int int int string
  | UninstallStockItem int int string

record 'w stock_client =
  cl_GetStockItem :: "int \<Rightarrow> 'w \<Rightarrow> (go_error + stock_item) \<times> 'w"
  cl_GetStockLocation :: "int \<Rightarrow> 'w \<Rightarrow> (go_error + stock_location) \<times> 'w"
  cl_GetPart :: "int \<Rightarrow> 'w \<Rightarrow> (go_error + part_record) \<times> 'w"
  cl_GetGlobalSetting :: "string \<Rightarrow> 'w \<Rightarrow> (go_error + string) \<times> 'w"
  cl_SearchStockItems :: "stock_item_query \<Rightarrow> 'w \<Rightarrow> (go_error + stock_item list) \<times> 'w"
  cl_SearchStockItemsPage :: "stock_item_query \<Rightarrow> 'w \<Rightarrow> (go_error + stock_item list \<times> bool) \<times> 'w"
  cl_SearchBomItems :: "bom_item_query \<Rightarrow> 'w \<Rightarrow> (go_error + bom_item list) \<times> 'w"
  cl_write :: "stock_write \<Rightarrow> 'w \<Rightarrow> go_error option \<times> 'w"

section \<open>Plans and outputs\<close>

record stock_snapshot =
  sn_StockItemID :: int
  sn_PartID :: int
  sn_Quantity :: float64
  sn_LocationID :: "int option"
  sn_Status :: int
  sn_Batch :: "string option"
  sn_Serial :: "string option"
  sn_Packaging :: "string option"
  sn_DeleteOnDeplete :: bool

record depletion_context =
  dc_InStock :: bool
  dc_Allocated :: "float64 option"
  dc_IsBuilding :: bool
  dc_BuildID :: "int option"
  dc_ConsumedByID :: "int option"
  dc_BelongsToID :: "int option"
  dc_ParentID :: "int option"
  dc_InstalledItems :: "int option"
  dc_ChildItems :: "int option"
  dc_TrackingItems :: "int option"
  dc_OwnerID :: "int option"
  dc_SupplierPartID :: "int option"
  dc_PurchaseOrderID :: "int option"
  dc_CustomerID :: "int option"
  dc_SalesOrderID :: "int option"

record transfer_location =
  tl_ID :: int
  tl_Name :: string
  tl_ParentID :: "int option"
  tl_Path :: "(int \<times> string) list"
  tl_Structural :: bool
  tl_External :: bool
  tl_OwnerID :: "int option"
  tl_LocationType :: "int option"

record transfer_provenance =
  tp_PartID :: int
  tp_Status :: int
  tp_StatusCustomKey :: "int option"
  tp_Batch :: "string option"
  tp_ExpiryDate :: "string option"
  tp_Packaging :: "string option"
  tp_DeleteOnDeplete :: bool
  tp_OwnerID :: "int option"
  tp_SupplierPartID :: "int option"
  tp_PurchaseOrderID :: "int option"
  tp_PurchasePrice :: "string option"
  tp_PurchasePriceCurrency :: string
  tp_CreationDate :: "string option"

record transfer_safety =
  ts_InStock :: bool
  ts_Allocated :: "float64 option"
  ts_Serial :: "string option"
  ts_IsBuilding :: bool
  ts_BuildID :: "int option"
  ts_ConsumedByID :: "int option"
  ts_BelongsToID :: "int option"
  ts_ParentID :: "int option"
  ts_InstalledItems :: "int option"
  ts_ChildItems :: "int option"
  ts_CustomerID :: "int option"
  ts_SalesOrderID :: "int option"

record transfer_context =
  tc_Source :: transfer_location
  tc_Destination :: transfer_location
  tc_Provenance :: transfer_provenance
  tc_Safety :: transfer_safety
  tc_WillSplit :: bool
  tc_Quantity :: "float64 option"
  tc_SourceRemainder :: "float64 option"
  tc_DestinationQuantity :: "float64 option"
  tc_DestinationStockItemID :: "int option"
  tc_PreexistingDestinationStockItemIDs :: "int list"

record install_context =
  ic_ParentID :: int
  ic_ParentPartID :: int
  ic_ParentInstalledItemsBefore :: "int option"
  ic_ChildPartID :: int
  ic_ChildBelongsToBefore :: "int option"
  ic_ChildBelongsToAfter :: "int option"
  ic_Destination :: "transfer_location option"
  ic_BOMConfirmed :: bool
  ic_Safety :: transfer_safety

record stock_plan =
  sp_Action :: string
  sp_Before :: stock_snapshot
  sp_After :: stock_snapshot
  sp_Reason :: string
  sp_HighRisk :: bool
  sp_RiskReason :: string
  sp_WillDelete :: bool
  sp_Depletion :: "depletion_context option"
  sp_Transfer :: "transfer_context option"
  sp_Install :: "install_context option"

type_synonym clarification = "string \<times> string"

record stock_output =
  so_Status :: string
  so_DryRun :: bool
  so_Plan :: "stock_plan option"
  so_PlanHash :: string
  so_Record :: "stock_item option"
  so_SplitRecord :: "stock_item option"
  so_Failure :: "string option"
  so_Clarification :: "clarification option"
  so_Verified :: bool
  so_Recovered :: bool

text \<open>One tool call: the plan store's clock, token generator and caller; the plan digest; json.Marshal
  of a transfer projection; and url.Parse with what validateExternalURL reads of its result.\<close>

record ext_url =
  eu_IsAbs :: bool
  eu_Host :: string
  eu_Hostname :: string
  eu_Scheme :: string
  eu_HasUser :: bool
  eu_String :: string

record 'w stock_env =
  se_call :: plan_call
  se_digest :: "stock_plan \<Rightarrow> string + string"
  se_marshal :: "transfer_provenance \<times> transfer_safety \<Rightarrow> string"
  se_parse :: "string \<Rightarrow> ext_url option"
  se_client :: "'w stock_client"

record 'w stock_state =
  ss_world :: 'w
  ss_plans :: "(string \<times> int) plan_store"
  ss_sent :: "stock_write list"
  ss_outcome :: "tool_outcome option"

definition st_ok :: string where "st_ok = ''ok''"
definition st_clarification :: string where "st_clarification = ''clarification_required''"
definition st_partial :: string where "st_partial = ''partial_failure''"
definition st_not_found :: string where "st_not_found = ''not_found''"

definition new_output :: "bool \<Rightarrow> stock_output" where
  "new_output dry = \<lparr>so_Status = st_ok, so_DryRun = dry, so_Plan = None, so_PlanHash = '''', so_Record = None,
     so_SplitRecord = None, so_Failure = None, so_Clarification = None, so_Verified = False, so_Recovered = False\<rparr>"

section \<open>Effects\<close>

definition fetch :: "('w \<Rightarrow> 'a \<times> 'w) \<Rightarrow> 'w stock_state \<Rightarrow> 'a \<times> 'w stock_state" where
  "fetch f st = (case f (ss_world st) of (r, w) \<Rightarrow> (r, st\<lparr>ss_world := w\<rparr>))"

definition send :: "'w stock_env \<Rightarrow> stock_write \<Rightarrow> 'w stock_state \<Rightarrow> go_error option \<times> 'w stock_state" where
  "send env req st = (case cl_write (se_client env) req (ss_world st) of (r, w) \<Rightarrow>
     (r, st\<lparr>ss_world := w, ss_sent := ss_sent st @ [req]\<rparr>))"

text \<open>Returning safeToolError(ctx, err): the sanitised error, with the outcome recorded.\<close>

definition safe_fail :: "go_error \<Rightarrow> 'w stock_state \<Rightarrow> (go_error + 'o) \<times> 'w stock_state" where
  "safe_fail e st = (Inl (fst (safeToolError e)), st\<lparr>ss_outcome := Some (snd (safeToolError e))\<rparr>)"

definition LookupHandler :: "go_error + unit \<Rightarrow> ('w stock_state \<Rightarrow> (go_error + 'o) \<times> 'w stock_state) \<Rightarrow> 'w stock_state \<Rightarrow>
    (go_error + 'o) \<times> 'w stock_state" where
  "LookupHandler client handler st = (case client of Inl e \<Rightarrow> safe_fail e st
   | Inr _ \<Rightarrow> (case handler st of (Inl e, st') \<Rightarrow> safe_fail e st' | (Inr out, st') \<Rightarrow> (Inr out, st')))"

section \<open>Quantities, snapshots and projections\<close>

definition normalizedStockDecimal :: "float64 \<Rightarrow> bool \<Rightarrow> (string \<times> float64) option" where
  "normalizedStockDecimal quantity allowZero =
    (if is_NaN quantity \<or> is_Inf quantity \<or> f_lt quantity (Fin 0) \<or> \<not> allowZero \<and> f_eq quantity (Fin 0) then None
     else let fixed = FormatFloat5 quantity in
       case ParseFloat fixed of None \<Rightarrow> None | Some normalized \<Rightarrow>
         if \<not> allowZero \<and> f_eq normalized (Fin 0) \<or> f_lt nano (f_abs (f_sub normalized quantity)) then None
         else let trimmed = trim_right (\<lambda>c. c = CHR ''.'') (trim_right (\<lambda>c. c = CHR ''0'') fixed);
                  formatted = (if trimmed = '''' then ''0'' else trimmed) in
           case cut_on CHR ''.'' formatted of (a, b, f) \<Rightarrow>
             if length a > 10 \<or> f \<and> length b > 5 then None else Some (formatted, normalized))"

definition stockItemHasSerial :: "stock_item \<Rightarrow> bool" where
  "stockItemHasSerial item = (case si_Serial item of None \<Rightarrow> False | Some s \<Rightarrow> trim_space s \<noteq> '''')"

definition snapshotStockItem :: "stock_item \<Rightarrow> stock_snapshot" where
  "snapshotStockItem item = \<lparr>sn_StockItemID = si_PK item, sn_PartID = si_Part item, sn_Quantity = si_Quantity item,
     sn_LocationID = si_Location item, sn_Status = si_Status item, sn_Batch = si_Batch item, sn_Serial = si_Serial item,
     sn_Packaging = si_Packaging item, sn_DeleteOnDeplete = si_DeleteOnDeplete item\<rparr>"

definition stockStateMatches :: "stock_item \<Rightarrow> stock_snapshot \<Rightarrow> bool" where
  "stockStateMatches item expected = (let actual = snapshotStockItem item in
     sn_StockItemID actual = sn_StockItemID expected \<and> sn_PartID actual = sn_PartID expected \<and>
     f_lt (f_abs (f_sub (sn_Quantity actual) (sn_Quantity expected))) nano \<and>
     sn_LocationID actual = sn_LocationID expected \<and> sn_Status actual = sn_Status expected \<and>
     sn_Batch actual = sn_Batch expected \<and> sn_Serial actual = sn_Serial expected \<and>
     sn_Packaging actual = sn_Packaging expected \<and> sn_DeleteOnDeplete actual = sn_DeleteOnDeplete expected)"

definition validateExternalURL :: "(string \<Rightarrow> ext_url option) \<Rightarrow> string \<Rightarrow> string option" where
  "validateExternalURL parse raw = (let trimmed = trim_space raw in
     if trimmed = '''' then Some '''' else
     case parse trimmed of None \<Rightarrow> None | Some u \<Rightarrow>
       if \<not> eu_IsAbs u \<or> eu_Host u = '''' \<or> eu_Hostname u = '''' then None
       else if eu_Scheme u \<noteq> ''http'' \<and> eu_Scheme u \<noteq> ''https'' then None
       else if eu_HasUser u then None else Some (eu_String u))"

definition projectExternalURL :: "(string \<Rightarrow> ext_url option) \<Rightarrow> string option \<Rightarrow> string" where
  "projectExternalURL parse raw = (case raw of None \<Rightarrow> '''' | Some r \<Rightarrow>
     (case validateExternalURL parse r of None \<Rightarrow> '''' | Some v \<Rightarrow> v))"

definition sanitizedStockItem :: "'w stock_env \<Rightarrow> stock_item \<Rightarrow> stock_item" where
  "sanitizedStockItem env item = (if si_Link item \<noteq> '''' then item\<lparr>si_Link := projectExternalURL (se_parse env) (Some (si_Link item))\<rparr> else item)"

definition stockItemRecoveryProjection :: "stock_item \<Rightarrow> stock_item" where
  "stockItemRecoveryProjection item = item\<lparr>si_Link := ''''\<rparr>"

definition stockTransferSafety :: "stock_item \<Rightarrow> transfer_safety" where
  "stockTransferSafety item = \<lparr>ts_InStock = si_InStock item, ts_Allocated = si_Allocated item, ts_Serial = si_Serial item,
     ts_IsBuilding = si_IsBuilding item, ts_BuildID = si_Build item, ts_ConsumedByID = si_ConsumedBy item,
     ts_BelongsToID = si_BelongsTo item, ts_ParentID = si_Parent item, ts_InstalledItems = si_InstalledItems item,
     ts_ChildItems = si_ChildItems item, ts_CustomerID = si_Customer item, ts_SalesOrderID = si_SalesOrder item\<rparr>"

definition stockTransferLocation :: "stock_location \<Rightarrow> transfer_location" where
  "stockTransferLocation l = \<lparr>tl_ID = sl_PK l, tl_Name = sl_Name l, tl_ParentID = sl_Parent l, tl_Path = sl_Path l,
     tl_Structural = sl_Structural l, tl_External = sl_External l, tl_OwnerID = sl_Owner l, tl_LocationType = sl_LocationType l\<rparr>"

section \<open>The confirmation store of the stock tools\<close>

definition plan_key :: "stock_plan \<Rightarrow> string \<times> int" where
  "plan_key plan = (sp_Action plan, sn_StockItemID (sp_Before plan))"

definition newStockPlanStore :: "(string \<times> int) plan_store" where
  "newStockPlanStore = new_plan_store stockPlanMaxEntries stockPlanMaxEntriesPerPrincipal"

definition stock_plan_issue :: "'w stock_env \<Rightarrow> stock_plan \<Rightarrow> 'w stock_state \<Rightarrow> (plan_error + string) \<times> 'w stock_state" where
  "stock_plan_issue env plan st =
    (case plan_issue_purge stockPlanLifetime (se_digest env) plan_key (se_call env) plan (ss_plans st) of
      (r, ps) \<Rightarrow> (r, st\<lparr>ss_plans := ps\<rparr>))"

definition stock_plan_consume :: "'w stock_env \<Rightarrow> string \<Rightarrow> stock_plan \<Rightarrow> 'w stock_state \<Rightarrow> bool \<times> 'w stock_state" where
  "stock_plan_consume env token plan st =
    (case plan_consume (se_digest env) plan_key (se_call env) token plan (ss_plans st) of
      (b, ps) \<Rightarrow> (b, st\<lparr>ss_plans := ps\<rparr>))"

section \<open>The confirmation gate\<close>

definition clarify :: "stock_output \<Rightarrow> string \<Rightarrow> string \<Rightarrow> stock_output" where
  "clarify out field retry = out\<lparr>so_Status := st_clarification, so_Clarification := Some (field, retry)\<rparr>"

datatype gate = Done "go_error + stock_output" | Confirmed

fun plan_error_result :: "stock_output \<Rightarrow> plan_error \<Rightarrow> go_error + stock_output" where
  "plan_error_result out PlanCapacity = Inr (clarify out ''confirmation'' ''dry_run'')"
| "plan_error_result out (PlanDigestError e) = Inl (OtherError e)"
| "plan_error_result out (PlanTokenError e) = Inl (OtherError e)"

definition stockInstallIssueOrConfirm :: "'w stock_env \<Rightarrow> bool \<Rightarrow> bool \<Rightarrow> string \<Rightarrow> stock_plan \<Rightarrow> 'w stock_state \<Rightarrow>
    gate \<times> 'w stock_state" where
  "stockInstallIssueOrConfirm env dryRun confirm suppliedToken plan st =
    (let out = (new_output dryRun)\<lparr>so_Plan := Some plan\<rparr> in
     if dryRun then (case stock_plan_issue env plan st of
         (Inl e, st') \<Rightarrow> (Done (plan_error_result out e), st')
       | (Inr token, st') \<Rightarrow> (Done (Inr (out\<lparr>so_PlanHash := token\<rparr>)), st'))
     else if \<not> confirm then (Done (Inr (clarify out ''confirmation'' ''confirm'')), st)
     else if suppliedToken = '''' then (Done (Inr (clarify out ''confirmation'' ''plan_hash'')), st)
     else (case stock_plan_consume env suppliedToken plan st of
         (False, st') \<Rightarrow> (Done (Inr (clarify out ''confirmation'' ''plan_hash'')), st')
       | (True, st') \<Rightarrow> (Confirmed, st')))"

definition stockUnknownResult :: "stock_output \<Rightarrow> stock_output" where
  "stockUnknownResult out = out\<lparr>so_Status := st_partial, so_Record := map_option stockItemRecoveryProjection (so_Record out),
     so_Failure := map_option sp_Action (so_Plan out)\<rparr>"

definition executeStockPlan :: "'w stock_env \<Rightarrow> bool \<Rightarrow> bool \<Rightarrow> string \<Rightarrow> stock_plan \<Rightarrow> stock_write \<Rightarrow> 'w stock_state \<Rightarrow>
    (go_error + stock_output) \<times> 'w stock_state" where
  "executeStockPlan env dryRun confirm suppliedToken plan req st =
    (let out = (new_output dryRun)\<lparr>so_Plan := Some plan\<rparr> in
     case stockInstallIssueOrConfirm env dryRun confirm suppliedToken plan st of
       (Done r, st1) \<Rightarrow> (r, st1)
     | (Confirmed, st1) \<Rightarrow> (case send env req st1 of
         (Some e, st2) \<Rightarrow> if definitely_rejected e then (Inl e, st2) else (Inr (stockUnknownResult out), st2)
       | (None, st2) \<Rightarrow> (case fetch (cl_GetStockItem (se_client env) (sn_StockItemID (sp_Before plan))) st2 of
           (Inl e, st3) \<Rightarrow> (Inr (stockUnknownResult out), st3)
         | (Inr after, st3) \<Rightarrow> (let out1 = out\<lparr>so_Record := Some (sanitizedStockItem env after)\<rparr> in
             (Inr (if stockStateMatches after (sp_After plan) then out1 else stockUnknownResult out1), st3)))))"

text \<open>Every stock tool that adjusts starts here: Inl is an early answer.\<close>

definition prepareStockAdjustment :: "'w stock_env \<Rightarrow> bool \<Rightarrow> int \<Rightarrow> string \<Rightarrow> 'w stock_state \<Rightarrow>
    ((go_error + stock_output) + stock_item) \<times> 'w stock_state" where
  "prepareStockAdjustment env dryRun stockItemID reason st =
    (if stockItemID \<le> 0 then (Inl (Inr (clarify (new_output dryRun) ''stock_item'' ''stock_item_id'')), st)
     else if trim_space reason = '''' then (Inl (Inr (clarify (new_output dryRun) ''reason'' ''reason'')), st)
     else (case fetch (cl_GetStockItem (se_client env) stockItemID) st of
       (Inl e, st') \<Rightarrow> (Inl (Inl e), st') | (Inr before, st') \<Rightarrow> (Inr before, st')))"

definition new_plan :: "string \<Rightarrow> stock_snapshot \<Rightarrow> stock_snapshot \<Rightarrow> string \<Rightarrow> stock_plan" where
  "new_plan action before after reason = \<lparr>sp_Action = action, sp_Before = before, sp_After = after, sp_Reason = reason,
     sp_HighRisk = False, sp_RiskReason = '''', sp_WillDelete = False, sp_Depletion = None, sp_Transfer = None, sp_Install = None\<rparr>"

end
