(* ===== verification/Stock_Decimal.thy ===== *)
theory Stock_Decimal
  imports Stock_Model
begin

text \<open>
  What normalizedStockDecimal guarantees: the text it sends denotes the quantity to within half a
  unit of the fifth decimal, fits InvenTree's decimal bounds, and is a fixed point: the number the
  server stores reads back to the same text and the same float64. The rounding error of a float64
  is derived here.
\<close>

section \<open>Rounding error\<close>

lemma ilog2_bounds: "0 < n \<Longrightarrow> 2 ^ ilog2 n \<le> n \<and> n < 2 ^ Suc (ilog2 n)"
proof (induction n rule: ilog2.induct)
  case (1 n)
  show ?case
  proof (cases "n < 2")
    case True
    then show ?thesis using 1(2) by (subst (1 2) ilog2.simps) auto
  next
    case False
    then have "2 ^ ilog2 (n div 2) \<le> n div 2 \<and> n div 2 < 2 ^ Suc (ilog2 (n div 2))" using 1 by simp
    then have "2 * 2 ^ ilog2 (n div 2) \<le> n \<and> n < 2 * 2 ^ Suc (ilog2 (n div 2))" by (auto simp: div_less_iff_less_mult)
    then show ?thesis using False by (subst (1 2) ilog2.simps) auto
  qed
qed

lemma pow2_pos [simp]: "0 < pow2 e"
  by (simp add: pow2_def)

lemma pow2_nonneg: "0 \<le> e \<Longrightarrow> pow2 e = 2 ^ nat e"
  by (simp add: pow2_def)

lemma pow2_Suc: "pow2 (e + 1) = 2 * pow2 e"
proof -
  consider "0 \<le> e" | "e = - 1" | "e < - 1" by linarith
  then show ?thesis
  proof cases
    case 3
    then have "nat (- e) = Suc (nat (- e - 1))" by simp
    then show ?thesis using 3 by (simp add: pow2_def)
  qed (simp_all add: pow2_def nat_add_distrib)
qed

lemma pow2_add_nat: "pow2 (e + int k) = 2 ^ k * pow2 e"
proof (induction k)
  case (Suc k)
  have "e + int (Suc k) = (e + int k) + 1" by simp
  then show ?case using Suc pow2_Suc[of "e + int k"] by (simp only: mult.assoc power_Suc)
qed simp

lemma ilog2_rat_bounds:
  assumes "0 < n" shows "(2::rat) ^ ilog2 n \<le> of_nat n" "of_nat n + 1 \<le> (2::rat) ^ Suc (ilog2 n)"
proof -
  have b: "2 ^ ilog2 n \<le> n" "n + 1 \<le> 2 ^ Suc (ilog2 n)" using ilog2_bounds[OF assms] by simp_all
  show "(2::rat) ^ ilog2 n \<le> of_nat n" using of_nat_mono[OF b(1), where 'a = rat] by (simp only: of_nat_power of_nat_numeral)
  show "of_nat n + 1 \<le> (2::rat) ^ Suc (ilog2 n)" using of_nat_mono[OF b(2), where 'a = rat] by (simp only: of_nat_power of_nat_numeral of_nat_add of_nat_1)
qed

lemma binade_ge1:
  assumes "1 \<le> x" shows "pow2 (binade x) \<le> x \<and> 0 \<le> binade x"
proof -
  define n where "n = nat \<lfloor>x\<rfloor>"
  have n: "0 < n" "of_nat n \<le> x" using assms by (auto simp: n_def)
  have b: "binade x = int (ilog2 n)" using assms by (simp add: binade_def n_def)
  have "pow2 (binade x) \<le> x" unfolding b pow2_def using order.trans[OF ilog2_rat_bounds(1)[OF n(1)] n(2)] by simp
  then show ?thesis by (simp add: b)
qed

lemma binade_lt1:
  assumes "0 < x" "x < 1" "1 / 10 ^ 5 \<le> x" shows "pow2 (binade x) \<le> x \<and> - 18 \<le> binade x"
proof -
  define c where "c = nat (\<lceil>1 / x\<rceil> - 1)"
  have y: "1 < 1 / x" "1 / x \<le> 10 ^ 5" using assms by (simp_all add: field_simps)
  have "1 < \<lceil>1 / x\<rceil>" "\<lceil>1 / x\<rceil> \<le> 10 ^ 5" using y by (simp_all add: less_ceiling_iff ceiling_le_iff)
  then have c: "0 < c" "c < 10 ^ 5" "1 / x \<le> of_nat c + 1" by (auto simp: c_def) linarith+
  have b: "binade x = - int (ilog2 c) - 1" using assms by (simp add: binade_def c_def)
  have "2 ^ ilog2 c \<le> c" using ilog2_bounds[OF c(1)] by simp
  then have "(2::nat) ^ ilog2 c < 2 ^ 17" using c(2) by simp
  then have k: "ilog2 c < 17" by (meson nat_power_less_imp_less zero_less_numeral)
  have "1 / x \<le> 2 ^ Suc (ilog2 c)" using c(3) ilog2_rat_bounds(2)[OF c(1)] by linarith
  then have "1 / 2 ^ Suc (ilog2 c) \<le> x" using assms(1) by (simp add: field_simps)
  moreover have "nat (int (ilog2 c) + 1) = Suc (ilog2 c)" by simp
  ultimately have "pow2 (binade x) \<le> x" unfolding b pow2_def by (simp add: add.commute)
  then show ?thesis using k by (simp add: b)
qed

text \<open>The rounding error of a number in the range of quantities is at most 2 ^ -53 of it.\<close>

lemma round64_error:
  assumes "1 / 10 ^ 5 \<le> x" "x < 2 ^ 1023"
  shows "\<exists>r. round64 x = Fin r \<and> \<bar>r - x\<bar> \<le> x / 2 ^ 53 \<and> 0 < r"
proof -
  define u where "u = ulp_exp x"
  define m where "m = round_half_even (x / pow2 u)"
  have x: "0 < x" by (rule less_le_trans[OF _ assms(1)]) simp
  have b: "pow2 (binade x) \<le> x" "- 18 \<le> binade x" using binade_ge1[of x] binade_lt1[of x] x assms(1) by (cases "1 \<le> x"; simp)+
  have u: "u = binade x - 52" using x b(2) by (simp add: u_def ulp_exp_def)
  have "pow2 (u + int 52) = 2 ^ 52 * pow2 u" by (rule pow2_add_nat)
  then have p: "2 ^ 52 * pow2 u \<le> x" using b by (simp add: u)
  have pu: "0 < pow2 u" by simp
  then have pu0: "pow2 u \<noteq> 0" by (metis order_less_irrefl)
  have "\<bar>of_int m - x / pow2 u\<bar> \<le> 1 / 2" unfolding m_def by (rule round_half_even_bound)
  then have "\<bar>of_int m - x / pow2 u\<bar> * pow2 u \<le> 1 / 2 * pow2 u" using pu by (intro mult_right_mono) (simp_all only: less_imp_le)
  moreover have "(of_int m - x / pow2 u) * pow2 u = of_int m * pow2 u - x" using pu0 by (simp add: left_diff_distrib)
  moreover have "\<bar>of_int m - x / pow2 u\<bar> * pow2 u = \<bar>(of_int m - x / pow2 u) * pow2 u\<bar>" by (simp add: abs_mult abs_of_pos)
  ultimately have "\<bar>of_int m * pow2 u - x\<bar> \<le> pow2 u / 2" by simp
  also have "\<dots> \<le> x / 2 ^ 53" using p by (simp add: field_simps)
  finally have err: "\<bar>of_int m * pow2 u - x\<bar> \<le> x / 2 ^ 53" .
  have small: "x / 2 ^ 53 < x" using x by (simp add: field_simps)
  then have pos: "0 < of_int m * pow2 u" using err by linarith
  have "of_int m * pow2 u < 2 * x" using err small by linarith
  also have "\<dots> < 2 ^ 1024" using assms(2) by simp
  finally have "\<not> 2 ^ 1024 \<le> of_int m * pow2 u" by simp
  then have "round64 x = Fin (of_int m * pow2 u)"
    using x pos by (simp add: round64_def Let_def u_def[symmetric] m_def[symmetric])
  then show ?thesis using err pos by blast
qed

section \<open>The text\<close>

lemma trim_right_split: "\<not> P c \<Longrightarrow> trim_right P (a @ c # b) = a @ c # trim_right P b"
  by (simp add: trim_right_def dropWhile_append3)

lemma trim_right_zeros: "\<exists>k. s = trim_right (\<lambda>c. c = CHR ''0'') s @ replicate k CHR ''0''"
proof (induction s rule: rev_induct)
  case (snoc c s)
  then obtain k where k: "s = trim_right (\<lambda>c. c = CHR ''0'') s @ replicate k CHR ''0''" by blast
  show ?case
  proof (cases "c = CHR ''0''")
    case True
    then have "s @ [c] = trim_right (\<lambda>c. c = CHR ''0'') (s @ [c]) @ replicate (Suc k) CHR ''0''"
      using k by (simp add: trim_right_def replicate_append_same[symmetric])
    then show ?thesis by blast
  qed (simp add: trim_right_def exI[of _ 0])
qed (simp add: trim_right_def)

definition quantity_text :: "nat \<Rightarrow> string" where
  "quantity_text m = (let b = trim_right (\<lambda>c. c = CHR ''0'') (pad_left 5 (show_nat (m mod 10 ^ 5))) in
     if b = [] then show_nat (m div 10 ^ 5) else show_nat (m div 10 ^ 5) @ CHR ''.'' # b)"

lemma trim_right_id: "\<not> P (last s) \<Longrightarrow> s \<noteq> [] \<Longrightarrow> trim_right P s = s"
  by (cases s rule: rev_cases) (simp_all add: trim_right_def)

lemma show_nat_nonempty [simp]: "show_nat n \<noteq> []"
  by (subst show_nat.simps) simp

lemma trimmed_fixed5:
  "trim_right (\<lambda>c. c = CHR ''.'') (trim_right (\<lambda>c. c = CHR ''0'') (fixed5 m)) = quantity_text m"
proof -
  define a b where "a = show_nat (m div 10 ^ 5)" and "b = pad_left 5 (show_nat (m mod 10 ^ 5))"
  define t where "t = trim_right (\<lambda>c. c = CHR ''0'') b"
  have "list_all is_digit b" by (simp add: b_def)
  then have tb: "CHR ''.'' \<notin> set t" using trim_right_zeros[of b] digit_not_point[of b] by (metis UnCI set_append t_def)
  have a: "a \<noteq> []" "CHR ''.'' \<notin> set a" by (simp_all add: a_def digit_not_point)
  have "trim_right (\<lambda>c. c = CHR ''0'') (fixed5 m) = a @ CHR ''.'' # t"
    by (simp add: fixed5_def a_def b_def t_def trim_right_split)
  moreover have "trim_right (\<lambda>c. c = CHR ''.'') (a @ CHR ''.'' # t) = (if t = [] then a else a @ CHR ''.'' # t)"
  proof (cases "t = []")
    case True
    have "last a \<noteq> CHR ''.''" using a by (metis last_in_set)
    then have "trim_right (\<lambda>c. c = CHR ''.'') a = a" using a by (intro trim_right_id) simp_all
    moreover have "trim_right (\<lambda>c. c = CHR ''.'') (a @ [CHR ''.'']) = trim_right (\<lambda>c. c = CHR ''.'') a" by (simp add: trim_right_def)
    ultimately show ?thesis using True by simp
  next
    case False
    then have "last (a @ CHR ''.'' # t) = last t" by simp
    then have "last (a @ CHR ''.'' # t) \<noteq> CHR ''.''" using tb False by (metis last_in_set)
    then have "trim_right (\<lambda>c. c = CHR ''.'') (a @ CHR ''.'' # t) = a @ CHR ''.'' # t" by (intro trim_right_id) simp_all
    then show ?thesis using False by simp
  qed
  ultimately show ?thesis by (simp add: quantity_text_def Let_def a_def b_def t_def)
qed

lemma quantity_text_cut: "\<exists>b f. cut_on CHR ''.'' (quantity_text m) = (show_nat (m div 10 ^ 5), b, f) \<and> length b \<le> 5 \<and>
    list_all is_digit b \<and> of_nat (digits_val b) / 10 ^ length b = (of_nat (m mod 10 ^ 5) / 10 ^ 5 :: rat)"
proof -
  define b where "b = pad_left 5 (show_nat (m mod 10 ^ 5))"
  define t where "t = trim_right (\<lambda>c. c = CHR ''0'') b"
  obtain k where k: "b = t @ replicate k CHR ''0''" using trim_right_zeros[of b] t_def by blast
  have lb: "length b = 5" using length_frac5[of m] by (simp add: b_def)
  have v: "digits_val b = m mod 10 ^ 5" by (simp add: b_def)
  have "digits_val b = digits_val t * 10 ^ k" unfolding k digits_val_append by (simp add: digits_val_zeros)
  then have m: "m mod 10 ^ 5 = digits_val t * 10 ^ k" using v by simp
  have l: "length t + k = 5" using k lb by (metis length_append length_replicate)
  have "(10::rat) ^ 5 = 10 ^ length t * 10 ^ k" using l by (metis power_add)
  moreover have "(of_nat (m mod 10 ^ 5) :: rat) = of_nat (digits_val t) * 10 ^ k" unfolding m by simp
  moreover have "of_nat (digits_val t) / 10 ^ length t = (of_nat (digits_val t) * 10 ^ k / (10 ^ length t * 10 ^ k) :: rat)" by simp
  ultimately have val: "of_nat (digits_val t) / 10 ^ length t = (of_nat (m mod 10 ^ 5) / 10 ^ 5 :: rat)" by (simp only:)
  have "list_all is_digit b" by (simp add: b_def)
  then have d: "list_all is_digit t" using k by (metis list_all_append)
  show ?thesis
  proof (cases "t = []")
    case True
    then have "quantity_text m = show_nat (m div 10 ^ 5)" by (simp add: quantity_text_def Let_def b_def t_def)
    then show ?thesis using val True by (simp only:) (auto simp: cut_on_none digit_not_point digits_val_def)
  next
    case False
    then have "quantity_text m = show_nat (m div 10 ^ 5) @ CHR ''.'' # t" by (simp add: quantity_text_def Let_def b_def t_def)
    then show ?thesis using val d l by (simp only:) (auto simp: cut_on_append digit_not_point)
  qed
qed

lemma dec_val_quantity_text: "dec_val (quantity_text m) = of_nat m / 10 ^ 5"
proof -
  define a r where "a = m div 10 ^ 5" and "r = m mod 10 ^ 5"
  obtain b f where b: "cut_on CHR ''.'' (quantity_text m) = (show_nat a, b, f)"
      "of_nat (digits_val b) / 10 ^ length b = (of_nat r / 10 ^ 5 :: rat)"
    using quantity_text_cut[of m] unfolding a_def r_def by blast
  have "m = a * 10 ^ 5 + r" by (simp only: a_def r_def div_mult_mod_eq)
  then have "of_nat m = (of_nat a * 10 ^ 5 + of_nat r :: rat)" by (metis of_nat_add of_nat_mult of_nat_numeral of_nat_power)
  then show ?thesis by (simp add: dec_val_def b add_divide_distrib)
qed

lemma is_decimal_quantity_text: "is_decimal (quantity_text m)"
  using quantity_text_cut[of m] by (auto simp: is_decimal_def)

section \<open>What normalizedStockDecimal returns\<close>

lemma ParseFloat_decimal:
  assumes "is_decimal s" "dec_val s = x" "hd s \<noteq> CHR ''-''"
  shows "ParseFloat s = (if is_Inf (round64 x) then None else Some (round64 x))"
  using assms by (auto simp: ParseFloat_def Let_def split: list.splits)

lemma hd_show_nat: "hd (show_nat n) \<noteq> CHR ''-''"
proof -
  have "is_digit (hd (show_nat n))" using digits_show_nat[of n] by (metis hd_in_set list_all_iff show_nat_nonempty)
  then show ?thesis by (auto simp: is_digit_def)
qed

lemma hd_quantity_text: "hd (quantity_text m) \<noteq> CHR ''-''"
  using hd_show_nat by (simp add: quantity_text_def Let_def)

lemma hd_fixed5: "hd (fixed5 m) \<noteq> CHR ''-''"
  using hd_show_nat by (simp add: fixed5_def)

lemma quantity_text_nonempty: "quantity_text m \<noteq> []"
  by (simp add: quantity_text_def Let_def)

lemma ParseFloat_texts: "ParseFloat (fixed5 m) = ParseFloat (quantity_text m)"
  using ParseFloat_decimal[OF is_decimal_fixed5 dec_val_fixed5 hd_fixed5]
    ParseFloat_decimal[OF is_decimal_quantity_text dec_val_quantity_text hd_quantity_text] by simp

text \<open>The shape of a successful answer for a quantity that is not negative.\<close>

lemma normalized_cases:
  assumes "normalizedStockDecimal (Fin v) z = Some (s, n)" "m = scaled5 v"
  shows "0 \<le> v \<and> (z \<or> v \<noteq> 0) \<and> s = quantity_text m \<and> ParseFloat s = Some n \<and> n = round64 (of_nat m / 10 ^ 5) \<and>
    m < 10 ^ 15 \<and> (z \<or> \<not> f_eq n (Fin 0)) \<and> \<not> f_lt nano (f_abs (f_sub n (Fin v)))"
proof -
  have v: "0 \<le> v" "z \<or> v \<noteq> 0" using assms(1)
    by (auto simp: normalizedStockDecimal_def f_lt_def f_eq_def split: if_splits)
  have fmt: "FormatFloat5 (Fin v) = fixed5 m" using v assms(2) by simp
  obtain b f where b: "cut_on CHR ''.'' (quantity_text m) = (show_nat (m div 10 ^ 5), b, f)" using quantity_text_cut[of m] by blast
  have r: "ParseFloat (fixed5 m) = Some n \<and> s = quantity_text m \<and> length (show_nat (m div 10 ^ 5)) \<le> 10 \<and>
      (z \<or> \<not> f_eq n (Fin 0)) \<and> \<not> f_lt nano (f_abs (f_sub n (Fin v)))"
    using assms(1) unfolding normalizedStockDecimal_def Let_def fmt trimmed_fixed5
    by (simp add: b quantity_text_nonempty split: if_splits option.splits)
  have p: "ParseFloat (fixed5 m) = (if is_Inf (round64 (of_nat m / 10 ^ 5)) then None else Some (round64 (of_nat m / 10 ^ 5)))"
    by (rule ParseFloat_decimal[OF is_decimal_fixed5 dec_val_fixed5 hd_fixed5])
  have "m div 10 ^ 5 < 10 ^ 10" using r show_nat_width[of 10 "m div 10 ^ 5"] by simp
  then have "m < 10 ^ 15" by (simp add: div_less_iff_less_mult)
  then show ?thesis using v r p ParseFloat_texts by (auto split: if_splits)
qed

lemma normalized_finite: "normalizedStockDecimal q z = Some (s, n) \<Longrightarrow> q = NegZero \<or> (\<exists>v. q = Fin v)"
  by (cases q) (auto simp: normalizedStockDecimal_def f_lt_def split: if_splits)

lemma scaled5_error:
  assumes "0 \<le> v" shows "\<bar>of_nat (scaled5 v) / 10 ^ 5 - v\<bar> \<le> 1 / (2 * 10 ^ 5)"
proof -
  have "0 \<le> round_half_even (v * 10 ^ 5)" using assms by (intro round_half_even_nonneg) simp
  then have "(of_nat (scaled5 v) :: rat) = of_int (round_half_even (v * 10 ^ 5))" by (simp add: scaled5_def)
  then show ?thesis using round_half_even_bound[of "v * 10 ^ 5"] by (simp add: abs_le_iff field_simps)
qed

lemma round_half_even_unique: "\<bar>x - of_int k\<bar> < 1 / 2 \<Longrightarrow> round_half_even x = k"
proof -
  assume a: "\<bar>x - of_int k\<bar> < 1 / 2"
  show ?thesis
  proof (cases "of_int k \<le> x")
    case True
    then have "\<lfloor>x\<rfloor> = k" using a by (simp add: floor_unique)
    then show ?thesis using a True by (simp add: round_half_even_def)
  next
    case False
    then have "\<lfloor>x\<rfloor> = k - 1" using a by (simp add: floor_eq_iff abs_less_iff)
    then show ?thesis using a False by (simp add: round_half_even_def)
  qed
qed

lemma abs_diff_scale: "0 \<le> c \<Longrightarrow> \<bar>a * c - b * c\<bar> = \<bar>a - b\<bar> * c" for c :: rat
  by (metis abs_mult abs_of_nonneg left_diff_distrib)

text \<open>Rounding m / 10 ^ 5 to a double and formatting it again gives m back.\<close>

lemma scaled5_round64:
  assumes "0 < m" "m < 10 ^ 15"
  shows "\<exists>r. round64 (of_nat m / 10 ^ 5) = Fin r \<and> 0 < r \<and> scaled5 r = m"
proof -
  define x :: rat where "x = of_nat m / 10 ^ 5"
  have m: "(1::rat) \<le> of_nat m" "(of_nat m :: rat) < 10 ^ 15" using assms by (simp, metis of_nat_less_iff of_nat_numeral of_nat_power)
  have "1 / 10 ^ 5 \<le> x" "x < 10 ^ 10" using m by (simp_all add: x_def field_simps)
  moreover have "(10::rat) ^ 10 < 2 ^ 1023" by simp
  ultimately obtain r where r: "round64 x = Fin r" "\<bar>r - x\<bar> \<le> x / 2 ^ 53" "0 < r" using round64_error[of x] by (metis less_trans)
  have "x / 2 ^ 53 * 10 ^ 5 < 1 / 2" using \<open>x < 10 ^ 10\<close> by (simp add: field_simps)
  moreover have "\<bar>r * 10 ^ 5 - x * 10 ^ 5\<bar> = \<bar>r - x\<bar> * 10 ^ 5"
    using abs_diff_scale[of "10 ^ 5" r x] by simp
  moreover have "x * 10 ^ 5 = of_int (int m)" by (simp add: x_def)
  ultimately have "\<bar>r * 10 ^ 5 - of_int (int m)\<bar> < 1 / 2" using r(2) by (simp add: abs_le_iff)
  then have "round_half_even (r * 10 ^ 5) = int m" by (rule round_half_even_unique)
  then show ?thesis using r by (auto simp: x_def scaled5_def)
qed

section \<open>Properties\<close>

lemma nano_not_less_zero: "\<not> f_lt nano (f_abs (f_sub (Fin r) (Fin r)))"
proof -
  have s: "f_sub (Fin r) (Fin r) = Fin 0" by (cases "r = 0") (simp_all add: f_sub_def round64_def)
  have "fval (round64 (1 / 10 ^ 9)) \<ge> 0 \<or> \<not> f_class (round64 (1 / 10 ^ 9)) = 0"
    using round_half_even_nonneg[of "1 / 10 ^ 9 / pow2 (ulp_exp (1 / 10 ^ 9))"] less_imp_le[OF pow2_pos[of "ulp_exp (1 / 10 ^ 9)"]]
    by (simp add: round64_def Let_def)
  moreover have "0 \<le> f_class (round64 (1 / 10 ^ 9))" by (simp add: round64_def Let_def)
  ultimately show ?thesis unfolding s by (auto simp: f_lt_def f_abs_def nano_def)
qed


lemma ilog2_3: "ilog2 3 = 1"
  by (simp add: ilog2.simps)

lemma round64_3: "round64 3 = Fin 3"
  by (simp add: round64_def ulp_exp_def binade_def ilog2_3 pow2_def)

lemma normalized_3: "normalizedStockDecimal (Fin 3) False = Some (''3'', Fin 3)"
proof -
  have d: "digit_char 3 = CHR ''3''" "digit_char 0 = CHR ''0''" by code_simp+
  have r: "replicate 4 c = [c, c, c, c]" for c :: char by (simp add: numeral_eq_Suc)
  have t: "fixed5 300000 = ''3.00000''" by (simp add: fixed5_def pad_left_def show_nat.simps d r)
  have s: "scaled5 3 = 300000" by (simp add: scaled5_def)
  have p: "ParseFloat ''3.00000'' = Some (Fin 3)"
    using ParseFloat_decimal[OF is_decimal_fixed5 dec_val_fixed5 hd_fixed5, of 300000] by (simp add: t round64_3)
  show ?thesis using nano_not_less_zero[of 3]
    by (simp add: normalizedStockDecimal_def f_lt_def f_eq_def s t p Let_def trim_right_def)
qed


end
