(* ===== verification/Stock_Adjust.thy ===== *)
theory Stock_Adjust
  imports Stock_Model
begin

text \<open>
  The stock tools that run through executeStockPlan: adjust_stock_quantity, set_stock_status,
  stocktake_adjustment (stock_adjustment_tools.go), set_stock_delete_on_deplete
  (stock_delete_on_deplete_tools.go), assign_stock_serial and set_stock_serial
  (stock_serial_admin_tools.go). Logging of an unreadable global setting is left out.
\<close>

section \<open>Quantity, status and stocktake\<close>

record adjust_input =
  ai_DryRun :: bool
  ai_Confirm :: bool
  ai_PlanHash :: string
  ai_StockItemID :: int
  ai_Delta :: float64
  ai_Reason :: string

definition stockStatusNames :: "(int \<times> string) list" where
  "stockStatusNames = [(10, ''OK''), (50, ''Attention needed''), (55, ''Damaged''), (60, ''Destroyed''), (65, ''Rejected''),
     (70, ''Lost''), (75, ''Quarantined''), (85, ''Returned'')]"

definition highRiskStockStatus :: "int \<Rightarrow> bool" where
  "highRiskStockStatus status = (status = 60 \<or> status = 65 \<or> status = 70)"

definition adjustStockQuantity :: "'w stock_env \<Rightarrow> adjust_input \<Rightarrow> 'w stock_state \<Rightarrow> (go_error + stock_output) \<times> 'w stock_state" where
  "adjustStockQuantity env inp st =
    (case prepareStockAdjustment env (ai_DryRun inp) (ai_StockItemID inp) (ai_Reason inp) st of
       (Inl r, st1) \<Rightarrow> (r, st1)
     | (Inr item, st1) \<Rightarrow> (let out = new_output (ai_DryRun inp) in
       if stockItemHasSerial item then (Inr (clarify out ''delta'' ''stock_item_id''), st1)
       else (case normalizedStockDecimal (f_abs (ai_Delta inp)) False of
         None \<Rightarrow> (Inr (clarify out ''delta'' ''delta''), st1)
       | Some (delta, normalizedDelta) \<Rightarrow> (case normalizedStockDecimal (si_Quantity item) True of
           None \<Rightarrow> (Inl (OtherError ''InvenTree returned stock quantity outside schema bounds''), st1)
         | Some (_, normalizedBefore) \<Rightarrow>
           (let before = item\<lparr>si_Quantity := normalizedBefore\<rparr> in
            case normalizedStockDecimal (f_add normalizedBefore (copysign normalizedDelta (ai_Delta inp))) True of
              None \<Rightarrow> (Inr (clarify out ''delta'' ''delta''), st1)
            | Some (_, afterQuantity) \<Rightarrow>
              if f_eq afterQuantity (Fin 0) \<and> si_DeleteOnDeplete before then (Inr (clarify out ''delta'' ''delta''), st1)
              else (let after = (snapshotStockItem before)\<lparr>sn_Quantity := afterQuantity\<rparr>;
                        highRisk = f_lt (ai_Delta inp) (Fin 0);
                        plan = (new_plan ''adjust_stock_quantity'' (snapshotStockItem before) after (trim_space (ai_Reason inp)))
                          \<lparr>sp_HighRisk := highRisk, sp_RiskReason := (if highRisk then ''quantity decrease removes stock'' else '''')\<rparr>;
                        adjustment = \<lparr>sa_Items = [(ai_StockItemID inp, delta)], sa_Notes = sp_Reason plan\<rparr>
                in executeStockPlan env (ai_DryRun inp) (ai_Confirm inp) (ai_PlanHash inp) plan
                     (if f_lt (Fin 0) (ai_Delta inp) then AddStock adjustment else RemoveStock adjustment) st1))))))"

record status_input =
  ti_DryRun :: bool
  ti_Confirm :: bool
  ti_PlanHash :: string
  ti_StockItemID :: int
  ti_Status :: int
  ti_Reason :: string

definition setStockStatus :: "'w stock_env \<Rightarrow> status_input \<Rightarrow> 'w stock_state \<Rightarrow> (go_error + stock_output) \<times> 'w stock_state" where
  "setStockStatus env inp st =
    (case prepareStockAdjustment env (ti_DryRun inp) (ti_StockItemID inp) (ti_Reason inp) st of
       (Inl r, st1) \<Rightarrow> (r, st1)
     | (Inr before, st1) \<Rightarrow> (let out = new_output (ti_DryRun inp) in
       case map_of stockStatusNames (ti_Status inp) of
         None \<Rightarrow> (Inr (clarify out ''status'' ''status''), st1)
       | Some statusName \<Rightarrow>
         if ti_Status inp = si_Status before then (Inr (clarify out ''status'' ''status''), st1)
         else (let after = (snapshotStockItem before)\<lparr>sn_Status := ti_Status inp\<rparr>;
                   highRisk = highRiskStockStatus (ti_Status inp);
                   plan = (new_plan ''set_stock_status'' (snapshotStockItem before) after (trim_space (ti_Reason inp)))
                     \<lparr>sp_HighRisk := highRisk,
                       sp_RiskReason := (if highRisk then ''status transition to '' @ statusName @ '' is a write-off state'' else '''')\<rparr>
           in executeStockPlan env (ti_DryRun inp) (ti_Confirm inp) (ti_PlanHash inp) plan
                (ChangeStockStatus [ti_StockItemID inp] (ti_Status inp) (sp_Reason plan)) st1)))"

record count_input =
  ci_DryRun :: bool
  ci_Confirm :: bool
  ci_PlanHash :: string
  ci_StockItemID :: int
  ci_ObservedQuantity :: float64
  ci_Reason :: string

definition stocktakeAdjustment :: "'w stock_env \<Rightarrow> count_input \<Rightarrow> 'w stock_state \<Rightarrow> (go_error + stock_output) \<times> 'w stock_state" where
  "stocktakeAdjustment env inp st =
    (case prepareStockAdjustment env (ci_DryRun inp) (ci_StockItemID inp) (ci_Reason inp) st of
       (Inl r, st1) \<Rightarrow> (r, st1)
     | (Inr item, st1) \<Rightarrow> (let out = new_output (ci_DryRun inp) in
       if stockItemHasSerial item then (Inr (clarify out ''observed_quantity'' ''stock_item_id''), st1)
       else (case normalizedStockDecimal (ci_ObservedQuantity inp) True of
         None \<Rightarrow> (Inr (clarify out ''observed_quantity'' ''observed_quantity''), st1)
       | Some (quantity, normalizedQuantity) \<Rightarrow> (case normalizedStockDecimal (si_Quantity item) True of
           None \<Rightarrow> (Inl (OtherError ''InvenTree returned stock quantity outside schema bounds''), st1)
         | Some (_, normalizedBefore) \<Rightarrow>
           (let before = item\<lparr>si_Quantity := normalizedBefore\<rparr> in
            if f_eq normalizedQuantity (Fin 0) \<and> si_DeleteOnDeplete before
            then (Inr (clarify out ''observed_quantity'' ''observed_quantity''), st1)
            else (let after = (snapshotStockItem before)\<lparr>sn_Quantity := normalizedQuantity\<rparr> in
              if f_lt (f_abs (f_sub (sn_Quantity after) (si_Quantity before))) nano
              then (Inr (clarify out ''observed_quantity'' ''observed_quantity''), st1)
              else (let highRisk = f_lt normalizedQuantity normalizedBefore;
                        plan = (new_plan ''stocktake_adjustment'' (snapshotStockItem before) after (trim_space (ci_Reason inp)))
                          \<lparr>sp_HighRisk := highRisk, sp_RiskReason := (if highRisk then ''observed quantity is lower than recorded quantity'' else '''')\<rparr>
                in executeStockPlan env (ci_DryRun inp) (ci_Confirm inp) (ci_PlanHash inp) plan
                     (CountStock \<lparr>sa_Items = [(ci_StockItemID inp, quantity)], sa_Notes = sp_Reason plan\<rparr>) st1)))))))"

section \<open>Delete-on-deplete policy\<close>

definition stockDepletionContext :: "stock_item \<Rightarrow> depletion_context" where
  "stockDepletionContext item = \<lparr>dc_InStock = si_InStock item, dc_Allocated = si_Allocated item, dc_IsBuilding = si_IsBuilding item,
     dc_BuildID = si_Build item, dc_ConsumedByID = si_ConsumedBy item, dc_BelongsToID = si_BelongsTo item,
     dc_ParentID = si_Parent item, dc_InstalledItems = si_InstalledItems item, dc_ChildItems = si_ChildItems item,
     dc_TrackingItems = si_TrackingItems item, dc_OwnerID = si_Owner item, dc_SupplierPartID = si_SupplierPart item,
     dc_PurchaseOrderID = si_PurchaseOrder item, dc_CustomerID = si_Customer item, dc_SalesOrderID = si_SalesOrder item\<rparr>"

record policy_input =
  pi_DryRun :: bool
  pi_Confirm :: bool
  pi_PlanHash :: string
  pi_StockItemID :: int
  pi_DeleteOnDeplete :: bool
  pi_Reason :: string

definition setStockDeleteOnDeplete :: "'w stock_env \<Rightarrow> policy_input \<Rightarrow> 'w stock_state \<Rightarrow> (go_error + stock_output) \<times> 'w stock_state" where
  "setStockDeleteOnDeplete env inp st =
    (case prepareStockAdjustment env (pi_DryRun inp) (pi_StockItemID inp) (pi_Reason inp) st of
       (Inl r, st1) \<Rightarrow> (r, st1)
     | (Inr before, st1) \<Rightarrow>
       if si_DeleteOnDeplete before = pi_DeleteOnDeplete inp
       then (Inr (clarify (new_output (pi_DryRun inp)) ''delete_on_deplete'' ''delete_on_deplete''), st1)
       else (let after = (snapshotStockItem before)\<lparr>sn_DeleteOnDeplete := pi_DeleteOnDeplete inp\<rparr>;
                 plan0 = (new_plan ''set_stock_delete_on_deplete'' (snapshotStockItem before) after (trim_space (pi_Reason inp)))
                   \<lparr>sp_Depletion := Some (stockDepletionContext before)\<rparr>;
                 plan = (if pi_DeleteOnDeplete inp then plan0\<lparr>sp_HighRisk := True,
                   sp_RiskReason := ''enabling delete_on_deplete authorizes InvenTree to delete this stock-item record at a future depletion''\<rparr>
                   else plan0)
             in executeStockPlan env (pi_DryRun inp) (pi_Confirm inp) (pi_PlanHash inp) plan
                  (UpdateStockItem (pi_StockItemID inp) [(''delete_on_deplete'', PatchBool (pi_DeleteOnDeplete inp))]) st1))"

section \<open>Serial numbers\<close>

definition maxStockSerialLength :: nat where "maxStockSerialLength = 100"
definition DefaultLookupLimit :: int where "DefaultLookupLimit = 20"

fun firstSerialConflict :: "stock_item list \<Rightarrow> int \<Rightarrow> int" where
  "firstSerialConflict [] ex = 0"
| "firstSerialConflict (item # items) ex =
    (if si_PK item = ex then firstSerialConflict items ex
     else if stockItemHasSerial item then si_PK item else firstSerialConflict items ex)"

definition stockSerialGloballyUnique :: "'w stock_env \<Rightarrow> 'w stock_state \<Rightarrow> (go_error + bool) \<times> 'w stock_state" where
  "stockSerialGloballyUnique env st =
    (case fetch (cl_GetGlobalSetting (se_client env) ''SERIAL_NUMBER_GLOBALLY_UNIQUE'') st of
       (Inl e, st1) \<Rightarrow> (if \<not> IsOmittableFetchError e then Inl e else Inr False, st1)
     | (Inr v, st1) \<Rightarrow> (Inr (to_lower (trim_space v) = ''true''), st1))"

text \<open>None lets the handler go on.\<close>

definition stockSerialCollision :: "'w stock_env \<Rightarrow> stock_output \<Rightarrow> int \<Rightarrow> string \<Rightarrow> int \<Rightarrow> 'w stock_state \<Rightarrow>
    (go_error + stock_output) option \<times> 'w stock_state" where
  "stockSerialCollision env out partID serial ex st =
    (case fetch (cl_SearchStockItems (se_client env) \<lparr>sq_PartID = partID, sq_Serial = serial, sq_Limit = DefaultLookupLimit\<rparr>) st of
       (Inl e, st1) \<Rightarrow> (case safe_fail e st1 of (r, st2) \<Rightarrow> (Some r, st2))
     | (Inr partMatches, st1) \<Rightarrow>
       if firstSerialConflict partMatches ex \<noteq> 0 then (Some (Inr (clarify out ''serial'' ''serial'')), st1)
       else (case stockSerialGloballyUnique env st1 of
         (Inl e, st2) \<Rightarrow> (case safe_fail e st2 of (r, st3) \<Rightarrow> (Some r, st3))
       | (Inr globalUnique, st2) \<Rightarrow>
         if \<not> globalUnique then (None, st2)
         else (case fetch (cl_SearchStockItems (se_client env) \<lparr>sq_PartID = 0, sq_Serial = serial, sq_Limit = DefaultLookupLimit\<rparr>) st2 of
           (Inl e, st3) \<Rightarrow> (case safe_fail e st3 of (r, st4) \<Rightarrow> (Some r, st4))
         | (Inr globalMatches, st3) \<Rightarrow>
           if firstSerialConflict globalMatches ex \<noteq> 0 then (Some (Inr (clarify out ''serial'' ''serial'')), st3)
           else (None, st3))))"

text \<open>The field of the clarification; None when the change is safe.\<close>

definition unsafeStockSerialChange :: "stock_item \<Rightarrow> string option" where
  "unsafeStockSerialChange item =
    (if si_Allocated item = None then Some ''allocated''
     else if \<not> f_eq (the (si_Allocated item)) (Fin 0) then Some ''allocated''
     else if si_IsBuilding item then Some ''is_building''
     else if si_ConsumedBy item \<noteq> None then Some ''consumed_by''
     else if si_BelongsTo item \<noteq> None then Some ''belongs_to''
     else if si_Parent item \<noteq> None then Some ''parent''
     else if si_InstalledItems item = None then Some ''installed_items''
     else if the (si_InstalledItems item) \<noteq> 0 then Some ''installed_items''
     else if si_ChildItems item = None then Some ''child_items''
     else if the (si_ChildItems item) \<noteq> 0 then Some ''child_items''
     else if si_Customer item \<noteq> None then Some ''customer''
     else if si_SalesOrder item \<noteq> None then Some ''sales_order''
     else None)"

record assign_serial_input =
  as_DryRun :: bool
  as_Confirm :: bool
  as_PlanHash :: string
  as_StockItemID :: int
  as_Serial :: string
  as_Reason :: string

definition assignStockSerial :: "'w stock_env \<Rightarrow> assign_serial_input \<Rightarrow> 'w stock_state \<Rightarrow> (go_error + stock_output) \<times> 'w stock_state" where
  "assignStockSerial env inp st =
    (case prepareStockAdjustment env (as_DryRun inp) (as_StockItemID inp) (as_Reason inp) st of
       (Inl r, st1) \<Rightarrow> (r, st1)
     | (Inr before, st1) \<Rightarrow> (let out = new_output (as_DryRun inp); serial = trim_space (as_Serial inp) in
       if serial = '''' \<or> length serial > maxStockSerialLength then (Inr (clarify out ''serial'' ''serial''), st1)
       else if stockItemHasSerial before then (Inr (clarify out ''serial'' ''stock_item_id''), st1)
       else if \<not> f_eq (si_Quantity before) (Fin 1) then (Inr (clarify out ''quantity'' ''stock_item_id''), st1)
       else (case fetch (cl_GetPart (se_client env) (si_Part before)) st1 of
         (Inl e, st2) \<Rightarrow> safe_fail e st2
       | (Inr part, st2) \<Rightarrow>
         if pr_PK part \<noteq> si_Part before then (Inl (OtherError ''InvenTree returned a mismatched part identity''), st2)
         else if \<not> pr_Trackable part then (Inr (clarify out ''part_id'' ''stock_item_id''), st2)
         else (case unsafeStockSerialChange before of
           Some subject \<Rightarrow> (Inr (clarify out subject ''stock_item_id''), st2)
         | None \<Rightarrow> (case stockSerialCollision env out (si_Part before) serial 0 st2 of
             (Some r, st3) \<Rightarrow> (r, st3)
           | (None, st3) \<Rightarrow>
             (let after = (snapshotStockItem before)\<lparr>sn_Serial := Some serial\<rparr>;
                  plan = new_plan ''assign_stock_serial'' (snapshotStockItem before) after (trim_space (as_Reason inp))
              in executeStockPlan env (as_DryRun inp) (as_Confirm inp) (as_PlanHash inp) plan
                   (UpdateStockItem (as_StockItemID inp) [(''serial'', PatchStr serial)]) st3))))))"

record set_serial_input =
  sr_DryRun :: bool
  sr_Confirm :: bool
  sr_PlanHash :: string
  sr_StockItemID :: int
  sr_Serial :: string
  sr_ClearSerial :: bool
  sr_Reason :: string

definition set_serial_plan :: "set_serial_input \<Rightarrow> stock_item \<Rightarrow> stock_plan" where
  "set_serial_plan inp before = (new_plan ''set_stock_serial'' (snapshotStockItem before)
     ((snapshotStockItem before)\<lparr>sn_Serial := (if sr_ClearSerial inp then None else Some (trim_space (sr_Serial inp)))\<rparr>)
     (trim_space (sr_Reason inp)))
     \<lparr>sp_HighRisk := True, sp_RiskReason := ''changing an assigned serial number rewrites stock identity and downstream audit context''\<rparr>"

definition setStockSerial :: "'w stock_env \<Rightarrow> set_serial_input \<Rightarrow> 'w stock_state \<Rightarrow> (go_error + stock_output) \<times> 'w stock_state" where
  "setStockSerial env inp st =
    (case prepareStockAdjustment env (sr_DryRun inp) (sr_StockItemID inp) (sr_Reason inp) st of
       (Inl r, st1) \<Rightarrow> (r, st1)
     | (Inr before, st1) \<Rightarrow> (let out = new_output (sr_DryRun inp); serial = trim_space (sr_Serial inp) in
       if sr_ClearSerial inp = (serial \<noteq> '''') then (Inr (clarify out ''serial'' ''serial''), st1)
       else if \<not> sr_ClearSerial inp \<and> length serial > maxStockSerialLength then (Inr (clarify out ''serial'' ''serial''), st1)
       else if \<not> stockItemHasSerial before then (Inr (clarify out ''serial'' ''stock_item_id''), st1)
       else if \<not> sr_ClearSerial inp \<and> si_Serial before = Some serial then (Inr (clarify out ''serial'' ''serial''), st1)
       else (case unsafeStockSerialChange before of
         Some subject \<Rightarrow> (Inr (clarify out subject ''stock_item_id''), st1)
       | None \<Rightarrow>
         (case (if sr_ClearSerial inp then (None, st1) else stockSerialCollision env out (si_Part before) serial (si_PK before) st1) of
           (Some r, st2) \<Rightarrow> (r, st2)
         | (None, st2) \<Rightarrow>
           executeStockPlan env (sr_DryRun inp) (sr_Confirm inp) (sr_PlanHash inp) (set_serial_plan inp before)
             (UpdateStockItem (sr_StockItemID inp) [(''serial'', if sr_ClearSerial inp then PatchNull else PatchStr serial)]) st2))))"

end
