(* ===== verification/Stock_Move.thy ===== *)
theory Stock_Move
  imports Stock_Adjust
begin

text \<open>
  Depletion of a stock item (stock_depletion_tools.go), its transfer, complete or partial
  (stock_transfer_tools.go), and installing it into another item or taking it out again
  (stock_install_tools.go): checks, plan, gate, the single request, and the verification that reads
  the result back.
\<close>

text \<open>How a mutation's error decides what follows: a cancelled call returns, a definite rejection returns
  sanitised, anything else is verified as a possible success (\<open>recovered\<close>).\<close>

datatype after_write = Return go_error | Reject go_error | Verify bool

definition judge_write :: "go_error option \<Rightarrow> after_write" where
  "judge_write r = (case r of None \<Rightarrow> Verify False
     | Some Canceled \<Rightarrow> Return Canceled
     | Some DeadlineExceeded \<Rightarrow> Return DeadlineExceeded
     | Some e \<Rightarrow> if definitely_rejected e then Reject e else Verify True)"

definition is_context_error :: "go_error \<Rightarrow> bool" where
  "is_context_error e = (e = Canceled \<or> e = DeadlineExceeded)"

text \<open>stockDepletionPartial, stockTransferPartial and stockInstallPartial.\<close>

definition partial_output :: "string \<Rightarrow> stock_output \<Rightarrow> stock_item option \<Rightarrow> stock_output" where
  "partial_output action out rec = out\<lparr>so_Status := st_partial, so_Record := map_option stockItemRecoveryProjection rec,
     so_Failure := Some action\<rparr>"

section \<open>Depletion\<close>

record deplete_input =
  di_DryRun :: bool
  di_Confirm :: bool
  di_PlanHash :: string
  di_StockItemID :: int
  di_Reason :: string

definition unsafeStockDepletion :: "stock_item \<Rightarrow> string option" where
  "unsafeStockDepletion item =
    (if stockItemHasSerial item then Some ''serial''
     else if \<not> si_DeleteOnDeplete item then Some ''delete_on_deplete''
     else if \<not> si_InStock item then Some ''in_stock''
     else if si_Allocated item = None then Some ''allocated''
     else if \<not> f_eq (the (si_Allocated item)) (Fin 0) then Some ''allocated''
     else if si_IsBuilding item then Some ''is_building''
     else if si_ConsumedBy item \<noteq> None then Some ''consumed_by''
     else if si_BelongsTo item \<noteq> None then Some ''belongs_to''
     else if si_Parent item \<noteq> None then Some ''parent''
     else if si_InstalledItems item = None then Some ''installed_items''
     else if the (si_InstalledItems item) \<noteq> 0 then Some ''installed_items''
     else if si_ChildItems item = None then Some ''child_items''
     else if the (si_ChildItems item) \<noteq> 0 then Some ''child_items''
     else None)"

definition verifyStockDepletion :: "'w stock_env \<Rightarrow> stock_plan \<Rightarrow> stock_output \<Rightarrow> bool \<Rightarrow> 'w stock_state \<Rightarrow>
    (go_error + stock_output) \<times> 'w stock_state" where
  "verifyStockDepletion env plan out recovered st =
    (case fetch (cl_GetStockItem (se_client env) (sn_StockItemID (sp_Before plan))) st of
       (Inl e, st1) \<Rightarrow>
         (if isNotFound e then Inr (out\<lparr>so_Verified := True, so_Recovered := recovered\<rparr>)
          else if is_context_error e then Inl e
          else Inr (partial_output ''deplete_stock_item'' out None), st1)
     | (Inr current, st1) \<Rightarrow> (Inr (partial_output ''deplete_stock_item'' out (Some (sanitizedStockItem env current))), st1))"

definition executeStockDepletion :: "'w stock_env \<Rightarrow> deplete_input \<Rightarrow> stock_plan \<Rightarrow> string \<Rightarrow> 'w stock_state \<Rightarrow>
    (go_error + stock_output) \<times> 'w stock_state" where
  "executeStockDepletion env inp plan quantity st =
    (let out = (new_output (di_DryRun inp))\<lparr>so_Plan := Some plan\<rparr> in
     case stockInstallIssueOrConfirm env (di_DryRun inp) (di_Confirm inp) (di_PlanHash inp) plan st of
       (Done r, st1) \<Rightarrow> (r, st1)
     | (Confirmed, st1) \<Rightarrow>
       (case send env (RemoveStock \<lparr>sa_Items = [(di_StockItemID inp, quantity)], sa_Notes = sp_Reason plan\<rparr>) st1 of
         (r, st2) \<Rightarrow> (case judge_write r of
           Return e \<Rightarrow> (Inl e, st2)
         | Reject e \<Rightarrow> safe_fail e st2
         | Verify recovered \<Rightarrow> verifyStockDepletion env plan out recovered st2)))"

definition depletion_plan :: "deplete_input \<Rightarrow> stock_item \<Rightarrow> stock_plan" where
  "depletion_plan inp before = (new_plan ''deplete_stock_item'' (snapshotStockItem before)
     ((snapshotStockItem before)\<lparr>sn_Quantity := Fin 0\<rparr>) (trim_space (di_Reason inp)))
     \<lparr>sp_HighRisk := True, sp_RiskReason := ''complete depletion will delete the stock-item record'', sp_WillDelete := True,
      sp_Depletion := Some (stockDepletionContext before)\<rparr>"

definition depleteStockItem :: "'w stock_env \<Rightarrow> deplete_input \<Rightarrow> 'w stock_state \<Rightarrow> (go_error + stock_output) \<times> 'w stock_state" where
  "depleteStockItem env inp st =
    (let out = new_output (di_DryRun inp) in
     if di_StockItemID inp \<le> 0 then (Inr (clarify out ''stock_item'' ''stock_item_id''), st)
     else if trim_space (di_Reason inp) = '''' then (Inr (clarify out ''reason'' ''reason''), st)
     else (case fetch (cl_GetStockItem (se_client env) (di_StockItemID inp)) st of
       (Inl e, st1) \<Rightarrow> if isNotFound e then (Inr (out\<lparr>so_Status := st_not_found\<rparr>), st1) else safe_fail e st1
     | (Inr item, st1) \<Rightarrow>
       if si_PK item \<noteq> di_StockItemID inp then (Inl (OtherError ''InvenTree returned a mismatched stock-item identity''), st1)
       else (case normalizedStockDecimal (si_Quantity item) False of
         None \<Rightarrow> (Inr (clarify out ''quantity'' ''stock_item_id''), st1)
       | Some (quantity, normalizedQuantity) \<Rightarrow>
         (let before = item\<lparr>si_Quantity := normalizedQuantity\<rparr> in
          case unsafeStockDepletion before of
            Some subject \<Rightarrow> (Inr (clarify out subject ''stock_item_id''), st1)
          | None \<Rightarrow> executeStockDepletion env inp (depletion_plan inp before) quantity st1))))"

section \<open>Transfer\<close>

record transfer_input =
  tr_DryRun :: bool
  tr_Confirm :: bool
  tr_PlanHash :: string
  tr_StockItemID :: int
  tr_DestinationLocationID :: int
  tr_Quantity :: "float64 option"
  tr_Reason :: string

definition stockTransferUnsafeCheck :: "stock_item \<Rightarrow> string option" where
  "stockTransferUnsafeCheck item =
    (if si_Location item = None then Some ''location''
     else if stockItemHasSerial item then Some ''serial''
     else if \<not> si_InStock item then Some ''in_stock''
     else if si_Allocated item = None then Some ''allocated''
     else if \<not> f_eq (the (si_Allocated item)) (Fin 0) then Some ''allocated''
     else if si_IsBuilding item then Some ''is_building''
     else if si_Build item \<noteq> None then Some ''build''
     else if si_ConsumedBy item \<noteq> None then Some ''consumed_by''
     else if si_BelongsTo item \<noteq> None then Some ''belongs_to''
     else if si_Parent item \<noteq> None then Some ''parent''
     else if si_InstalledItems item = None then Some ''installed_items''
     else if the (si_InstalledItems item) \<noteq> 0 then Some ''installed_items''
     else if si_ChildItems item = None then Some ''child_items''
     else if the (si_ChildItems item) \<noteq> 0 then Some ''child_items''
     else if si_Customer item \<noteq> None then Some ''customer''
     else if si_SalesOrder item \<noteq> None then Some ''sales_order''
     else None)"

definition stockTransferProvenance :: "stock_item \<Rightarrow> transfer_provenance" where
  "stockTransferProvenance item = \<lparr>tp_PartID = si_Part item, tp_Status = si_Status item, tp_StatusCustomKey = si_StatusCustomKey item,
     tp_Batch = si_Batch item, tp_ExpiryDate = si_ExpiryDate item, tp_Packaging = si_Packaging item,
     tp_DeleteOnDeplete = si_DeleteOnDeplete item, tp_OwnerID = si_Owner item, tp_SupplierPartID = si_SupplierPart item,
     tp_PurchaseOrderID = si_PurchaseOrder item, tp_PurchasePrice = si_PurchasePrice item,
     tp_PurchasePriceCurrency = si_PurchasePriceCurrency item, tp_CreationDate = si_CreationDate item\<rparr>"

definition stockTransferProjectionEqualWithCreationDate :: "'w stock_env \<Rightarrow> stock_item \<Rightarrow> transfer_provenance \<Rightarrow> transfer_safety \<Rightarrow>
    bool \<Rightarrow> bool" where
  "stockTransferProjectionEqualWithCreationDate env item prov safety includeCreationDate =
    (let cut = (\<lambda>p. if includeCreationDate then p else p\<lparr>tp_CreationDate := None\<rparr>) in
     se_marshal env (cut (stockTransferProvenance item), stockTransferSafety item) = se_marshal env (cut prov, safety))"

text \<open>A record, other than the source, that already looks like the destination of the split.\<close>

definition split_candidate :: "'w stock_env \<Rightarrow> int \<Rightarrow> int \<Rightarrow> float64 \<Rightarrow> transfer_provenance \<Rightarrow> transfer_safety \<Rightarrow> stock_item \<Rightarrow> bool" where
  "split_candidate env sourceID destinationID quantity prov safety item =
    (si_PK item \<noteq> sourceID \<and> si_Location item = Some destinationID \<and>
     f_le (f_abs (f_sub (si_Quantity item) quantity)) nano \<and>
     stockTransferProjectionEqualWithCreationDate env item prov safety False)"

definition preexistingDestinations :: "'w stock_env \<Rightarrow> stock_item \<Rightarrow> int \<Rightarrow> float64 \<Rightarrow> stock_item list \<Rightarrow> int list" where
  "preexistingDestinations env before destinationID requested results =
    map si_PK (filter (split_candidate env (si_PK before) destinationID requested (stockTransferProvenance before)
      (stockTransferSafety before)) results)"

text \<open>The loop of verifyPartialStockTransfer. Its quantity test is the code's > 1e-9, so a result whose
  distance is NaN is not left out by it.\<close>

definition split_matches :: "'w stock_env \<Rightarrow> stock_plan \<Rightarrow> transfer_context \<Rightarrow> float64 \<Rightarrow> stock_item list \<Rightarrow> stock_item list" where
  "split_matches env plan t destinationQuantity results = filter (\<lambda>item.
     \<not> (si_PK item = sn_StockItemID (sp_Before plan) \<or> si_Location item \<noteq> Some (tl_ID (tc_Destination t)) \<or>
        f_lt nano (f_abs (f_sub (si_Quantity item) destinationQuantity))) \<and>
     si_PK item \<notin> set (tc_PreexistingDestinationStockItemIDs t) \<and>
     stockTransferProjectionEqualWithCreationDate env item (tc_Provenance t) (tc_Safety t) False) results"

definition verifyPartialStockTransfer :: "'w stock_env \<Rightarrow> stock_plan \<Rightarrow> transfer_context \<Rightarrow> stock_output \<Rightarrow> bool \<Rightarrow> 'w stock_state \<Rightarrow>
    (go_error + stock_output) \<times> 'w stock_state" where
  "verifyPartialStockTransfer env plan t out recovered st =
    (case fetch (cl_GetStockItem (se_client env) (sn_StockItemID (sp_Before plan))) st of
       (Inl e, st1) \<Rightarrow> (if is_context_error e then Inl e else Inr (partial_output ''transfer_stock_item'' out None), st1)
     | (Inr current, st1) \<Rightarrow>
       (let safe = sanitizedStockItem env current; out1 = out\<lparr>so_Record := Some safe\<rparr>;
            failed = Inr (partial_output ''transfer_stock_item'' out1 (Some safe)) in
        if si_PK current \<noteq> sn_StockItemID (sp_Before plan) \<or> tc_SourceRemainder t = None \<or>
           f_lt nano (f_abs (f_sub (si_Quantity current) (the (tc_SourceRemainder t)))) \<or>
           si_Location current \<noteq> sn_LocationID (sp_Before plan) \<or>
           \<not> stockTransferProjectionEqualWithCreationDate env current (tc_Provenance t) (tc_Safety t) True
        then (failed, st1)
        else (case tc_DestinationQuantity t of None \<Rightarrow> (failed, st1)
        | Some dq \<Rightarrow>
          (case fetch (cl_SearchStockItemsPage (se_client env)
              \<lparr>sq_PartID = sn_PartID (sp_Before plan), sq_Serial = '''', sq_Limit = 1000\<rparr>) st1 of
            (Inl e, st2) \<Rightarrow> (failed, st2)
          | (Inr (results, hasMore), st2) \<Rightarrow>
            if hasMore then (failed, st2)
            else (case split_matches env plan t dq results of
              [m] \<Rightarrow> (let destination = sanitizedStockItem env m in
                (Inr (out1\<lparr>so_SplitRecord := Some destination,
                   so_Plan := Some (plan\<lparr>sp_Transfer := Some (t\<lparr>tc_DestinationStockItemID := Some (si_PK destination)\<rparr>)\<rparr>),
                   so_Verified := True, so_Recovered := recovered\<rparr>), st2))
            | _ \<Rightarrow> (failed, st2))))))"

definition verifyStockTransfer :: "'w stock_env \<Rightarrow> stock_plan \<Rightarrow> transfer_context \<Rightarrow> stock_output \<Rightarrow> bool \<Rightarrow> 'w stock_state \<Rightarrow>
    (go_error + stock_output) \<times> 'w stock_state" where
  "verifyStockTransfer env plan t out recovered st =
    (if tc_WillSplit t then verifyPartialStockTransfer env plan t out recovered st
     else (case fetch (cl_GetStockItem (se_client env) (sn_StockItemID (sp_Before plan))) st of
       (Inl e, st1) \<Rightarrow> (if is_context_error e then Inl e else Inr (partial_output ''transfer_stock_item'' out None), st1)
     | (Inr current, st1) \<Rightarrow>
       (let safe = sanitizedStockItem env current; out1 = out\<lparr>so_Record := Some safe\<rparr> in
        (Inr (case normalizedStockDecimal (si_Quantity current) False of
           None \<Rightarrow> partial_output ''transfer_stock_item'' out1 (Some safe)
         | Some (_, normalizedQuantity) \<Rightarrow>
           if si_PK current = sn_StockItemID (sp_Before plan) \<and>
              f_lt (f_abs (f_sub normalizedQuantity (sn_Quantity (sp_After plan)))) nano \<and>
              si_Location current = sn_LocationID (sp_After plan) \<and>
              stockTransferProjectionEqualWithCreationDate env current (tc_Provenance t) (tc_Safety t) True
           then out1\<lparr>so_Verified := True, so_Recovered := recovered\<rparr>
           else partial_output ''transfer_stock_item'' out1 (Some safe)), st1))))"

definition executeStockTransfer :: "'w stock_env \<Rightarrow> transfer_input \<Rightarrow> stock_plan \<Rightarrow> transfer_context \<Rightarrow> string \<Rightarrow> 'w stock_state \<Rightarrow>
    (go_error + stock_output) \<times> 'w stock_state" where
  "executeStockTransfer env inp plan t quantity st =
    (let out = (new_output (tr_DryRun inp))\<lparr>so_Plan := Some plan\<rparr> in
     case stockInstallIssueOrConfirm env (tr_DryRun inp) (tr_Confirm inp) (tr_PlanHash inp) plan st of
       (Done r, st1) \<Rightarrow> (r, st1)
     | (Confirmed, st1) \<Rightarrow>
       (case send env (TransferStock [(tr_StockItemID inp, quantity)] (sp_Reason plan) (tr_DestinationLocationID inp)) st1 of
         (r, st2) \<Rightarrow> (case judge_write r of
           Return e \<Rightarrow> (Inl e, st2)
         | Reject e \<Rightarrow> safe_fail e st2
         | Verify recovered \<Rightarrow> verifyStockTransfer env plan t out recovered st2)))"

text \<open>The split part of transferStockItem: what a partial quantity means, or a clarification's field and retry.\<close>

record split_choice =
  sc_Quantity :: float64
  sc_Text :: string
  sc_Remainder :: "float64 option"
  sc_Existing :: "int list"

definition chooseSplit :: "'w stock_env \<Rightarrow> transfer_input \<Rightarrow> stock_item \<Rightarrow> int \<Rightarrow> string \<Rightarrow> 'w stock_state \<Rightarrow>
    (clarification + split_choice) \<times> 'w stock_state" where
  "chooseSplit env inp before destinationID quantityText st = (case tr_Quantity inp of
     None \<Rightarrow> (Inr \<lparr>sc_Quantity = si_Quantity before, sc_Text = quantityText, sc_Remainder = None, sc_Existing = []\<rparr>, st)
   | Some q \<Rightarrow> (case normalizedStockDecimal q False of
       None \<Rightarrow> (Inl (''quantity'', ''quantity''), st)
     | Some (requested, normalizedRequested) \<Rightarrow>
       if \<not> f_lt normalizedRequested (si_Quantity before) then (Inl (''quantity'', ''quantity''), st)
       else (case normalizedStockDecimal (f_sub (si_Quantity before) normalizedRequested) False of
         None \<Rightarrow> (Inl (''quantity'', ''quantity''), st)
       | Some (_, normalizedRemaining) \<Rightarrow>
         (case fetch (cl_SearchStockItemsPage (se_client env) \<lparr>sq_PartID = si_Part before, sq_Serial = '''', sq_Limit = 1000\<rparr>) st of
           (Inl e, st1) \<Rightarrow> (Inl (''quantity'', ''dry_run''), st1)
         | (Inr (results, hasMore), st1) \<Rightarrow>
           if hasMore then (Inl (''quantity'', ''dry_run''), st1)
           else (Inr \<lparr>sc_Quantity = normalizedRequested, sc_Text = requested, sc_Remainder = Some normalizedRemaining,
              sc_Existing = preexistingDestinations env before destinationID normalizedRequested results\<rparr>, st1)))))"

definition transfer_context_of :: "transfer_input \<Rightarrow> stock_item \<Rightarrow> stock_location \<Rightarrow> stock_location \<Rightarrow> split_choice \<Rightarrow> transfer_context" where
  "transfer_context_of inp before source destination c =
    (let willSplit = (tr_Quantity inp \<noteq> None) in
     \<lparr>tc_Source = stockTransferLocation source, tc_Destination = stockTransferLocation destination,
      tc_Provenance = stockTransferProvenance before, tc_Safety = stockTransferSafety before, tc_WillSplit = willSplit,
      tc_Quantity = (if willSplit then Some (sc_Quantity c) else None), tc_SourceRemainder = sc_Remainder c,
      tc_DestinationQuantity = (if willSplit then Some (sc_Quantity c) else None), tc_DestinationStockItemID = None,
      tc_PreexistingDestinationStockItemIDs = sc_Existing c\<rparr>)"

definition transfer_plan :: "transfer_input \<Rightarrow> stock_item \<Rightarrow> stock_location \<Rightarrow> split_choice \<Rightarrow> transfer_context \<Rightarrow> stock_plan" where
  "transfer_plan inp before destination c t = (new_plan ''transfer_stock_item'' (snapshotStockItem before)
     (case sc_Remainder c of Some r \<Rightarrow> (snapshotStockItem before)\<lparr>sn_Quantity := r\<rparr>
      | None \<Rightarrow> (snapshotStockItem before)\<lparr>sn_LocationID := Some (sl_PK destination)\<rparr>)
     (trim_space (tr_Reason inp)))\<lparr>sp_Transfer := Some t\<rparr>"

definition transferStockItem :: "'w stock_env \<Rightarrow> transfer_input \<Rightarrow> 'w stock_state \<Rightarrow> (go_error + stock_output) \<times> 'w stock_state" where
  "transferStockItem env inp st =
    (let out = new_output (tr_DryRun inp) in
     if tr_StockItemID inp \<le> 0 then (Inr (clarify out ''stock_item'' ''stock_item_id''), st)
     else if tr_DestinationLocationID inp \<le> 0 then (Inr (clarify out ''destination_location'' ''destination_location_id''), st)
     else if trim_space (tr_Reason inp) = '''' then (Inr (clarify out ''reason'' ''reason''), st)
     else (case fetch (cl_GetStockItem (se_client env) (tr_StockItemID inp)) st of
       (Inl e, st1) \<Rightarrow> if isNotFound e then (Inr (out\<lparr>so_Status := st_not_found\<rparr>), st1) else safe_fail e st1
     | (Inr item, st1) \<Rightarrow>
       if si_PK item \<noteq> tr_StockItemID inp then (Inl (OtherError ''InvenTree returned a mismatched stock-item identity''), st1)
       else (case normalizedStockDecimal (si_Quantity item) False of
         None \<Rightarrow> (Inr (clarify out ''quantity'' ''stock_item_id''), st1)
       | Some (quantityText, normalizedQuantity) \<Rightarrow>
         (let before = item\<lparr>si_Quantity := normalizedQuantity\<rparr> in
          case stockTransferUnsafeCheck before of
            Some subject \<Rightarrow> (Inr (clarify out subject ''stock_item_id''), st1)
          | None \<Rightarrow> (case fetch (cl_GetStockLocation (se_client env) (tr_DestinationLocationID inp)) st1 of
              (Inl e, st2) \<Rightarrow> if isNotFound e then (Inr (clarify out ''destination_location'' ''destination_location_id''), st2) else safe_fail e st2
            | (Inr destination, st2) \<Rightarrow>
              if sl_PK destination \<noteq> tr_DestinationLocationID inp
              then (Inl (OtherError ''InvenTree returned a mismatched destination-location identity''), st2)
              else if si_Location before = Some (sl_PK destination)
              then (Inr (clarify out ''destination_location'' ''destination_location_id''), st2)
              else (case fetch (cl_GetStockLocation (se_client env) (the (si_Location before))) st2 of
                (Inl e, st3) \<Rightarrow> safe_fail e st3
              | (Inr source, st3) \<Rightarrow>
                if Some (sl_PK source) \<noteq> si_Location before
                then (Inl (OtherError ''InvenTree returned a mismatched source-location identity''), st3)
                else (case chooseSplit env inp before (sl_PK destination) quantityText st3 of
                  (Inl (field, retry), st4) \<Rightarrow> (Inr (clarify out field retry), st4)
                | (Inr c, st4) \<Rightarrow>
                  (let t = transfer_context_of inp before source destination c in
                   executeStockTransfer env inp (transfer_plan inp before destination c t) t (sc_Text c) st4))))))))"

end
