(* ===== verification/Stock_Install.thy ===== *)
theory Stock_Install
  imports Stock_Move
begin

text \<open>
  install_stock_item and uninstall_stock_item (stock_install_tools.go): the checks of parent and
  child, the walk over the parent's installed-in chain that refuses a cycle, the plan, the gate, the
  request and the verification of both sides.
\<close>

definition unsafeStockInstallChild :: "stock_item \<Rightarrow> string option" where
  "unsafeStockInstallChild item =
    (if si_Allocated item = None then Some ''allocated''
     else if \<not> f_eq (the (si_Allocated item)) (Fin 0) then Some ''allocated''
     else if si_IsBuilding item then Some ''is_building''
     else if si_ConsumedBy item \<noteq> None then Some ''consumed_by''
     else if si_Parent item \<noteq> None then Some ''parent''
     else if si_ChildItems item = None then Some ''child_items''
     else if the (si_ChildItems item) \<noteq> 0 then Some ''child_items''
     else if si_Customer item \<noteq> None then Some ''customer''
     else if si_SalesOrder item \<noteq> None then Some ''sales_order''
     else None)"

definition unsafeStockInstallParent :: "stock_item \<Rightarrow> string option" where
  "unsafeStockInstallParent item =
    (if si_Allocated item = None then Some ''allocated''
     else if \<not> f_eq (the (si_Allocated item)) (Fin 0) then Some ''allocated''
     else if si_IsBuilding item then Some ''is_building''
     else if si_ConsumedBy item \<noteq> None then Some ''consumed_by''
     else if si_Parent item \<noteq> None then Some ''parent''
     else if si_ChildItems item = None then Some ''child_items''
     else if the (si_ChildItems item) \<noteq> 0 then Some ''child_items''
     else if si_Customer item \<noteq> None then Some ''customer''
     else if si_SalesOrder item \<noteq> None then Some ''sales_order''
     else None)"

definition stockInstallTopologyMaxRecords :: nat where "stockInstallTopologyMaxRecords = 64"

text \<open>The loop of stockInstallCycleCheck; \<open>left_n\<close> counts the records that may still be read. None means
  that no cycle was found and the chain was read to its end.\<close>

fun cycleLoop :: "'w stock_env \<Rightarrow> stock_output \<Rightarrow> int \<Rightarrow> nat \<Rightarrow> int list \<Rightarrow> stock_item \<Rightarrow> 'w stock_state \<Rightarrow>
    (go_error + stock_output) option \<times> 'w stock_state" where
  "cycleLoop env out childID left_n seen current st = (case si_BelongsTo current of
     None \<Rightarrow> (None, st)
   | Some b \<Rightarrow>
     if b = childID then (Some (Inr (clarify out ''child_stock_item'' ''child_stock_item_id'')), st)
     else (case left_n of
       0 \<Rightarrow> (Some (Inr (clarify out ''confirmation'' ''dry_run'')), st)
     | Suc n \<Rightarrow>
       if b \<in> set seen then (Some (Inr (clarify out ''confirmation'' ''dry_run'')), st)
       else (case fetch (cl_GetStockItem (se_client env) b) st of
         (Inl e, st1) \<Rightarrow> (Some (if is_context_error e then Inl e else Inr (clarify out ''confirmation'' ''dry_run'')), st1)
       | (Inr next_item, st1) \<Rightarrow> cycleLoop env out childID n (si_PK next_item # seen) next_item st1)))"

declare cycleLoop.simps [simp del]

lemma cycleLoop_steps [simp]:
  "si_BelongsTo cur = None \<Longrightarrow> cycleLoop env out child n seen cur st = (None, st)"
  "si_BelongsTo cur = Some child \<Longrightarrow> cycleLoop env out child n seen cur st = (Some (Inr (clarify out ''child_stock_item'' ''child_stock_item_id'')), st)"
  "si_BelongsTo cur = Some b \<Longrightarrow> b \<noteq> child \<Longrightarrow> cycleLoop env out child 0 seen cur st = (Some (Inr (clarify out ''confirmation'' ''dry_run'')), st)"
  "si_BelongsTo cur = Some b \<Longrightarrow> b \<noteq> child \<Longrightarrow> b \<in> set seen \<Longrightarrow>
    cycleLoop env out child n seen cur st = (Some (Inr (clarify out ''confirmation'' ''dry_run'')), st)"
  "si_BelongsTo cur = Some b \<Longrightarrow> b \<noteq> child \<Longrightarrow> b \<notin> set seen \<Longrightarrow>
    cycleLoop env out child (Suc n) seen cur st = (case fetch (cl_GetStockItem (se_client env) b) st of
       (Inl e, st1) \<Rightarrow> (Some (if is_context_error e then Inl e else Inr (clarify out ''confirmation'' ''dry_run'')), st1)
     | (Inr next_item, st1) \<Rightarrow> cycleLoop env out child n (si_PK next_item # seen) next_item st1)"
  by (subst cycleLoop.simps; simp split: nat.split)+

definition stockInstallCycleCheck :: "'w stock_env \<Rightarrow> stock_output \<Rightarrow> int \<Rightarrow> stock_item \<Rightarrow> 'w stock_state \<Rightarrow>
    (go_error + stock_output) option \<times> 'w stock_state" where
  "stockInstallCycleCheck env out childID parent st =
    cycleLoop env out childID stockInstallTopologyMaxRecords [si_PK parent] parent st"

definition bomIncludesAssembly :: "bom_item list \<Rightarrow> int \<Rightarrow> bool" where
  "bomIncludesAssembly items assemblyPartID = list_ex (\<lambda>item. bi_Part item = assemblyPartID) items"

definition verifyStockInstall :: "'w stock_env \<Rightarrow> stock_plan \<Rightarrow> install_context \<Rightarrow> stock_output \<Rightarrow> bool \<Rightarrow> 'w stock_state \<Rightarrow>
    (go_error + stock_output) \<times> 'w stock_state" where
  "verifyStockInstall env plan ins out recovered st =
    (case fetch (cl_GetStockItem (se_client env) (sn_StockItemID (sp_Before plan))) st of
       (Inl e, st1) \<Rightarrow> (if is_context_error e then Inl e else Inr (partial_output (sp_Action plan) out None), st1)
     | (Inr child, st1) \<Rightarrow>
       (let safe = sanitizedStockItem env child; out1 = out\<lparr>so_Record := Some safe\<rparr>;
            failed = Inr (partial_output (sp_Action plan) out1 (Some safe)) in
        if si_PK child \<noteq> sn_StockItemID (sp_Before plan) \<or> si_BelongsTo child \<noteq> Some (ic_ParentID ins) \<or> si_Location child \<noteq> None
        then (failed, st1)
        else (case fetch (cl_GetStockItem (se_client env) (ic_ParentID ins)) st1 of
          (Inl e, st2) \<Rightarrow> (if is_context_error e then Inl e else failed, st2)
        | (Inr parent, st2) \<Rightarrow>
          (if si_PK parent \<noteq> ic_ParentID ins then failed
           else (case (si_InstalledItems parent, ic_ParentInstalledItemsBefore ins) of
             (Some n, Some n0) \<Rightarrow> if n \<noteq> n0 + 1 then failed else Inr (out1\<lparr>so_Verified := True, so_Recovered := recovered\<rparr>)
           | _ \<Rightarrow> Inr (out1\<lparr>so_Verified := True, so_Recovered := recovered\<rparr>)), st2))))"

definition executeStockInstall :: "'w stock_env \<Rightarrow> bool \<Rightarrow> bool \<Rightarrow> string \<Rightarrow> stock_plan \<Rightarrow> install_context \<Rightarrow> 'w stock_state \<Rightarrow>
    (go_error + stock_output) \<times> 'w stock_state" where
  "executeStockInstall env dryRun confirm suppliedToken plan ins st =
    (let out = (new_output dryRun)\<lparr>so_Plan := Some plan\<rparr> in
     case stockInstallIssueOrConfirm env dryRun confirm suppliedToken plan st of
       (Done r, st1) \<Rightarrow> (r, st1)
     | (Confirmed, st1) \<Rightarrow>
       (case send env (InstallStockItem (ic_ParentID ins) (sn_StockItemID (sp_Before plan)) 1 (sp_Reason plan)) st1 of
         (r, st2) \<Rightarrow> (case judge_write r of
           Return e \<Rightarrow> (Inl e, st2)
         | Reject e \<Rightarrow> safe_fail e st2
         | Verify recovered \<Rightarrow> verifyStockInstall env plan ins out recovered st2)))"

definition verifyStockUninstall :: "'w stock_env \<Rightarrow> stock_plan \<Rightarrow> stock_output \<Rightarrow> bool \<Rightarrow> 'w stock_state \<Rightarrow>
    (go_error + stock_output) \<times> 'w stock_state" where
  "verifyStockUninstall env plan out recovered st =
    (case fetch (cl_GetStockItem (se_client env) (sn_StockItemID (sp_Before plan))) st of
       (Inl e, st1) \<Rightarrow> (if is_context_error e then Inl e else Inr (partial_output (sp_Action plan) out None), st1)
     | (Inr item, st1) \<Rightarrow>
       (let safe = sanitizedStockItem env item; out1 = out\<lparr>so_Record := Some safe\<rparr> in
        (Inr (if si_PK item \<noteq> sn_StockItemID (sp_Before plan) \<or> si_BelongsTo item \<noteq> None \<or>
                 si_Location item \<noteq> sn_LocationID (sp_After plan)
              then partial_output (sp_Action plan) out1 (Some safe)
              else out1\<lparr>so_Verified := True, so_Recovered := recovered\<rparr>), st1)))"

definition executeStockUninstall :: "'w stock_env \<Rightarrow> bool \<Rightarrow> bool \<Rightarrow> string \<Rightarrow> stock_plan \<Rightarrow> 'w stock_state \<Rightarrow>
    (go_error + stock_output) \<times> 'w stock_state" where
  "executeStockUninstall env dryRun confirm suppliedToken plan st =
    (let out = (new_output dryRun)\<lparr>so_Plan := Some plan\<rparr>;
         destinationID = (case sn_LocationID (sp_After plan) of Some l \<Rightarrow> l | None \<Rightarrow> 0) in
     case stockInstallIssueOrConfirm env dryRun confirm suppliedToken plan st of
       (Done r, st1) \<Rightarrow> (r, st1)
     | (Confirmed, st1) \<Rightarrow>
       (case send env (UninstallStockItem (sn_StockItemID (sp_Before plan)) destinationID (sp_Reason plan)) st1 of
         (r, st2) \<Rightarrow> (case judge_write r of
           Return e \<Rightarrow> (Inl e, st2)
         | Reject e \<Rightarrow> safe_fail e st2
         | Verify recovered \<Rightarrow> verifyStockUninstall env plan out recovered st2)))"

record install_input =
  ii_DryRun :: bool
  ii_Confirm :: bool
  ii_PlanHash :: string
  ii_ParentStockItemID :: int
  ii_ChildStockItemID :: int
  ii_Reason :: string

definition install_context_of :: "stock_item \<Rightarrow> stock_item \<Rightarrow> install_context" where
  "install_context_of parent child = \<lparr>ic_ParentID = si_PK parent, ic_ParentPartID = si_Part parent,
     ic_ParentInstalledItemsBefore = si_InstalledItems parent, ic_ChildPartID = si_Part child,
     ic_ChildBelongsToBefore = si_BelongsTo child, ic_ChildBelongsToAfter = Some (si_PK parent), ic_Destination = None,
     ic_BOMConfirmed = True, ic_Safety = stockTransferSafety child\<rparr>"

definition install_plan :: "install_input \<Rightarrow> stock_item \<Rightarrow> install_context \<Rightarrow> stock_plan" where
  "install_plan inp child ins = (new_plan ''install_stock_item'' (snapshotStockItem child)
     ((snapshotStockItem child)\<lparr>sn_LocationID := None\<rparr>) (trim_space (ii_Reason inp)))\<lparr>sp_Install := Some ins\<rparr>"

definition installStockItem :: "'w stock_env \<Rightarrow> install_input \<Rightarrow> 'w stock_state \<Rightarrow> (go_error + stock_output) \<times> 'w stock_state" where
  "installStockItem env inp st =
    (let out = new_output (ii_DryRun inp) in
     if ii_ParentStockItemID inp \<le> 0 then (Inr (clarify out ''parent_stock_item'' ''parent_stock_item_id''), st)
     else if ii_ChildStockItemID inp \<le> 0 then (Inr (clarify out ''child_stock_item'' ''child_stock_item_id''), st)
     else if ii_ParentStockItemID inp = ii_ChildStockItemID inp then (Inr (clarify out ''child_stock_item'' ''child_stock_item_id''), st)
     else if trim_space (ii_Reason inp) = '''' then (Inr (clarify out ''reason'' ''reason''), st)
     else (case fetch (cl_GetStockItem (se_client env) (ii_ChildStockItemID inp)) st of
       (Inl e, st1) \<Rightarrow> if isNotFound e then (Inr (out\<lparr>so_Status := st_not_found\<rparr>), st1) else safe_fail e st1
     | (Inr child, st1) \<Rightarrow>
       if si_PK child \<noteq> ii_ChildStockItemID inp then (Inl (OtherError ''InvenTree returned a mismatched child stock-item identity''), st1)
       else if map_option fst (normalizedStockDecimal (si_Quantity child) False) \<noteq> Some ''1''
       then (Inr (clarify out ''child_stock_item'' ''child_stock_item_id''), st1)
       else if si_BelongsTo child \<noteq> None then (Inr (clarify out ''child_stock_item'' ''child_stock_item_id''), st1)
       else if \<not> si_InStock child then (Inr (clarify out ''child_stock_item'' ''child_stock_item_id''), st1)
       else (case unsafeStockInstallChild child of
         Some subject \<Rightarrow> (Inr (clarify out subject ''stock_item_id''), st1)
       | None \<Rightarrow> (case fetch (cl_GetStockItem (se_client env) (ii_ParentStockItemID inp)) st1 of
           (Inl e, st2) \<Rightarrow> if isNotFound e then (Inr (clarify out ''parent_stock_item'' ''parent_stock_item_id''), st2) else safe_fail e st2
         | (Inr parent, st2) \<Rightarrow>
           if si_PK parent \<noteq> ii_ParentStockItemID inp then (Inl (OtherError ''InvenTree returned a mismatched parent stock-item identity''), st2)
           else (case unsafeStockInstallParent parent of
             Some subject \<Rightarrow> (Inr (clarify out subject ''parent_stock_item_id''), st2)
           | None \<Rightarrow> (case stockInstallCycleCheck env out (si_PK child) parent st2 of
               (Some r, st3) \<Rightarrow> (r, st3)
             | (None, st3) \<Rightarrow>
               (case fetch (cl_SearchBomItems (se_client env) \<lparr>bq_Uses = si_Part child, bq_Limit = DefaultLookupLimit\<rparr>) st3 of
                 (Inl e, st4) \<Rightarrow> safe_fail e st4
               | (Inr bomItems, st4) \<Rightarrow>
                 if \<not> bomIncludesAssembly bomItems (si_Part parent) then (Inr (clarify out ''child_stock_item'' ''child_stock_item_id''), st4)
                 else (let ins = install_context_of parent child in
                   executeStockInstall env (ii_DryRun inp) (ii_Confirm inp) (ii_PlanHash inp) (install_plan inp child ins) ins st4)))))))) "

record uninstall_input =
  ui_DryRun :: bool
  ui_Confirm :: bool
  ui_PlanHash :: string
  ui_StockItemID :: int
  ui_DestinationLocationID :: int
  ui_Reason :: string

definition uninstall_plan :: "uninstall_input \<Rightarrow> stock_item \<Rightarrow> int \<Rightarrow> stock_location \<Rightarrow> stock_plan" where
  "uninstall_plan inp item parentID destination = (new_plan ''uninstall_stock_item'' (snapshotStockItem item)
     ((snapshotStockItem item)\<lparr>sn_LocationID := Some (sl_PK destination)\<rparr>) (trim_space (ui_Reason inp)))
     \<lparr>sp_Install := Some \<lparr>ic_ParentID = parentID, ic_ParentPartID = 0, ic_ParentInstalledItemsBefore = None,
        ic_ChildPartID = si_Part item, ic_ChildBelongsToBefore = si_BelongsTo item, ic_ChildBelongsToAfter = None,
        ic_Destination = Some (stockTransferLocation destination), ic_BOMConfirmed = False, ic_Safety = stockTransferSafety item\<rparr>\<rparr>"

definition uninstallStockItem :: "'w stock_env \<Rightarrow> uninstall_input \<Rightarrow> 'w stock_state \<Rightarrow> (go_error + stock_output) \<times> 'w stock_state" where
  "uninstallStockItem env inp st =
    (let out = new_output (ui_DryRun inp) in
     if ui_StockItemID inp \<le> 0 then (Inr (clarify out ''stock_item'' ''stock_item_id''), st)
     else if ui_DestinationLocationID inp \<le> 0 then (Inr (clarify out ''destination_location'' ''destination_location_id''), st)
     else if trim_space (ui_Reason inp) = '''' then (Inr (clarify out ''reason'' ''reason''), st)
     else (case fetch (cl_GetStockItem (se_client env) (ui_StockItemID inp)) st of
       (Inl e, st1) \<Rightarrow> if isNotFound e then (Inr (out\<lparr>so_Status := st_not_found\<rparr>), st1) else safe_fail e st1
     | (Inr item, st1) \<Rightarrow>
       if si_PK item \<noteq> ui_StockItemID inp then (Inl (OtherError ''InvenTree returned a mismatched stock-item identity''), st1)
       else (case si_BelongsTo item of
         None \<Rightarrow> (Inr (clarify out ''stock_item'' ''stock_item_id''), st1)
       | Some parentID \<Rightarrow> (case unsafeStockInstallChild item of
           Some subject \<Rightarrow> (Inr (clarify out subject ''stock_item_id''), st1)
         | None \<Rightarrow> (case fetch (cl_GetStockLocation (se_client env) (ui_DestinationLocationID inp)) st1 of
             (Inl e, st2) \<Rightarrow> if isNotFound e then (Inr (clarify out ''destination_location'' ''destination_location_id''), st2) else safe_fail e st2
           | (Inr destination, st2) \<Rightarrow>
             if sl_PK destination \<noteq> ui_DestinationLocationID inp
             then (Inl (OtherError ''InvenTree returned a mismatched destination-location identity''), st2)
             else executeStockUninstall env (ui_DryRun inp) (ui_Confirm inp) (ui_PlanHash inp)
               (uninstall_plan inp item parentID destination) st2)))))"

end
