(* ===== verification/Stock_Calls.thy ===== *)
theory Stock_Calls
  imports Plan_Stores Stock_Decimal Stock_Install
begin

text \<open>
  Reasoning about the stock tools branch by branch. A handler is a tree of reads, checks and early
  answers with an execution at some leaves; a statement about its result that does not look at the
  world and holds of an early answer is proved by taking the tree apart. The locale holds the
  rules once, for any such statement.
\<close>

text \<open>What a reply shows: the plan hash and the plan of a dry run.\<close>

definition shown_plan :: "go_error + stock_output \<Rightarrow> (string \<times> stock_plan) option" where
  "shown_plan r = (case r of Inl _ \<Rightarrow> None | Inr out \<Rightarrow>
     if so_Status out = st_ok \<and> so_DryRun out then map_option (Pair (so_PlanHash out)) (so_Plan out) else None)"

text \<open>An answer that says an execution succeeded, and what such an answer rests on: the verification
  succeeded, or the record read back after the write is the plan's.\<close>

definition executed_ok :: "go_error + stock_output \<Rightarrow> bool" where
  "executed_ok r = (case r of Inl _ \<Rightarrow> False | Inr out \<Rightarrow> so_Status out = st_ok \<and> \<not> so_DryRun out)"

definition read_back :: "'w stock_env \<Rightarrow> go_error + stock_output \<Rightarrow> bool" where
  "read_back env r \<longleftrightarrow> (\<exists>out. r = Inr out \<and> (so_Verified out \<or> (\<exists>plan after. so_Plan out = Some plan \<and>
     so_Record out = Some (sanitizedStockItem env after) \<and> stockStateMatches after (sp_After plan))))"

definition reads_exact :: "'w stock_client \<Rightarrow> bool" where
  "reads_exact cl \<longleftrightarrow> (\<forall>i w item w'. cl_GetStockItem cl i w = (Inr item, w') \<longrightarrow> si_PK item = i)"

text \<open>An early answer: no plan shown and no execution claimed.\<close>

definition idle :: "go_error + stock_output \<Rightarrow> bool" where
  "idle r \<longleftrightarrow> shown_plan r = None \<and> \<not> executed_ok r"

lemma idle_Inl [simp]: "idle (Inl e)" "shown_plan (Inl e) = None" "\<not> executed_ok (Inl e)"
  by (simp_all add: idle_def shown_plan_def executed_ok_def)

lemma idle_status: "so_Status out \<noteq> st_ok \<Longrightarrow> idle (Inr out)"
  by (simp add: idle_def shown_plan_def executed_ok_def)

lemma idle_answers [simp]: "idle (Inr (clarify out f r))" "idle (Inr (out\<lparr>so_Status := st_not_found\<rparr>))"
  "idle (Inr (stockUnknownResult out))" "idle (Inr (partial_output a out x))"
  by (simp_all add: idle_status clarify_def stockUnknownResult_def partial_output_def
    st_ok_def st_clarification_def st_not_found_def st_partial_def)

lemma idle_clarify [simp]: "shown_plan (Inr (clarify out f r)) = None" "\<not> executed_ok (Inr (clarify out f r))"
  using idle_answers(1)[of out f r] by (simp_all add: idle_def)

section \<open>Helpers that only read\<close>

lemma collision_reads:
  "stockSerialCollision env out p serial ex st = (x, st1) \<Longrightarrow> ss_plans st1 = ss_plans st \<and> ss_sent st1 = ss_sent st \<and>
    (case x of None \<Rightarrow> True | Some r \<Rightarrow> idle r)"
  by (auto simp: stockSerialCollision_def stockSerialGloballyUnique_def fetch_def safe_fail_def split: prod.splits sum.splits if_splits)

lemma cycleLoop_reads:
  "cycleLoop env out child n seen cur st = (x, st1) \<Longrightarrow> ss_plans st1 = ss_plans st \<and> ss_sent st1 = ss_sent st \<and>
    (case x of None \<Rightarrow> True | Some r \<Rightarrow> idle r)"
proof (induction n arbitrary: seen cur st)
  case 0
  then show ?case by (cases "si_BelongsTo cur"; cases "si_BelongsTo cur = Some child") auto
next
  case (Suc n)
  show ?case
  proof (cases "si_BelongsTo cur = None \<or> si_BelongsTo cur = Some child \<or> the (si_BelongsTo cur) \<in> set seen")
    case True
    then show ?thesis using Suc.prems by (cases "si_BelongsTo cur = None"; cases "si_BelongsTo cur = Some child") auto
  next
    case False
    then obtain b where b: "si_BelongsTo cur = Some b" "b \<noteq> child" "b \<notin> set seen" by auto
    obtain y st2 where f: "fetch (cl_GetStockItem (se_client env) b) st = (y, st2)" by fastforce
    have q: "ss_plans st2 = ss_plans st \<and> ss_sent st2 = ss_sent st" using f by (auto simp: fetch_def split: prod.splits)
    show ?thesis
    proof (cases y)
      case (Inl e)
      then show ?thesis using Suc.prems b f q by auto
    next
      case (Inr item)
      then have "cycleLoop env out child n (si_PK item # seen) item st2 = (x, st1)" using Suc.prems b f by simp
      from Suc.IH[OF this] show ?thesis using q by simp
    qed
  qed
qed

lemma chooseSplit_reads:
  "chooseSplit env inp before d qt st = (x, st1) \<Longrightarrow> ss_plans st1 = ss_plans st \<and> ss_sent st1 = ss_sent st"
  by (auto simp: chooseSplit_def fetch_def split: prod.splits sum.splits option.splits if_splits)

section \<open>The rules\<close>

named_theorems effect_rules \<open>decomposition of a handler's branches\<close>

locale stock_branches =
  fixes P :: "'w stock_state \<Rightarrow> (go_error + stock_output) \<times> 'w stock_state \<Rightarrow> bool"
  assumes read: "ss_plans st1 = ss_plans st \<Longrightarrow> ss_sent st1 = ss_sent st \<Longrightarrow> P st1 p \<Longrightarrow> P st p"
    and early: "idle r \<Longrightarrow> P st (r, st)"
begin

lemma reader:
  assumes "\<And>x st1. rd st = (x, st1) \<Longrightarrow> ss_plans st1 = ss_plans st \<and> ss_sent st1 = ss_sent st"
    and "\<And>x st1. rd st = (x, st1) \<Longrightarrow> P st1 (k x st1)"
  shows "P st (case rd st of (x, st1) \<Rightarrow> k x st1)"
proof -
  obtain x st1 where r: "rd st = (x, st1)" by fastforce
  show ?thesis using assms(1)[OF r] read[OF _ _ assms(2)[OF r]] by (simp add: r)
qed

lemma fetch [effect_rules]:
  "(\<And>x st1. fetch f st = (x, st1) \<Longrightarrow> P st1 (k x st1)) \<Longrightarrow> P st (case fetch f st of (x, st1) \<Rightarrow> k x st1)"
  by (rule reader) (auto simp: fetch_def split: prod.splits)

lemma cond [effect_rules]:
  "(b \<Longrightarrow> P st x) \<Longrightarrow> (\<not> b \<Longrightarrow> P st y) \<Longrightarrow> P st (if b then x else y)"
  by simp

lemma sum [effect_rules]:
  "(\<And>e. r = Inl e \<Longrightarrow> P st (f e)) \<Longrightarrow> (\<And>x. r = Inr x \<Longrightarrow> P st (g x)) \<Longrightarrow>
    P st (case r of Inl e \<Rightarrow> f e | Inr x \<Rightarrow> g x)"
  by (cases r) simp_all

lemma option [effect_rules]:
  "(r = None \<Longrightarrow> P st f) \<Longrightarrow> (\<And>x. r = Some x \<Longrightarrow> P st (g x)) \<Longrightarrow>
    P st (case r of None \<Rightarrow> f | Some x \<Rightarrow> g x)"
  by (cases r) simp_all

lemma let_in [effect_rules]: "P st (f x) \<Longrightarrow> P st (Let x f)"
  by simp

lemma list [effect_rules]:
  "P st f \<Longrightarrow> (\<And>x l. P st (g x l)) \<Longrightarrow>
    P st (case r of [] \<Rightarrow> f | x # l \<Rightarrow> g x l)"
  by (cases r) simp_all

lemma judge [effect_rules]:
  "(\<And>e. P st (f e)) \<Longrightarrow> (\<And>e. P st (g e)) \<Longrightarrow> (\<And>b. P st (h b)) \<Longrightarrow>
    P st (case judge_write r of Return e \<Rightarrow> f e | Reject e \<Rightarrow> g e | Verify b \<Rightarrow> h b)"
  by (cases "judge_write r") simp_all

text \<open>Applied only when no other rule is: the other rules take the pairs of readers apart.\<close>

lemma prod:
  "(\<And>a b. r = (a, b) \<Longrightarrow> P st (f a b)) \<Longrightarrow> P st (case r of (a, b) \<Rightarrow> f a b)"
  by (cases r) simp

lemma fail [effect_rules]: "P st (safe_fail e st)"
  unfolding safe_fail_def by (rule read[of "st\<lparr>ss_outcome := Some (snd (safeToolError e))\<rparr>" st]) (simp_all add: early)

lemma prepare [effect_rules]:
  assumes "\<And>item st1. 0 < i \<Longrightarrow> trim_space reason \<noteq> '''' \<Longrightarrow> (reads_exact (se_client env) \<Longrightarrow> si_PK item = i) \<Longrightarrow>
    P st1 (k item st1)"
  shows "P st (case prepareStockAdjustment env dry i reason st of (x, st1) \<Rightarrow> (case x of Inl r \<Rightarrow> (r, st1) | Inr item \<Rightarrow> k item st1))"
proof (cases "i \<le> 0 \<or> trim_space reason = ''''")
  case True
  then show ?thesis by (auto simp: prepareStockAdjustment_def intro: early)
next
  case False
  obtain x w where f: "cl_GetStockItem (se_client env) i (ss_world st) = (x, w)" by fastforce
  show ?thesis
  proof (cases x)
    case (Inl e)
    then show ?thesis using False f read[of "st\<lparr>ss_world := w\<rparr>" st] by (auto simp: prepareStockAdjustment_def fetch_def early)
  next
    case (Inr item)
    have "reads_exact (se_client env) \<Longrightarrow> si_PK item = i" using f Inr unfolding reads_exact_def by blast
    then have "P (st\<lparr>ss_world := w\<rparr>) (k item (st\<lparr>ss_world := w\<rparr>))" using False by (intro assms) auto
    then show ?thesis using False f Inr read[of "st\<lparr>ss_world := w\<rparr>" st] by (simp add: prepareStockAdjustment_def fetch_def)
  qed
qed

lemma collision [effect_rules]:
  assumes k: "\<And>st1. stockSerialCollision env out p serial ex st = (None, st1) \<Longrightarrow> P st1 (k st1)"
  shows "P st (case stockSerialCollision env out p serial ex st of (x, st1) \<Rightarrow>
    (case x of None \<Rightarrow> k st1 | Some r \<Rightarrow> (r, st1)))"
proof (rule reader)
  fix x st1 assume a: "stockSerialCollision env out p serial ex st = (x, st1)"
  show "ss_plans st1 = ss_plans st \<and> ss_sent st1 = ss_sent st" using collision_reads[OF a] by simp
  show "P st1 (case x of None \<Rightarrow> k st1 | Some r \<Rightarrow> (r, st1))"
    using collision_reads[OF a] k a by (cases x) (simp_all add: early)
qed

lemma cycle [effect_rules]:
  assumes k: "\<And>st1. stockInstallCycleCheck env out child parent st = (None, st1) \<Longrightarrow> P st1 (k st1)"
  shows "P st (case stockInstallCycleCheck env out child parent st of (x, st1) \<Rightarrow>
    (case x of None \<Rightarrow> k st1 | Some r \<Rightarrow> (r, st1)))"
proof (rule reader)
  fix x st1 assume a: "stockInstallCycleCheck env out child parent st = (x, st1)"
  note q = cycleLoop_reads[OF a[unfolded stockInstallCycleCheck_def]]
  show "ss_plans st1 = ss_plans st \<and> ss_sent st1 = ss_sent st" using q by simp
  show "P st1 (case x of None \<Rightarrow> k st1 | Some r \<Rightarrow> (r, st1))"
    using q k a by (cases x) (simp_all add: early)
qed

lemma chooseSplit [effect_rules]:
  assumes "\<And>x st1. chooseSplit env tinp before d qt st = (x, st1) \<Longrightarrow> P st1 (k x st1)"
  shows "P st (case chooseSplit env tinp before d qt st of (x, st1) \<Rightarrow> k x st1)"
  by (rule reader) (use chooseSplit_reads assms in blast)+

lemma optional_check [effect_rules]:
  "(c \<Longrightarrow> P st (k st)) \<Longrightarrow>
    (\<not> c \<Longrightarrow> P st (case rd of (x, st1) \<Rightarrow> (case x of None \<Rightarrow> k st1 | Some r \<Rightarrow> (r, st1)))) \<Longrightarrow>
    P st (case (if c then (None, st) else rd) of (x, st1) \<Rightarrow> (case x of None \<Rightarrow> k st1 | Some r \<Rightarrow> (r, st1)))"
  by simp

end

end
