(* ===== verification/Stock_Review.thy ===== *)
theory Stock_Review
  imports Reviewed_Tool Stock_Calls
begin

text \<open>
  The ten stock tools over their shared confirmation store as one component: every call is a step of
  a \<open>reviewed_tool\<close>, so nothing is written that a dry run did not show to the same user, and a
  token writes at most once.
\<close>

section \<open>Calls\<close>

datatype stock_input = Adjust adjust_input | SetStatus status_input | Count count_input | Policy policy_input
  | AssignSerial assign_serial_input | SetSerial set_serial_input | Deplete deplete_input | Transfer transfer_input
  | Install install_input | Uninstall uninstall_input

fun in_dry :: "stock_input \<Rightarrow> bool" where
  "in_dry (Adjust i) = ai_DryRun i" | "in_dry (SetStatus i) = ti_DryRun i" | "in_dry (Count i) = ci_DryRun i"
| "in_dry (Policy i) = pi_DryRun i" | "in_dry (AssignSerial i) = as_DryRun i" | "in_dry (SetSerial i) = sr_DryRun i"
| "in_dry (Deplete i) = di_DryRun i" | "in_dry (Transfer i) = tr_DryRun i" | "in_dry (Install i) = ii_DryRun i"
| "in_dry (Uninstall i) = ui_DryRun i"

fun in_confirm :: "stock_input \<Rightarrow> bool" where
  "in_confirm (Adjust i) = ai_Confirm i" | "in_confirm (SetStatus i) = ti_Confirm i" | "in_confirm (Count i) = ci_Confirm i"
| "in_confirm (Policy i) = pi_Confirm i" | "in_confirm (AssignSerial i) = as_Confirm i" | "in_confirm (SetSerial i) = sr_Confirm i"
| "in_confirm (Deplete i) = di_Confirm i" | "in_confirm (Transfer i) = tr_Confirm i" | "in_confirm (Install i) = ii_Confirm i"
| "in_confirm (Uninstall i) = ui_Confirm i"

fun in_token :: "stock_input \<Rightarrow> string" where
  "in_token (Adjust i) = ai_PlanHash i" | "in_token (SetStatus i) = ti_PlanHash i" | "in_token (Count i) = ci_PlanHash i"
| "in_token (Policy i) = pi_PlanHash i" | "in_token (AssignSerial i) = as_PlanHash i" | "in_token (SetSerial i) = sr_PlanHash i"
| "in_token (Deplete i) = di_PlanHash i" | "in_token (Transfer i) = tr_PlanHash i" | "in_token (Install i) = ii_PlanHash i"
| "in_token (Uninstall i) = ui_PlanHash i"

text \<open>The stock item the caller names as the one to change.\<close>

fun in_item :: "stock_input \<Rightarrow> int" where
  "in_item (Adjust i) = ai_StockItemID i" | "in_item (SetStatus i) = ti_StockItemID i" | "in_item (Count i) = ci_StockItemID i"
| "in_item (Policy i) = pi_StockItemID i" | "in_item (AssignSerial i) = as_StockItemID i" | "in_item (SetSerial i) = sr_StockItemID i"
| "in_item (Deplete i) = di_StockItemID i" | "in_item (Transfer i) = tr_StockItemID i" | "in_item (Install i) = ii_ChildStockItemID i"
| "in_item (Uninstall i) = ui_StockItemID i"

fun stock_handler :: "'w stock_env \<Rightarrow> stock_input \<Rightarrow> 'w stock_state \<Rightarrow> (go_error + stock_output) \<times> 'w stock_state" where
  "stock_handler env (Adjust i) = adjustStockQuantity env i"
| "stock_handler env (SetStatus i) = setStockStatus env i"
| "stock_handler env (Count i) = stocktakeAdjustment env i"
| "stock_handler env (Policy i) = setStockDeleteOnDeplete env i"
| "stock_handler env (AssignSerial i) = assignStockSerial env i"
| "stock_handler env (SetSerial i) = setStockSerial env i"
| "stock_handler env (Deplete i) = depleteStockItem env i"
| "stock_handler env (Transfer i) = transferStockItem env i"
| "stock_handler env (Install i) = installStockItem env i"
| "stock_handler env (Uninstall i) = uninstallStockItem env i"

definition stock_step :: "'w stock_env \<Rightarrow> plan_call \<times> stock_input \<Rightarrow> 'w stock_state \<Rightarrow> (go_error + stock_output) \<times> 'w stock_state" where
  "stock_step env c = LookupHandler (Inr ()) (stock_handler (env\<lparr>se_call := fst c\<rparr>) (snd c))"

section \<open>What a request must have in common with its plan\<close>

fun write_fits :: "int \<Rightarrow> stock_plan \<Rightarrow> stock_write \<Rightarrow> bool" where
  "write_fits item plan (AddStock a) \<longleftrightarrow> sa_Notes a = sp_Reason plan \<and> (\<exists>q d w. sa_Items a = [(item, q)] \<and> ParseFloat q = Some d \<and>
     normalizedStockDecimal (f_add (sn_Quantity (sp_Before plan)) d) True = Some (w, sn_Quantity (sp_After plan)))"
| "write_fits item plan (RemoveStock a) \<longleftrightarrow> sa_Notes a = sp_Reason plan \<and> (\<exists>q d. sa_Items a = [(item, q)] \<and> ParseFloat q = Some d \<and>
     (if sp_WillDelete plan then sn_Quantity (sp_Before plan) = d \<and> sn_Quantity (sp_After plan) = Fin 0
      else \<exists>w. normalizedStockDecimal (f_add (sn_Quantity (sp_Before plan)) (f_neg d)) True = Some (w, sn_Quantity (sp_After plan))))"
| "write_fits item plan (CountStock a) \<longleftrightarrow> sa_Notes a = sp_Reason plan \<and>
     (\<exists>q. sa_Items a = [(item, q)] \<and> ParseFloat q = Some (sn_Quantity (sp_After plan)))"
| "write_fits item plan (ChangeStockStatus items s note) \<longleftrightarrow> items = [item] \<and> s = sn_Status (sp_After plan) \<and> note = sp_Reason plan"
| "write_fits item plan (UpdateStockItem i patch) \<longleftrightarrow> i = item \<and>
     (patch = [(''delete_on_deplete'', PatchBool (sn_DeleteOnDeplete (sp_After plan)))] \<or>
      patch = [(''serial'', case sn_Serial (sp_After plan) of None \<Rightarrow> PatchNull | Some s \<Rightarrow> PatchStr s)])"
| "write_fits item plan (TransferStock items note loc) \<longleftrightarrow> note = sp_Reason plan \<and> (\<exists>q t. sp_Transfer plan = Some t \<and> items = [(item, q)] \<and>
     loc = tl_ID (tc_Destination t) \<and>
     ParseFloat q = Some (case tc_Quantity t of Some x \<Rightarrow> x | None \<Rightarrow> sn_Quantity (sp_Before plan)))"
| "write_fits item plan (InstallStockItem p c n note) \<longleftrightarrow> c = item \<and> n = 1 \<and> note = sp_Reason plan \<and>
     (\<exists>ins. sp_Install plan = Some ins \<and> p = ic_ParentID ins)"
| "write_fits item plan (UninstallStockItem i loc note) \<longleftrightarrow> i = item \<and> sn_LocationID (sp_After plan) = Some loc \<and> note = sp_Reason plan"

definition stock_fits :: "'w stock_env \<Rightarrow> stock_input \<Rightarrow> stock_plan \<Rightarrow> stock_write list \<Rightarrow> bool" where
  "stock_fits env inp plan reqs \<longleftrightarrow> \<not> in_dry inp \<and> in_confirm inp \<and> sp_Reason plan \<noteq> '''' \<and>
     (reads_exact (se_client env) \<longrightarrow> sn_StockItemID (sp_Before plan) = in_item inp) \<and>
     (\<exists>req. reqs = [req] \<and> write_fits (in_item inp) plan req)"

section \<open>The effect of a call, rule by rule\<close>

text \<open>With \<open>ro\<close> set, the call only reads.\<close>

definition tool_effect :: "bool \<Rightarrow> 'w stock_env \<Rightarrow> stock_input \<Rightarrow> 'w stock_state \<Rightarrow> (go_error + stock_output) \<times> 'w stock_state \<Rightarrow> bool" where
  "tool_effect ro env inp st p \<longleftrightarrow> (executed_ok (fst p) \<longrightarrow> (ro \<or> ss_sent (snd p) \<noteq> ss_sent st) \<and> read_back env (fst p)) \<and>
     ((ss_plans (snd p) = ss_plans st \<and> ss_sent (snd p) = ss_sent st \<and> shown_plan (fst p) = None) \<or>
     \<not> ro \<and> (\<exists>plan t. plan_issue_op stockPlanLifetime (se_digest env) plan_key (se_call env, plan) (ss_plans st) = (t, ss_plans (snd p)) \<and>
        ss_sent (snd p) = ss_sent st \<and> shown_plan (fst p) = map_option (\<lambda>t. (t, plan)) t) \<or>
     \<not> ro \<and> (\<exists>plan b reqs. plan_consume_op (se_digest env) plan_key (se_call env, in_token inp, plan) (ss_plans st) = (b, ss_plans (snd p)) \<and>
        ss_sent (snd p) = ss_sent st @ reqs \<and> shown_plan (fst p) = None \<and> (reqs = [] \<or> b \<and> stock_fits env inp plan reqs)))"

text \<open>An answer that shows no plan and, unless a write precedes it, claims no execution.\<close>

definition silent :: "bool \<Rightarrow> 'w stock_env \<Rightarrow> go_error + stock_output \<Rightarrow> bool" where
  "silent ro env r \<longleftrightarrow> shown_plan r = None \<and> (executed_ok r \<longrightarrow> ro \<and> read_back env r)"

lemma idle_silent [simp]: "idle r \<Longrightarrow> silent ro env r"
  by (simp add: idle_def silent_def)

interpretation effect: stock_branches "tool_effect ro env inp" for ro and env :: "'w stock_env" and inp
  by unfold_locales (auto simp: tool_effect_def idle_def)

lemma effect_quiet [effect_rules]: "silent ro env r \<Longrightarrow> tool_effect ro env inp st (r, st)"
  by (simp add: tool_effect_def silent_def)

lemma silent_verified [simp]: "\<not> so_DryRun out \<Longrightarrow> silent True env (Inr (out\<lparr>so_Verified := True, so_Recovered := b\<rparr>))"
  by (simp add: silent_def shown_plan_def read_back_def)

lemma silent_matches [simp]:
  "\<not> dry \<Longrightarrow> stockStateMatches after (sp_After plan) \<Longrightarrow>
    silent True env (Inr (new_output dry\<lparr>so_Plan := Some plan, so_Record := Some (sanitizedStockItem env after)\<rparr>))"
  by (auto simp: silent_def shown_plan_def read_back_def new_output_def)

lemma silent_if [effect_rules]: "(b \<Longrightarrow> silent ro env (Inr x)) \<Longrightarrow> (\<not> b \<Longrightarrow> silent ro env (Inr y)) \<Longrightarrow> silent ro env (Inr (if b then x else y))"
  by simp

lemma effect_cong:
  "tool_effect ro env inp st (Inl r, s1) \<Longrightarrow> ss_plans s2 = ss_plans s1 \<Longrightarrow> ss_sent s2 = ss_sent s1 \<Longrightarrow>
    tool_effect ro env inp st (Inl r', s2)"
  by (simp add: tool_effect_def)

lemma effect_LookupHandler: "tool_effect ro env inp st (h st) \<Longrightarrow> tool_effect ro env inp st (LookupHandler (Inr ()) h st)"
proof -
  assume a: "tool_effect ro env inp st (h st)"
  obtain r st' where h: "h st = (r, st')" by fastforce
  show ?thesis
  proof (cases r)
    case (Inl e)
    show ?thesis unfolding LookupHandler_def using a
      by (auto simp: h Inl safe_fail_def intro: effect_cong)
  next
    case (Inr x)
    then show ?thesis using a by (simp add: LookupHandler_def h)
  qed
qed

section \<open>The gate and the executions\<close>

lemma effect_issue:
  "plan_issue_op stockPlanLifetime (se_digest env) plan_key (se_call env, plan) (ss_plans st) = (t, ss_plans st') \<Longrightarrow>
    ss_sent st' = ss_sent st \<Longrightarrow> shown_plan r = map_option (\<lambda>t. (t, plan)) t \<Longrightarrow> \<not> executed_ok r \<Longrightarrow> tool_effect False env inp st (r, st')"
  unfolding tool_effect_def fst_conv snd_conv by blast

lemma effect_consume:
  assumes "plan_consume_op (se_digest env) plan_key (se_call env, in_token inp, plan) (ss_plans st) = (b, ss_plans st')"
    and "ss_sent st' = ss_sent st @ reqs" "shown_plan r = None" "reqs = [] \<or> b \<and> stock_fits env inp plan reqs"
    and ok: "executed_ok r \<Longrightarrow> reqs \<noteq> [] \<and> read_back env r"
  shows "tool_effect False env inp st (r, st')"
proof -
  have "executed_ok r \<longrightarrow> (False \<or> ss_sent st' \<noteq> ss_sent st) \<and> read_back env r" using ok assms(2) by auto
  then show ?thesis using assms(1-4) unfolding tool_effect_def fst_conv snd_conv by blast
qed

lemma effect_execute:
  assumes eq: "dry = in_dry inp" "confirm = in_confirm inp" "tok = in_token inp"
    and fits: "\<not> dry \<Longrightarrow> confirm \<Longrightarrow> stock_fits env inp plan [req]"
    and k: "\<And>r st2. \<not> dry \<Longrightarrow> tool_effect True env inp st2 (k r st2)"
  shows "tool_effect False env inp st (case stockInstallIssueOrConfirm env dry confirm tok plan st of
    (g, st1) \<Rightarrow> (case g of Done r \<Rightarrow> (r, st1) | Confirmed \<Rightarrow> (case send env req st1 of (r, st2) \<Rightarrow> k r st2)))"
proof (cases "dry")
  case True
  obtain r ps where i: "plan_issue_purge stockPlanLifetime (se_digest env) plan_key (se_call env) plan (ss_plans st) = (r, ps)" by fastforce
  show ?thesis
  proof (cases r)
    case (Inl e)
    then have "plan_issue_op stockPlanLifetime (se_digest env) plan_key (se_call env, plan) (ss_plans st) = (None, ps)"
      using i by (simp add: plan_issue_op_def)
    moreover have "shown_plan (plan_error_result o' e) = None" "\<not> executed_ok (plan_error_result o' e)" for o'
      by (cases e; simp)+
    ultimately have "tool_effect False env inp st (plan_error_result o' e, st\<lparr>ss_plans := ps\<rparr>)" for o'
      by (intro effect_issue[of env plan st None]) simp_all
    then show ?thesis using True i Inl by (simp add: stockInstallIssueOrConfirm_def stock_plan_issue_def Let_def)
  next
    case (Inr t)
    then have op: "plan_issue_op stockPlanLifetime (se_digest env) plan_key (se_call env, plan) (ss_plans st) = (Some t, ps)"
      using i by (simp add: plan_issue_op_def)
    have sh: "shown_plan (Inr (new_output True\<lparr>so_Plan := Some plan, so_PlanHash := t\<rparr>)) = Some (t, plan)"
      by (simp add: shown_plan_def new_output_def)
    have ex: "\<not> executed_ok (Inr (new_output True\<lparr>so_Plan := Some plan, so_PlanHash := t\<rparr>))"
      by (simp add: executed_ok_def new_output_def)
    have "tool_effect False env inp st (Inr (new_output True\<lparr>so_Plan := Some plan, so_PlanHash := t\<rparr>), st\<lparr>ss_plans := ps\<rparr>)"
      by (intro effect_issue[of env plan st "Some t"]) (simp_all add: op sh ex)
    then show ?thesis using True i Inr by (simp add: stockInstallIssueOrConfirm_def stock_plan_issue_def Let_def)
  qed
next
  case False
  show ?thesis
  proof (cases "confirm \<and> tok \<noteq> ''''")
    case False
    then show ?thesis using \<open>\<not> dry\<close> by (auto simp: stockInstallIssueOrConfirm_def Let_def intro: effect_quiet)
  next
    case True
    obtain b ps where c: "plan_consume (se_digest env) plan_key (se_call env) tok plan (ss_plans st) = (b, ps)" by fastforce
    have op: "plan_consume_op (se_digest env) plan_key (se_call env, in_token inp, plan) (ss_plans st) = (b, ps)"
      using c eq(3) by (simp add: plan_consume_op_def)
    show ?thesis
    proof (cases b)
      case False
      then show ?thesis using op c True \<open>\<not> dry\<close>
        by (auto simp: stockInstallIssueOrConfirm_def stock_plan_consume_def Let_def tool_effect_def)
    next
      case b: True
      define st1 where "st1 = st\<lparr>ss_plans := ps\<rparr>"
      obtain r w where w: "cl_write (se_client env) req (ss_world st) = (r, w)" by fastforce
      define st2 where "st2 = st1\<lparr>ss_world := w, ss_sent := ss_sent st1 @ [req]\<rparr>"
      have s: "send env req st1 = (r, st2)" by (simp add: send_def w st1_def st2_def)
      have g: "stockInstallIssueOrConfirm env dry confirm tok plan st = (Confirmed, st1)"
        using True \<open>\<not> dry\<close> b c by (simp add: stockInstallIssueOrConfirm_def stock_plan_consume_def Let_def st1_def)
      have q: "ss_plans (snd (k r st2)) = ss_plans st2 \<and> ss_sent (snd (k r st2)) = ss_sent st2 \<and> shown_plan (fst (k r st2)) = None \<and>
          (executed_ok (fst (k r st2)) \<longrightarrow> read_back env (fst (k r st2)))"
        using k[OF \<open>\<not> dry\<close>, of st2 r] by (simp add: tool_effect_def)
      have "stock_fits env inp plan [req]" using fits True \<open>\<not> dry\<close> by simp
      moreover obtain r' st3 where kr: "k r st2 = (r', st3)" by fastforce
      ultimately have "tool_effect False env inp st (r', st3)"
        using op b q by (intro effect_consume[of env inp plan st b st3 "[req]"]) (simp_all add: st1_def st2_def)
      then show ?thesis by (simp add: g s kr)
    qed
  qed
qed

lemma effect_executeStockPlan:
  assumes "dry = in_dry inp" "confirm = in_confirm inp" "tok = in_token inp"
    and "\<not> dry \<Longrightarrow> confirm \<Longrightarrow> stock_fits env inp plan [req]"
  shows "tool_effect False env inp st (executeStockPlan env dry confirm tok plan req st)"
  unfolding executeStockPlan_def Let_def
  by (rule effect_execute[OF assms]) (rule effect_rules | rule effect.prod | (simp; fail))+

section \<open>The ten tools\<close>

lemma f_eq_Fin: "f_eq (Fin a) (Fin b) \<longleftrightarrow> a = b"
  by (simp add: f_eq_def)

lemma ParseFloat_neg_zero: "ParseFloat ''-0'' = Some NegZero" "ParseFloat (CHR ''-'' # fixed5 0) = Some NegZero"
proof -
  have "is_decimal ''0''" "dec_val ''0'' = 0" by (simp_all add: is_decimal_def is_digit_def dec_val_def digits_val_def digit_val_def)
  then show "ParseFloat ''-0'' = Some NegZero" by (simp add: ParseFloat_def Let_def round64_def)
  show "ParseFloat (CHR ''-'' # fixed5 0) = Some NegZero" by (simp add: ParseFloat_def Let_def dec_val_fixed5 round64_def)
qed

lemma trimmed_neg_zero:
  "trim_right (\<lambda>c. c = CHR ''.'') (trim_right (\<lambda>c. c = CHR ''0'') (CHR ''-'' # fixed5 0)) = ''-0''"
proof -
  have "show_nat 0 = [CHR ''0'']" by code_simp
  moreover have "replicate 4 c = [c, c, c, c]" for c :: char by (simp add: numeral_eq_Suc)
  ultimately have "fixed5 0 = ''0.00000''" by (simp add: fixed5_def pad_left_def)
  then show ?thesis by (simp add: trim_right_def)
qed

lemma normalized_shape:
  "normalizedStockDecimal q z = Some (s, n) \<Longrightarrow> ParseFloat (FormatFloat5 q) = Some n \<and>
    s = (let t = trim_right (\<lambda>c. c = CHR ''.'') (trim_right (\<lambda>c. c = CHR ''0'') (FormatFloat5 q)) in if t = [] then ''0'' else t)"
  by (auto simp: normalizedStockDecimal_def Let_def split: if_splits option.splits prod.splits)

text \<open>The text sent parses to the float64 of the plan.\<close>

lemma normalized_parse: "normalizedStockDecimal q z = Some (s, n) \<Longrightarrow> ParseFloat s = Some n"
proof -
  assume a: "normalizedStockDecimal q z = Some (s, n)"
  from normalized_finite[OF a] show ?thesis
  proof (elim disjE exE)
    assume q: "q = NegZero"
    have f: "FormatFloat5 NegZero = CHR ''-'' # fixed5 0" by simp
    have "s = ''-0''" "n = NegZero"
      using normalized_shape[OF a[unfolded q]] unfolding f trimmed_neg_zero ParseFloat_neg_zero by simp_all
    then show ?thesis using ParseFloat_neg_zero(1) by simp
  next
    fix v assume "q = Fin v"
    then show ?thesis using normalized_cases[of v z s n] a by blast
  qed
qed

lemma normalized_positive:
  assumes "normalizedStockDecimal q False = Some (s, n)"
  shows "(\<exists>v. q = Fin v \<and> 0 < v) \<and> (\<exists>r. n = Fin r \<and> 0 < r)"
proof -
  have "q \<noteq> NegZero" using assms by (auto simp: normalizedStockDecimal_def f_lt_def f_eq_def)
  then obtain v where v: "q = Fin v" using normalized_finite[OF assms] by blast
  note c = normalized_cases[OF assms[unfolded v] refl]
  have "round64 (of_nat 0 / 10 ^ 5) = Fin 0" by (simp add: round64_def)
  then have "scaled5 v \<noteq> 0" using c f_eq_Fin[of 0 0] by metis
  then show ?thesis using c v scaled5_round64[of "scaled5 v"] by fastforce
qed

lemma plan_simps [simp]:
  "sp_Before (new_plan a b c r) = b" "sp_After (new_plan a b c r) = c" "sp_Reason (new_plan a b c r) = r"
  "sp_WillDelete (new_plan a b c r) = False" "sp_Transfer (new_plan a b c r) = None" "sp_Install (new_plan a b c r) = None"
  by (simp_all add: new_plan_def)

lemma snapshot_simps [simp]:
  "sn_StockItemID (snapshotStockItem i) = si_PK i" "sn_Quantity (snapshotStockItem i) = si_Quantity i"
  "sn_LocationID (snapshotStockItem i) = si_Location i" "sn_Serial (snapshotStockItem i) = si_Serial i"
  "sn_Status (snapshotStockItem i) = si_Status i" "sn_DeleteOnDeplete (snapshotStockItem i) = si_DeleteOnDeplete i"
  "sn_PartID (snapshotStockItem i) = si_Part i"
  by (simp_all add: snapshotStockItem_def)

lemma signbit_copy:
  assumes "normalizedStockDecimal (f_abs d) False = Some (s, n)"
  shows "f_lt (Fin 0) d \<Longrightarrow> copysign n d = n" "\<not> f_lt (Fin 0) d \<Longrightarrow> copysign n d = f_neg n"
proof -
  obtain v r where v: "f_abs d = Fin v" "0 < v" "n = Fin r" "0 < r" using normalized_positive[OF assms] by blast
  have "d = Fin v \<or> d = Fin (- v)" using v(1,2) by (cases d) (auto simp: f_abs_def split: if_splits)
  then show "f_lt (Fin 0) d \<Longrightarrow> copysign n d = n" "\<not> f_lt (Fin 0) d \<Longrightarrow> copysign n d = f_neg n"
    using v by (auto simp: f_lt_def copysign_def)
qed

lemma effect_adjust: "tool_effect False env (Adjust i) st (adjustStockQuantity env i st)"
  unfolding adjustStockQuantity_def
  by (rule effect_rules | rule effect_executeStockPlan | rule effect.prod | (simp; fail)
    | (simp add: stock_fits_def normalized_parse signbit_copy; fail) | (auto simp: stock_fits_def normalized_parse signbit_copy; fail))+

lemma effect_status: "tool_effect False env (SetStatus i) st (setStockStatus env i st)"
  unfolding setStockStatus_def
  by (rule effect_rules | rule effect_executeStockPlan | rule effect.prod | (simp; fail) | (simp add: stock_fits_def; fail))+

lemma effect_count: "tool_effect False env (Count i) st (stocktakeAdjustment env i st)"
  unfolding stocktakeAdjustment_def
  by (rule effect_rules | rule effect_executeStockPlan | rule effect.prod | (simp; fail)
    | (simp add: stock_fits_def normalized_parse; fail))+

lemma effect_policy: "tool_effect False env (Policy i) st (setStockDeleteOnDeplete env i st)"
  unfolding setStockDeleteOnDeplete_def
  by (rule effect_rules | rule effect_executeStockPlan | rule effect.prod | (simp; fail) | (simp add: stock_fits_def; fail))+

lemma effect_assign_serial: "tool_effect False env (AssignSerial i) st (assignStockSerial env i st)"
  unfolding assignStockSerial_def
  by (rule effect_rules | rule effect_executeStockPlan | rule effect.prod | (simp; fail) | (simp add: stock_fits_def; fail))+

lemma effect_set_serial: "tool_effect False env (SetSerial i) st (setStockSerial env i st)"
  unfolding setStockSerial_def
  by (rule effect_rules | rule effect_executeStockPlan | rule effect.prod | (simp; fail) | (simp add: stock_fits_def set_serial_plan_def; fail))+

text \<open>The executions that verify after a write whose outcome is unknown.\<close>

lemma effect_verify_depletion [effect_rules]:
  "\<not> so_DryRun out \<Longrightarrow> tool_effect True env inp st (verifyStockDepletion env plan out rec st)"
  unfolding verifyStockDepletion_def
  by (rule effect_rules | rule effect.prod | (simp; fail))+

lemma effect_verify_install [effect_rules]:
  "\<not> so_DryRun out \<Longrightarrow> tool_effect True env inp st (verifyStockInstall env plan ins out rec st)"
  unfolding verifyStockInstall_def
  by (rule effect_rules | rule effect.prod | (simp split: option.splits; fail))+

lemma effect_verify_uninstall [effect_rules]:
  "\<not> so_DryRun out \<Longrightarrow> tool_effect True env inp st (verifyStockUninstall env plan out rec st)"
  unfolding verifyStockUninstall_def
  by (rule effect_rules | rule effect.prod | (simp; fail))+

lemma effect_verify_transfer [effect_rules]:
  "\<not> so_DryRun out \<Longrightarrow> tool_effect True env inp st (verifyStockTransfer env plan t out rec st)"
  unfolding verifyStockTransfer_def verifyPartialStockTransfer_def
  by (rule effect_rules | rule effect.prod | (simp split: option.splits list.splits prod.splits; fail))+

lemma new_output_dry [simp]: "so_DryRun (new_output d) = d"
  by (simp add: new_output_def)

lemma effect_deplete: "tool_effect False env (Deplete i) st (depleteStockItem env i st)"
  unfolding depleteStockItem_def executeStockDepletion_def
  by (rule effect_rules | rule effect_execute | rule effect.prod | (simp; fail)
    | (simp add: stock_fits_def depletion_plan_def normalized_parse; fail))+

text \<open>The text of the quantity to move parses to the plan's quantity.\<close>

lemma chooseSplit_quantity:
  assumes "chooseSplit env inp before d qt st = (Inr c, st1)" "ParseFloat qt = Some (si_Quantity before)"
  shows "ParseFloat (sc_Text c) = Some (if tr_Quantity inp = None then si_Quantity before else sc_Quantity c)"
  using assms by (auto simp: chooseSplit_def normalized_parse split: option.splits prod.splits sum.splits if_splits)

lemma effect_transfer: "tool_effect False env (Transfer i) st (transferStockItem env i st)"
  unfolding transferStockItem_def executeStockTransfer_def
  by (rule effect_rules | rule effect_execute | rule effect.prod | (simp; fail)
    | (simp add: stock_fits_def transfer_plan_def transfer_context_of_def stockTransferLocation_def Let_def;
       drule chooseSplit_quantity; simp add: normalized_parse split: option.splits; fail))+

lemma effect_install: "tool_effect False env (Install i) st (installStockItem env i st)"
  unfolding installStockItem_def executeStockInstall_def
  by (rule effect_rules | rule effect_execute | rule effect.prod | (simp; fail)
    | (simp add: stock_fits_def install_plan_def install_context_of_def normalized_parse; fail))+

lemma effect_uninstall: "tool_effect False env (Uninstall i) st (uninstallStockItem env i st)"
  unfolding uninstallStockItem_def executeStockUninstall_def
  by (rule effect_rules | rule effect_execute | rule effect.prod | (simp; fail)
    | (simp add: stock_fits_def uninstall_plan_def normalized_parse; fail))+

lemma effect_stock_step: "tool_effect False (env\<lparr>se_call := fst c\<rparr>) (snd c) st (stock_step env c st)"
  unfolding stock_step_def
  by (rule effect_LookupHandler, cases "snd c")
    (simp_all add: effect_adjust effect_status effect_count effect_policy effect_assign_serial effect_set_serial
      effect_deplete effect_transfer effect_install effect_uninstall)

interpretation stock: reviewed_tool "stock_step env" ss_plans ss_sent stockPlanLifetime "se_digest env" plan_key fst
  "\<lambda>c. in_token (snd c)" shown_plan "\<lambda>c. stock_fits (env\<lparr>se_call := fst c\<rparr>) (snd c)" for env :: "'w stock_env"
proof unfold_locales
  fix c :: "plan_call \<times> stock_input" and s s' :: "'w stock_state" and out
  assume "stock_step env c s = (out, s')"
  then show "(ss_plans s' = ss_plans s \<and> ss_sent s' = ss_sent s \<and> shown_plan out = None) \<or>
      (\<exists>plan t. plan_issue_op stockPlanLifetime (se_digest env) plan_key (fst c, plan) (ss_plans s) = (t, ss_plans s') \<and> ss_sent s' = ss_sent s \<and>
         shown_plan out = map_option (\<lambda>t. (t, plan)) t) \<or>
      (\<exists>plan b reqs. plan_consume_op (se_digest env) plan_key (fst c, in_token (snd c), plan) (ss_plans s) = (b, ss_plans s') \<and>
         ss_sent s' = ss_sent s @ reqs \<and> shown_plan out = None \<and> (reqs = [] \<or> b \<and> stock_fits (env\<lparr>se_call := fst c\<rparr>) (snd c) plan reqs))"
    using effect_stock_step[where env = env and c = c and st = s] by (simp add: tool_effect_def)
qed

end
