(* ===== verification/Stock_Safety.thy ===== *)
theory Stock_Safety
  imports Stock_Review
begin

text \<open>
  What the stock tools promise, over any sequence of calls against any InvenTree: writes were
  reviewed, an ok answer was read back, an install never closes a cycle, a depletion is refused for
  an item that is bound to anything else. A small executable InvenTree carries the witnesses.
\<close>

section \<open>Reviewed writes\<close>


text \<open>C1: Over any sequence of calls of the ten stock tools from an empty confirmation store, against
  any InvenTree, a call that writes sends exactly one request, is a confirmed execution, and the
  request fits a plan with the digest and key of a plan that an earlier dry run showed, together
  with the token now supplied, to the same user less than five minutes before: the item named by the
  caller, the reviewed quantity, status, location, parent or flag, and the reviewed reason.\<close>

theorem stock_writes_reviewed:
  assumes "ss_plans st = newStockPlanStore" and "n < length cs" "tool_trace (stock_step env) cs st ! n = (c, s1, out, s2)"
    and "ss_sent s2 \<noteq> ss_sent s1"
  shows "\<exists>j c0 s0 out0 s0' p0 plan req. j < n \<and> tool_trace (stock_step env) cs st ! j = (c0, s0, out0, s0') \<and>
    shown_plan out0 = Some (in_token (snd c), p0) \<and>
    map_option ti_UserID (pc_info (fst c0)) = map_option ti_UserID (pc_info (fst c)) \<and> pc_now (fst c) < pc_now (fst c0) + stockPlanLifetime \<and>
    is_ok (se_digest env p0) \<and> se_digest env plan = se_digest env p0 \<and> plan_key plan = plan_key p0 \<and>
    ss_sent s2 = ss_sent s1 @ [req] \<and> \<not> in_dry (snd c) \<and> in_confirm (snd c) \<and> write_fits (in_item (snd c)) plan req \<and>
    (reads_exact (se_client env) \<longrightarrow> sn_StockItemID (sp_Before plan) = in_item (snd c))"
proof -
  have inv: "plan_inv stockPlanMaxEntries stockPlanMaxEntriesPerPrincipal (ss_plans st)"
    unfolding assms(1) newStockPlanStore_def by (rule new_plan_store_inv) (simp add: stockPlanMaxEntriesPerPrincipal_def)
  have "map_of (ps_entries (ss_plans st)) t = None" for t by (simp add: assms(1) newStockPlanStore_def new_plan_store_def)
  from stock.writes_were_shown[OF inv this assms(2-4)] show ?thesis unfolding stock_fits_def by fastforce
qed

text \<open>Over any sequence of calls of the stock tools from an empty confirmation store, the calls
  that write with a token are at most as many as the dry runs that returned it: a reviewed plan is
  executed at most once.\<close>

theorem stock_token_writes_once:
  assumes "ss_plans st = newStockPlanStore"
  shows "length (filter (\<lambda>(c, s, out, s'). in_token (snd c) = t \<and> ss_sent s' \<noteq> ss_sent s) (tool_trace (stock_step env) cs st)) \<le>
    length (filter (\<lambda>(c, s, out, s'). map_option fst (shown_plan out) = Some t) (tool_trace (stock_step env) cs st))"
proof -
  have inv: "plan_inv stockPlanMaxEntries stockPlanMaxEntriesPerPrincipal (ss_plans st)"
    unfolding assms(1) newStockPlanStore_def by (rule new_plan_store_inv) (simp add: stockPlanMaxEntriesPerPrincipal_def)
  show ?thesis by (rule stock.writes_le_shown[OF inv]) (simp add: assms(1) newStockPlanStore_def new_plan_store_def)
qed

lemma sanitized_call [simp]: "sanitizedStockItem (env\<lparr>se_call := x\<rparr>) = sanitizedStockItem env"
  by (intro ext) (simp add: sanitizedStockItem_def)


definition demo_item :: stock_item where
  "demo_item = \<lparr>si_PK = 7, si_Part = 3, si_Location = Some 2, si_Quantity = Fin 1, si_Serial = None, si_Batch = None,
     si_ExpiryDate = None, si_Packaging = None, si_Link = '''', si_Status = 10, si_StatusCustomKey = None,
     si_DeleteOnDeplete = True, si_InStock = True, si_IsBuilding = False, si_Owner = None, si_SupplierPart = None,
     si_Build = None, si_ConsumedBy = None, si_Customer = None, si_SalesOrder = None, si_BelongsTo = None, si_Parent = None,
     si_Allocated = Some (Fin 0), si_InstalledItems = Some 0, si_ChildItems = Some 0, si_TrackingItems = None,
     si_PurchasePrice = None, si_PurchasePriceCurrency = '''', si_CreationDate = None, si_PurchaseOrder = None\<rparr>"

definition demo_not_found :: go_error where
  "demo_not_found = ApiError \<lparr>ae_StatusCode = 404, ae_Kind = KindNotFound, ae_Method = ''GET'', ae_Path = ''/'', ae_Detail = '''', ae_FieldErrors = []\<rparr>"

text \<open>A small InvenTree: a table of stock items, every request carried out.\<close>

definition demo_client :: "(int \<rightharpoonup> stock_item) stock_client" where
  "demo_client = \<lparr>
     cl_GetStockItem = (\<lambda>i w. (case w i of None \<Rightarrow> Inl demo_not_found | Some item \<Rightarrow> Inr item, w)),
     cl_GetStockLocation = (\<lambda>i w. (Inr \<lparr>sl_PK = i, sl_Name = ''l'', sl_Parent = None, sl_Path = [], sl_Structural = False,
        sl_External = False, sl_Owner = None, sl_LocationType = None\<rparr>, w)),
     cl_GetPart = (\<lambda>i w. (Inr \<lparr>pr_PK = i, pr_Trackable = True\<rparr>, w)),
     cl_GetGlobalSetting = (\<lambda>k w. (Inr ''true'', w)),
     cl_SearchStockItems = (\<lambda>q w. (Inr [], w)),
     cl_SearchStockItemsPage = (\<lambda>q w. (Inr ([], False), w)),
     cl_SearchBomItems = (\<lambda>q w. (Inr [\<lparr>bi_Part = 3, bi_SubPart = 3\<rparr>], w)),
     cl_write = (\<lambda>req w. (None, case req of
         ChangeStockStatus [i] s note \<Rightarrow> w(i := map_option (\<lambda>item. item\<lparr>si_Status := s\<rparr>) (w i))
       | RemoveStock a \<Rightarrow> w(fst (hd (sa_Items a)) := None)
       | InstallStockItem p c n note \<Rightarrow> w(c := map_option (\<lambda>item. item\<lparr>si_BelongsTo := Some p, si_Location := None\<rparr>) (w c))
       | _ \<Rightarrow> w))\<rparr>"

definition demo_env :: "(int \<rightharpoonup> stock_item) stock_env" where
  "demo_env = \<lparr>se_call = demo_call 0 ''a'', se_digest = (\<lambda>p. Inr (show_int (sn_Status (sp_After p)))),
     se_marshal = (\<lambda>_. ''''), se_parse = (\<lambda>_. None), se_client = demo_client\<rparr>"

definition demo_state :: "(int \<rightharpoonup> stock_item) stock_state" where
  "demo_state = \<lparr>ss_world = [7 \<mapsto> demo_item, 8 \<mapsto> demo_item\<lparr>si_PK := 8\<rparr>], ss_plans = newStockPlanStore, ss_sent = [], ss_outcome = None\<rparr>"

definition demo_status :: "bool \<Rightarrow> status_input" where
  "demo_status dry = \<lparr>ti_DryRun = dry, ti_Confirm = \<not> dry, ti_PlanHash = (if dry then '''' else ''a''), ti_StockItemID = 7,
     ti_Status = 55, ti_Reason = ''dropped''\<rparr>"

definition demo_calls :: "(plan_call \<times> stock_input) list" where
  "demo_calls = [(demo_call 0 ''a'', SetStatus (demo_status True)), (demo_call 1 ''b'', SetStatus (demo_status False))]"

lemma demo_trim: "trim_space ''dropped'' = ''dropped''"
  by code_simp

lemma demo_strings: "show_int 55 = ''55''" "map_of stockStatusNames 55 = Some ''Damaged''"
  by code_simp+

lemmas demo_sets = demo_env_def demo_client_def demo_item_def demo_state_def demo_status_def demo_calls_def demo_call_def demo_trim demo_strings

lemmas gate_defs = stockInstallIssueOrConfirm_def stock_plan_issue_def stock_plan_consume_def plan_issue_purge_def plan_consume_def
  newStockPlanStore_def new_plan_store_def

lemmas store_defs = plan_insert_def deleteExpired_def gm_keep_def gm_put_def gm_del_def stockPlanMaxEntries_def
  stockPlanMaxEntriesPerPrincipal_def stockPlanLifetime_def minute_def stockPlanPrincipal_def

lemma demo_run:
  "snd (stock_step demo_env (demo_calls ! 0) demo_state) = demo_state\<lparr>ss_plans := newStockPlanStore\<lparr>ps_entries :=
     [(''a'', \<lparr>cf_digest = ''55'', cf_principal = ''stdio'', cf_key = (''set_stock_status'', 7), cf_expiresAt = 5 * minute\<rparr>)]\<rparr>\<rparr>"
  by (simp add: demo_sets stock_step_def LookupHandler_def setStockStatus_def prepareStockAdjustment_def fetch_def
      executeStockPlan_def Let_def gate_defs store_defs plan_key_def new_plan_def)

lemma demo_sent:
  "ss_sent (snd (stock_step demo_env (demo_calls ! 1) (snd (stock_step demo_env (demo_calls ! 0) demo_state)))) = [ChangeStockStatus [7] 55 ''dropped'']"
  unfolding demo_run by (simp add: demo_sets stock_step_def LookupHandler_def setStockStatus_def prepareStockAdjustment_def fetch_def
      executeStockPlan_def Let_def gate_defs store_defs plan_key_def new_plan_def send_def)

lemma demo_sent0: "ss_sent (snd (stock_step demo_env (demo_calls ! 0) demo_state)) = []"
  unfolding demo_run by (simp add: demo_state_def)

lemma demo_plans: "ss_plans demo_state = newStockPlanStore"
  by (simp add: demo_state_def)

theorem stock_writes_reviewed_witness:
  "\<exists>j c0 s0 out0 s0' p0. j < (1::nat) \<and> tool_trace (stock_step demo_env) demo_calls demo_state ! j = (c0, s0, out0, s0') \<and>
    shown_plan out0 = Some (''a'', p0)"
proof -
  let ?s1 = "snd (stock_step demo_env (demo_calls ! 0) demo_state)"
  have l: "demo_calls = [demo_calls ! 0, demo_calls ! 1]" by (simp add: demo_calls_def)
  have tr: "tool_trace (stock_step demo_env) demo_calls demo_state ! 1 =
    (demo_calls ! 1, ?s1, fst (stock_step demo_env (demo_calls ! 1) ?s1), snd (stock_step demo_env (demo_calls ! 1) ?s1))"
    by (subst l) (simp add: Let_def split: prod.splits)
  have n: "(1::nat) < length demo_calls" by (simp add: demo_calls_def)
  have ne: "ss_sent (snd (stock_step demo_env (demo_calls ! 1) ?s1)) \<noteq> ss_sent ?s1" using demo_sent demo_sent0 by simp
  have i: "in_token (snd (demo_calls ! 1)) = ''a''"
    by (simp add: demo_calls_def demo_status_def)
  show ?thesis using stock_writes_reviewed[OF demo_plans n tr ne] unfolding i by blast
qed

theorem stock_token_writes_once_witness:
  "length (filter (\<lambda>(c, s, out, s'). in_token (snd c) = ''a'' \<and> ss_sent s' \<noteq> ss_sent s) (tool_trace (stock_step demo_env) demo_calls demo_state)) \<le>
    length (filter (\<lambda>(c, s, out, s'). map_option fst (shown_plan out) = Some ''a'') (tool_trace (stock_step demo_env) demo_calls demo_state)) \<and>
    ss_sent (snd (stock_step demo_env (demo_calls ! 1) (snd (stock_step demo_env (demo_calls ! 0) demo_state)))) \<noteq> []"
  using stock_token_writes_once[OF demo_plans, of "''a''" demo_env demo_calls] demo_sent by simp

section \<open>What a call sends\<close>

text \<open>A call sends nothing or one request, for which \<open>Q\<close> holds.\<close>

definition sends_only :: "(stock_write \<Rightarrow> bool) \<Rightarrow> 'w stock_state \<Rightarrow> (go_error + stock_output) \<times> 'w stock_state \<Rightarrow> bool" where
  "sends_only Q st p \<longleftrightarrow> ss_sent (snd p) = ss_sent st \<or> (\<exists>req. ss_sent (snd p) = ss_sent st @ [req] \<and> Q req)"

interpretation sends: stock_branches "sends_only Q" for Q
  by unfold_locales (simp_all add: sends_only_def)

lemmas sends_early [effect_rules] = sends.early

lemma gate_sends: "stockInstallIssueOrConfirm env dry confirm tok plan st = (g, st1) \<Longrightarrow> ss_sent st1 = ss_sent st \<and> (g = Confirmed \<longrightarrow> \<not> dry)"
  by (auto simp: stockInstallIssueOrConfirm_def stock_plan_issue_def stock_plan_consume_def Let_def split: if_splits prod.splits sum.splits bool.splits)

text \<open>Behind the gate there is one request, and what follows it only reads.\<close>

lemma sends_gate:
  assumes "\<not> dry \<Longrightarrow> Q req" and k: "\<And>r st2. \<not> dry \<Longrightarrow> tool_effect True env inp st2 (k r st2)"
  shows "sends_only Q st (case stockInstallIssueOrConfirm env dry confirm tok plan st of
    (g, st1) \<Rightarrow> (case g of Done r \<Rightarrow> (r, st1) | Confirmed \<Rightarrow> (case send env req st1 of (r, st2) \<Rightarrow> k r st2)))"
proof -
  obtain g st1 where g: "stockInstallIssueOrConfirm env dry confirm tok plan st = (g, st1)" by fastforce
  obtain r st2 where s: "send env req st1 = (r, st2)" by fastforce
  have s2: "ss_sent st2 = ss_sent st1 @ [req]" using s by (auto simp: send_def split: prod.splits)
  have "ss_sent (snd (k r st2)) = ss_sent st2" if "\<not> dry" using k[OF that, of st2 r] by (simp add: tool_effect_def)
  then show ?thesis unfolding g using gate_sends[OF g] assms(1) s2 by (cases g) (auto simp: s sends_only_def)
qed

lemma sends_execute [effect_rules]:
  "(\<not> dry \<Longrightarrow> Q (InstallStockItem (ic_ParentID ins) (sn_StockItemID (sp_Before plan)) 1 (sp_Reason plan))) \<Longrightarrow>
    sends_only Q st (executeStockInstall env dry confirm tok plan ins st)"
  unfolding executeStockInstall_def Let_def
  by (rule sends_gate[where inp = "Install undefined"]) (assumption | rule effect_rules | (simp; fail))+

lemma sends_executeStockDepletion [effect_rules]:
  "(\<not> di_DryRun inp \<Longrightarrow> Q (RemoveStock \<lparr>sa_Items = [(di_StockItemID inp, q)], sa_Notes = sp_Reason plan\<rparr>)) \<Longrightarrow>
    sends_only Q st (executeStockDepletion env inp plan q st)"
  unfolding executeStockDepletion_def Let_def
  by (rule sends_gate[where inp = "Deplete undefined"]) (assumption | rule effect_rules | (simp; fail))+

section \<open>Installing\<close>

text \<open>One item is installed in another.\<close>

definition belongs :: "(int \<rightharpoonup> stock_item) \<Rightarrow> int \<Rightarrow> int \<Rightarrow> bool" where
  "belongs T a b \<longleftrightarrow> (\<exists>item. T a = Some item \<and> si_BelongsTo item = Some b)"

text \<open>Reading returns records of the server's table and changes nothing; no one else writes meanwhile.\<close>

definition quiet_reads :: "'w stock_client \<Rightarrow> ('w \<Rightarrow> int \<rightharpoonup> stock_item) \<Rightarrow> bool" where
  "quiet_reads cl tab \<longleftrightarrow> (\<forall>i w item w'. cl_GetStockItem cl i w = (Inr item, w') \<longrightarrow> w' = w \<and> tab w i = Some item)"

lemma quiet_fetch:
  "quiet_reads (se_client env) tab \<Longrightarrow> fetch (cl_GetStockItem (se_client env) i) s = (x, s1) \<Longrightarrow> x = Inr item \<Longrightarrow>
    ss_world s1 = ss_world s \<and> tab (ss_world s) i = Some item"
  by (auto simp: fetch_def quiet_reads_def split: prod.splits)

lemma belongs_step: "T p = Some cur \<Longrightarrow> (belongs T)\<^sup>+\<^sup>+ p c \<Longrightarrow> \<exists>b. si_BelongsTo cur = Some b \<and> (b = c \<or> (belongs T)\<^sup>+\<^sup>+ b c)"
proof -
  assume T: "T p = Some cur" and b: "(belongs T)\<^sup>+\<^sup>+ p c"
  from tranclpD[OF b] obtain z where z: "belongs T p z" "(belongs T)\<^sup>*\<^sup>* z c" by blast
  have "si_BelongsTo cur = Some z" using z(1) T by (simp add: belongs_def)
  then show ?thesis using rtranclpD[OF z(2)] by auto
qed

lemma cycleLoop_acyclic:
  assumes tab: "quiet_reads (se_client env) tab"
  shows "cycleLoop env out child n seen cur st = (None, st1) \<Longrightarrow> tab (ss_world st) p = Some cur \<Longrightarrow>
    \<not> (belongs (tab (ss_world st)))\<^sup>+\<^sup>+ p child"
proof (induction n arbitrary: seen cur st p)
  case 0
  then show ?case using belongs_step[of "tab (ss_world st)" p cur child] by (cases "si_BelongsTo cur"; cases "si_BelongsTo cur = Some child") auto
next
  case (Suc n)
  show ?case
  proof
    assume "(belongs (tab (ss_world st)))\<^sup>+\<^sup>+ p child"
    then obtain b where b: "si_BelongsTo cur = Some b" "b = child \<or> (belongs (tab (ss_world st)))\<^sup>+\<^sup>+ b child" using belongs_step[of "tab (ss_world st)" p cur child] Suc.prems(2) by blast
    have nb: "b \<noteq> child" "b \<notin> set seen" using Suc.prems(1) b(1) by (cases "b = child"; cases "b \<in> set seen"; simp)+
    obtain y st2 where f: "fetch (cl_GetStockItem (se_client env) b) st = (y, st2)" by fastforce
    obtain item where y: "y = Inr item" "cycleLoop env out child n (si_PK item # seen) item st2 = (None, st1)"
      using Suc.prems(1) b(1) nb f by (cases y) auto
    have "ss_world st2 = ss_world st" "tab (ss_world st) b = Some item" using quiet_fetch[OF tab f y(1)] by simp_all
    then show False using Suc.IH[OF y(2), of b] b(2) nb by simp
  qed
qed

text \<open>When the handler writes, it has read both items, found the child free and the parent not inside it.\<close>

lemma install_checks:
  assumes tab: "quiet_reads (se_client env) tab" and T: "T = tab (ss_world st)"
  shows "sends_only (\<lambda>req. req = InstallStockItem (ii_ParentStockItemID inp) (ii_ChildStockItemID inp) 1 (trim_space (ii_Reason inp)) \<and>
      ii_ParentStockItemID inp \<noteq> ii_ChildStockItemID inp \<and> \<not> (belongs T)\<^sup>+\<^sup>+ (ii_ParentStockItemID inp) (ii_ChildStockItemID inp) \<and>
      (\<exists>child parent. T (ii_ChildStockItemID inp) = Some child \<and> T (ii_ParentStockItemID inp) = Some parent \<and>
        si_BelongsTo child = None \<and> si_InStock child \<and> unsafeStockInstallChild child = None \<and> unsafeStockInstallParent parent = None \<and>
        map_option fst (normalizedStockDecimal (si_Quantity child) False) = Some ''1'')) st (installStockItem env inp st)"
  unfolding installStockItem_def Let_def T
  apply (rule effect_rules | rule sends.prod | (simp; fail))+
  apply (auto dest!: quiet_fetch[OF tab] cycleLoop_acyclic[OF tab] intro: sends.early
    simp: stockInstallCycleCheck_def install_plan_def install_context_of_def)
  done

text \<open>The table after the item is installed.\<close>

definition installed :: "int \<Rightarrow> int \<Rightarrow> (int \<rightharpoonup> stock_item) \<Rightarrow> int \<rightharpoonup> stock_item" where
  "installed p c T = T(c := map_option (\<lambda>item. item\<lparr>si_BelongsTo := Some p\<rparr>) (T c))"

lemma belongs_installed: "belongs (installed p c T) a b \<longleftrightarrow> (if a = c then T c \<noteq> None \<and> b = p else belongs T a b)"
  by (auto simp: belongs_def installed_def)

lemma installed_path:
  "(belongs (installed p c T))\<^sup>+\<^sup>+ a b \<Longrightarrow> (belongs T)\<^sup>+\<^sup>+ a b \<or> ((belongs T)\<^sup>*\<^sup>* a c \<and> (belongs T)\<^sup>*\<^sup>* p b)"
proof (induction rule: tranclp_induct)
  case (base b)
  then show ?case by (cases "a = c") (auto simp: belongs_installed split: if_splits)
next
  case (step y z)
  show ?case
  proof (cases "y = c")
    case True
    then have "z = p" "(belongs T)\<^sup>*\<^sup>* a c" using step.hyps(2) step.IH by (auto simp: belongs_installed dest: tranclp_into_rtranclp)
    then show ?thesis by simp
  next
    case False
    then have "belongs T y z" using step.hyps(2) by (simp add: belongs_installed)
    then show ?thesis using step.IH by (auto intro: tranclp.trancl_into_trancl rtranclp.rtrancl_into_rtrancl)
  qed
qed

text \<open>C7: If reading changes nothing and nobody else writes during the call, installing an item sends
  only the request for the two items named, both exist, the child is free and in stock and neither
  is bound elsewhere, and a table without an item inside itself has none after the child is put
  into the parent, however deep the parent is nested.\<close>

theorem install_keeps_acyclic:
  assumes "quiet_reads (se_client env) tab" "T = tab (ss_world st)" "installStockItem env inp st = (r, st')" "ss_sent st' \<noteq> ss_sent st"
    and "\<forall>x. \<not> (belongs T)\<^sup>+\<^sup>+ x x"
  shows "ss_sent st' = ss_sent st @ [InstallStockItem (ii_ParentStockItemID inp) (ii_ChildStockItemID inp) 1 (trim_space (ii_Reason inp))] \<and>
    (\<forall>x. \<not> (belongs (installed (ii_ParentStockItemID inp) (ii_ChildStockItemID inp) T))\<^sup>+\<^sup>+ x x) \<and>
    (\<exists>child parent. T (ii_ChildStockItemID inp) = Some child \<and> T (ii_ParentStockItemID inp) = Some parent \<and>
      si_BelongsTo child = None \<and> si_InStock child \<and> unsafeStockInstallChild child = None \<and> unsafeStockInstallParent parent = None)"
proof -
  let ?p = "ii_ParentStockItemID inp" and ?c = "ii_ChildStockItemID inp"
  note s = install_checks[OF assms(1,2), of inp, unfolded assms(3) sends_only_def snd_conv]
  then have n: "?p \<noteq> ?c" "\<not> (belongs T)\<^sup>+\<^sup>+ ?p ?c" using assms(4) by blast+
  have "\<not> (belongs (installed ?p ?c T))\<^sup>+\<^sup>+ x x" for x
  proof
    assume "(belongs (installed ?p ?c T))\<^sup>+\<^sup>+ x x"
    then have "(belongs T)\<^sup>*\<^sup>* ?p ?c" using installed_path[of ?p ?c T x x] assms(5) by (auto intro: rtranclp_trans)
    then show False using n by (auto dest: rtranclpD)
  qed
  then show ?thesis using s assms(4) by blast
qed

text \<open>A depletion is sent only for an item bound to nothing.\<close>

definition free_to_deplete :: "stock_item \<Rightarrow> bool" where
  "free_to_deplete item \<longleftrightarrow> \<not> stockItemHasSerial item \<and> si_DeleteOnDeplete item \<and> si_InStock item \<and>
     (\<exists>a. si_Allocated item = Some a \<and> f_eq a (Fin 0)) \<and> \<not> si_IsBuilding item \<and> si_ConsumedBy item = None \<and>
     si_BelongsTo item = None \<and> si_Parent item = None \<and> si_InstalledItems item = Some 0 \<and> si_ChildItems item = Some 0"

lemma unsafeStockDepletion_None: "unsafeStockDepletion item = None \<Longrightarrow> free_to_deplete item"
  unfolding unsafeStockDepletion_def free_to_deplete_def by (auto split: if_splits)

lemma deplete_checks:
  assumes tab: "quiet_reads (se_client env) tab" and T: "T = tab (ss_world st)"
  shows "sends_only (\<lambda>req. \<exists>item q n. T (di_StockItemID inp) = Some item \<and> free_to_deplete item \<and>
      normalizedStockDecimal (si_Quantity item) False = Some (q, n) \<and>
      req = RemoveStock \<lparr>sa_Items = [(di_StockItemID inp, q)], sa_Notes = trim_space (di_Reason inp)\<rparr>) st (depleteStockItem env inp st)"
  unfolding depleteStockItem_def Let_def T
  apply (rule effect_rules | rule sends.prod | (simp; fail))+
  apply (auto dest!: quiet_fetch[OF tab] unsafeStockDepletion_None intro: sends.early simp: depletion_plan_def free_to_deplete_def stockItemHasSerial_def)
  done

text \<open>A verified depletion rests on a last read that did not find the item.\<close>

definition read_gone :: "'w stock_env \<Rightarrow> int \<Rightarrow> 'w \<Rightarrow> bool" where
  "read_gone env i w' \<longleftrightarrow> (\<exists>e w. isNotFound e \<and> cl_GetStockItem (se_client env) i w = (Inl e, w'))"

lemma read_goneI: "isNotFound e \<Longrightarrow> cl_GetStockItem (se_client env) i w = (Inl e, w') \<Longrightarrow> read_gone env i w'"
  by (auto simp: read_gone_def)

lemma verified_depletion:
  "verifyStockDepletion env plan out rec st = (Inr out', st') \<Longrightarrow> so_Verified out' \<Longrightarrow> \<not> so_Verified out \<Longrightarrow>
    read_gone env (sn_StockItemID (sp_Before plan)) (ss_world st')"
  by (auto simp: verifyStockDepletion_def fetch_def partial_output_def intro: read_goneI split: prod.splits sum.splits if_splits)

lemma not_verified [simp]: "\<not> so_Verified (new_output d)" "so_Verified (clarify out f r) = so_Verified out"
  by (simp_all add: new_output_def clarify_def)

lemma plan_error_not_verified: "plan_error_result out e = Inr out' \<Longrightarrow> so_Verified out' = so_Verified out"
  by (cases e) auto

lemma gate_not_verified: "stockInstallIssueOrConfirm env dry confirm tok plan st = (Done (Inr out), st1) \<Longrightarrow> \<not> so_Verified out"
  by (auto simp: stockInstallIssueOrConfirm_def Let_def dest!: plan_error_not_verified split: if_splits prod.splits sum.splits bool.splits)

lemma verified_execution:
  assumes "executeStockDepletion env inp plan q st = (Inr out, st')" "so_Verified out"
  shows "read_gone env (sn_StockItemID (sp_Before plan)) (ss_world st')"
  using assms by (auto simp: executeStockDepletion_def Let_def safe_fail_def dest: gate_not_verified
    dest!: verified_depletion split: prod.splits gate.splits after_write.splits)

text \<open>C8: If reading changes nothing and nobody else writes during the call, a depletion is sent only
  for an item without serial, marked delete-on-deplete, in stock, with nothing allocated, not being
  built, consumed, installed, split or holding other items; it removes the whole recorded quantity;
  and a depletion reported as verified rests on a last read that did not find the item.\<close>

theorem deplete_only_free_stock:
  assumes "quiet_reads (se_client env) tab" "T = tab (ss_world st)" "depleteStockItem env inp st = (r, st')"
  shows "(ss_sent st' \<noteq> ss_sent st \<longrightarrow> (\<exists>item q n. T (di_StockItemID inp) = Some item \<and> free_to_deplete item \<and>
      normalizedStockDecimal (si_Quantity item) False = Some (q, n) \<and>
      ss_sent st' = ss_sent st @ [RemoveStock \<lparr>sa_Items = [(di_StockItemID inp, q)], sa_Notes = trim_space (di_Reason inp)\<rparr>])) \<and>
    (\<forall>out. r = Inr out \<longrightarrow> so_Verified out \<longrightarrow>
      read_gone env (di_StockItemID inp) (ss_world st'))"
proof (intro conjI allI impI)
  assume "ss_sent st' \<noteq> ss_sent st"
  then show "\<exists>item q n. T (di_StockItemID inp) = Some item \<and> free_to_deplete item \<and>
      normalizedStockDecimal (si_Quantity item) False = Some (q, n) \<and>
      ss_sent st' = ss_sent st @ [RemoveStock \<lparr>sa_Items = [(di_StockItemID inp, q)], sa_Notes = trim_space (di_Reason inp)\<rparr>]"
    using deplete_checks[OF assms(1,2), of inp] unfolding assms(3) sends_only_def snd_conv by blast
next
  fix out assume "r = Inr out" "so_Verified out"
  then show "read_gone env (di_StockItemID inp) (ss_world st')"
    using assms(3) by (auto simp: depleteStockItem_def Let_def safe_fail_def depletion_plan_def
      dest!: verified_execution split: if_splits prod.splits sum.splits option.splits)
qed

section \<open>What reaches the completion log, and a serial that is cleared\<close>

text \<open>An InvenTree or transport error that a handler has already sanitised is sanitised again by
  LookupHandler: the text for the caller stays the same, but the outcome recorded for the completion
  log is always internal failure, whatever the error was.\<close>

theorem handler_errors_logged_internal:
  assumes "e \<noteq> Canceled" "e \<noteq> DeadlineExceeded"
  shows "LookupHandler (Inr ()) (safe_fail e) st = (Inl (fst (safeToolError e)), st\<lparr>ss_outcome := Some OutcomeInternalFailure\<rparr>)"
  using assms by (cases e) (simp_all add: LookupHandler_def safe_fail_def safeToolError_def Let_def split: option.splits)

text \<open>The comment of stockItemHasSerial says InvenTree reads back an empty string for stock without a serial;
  clearing a serial then never matches its plan.\<close>

lemma cleared_serial_reads_empty:
  "sr_ClearSerial inp \<Longrightarrow> si_Serial after = Some '''' \<Longrightarrow> \<not> stockStateMatches after (sp_After (set_serial_plan inp before))"
  by (simp add: stockStateMatches_def set_serial_plan_def Let_def)

section \<open>Witnesses\<close>

lemma nano_positive: "f_lt (Fin 0) nano"
proof -
  have "ilog2 999999999 = 29" by (simp add: ilog2.simps)
  moreover have "round_half_even (9444732965739290427392 / 1953125) = 4835703278458517"
    by (rule round_half_even_unique) simp
  ultimately show ?thesis by (simp add: nano_def round64_def ulp_exp_def binade_def pow2_def f_lt_def Let_def)
qed

lemma normalized_1: "normalizedStockDecimal (Fin 1) False = Some (''1'', Fin 1)"
proof -
  have d: "digit_char (Suc 0) = CHR ''1''" "digit_char 0 = CHR ''0''" by code_simp+
  have r: "replicate 4 c = [c, c, c, c]" for c :: char by (simp add: numeral_eq_Suc)
  have t: "fixed5 100000 = ''1.00000''" by (simp add: fixed5_def pad_left_def show_nat.simps d r)
  have s: "scaled5 1 = 100000" by (simp add: scaled5_def)
  have r1: "round64 1 = Fin 1" by (simp add: round64_def ulp_exp_def binade_def ilog2.simps pow2_def)
  have p: "ParseFloat ''1.00000'' = Some (Fin 1)"
    using ParseFloat_decimal[OF is_decimal_fixed5 dec_val_fixed5 hd_fixed5, of 100000] by (simp add: t r1)
  show ?thesis using nano_not_less_zero[of 1]
    by (simp add: normalizedStockDecimal_def f_lt_def f_eq_def s t p Let_def trim_right_def)
qed

lemma demo_status_ok: "\<exists>out st'. stock_step demo_env (demo_calls ! 1) (snd (stock_step demo_env (demo_calls ! 0) demo_state)) = (Inr out, st') \<and>
  so_Status out = st_ok \<and> \<not> so_DryRun out"
  unfolding demo_run using nano_positive
  by (simp add: demo_sets stock_step_def LookupHandler_def setStockStatus_def prepareStockAdjustment_def fetch_def
      executeStockPlan_def Let_def gate_defs store_defs plan_key_def new_plan_def send_def stockStateMatches_def snapshotStockItem_def
      f_sub_def f_abs_def round64_def new_output_def)


theorem handler_errors_logged_internal_witness:
  "ss_outcome (snd (LookupHandler (Inr ()) (safe_fail demo_not_found) demo_state)) = Some OutcomeInternalFailure"
  by (subst handler_errors_logged_internal) (simp_all add: demo_not_found_def)

text \<open>A state in which a dry run's token \<open>a\<close> is live for the plan with the given key.\<close>

definition demo_ready :: "string \<times> int \<Rightarrow> (int \<rightharpoonup> stock_item) stock_state" where
  "demo_ready key = demo_state\<lparr>ss_plans := newStockPlanStore\<lparr>ps_entries :=
     [(''a'', \<lparr>cf_digest = ''10'', cf_principal = ''stdio'', cf_key = key, cf_expiresAt = 5 * minute\<rparr>)]\<rparr>\<rparr>"

lemma demo_quiet: "quiet_reads (se_client demo_env) (\<lambda>w. w)"
  by (auto simp: quiet_reads_def demo_env_def demo_client_def split: option.splits)

lemma demo_status_text: "show_int 10 = ''10''"
  by code_simp

definition demo_deplete :: deplete_input where
  "demo_deplete = \<lparr>di_DryRun = False, di_Confirm = True, di_PlanHash = ''a'', di_StockItemID = 7, di_Reason = ''dropped''\<rparr>"

definition demo_install :: install_input where
  "demo_install = \<lparr>ii_DryRun = False, ii_Confirm = True, ii_PlanHash = ''a'', ii_ParentStockItemID = 7, ii_ChildStockItemID = 8,
     ii_Reason = ''dropped''\<rparr>"

lemma demo_depleted: "ss_sent (snd (depleteStockItem demo_env demo_deplete (demo_ready (''deplete_stock_item'', 7)))) \<noteq>
  ss_sent (demo_ready (''deplete_stock_item'', 7))"
  by (simp add: demo_sets demo_ready_def demo_deplete_def depleteStockItem_def fetch_def normalized_1 unsafeStockDepletion_def
    stockItemHasSerial_def f_eq_def executeStockDepletion_def Let_def gate_defs store_defs plan_key_def new_plan_def send_def
    depletion_plan_def demo_status_text judge_write_def verifyStockDepletion_def isNotFound_def demo_not_found_def)

theorem deplete_only_free_stock_witness:
  "\<exists>item q n. ss_world demo_state 7 = Some item \<and> free_to_deplete item \<and> normalizedStockDecimal (si_Quantity item) False = Some (q, n)"
proof -
  obtain r st' where d: "depleteStockItem demo_env demo_deplete (demo_ready (''deplete_stock_item'', 7)) = (r, st')" by fastforce
  have "di_StockItemID demo_deplete = 7" "ss_world (demo_ready (''deplete_stock_item'', 7)) = ss_world demo_state"
    by (simp_all add: demo_deplete_def demo_ready_def)
  then show ?thesis using deplete_only_free_stock[OF demo_quiet refl d] demo_depleted d by auto
qed

lemma demo_installs: "ss_sent (snd (installStockItem demo_env demo_install (demo_ready (''install_stock_item'', 8)))) \<noteq>
  ss_sent (demo_ready (''install_stock_item'', 8))"
  by (simp add: demo_sets demo_ready_def demo_install_def installStockItem_def fetch_def normalized_1 unsafeStockInstallChild_def
    unsafeStockInstallParent_def f_eq_def stockInstallCycleCheck_def bomIncludesAssembly_def executeStockInstall_def Let_def
    gate_defs store_defs plan_key_def new_plan_def send_def install_plan_def demo_status_text judge_write_def
    verifyStockInstall_def install_context_of_def sanitizedStockItem_def)

lemma demo_table_free: "\<not> (belongs (ss_world demo_state))\<^sup>+\<^sup>+ x y"
proof
  assume "(belongs (ss_world demo_state))\<^sup>+\<^sup>+ x y"
  from tranclpD[OF this] show False by (auto simp: belongs_def demo_state_def demo_item_def split: if_splits)
qed

theorem install_keeps_acyclic_witness:
  "\<not> (belongs (installed 7 8 (ss_world demo_state)))\<^sup>+\<^sup>+ 8 8"
proof -
  obtain r st' where d: "installStockItem demo_env demo_install (demo_ready (''install_stock_item'', 8)) = (r, st')" by fastforce
  have i: "ii_ParentStockItemID demo_install = 7" "ii_ChildStockItemID demo_install = 8"
    "ss_world (demo_ready (''install_stock_item'', 8)) = ss_world demo_state"
    by (simp_all add: demo_install_def demo_ready_def)
  have "ss_sent st' \<noteq> ss_sent (demo_ready (''install_stock_item'', 8))" using demo_installs d by simp
  from install_keeps_acyclic[OF demo_quiet refl d this] show ?thesis using demo_table_free unfolding i by blast
qed
end
