(* ===== verification/Delete_Model.thy ===== *)
theory Delete_Model
  imports Plan_Stores Inventree_Errors
begin

text \<open>
  Guarded deletion of stock locations and part categories (internal/tools/stock_location_delete_tools.go,
  category_delete_tools.go): the bounded scans that look for references, the plan shown for review,
  the confirmation, the single DELETE and the read that proves absence. The InvenTree client is a
  record of functions over an abstract world. A row of a search keeps the fields the scans read, a
  record its key. PlanHash is None where the code leaves the field empty; a clarification keeps its
  field and retry argument.
\<close>

section \<open>The client\<close>

record ref_row =
  rr_PK :: int
  rr_DefaultLocation :: "int option"
  rr_Destination :: "int option"
  rr_TakeFrom :: "int option"
  rr_Category :: int

record ref_page =
  pg_Count :: int
  pg_Next :: "string option"
  pg_HasMore :: bool
  pg_Results :: "ref_row list"

text \<open>The searches and the query fields they set besides limit and offset.\<close>

datatype ref_query = StockItemsAt int | LocationsUnder int | PartsWithDefaultLocation int | AllCategories | AllPurchaseOrders
  | AllPurchaseOrderLines | ParametersOf string int | AllBuilds | AllTransferOrders | PartsDirectlyIn int | CategoriesUnder int
  | AllCategoryTemplates

datatype delete_kind = StockLocation | PartCategory

record 'w delete_client =
  dc_Get :: "delete_kind \<Rightarrow> int \<Rightarrow> 'w \<Rightarrow> (go_error + inventree_ref) \<times> 'w"
  dc_Search :: "ref_query \<Rightarrow> int \<Rightarrow> int \<Rightarrow> 'w \<Rightarrow> (go_error + ref_page) \<times> 'w"
  dc_Delete :: "delete_kind \<Rightarrow> int \<Rightarrow> 'w \<Rightarrow> go_error option \<times> 'w"

section \<open>Bounded scans\<close>

datatype scan_error = ScanLimit | ScanFailed go_error

definition stockLocationDeleteScanLimit :: int where "stockLocationDeleteScanLimit = 1000"
definition stockLocationDeletePageSize :: int where "stockLocationDeletePageSize = 100"

text \<open>One page: its count, the identifiers kept, the number of results and whether more follow.\<close>

type_synonym 'w page_fetch = "int \<Rightarrow> 'w \<Rightarrow> (go_error + int \<times> int list \<times> int \<times> bool) \<times> 'w"

function scanLoop :: "'w page_fetch \<Rightarrow> int \<Rightarrow> int list \<Rightarrow> int \<Rightarrow> 'w \<Rightarrow> (scan_error + int list) \<times> 'w" where
  "scanLoop fetch offset ids seen w =
    (if \<not> offset < stockLocationDeleteScanLimit then (Inl ScanLimit, w)
     else (case fetch offset w of
       (Inl e, w1) \<Rightarrow> (Inl (ScanFailed e), w1)
     | (Inr (count, pageIDs, pageSeen, follow), w1) \<Rightarrow>
       (let seen1 = seen + pageSeen in
        if count < 0 \<or> count > stockLocationDeleteScanLimit \<or> pageSeen < int (length pageIDs) \<or> seen1 > count \<or>
           follow \<and> pageSeen = 0 \<or> \<not> follow \<and> seen1 \<noteq> count
        then (Inl ScanLimit, w1)
        else if \<not> follow then (Inr (sort (ids @ pageIDs)), w1)
        else scanLoop fetch (offset + stockLocationDeletePageSize) (ids @ pageIDs) seen1 w1)))"
  by pat_completeness auto
termination
  by (relation "measure (\<lambda>(fetch, offset, ids, seen, w). nat (stockLocationDeleteScanLimit - offset))")
    (auto simp: stockLocationDeletePageSize_def)

declare scanLoop.simps [simp del]

definition scanStockLocationDeletePages :: "'w page_fetch \<Rightarrow> 'w \<Rightarrow> (scan_error + int list) \<times> 'w" where
  "scanStockLocationDeletePages fetch w = scanLoop fetch 0 [] 0 w"

text \<open>The page fetchers of the location scans: every result, or those the predicate picks.\<close>

definition location_page :: "'w delete_client \<Rightarrow> ref_query \<Rightarrow> (ref_row \<Rightarrow> bool) \<Rightarrow> 'w page_fetch" where
  "location_page client q pick offset w = (case dc_Search client q stockLocationDeletePageSize offset w of
     (Inl e, w1) \<Rightarrow> (Inl e, w1)
   | (Inr p, w1) \<Rightarrow> (Inr (pg_Count p, map rr_PK (filter pick (pg_Results p)), int (length (pg_Results p)), pg_HasMore p), w1))"

definition categoryDeleteReferenceScanLimit :: int where "categoryDeleteReferenceScanLimit = 1000"
definition categoryDeleteReferencePageSize :: int where "categoryDeleteReferencePageSize = 100"

definition validateCategoryDeletePage :: "int \<Rightarrow> int \<Rightarrow> int \<Rightarrow> bool \<Rightarrow> bool" where
  "validateCategoryDeletePage count pageResults seen hasMore =
    (if count < 0 \<or> pageResults > count \<or> seen > count \<or> hasMore \<and> pageResults = 0 then False
     else if \<not> hasMore \<and> seen \<noteq> count then False else True)"

function categoryLoop :: "'w page_fetch \<Rightarrow> int \<Rightarrow> int list \<Rightarrow> int \<Rightarrow> 'w \<Rightarrow> (scan_error + int list) \<times> 'w" where
  "categoryLoop fetch offset ids seen w =
    (if \<not> offset < categoryDeleteReferenceScanLimit then (Inl ScanLimit, w)
     else (case fetch offset w of
       (Inl e, w1) \<Rightarrow> (Inl (ScanFailed e), w1)
     | (Inr (count, pageIDs, pageResults, hasMore), w1) \<Rightarrow>
       if count > categoryDeleteReferenceScanLimit then (Inl ScanLimit, w1)
       else if \<not> validateCategoryDeletePage count pageResults (seen + pageResults) hasMore then (Inl ScanLimit, w1)
       else if \<not> hasMore then (Inr (sort (ids @ pageIDs)), w1)
       else categoryLoop fetch (offset + categoryDeleteReferencePageSize) (ids @ pageIDs) (seen + pageResults) w1))"
  by pat_completeness auto
termination
  by (relation "measure (\<lambda>(fetch, offset, ids, seen, w). nat (categoryDeleteReferenceScanLimit - offset))")
    (auto simp: categoryDeleteReferencePageSize_def)

declare categoryLoop.simps [simp del]

definition category_page :: "'w delete_client \<Rightarrow> ref_query \<Rightarrow> (ref_row \<Rightarrow> bool) \<Rightarrow> (ref_page \<Rightarrow> bool) \<Rightarrow> 'w page_fetch" where
  "category_page client q pick follow offset w = (case dc_Search client q categoryDeleteReferencePageSize offset w of
     (Inl e, w1) \<Rightarrow> (Inl e, w1)
   | (Inr p, w1) \<Rightarrow> (Inr (pg_Count p, map rr_PK (filter pick (pg_Results p)), int (length (pg_Results p)), follow p), w1))"

section \<open>References of a stock location\<close>

record location_refs =
  lr_StockItemIDs :: "int list"
  lr_ChildLocationIDs :: "int list"
  lr_PartIDs :: "int list"
  lr_CategoryIDs :: "int list"
  lr_PurchaseOrderIDs :: "int list"
  lr_PurchaseOrderLineIDs :: "int list"
  lr_ParameterValueIDs :: "int list"
  lr_BuildIDs :: "int list"
  lr_TransferOrderIDs :: "int list"

definition location_refs_empty :: "location_refs \<Rightarrow> bool" where
  "location_refs_empty r = (lr_StockItemIDs r = [] \<and> lr_ChildLocationIDs r = [] \<and> lr_PartIDs r = [] \<and> lr_CategoryIDs r = [] \<and>
     lr_PurchaseOrderIDs r = [] \<and> lr_PurchaseOrderLineIDs r = [] \<and> lr_ParameterValueIDs r = [] \<and> lr_BuildIDs r = [] \<and>
     lr_TransferOrderIDs r = [])"

text \<open>The nine scans in order, each with the rows it keeps.\<close>

definition location_scans :: "int \<Rightarrow> (ref_query \<times> (ref_row \<Rightarrow> bool)) list" where
  "location_scans i = [(StockItemsAt i, \<lambda>r. True), (LocationsUnder i, \<lambda>r. True), (PartsWithDefaultLocation i, \<lambda>r. True),
     (AllCategories, \<lambda>r. rr_DefaultLocation r = Some i), (AllPurchaseOrders, \<lambda>r. rr_Destination r = Some i),
     (AllPurchaseOrderLines, \<lambda>r. rr_Destination r = Some i), (ParametersOf ''stock.stocklocation'' i, \<lambda>r. True),
     (AllBuilds, \<lambda>r. rr_TakeFrom r = Some i \<or> rr_Destination r = Some i),
     (AllTransferOrders, \<lambda>r. rr_TakeFrom r = Some i \<or> rr_Destination r = Some i)]"

text \<open>Scans in sequence; the first error ends them.\<close>

fun scan_all :: "('q \<Rightarrow> 'w \<Rightarrow> (scan_error + int list) \<times> 'w) \<Rightarrow> 'q list \<Rightarrow> 'w \<Rightarrow> (scan_error + int list list) \<times> 'w" where
  "scan_all scan [] w = (Inr [], w)"
| "scan_all scan (q # qs) w = (case scan q w of
     (Inl e, w1) \<Rightarrow> (Inl e, w1)
   | (Inr ids, w1) \<Rightarrow> (case scan_all scan qs w1 of
       (Inl e, w2) \<Rightarrow> (Inl e, w2)
     | (Inr rest, w2) \<Rightarrow> (Inr (ids # rest), w2)))"

fun location_refs_of :: "int list list \<Rightarrow> location_refs" where
  "location_refs_of [a, b, c, d, e, f, g, h, i] = \<lparr>lr_StockItemIDs = a, lr_ChildLocationIDs = b, lr_PartIDs = c, lr_CategoryIDs = d,
     lr_PurchaseOrderIDs = e, lr_PurchaseOrderLineIDs = f, lr_ParameterValueIDs = g, lr_BuildIDs = h, lr_TransferOrderIDs = i\<rparr>"
| "location_refs_of _ = \<lparr>lr_StockItemIDs = [], lr_ChildLocationIDs = [], lr_PartIDs = [], lr_CategoryIDs = [],
     lr_PurchaseOrderIDs = [], lr_PurchaseOrderLineIDs = [], lr_ParameterValueIDs = [], lr_BuildIDs = [], lr_TransferOrderIDs = []\<rparr>"

definition stockLocationDeleteReferences :: "'w delete_client \<Rightarrow> int \<Rightarrow> 'w \<Rightarrow> (scan_error + location_refs) \<times> 'w" where
  "stockLocationDeleteReferences client i w =
    (case scan_all (\<lambda>(q, pick). scanStockLocationDeletePages (location_page client q pick)) (location_scans i) w of
      (Inl e, w1) \<Rightarrow> (Inl e, w1) | (Inr ls, w1) \<Rightarrow> (Inr (location_refs_of ls), w1))"

section \<open>References of a part category\<close>

record category_refs =
  kr_PartIDs :: "int list"
  kr_ChildCategoryIDs :: "int list"
  kr_ParameterTemplateLinkIDs :: "int list"
  kr_ParameterValueIDs :: "int list"

definition category_refs_empty :: "category_refs \<Rightarrow> bool" where
  "category_refs_empty r = (kr_PartIDs r = [] \<and> kr_ChildCategoryIDs r = [] \<and> kr_ParameterTemplateLinkIDs r = [] \<and> kr_ParameterValueIDs r = [])"

definition categoryDeleteDirectPartIDs :: "'w delete_client \<Rightarrow> int \<Rightarrow> 'w \<Rightarrow> (scan_error + int list) \<times> 'w" where
  "categoryDeleteDirectPartIDs client i w = categoryLoop (category_page client (PartsDirectlyIn i) (\<lambda>r. True) pg_HasMore) 0 [] 0 w"

definition categoryDeleteChildCategoryIDs :: "'w delete_client \<Rightarrow> int \<Rightarrow> 'w \<Rightarrow> (scan_error + int list) \<times> 'w" where
  "categoryDeleteChildCategoryIDs client i w = categoryLoop (category_page client (CategoriesUnder i) (\<lambda>r. True) pg_HasMore) 0 [] 0 w"

definition categoryDeleteParameterTemplateLinkIDs :: "'w delete_client \<Rightarrow> int \<Rightarrow> 'w \<Rightarrow> (scan_error + int list) \<times> 'w" where
  "categoryDeleteParameterTemplateLinkIDs client i w = categoryLoop (category_page client AllCategoryTemplates (\<lambda>r. rr_Category r = i)
     (\<lambda>p. case pg_Next p of None \<Rightarrow> False | Some n \<Rightarrow> n \<noteq> '''')) 0 [] 0 w"

definition categoryDeleteParameterValueIDs :: "'w delete_client \<Rightarrow> int \<Rightarrow> 'w \<Rightarrow> (scan_error + int list) \<times> 'w" where
  "categoryDeleteParameterValueIDs client i w =
    categoryLoop (category_page client (ParametersOf ''part.partcategory'' i) (\<lambda>r. True) pg_HasMore) 0 [] 0 w"

definition loadCategoryDeleteBlockingReferences :: "'w delete_client \<Rightarrow> int \<Rightarrow> 'w \<Rightarrow> (scan_error + category_refs) \<times> 'w" where
  "loadCategoryDeleteBlockingReferences client i w = (case categoryDeleteDirectPartIDs client i w of
     (Inl e, w1) \<Rightarrow> (Inl e, w1)
   | (Inr parts, w1) \<Rightarrow> (case categoryDeleteChildCategoryIDs client i w1 of
       (Inl e, w2) \<Rightarrow> (Inl e, w2)
     | (Inr children, w2) \<Rightarrow> (case categoryDeleteParameterTemplateLinkIDs client i w2 of
         (Inl e, w3) \<Rightarrow> (Inl e, w3)
       | (Inr links, w3) \<Rightarrow> (case categoryDeleteParameterValueIDs client i w3 of
           (Inl e, w4) \<Rightarrow> (Inl e, w4)
         | (Inr params, w4) \<Rightarrow> (Inr \<lparr>kr_PartIDs = parts, kr_ChildCategoryIDs = children, kr_ParameterTemplateLinkIDs = links,
             kr_ParameterValueIDs = params\<rparr>, w4)))))"

end
