(* ===== verification/Delete_Tools.thy ===== *)
theory Delete_Tools
  imports Delete_Model Reviewed_Tool
begin

text \<open>
  The handlers of delete_stock_location and delete_part_category over the scans of Delete_Model:
  lookup, reference scan, plan, confirmation, one DELETE, verification. What is sent is logged in
  \<open>ds_sent\<close>. Both tools are instances of \<open>reviewed_tool\<close>.
\<close>

section \<open>State and output\<close>

record ('w, 'p) delete_env =
  de_call :: plan_call
  de_digest :: "'p \<Rightarrow> string + string"
  de_client :: "'w delete_client"

record 'w delete_state =
  ds_world :: 'w
  ds_plans :: "int plan_store"
  ds_sent :: "(delete_kind \<times> int) list"

record 'r delete_output =
  do_Status :: string
  do_Record :: "inventree_ref option"
  do_References :: "'r option"
  do_PlanHash :: "string option"
  do_Verified :: bool
  do_Recovered :: bool
  do_RecoveryPlan :: string
  do_Clarification :: "(string \<times> string) option"

record delete_input =
  dl_ID :: int
  dl_Confirm :: bool
  dl_PlanHash :: string

definition empty_output :: "string \<Rightarrow> 'r delete_output" where
  "empty_output status = \<lparr>do_Status = status, do_Record = None, do_References = None, do_PlanHash = None, do_Verified = False,
     do_Recovered = False, do_RecoveryPlan = '''', do_Clarification = None\<rparr>"

definition ask :: "inventree_ref option \<Rightarrow> 'r option \<Rightarrow> string \<Rightarrow> string \<Rightarrow> 'r delete_output" where
  "ask rec refs subject retry = (empty_output ''clarification_required'')\<lparr>do_Record := rec, do_References := refs,
     do_Clarification := Some (subject, retry)\<rparr>"

definition ds_fetch :: "('w \<Rightarrow> 'a \<times> 'w) \<Rightarrow> 'w delete_state \<Rightarrow> 'a \<times> 'w delete_state" where
  "ds_fetch f st = (case f (ds_world st) of (x, w) \<Rightarrow> (x, st\<lparr>ds_world := w\<rparr>))"

definition ds_delete :: "'w delete_client \<Rightarrow> delete_kind \<Rightarrow> int \<Rightarrow> 'w delete_state \<Rightarrow> go_error option \<times> 'w delete_state" where
  "ds_delete client kind i st = (case dc_Delete client kind i (ds_world st) of
     (r, w) \<Rightarrow> (r, st\<lparr>ds_world := w, ds_sent := ds_sent st @ [(kind, i)]\<rparr>))"

definition context_error :: "go_error \<Rightarrow> bool" where
  "context_error e = (e = Canceled \<or> e = DeadlineExceeded)"

section \<open>Verification\<close>

definition safeStockLocationDeleteError :: "string \<Rightarrow> go_error" where
  "safeStockLocationDeleteError operation = OtherError (operation @ '' failed'')"

definition safeCategoryError :: "string \<Rightarrow> go_error" where
  "safeCategoryError operation = OtherError (operation @ '' failed; inspect InvenTree availability and permissions before retrying'')"

text \<open>The read after the DELETE, shared by the two verify functions; they differ in the error of a
  definite rejection, in the noun of the recovery text and in the references the output repeats.\<close>

definition verifyDeletion :: "'w delete_client \<Rightarrow> delete_kind \<Rightarrow> inventree_ref \<Rightarrow> 'r option \<Rightarrow> go_error \<Rightarrow> string \<Rightarrow> go_error option \<Rightarrow>
    'w delete_state \<Rightarrow> (go_error + 'r delete_output) \<times> 'w delete_state" where
  "verifyDeletion client kind rec refs rejected noun mutationErr st =
    (let failed = (case mutationErr of None \<Rightarrow> None
       | Some e \<Rightarrow> if context_error e then Some e else if definitely_rejected e then Some rejected else None) in
     case failed of Some e \<Rightarrow> (Inl e, st)
     | None \<Rightarrow> (case ds_fetch (dc_Get client kind (PK rec)) st of
         (Inl e1, st1) \<Rightarrow>
           if isNotFound e1 then (Inr ((empty_output ''ok'')\<lparr>do_Record := Some rec, do_References := refs, do_Verified := True,
             do_Recovered := mutationErr \<noteq> None\<rparr>), st1)
           else if context_error e1 then (Inl e1, st1)
           else (Inr ((empty_output ''partial_failure'')\<lparr>do_Record := Some rec, do_References := refs,
             do_RecoveryPlan := ''Deletion read-back could not prove absence; read the exact stable ID before retrying.''\<rparr>), st1)
       | (Inr _, st1) \<Rightarrow> (Inr ((empty_output ''partial_failure'')\<lparr>do_Record := Some rec, do_References := refs,
           do_RecoveryPlan := ''The '' @ noun @ '' still exists after deletion; read the exact stable ID before retrying.''\<rparr>), st1)))"

definition verifyStockLocationDeletion :: "'w delete_client \<Rightarrow> inventree_ref \<Rightarrow> location_refs \<Rightarrow> go_error option \<Rightarrow>
    'w delete_state \<Rightarrow> (go_error + location_refs delete_output) \<times> 'w delete_state" where
  "verifyStockLocationDeletion client rec refs =
    verifyDeletion client StockLocation rec (Some refs) (safeStockLocationDeleteError ''stock-location deletion'') ''stock location''"

definition verifyCategoryDeletion :: "'w delete_client \<Rightarrow> inventree_ref \<Rightarrow> go_error option \<Rightarrow>
    'w delete_state \<Rightarrow> (go_error + category_refs delete_output) \<times> 'w delete_state" where
  "verifyCategoryDeletion client rec =
    verifyDeletion client PartCategory rec None (safeCategoryError ''part-category deletion'') ''category''"

section \<open>delete_stock_location\<close>

fun issue_error :: "string \<Rightarrow> plan_error \<Rightarrow> go_error" where
  "issue_error tool (PlanDigestError e) = OtherError e"
| "issue_error tool (PlanTokenError e) = OtherError e"
| "issue_error tool PlanCapacity = OtherError (''too many outstanding '' @ tool @ '' deletion confirmation plans'')"

definition issueStockLocationDeletePlan :: "('w, location_refs location_delete_plan) delete_env \<Rightarrow> location_refs location_delete_plan \<Rightarrow>
    'w delete_state \<Rightarrow> (go_error + location_refs delete_output) \<times> 'w delete_state" where
  "issueStockLocationDeletePlan env plan st = (case location_delete_issue (de_digest env) (de_call env) plan (ds_plans st) of
     (Inl e, ps) \<Rightarrow> (Inl (issue_error ''stock-location'' e), st\<lparr>ds_plans := ps\<rparr>)
   | (Inr token, ps) \<Rightarrow> (Inr ((ask (Some (ld_Location plan)) (Some (ld_References plan)) ''confirmation'' ''plan_hash'')\<lparr>do_PlanHash := Some token\<rparr>),
       st\<lparr>ds_plans := ps\<rparr>))"

definition deleteStockLocation :: "('w, location_refs location_delete_plan) delete_env \<Rightarrow> delete_input \<Rightarrow> 'w delete_state \<Rightarrow>
    (go_error + location_refs delete_output) \<times> 'w delete_state" where
  "deleteStockLocation env inp st =
    (if dl_ID inp \<le> 0 then (Inr (ask None None ''id'' ''id''), st)
     else (case ds_fetch (dc_Get (de_client env) StockLocation (dl_ID inp)) st of
       (Inl e, st1) \<Rightarrow> if isNotFound e then (Inr (empty_output ''not_found''), st1)
         else (Inl (safeStockLocationDeleteError ''stock-location delete lookup''), st1)
     | (Inr rec, st1) \<Rightarrow>
       if PK rec \<noteq> dl_ID inp then (Inl (safeStockLocationDeleteError ''stock-location delete lookup''), st1)
       else (case ds_fetch (stockLocationDeleteReferences (de_client env) (PK rec)) st1 of
         (Inl ScanLimit, st2) \<Rightarrow> (Inr (ask (Some rec) None ''references'' ''id''), st2)
       | (Inl (ScanFailed e), st2) \<Rightarrow> (Inl (safeStockLocationDeleteError ''stock-location dependency preflight''), st2)
       | (Inr refs, st2) \<Rightarrow>
         if \<not> location_refs_empty refs then (Inr (ask (Some rec) (Some refs) ''references'' ''id''), st2)
         else (let plan = \<lparr>ld_Action = ''delete_stock_location'', ld_Location = rec, ld_References = refs\<rparr> in
           if \<not> dl_Confirm inp then issueStockLocationDeletePlan env plan st2
           else if dl_PlanHash inp = '''' then (Inr (ask (Some rec) (Some refs) ''confirmation'' ''plan_hash''), st2)
           else (case location_delete_consume (de_digest env) (de_call env) (dl_PlanHash inp) plan (ds_plans st2) of
             (False, ps) \<Rightarrow> (Inr (ask (Some rec) (Some refs) ''confirmation'' ''plan_hash''), st2\<lparr>ds_plans := ps\<rparr>)
           | (True, ps) \<Rightarrow> (case ds_delete (de_client env) StockLocation (PK rec) (st2\<lparr>ds_plans := ps\<rparr>) of
               (r, st3) \<Rightarrow> verifyStockLocationDeletion (de_client env) rec refs r st3))))))"

section \<open>delete_part_category\<close>

definition issueCategoryDeletePlan :: "('w, category_refs category_delete_plan) delete_env \<Rightarrow> category_refs category_delete_plan \<Rightarrow>
    'w delete_state \<Rightarrow> (go_error + category_refs delete_output) \<times> 'w delete_state" where
  "issueCategoryDeletePlan env plan st = (case category_delete_issue (de_digest env) (de_call env) plan (ds_plans st) of
     (Inl e, ps) \<Rightarrow> (Inl (issue_error ''part-category'' e), st\<lparr>ds_plans := ps\<rparr>)
   | (Inr token, ps) \<Rightarrow> (Inr ((ask (Some (cd_Category plan)) (Some (cd_Blocking plan)) ''confirmation'' ''plan_hash'')\<lparr>do_PlanHash := Some token\<rparr>),
       st\<lparr>ds_plans := ps\<rparr>))"

definition deletePartCategory :: "('w, category_refs category_delete_plan) delete_env \<Rightarrow> delete_input \<Rightarrow> 'w delete_state \<Rightarrow>
    (go_error + category_refs delete_output) \<times> 'w delete_state" where
  "deletePartCategory env inp st =
    (if dl_ID inp \<le> 0 then (Inr (ask None None ''id'' ''id''), st)
     else (case ds_fetch (dc_Get (de_client env) PartCategory (dl_ID inp)) st of
       (Inl e, st1) \<Rightarrow> if isNotFound e then (Inr (empty_output ''not_found''), st1)
         else (Inl (safeCategoryError ''part-category delete lookup''), st1)
     | (Inr rec, st1) \<Rightarrow>
       if PK rec \<noteq> dl_ID inp then (Inl (safeCategoryError ''part-category delete lookup''), st1)
       else (case ds_fetch (loadCategoryDeleteBlockingReferences (de_client env) (PK rec)) st1 of
         (Inl ScanLimit, st2) \<Rightarrow> (Inr (ask (Some rec) None ''blocking'' ''id''), st2)
       | (Inl (ScanFailed e), st2) \<Rightarrow> (Inl (safeCategoryError ''part-category reference preflight''), st2)
       | (Inr refs, st2) \<Rightarrow>
         if \<not> category_refs_empty refs then (Inr (ask (Some rec) (Some refs) ''blocking'' ''id''), st2)
         else (let plan = \<lparr>cd_Action = ''delete_part_category'', cd_Category = rec, cd_Blocking = refs\<rparr> in
           if \<not> dl_Confirm inp then issueCategoryDeletePlan env plan st2
           else if dl_PlanHash inp = '''' then (Inr (ask (Some rec) None ''confirmation'' ''plan_hash''), st2)
           else (case category_delete_consume (de_digest env) (de_call env) (dl_PlanHash inp) plan (ds_plans st2) of
             (False, ps) \<Rightarrow> (Inr (ask (Some rec) None ''confirmation'' ''plan_hash''), st2\<lparr>ds_plans := ps\<rparr>)
           | (True, ps) \<Rightarrow> (case ds_delete (de_client env) PartCategory (PK rec) (st2\<lparr>ds_plans := ps\<rparr>) of
               (r, st3) \<Rightarrow> verifyCategoryDeletion (de_client env) rec r st3))))))"

end
