(* ===== verification/Delete_Safety.thy ===== *)
theory Delete_Safety
  imports Delete_Tools
begin

section \<open>The scans\<close>

text \<open>The category loops are the location scan; the two ways to judge a page agree.\<close>

lemma categoryLoop_eq:
  assumes "\<And>offset w count ids n follow w'. fetch offset w = (Inr (count, ids, n, follow), w') \<Longrightarrow> int (length ids) \<le> n"
  shows "0 \<le> seen \<Longrightarrow> categoryLoop fetch offset ids seen w = scanLoop fetch offset ids seen w"
proof (induction "nat (1000 - offset)" arbitrary: offset ids seen w rule: less_induct)
  case less
  obtain r w1 where f: "fetch offset w = (r, w1)" by fastforce
  note step = categoryLoop.simps[of fetch offset ids seen w] scanLoop.simps[of fetch offset ids seen w]
  note limits = stockLocationDeleteScanLimit_def stockLocationDeletePageSize_def categoryDeleteReferenceScanLimit_def categoryDeleteReferencePageSize_def
  show ?case
  proof (cases r)
    case (Inr p)
    obtain count pageIDs n follow where p: "p = (count, pageIDs, n, follow)" by (cases p) auto
    have n: "int (length pageIDs) \<le> n" using assms f Inr p by blast
    have "categoryLoop fetch (offset + 100) (ids @ pageIDs) (seen + n) w1 = scanLoop fetch (offset + 100) (ids @ pageIDs) (seen + n) w1" if "offset < 1000"
      using that n less.prems by (intro less.hyps) auto
    then show ?thesis using n less.prems unfolding step f Inr p
      by (auto simp: limits validateCategoryDeletePage_def)
  qed (simp add: step f limits)
qed

lemma page_lengths:
  "location_page client q pick offset w = (Inr (count, ids, n, follow), w') \<Longrightarrow> int (length ids) \<le> n"
  "category_page client q pick more_of offset w = (Inr (count, ids, n, follow), w') \<Longrightarrow> int (length ids) \<le> n"
  by (auto simp: location_page_def category_page_def split: prod.splits sum.splits)

text \<open>A page fetcher that serves page_slices of a table: at any offset some prefix of the page that starts
  there, with the table's size as count; whether it announces more is left open.\<close>

definition page_slice :: "nat \<Rightarrow> nat \<Rightarrow> 'a list \<Rightarrow> 'a list" where
  "page_slice offset k rows = take k (drop offset rows)"

definition serves :: "ref_row list \<Rightarrow> (ref_row \<Rightarrow> bool) \<Rightarrow> 'w page_fetch \<Rightarrow> bool" where
  "serves rows pick fetch \<longleftrightarrow> (\<forall>offset w count ids n follow w'. fetch offset w = (Inr (count, ids, n, follow), w') \<longrightarrow>
     count = int (length rows) \<and> (\<exists>k\<le>100. ids = map rr_PK (filter pick (page_slice (nat offset) k rows)) \<and> n = int (length (page_slice (nat offset) k rows))))"

text \<open>Slices taken page by page fill at most what was skipped, and exactly the prefix when they are full.\<close>

definition covers :: "nat \<Rightarrow> 'a list \<Rightarrow> 'a list \<Rightarrow> bool" where
  "covers offset rows got \<longleftrightarrow> length got \<le> min offset (length rows) \<and> (length got = min offset (length rows) \<longrightarrow> got = take offset rows)"

lemma covers_start: "covers 0 rows []"
  by (simp add: covers_def)

lemma covers_step:
  assumes "covers offset rows got" "k \<le> m"
  shows "covers (offset + m) rows (got @ page_slice offset k rows)"
proof -
  have len: "length (page_slice offset k rows) \<le> min m (length rows - offset)" using assms(2) by (simp add: page_slice_def)
  have "got @ page_slice offset k rows = take (offset + m) rows" if "length (got @ page_slice offset k rows) = min (offset + m) (length rows)"
  proof -
    have "length got = min offset (length rows)" using that len assms(1) by (auto simp: covers_def)
    then have g: "got = take offset rows" using assms(1) by (simp add: covers_def)
    have "length (page_slice offset k rows) = length (take m (drop offset rows))" using that g by auto
    then have "page_slice offset k rows = take m (drop offset rows)" using assms(2)
      by (cases "length (drop offset rows) \<le> k") (auto simp: page_slice_def min_def split: if_splits)
    then show ?thesis using g by (simp add: take_add)
  qed
  then show ?thesis using len assms(1) by (auto simp: covers_def)
qed

lemma covers_all: "covers offset rows got \<Longrightarrow> length got = length rows \<Longrightarrow> got = rows"
  by (auto simp: covers_def)

lemma scanLoop_complete:
  assumes s: "serves rows pick fetch"
  shows "scanLoop fetch offset ids seen w = (Inr res, w') \<Longrightarrow> 0 \<le> offset \<Longrightarrow> covers (nat offset) rows got \<Longrightarrow>
    ids = map rr_PK (filter pick got) \<Longrightarrow> seen = int (length got) \<Longrightarrow> res = sort (map rr_PK (filter pick rows))"
proof (induction "nat (1000 - offset)" arbitrary: offset ids seen w got rule: less_induct)
  case less
  obtain r w1 where f: "fetch offset w = (r, w1)" by fastforce
  note step = scanLoop.simps[of fetch offset ids seen w]
  note limits = stockLocationDeleteScanLimit_def stockLocationDeletePageSize_def
  have lt: "offset < 1000" using less.prems(1) by (auto simp: step limits split: if_splits)
  obtain p where r: "r = Inr p" using less.prems(1) f by (cases r) (auto simp: step limits split: if_splits)
  obtain count pageIDs n follow where p: "p = (count, pageIDs, n, follow)" by (cases p) auto
  obtain k where k: "k \<le> 100" "count = int (length rows)" "pageIDs = map rr_PK (filter pick (page_slice (nat offset) k rows))"
      "n = int (length (page_slice (nat offset) k rows))"
    using s f unfolding serves_def r p by blast
  let ?got = "got @ page_slice (nat offset) k rows"
  have cov: "covers (nat (offset + 100)) rows ?got" using covers_step[OF less.prems(3) k(1)] less.prems(2) by (simp add: nat_add_distrib)
  have ids: "ids @ pageIDs = map rr_PK (filter pick ?got)" using less.prems(4) k(3) by simp
  have seen: "seen + n = int (length ?got)" using less.prems(5) k(4) by simp
  show ?case
  proof (cases follow)
    case True
    then have "scanLoop fetch (offset + 100) (ids @ pageIDs) (seen + n) w1 = (Inr res, w')"
      using less.prems(1) lt f unfolding step r p by (auto simp: limits Let_def split: if_splits)
    then show ?thesis using less.prems(2) lt by (intro less.hyps[OF _ _ _ cov ids seen]) simp_all
  next
    case False
    then have "seen + n = count" "res = sort (ids @ pageIDs)"
      using less.prems(1) lt f unfolding step r p by (auto simp: limits Let_def split: if_splits)
    moreover from this(1) have "?got = rows" using covers_all[OF cov] seen k(2) by simp
    ultimately show ?thesis using ids by simp
  qed
qed

lemma location_scan_complete:
  "serves rows pick (location_page client q pick) \<Longrightarrow>
    scanStockLocationDeletePages (location_page client q pick) w = (Inr ids, w') \<Longrightarrow> ids = sort (map rr_PK (filter pick rows))"
  unfolding scanStockLocationDeletePages_def by (rule scanLoop_complete[of rows pick _ 0 "[]" 0 w _ w' "[]"]) (simp_all add: covers_start)

lemma category_scan_complete:
  "serves rows pick (category_page client q pick follow) \<Longrightarrow>
    categoryLoop (category_page client q pick follow) 0 [] 0 w = (Inr ids, w') \<Longrightarrow> ids = sort (map rr_PK (filter pick rows))"
  by (rule scanLoop_complete[of rows pick _ 0 "[]" 0 w _ w' "[]"]) (simp_all add: covers_start categoryLoop_eq[OF page_lengths(2)])

text \<open>An honest server: every search is answered with an error or with a slice of one table per query.\<close>

definition honest :: "(ref_query \<Rightarrow> ref_row list) \<Rightarrow> 'w delete_client \<Rightarrow> bool" where
  "honest table client \<longleftrightarrow> (\<forall>q limit offset w p w'. dc_Search client q limit offset w = (Inr p, w') \<longrightarrow>
     pg_Count p = int (length (table q)) \<and> (\<exists>k\<le>nat limit. pg_Results p = page_slice (nat offset) k (table q)))"

lemma honest_serves:
  assumes "honest table client"
  shows "serves (table q) pick (location_page client q pick)" and "serves (table q) pick (category_page client q pick follow)"
  using assms unfolding serves_def honest_def location_page_def category_page_def stockLocationDeletePageSize_def
    categoryDeleteReferencePageSize_def by (fastforce split: prod.splits sum.splits)+

lemma scan_all_nth:
  "scan_all scan qs w = (Inr ls, w') \<Longrightarrow> length ls = length qs \<and> (\<forall>n<length qs. \<exists>w0 w1. scan (qs ! n) w0 = (Inr (ls ! n), w1))"
proof (induction qs arbitrary: w ls)
  case (Cons q qs)
  then obtain ids w1 rest where a: "scan q w = (Inr ids, w1)" "scan_all scan qs w1 = (Inr rest, w')" "ls = ids # rest"
    by (auto split: prod.splits sum.splits)
  from Cons.IH[OF a(2)] show ?case using a(1,3) by (auto simp: nth_Cons split: nat.splits)
qed simp

text \<open>Nothing refers to the location, or to the category.\<close>

definition location_free :: "(ref_query \<Rightarrow> ref_row list) \<Rightarrow> int \<Rightarrow> bool" where
  "location_free table i \<longleftrightarrow> (\<forall>(q, pick)\<in>set (location_scans i). filter pick (table q) = [])"

definition category_free :: "(ref_query \<Rightarrow> ref_row list) \<Rightarrow> int \<Rightarrow> bool" where
  "category_free table i \<longleftrightarrow> table (PartsDirectlyIn i) = [] \<and> table (CategoriesUnder i) = [] \<and>
     (\<forall>r\<in>set (table AllCategoryTemplates). rr_Category r \<noteq> i) \<and> table (ParametersOf ''part.partcategory'' i) = []"

lemma location_refs_of_empty:
  "length ls = 9 \<Longrightarrow> location_refs_empty (location_refs_of ls) \<Longrightarrow> l \<in> set ls \<Longrightarrow> l = []"
  by (cases ls rule: location_refs_of.cases) (auto simp: location_refs_empty_def)

lemma sort_map_Nil: "sort (map f xs) = [] \<Longrightarrow> xs = []"
  by (metis length_map length_sort list.size(3) length_0_conv)

lemma location_refs_free:
  assumes "honest table client" "stockLocationDeleteReferences client i w = (Inr refs, w')" "location_refs_empty refs"
  shows "location_free table i"
proof -
  obtain ls where l: "scan_all (\<lambda>(q, pick). scanStockLocationDeletePages (location_page client q pick)) (location_scans i) w = (Inr ls, w')"
      "refs = location_refs_of ls" using assms(2) by (auto simp: stockLocationDeleteReferences_def split: prod.splits sum.splits)
  note nth = scan_all_nth[OF l(1)]
  have nine: "length (location_scans i) = 9" by (simp add: location_scans_def)
  have "filter (snd (location_scans i ! n)) (table (fst (location_scans i ! n))) = []" if lt: "n < 9" for n
  proof -
    obtain w0 w1 where "scanStockLocationDeletePages (location_page client (fst (location_scans i ! n)) (snd (location_scans i ! n))) w0 = (Inr (ls ! n), w1)"
      using nth lt unfolding nine case_prod_unfold by blast
    from location_scan_complete[OF honest_serves(1)[OF assms(1)] this] show ?thesis
      using location_refs_of_empty[of ls "ls ! n"] assms(3) nth lt nine l(2) sort_map_Nil by (metis nth_mem)
  qed
  then show ?thesis unfolding location_free_def using nine by (auto simp: in_set_conv_nth) (metis fst_conv snd_conv)
qed

lemma category_refs_free:
  assumes h: "honest table client" and s: "loadCategoryDeleteBlockingReferences client i w = (Inr refs, w')" "category_refs_empty refs"
  shows "category_free table i"
proof -
  note complete = category_scan_complete[OF honest_serves(2)[OF h]]
  obtain w1 w2 w3 where "categoryDeleteDirectPartIDs client i w = (Inr [], w1)" "categoryDeleteChildCategoryIDs client i w1 = (Inr [], w2)"
      "categoryDeleteParameterTemplateLinkIDs client i w2 = (Inr [], w3)" "categoryDeleteParameterValueIDs client i w3 = (Inr [], w')"
    using s by (auto simp: loadCategoryDeleteBlockingReferences_def category_refs_empty_def split: prod.splits sum.splits)
  from this[unfolded categoryDeleteDirectPartIDs_def categoryDeleteChildCategoryIDs_def categoryDeleteParameterTemplateLinkIDs_def
      categoryDeleteParameterValueIDs_def, THEN complete]
  show ?thesis by (auto simp: category_free_def filter_empty_conv dest!: sort_map_Nil[OF sym])
qed

text \<open>A server that cuts full pages and says truthfully whether more follow.\<close>

definition full_pages :: "(ref_query \<Rightarrow> ref_row list) \<Rightarrow> 'w delete_client \<Rightarrow> bool" where
  "full_pages table client \<longleftrightarrow> (\<forall>q limit offset w. \<exists>p. dc_Search client q limit offset w = (Inr p, w) \<and>
     pg_Count p = int (length (table q)) \<and> pg_Results p = page_slice (nat offset) (nat limit) (table q) \<and>
     pg_HasMore p = (nat offset + nat limit < length (table q)))"

lemma scanLoop_full:
  assumes "full_pages table client"
  shows "n \<le> 10 \<Longrightarrow> length (table q) \<le> 1000 \<Longrightarrow> 100 * n \<le> length (table q) \<Longrightarrow> n < 10 \<Longrightarrow>
    scanLoop (location_page client q pick) (int (100 * n)) (map rr_PK (filter pick (take (100 * n) (table q)))) (int (100 * n)) w =
      (Inr (sort (map rr_PK (filter pick (table q)))), w)"
proof (induction "10 - n" arbitrary: n)
  case (Suc m)
  let ?rows = "table q"
  obtain p where p: "dc_Search client q 100 (int (100 * n)) w = (Inr p, w)" "pg_Count p = int (length ?rows)"
      "pg_Results p = take 100 (drop (100 * n) ?rows)" "pg_HasMore p = (100 * n + 100 < length ?rows)"
    using assms unfolding full_pages_def page_slice_def by (metis nat_int nat_numeral)
  have page: "location_page client q pick (int (100 * n)) w = (Inr (int (length ?rows),
      map rr_PK (filter pick (take 100 (drop (100 * n) ?rows))), int (min 100 (length ?rows - 100 * n)), 100 * n + 100 < length ?rows), w)"
    unfolding location_page_def stockLocationDeletePageSize_def p(1) by (simp add: p(2-4))
  note step = scanLoop.simps[of "location_page client q pick" "int (100 * n)"] page stockLocationDeleteScanLimit_def stockLocationDeletePageSize_def prod.case sum.case
  have acc: "map rr_PK (filter pick (take (100 * n) ?rows)) @ map rr_PK (filter pick (take 100 (drop (100 * n) ?rows))) =
      map rr_PK (filter pick (take (100 * Suc n) ?rows))"
    using take_add[of "100 * n" 100 ?rows] by (simp add: add.commute flip: filter_append map_append)
  have len: "length (filter pick (take 100 (drop (100 * n) ?rows))) \<le> min 100 (length ?rows - 100 * n)"
    using length_filter_le[of pick "take 100 (drop (100 * n) ?rows)"] by simp
  show ?case
  proof (cases "100 * n + 100 < length ?rows")
    case True
    then have "scanLoop (location_page client q pick) (int (100 * Suc n)) (map rr_PK (filter pick (take (100 * Suc n) ?rows))) (int (100 * Suc n)) w =
        (Inr (sort (map rr_PK (filter pick ?rows))), w)"
      using Suc.hyps(2) Suc.prems by (intro Suc.hyps(1)) auto
    then show ?thesis using True len Suc.prems unfolding step by (simp add: Let_def acc add.commute)
  next
    case False
    have "map rr_PK (filter pick (take (100 * n) ?rows)) @ map rr_PK (filter pick (drop (100 * n) ?rows)) = map rr_PK (filter pick ?rows)"
      by (metis append_take_drop_id filter_append map_append)
    then show ?thesis using False Suc.prems length_filter_le[of pick "drop (100 * n) ?rows"] unfolding step
      by (simp add: Let_def of_nat_diff)
  qed
qed simp

text \<open>C11: Against a server with full pages the reference scan is the plain filter of the table: it returns the
  identifiers of all matching rows in order when the table has at most 1000 rows, and reports the
  safety limit otherwise; it never stops early and never reports a smaller set.\<close>

theorem scan_is_filter:
  assumes "full_pages table client"
  shows "scanStockLocationDeletePages (location_page client q pick) w =
    (if length (table q) \<le> 1000 then Inr (sort (map rr_PK (filter pick (table q)))) else Inl ScanLimit, w)"
proof (cases "length (table q) \<le> 1000")
  case True
  then show ?thesis using scanLoop_full[OF assms, of 0 q pick w] by (simp add: scanStockLocationDeletePages_def)
next
  case False
  obtain p where p: "dc_Search client q 100 0 w = (Inr p, w)" "pg_Count p = int (length (table q))"
    using assms unfolding full_pages_def by blast
  then show ?thesis using False
    by (simp add: scanStockLocationDeletePages_def scanLoop.simps[of _ 0] location_page_def stockLocationDeletePageSize_def
        stockLocationDeleteScanLimit_def Let_def)
qed

section \<open>The handlers\<close>

lemma ds_fetch_keeps: "ds_fetch f st = (x, st') \<Longrightarrow> ds_plans st' = ds_plans st \<and> ds_sent st' = ds_sent st"
  by (auto simp: ds_fetch_def split: prod.splits)

lemma ds_delete_sends: "ds_delete client kind i st = (x, st') \<Longrightarrow> ds_plans st' = ds_plans st \<and> ds_sent st' = ds_sent st @ [(kind, i)]"
  by (auto simp: ds_delete_def split: prod.splits)

definition shown_as :: "(inventree_ref \<times> 'r \<Rightarrow> 'p) \<Rightarrow> (go_error + 'r delete_output) \<Rightarrow> (string \<times> 'p) option" where
  "shown_as mk out = (case out of Inl _ \<Rightarrow> None
     | Inr o' \<Rightarrow> (case (do_PlanHash o', do_Record o', do_References o') of (Some t, Some rec, Some refs) \<Rightarrow> Some (t, mk (rec, refs)) | _ \<Rightarrow> None))"

lemma shown_as_simps [simp]: "shown_as mk (Inl e) = None" "do_PlanHash o' = None \<Longrightarrow> shown_as mk (Inr o') = None"
  by (simp_all add: shown_as_def)

lemma verifyDeletion_keeps:
  "verifyDeletion client kind rec refs rejected noun err st = (out, st') \<Longrightarrow>
    ds_plans st' = ds_plans st \<and> ds_sent st' = ds_sent st \<and> shown_as mk out = None"
  unfolding verifyDeletion_def Let_def
  by (auto simp: empty_output_def split: option.splits prod.splits sum.splits if_splits dest!: ds_fetch_keeps)

text \<open>One call of either tool.\<close>

definition location_step where
  "location_step env c = lookup_call (deleteStockLocation (env\<lparr>de_call := fst c\<rparr>)) (snd c)"

definition category_step where
  "category_step env c = lookup_call (deletePartCategory (env\<lparr>de_call := fst c\<rparr>)) (snd c)"

definition location_plan :: "inventree_ref \<times> 'r \<Rightarrow> 'r location_delete_plan" where
  "location_plan x = \<lparr>ld_Action = ''delete_stock_location'', ld_Location = fst x, ld_References = snd x\<rparr>"

definition category_plan :: "inventree_ref \<times> 'r \<Rightarrow> 'r category_delete_plan" where
  "category_plan x = \<lparr>cd_Action = ''delete_part_category'', cd_Category = fst x, cd_Blocking = snd x\<rparr>"

text \<open>What a request has in common with the plan it was sent for: the caller confirmed, the plan is for
  the record named, its scans ran before this request and found nothing.\<close>

definition location_fits :: "'w delete_client \<Rightarrow> delete_input \<Rightarrow> location_refs location_delete_plan \<Rightarrow> (delete_kind \<times> int) list \<Rightarrow> bool" where
  "location_fits client inp plan reqs \<longleftrightarrow> dl_Confirm inp \<and> 0 < dl_ID inp \<and> reqs = [(StockLocation, dl_ID inp)] \<and>
     PK (ld_Location plan) = dl_ID inp \<and> location_refs_empty (ld_References plan) \<and>
     (\<exists>w w'. stockLocationDeleteReferences client (dl_ID inp) w = (Inr (ld_References plan), w'))"

definition category_fits :: "'w delete_client \<Rightarrow> delete_input \<Rightarrow> category_refs category_delete_plan \<Rightarrow> (delete_kind \<times> int) list \<Rightarrow> bool" where
  "category_fits client inp plan reqs \<longleftrightarrow> dl_Confirm inp \<and> 0 < dl_ID inp \<and> reqs = [(PartCategory, dl_ID inp)] \<and>
     PK (cd_Category plan) = dl_ID inp \<and> category_refs_empty (cd_Blocking plan) \<and>
     (\<exists>w w'. loadCategoryDeleteBlockingReferences client (dl_ID inp) w = (Inr (cd_Blocking plan), w'))"

lemma ds_fetch_world: "ds_fetch f st = (x, st') \<Longrightarrow> \<exists>w'. f (ds_world st) = (x, w')"
  by (auto simp: ds_fetch_def split: prod.splits)

lemma ask_shows [simp]: "shown_as mk (Inr (ask rec refs subject retry)) = None" "shown_as mk (Inr (empty_output status)) = None"
  by (simp_all add: ask_def empty_output_def)

definition location_effect :: "('w, location_refs location_delete_plan) delete_env \<Rightarrow> delete_input \<Rightarrow> 'w delete_state \<Rightarrow>
    (go_error + location_refs delete_output) \<times> 'w delete_state \<Rightarrow> bool" where
  "location_effect env inp = reviewed_effect ds_plans ds_sent (shown_as location_plan) stockLocationDeletePlanLifetime (de_digest env)
     (\<lambda>p. PK (ld_Location p)) (de_call env) (dl_PlanHash inp) (location_fits (de_client env) inp)"

lemma location_idle: "ds_plans st' = ds_plans st \<Longrightarrow> ds_sent st' = ds_sent st \<Longrightarrow> shown_as location_plan out = None \<Longrightarrow> location_effect env inp st (out, st')"
  by (simp add: location_effect_def reviewed_idle)

lemma issue_location_effect:
  assumes "ds_plans st1 = ds_plans st" "ds_sent st1 = ds_sent st"
  shows "location_effect env inp st (issueStockLocationDeletePlan env (location_plan x) st1)"
proof -
  obtain r ps where i: "plan_issue_purge stockLocationDeletePlanLifetime (de_digest env) (\<lambda>p. PK (ld_Location p)) (de_call env) (location_plan x) (ds_plans st) = (r, ps)" by fastforce
  show ?thesis unfolding location_effect_def using i assms
    by (cases r; cases x) (auto simp: issueStockLocationDeletePlan_def location_delete_issue_def plan_issue_inline_eq shown_as_def ask_def location_plan_def empty_output_def
      intro!: reviewed_issue[where plan = "location_plan x" and r = r])
qed

lemma effect_deleteStockLocation: "location_effect env inp st (deleteStockLocation env inp st)"
proof (cases "dl_ID inp \<le> 0")
  case True
  then show ?thesis by (simp add: deleteStockLocation_def location_idle)
next
  case pos: False
  obtain r1 st1 where 1: "ds_fetch (dc_Get (de_client env) StockLocation (dl_ID inp)) st = (r1, st1)" by fastforce
  note k1 = ds_fetch_keeps[OF 1]
  show ?thesis
  proof (cases r1)
    case (Inl e)
    then show ?thesis using pos k1 by (simp add: deleteStockLocation_def 1 location_idle)
  next
    case rec: (Inr rec)
    obtain r2 st2 where 2: "ds_fetch (stockLocationDeleteReferences (de_client env) (dl_ID inp)) st1 = (r2, st2)" by fastforce
    note k2 = ds_fetch_keeps[OF 2]
    show ?thesis
    proof (cases "PK rec = dl_ID inp \<and> (\<exists>refs. r2 = Inr refs \<and> location_refs_empty refs)")
      case False
      then show ?thesis using pos k1 k2
        by (cases "PK rec = dl_ID inp"; cases r2; cases "projl r2") (auto simp: deleteStockLocation_def 1 rec 2 intro!: location_idle)
    next
      case True
      then obtain refs where refs: "PK rec = dl_ID inp" "r2 = Inr refs" "location_refs_empty refs" by blast
      let ?plan = "location_plan (rec, refs)" and ?ask = "Inr (ask (Some rec) (Some refs) ''confirmation'' ''plan_hash'')"
      have plan: "\<lparr>ld_Action = ''delete_stock_location'', ld_Location = rec, ld_References = refs\<rparr> = ?plan" by (simp add: location_plan_def)
      obtain b ps where c: "location_delete_consume (de_digest env) (de_call env) (dl_PlanHash inp) ?plan (ds_plans st2) = (b, ps)" by fastforce
      obtain r3 st3 where d: "ds_delete (de_client env) StockLocation (dl_ID inp) (st2\<lparr>ds_plans := ps\<rparr>) = (r3, st3)" by fastforce
      obtain out st4 where v: "verifyStockLocationDeletion (de_client env) rec refs r3 st3 = (out, st4)" by fastforce
      have body: "deleteStockLocation env inp st = (if \<not> dl_Confirm inp then issueStockLocationDeletePlan env ?plan st2 else if \<not> True then (?ask, st2)
          else if dl_PlanHash inp = '''' then (?ask, st2) else if b then (out, st4) else (?ask, st2\<lparr>ds_plans := ps\<rparr>))"
        using pos refs by (simp add: deleteStockLocation_def 1 rec 2 plan c d v)
      have c': "plan_consume (de_digest env) (\<lambda>p. PK (ld_Location p)) (de_call env) (dl_PlanHash inp) ?plan (ds_plans st) = (b, ps)"
        using c k1 k2 by (simp add: location_delete_consume_def)
      have v': "ds_plans st4 = ps" "ds_sent st4 = ds_sent st @ [(StockLocation, dl_ID inp)]" "shown_as location_plan out = None"
        using verifyDeletion_keeps[where mk = location_plan, OF v[unfolded verifyStockLocationDeletion_def]] ds_delete_sends[OF d] k1 k2 by simp_all
      show ?thesis unfolding location_effect_def body
        by (rule reviewed_gate[where store = ds_plans and sent = ds_sent and shown = "shown_as location_plan" and reqs = "[(StockLocation, dl_ID inp)]",
            OF _ _ _ _ _ _ c' _ _ v'])
          (use k1 k2 pos refs ds_fetch_world[OF 2] issue_location_effect[of st2 st env inp "(rec, refs)"]
            in \<open>auto simp: location_effect_def location_fits_def location_plan_def\<close>)
    qed
  qed
qed

definition category_effect :: "('w, category_refs category_delete_plan) delete_env \<Rightarrow> delete_input \<Rightarrow> 'w delete_state \<Rightarrow>
    (go_error + category_refs delete_output) \<times> 'w delete_state \<Rightarrow> bool" where
  "category_effect env inp = reviewed_effect ds_plans ds_sent (shown_as category_plan) categoryDeletePlanLifetime (de_digest env)
     (\<lambda>p. PK (cd_Category p)) (de_call env) (dl_PlanHash inp) (category_fits (de_client env) inp)"

lemma category_idle: "ds_plans st' = ds_plans st \<Longrightarrow> ds_sent st' = ds_sent st \<Longrightarrow> shown_as category_plan out = None \<Longrightarrow> category_effect env inp st (out, st')"
  by (simp add: category_effect_def reviewed_idle)

lemma issue_category_effect:
  assumes "ds_plans st1 = ds_plans st" "ds_sent st1 = ds_sent st"
  shows "category_effect env inp st (issueCategoryDeletePlan env (category_plan x) st1)"
proof -
  obtain r ps where i: "plan_issue_purge categoryDeletePlanLifetime (de_digest env) (\<lambda>p. PK (cd_Category p)) (de_call env) (category_plan x) (ds_plans st) = (r, ps)" by fastforce
  show ?thesis unfolding category_effect_def using i assms
    by (cases r; cases x) (auto simp: issueCategoryDeletePlan_def category_delete_issue_def plan_issue_inline_eq shown_as_def ask_def category_plan_def empty_output_def
      intro!: reviewed_issue[where plan = "category_plan x" and r = r])
qed

lemma effect_deletePartCategory: "category_effect env inp st (deletePartCategory env inp st)"
proof (cases "dl_ID inp \<le> 0")
  case True
  then show ?thesis by (simp add: deletePartCategory_def category_idle)
next
  case pos: False
  obtain r1 st1 where 1: "ds_fetch (dc_Get (de_client env) PartCategory (dl_ID inp)) st = (r1, st1)" by fastforce
  note k1 = ds_fetch_keeps[OF 1]
  show ?thesis
  proof (cases r1)
    case (Inl e)
    then show ?thesis using pos k1 by (simp add: deletePartCategory_def 1 category_idle)
  next
    case rec: (Inr rec)
    obtain r2 st2 where 2: "ds_fetch (loadCategoryDeleteBlockingReferences (de_client env) (dl_ID inp)) st1 = (r2, st2)" by fastforce
    note k2 = ds_fetch_keeps[OF 2]
    show ?thesis
    proof (cases "PK rec = dl_ID inp \<and> (\<exists>refs. r2 = Inr refs \<and> category_refs_empty refs)")
      case False
      then show ?thesis using pos k1 k2
        by (cases "PK rec = dl_ID inp"; cases r2; cases "projl r2") (auto simp: deletePartCategory_def 1 rec 2 intro!: category_idle)
    next
      case True
      then obtain refs where refs: "PK rec = dl_ID inp" "r2 = Inr refs" "category_refs_empty refs" by blast
      let ?plan = "category_plan (rec, refs)" and ?ask = "Inr (ask (Some rec) None ''confirmation'' ''plan_hash'')"
      have plan: "\<lparr>cd_Action = ''delete_part_category'', cd_Category = rec, cd_Blocking = refs\<rparr> = ?plan" by (simp add: category_plan_def)
      obtain b ps where c: "category_delete_consume (de_digest env) (de_call env) (dl_PlanHash inp) ?plan (ds_plans st2) = (b, ps)" by fastforce
      obtain r3 st3 where d: "ds_delete (de_client env) PartCategory (dl_ID inp) (st2\<lparr>ds_plans := ps\<rparr>) = (r3, st3)" by fastforce
      obtain out st4 where v: "verifyCategoryDeletion (de_client env) rec r3 st3 = (out, st4)" by fastforce
      have body: "deletePartCategory env inp st = (if \<not> dl_Confirm inp then issueCategoryDeletePlan env ?plan st2 else if \<not> True then (?ask, st2)
          else if dl_PlanHash inp = '''' then (?ask, st2) else if b then (out, st4) else (?ask, st2\<lparr>ds_plans := ps\<rparr>))"
        using pos refs by (simp add: deletePartCategory_def 1 rec 2 plan c d v)
      have c': "plan_consume (de_digest env) (\<lambda>p. PK (cd_Category p)) (de_call env) (dl_PlanHash inp) ?plan (ds_plans st) = (b, ps)"
        using c k1 k2 by (simp add: category_delete_consume_def)
      have v': "ds_plans st4 = ps" "ds_sent st4 = ds_sent st @ [(PartCategory, dl_ID inp)]" "shown_as category_plan out = None"
        using verifyDeletion_keeps[where mk = category_plan, OF v[unfolded verifyCategoryDeletion_def]] ds_delete_sends[OF d] k1 k2 by simp_all
      show ?thesis unfolding category_effect_def body
        by (rule reviewed_gate[where store = ds_plans and sent = ds_sent and shown = "shown_as category_plan" and reqs = "[(PartCategory, dl_ID inp)]",
            OF _ _ _ _ _ _ c' _ _ v'])
          (use k1 k2 pos refs ds_fetch_world[OF 2] issue_category_effect[of st2 st env inp "(rec, refs)"]
            in \<open>auto simp: category_effect_def category_fits_def category_plan_def\<close>)
    qed
  qed
qed

interpretation locations: reviewed_tool "location_step env" ds_plans ds_sent stockLocationDeletePlanLifetime "de_digest env"
  "\<lambda>p. PK (ld_Location p)" fst "\<lambda>c. dl_PlanHash (snd c)" "shown_as location_plan" "\<lambda>c. location_fits (de_client env) (snd c)"
  for env :: "('w, location_refs location_delete_plan) delete_env"
proof (unfold_locales, goal_cases)
  case (1 c st out st')
  have "location_effect (env\<lparr>de_call := fst c\<rparr>) (snd c) st (location_step env c st)"
    unfolding location_step_def location_effect_def using effect_deleteStockLocation[of "env\<lparr>de_call := fst c\<rparr>" "snd c" st] by (intro reviewed_lookup_call) (simp_all add: location_effect_def)
  then show ?case using 1 by (simp add: location_effect_def reviewed_effect_def)
qed

interpretation categories: reviewed_tool "category_step env" ds_plans ds_sent categoryDeletePlanLifetime "de_digest env"
  "\<lambda>p. PK (cd_Category p)" fst "\<lambda>c. dl_PlanHash (snd c)" "shown_as category_plan" "\<lambda>c. category_fits (de_client env) (snd c)"
  for env :: "('w, category_refs category_delete_plan) delete_env"
proof (unfold_locales, goal_cases)
  case (1 c st out st')
  have "category_effect (env\<lparr>de_call := fst c\<rparr>) (snd c) st (category_step env c st)"
    unfolding category_step_def category_effect_def using effect_deletePartCategory[of "env\<lparr>de_call := fst c\<rparr>" "snd c" st] by (intro reviewed_lookup_call) (simp_all add: category_effect_def)
  then show ?case using 1 by (simp add: category_effect_def reviewed_effect_def)
qed

section \<open>Properties\<close>

lemma fresh_plans: "m = 64 \<Longrightarrow> plan_inv 4096 m (new_plan_store 4096 m)" "map_of (ps_entries (new_plan_store k m)) t = None"
  by (simp_all add: new_plan_store_inv) (simp add: new_plan_store_def)

lemma location_store: "newStockLocationDeletePlanStore = new_plan_store 4096 64"
  by (simp add: newStockLocationDeletePlanStore_def stockLocationDeletePlanMaxEntries_def stockLocationDeletePlanMaxEntriesPerPrincipal_def)

lemma category_store: "newCategoryDeletePlanStore = new_plan_store 4096 64"
  by (simp add: newCategoryDeletePlanStore_def categoryDeletePlanMaxEntries_def categoryDeletePlanMaxEntriesPerPrincipal_def)


text \<open>delete_part_category keeps the same promise: one confirmed DELETE for the category named, under a
  plan shown to the same user less than five minutes before, and, on a server that answers with
  slices of one table per query, no part, child category, template link or parameter refers to it.\<close>

theorem category_delete_reviewed:
  assumes "ds_plans st = newCategoryDeletePlanStore" and "n < length cs" "tool_trace (category_step env) cs st ! n = (c, s1, out, s2)"
    and "ds_sent s2 \<noteq> ds_sent s1"
  shows "ds_sent s2 = ds_sent s1 @ [(PartCategory, dl_ID (snd c))] \<and> dl_Confirm (snd c) \<and>
    (\<exists>j c0 s0 out0 s0' p0 plan. j < n \<and> tool_trace (category_step env) cs st ! j = (c0, s0, out0, s0') \<and>
       shown_as category_plan out0 = Some (dl_PlanHash (snd c), p0) \<and> is_ok (de_digest env p0) \<and> de_digest env plan = de_digest env p0 \<and>
       PK (cd_Category plan) = dl_ID (snd c) \<and> PK (cd_Category p0) = dl_ID (snd c) \<and>
       map_option ti_UserID (pc_info (fst c0)) = map_option ti_UserID (pc_info (fst c)) \<and>
       pc_now (fst c) < pc_now (fst c0) + categoryDeletePlanLifetime) \<and>
    (\<forall>table. honest table (de_client env) \<longrightarrow> category_free table (dl_ID (snd c)))"
proof -
  have "plan_inv 4096 64 (ds_plans st)" "map_of (ps_entries (ds_plans st)) t = None" for t
    unfolding assms(1) category_store by (simp_all add: fresh_plans)
  from categories.writes_were_shown[OF this assms(2-4)] obtain j c0 s0 out0 s0' p0 plan reqs where
    w: "j < n" "tool_trace (category_step env) cs st ! j = (c0, s0, out0, s0')" "shown_as category_plan out0 = Some (dl_PlanHash (snd c), p0)"
      "ds_sent s2 = ds_sent s1 @ reqs" "category_fits (de_client env) (snd c) plan reqs" "is_ok (de_digest env p0)"
      "de_digest env plan = de_digest env p0" "PK (cd_Category plan) = PK (cd_Category p0)"
      "map_option ti_UserID (pc_info (fst c0)) = map_option ti_UserID (pc_info (fst c))"
      "pc_now (fst c) < pc_now (fst c0) + categoryDeletePlanLifetime" by blast
  have "category_free table (dl_ID (snd c))" if "honest table (de_client env)" for table
    using category_refs_free[OF that] w(5) by (auto simp: category_fits_def)
  moreover have fit: "reqs = [(PartCategory, dl_ID (snd c))]" "dl_Confirm (snd c)" "PK (cd_Category plan) = dl_ID (snd c)"
    using w(5) by (simp_all add: category_fits_def)
  moreover have "PK (cd_Category p0) = dl_ID (snd c)" using fit(3) w(8) by simp
  ultimately show ?thesis
    by (intro conjI exI[of _ j] exI[of _ c0] exI[of _ s0] exI[of _ out0] exI[of _ s0'] exI[of _ p0] exI[of _ plan]) (simp_all add: w)
qed

lemma verify_ok:
  "verifyDeletion client kind rec refs rejected noun err st = (Inr out, st') \<Longrightarrow> do_Status out = ''ok'' \<Longrightarrow>
    \<exists>e. isNotFound e \<and> dc_Get client kind (PK rec) (ds_world st) = (Inl e, ds_world st')"
  unfolding verifyDeletion_def Let_def
  by (auto simp: empty_output_def ds_fetch_def split: option.splits prod.splits sum.splits if_splits)

lemma ask_status [simp]: "do_Status (ask rec refs subject retry) = ''clarification_required''" "do_Status (empty_output s) = s"
  by (simp_all add: ask_def empty_output_def)

lemma issue_status:
  "issueStockLocationDeletePlan env plan st = (Inr out, st') \<Longrightarrow> do_Status out = ''clarification_required''"
  "issueCategoryDeletePlan env2 plan2 st2 = (Inr out2, st2') \<Longrightarrow> do_Status out2 = ''clarification_required''"
  by (auto simp: issueStockLocationDeletePlan_def issueCategoryDeletePlan_def split: sum.splits prod.splits)

lemma location_ok:
  assumes "deleteStockLocation env inp st = (Inr out, st')" "do_Status out = ''ok''"
  shows "ds_sent st' = ds_sent st @ [(StockLocation, dl_ID inp)] \<and>
    (\<exists>e w. isNotFound e \<and> dc_Get (de_client env) StockLocation (dl_ID inp) w = (Inl e, ds_world st'))"
proof -
  obtain rec refs r st1 st2 ps st3 where o: "ds_fetch (dc_Get (de_client env) StockLocation (dl_ID inp)) st = (Inr rec, st1)" "PK rec = dl_ID inp"
      "ds_fetch (stockLocationDeleteReferences (de_client env) (PK rec)) st1 = (Inr refs, st2)"
      "ds_delete (de_client env) StockLocation (PK rec) (st2\<lparr>ds_plans := ps\<rparr>) = (r, st3)"
      "verifyStockLocationDeletion (de_client env) rec refs r st3 = (Inr out, st')"
    using assms by (auto simp: deleteStockLocation_def Let_def dest: issue_status(1) split: if_splits sum.splits prod.splits scan_error.splits bool.splits)
  note v = o(5)[unfolded verifyStockLocationDeletion_def]
  show ?thesis using verify_ok[OF v assms(2)] verifyDeletion_keeps[where mk = fst, OF v] ds_delete_sends[OF o(4)] ds_fetch_keeps[OF o(1)]
      ds_fetch_keeps[OF o(3)] o(2) by auto
qed

lemma category_ok:
  assumes "deletePartCategory env inp st = (Inr out, st')" "do_Status out = ''ok''"
  shows "ds_sent st' = ds_sent st @ [(PartCategory, dl_ID inp)] \<and>
    (\<exists>e w. isNotFound e \<and> dc_Get (de_client env) PartCategory (dl_ID inp) w = (Inl e, ds_world st'))"
proof -
  obtain rec refs r st1 st2 ps st3 where o: "ds_fetch (dc_Get (de_client env) PartCategory (dl_ID inp)) st = (Inr rec, st1)" "PK rec = dl_ID inp"
      "ds_fetch (loadCategoryDeleteBlockingReferences (de_client env) (PK rec)) st1 = (Inr refs, st2)"
      "ds_delete (de_client env) PartCategory (PK rec) (st2\<lparr>ds_plans := ps\<rparr>) = (r, st3)"
      "verifyCategoryDeletion (de_client env) rec r st3 = (Inr out, st')"
    using assms by (auto simp: deletePartCategory_def Let_def dest: issue_status(2) split: if_splits sum.splits prod.splits scan_error.splits bool.splits)
  note v = o(5)[unfolded verifyCategoryDeletion_def]
  show ?thesis using verify_ok[OF v assms(2)] verifyDeletion_keeps[where mk = fst, OF v] ds_delete_sends[OF o(4)] ds_fetch_keeps[OF o(1)]
      ds_fetch_keeps[OF o(3)] o(2) by auto
qed


section \<open>A small InvenTree\<close>

text \<open>The world is the set of records left; one location and one category, each search over an empty table.\<close>

definition tiny_client :: "(delete_kind \<times> int) list delete_client" where
  "tiny_client = \<lparr>dc_Get = (\<lambda>kind i w. (if (kind, i) \<in> set w then Inr \<lparr>PK = i, Body = ''b''\<rparr> else Inl (ApiError \<lparr>ae_StatusCode = 404,
       ae_Kind = KindNotFound, ae_Method = ''GET'', ae_Path = ''/'', ae_Detail = '''', ae_FieldErrors = []\<rparr>), w)),
     dc_Search = (\<lambda>q limit offset w. (Inr \<lparr>pg_Count = 0, pg_Next = None, pg_HasMore = False, pg_Results = []\<rparr>, w)),
     dc_Delete = (\<lambda>kind i w. (None, filter (\<lambda>x. x \<noteq> (kind, i)) w))\<rparr>"

definition tiny_state :: "(delete_kind \<times> int) list delete_state" where
  "tiny_state = \<lparr>ds_world = [(StockLocation, 5), (PartCategory, 5)], ds_plans = newStockLocationDeletePlanStore, ds_sent = []\<rparr>"

definition tiny_calls :: "(plan_call \<times> delete_input) list" where
  "tiny_calls = [(demo_call 0 ''a'', \<lparr>dl_ID = 5, dl_Confirm = False, dl_PlanHash = ''''\<rparr>),
     (demo_call 1 ''b'', \<lparr>dl_ID = 5, dl_Confirm = True, dl_PlanHash = ''a''\<rparr>)]"

definition tiny_env :: "((delete_kind \<times> int) list, 'p) delete_env" where
  "tiny_env = \<lparr>de_call = demo_call 0 ''a'', de_digest = (\<lambda>p. Inr ''d''), de_client = tiny_client\<rparr>"

lemma tiny_client_simps [simp]: "dc_Search tiny_client q limit offset w = (Inr \<lparr>pg_Count = 0, pg_Next = None, pg_HasMore = False, pg_Results = []\<rparr>, w)"
  by (simp add: tiny_client_def)

lemma tiny_full: "full_pages (\<lambda>_. []) tiny_client"
  by (simp add: full_pages_def page_slice_def)

lemma tiny_honest: "honest (\<lambda>_. []) tiny_client"
  by (auto simp: honest_def page_slice_def)

theorem scan_is_filter_witness:
  "scanStockLocationDeletePages (location_page tiny_client AllBuilds (\<lambda>r. rr_PK r = 1)) [] = (Inr [], [])"
  using scan_is_filter[OF tiny_full, of AllBuilds "\<lambda>r. rr_PK r = 1" "[]"] by simp

lemma location_run:
  "ds_sent (snd (location_step tiny_env (tiny_calls ! 1) (snd (location_step tiny_env (tiny_calls ! 0) tiny_state)))) = [(StockLocation, 5)]"
  "ds_sent (snd (location_step tiny_env (tiny_calls ! 0) tiny_state)) = []"
  by code_simp+

lemma category_run:
  "ds_sent (snd (category_step tiny_env (tiny_calls ! 1) (snd (category_step tiny_env (tiny_calls ! 0) tiny_state)))) = [(PartCategory, 5)]"
  "ds_sent (snd (category_step tiny_env (tiny_calls ! 0) tiny_state)) = []"
  by code_simp+



theorem category_delete_reviewed_witness:
  "\<exists>j c0 s0 out0 s0' p0. j < (1::nat) \<and> tool_trace (category_step tiny_env) tiny_calls tiny_state ! j = (c0, s0, out0, s0') \<and>
    shown_as category_plan out0 = Some (''a'', p0) \<and> category_free (\<lambda>_. []) 5"
proof -
  let ?s1 = "snd (category_step tiny_env (tiny_calls ! 0) tiny_state)"
  let ?s2 = "snd (category_step tiny_env (tiny_calls ! 1) ?s1)"
  have l: "tiny_calls = [tiny_calls ! 0, tiny_calls ! 1]" by (simp add: tiny_calls_def)
  have tr: "tool_trace (category_step tiny_env) tiny_calls tiny_state ! 1 = (tiny_calls ! 1, ?s1, fst (category_step tiny_env (tiny_calls ! 1) ?s1), ?s2)"
    by (subst l) (simp add: Let_def split: prod.splits)
  have n: "1 < length tiny_calls" by (simp add: tiny_calls_def)
  have ne: "ds_sent ?s2 \<noteq> ds_sent ?s1" using category_run by simp
  have i: "dl_PlanHash (snd (tiny_calls ! 1)) = ''a''" "dl_ID (snd (tiny_calls ! 1)) = 5" by (simp_all add: tiny_calls_def)
  have st: "ds_plans tiny_state = newCategoryDeletePlanStore" by (simp add: tiny_state_def location_store category_store)
  have h: "honest (\<lambda>_. []) (de_client tiny_env)" by (simp add: tiny_env_def tiny_honest)
  show ?thesis using category_delete_reviewed[OF st n tr ne] h unfolding i by blast
qed

lemma tiny_deleted: "\<exists>out. fst (deletePartCategory tiny_env \<lparr>dl_ID = 5, dl_Confirm = True, dl_PlanHash = ''a''\<rparr>
     (snd (category_step tiny_env (tiny_calls ! 0) tiny_state))) = Inr out \<and> do_Status out = ''ok''"
  by (rule exI[of _ "(empty_output ''ok'')\<lparr>do_Record := Some \<lparr>PK = 5, Body = ''b''\<rparr>, do_Verified := True\<rparr>"]) code_simp


end
