(* ===== verification/Order_Lifecycle.thy ===== *)
theory Order_Lifecycle
  imports Stock_Model Reviewed_Tool
begin

text \<open>
  Hold, resume and cancel of purchase orders (internal/tools/purchase_order_lifecycle_tools.go):
  the preflight of the order's status and lines, the plan, the confirmation, one request and the
  read that proves the new status. The InvenTree client is a record of functions over an abstract
  world; a record keeps the fields the code reads and, as text, the rest. Lists are sorted stably
  by primary key, which is unique. What is sent is logged in \<open>os_sent\<close>. PlanHash is None
  where the code leaves the field empty; a clarification keeps its retry argument.
\<close>

section \<open>The client\<close>

record purchase_order =
  od_PK :: int
  od_Status :: int
  od_Body :: string

record order_line =
  ol_PK :: int
  ol_Received :: float64
  ol_Notes :: string
  ol_Link :: string
  ol_Body :: string

record extra_line =
  xl_PK :: int
  xl_Order :: int
  xl_Notes :: string
  xl_Link :: string
  xl_Body :: string

record extra_page =
  xp_Count :: int
  xp_Next :: "string option"
  xp_Results :: "extra_line list"

datatype order_write = HoldOrder int | IssueOrder int | CancelOrder int

record 'w order_client =
  oc_GetPurchaseOrder :: "int \<Rightarrow> 'w \<Rightarrow> (go_error + purchase_order) \<times> 'w"
  oc_SearchPurchaseOrderLines :: "int \<Rightarrow> 'w \<Rightarrow> (go_error + order_line list) \<times> 'w"
  oc_SearchPurchaseOrderExtraLinesPage :: "int \<Rightarrow> int \<Rightarrow> int \<Rightarrow> 'w \<Rightarrow> (go_error + extra_page) \<times> 'w"
  oc_write :: "order_write \<Rightarrow> 'w \<Rightarrow> go_error option \<times> 'w"

definition PurchaseOrderStatusPending :: int where "PurchaseOrderStatusPending = 10"
definition PurchaseOrderStatusPlaced :: int where "PurchaseOrderStatusPlaced = 20"
definition PurchaseOrderStatusOnHold :: int where "PurchaseOrderStatusOnHold = 25"
definition PurchaseOrderStatusComplete :: int where "PurchaseOrderStatusComplete = 30"
definition PurchaseOrderStatusCancelled :: int where "PurchaseOrderStatusCancelled = 40"

section \<open>Plans, inputs and outputs\<close>

type_synonym order_plan = "(purchase_order, order_line, extra_line) po_lifecycle_plan"

record order_input =
  oi_DryRun :: bool
  oi_Confirm :: bool
  oi_PlanHash :: string
  oi_OrderID :: int

record order_output =
  oo_Status :: string
  oo_DryRun :: bool
  oo_Order :: "purchase_order option"
  oo_Lines :: "order_line list"
  oo_ExtraLines :: "extra_line list"
  oo_Action :: string
  oo_PlannedStatus :: "int option"
  oo_PlanHash :: "string option"
  oo_Warning :: string
  oo_Recovered :: bool
  oo_Failure :: "string option"
  oo_Clarification :: "string option"

record 'w order_env =
  oe_call :: plan_call
  oe_digest :: "order_plan \<Rightarrow> string + string"
  oe_parse :: "string \<Rightarrow> ext_url option"
  oe_client :: "'w order_client"

record 'w order_state =
  os_world :: 'w
  os_plans :: "(int \<times> string) plan_store"
  os_sent :: "order_write list"

definition order_output0 :: "bool \<Rightarrow> order_output" where
  "order_output0 dry = \<lparr>oo_Status = st_ok, oo_DryRun = dry, oo_Order = None, oo_Lines = [], oo_ExtraLines = [], oo_Action = '''',
     oo_PlannedStatus = None, oo_PlanHash = None, oo_Warning = '''', oo_Recovered = False, oo_Failure = None, oo_Clarification = None\<rparr>"

definition purchaseOrderLifecycleClarification :: "order_output \<Rightarrow> string \<Rightarrow> order_output" where
  "purchaseOrderLifecycleClarification out retry = out\<lparr>oo_Status := st_clarification, oo_Clarification := Some retry\<rparr>"

definition purchaseOrderLifecycleUnknown :: "order_output \<Rightarrow> string \<Rightarrow> order_output" where
  "purchaseOrderLifecycleUnknown out message = out\<lparr>oo_Status := st_partial, oo_Failure := Some message\<rparr>"

definition os_fetch :: "('w \<Rightarrow> 'a \<times> 'w) \<Rightarrow> 'w order_state \<Rightarrow> 'a \<times> 'w order_state" where
  "os_fetch f st = (case f (os_world st) of (x, w) \<Rightarrow> (x, st\<lparr>os_world := w\<rparr>))"

definition os_send :: "'w order_env \<Rightarrow> order_write \<Rightarrow> 'w order_state \<Rightarrow> go_error option \<times> 'w order_state" where
  "os_send env req st = (case oc_write (oe_client env) req (os_world st) of
     (r, w) \<Rightarrow> (r, st\<lparr>os_world := w, os_sent := os_sent st @ [req]\<rparr>))"

section \<open>Lines and extra lines\<close>

definition sanitizePurchaseOrderLine :: "(string \<Rightarrow> ext_url option) \<Rightarrow> order_line \<Rightarrow> order_line" where
  "sanitizePurchaseOrderLine parse l = (if ol_Link l \<noteq> '''' then l\<lparr>ol_Link := projectExternalURL parse (Some (ol_Link l))\<rparr> else l)"

definition sanitizePurchaseOrderExtraLine :: "(string \<Rightarrow> ext_url option) \<Rightarrow> extra_line \<Rightarrow> extra_line" where
  "sanitizePurchaseOrderExtraLine parse l = (if xl_Link l \<noteq> '''' then l\<lparr>xl_Link := projectExternalURL parse (Some (xl_Link l))\<rparr> else l)"

definition maxPurchaseOrderExtraLineScan :: int where "maxPurchaseOrderExtraLineScan = 1000"
definition MaxLookupLimit :: int where "MaxLookupLimit = 100"

definition safeExtraLineError :: "string \<Rightarrow> go_error" where
  "safeExtraLineError operation = OtherError (operation @ '' failed; inspect InvenTree availability and permissions before retrying'')"

function extraLineLoop :: "'w order_client \<Rightarrow> int \<Rightarrow> int \<Rightarrow> extra_line list \<Rightarrow> extra_page \<Rightarrow> 'w \<Rightarrow> (go_error + extra_line list) \<times> 'w" where
  "extraLineLoop client orderID offset all page w =
    (if list_ex (\<lambda>r. xl_Order r \<noteq> orderID) (xp_Results page)
     then (Inl (safeExtraLineError ''extra-line recovery order verification''), w)
     else let all1 = all @ xp_Results page; offset1 = offset + int (length (xp_Results page)) in
       if xp_Next page = None \<or> xp_Next page = Some '''' \<or> offset1 \<ge> xp_Count page then (Inr (sort_key xl_PK all1), w)
       else if xp_Results page = [] \<or> offset1 \<ge> maxPurchaseOrderExtraLineScan
       then (Inl (OtherError ''extra-line recovery scan could not prove a complete bounded result''), w)
       else (case oc_SearchPurchaseOrderExtraLinesPage client orderID MaxLookupLimit offset1 w of
         (Inl _, w1) \<Rightarrow> (Inl (safeExtraLineError ''extra-line recovery scan''), w1)
       | (Inr page1, w1) \<Rightarrow> extraLineLoop client orderID offset1 all1 page1 w1))"
  by pat_completeness auto
termination
  by (relation "measure (\<lambda>(client, orderID, offset, all, page, w). nat (maxPurchaseOrderExtraLineScan - offset))") auto

declare extraLineLoop.simps [simp del]

definition scanPurchaseOrderExtraLines :: "'w order_client \<Rightarrow> int \<Rightarrow> 'w \<Rightarrow> (go_error + extra_line list) \<times> 'w" where
  "scanPurchaseOrderExtraLines client orderID w = (case oc_SearchPurchaseOrderExtraLinesPage client orderID MaxLookupLimit 0 w of
     (Inl _, w1) \<Rightarrow> (Inl (safeExtraLineError ''extra-line recovery scan''), w1)
   | (Inr page, w1) \<Rightarrow>
     if xp_Count page > maxPurchaseOrderExtraLineScan
     then (Inl (OtherError (''purchase order has more than the '' @ show_int maxPurchaseOrderExtraLineScan @ ''-extra-line safety bound'')), w1)
     else extraLineLoop client orderID 0 [] page w1)"

definition loadPurchaseOrderLifecycleContext :: "'w order_env \<Rightarrow> int \<Rightarrow> 'w \<Rightarrow> (go_error + order_line list \<times> extra_line list) \<times> 'w" where
  "loadPurchaseOrderLifecycleContext env orderID w = (case oc_SearchPurchaseOrderLines (oe_client env) orderID w of
     (Inl e, w1) \<Rightarrow> (Inl e, w1)
   | (Inr lines, w1) \<Rightarrow>
     (let safe = map (\<lambda>l. (sanitizePurchaseOrderLine (oe_parse env) l)\<lparr>ol_Notes := ''''\<rparr>) (sort_key ol_PK lines) in
      case scanPurchaseOrderExtraLines (oe_client env) orderID w1 of
        (Inl e, w2) \<Rightarrow> (Inl e, w2)
      | (Inr extra, w2) \<Rightarrow> (Inr (safe, map (\<lambda>l. (sanitizePurchaseOrderExtraLine (oe_parse env) l)\<lparr>xl_Notes := ''''\<rparr>) extra), w2)))"

fun firstReceivedPurchaseOrderLine :: "order_line list \<Rightarrow> (order_line \<times> float64) option" where
  "firstReceivedPurchaseOrderLine [] = None"
| "firstReceivedPurchaseOrderLine (l # ls) = (if f_lt nano (ol_Received l) then Some (l, ol_Received l) else firstReceivedPurchaseOrderLine ls)"

section \<open>Execution\<close>

definition executePurchaseOrderLifecyclePlan :: "'w order_env \<Rightarrow> order_input \<Rightarrow> order_plan \<Rightarrow> string \<Rightarrow> order_write \<Rightarrow>
    'w order_state \<Rightarrow> (go_error + order_output) \<times> 'w order_state" where
  "executePurchaseOrderLifecyclePlan env inp plan warning req st =
    (let out = (order_output0 (oi_DryRun inp))\<lparr>oo_Order := Some (po_Order plan), oo_Lines := po_Lines plan,
           oo_ExtraLines := po_ExtraLines plan, oo_Action := po_Action plan, oo_Warning := warning\<rparr> in
     if oi_DryRun inp then (case po_lifecycle_issue (oe_digest env) (oe_call env) plan (os_plans st) of
         (Inl PlanCapacity, ps) \<Rightarrow> (Inr (purchaseOrderLifecycleClarification out ''dry_run''), st\<lparr>os_plans := ps\<rparr>)
       | (Inl (PlanDigestError e), ps) \<Rightarrow> (Inl (OtherError e), st\<lparr>os_plans := ps\<rparr>)
       | (Inl (PlanTokenError e), ps) \<Rightarrow> (Inl (OtherError e), st\<lparr>os_plans := ps\<rparr>)
       | (Inr token, ps) \<Rightarrow> (Inr (out\<lparr>oo_PlanHash := Some token, oo_PlannedStatus := Some (po_TargetStatus plan)\<rparr>), st\<lparr>os_plans := ps\<rparr>))
     else if \<not> oi_Confirm inp then (Inr (purchaseOrderLifecycleClarification out ''confirm''), st)
     else if oi_PlanHash inp = '''' then (Inr (purchaseOrderLifecycleClarification out ''plan_hash''), st)
     else (case po_lifecycle_consume (oe_digest env) (oe_call env) (oi_PlanHash inp) plan (os_plans st) of
         (False, ps) \<Rightarrow> (Inr (purchaseOrderLifecycleClarification out ''plan_hash''), st\<lparr>os_plans := ps\<rparr>)
       | (True, ps) \<Rightarrow> (case os_send env req (st\<lparr>os_plans := ps\<rparr>) of (mutationErr, st1) \<Rightarrow>
           if (case mutationErr of None \<Rightarrow> False | Some e \<Rightarrow> definitely_rejected e) then (Inl (the mutationErr), st1)
           else (case os_fetch (oc_GetPurchaseOrder (oe_client env) (od_PK (po_Order plan))) st1 of
             (Inl _, st2) \<Rightarrow> (Inr (purchaseOrderLifecycleUnknown out
                ''purchase-order lifecycle result is unknown because refreshed order state is unavailable''), st2)
           | (Inr refreshed, st2) \<Rightarrow>
             (let out1 = out\<lparr>oo_Order := Some refreshed\<rparr> in
              if od_Status refreshed \<noteq> po_TargetStatus plan
              then (Inr (purchaseOrderLifecycleUnknown out1 ''refreshed order status does not match the reviewed lifecycle plan''), st2)
              else (Inr (out1\<lparr>oo_Recovered := mutationErr \<noteq> None\<rparr>), st2))))))"

section \<open>The handlers\<close>

text \<open>What the three handlers begin with: the identifier, the order as it is, the status it already has,
  the statuses refused, the lines. Inl is an early answer.\<close>

definition order_preflight :: "'w order_env \<Rightarrow> order_input \<Rightarrow> int \<Rightarrow> string \<Rightarrow> (int \<Rightarrow> bool) \<Rightarrow> 'w order_state \<Rightarrow>
    ((go_error + order_output) + purchase_order \<times> order_line list \<times> extra_line list \<times> order_output) \<times> 'w order_state" where
  "order_preflight env inp already action refused st =
    (let out = order_output0 (oi_DryRun inp) in
     if oi_OrderID inp \<le> 0 then (Inl (Inr (purchaseOrderLifecycleClarification out ''order_id'')), st)
     else (case os_fetch (oc_GetPurchaseOrder (oe_client env) (oi_OrderID inp)) st of
       (Inl e, st1) \<Rightarrow> (Inl (Inl e), st1)
     | (Inr order, st1) \<Rightarrow>
       (let out1 = out\<lparr>oo_Order := Some order\<rparr> in
        if od_Status order = already then (Inl (Inr (out1\<lparr>oo_Action := action\<rparr>)), st1)
        else if refused (od_Status order) then (Inl (Inr (purchaseOrderLifecycleClarification out1 ''order_id'')), st1)
        else (case os_fetch (loadPurchaseOrderLifecycleContext env (od_PK order)) st1 of
          (Inl e, st2) \<Rightarrow> (Inl (Inl e), st2)
        | (Inr (lines, extra), st2) \<Rightarrow> (Inr (order, lines, extra, out1\<lparr>oo_Lines := lines, oo_ExtraLines := extra\<rparr>), st2)))))"

definition holdPurchaseOrder :: "'w order_env \<Rightarrow> order_input \<Rightarrow> 'w order_state \<Rightarrow> (go_error + order_output) \<times> 'w order_state" where
  "holdPurchaseOrder env inp st =
    (case order_preflight env inp PurchaseOrderStatusOnHold ''already_on_hold''
        (\<lambda>s. s \<noteq> PurchaseOrderStatusPending \<and> s \<noteq> PurchaseOrderStatusPlaced) st of
      (Inl r, st1) \<Rightarrow> (r, st1)
    | (Inr (order, lines, extra, out), st1) \<Rightarrow>
      (let warning = (if od_Status order = PurchaseOrderStatusPending
             then ''This order has not been placed with its supplier. InvenTree has no native transition back to PENDING, so resuming this hold will place the order with its supplier.''
             else '''');
           plan = \<lparr>po_Action = ''hold_purchase_order'', po_OrderID = od_PK order, po_Order = order, po_Lines = lines,
             po_ExtraLines = extra, po_TargetStatus = PurchaseOrderStatusOnHold\<rparr> in
       executePurchaseOrderLifecyclePlan env inp plan warning (HoldOrder (od_PK order)) st1))"

definition resumePurchaseOrder :: "'w order_env \<Rightarrow> order_input \<Rightarrow> 'w order_state \<Rightarrow> (go_error + order_output) \<times> 'w order_state" where
  "resumePurchaseOrder env inp st =
    (case order_preflight env inp PurchaseOrderStatusPlaced ''already_placed'' (\<lambda>s. s \<noteq> PurchaseOrderStatusOnHold) st of
      (Inl r, st1) \<Rightarrow> (r, st1)
    | (Inr (order, lines, extra, out), st1) \<Rightarrow>
      (let plan = \<lparr>po_Action = ''resume_purchase_order'', po_OrderID = od_PK order, po_Order = order, po_Lines = lines,
             po_ExtraLines = extra, po_TargetStatus = PurchaseOrderStatusPlaced\<rparr> in
       executePurchaseOrderLifecyclePlan env inp plan '''' (IssueOrder (od_PK order)) st1))"

definition cancelPurchaseOrder :: "'w order_env \<Rightarrow> order_input \<Rightarrow> 'w order_state \<Rightarrow> (go_error + order_output) \<times> 'w order_state" where
  "cancelPurchaseOrder env inp st =
    (case order_preflight env inp PurchaseOrderStatusCancelled ''already_cancelled'' (\<lambda>s. s = PurchaseOrderStatusComplete) st of
      (Inl r, st1) \<Rightarrow> (r, st1)
    | (Inr (order, lines, extra, out), st1) \<Rightarrow>
      (case firstReceivedPurchaseOrderLine lines of
        Some _ \<Rightarrow> (Inr (purchaseOrderLifecycleClarification out ''line_item_id''), st1)
      | None \<Rightarrow> (let plan = \<lparr>po_Action = ''cancel_purchase_order'', po_OrderID = od_PK order, po_Order = order, po_Lines = lines,
             po_ExtraLines = extra, po_TargetStatus = PurchaseOrderStatusCancelled\<rparr> in
          executePurchaseOrderLifecyclePlan env inp plan '''' (CancelOrder (od_PK order)) st1)))"

end
