(* ===== verification/Order_Safety.thy ===== *)
theory Order_Safety
  imports Order_Lifecycle
begin

text \<open>
  What the purchase-order lifecycle tools promise: a request is sent only for a reviewed plan whose
  order was in a state the tool accepts, cancellation only without received lines, and ok after a
  request only when the order was read back in the promised state.
\<close>

section \<open>Calls\<close>

datatype order_tool = HoldTool | ResumeTool | CancelTool

fun order_handler :: "order_tool \<Rightarrow> 'w order_env \<Rightarrow> order_input \<Rightarrow> 'w order_state \<Rightarrow> (go_error + order_output) \<times> 'w order_state" where
  "order_handler HoldTool = holdPurchaseOrder"
| "order_handler ResumeTool = resumePurchaseOrder"
| "order_handler CancelTool = cancelPurchaseOrder"

definition order_step :: "'w order_env \<Rightarrow> plan_call \<times> order_tool \<times> order_input \<Rightarrow> 'w order_state \<Rightarrow> (go_error + order_output) \<times> 'w order_state" where
  "order_step env c = lookup_call (order_handler (fst (snd c)) (env\<lparr>oe_call := fst c\<rparr>)) (snd (snd c))"

text \<open>The status changes the tools are for, and the request and plan of each.\<close>

fun order_move :: "order_tool \<Rightarrow> int \<Rightarrow> int \<Rightarrow> bool" where
  "order_move HoldTool s t \<longleftrightarrow> (s = 10 \<or> s = 20) \<and> t = 25"
| "order_move ResumeTool s t \<longleftrightarrow> s = 25 \<and> t = 20"
| "order_move CancelTool s t \<longleftrightarrow> s \<noteq> 30 \<and> s \<noteq> 40 \<and> t = 40"

fun order_request :: "order_tool \<Rightarrow> int \<Rightarrow> order_write" where
  "order_request HoldTool = HoldOrder"
| "order_request ResumeTool = IssueOrder"
| "order_request CancelTool = CancelOrder"

fun order_action :: "order_tool \<Rightarrow> string" where
  "order_action HoldTool = ''hold_purchase_order''"
| "order_action ResumeTool = ''resume_purchase_order''"
| "order_action CancelTool = ''cancel_purchase_order''"

definition plan_of :: "order_tool \<Rightarrow> order_plan \<Rightarrow> bool" where
  "plan_of tool plan \<longleftrightarrow> po_Action plan = order_action tool \<and> po_OrderID plan = od_PK (po_Order plan) \<and>
     order_move tool (od_Status (po_Order plan)) (po_TargetStatus plan) \<and>
     (tool = CancelTool \<longrightarrow> (\<forall>l\<in>set (po_Lines plan). \<not> f_lt nano (ol_Received l)))"

text \<open>The plan came from this order and its lines as the server answered in this call.\<close>

definition read_for :: "'w order_env \<Rightarrow> int \<Rightarrow> order_plan \<Rightarrow> bool" where
  "read_for env i plan \<longleftrightarrow> (\<exists>w w'. oc_GetPurchaseOrder (oe_client env) i w = (Inr (po_Order plan), w')) \<and>
     (\<exists>w w'. loadPurchaseOrderLifecycleContext env (od_PK (po_Order plan)) w = (Inr (po_Lines plan, po_ExtraLines plan), w'))"

definition order_fits :: "'w order_env \<Rightarrow> order_tool \<Rightarrow> order_input \<Rightarrow> order_plan \<Rightarrow> order_write list \<Rightarrow> bool" where
  "order_fits env tool inp plan reqs \<longleftrightarrow> \<not> oi_DryRun inp \<and> oi_Confirm inp \<and> plan_of tool plan \<and> read_for env (oi_OrderID inp) plan \<and>
     reqs = [order_request tool (po_OrderID plan)]"

definition shown_order :: "(go_error + order_output) \<Rightarrow> (string \<times> order_plan) option" where
  "shown_order out = (case out of Inl _ \<Rightarrow> None
     | Inr o' \<Rightarrow> (case (oo_PlanHash o', oo_Order o', oo_PlannedStatus o') of
         (Some t, Some order, Some target) \<Rightarrow> Some (t, \<lparr>po_Action = oo_Action o', po_OrderID = od_PK order, po_Order = order,
           po_Lines = oo_Lines o', po_ExtraLines = oo_ExtraLines o', po_TargetStatus = target\<rparr>)
       | _ \<Rightarrow> None))"

lemma shown_order_simps [simp]: "shown_order (Inl e) = None" "oo_PlanHash o' = None \<Longrightarrow> shown_order (Inr o') = None"
  by (simp_all add: shown_order_def)

lemma oo_PlanHash_simps [simp]: "oo_PlanHash (order_output0 dry) = None"
  "oo_PlanHash (purchaseOrderLifecycleClarification out retry) = oo_PlanHash out"
  "oo_PlanHash (purchaseOrderLifecycleUnknown out m) = oo_PlanHash out"
  by (simp_all add: order_output0_def purchaseOrderLifecycleClarification_def purchaseOrderLifecycleUnknown_def)

definition order_effect :: "'w order_env \<Rightarrow> order_tool \<Rightarrow> order_input \<Rightarrow> 'w order_state \<Rightarrow> (go_error + order_output) \<times> 'w order_state \<Rightarrow> bool" where
  "order_effect env tool inp = reviewed_effect os_plans os_sent shown_order stockPlanLifetime (oe_digest env) (\<lambda>p. (po_OrderID p, po_Action p))
     (oe_call env) (oi_PlanHash inp) (order_fits env tool inp)"

lemma os_fetch_keeps: "os_fetch f st = (x, st') \<Longrightarrow> os_plans st' = os_plans st \<and> os_sent st' = os_sent st \<and> f (os_world st) = (x, os_world st')"
  by (auto simp: os_fetch_def split: prod.splits)

lemma os_send_sends: "os_send env req st = (r, st') \<Longrightarrow> os_plans st' = os_plans st \<and> os_sent st' = os_sent st @ [req]"
  by (auto simp: os_send_def split: prod.splits)

lemma order_idle: "os_plans st' = os_plans st \<Longrightarrow> os_sent st' = os_sent st \<Longrightarrow> shown_order out = None \<Longrightarrow> order_effect env tool inp st (out, st')"
  by (simp add: order_effect_def reviewed_idle)

lemma order_fits_call [simp]: "order_fits (env\<lparr>oe_call := x\<rparr>) = order_fits env"
proof -
  have "loadPurchaseOrderLifecycleContext (env\<lparr>oe_call := x\<rparr>) = loadPurchaseOrderLifecycleContext env"
    by (intro ext) (simp add: loadPurchaseOrderLifecycleContext_def cong: prod.case_cong sum.case_cong)
  then show ?thesis by (intro ext) (simp add: order_fits_def read_for_def)
qed

section \<open>Execution\<close>

text \<open>The part of execution after the plan is consumed.\<close>

definition order_write_read :: "'w order_env \<Rightarrow> order_output \<Rightarrow> order_plan \<Rightarrow> order_write \<Rightarrow> 'w order_state \<Rightarrow> (go_error + order_output) \<times> 'w order_state" where
  "order_write_read env out plan req st = (case os_send env req st of (mutationErr, st1) \<Rightarrow>
     if (case mutationErr of None \<Rightarrow> False | Some e \<Rightarrow> definitely_rejected e) then (Inl (the mutationErr), st1)
     else (case os_fetch (oc_GetPurchaseOrder (oe_client env) (od_PK (po_Order plan))) st1 of
       (Inl _, st2) \<Rightarrow> (Inr (purchaseOrderLifecycleUnknown out
          ''purchase-order lifecycle result is unknown because refreshed order state is unavailable''), st2)
     | (Inr refreshed, st2) \<Rightarrow>
       (let out1 = out\<lparr>oo_Order := Some refreshed\<rparr> in
        if od_Status refreshed \<noteq> po_TargetStatus plan
        then (Inr (purchaseOrderLifecycleUnknown out1 ''refreshed order status does not match the reviewed lifecycle plan''), st2)
        else (Inr (out1\<lparr>oo_Recovered := mutationErr \<noteq> None\<rparr>), st2))))"

lemma order_write_read_keeps:
  "order_write_read env out plan req st = (r, st') \<Longrightarrow> oo_PlanHash out = None \<Longrightarrow>
    os_plans st' = os_plans st \<and> os_sent st' = os_sent st @ [req] \<and> shown_order r = None"
  unfolding order_write_read_def Let_def
  by (auto split: prod.splits sum.splits if_splits dest!: os_fetch_keeps os_send_sends)

lemma order_write_read_ok:
  "order_write_read env out plan req st = (Inr o', st') \<Longrightarrow> oo_Status o' = st_ok \<Longrightarrow>
    \<exists>order w. oo_Order o' = Some order \<and> od_Status order = po_TargetStatus plan \<and>
      oc_GetPurchaseOrder (oe_client env) (od_PK (po_Order plan)) w = (Inr order, os_world st')"
  unfolding order_write_read_def Let_def
  by (auto simp: purchaseOrderLifecycleUnknown_def st_ok_def st_partial_def split: prod.splits sum.splits if_splits dest!: os_fetch_keeps)

lemma order_effect_execute:
  assumes st: "os_plans st1 = os_plans st" "os_sent st1 = os_sent st" and plan: "plan_of tool plan" "read_for env (oi_OrderID inp) plan"
    and req: "req = order_request tool (po_OrderID plan)"
  shows "order_effect env tool inp st (executePurchaseOrderLifecyclePlan env inp plan warning req st1)"
proof -
  let ?out = "(order_output0 (oi_DryRun inp))\<lparr>oo_Order := Some (po_Order plan), oo_Lines := po_Lines plan,
     oo_ExtraLines := po_ExtraLines plan, oo_Action := po_Action plan, oo_Warning := warning\<rparr>"
  let ?ask = "\<lambda>f. Inr (purchaseOrderLifecycleClarification ?out f)"
  let ?key = "\<lambda>p. (po_OrderID p, po_Action p)"
  obtain r ps where i: "plan_issue_purge stockPlanLifetime (oe_digest env) ?key (oe_call env) plan (os_plans st) = (r, ps)" by fastforce
  obtain b qs where c: "plan_consume (oe_digest env) ?key (oe_call env) (oi_PlanHash inp) plan (os_plans st) = (b, qs)" by fastforce
  obtain res st4 where v: "order_write_read env ?out plan req (st1\<lparr>os_plans := qs\<rparr>) = (res, st4)" by fastforce
  have v': "os_plans st4 = qs" "os_sent st4 = os_sent st @ [req]" "shown_order res = None"
    using order_write_read_keeps[OF v] st by simp_all
  define issued where "issued = (case r of
      Inl PlanCapacity \<Rightarrow> (?ask ''dry_run'', st1\<lparr>os_plans := ps\<rparr>)
    | Inl (PlanDigestError e) \<Rightarrow> (Inl (OtherError e), st1\<lparr>os_plans := ps\<rparr>)
    | Inl (PlanTokenError e) \<Rightarrow> (Inl (OtherError e), st1\<lparr>os_plans := ps\<rparr>)
    | Inr token \<Rightarrow> (Inr (?out\<lparr>oo_PlanHash := Some token, oo_PlannedStatus := Some (po_TargetStatus plan)\<rparr>), st1\<lparr>os_plans := ps\<rparr>))"
  have issued: "order_effect env tool inp st issued"
  proof (cases r)
    case (Inr t)
    show ?thesis unfolding order_effect_def issued_def Inr sum.case
      by (rule reviewed_issue[where plan = plan and r = "Inr t"]) (use i Inr plan(1) in \<open>simp_all add: st shown_order_def plan_of_def order_output0_def\<close>)
  qed (use i st in \<open>auto simp: issued_def order_effect_def intro!: reviewed_issue[where plan = plan and r = r] split: plan_error.splits\<close>)
  have body: "executePurchaseOrderLifecyclePlan env inp plan warning req st1 = (if oi_DryRun inp then issued
      else if \<not> oi_Confirm inp then (?ask ''confirm'', st1) else if oi_PlanHash inp = '''' then (?ask ''plan_hash'', st1)
      else if b then (res, st4) else (?ask ''plan_hash'', st1\<lparr>os_plans := qs\<rparr>))"
    using i c v st by (auto simp: executePurchaseOrderLifecyclePlan_def Let_def po_lifecycle_issue_def po_lifecycle_consume_def issued_def
        order_write_read_def split: sum.splits plan_error.splits)
  show ?thesis unfolding body order_effect_def
    by (rule reviewed_gate[where store = os_plans and sent = os_sent and shown = shown_order and reqs = "[req]", OF _ _ _ _ _ _ c _ _ v'])
      (use st issued plan req in \<open>simp_all add: order_effect_def order_fits_def\<close>)
qed

section \<open>The handlers\<close>

lemma preflight_early:
  "order_preflight env inp already action refused st = (Inl r, st') \<Longrightarrow> os_plans st' = os_plans st \<and> os_sent st' = os_sent st \<and> shown_order r = None"
  unfolding order_preflight_def Let_def
  by (auto split: prod.splits sum.splits if_splits dest!: os_fetch_keeps)

lemma preflight_ready:
  assumes "order_preflight env inp already action refused st = (Inr (order, lines, extra, out), st')"
  shows "os_plans st' = os_plans st" "os_sent st' = os_sent st" "od_Status order \<noteq> already" "\<not> refused (od_Status order)"
    "\<exists>w w'. oc_GetPurchaseOrder (oe_client env) (oi_OrderID inp) w = (Inr order, w')"
    "\<exists>w w'. loadPurchaseOrderLifecycleContext env (od_PK order) w = (Inr (lines, extra), w')" "oo_PlanHash out = None"
  using assms unfolding order_preflight_def Let_def
  by (auto split: prod.splits sum.splits if_splits dest!: os_fetch_keeps)

lemma firstReceived_None: "firstReceivedPurchaseOrderLine ls = None \<longleftrightarrow> (\<forall>l\<in>set ls. \<not> f_lt nano (ol_Received l))"
  by (induction ls) auto

lemmas order_statuses = PurchaseOrderStatusPending_def PurchaseOrderStatusPlaced_def PurchaseOrderStatusOnHold_def
  PurchaseOrderStatusComplete_def PurchaseOrderStatusCancelled_def

lemma effect_order_handler: "order_effect env tool inp st (order_handler tool env inp st)"
proof (cases tool)
  case HoldTool
  obtain r st1 where p: "order_preflight env inp PurchaseOrderStatusOnHold ''already_on_hold''
      (\<lambda>s. s \<noteq> PurchaseOrderStatusPending \<and> s \<noteq> PurchaseOrderStatusPlaced) st = (r, st1)" by fastforce
  show ?thesis
  proof (cases r)
    case (Inl e)
    then show ?thesis using preflight_early[OF p[unfolded Inl]] p by (simp add: HoldTool holdPurchaseOrder_def order_idle)
  next
    case (Inr x)
    obtain order lines extra out where x: "x = (order, lines, extra, out)" by (cases x)
    note ready = preflight_ready[OF p[unfolded Inr x]]
    show ?thesis using ready unfolding HoldTool order_handler.simps holdPurchaseOrder_def p Inr x Let_def sum.case prod.case
      by (intro order_effect_execute) (auto simp: plan_of_def read_for_def order_statuses)
  qed
next
  case ResumeTool
  obtain r st1 where p: "order_preflight env inp PurchaseOrderStatusPlaced ''already_placed'' (\<lambda>s. s \<noteq> PurchaseOrderStatusOnHold) st = (r, st1)"
    by fastforce
  show ?thesis
  proof (cases r)
    case (Inl e)
    then show ?thesis using preflight_early[OF p[unfolded Inl]] p by (simp add: ResumeTool resumePurchaseOrder_def order_idle)
  next
    case (Inr x)
    obtain order lines extra out where x: "x = (order, lines, extra, out)" by (cases x)
    note ready = preflight_ready[OF p[unfolded Inr x]]
    show ?thesis using ready unfolding ResumeTool order_handler.simps resumePurchaseOrder_def p Inr x Let_def sum.case prod.case
      by (intro order_effect_execute) (auto simp: plan_of_def read_for_def order_statuses)
  qed
next
  case CancelTool
  obtain r st1 where p: "order_preflight env inp PurchaseOrderStatusCancelled ''already_cancelled'' (\<lambda>s. s = PurchaseOrderStatusComplete) st = (r, st1)"
    by fastforce
  show ?thesis
  proof (cases r)
    case (Inl e)
    then show ?thesis using preflight_early[OF p[unfolded Inl]] p by (simp add: CancelTool cancelPurchaseOrder_def order_idle)
  next
    case (Inr x)
    obtain order lines extra out where x: "x = (order, lines, extra, out)" by (cases x)
    note ready = preflight_ready[OF p[unfolded Inr x]]
    show ?thesis
    proof (cases "firstReceivedPurchaseOrderLine lines")
      case None
      then have unreceived: "\<forall>l\<in>set lines. \<not> f_lt nano (ol_Received l)" by (simp add: firstReceived_None)
      show ?thesis using ready unreceived unfolding CancelTool order_handler.simps cancelPurchaseOrder_def p Inr x Let_def sum.case prod.case None option.case
        by (intro order_effect_execute) (auto simp: plan_of_def read_for_def order_statuses)
    next
      case (Some y)
      then show ?thesis using ready by (simp add: CancelTool cancelPurchaseOrder_def p Inr x order_idle)
    qed
  qed
qed

interpretation orders: reviewed_tool "order_step env" os_plans os_sent stockPlanLifetime "oe_digest env" "\<lambda>p. (po_OrderID p, po_Action p)"
  fst "\<lambda>c. oi_PlanHash (snd (snd c))" shown_order "\<lambda>c. order_fits env (fst (snd c)) (snd (snd c))" for env :: "'w order_env"
proof (unfold_locales, goal_cases)
  case (1 c st out st')
  have "order_effect (env\<lparr>oe_call := fst c\<rparr>) (fst (snd c)) (snd (snd c)) st (order_step env c st)"
    using effect_order_handler[of "env\<lparr>oe_call := fst c\<rparr>" "fst (snd c)" "snd (snd c)" st]
    unfolding order_step_def order_effect_def by (intro reviewed_lookup_call) simp_all
  then show ?case using 1 by (simp add: order_effect_def reviewed_effect_def)
qed

section \<open>Properties\<close>

lemma order_store: "newPurchaseOrderLifecyclePlanStore = new_plan_store 4096 64"
  by (simp add: newPurchaseOrderLifecyclePlanStore_def stockPlanMaxEntries_def stockPlanMaxEntriesPerPrincipal_def)


lemma execute_ok:
  assumes "executePurchaseOrderLifecyclePlan env inp plan warning req st = (Inr out, st')" "oo_Status out = st_ok" "\<not> oi_DryRun inp"
  shows "os_sent st' = os_sent st @ [req] \<and> (\<exists>order w. oo_Order out = Some order \<and> od_Status order = po_TargetStatus plan \<and>
    oc_GetPurchaseOrder (oe_client env) (od_PK (po_Order plan)) w = (Inr order, os_world st'))"
proof -
  define o0 where "o0 = (order_output0 (oi_DryRun inp))\<lparr>oo_Order := Some (po_Order plan), oo_Lines := po_Lines plan,
     oo_ExtraLines := po_ExtraLines plan, oo_Action := po_Action plan, oo_Warning := warning\<rparr>"
  have "executePurchaseOrderLifecyclePlan env inp plan warning req st =
    (if \<not> oi_Confirm inp then (Inr (purchaseOrderLifecycleClarification o0 ''confirm''), st)
     else if oi_PlanHash inp = '''' then (Inr (purchaseOrderLifecycleClarification o0 ''plan_hash''), st)
     else (case po_lifecycle_consume (oe_digest env) (oe_call env) (oi_PlanHash inp) plan (os_plans st) of
         (False, ps) \<Rightarrow> (Inr (purchaseOrderLifecycleClarification o0 ''plan_hash''), st\<lparr>os_plans := ps\<rparr>)
       | (True, ps) \<Rightarrow> order_write_read env o0 plan req (st\<lparr>os_plans := ps\<rparr>)))"
    unfolding executePurchaseOrderLifecyclePlan_def order_write_read_def o0_def Let_def using assms(3) by simp
  then obtain ps where v: "order_write_read env o0 plan req (st\<lparr>os_plans := ps\<rparr>) = (Inr out, st')"
    using assms(1,2) by (auto simp: purchaseOrderLifecycleClarification_def st_ok_def st_clarification_def split: if_splits prod.splits bool.splits)
  have "oo_PlanHash o0 = None" by (simp add: o0_def)
  then show ?thesis using order_write_read_ok[OF v assms(2)] order_write_read_keeps[OF v] by auto
qed

lemma preflight_ok:
  assumes "order_preflight env inp already action refused st = (Inl (Inr out), st')" "oo_Status out = st_ok"
  shows "os_sent st' = os_sent st \<and> (\<exists>order w. oo_Order out = Some order \<and> od_Status order = already \<and>
    oc_GetPurchaseOrder (oe_client env) (oi_OrderID inp) w = (Inr order, os_world st'))"
  using assms unfolding order_preflight_def Let_def
  by (auto simp: purchaseOrderLifecycleClarification_def st_ok_def st_clarification_def split: prod.splits sum.splits if_splits dest!: os_fetch_keeps)

fun order_target :: "order_tool \<Rightarrow> int" where
  "order_target HoldTool = 25"
| "order_target ResumeTool = 20"
| "order_target CancelTool = 40"

definition ok_state :: "'w order_env \<Rightarrow> order_tool \<Rightarrow> 'w order_state \<Rightarrow> order_output \<Rightarrow> 'w order_state \<Rightarrow> bool" where
  "ok_state env tool st out st' \<longleftrightarrow> (\<exists>order i w. oo_Order out = Some order \<and> od_Status order = order_target tool \<and>
     oc_GetPurchaseOrder (oe_client env) i w = (Inr order, os_world st') \<and>
     (os_sent st' = os_sent st \<or> os_sent st' = os_sent st @ [order_request tool i]))"

lemma ok_state_early:
  "order_preflight env inp (order_target tool) action refused st = (Inl (Inr out), st') \<Longrightarrow> oo_Status out = st_ok \<Longrightarrow> ok_state env tool st out st'"
  using preflight_ok unfolding ok_state_def by metis

lemma ok_state_execute:
  assumes "executePurchaseOrderLifecyclePlan env inp plan warning req st1 = (Inr out, st')" "req = order_request tool (od_PK (po_Order plan))"
    "oo_Status out = st_ok" "\<not> oi_DryRun inp" "os_sent st1 = os_sent st" "po_TargetStatus plan = order_target tool"
  shows "ok_state env tool st out st'"
  using execute_ok[OF assms(1,3,4)] assms(2,5,6) unfolding ok_state_def by metis


section \<open>A small InvenTree\<close>

text \<open>The world maps order 4 to its status; every request is carried out; no lines.\<close>

definition shop_client :: "int order_client" where
  "shop_client = \<lparr>oc_GetPurchaseOrder = (\<lambda>i w. (Inr \<lparr>od_PK = i, od_Status = w, od_Body = ''b''\<rparr>, w)),
     oc_SearchPurchaseOrderLines = (\<lambda>i w. (Inr [], w)),
     oc_SearchPurchaseOrderExtraLinesPage = (\<lambda>i limit offset w. (Inr \<lparr>xp_Count = 0, xp_Next = None, xp_Results = []\<rparr>, w)),
     oc_write = (\<lambda>req w. (None, case req of HoldOrder _ \<Rightarrow> 25 | IssueOrder _ \<Rightarrow> 20 | CancelOrder _ \<Rightarrow> 40))\<rparr>"

definition shop_env :: "int order_env" where
  "shop_env = \<lparr>oe_call = demo_call 0 ''a'', oe_digest = (\<lambda>p. Inr ''d''), oe_parse = (\<lambda>_. None), oe_client = shop_client\<rparr>"

definition shop_state :: "int \<Rightarrow> int order_state" where
  "shop_state s = \<lparr>os_world = s, os_plans = newPurchaseOrderLifecyclePlanStore, os_sent = []\<rparr>"

definition shop_calls :: "order_tool \<Rightarrow> (plan_call \<times> order_tool \<times> order_input) list" where
  "shop_calls tool = [(demo_call 0 ''a'', tool, \<lparr>oi_DryRun = True, oi_Confirm = False, oi_PlanHash = '''', oi_OrderID = 4\<rparr>),
     (demo_call 1 ''b'', tool, \<lparr>oi_DryRun = False, oi_Confirm = True, oi_PlanHash = ''a'', oi_OrderID = 4\<rparr>)]"

lemma shop_run:
  "os_sent (snd (order_step shop_env (shop_calls HoldTool ! 1) (snd (order_step shop_env (shop_calls HoldTool ! 0) (shop_state 20))))) = [HoldOrder 4]"
  "os_sent (snd (order_step shop_env (shop_calls HoldTool ! 0) (shop_state 20))) = []"
  by code_simp+

text \<open>Any status but complete and cancelled is accepted by cancel, also one that is none of pending, on
  hold and placed.\<close>

lemma cancel_unlisted_status:
  "os_sent (snd (order_step shop_env (shop_calls CancelTool ! 1) (snd (order_step shop_env (shop_calls CancelTool ! 0) (shop_state 50))))) = [CancelOrder 4]"
  by code_simp



end
