(* ===== verification/Part_Family.thy ===== *)
theory Part_Family
  imports Reviewed_Tool
begin

text \<open>
  update_part_family_relationships (internal/tools/part_family_tools.go): the walk over revision and
  variant ancestors with its shared cache and budget, the plan, the confirmation, the PATCH and the
  read that proves it. The InvenTree client is a record of functions over an abstract world. The
  cache is a table whose iteration order the code removes by sorting. A refusal keeps the field it
  names, a clarification its field and retry argument, not the prose. PATCHes are logged in
  \<open>fs_sent\<close>; PlanHash is None where the code leaves the field empty.
\<close>

section \<open>The client\<close>

record part_detail =
  pd_PK :: int
  pd_Revision :: "string option"
  pd_RevisionOf :: "int option"
  pd_RevisionCount :: "int option"
  pd_VariantOf :: "int option"
  pd_IsTemplate :: bool

text \<open>The fields of a PATCH; None writes null.\<close>

type_synonym family_patch = "(string \<times> int option) list"

record 'w family_client =
  fc_GetPartDetail :: "int \<Rightarrow> 'w \<Rightarrow> (go_error + part_detail) \<times> 'w"
  fc_UpdatePart :: "int \<Rightarrow> family_patch \<Rightarrow> 'w \<Rightarrow> go_error option \<times> 'w"

record family_input =
  fi_ID :: int
  fi_RevisionOfID :: "int option"
  fi_ClearRevisionOf :: bool
  fi_VariantOfID :: "int option"
  fi_ClearVariantOf :: bool
  fi_DryRun :: bool
  fi_Confirm :: bool
  fi_PlanHash :: string

record topology_node =
  tn_PartID :: int
  tn_RevisionOf :: "int option"
  tn_VariantOf :: "int option"
  tn_IsTemplate :: bool
  tn_HasRevisionCode :: bool

type_synonym family_plan = "topology_node part_family_plan"

section \<open>The traversal\<close>

datatype family_error = TopologyError string | OtherFamilyError go_error

record traversal =
  tr_cache :: "(int, part_detail) go_map"
  tr_remaining :: int

definition partFamilyTopologyMaxRecords :: int where "partFamilyTopologyMaxRecords = 64"

definition tr_get :: "'w family_client \<Rightarrow> int \<Rightarrow> traversal \<Rightarrow> 'w \<Rightarrow> (family_error + part_detail) \<times> traversal \<times> 'w" where
  "tr_get client i t w = (case map_of (tr_cache t) i of
     Some record \<Rightarrow> (Inr record, t, w)
   | None \<Rightarrow>
     if tr_remaining t \<le> 0 then (Inl (TopologyError ''topology''), t, w)
     else (let t1 = t\<lparr>tr_remaining := tr_remaining t - 1\<rparr> in
       case fc_GetPartDetail client i w of
         (Inl e, w1) \<Rightarrow> (Inl (OtherFamilyError e), t1, w1)
       | (Inr record, w1) \<Rightarrow>
         if pd_PK record \<noteq> i
         then (Inl (OtherFamilyError (OtherError (''part detail identity mismatch: requested '' @ show_int i @ '', received '' @ show_int (pd_PK record)))), t1, w1)
         else (Inr record, t1\<lparr>tr_cache := gm_put i record (tr_cache t1)\<rparr>, w1)))"

text \<open>What is left to visit: cached records not seen in this chain, and the budget.\<close>

definition tr_left :: "int list \<Rightarrow> traversal \<Rightarrow> nat" where
  "tr_left seen t = length (filter (\<lambda>(k, _). k \<notin> set seen) (tr_cache t)) + nat (tr_remaining t)"

lemma tr_get_cases:
  assumes "tr_get client i t w = (Inr record, t1, w1)"
  obtains "map_of (tr_cache t) i = Some record" "t1 = t" "w1 = w"
  | "map_of (tr_cache t) i = None" "0 < tr_remaining t" "fc_GetPartDetail client i w = (Inr record, w1)" "pd_PK record = i"
    "t1 = \<lparr>tr_cache = gm_put i record (tr_cache t), tr_remaining = tr_remaining t - 1\<rparr>"
  using assms by (auto simp: tr_get_def Let_def split: option.splits if_splits prod.splits sum.splits)

lemma filter_le: "(\<And>y. Q y \<Longrightarrow> P y) \<Longrightarrow> length (filter Q xs) \<le> length (filter P xs)"
  by (induction xs) auto

lemma filter_fewer: "x \<in> set xs \<Longrightarrow> P x \<Longrightarrow> (\<And>y. Q y \<Longrightarrow> P y) \<Longrightarrow> \<not> Q x \<Longrightarrow> length (filter Q xs) < length (filter P xs)"
proof (induction xs)
  case (Cons a xs)
  then show ?case using filter_le[of Q P xs] by auto
qed simp

lemma tr_get_left:
  assumes "tr_get client i t w = (Inr record, t1, w1)" "i \<notin> set seen"
  shows "tr_left (i # seen) t1 < tr_left seen t"
  using assms(1)
proof (cases rule: tr_get_cases)
  case 1
  then have "(i, record) \<in> set (tr_cache t)" by (simp add: map_of_SomeD)
  then have "length (filter (\<lambda>(k, _). k \<notin> set (i # seen)) (tr_cache t)) < length (filter (\<lambda>(k, _). k \<notin> set seen) (tr_cache t))"
    using assms(2) by (intro filter_fewer[where x = "(i, record)"]) auto
  then show ?thesis using 1 by (simp add: tr_left_def)
next
  case 2
  have "length (filter (\<lambda>(k, _). k \<notin> set (i # seen)) (gm_del i (tr_cache t))) \<le> length (filter (\<lambda>(k, _). k \<notin> set seen) (tr_cache t))"
    unfolding gm_del_def filter_filter by (intro filter_le) auto
  then show ?thesis using 2 by (simp add: tr_left_def gm_put_def)
qed

function chainLoop :: "'w family_client \<Rightarrow> int \<Rightarrow> string \<Rightarrow> int list \<Rightarrow> int \<Rightarrow> traversal \<Rightarrow> 'w \<Rightarrow>
    family_error option \<times> traversal \<times> 'w" where
  "chainLoop client subjectID field seen currentID t w =
    (if \<not> currentID > 0 then (None, t, w)
     else if currentID = subjectID then (Some (TopologyError (field @ ''_id'')), t, w)
     else if currentID \<in> set seen then (Some (TopologyError (field @ ''_id'')), t, w)
     else (case tr_get client currentID t w of
       (Inl e, t1, w1) \<Rightarrow> (Some (case e of
           OtherFamilyError (ApiError a) \<Rightarrow> if ae_StatusCode a = 404 then TopologyError (field @ ''_id'') else e
         | _ \<Rightarrow> e), t1, w1)
     | (Inr record, t1, w1) \<Rightarrow>
       (case (if field = ''revision_of'' then pd_RevisionOf record else pd_VariantOf record) of
         None \<Rightarrow> (None, t1, w1)
       | Some n \<Rightarrow> if n \<le> 0 then (Some (TopologyError (field @ ''_id'')), t1, w1)
           else chainLoop client subjectID field (currentID # seen) n t1 w1)))"
  by pat_completeness auto
termination
  by (relation "measure (\<lambda>(client, subjectID, field, seen, currentID, t, w). tr_left seen t)") (auto intro: tr_get_left dest: sym)

declare chainLoop.simps [simp del]

definition validateChain :: "'w family_client \<Rightarrow> int \<Rightarrow> int \<Rightarrow> string \<Rightarrow> traversal \<Rightarrow> 'w \<Rightarrow> family_error option \<times> traversal \<times> 'w" where
  "validateChain client subjectID targetID field t w =
    (if subjectID = targetID then (Some (TopologyError (field @ ''_id'')), t, w)
     else chainLoop client subjectID field [] targetID t w)"

section \<open>The plan\<close>

definition partFamilyState :: "part_detail \<Rightarrow> part_family_state" where
  "partFamilyState r = \<lparr>pf_PartID = pd_PK r, pf_RevisionOf = pd_RevisionOf r, pf_RevisionCount = pd_RevisionCount r, pf_VariantOf = pd_VariantOf r\<rparr>"

definition partFamilyMatches :: "part_detail \<Rightarrow> part_family_state \<Rightarrow> bool" where
  "partFamilyMatches r expected = (pd_PK r = pf_PartID expected \<and> pd_RevisionOf r = pf_RevisionOf expected \<and> pd_VariantOf r = pf_VariantOf expected)"

definition has_revision_code :: "part_detail \<Rightarrow> bool" where
  "has_revision_code r = (trim_space (case pd_Revision r of None \<Rightarrow> '''' | Some s \<Rightarrow> s) \<noteq> '''')"

text \<open>A lookup in the cache yields Go's zero value when the key is missing.\<close>

definition zero_part :: part_detail where
  "zero_part = \<lparr>pd_PK = 0, pd_Revision = None, pd_RevisionOf = None, pd_RevisionCount = None, pd_VariantOf = None, pd_IsTemplate = False\<rparr>"

definition tr_cached :: "traversal \<Rightarrow> int \<Rightarrow> part_detail" where
  "tr_cached t i = (case map_of (tr_cache t) i of None \<Rightarrow> zero_part | Some r \<Rightarrow> r)"

definition family_after :: "family_input \<Rightarrow> part_family_state \<Rightarrow> part_family_state \<times> family_patch" where
  "family_after inp before =
    (let (after1, patch1) = (case fi_RevisionOfID inp of
           Some i \<Rightarrow> (before\<lparr>pf_RevisionOf := Some i\<rparr>, [(''revision_of'', Some i)])
         | None \<Rightarrow> if fi_ClearRevisionOf inp then (before\<lparr>pf_RevisionOf := None\<rparr>, [(''revision_of'', None)]) else (before, []))
     in (case fi_VariantOfID inp of
           Some i \<Rightarrow> (after1\<lparr>pf_VariantOf := Some i\<rparr>, patch1 @ [(''variant_of'', Some i)])
         | None \<Rightarrow> if fi_ClearVariantOf inp then (after1\<lparr>pf_VariantOf := None\<rparr>, patch1 @ [(''variant_of'', None)]) else (after1, patch1)))"

definition check_revision :: "'w family_client \<Rightarrow> int \<Rightarrow> part_detail \<Rightarrow> part_family_state \<Rightarrow> traversal \<Rightarrow> 'w \<Rightarrow> family_error option \<times> traversal \<times> 'w" where
  "check_revision client i before after t w = (case pf_RevisionOf after of None \<Rightarrow> (None, t, w)
   | Some target \<Rightarrow> (case validateChain client i target ''revision_of'' t w of
       (Some e, t1, w1) \<Rightarrow> (Some e, t1, w1)
     | (None, t1, w1) \<Rightarrow>
       if \<not> has_revision_code before then (Some (TopologyError ''revision''), t1, w1)
       else if pd_IsTemplate (tr_cached t1 target) then (Some (TopologyError ''revision_of_id''), t1, w1)
       else if pf_VariantOf after \<noteq> pd_VariantOf (tr_cached t1 target) then (Some (TopologyError ''revision_of_id''), t1, w1)
       else (None, t1, w1)))"

definition check_variant :: "'w family_client \<Rightarrow> int \<Rightarrow> part_family_state \<Rightarrow> traversal \<Rightarrow> 'w \<Rightarrow> family_error option \<times> traversal \<times> 'w" where
  "check_variant client i after t w = (case pf_VariantOf after of None \<Rightarrow> (None, t, w)
   | Some target \<Rightarrow> (case validateChain client i target ''variant_of'' t w of
       (Some e, t1, w1) \<Rightarrow> (Some e, t1, w1)
     | (None, t1, w1) \<Rightarrow>
       if \<not> pd_IsTemplate (tr_cached t1 target) then (Some (TopologyError ''variant_of_id''), t1, w1) else (None, t1, w1)))"

definition topology_evidence :: "traversal \<Rightarrow> topology_node list" where
  "topology_evidence t = sort_key tn_PartID (map (\<lambda>(_, r). \<lparr>tn_PartID = pd_PK r, tn_RevisionOf = pd_RevisionOf r, tn_VariantOf = pd_VariantOf r,
     tn_IsTemplate = pd_IsTemplate r, tn_HasRevisionCode = has_revision_code r\<rparr>) (tr_cache t))"

definition buildPartFamilyPlan :: "'w family_client \<Rightarrow> family_input \<Rightarrow> 'w \<Rightarrow> (family_error + family_plan \<times> family_patch) \<times> 'w" where
  "buildPartFamilyPlan client inp w =
    (case tr_get client (fi_ID inp) \<lparr>tr_cache = [], tr_remaining = partFamilyTopologyMaxRecords\<rparr> w of
      (Inl e, t1, w1) \<Rightarrow> (Inl e, w1)
    | (Inr before, t1, w1) \<Rightarrow>
      if pd_PK before \<noteq> fi_ID inp
      then (Inl (OtherFamilyError (OtherError (''part detail identity mismatch: requested '' @ show_int (fi_ID inp) @ '', received '' @ show_int (pd_PK before)))), w1)
      else (case family_after inp (partFamilyState before) of (after, patch) \<Rightarrow>
        if pd_RevisionOf before = pf_RevisionOf after \<and> pd_VariantOf before = pf_VariantOf after then (Inl (TopologyError ''relationship''), w1)
        else (case check_revision client (fi_ID inp) before after t1 w1 of
          (Some e, t2, w2) \<Rightarrow> (Inl e, w2)
        | (None, t2, w2) \<Rightarrow> (case check_variant client (fi_ID inp) after t2 w2 of
            (Some e, t3, w3) \<Rightarrow> (Inl e, w3)
          | (None, t3, w3) \<Rightarrow> (Inr (\<lparr>pf_Before = partFamilyState before, pf_After = after, pf_TopologyEvidence = topology_evidence t3\<rparr>, patch), w3)))))"

section \<open>The handler\<close>

record recovery_state =
  rs_PartID :: int
  rs_RevisionOf :: "int option"
  rs_VariantOf :: "int option"

definition partFamilyRecoveryState :: "part_family_state \<Rightarrow> recovery_state" where
  "partFamilyRecoveryState s = \<lparr>rs_PartID = pf_PartID s, rs_RevisionOf = pf_RevisionOf s, rs_VariantOf = pf_VariantOf s\<rparr>"

record family_output =
  fo_Status :: string
  fo_DryRun :: bool
  fo_PlanHash :: "string option"
  fo_Plan :: "family_plan option"
  fo_Record :: "part_family_state option"
  fo_Recovery :: "(recovery_state \<times> recovery_state) option"
  fo_Recovered :: bool
  fo_Validation :: "validation_failure option"
  fo_Clarification :: "(string \<times> string) option"

record 'w family_env =
  fe_call :: plan_call
  fe_digest :: "family_plan \<Rightarrow> string + string"
  fe_client :: "'w family_client"

record 'w family_state =
  fs_world :: 'w
  fs_plans :: "int plan_store"
  fs_sent :: "(int \<times> family_patch) list"

definition family_output0 :: "string \<Rightarrow> family_output" where
  "family_output0 status = \<lparr>fo_Status = status, fo_DryRun = False, fo_PlanHash = None, fo_Plan = None, fo_Record = None, fo_Recovery = None,
     fo_Recovered = False, fo_Validation = None, fo_Clarification = None\<rparr>"

definition partFamilyClarification :: "string \<Rightarrow> string \<Rightarrow> family_output" where
  "partFamilyClarification field expected = (family_output0 ''clarification_required'')\<lparr>fo_Clarification := Some (field, expected)\<rparr>"

definition partFamilyValidation :: "string \<Rightarrow> family_output" where
  "partFamilyValidation message = (family_output0 ''validation_failed'')\<lparr>fo_Validation :=
     Some \<lparr>vf_StatusCode = 400, vf_Fields = [(''relationship'', [message])]\<rparr>\<rparr>"

definition fs_fetch :: "('w \<Rightarrow> 'a \<times> 'w) \<Rightarrow> 'w family_state \<Rightarrow> 'a \<times> 'w family_state" where
  "fs_fetch f st = (case f (fs_world st) of (x, w) \<Rightarrow> (x, st\<lparr>fs_world := w\<rparr>))"

definition fs_update :: "'w family_client \<Rightarrow> int \<Rightarrow> family_patch \<Rightarrow> 'w family_state \<Rightarrow> go_error option \<times> 'w family_state" where
  "fs_update client i patch st = (case fc_UpdatePart client i patch (fs_world st) of
     (r, w) \<Rightarrow> (r, st\<lparr>fs_world := w, fs_sent := fs_sent st @ [(i, patch)]\<rparr>))"

definition is_context_error :: "go_error \<Rightarrow> bool" where
  "is_context_error e = (e = Canceled \<or> e = DeadlineExceeded)"

text \<open>From the PATCH on.\<close>

definition family_write :: "'w family_env \<Rightarrow> family_input \<Rightarrow> family_plan \<Rightarrow> family_patch \<Rightarrow> 'w family_state \<Rightarrow> (go_error + family_output) \<times> 'w family_state" where
  "family_write env inp plan patch st = (case fs_update (fe_client env) (fi_ID inp) patch st of (mutationErr, st1) \<Rightarrow>
    (let failed = (case mutationErr of None \<Rightarrow> None
       | Some e \<Rightarrow> if is_context_error e then Some (Inl e)
           else if definitely_rejected e then Some (case safeValidationFailure e of
               Some v \<Rightarrow> Inr ((family_output0 ''validation_failed'')\<lparr>fo_Validation := Some v\<rparr>) | None \<Rightarrow> Inl e)
           else None) in
     case failed of Some r \<Rightarrow> (r, st1)
     | None \<Rightarrow> (case fs_fetch (fc_GetPartDetail (fe_client env) (fi_ID inp)) st1 of (readback, st2) \<Rightarrow>
         if (case readback of Inl e \<Rightarrow> is_context_error e | Inr _ \<Rightarrow> False) then (Inl (projl readback), st2)
         else if (case readback of Inl _ \<Rightarrow> False | Inr r \<Rightarrow> pd_PK r = fi_ID inp \<and> partFamilyMatches r (pf_After plan))
         then (Inr ((family_output0 ''ok'')\<lparr>fo_Record := Some (partFamilyState (projr readback)), fo_Recovered := mutationErr \<noteq> None\<rparr>), st2)
         else (Inr ((family_output0 ''partial_failure'')\<lparr>fo_Recovery := Some (partFamilyRecoveryState (pf_Before plan), partFamilyRecoveryState (pf_After plan)),
             fo_Record := (case readback of Inl _ \<Rightarrow> None | Inr r \<Rightarrow> if pd_PK r = fi_ID inp then Some (partFamilyState r) else None)\<rparr>), st2))))"

text \<open>From the plan on: the dry run, the confirmation, the write.\<close>

definition family_execute :: "'w family_env \<Rightarrow> family_input \<Rightarrow> family_plan \<Rightarrow> family_patch \<Rightarrow> 'w family_state \<Rightarrow> (go_error + family_output) \<times> 'w family_state" where
  "family_execute env inp plan patch st =
    (if fi_DryRun inp then (case part_family_issue (fe_digest env) (fe_call env) plan (fs_plans st) of
         (Inl PlanCapacity, ps) \<Rightarrow> (Inr (partFamilyClarification ''confirmation'' ''dry_run''), st\<lparr>fs_plans := ps\<rparr>)
       | (Inl (PlanDigestError e), ps) \<Rightarrow> (Inl (OtherError e), st\<lparr>fs_plans := ps\<rparr>)
       | (Inl (PlanTokenError e), ps) \<Rightarrow> (Inl (OtherError e), st\<lparr>fs_plans := ps\<rparr>)
       | (Inr token, ps) \<Rightarrow> (Inr ((family_output0 ''ok'')\<lparr>fo_DryRun := True, fo_PlanHash := Some token, fo_Plan := Some plan\<rparr>), st\<lparr>fs_plans := ps\<rparr>))
     else if \<not> fi_Confirm inp then (Inr (partFamilyClarification ''confirmation'' ''confirm''), st)
     else if fi_PlanHash inp = '''' then (Inr (partFamilyClarification ''confirmation'' ''plan_hash''), st)
     else (case part_family_consume (fe_digest env) (fe_call env) (fi_PlanHash inp) plan (fs_plans st) of
         (False, ps) \<Rightarrow> (Inr (partFamilyClarification ''confirmation'' ''plan_hash''), st\<lparr>fs_plans := ps\<rparr>)
       | (True, ps) \<Rightarrow> family_write env inp plan patch (st\<lparr>fs_plans := ps\<rparr>)))"

definition updatePartFamilyRelationships :: "'w family_env \<Rightarrow> family_input \<Rightarrow> 'w family_state \<Rightarrow> (go_error + family_output) \<times> 'w family_state" where
  "updatePartFamilyRelationships env inp st =
    (if fi_ID inp \<le> 0 then (Inr (partFamilyClarification ''id'' ''id''), st)
     else if fi_RevisionOfID inp \<noteq> None \<and> fi_ClearRevisionOf inp \<or> fi_VariantOfID inp \<noteq> None \<and> fi_ClearVariantOf inp
     then (Inr (partFamilyValidation ''relationship target and clear flag are mutually exclusive''), st)
     else if fi_RevisionOfID inp = None \<and> \<not> fi_ClearRevisionOf inp \<and> fi_VariantOfID inp = None \<and> \<not> fi_ClearVariantOf inp
     then (Inr (partFamilyClarification ''relationship'' ''relationship''), st)
     else if (case fi_RevisionOfID inp of None \<Rightarrow> False | Some i \<Rightarrow> i \<le> 0) \<or> (case fi_VariantOfID inp of None \<Rightarrow> False | Some i \<Rightarrow> i \<le> 0)
     then (Inr (partFamilyValidation ''relationship target IDs must be positive''), st)
     else (case fs_fetch (buildPartFamilyPlan (fe_client env) inp) st of
       (Inl (TopologyError field), st1) \<Rightarrow> (Inr (partFamilyClarification field field), st1)
     | (Inl (OtherFamilyError e), st1) \<Rightarrow>
       if (case e of ApiError a \<Rightarrow> ae_StatusCode a = 404 | _ \<Rightarrow> False) then (Inr (family_output0 ''not_found''), st1) else (Inl e, st1)
     | (Inr (plan, patch), st1) \<Rightarrow>
       family_execute env inp plan patch st1))"

end
