(* ===== verification/Family_Safety.thy ===== *)
theory Family_Safety
  imports Part_Family
begin

text \<open>
  What the part-family tool promises: the walk it makes before a change proves that the change
  closes no cycle of revisions or variants, and a PATCH is sent only for a reviewed plan.
\<close>

section \<open>The walk\<close>

text \<open>The parts as the server has them while a call runs.\<close>

type_synonym part_table = "int \<Rightarrow> part_detail option"

definition consistent :: "part_table \<Rightarrow> 'w family_client \<Rightarrow> bool" where
  "consistent parts client \<longleftrightarrow> (\<forall>i w r w'. fc_GetPartDetail client i w = (Inr r, w') \<longrightarrow> parts i = Some r)"

lemma consistentD: "consistent parts client \<Longrightarrow> fc_GetPartDetail client i w = (Inr r, w') \<Longrightarrow> parts i = Some r"
  unfolding consistent_def by blast

definition parent :: "string \<Rightarrow> part_detail \<Rightarrow> int option" where
  "parent field r = (if field = ''revision_of'' then pd_RevisionOf r else pd_VariantOf r)"

definition links :: "string \<Rightarrow> part_table \<Rightarrow> (int \<times> int) set" where
  "links field parts = {(i, j). \<exists>r. parts i = Some r \<and> parent field r = Some j}"

inductive climbs :: "part_table \<Rightarrow> string \<Rightarrow> int \<Rightarrow> int \<Rightarrow> bool" for parts field subject where
  top: "i \<noteq> subject \<Longrightarrow> parts i = Some r \<Longrightarrow> parent field r = None \<Longrightarrow> climbs parts field subject i"
| up: "i \<noteq> subject \<Longrightarrow> parts i = Some r \<Longrightarrow> parent field r = Some j \<Longrightarrow> climbs parts field subject j \<Longrightarrow> climbs parts field subject i"

lemma climbs_avoids: "climbs parts field subject i \<Longrightarrow> (i, j) \<in> (links field parts)\<^sup>* \<Longrightarrow> j \<noteq> subject"
proof (induction rule: climbs.induct)
  case (top i r)
  then show ?case by (auto simp: links_def elim: converse_rtranclE)
next
  case (up i r k)
  from up.prems show ?case
  proof (cases rule: converse_rtranclE)
    case (step m)
    then have "m = k" using up.hyps(2,3) by (simp add: links_def)
    then show ?thesis using up.IH step(2) by blast
  qed (use up.hyps(1) in simp)
qed

definition cache_ok :: "part_table \<Rightarrow> traversal \<Rightarrow> bool" where
  "cache_ok parts t \<longleftrightarrow> (\<forall>i r. map_of (tr_cache t) i = Some r \<longrightarrow> parts i = Some r)"

lemma tr_get_ok:
  assumes "consistent parts client" "cache_ok parts t" "tr_get client i t w = (res, t1, w1)"
  shows "cache_ok parts t1 \<and> (\<forall>r. res = Inr r \<longrightarrow> parts i = Some r \<and> map_of (tr_cache t1) i = Some r) \<and>
    (\<forall>k r. map_of (tr_cache t) k = Some r \<longrightarrow> map_of (tr_cache t1) k = Some r)"
  using assms(2,3) consistentD[OF assms(1)]
  by (auto simp: tr_get_def cache_ok_def Let_def split: option.splits if_splits prod.splits sum.splits)

lemma chainLoop_ok:
  assumes c: "consistent parts client"
  shows "cache_ok parts t \<Longrightarrow> chainLoop client subject field seen cur t w = (res, t', w') \<Longrightarrow>
    cache_ok parts t' \<and> (\<forall>k r. map_of (tr_cache t) k = Some r \<longrightarrow> map_of (tr_cache t') k = Some r) \<and>
    (res = None \<longrightarrow> 0 < cur \<longrightarrow> climbs parts field subject cur \<and> (\<exists>r. map_of (tr_cache t') cur = Some r))"
  using c
proof (induction client subject field seen cur t w rule: chainLoop.induct)
  case (1 client subject field seen cur t w)
  show ?case
  proof (cases "0 < cur \<and> cur \<noteq> subject \<and> cur \<notin> set seen")
    case go: True
    obtain g t1 w1 where g: "tr_get client cur t w = (g, t1, w1)" by (cases "tr_get client cur t w") auto
    note k = tr_get_ok[OF 1(4) 1(2) g]
    show ?thesis
    proof (cases g)
      case (Inl e)
      then show ?thesis using 1(3) go k by (auto simp: chainLoop.simps[of client subject field seen cur] g)
    next
      case (Inr rec)
      show ?thesis
      proof (cases "parent field rec")
        case None
        then show ?thesis using 1(3) go k Inr climbs.top[of cur subject parts rec field]
          by (auto simp: chainLoop.simps[of client subject field seen cur] g parent_def split: if_splits)
      next
        case (Some n)
        then have eq: "chainLoop client subject field seen cur t w =
            (if n \<le> 0 then (Some (TopologyError (field @ ''_id'')), t1, w1) else chainLoop client subject field (cur # seen) n t1 w1)"
          using go Inr by (simp add: chainLoop.simps[of client subject field seen cur] g parent_def)
        show ?thesis
        proof (cases "n \<le> 0")
          case True
          then show ?thesis using 1(3) k eq by auto
        next
          case False
          have "cache_ok parts t' \<and> (\<forall>k r. map_of (tr_cache t1) k = Some r \<longrightarrow> map_of (tr_cache t') k = Some r) \<and>
              (res = None \<longrightarrow> climbs parts field subject n)"
            using 1(1)[OF _ _ _ g[symmetric] Inr refl _ _ _ _ 1(4)] 1(3) go k False Some eq by (auto simp: parent_def)
          then show ?thesis using k Inr Some go climbs.up[of cur subject parts rec field n] by auto
        qed
      qed
    qed
  qed (use 1(2,3) in \<open>auto simp: chainLoop.simps[of client subject field seen cur] split: if_splits\<close>)
qed


lemma validateChain_ok:
  assumes "consistent parts client" "cache_ok parts t" "validateChain client subject target field t w = (None, t', w')" "0 < target"
  shows "cache_ok parts t' \<and> climbs parts field subject target \<and> (\<exists>r. parts target = Some r \<and> tr_cached t' target = r) \<and> target \<noteq> subject"
  using chainLoop_ok[OF assms(1,2), of subject field "[]" target w None t' w'] assms(3,4)
  by (auto simp: validateChain_def tr_cached_def cache_ok_def split: if_splits)

lemma validateChain_cache:
  "consistent parts client \<Longrightarrow> cache_ok parts t \<Longrightarrow> validateChain client subject target field t w = (res, t', w') \<Longrightarrow> cache_ok parts t'"
  using chainLoop_ok[of parts client t subject field "[]" target w res t' w'] by (auto simp: validateChain_def split: if_splits)

text \<open>Every read of a part spends one unit of the shared budget.\<close>

definition spends :: "('w \<Rightarrow> nat) \<Rightarrow> traversal \<times> 'w \<Rightarrow> traversal \<times> 'w \<Rightarrow> bool" where
  "spends reads x y \<longleftrightarrow> reads (snd y) + nat (tr_remaining (fst y)) = reads (snd x) + nat (tr_remaining (fst x))"

lemma tr_get_spends:
  "\<forall>i w. reads (snd (fc_GetPartDetail client i w)) = Suc (reads w) \<Longrightarrow> tr_get client i t w = (r, t', w') \<Longrightarrow> spends reads (t, w) (t', w')"
proof -
  assume a: "\<forall>i w. reads (snd (fc_GetPartDetail client i w)) = Suc (reads w)" "tr_get client i t w = (r, t', w')"
  obtain x w1 where f: "fc_GetPartDetail client i w = (x, w1)" by fastforce
  have "reads w1 = Suc (reads w)" using a(1) f by (metis snd_conv)
  then show ?thesis using a(2) by (auto simp: tr_get_def f spends_def Let_def split: option.splits if_splits sum.splits)
qed

lemma chainLoop_spends:
  assumes "\<forall>i w. reads (snd (fc_GetPartDetail client i w)) = Suc (reads w)"
  shows "chainLoop client subject field seen cur t w = (r, t', w') \<Longrightarrow> spends reads (t, w) (t', w')"
  using assms
proof (induction client subject field seen cur t w rule: chainLoop.induct)
  case (1 client subject field seen cur t w)
  obtain g t1 w1 where g: "tr_get client cur t w = (g, t1, w1)" by (cases "tr_get client cur t w") auto
  note k = tr_get_spends[OF 1(3) g]
  show ?case
  proof (cases "0 < cur \<and> cur \<noteq> subject \<and> cur \<notin> set seen \<and> (\<exists>rec n. g = Inr rec \<and> parent field rec = Some n \<and> 0 < n)")
    case True
    then obtain rec n where go: "0 < cur" "cur \<noteq> subject" "cur \<notin> set seen" "g = Inr rec" "parent field rec = Some n" "0 < n" by blast
    then have "chainLoop client subject field (cur # seen) n t1 w1 = (r, t', w')"
      using 1(2) by (simp add: chainLoop.simps[of client subject field seen cur] g parent_def)
    then have "spends reads (t1, w1) (t', w')"
      using 1(1)[OF _ _ _ g[symmetric] go(4) refl _ _ _ 1(3)] go by (simp add: parent_def)
    then show ?thesis using k by (simp add: spends_def)
  next
    case False
    then show ?thesis using 1(2) k
      by (auto simp: chainLoop.simps[of client subject field seen cur] g parent_def spends_def split: if_splits sum.splits option.splits)
  qed
qed

section \<open>What a plan guarantees\<close>

definition apply_patch :: "family_patch \<Rightarrow> part_detail \<Rightarrow> part_detail" where
  "apply_patch patch r = r\<lparr>pd_RevisionOf := (case map_of patch ''revision_of'' of None \<Rightarrow> pd_RevisionOf r | Some v \<Rightarrow> v),
     pd_VariantOf := (case map_of patch ''variant_of'' of None \<Rightarrow> pd_VariantOf r | Some v \<Rightarrow> v)\<rparr>"

definition patched :: "part_table \<Rightarrow> int \<Rightarrow> family_patch \<Rightarrow> part_table" where
  "patched parts i patch = parts(i := map_option (apply_patch patch) (parts i))"

definition acyclic_family :: "part_table \<Rightarrow> bool" where
  "acyclic_family parts \<longleftrightarrow> acyclic (links ''revision_of'' parts) \<and> acyclic (links ''variant_of'' parts)"

text \<open>The rules a part's links keep: a revision carries a code and its target is no template and a
  variant of the same template; a variant's target is a template.\<close>

definition links_lawful :: "part_table \<Rightarrow> part_detail \<Rightarrow> bool" where
  "links_lawful parts r \<longleftrightarrow>
     (\<forall>t. pd_RevisionOf r = Some t \<and> 0 < t \<longrightarrow> has_revision_code r \<and>
        (\<exists>x. parts t = Some x \<and> \<not> pd_IsTemplate x \<and> pd_VariantOf x = pd_VariantOf r)) \<and>
     (\<forall>t. pd_VariantOf r = Some t \<and> 0 < t \<longrightarrow> (\<exists>x. parts t = Some x \<and> pd_IsTemplate x))"

lemma check_revision_ok:
  assumes "consistent parts client" "cache_ok parts t" "check_revision client i before after t w = (None, t', w')"
  shows "cache_ok parts t' \<and> (\<forall>target. pf_RevisionOf after = Some target \<and> 0 < target \<longrightarrow> climbs parts ''revision_of'' i target \<and>
    has_revision_code before \<and> (\<exists>x. parts target = Some x \<and> \<not> pd_IsTemplate x \<and> pd_VariantOf x = pf_VariantOf after))"
  using assms(2,3) validateChain_ok[OF assms(1,2)] validateChain_cache[OF assms(1,2)]
  by (auto simp: check_revision_def split: option.splits prod.splits if_splits)

lemma check_variant_ok:
  assumes "consistent parts client" "cache_ok parts t" "check_variant client i after t w = (None, t', w')"
  shows "\<forall>target. pf_VariantOf after = Some target \<and> 0 < target \<longrightarrow> climbs parts ''variant_of'' i target \<and>
    (\<exists>x. parts target = Some x \<and> pd_IsTemplate x)"
  using assms(3) validateChain_ok[OF assms(1,2)]
  by (auto simp: check_variant_def split: option.splits prod.splits if_splits)

lemma family_after_patch:
  assumes "family_after inp (partFamilyState before) = (after, patch)"
  shows "pf_RevisionOf after = pd_RevisionOf (apply_patch patch before)" "pf_VariantOf after = pd_VariantOf (apply_patch patch before)"
    "pf_RevisionOf after \<noteq> pd_RevisionOf before \<Longrightarrow> pf_RevisionOf after = fi_RevisionOfID inp"
    "pf_VariantOf after \<noteq> pd_VariantOf before \<Longrightarrow> pf_VariantOf after = fi_VariantOfID inp"
  using assms by (auto simp: family_after_def partFamilyState_def apply_patch_def split: option.splits if_splits)

lemma build_ok:
  assumes c: "consistent parts client" and b: "buildPartFamilyPlan client inp w = (Inr (plan, patch), w')"
  obtains before where "parts (fi_ID inp) = Some before" "pd_PK before = fi_ID inp" "pf_Before plan = partFamilyState before"
    "family_after inp (partFamilyState before) = (pf_After plan, patch)"
    "\<And>target. pf_RevisionOf (pf_After plan) = Some target \<Longrightarrow> 0 < target \<Longrightarrow> climbs parts ''revision_of'' (fi_ID inp) target \<and>
       has_revision_code before \<and> (\<exists>x. parts target = Some x \<and> \<not> pd_IsTemplate x \<and> pd_VariantOf x = pf_VariantOf (pf_After plan))"
    "\<And>target. pf_VariantOf (pf_After plan) = Some target \<Longrightarrow> 0 < target \<Longrightarrow> climbs parts ''variant_of'' (fi_ID inp) target \<and>
       (\<exists>x. parts target = Some x \<and> pd_IsTemplate x)"
proof -
  let ?t0 = "\<lparr>tr_cache = [], tr_remaining = partFamilyTopologyMaxRecords\<rparr>"
  obtain before t1 w1 t2 w2 t3 w3 after where g: "tr_get client (fi_ID inp) ?t0 w = (Inr before, t1, w1)" "pd_PK before = fi_ID inp"
      "family_after inp (partFamilyState before) = (after, patch)" "check_revision client (fi_ID inp) before after t1 w1 = (None, t2, w2)"
      "check_variant client (fi_ID inp) after t2 w2 = (None, t3, w3)" "pf_Before plan = partFamilyState before" "pf_After plan = after"
    using b by (auto simp: buildPartFamilyPlan_def split: prod.splits sum.splits if_splits option.splits)
  have "cache_ok parts ?t0" by (simp add: cache_ok_def)
  note k1 = tr_get_ok[OF c this g(1)]
  note k2 = check_revision_ok[OF c conjunct1[OF k1] g(4)]
  note k3 = check_variant_ok[OF c conjunct1[OF k2] g(5)]
  show ?thesis by (rule that[of before]) (use g k1 k2 k3 in auto)
qed

text \<open>Moving one part below a chain that does not reach it closes no cycle.\<close>

lemma relink_acyclic:
  assumes "acyclic (links field parts)" "parts i = Some r" "\<And>target. parent field r' = Some target \<Longrightarrow> parent field r' \<noteq> parent field r \<Longrightarrow> climbs parts field i target"
  shows "acyclic (links field (parts(i \<mapsto> r')))"
proof (cases "parent field r' = parent field r \<or> parent field r' = None")
  case True
  then have "links field (parts(i \<mapsto> r')) \<subseteq> links field parts" using assms(2) by (auto simp: links_def split: if_splits)
  then show ?thesis using assms(1) by (rule acyclic_subset[rotated])
next
  case False
  then obtain t where p: "parent field r' = Some t" "parent field r' \<noteq> parent field r" by (cases "parent field r'") auto
  then have t: "parent field r' = Some t" "climbs parts field i t" using assms(3)[of t] by simp_all
  have "(t, i) \<notin> (links field parts)\<^sup>*" using climbs_avoids[OF t(2)] by blast
  then have "acyclic (insert (i, t) (links field parts))" using assms(1) by simp
  moreover have "links field (parts(i \<mapsto> r')) \<subseteq> insert (i, t) (links field parts)" using t(1) by (auto simp: links_def split: if_splits)
  ultimately show ?thesis by (rule acyclic_subset)
qed

section \<open>The handler\<close>

definition shown_family :: "(go_error + family_output) \<Rightarrow> (string \<times> family_plan) option" where
  "shown_family out = (case out of Inl _ \<Rightarrow> None
     | Inr o' \<Rightarrow> (case (fo_PlanHash o', fo_Plan o') of (Some t, Some plan) \<Rightarrow> Some (t, plan) | _ \<Rightarrow> None))"

lemma shown_family_simps [simp]: "shown_family (Inl e) = None" "fo_PlanHash o' = None \<Longrightarrow> shown_family (Inr o') = None"
  by (simp_all add: shown_family_def)

lemma fo_PlanHash_simps [simp]: "fo_PlanHash (family_output0 s) = None" "fo_PlanHash (partFamilyClarification a b) = None"
  "fo_PlanHash (partFamilyValidation m) = None"
  by (simp_all add: family_output0_def partFamilyClarification_def partFamilyValidation_def)

text \<open>The PATCH is the one the reviewed plan was built with, in this call.\<close>

definition family_fits :: "'w family_client \<Rightarrow> family_input \<Rightarrow> family_plan \<Rightarrow> (int \<times> family_patch) list \<Rightarrow> bool" where
  "family_fits client inp plan reqs \<longleftrightarrow> \<not> fi_DryRun inp \<and> fi_Confirm inp \<and> 0 < fi_ID inp \<and>
     (\<forall>i. fi_RevisionOfID inp = Some i \<or> fi_VariantOfID inp = Some i \<longrightarrow> 0 < i) \<and>
     (\<exists>patch w w'. buildPartFamilyPlan client inp w = (Inr (plan, patch), w') \<and> reqs = [(fi_ID inp, patch)])"

definition family_effect :: "'w family_env \<Rightarrow> family_input \<Rightarrow> 'w family_state \<Rightarrow> (go_error + family_output) \<times> 'w family_state \<Rightarrow> bool" where
  "family_effect env inp = reviewed_effect fs_plans fs_sent shown_family partFamilyPlanLifetime (fe_digest env)
     (\<lambda>p. pf_PartID (pf_Before p)) (fe_call env) (fi_PlanHash inp) (family_fits (fe_client env) inp)"

lemma family_idle: "fs_plans st' = fs_plans st \<Longrightarrow> fs_sent st' = fs_sent st \<Longrightarrow> shown_family out = None \<Longrightarrow> family_effect env inp st (out, st')"
  by (simp add: family_effect_def reviewed_idle)

lemma fs_fetch_keeps: "fs_fetch f st = (x, st') \<Longrightarrow> fs_plans st' = fs_plans st \<and> fs_sent st' = fs_sent st \<and> f (fs_world st) = (x, fs_world st')"
  by (auto simp: fs_fetch_def split: prod.splits)

lemma family_write_keeps:
  "family_write env inp plan patch st = (r, st') \<Longrightarrow> fs_plans st' = fs_plans st \<and> fs_sent st' = fs_sent st @ [(fi_ID inp, patch)] \<and> shown_family r = None"
  unfolding family_write_def fs_update_def Let_def
  by (auto split: prod.splits option.splits if_splits dest!: fs_fetch_keeps)

lemma family_effect_execute:
  assumes k: "fs_plans st1 = fs_plans st" "fs_sent st1 = fs_sent st"
    and fits: "\<not> fi_DryRun inp \<Longrightarrow> fi_Confirm inp \<Longrightarrow> family_fits (fe_client env) inp plan [(fi_ID inp, patch)]"
  shows "family_effect env inp st (family_execute env inp plan patch st1)"
proof -
  let ?key = "\<lambda>p. pf_PartID (pf_Before p)"
  obtain i ps where i: "plan_issue_purge partFamilyPlanLifetime (fe_digest env) ?key (fe_call env) plan (fs_plans st) = (i, ps)" by fastforce
  obtain c qs where c: "plan_consume (fe_digest env) ?key (fe_call env) (fi_PlanHash inp) plan (fs_plans st) = (c, qs)" by fastforce
  obtain res st4 where v: "family_write env inp plan patch (st1\<lparr>fs_plans := qs\<rparr>) = (res, st4)" by fastforce
  have v': "fs_plans st4 = qs" "fs_sent st4 = fs_sent st @ [(fi_ID inp, patch)]" "shown_family res = None"
    using family_write_keeps[OF v] k by simp_all
  define ask where "ask f = (Inr (partFamilyClarification ''confirmation'' f) :: go_error + family_output)" for f
  define issued where "issued = (case i of
      Inl PlanCapacity \<Rightarrow> (ask ''dry_run'', st1\<lparr>fs_plans := ps\<rparr>)
    | Inl (PlanDigestError e) \<Rightarrow> (Inl (OtherError e), st1\<lparr>fs_plans := ps\<rparr>)
    | Inl (PlanTokenError e) \<Rightarrow> (Inl (OtherError e), st1\<lparr>fs_plans := ps\<rparr>)
    | Inr token \<Rightarrow> (Inr ((family_output0 ''ok'')\<lparr>fo_DryRun := True, fo_PlanHash := Some token, fo_Plan := Some plan\<rparr>), st1\<lparr>fs_plans := ps\<rparr>))"
  have issued: "family_effect env inp st issued"
    using i k by (cases i) (auto simp: issued_def ask_def family_effect_def shown_family_def intro!: reviewed_issue[where plan = plan and r = i] split: plan_error.splits)
  have body: "family_execute env inp plan patch st1 = (if fi_DryRun inp then issued else if \<not> fi_Confirm inp then (ask ''confirm'', st1)
      else if fi_PlanHash inp = '''' then (ask ''plan_hash'', st1) else if c then (res, st4) else (ask ''plan_hash'', st1\<lparr>fs_plans := qs\<rparr>))"
    using i c v k by (auto simp: family_execute_def part_family_issue_def part_family_consume_def issued_def ask_def split: sum.splits plan_error.splits)
  show ?thesis unfolding body family_effect_def
    by (rule reviewed_gate[where store = fs_plans and sent = fs_sent and shown = shown_family and reqs = "[(fi_ID inp, patch)]", OF _ _ _ _ _ _ c _ _ v'])
      (use k issued fits in \<open>simp_all add: family_effect_def ask_def\<close>)
qed

lemma effect_family: "family_effect env inp st (updatePartFamilyRelationships env inp st)"
proof (cases "fi_ID inp \<le> 0 \<or> fi_RevisionOfID inp \<noteq> None \<and> fi_ClearRevisionOf inp \<or> fi_VariantOfID inp \<noteq> None \<and> fi_ClearVariantOf inp \<or>
    fi_RevisionOfID inp = None \<and> \<not> fi_ClearRevisionOf inp \<and> fi_VariantOfID inp = None \<and> \<not> fi_ClearVariantOf inp \<or>
    (case fi_RevisionOfID inp of None \<Rightarrow> False | Some i \<Rightarrow> i \<le> 0) \<or> (case fi_VariantOfID inp of None \<Rightarrow> False | Some i \<Rightarrow> i \<le> 0)")
  case True
  then show ?thesis unfolding updatePartFamilyRelationships_def by (auto simp: family_idle)
next
  case False
  have pos: "\<forall>i. fi_RevisionOfID inp = Some i \<or> fi_VariantOfID inp = Some i \<longrightarrow> 0 < i" "0 < fi_ID inp"
    using False by (auto split: option.splits)
  obtain r st1 where b: "fs_fetch (buildPartFamilyPlan (fe_client env) inp) st = (r, st1)" by fastforce
  note k = fs_fetch_keeps[OF b]
  show ?thesis
  proof (cases r)
    case (Inl e)
    have "updatePartFamilyRelationships env inp st = (case e of TopologyError field \<Rightarrow> (Inr (partFamilyClarification field field), st1)
      | OtherFamilyError e \<Rightarrow> if (case e of ApiError a \<Rightarrow> ae_StatusCode a = 404 | _ \<Rightarrow> False) then (Inr (family_output0 ''not_found''), st1) else (Inl e, st1))"
      unfolding updatePartFamilyRelationships_def b Inl using False by (simp only: if_False de_Morgan_disj prod.case sum.case simp_thms)
    then show ?thesis using k by (auto simp: family_idle split: family_error.splits)
  next
    case (Inr x)
    obtain plan patch where x: "x = (plan, patch)" by (cases x)
    have fits: "family_fits (fe_client env) inp plan [(fi_ID inp, patch)]" if "\<not> fi_DryRun inp" "fi_Confirm inp"
      using that pos k Inr x unfolding family_fits_def by blast
    have "updatePartFamilyRelationships env inp st = family_execute env inp plan patch st1"
      unfolding updatePartFamilyRelationships_def b Inr x using False by (simp only: if_False de_Morgan_disj prod.case sum.case simp_thms)
    then show ?thesis using family_effect_execute k fits by metis
  qed
qed

definition family_step :: "'w family_env \<Rightarrow> plan_call \<times> family_input \<Rightarrow> 'w family_state \<Rightarrow> (go_error + family_output) \<times> 'w family_state" where
  "family_step env c = lookup_call (updatePartFamilyRelationships (env\<lparr>fe_call := fst c\<rparr>)) (snd c)"

interpretation families: reviewed_tool "family_step env" fs_plans fs_sent partFamilyPlanLifetime "fe_digest env" "\<lambda>p. pf_PartID (pf_Before p)"
  fst "\<lambda>c. fi_PlanHash (snd c)" shown_family "\<lambda>c. family_fits (fe_client env) (snd c)" for env :: "'w family_env"
proof (unfold_locales, goal_cases)
  case (1 c st out st')
  have "family_effect (env\<lparr>fe_call := fst c\<rparr>) (snd c) st (family_step env c st)"
    using effect_family[of "env\<lparr>fe_call := fst c\<rparr>" "snd c" st]
    unfolding family_step_def family_effect_def by (intro reviewed_lookup_call) simp_all
  then show ?case using 1 by (simp add: family_effect_def reviewed_effect_def)
qed

section \<open>Properties\<close>

lemma family_store: "newPartFamilyPlanStore = new_plan_store 4096 64"
  by (simp add: newPartFamilyPlanStore_def partFamilyPlanMaxEntries_def partFamilyPlanMaxEntriesPerPrincipal_def)

text \<open>Over any sequence of update_part_family_relationships calls from an empty confirmation store, a
  call that sends anything sends exactly one PATCH, for the part it names, confirmed, built together
  with its plan from records read in this call; the plan has the digest and part of one an earlier
  dry run showed with this token to the same user less than five minutes before.\<close>

theorem family_changes_reviewed:
  assumes "fs_plans st = newPartFamilyPlanStore" and "n < length cs" "tool_trace (family_step env) cs st ! n = (c, s1, out, s2)"
    and "fs_sent s2 \<noteq> fs_sent s1"
  shows "\<exists>plan patch. (\<exists>w w'. buildPartFamilyPlan (fe_client env) (snd c) w = (Inr (plan, patch), w')) \<and>
    fs_sent s2 = fs_sent s1 @ [(fi_ID (snd c), patch)] \<and> fi_Confirm (snd c) \<and> \<not> fi_DryRun (snd c) \<and>
    (\<exists>j c0 s0 out0 s0' p0. j < n \<and> tool_trace (family_step env) cs st ! j = (c0, s0, out0, s0') \<and>
       shown_family out0 = Some (fi_PlanHash (snd c), p0) \<and> is_ok (fe_digest env p0) \<and> fe_digest env plan = fe_digest env p0 \<and>
       pf_PartID (pf_Before plan) = pf_PartID (pf_Before p0) \<and>
       map_option ti_UserID (pc_info (fst c0)) = map_option ti_UserID (pc_info (fst c)) \<and> pc_now (fst c) < pc_now (fst c0) + partFamilyPlanLifetime)"
proof -
  have "plan_inv 4096 64 (fs_plans st)" "map_of (ps_entries (fs_plans st)) t = None" for t
    unfolding assms(1) family_store by (simp_all add: new_plan_store_inv) (simp add: new_plan_store_def)
  from families.writes_were_shown[OF this assms(2-4)] obtain j c0 s0 out0 s0' p0 plan reqs where
    w: "j < n" "tool_trace (family_step env) cs st ! j = (c0, s0, out0, s0')" "shown_family out0 = Some (fi_PlanHash (snd c), p0)"
      "fs_sent s2 = fs_sent s1 @ reqs" "family_fits (fe_client env) (snd c) plan reqs" "is_ok (fe_digest env p0)"
      "fe_digest env plan = fe_digest env p0" "pf_PartID (pf_Before plan) = pf_PartID (pf_Before p0)"
      "map_option ti_UserID (pc_info (fst c0)) = map_option ti_UserID (pc_info (fst c))"
      "pc_now (fst c) < pc_now (fst c0) + partFamilyPlanLifetime" by blast
  obtain patch where f: "\<exists>w w'. buildPartFamilyPlan (fe_client env) (snd c) w = (Inr (plan, patch), w')" "reqs = [(fi_ID (snd c), patch)]"
      "fi_Confirm (snd c)" "\<not> fi_DryRun (snd c)" using w(5) unfolding family_fits_def by blast
  show ?thesis
    by (intro exI[of _ plan] exI[of _ patch] conjI f(1,3,4) exI[of _ j] exI[of _ c0] exI[of _ s0] exI[of _ out0] exI[of _ s0'] exI[of _ p0] w(1-3,6-10))
      (simp add: w(4) f(2))
qed


text \<open>C16: Planning a change of part-family links reads at most 64 parts, however deep or tangled the
  revision and variant chains are: the budget is shared by both walks, and a cyclic topology ends
  the walk too.\<close>

theorem family_reads_bounded:
  assumes "\<forall>i w. reads (snd (fc_GetPartDetail client i w)) = Suc (reads w)"
  shows "reads (snd (buildPartFamilyPlan client inp w)) \<le> reads w + 64"
proof -
  let ?t0 = "\<lparr>tr_cache = [], tr_remaining = partFamilyTopologyMaxRecords\<rparr>"
  have start: "spends reads (?t0, w) (t, w') \<Longrightarrow> reads w' \<le> reads w + 64" for t w'
    by (simp add: spends_def partFamilyTopologyMaxRecords_def)
  have chain: "validateChain client i target field t w0 = (r, t', w') \<Longrightarrow> spends reads (?t0, w) (t, w0) \<Longrightarrow> spends reads (?t0, w) (t', w')" for i target field t w0 r t' w'
    using chainLoop_spends[OF assms, of i field "[]" target t w0 r t' w'] by (auto simp: validateChain_def spends_def split: if_splits)
  have rev: "check_revision client i before after t w0 = (r, t', w') \<Longrightarrow> spends reads (?t0, w) (t, w0) \<Longrightarrow> spends reads (?t0, w) (t', w')" for i before after t w0 r t' w'
    using chain by (fastforce simp: check_revision_def split: option.splits prod.splits if_splits)
  have var: "check_variant client i after t w0 = (r, t', w') \<Longrightarrow> spends reads (?t0, w) (t, w0) \<Longrightarrow> spends reads (?t0, w) (t', w')" for i after t w0 r t' w'
    using chain by (fastforce simp: check_variant_def split: option.splits prod.splits if_splits)
  obtain g t1 w1 where g: "tr_get client (fi_ID inp) ?t0 w = (g, t1, w1)" by (cases "tr_get client (fi_ID inp) ?t0 w") auto
  note k1 = tr_get_spends[OF assms g]
  obtain after patch where a: "family_after inp (partFamilyState (projr g)) = (after, patch)" by fastforce
  obtain c t2 w2 where c: "check_revision client (fi_ID inp) (projr g) after t1 w1 = (c, t2, w2)"
    by (cases "check_revision client (fi_ID inp) (projr g) after t1 w1") auto
  obtain d t3 w3 where d: "check_variant client (fi_ID inp) after t2 w2 = (d, t3, w3)" by (cases "check_variant client (fi_ID inp) after t2 w2") auto
  have "snd (buildPartFamilyPlan client inp w) \<in> {w1, w2, w3}"
    using g a c d by (cases g) (auto simp: buildPartFamilyPlan_def split: option.splits)
  then show ?thesis using start k1 rev[OF c k1] var[OF d rev[OF c k1]] by auto
qed

section \<open>A small InvenTree\<close>

text \<open>Part 1 is a template, parts 2 and 3 are parts, 3 with a revision code; the table never changes.\<close>

definition shelf :: "(int \<times> part_detail) list" where
  "shelf = [(1, zero_part\<lparr>pd_PK := 1, pd_IsTemplate := True\<rparr>), (2, zero_part\<lparr>pd_PK := 2\<rparr>), (3, zero_part\<lparr>pd_PK := 3, pd_Revision := Some ''B''\<rparr>)]"

definition shelf_env :: "unit family_env" where
  "shelf_env = \<lparr>fe_call = demo_call 0 ''a'', fe_digest = (\<lambda>p. Inr ''d''), fe_client =
     \<lparr>fc_GetPartDetail = (\<lambda>i w. (case map_of shelf i of None \<Rightarrow> Inl (OtherError ''missing'') | Some r \<Rightarrow> Inr r, w)),
      fc_UpdatePart = (\<lambda>i patch w. (None, w))\<rparr>\<rparr>"

definition shelf_state :: "unit family_state" where
  "shelf_state = \<lparr>fs_world = (), fs_plans = newPartFamilyPlanStore, fs_sent = []\<rparr>"

definition shelf_input :: "bool \<Rightarrow> family_input" where
  "shelf_input dry = \<lparr>fi_ID = 3, fi_RevisionOfID = Some 2, fi_ClearRevisionOf = False, fi_VariantOfID = None, fi_ClearVariantOf = False,
     fi_DryRun = dry, fi_Confirm = \<not> dry, fi_PlanHash = (if dry then '''' else ''a'')\<rparr>"

definition shelf_calls :: "(plan_call \<times> family_input) list" where
  "shelf_calls = [(demo_call 0 ''a'', shelf_input True), (demo_call 1 ''b'', shelf_input False)]"

lemma shelf_run:
  "fs_sent (snd (family_step shelf_env (shelf_calls ! 1) (snd (family_step shelf_env (shelf_calls ! 0) shelf_state)))) = [(3, [(''revision_of'', Some 2)])]"
  "fs_sent (snd (family_step shelf_env (shelf_calls ! 0) shelf_state)) = []"
  "fs_sent (snd (updatePartFamilyRelationships shelf_env (shelf_input False) (snd (family_step shelf_env (shelf_calls ! 0) shelf_state)))) =
    [(3, [(''revision_of'', Some 2)])]"
  by code_simp+

theorem family_changes_reviewed_witness:
  "\<exists>j c0 s0 out0 s0' p0. j < (1::nat) \<and> tool_trace (family_step shelf_env) shelf_calls shelf_state ! j = (c0, s0, out0, s0') \<and>
    shown_family out0 = Some (''a'', p0)"
proof -
  let ?s1 = "snd (family_step shelf_env (shelf_calls ! 0) shelf_state)"
  let ?s2 = "snd (family_step shelf_env (shelf_calls ! 1) ?s1)"
  have l: "shelf_calls = [shelf_calls ! 0, shelf_calls ! 1]" by (simp add: shelf_calls_def)
  have tr: "tool_trace (family_step shelf_env) shelf_calls shelf_state ! 1 = (shelf_calls ! 1, ?s1, fst (family_step shelf_env (shelf_calls ! 1) ?s1), ?s2)"
    by (subst l) (simp add: Let_def split: prod.splits)
  have n: "1 < length shelf_calls" by (simp add: shelf_calls_def)
  have ne: "fs_sent ?s2 \<noteq> fs_sent ?s1" using shelf_run by simp
  have i: "fi_PlanHash (snd (shelf_calls ! 1)) = ''a''" by (simp add: shelf_calls_def shelf_input_def)
  have st: "fs_plans shelf_state = newPartFamilyPlanStore" by (simp add: shelf_state_def)
  show ?thesis using family_changes_reviewed[OF st n tr ne] unfolding i by blast
qed


theorem family_reads_bounded_witness:
  "snd (buildPartFamilyPlan \<lparr>fc_GetPartDetail = (\<lambda>i n. (Inr (zero_part\<lparr>pd_PK := i, pd_Revision := Some ''A'', pd_RevisionOf := Some (i + 1)\<rparr>), Suc n)),
     fc_UpdatePart = (\<lambda>i patch n. (None, n))\<rparr> (shelf_input True) 0) \<le> (64 :: nat)"
  using family_reads_bounded[where reads = id and w = "0 :: nat" and inp = "shelf_input True" and
      client = "\<lparr>fc_GetPartDetail = (\<lambda>i n. (Inr (zero_part\<lparr>pd_PK := i, pd_Revision := Some ''A'', pd_RevisionOf := Some (i + 1)\<rparr>), Suc n)),
        fc_UpdatePart = (\<lambda>i patch n. (None, n))\<rparr>"] by simp

end
