(* ===== verification/Spec2Isabelle.thy ===== *)
theory Spec2Isabelle
  imports Batch_Store Batch_Execute OAuth_Consent_Run OAuth_Bootstrap Plan_Stores Stocktake Updater Source_IP Net_Local
    Tools_Guard Stock_Safety Delete_Safety Order_Safety Family_Safety
begin

text \<open>
  A verification development for inventree-mcp, an MCP server in Go that gives language-model clients
  guarded access to an InvenTree inventory. This header says what is modelled, where, how the model
  corresponds to the code, what is proved, and what is left out. File names are under src/.

  THE PROGRAM AND ITS PARTS

  A tool call arrives over stdio or HTTP. Over HTTP the bearer token was issued by the program's own
  OAuth server (internal/oauth), which seals an InvenTree credential into it. The guard of
  internal/tools checks the token's scopes against the tool's; the handler then reads InvenTree
  through internal/inventree. Most tools that write do so in two steps: a dry run shows a plan and
  returns a random token bound to the plan's digest, the user and the record; a confirmed call
  recomputes the plan and redeems the token, sends the request, and reads the result back. Bulk tools
  run the same idea over a batch (internal/batch). Uploads (internal/upload) are fetched under an
  address policy, and the binary replaces itself through internal/selfupdate.

  THEORIES AND THE CODE THEY MODEL

  Prelude: Go maps, strings, (T, error) results. Confirm_Store: the contract of every store of
  single-use tokens as locales (what issue and consume keep of an invariant, what a live token is),
  with the trace lemmas proved once. Reviewed_Tool: the contract of every two-step tool as a locale:
  a call issues a token for a plan it shows, or redeems one and may write what fits the plan, or
  does neither; inside it, over any sequence of calls, a token lets at most as many calls write as
  dry runs showed it, and every write fits a plan shown earlier to the same user.

  Batch_Store (internal/batch/store.go): Options, NewStore, Issue, Consume; the store record holds
  the map of entries. Batch_Execute (execute.go): runOne, and Execute as the step relation
  exec_step of dispatcher and workers, with its measure.

  OAuth: Base64 (encoding/base64), OAuth_Stores (code store, replay store, rate limiter),
  OAuth_Envelope (envelope.go, keyring_config.go, pkce.go), OAuth_Service (types.go, service.go,
  credential_context.go), OAuth_Client (cimd.go, private_key_jwt.go), OAuth_Server
  (authorization_server.go), OAuth_Bootstrap (bootstrap.go, inventree_credentials.go). Properties
  over whole runs: OAuth_Flow, OAuth_Consent, with a concrete run in OAuth_Consent_Run.

  Tools: Tools_Guard (lookup_tools.go's table, auth_guard.go, register.go, manifest.go,
  annotations.go), Inventree_Errors (internal/inventree/errors.go, validation_errors.go,
  outcome.go), Plan_Stores (the sixteen PlanStore types), Stocktake
  (stocktake_generation_tools.go), Float64 with Stock_Decimal (the quantities), Stock_Model,
  Stock_Adjust, Stock_Move, Stock_Install (the ten single-item stock tools), Stock_Calls,
  Stock_Review, Stock_Safety (their properties), Delete_Model, Delete_Tools, Delete_Safety
  (deletion of stock locations and part categories), Order_Lifecycle, Order_Safety (hold, resume and
  cancel of purchase orders), Part_Family, Family_Safety (revision and variant links of parts).

  Network and files: Net_Address (address blocks), Source_IP (internal/server/source_ip.go),
  Net_Upload and Net_Local (internal/upload). Self-update: Release (porcelain output, version and
  release policy), Update_FS (files, failing calls, kills), Update_Install (install.go,
  ownership_unix.go), Update_Safety, Update_Proof, Update_Liveness, Update_Properties, Updater
  (selfupdate.go, http.go).

  HOW STATE AND OPERATIONS CORRESPOND

  A Go struct is a record with the same fields under a prefix, a map an association list with
  distinct keys, a mutex-protected method one atomic step on the explicit state, time.Time the
  nanoseconds of an integer. Clock readings, random bytes, the caller's token information and the
  answers of InvenTree and of the web are inputs of a call. A tool handler is a state transformer
  over a record of the world (everything outside), the confirmation store and the log of requests
  sent (ss_sent, ds_sent, os_sent, fs_sent); the InvenTree client is a record of functions that read and
  change the world, so the order of reads and writes is explicit and the server may answer
  differently every time. Every early return and error path is a branch. A context that ends is an
  error a client call may return. float64 quantities are exact IEEE 754 values, addresses are 32 and
  128 bit words.

  WHAT THE LEMMAS SHOW

  The stores: a token is redeemed at most once, only by the user, for the digest and key it was
  issued for, before it expires; capacities hold (Batch_Store, Plan_Stores, OAuth_Stores). The batch
  store refines an abstract view of live tokens; the executor returns one truthful result per item
  under every schedule, ends, and gives each item the sequential body's result when the adapter's
  answers do not depend on the other items. The tools:
  writes were reviewed (instances of reviewed_tool in Stock_Review, Delete_Safety, Order_Safety,
  Family_Safety), an ok answer was read back, an install or a change of part-family links closes no
  cycle, a location or category is deleted only when the scans, which miss nothing however the server
  cuts its pages, found no reference, an order moves only along the transitions its tools are for.
  Errors: what reaches the caller is from a fixed set of texts. OAuth: codes and assertions are
  single use, exchanges are bound to client, redirect and PKCE verifier, sessions are never
  extended, a redirect with a code answers a consent given on the setup page. Updates: no sequence of
  failing calls and kills loses the executable, and recovery completes. Network: no fetch reaches a
  blocked address under redirects and changing DNS, local files stay inside their roots.

  BOUNDS AND TERMINATION

  Loops of the code are total functions. Redirect chains carry the code's own limits (for uploads
  three requests unless configured otherwise); metadata fetches, whose client has no redirect limit, end after the number of requests
  that fit their timeout, an input. Bounded retries keep the code's counts, cycle walks the code's
  budget of 64 records (the cached walk of Part_Family ends because every step uses the budget or
  leaves the cached records not yet seen), reference scans their limit of 1000 rows in pages of 100.
  The executor's schedule is any sequence of enabled steps; its measure falls with every step.
  In Update_FS a fault list decides which call fails and where the process is killed; when the list
  is exhausted calls succeed, so every run is finite.

  HYPOTHESES

  Code that is not under src/ is an argument: AES-GCM, SHA-256, JSON, semver, url.Parse, net/netip's
  text parsers, the JWT library, gzip and tar readers, image decoders, the web and InvenTree. Where
  a property needs a law of such an argument (a sealed text opens to what was sealed, a decoder
  inverts an encoder, a server serves slices of one table), it is a hypothesis of that property,
  and its witness gives an instance.

  NOT MODELLED, AND WHY

  White space and letter case are ASCII's; the code's Unicode classes differ only outside it. Timing,
  logging, telemetry and the kernel side of file locks have no effect on the state modelled. The
  prose, candidates and retry values of clarifications are texts for the caller; the model keeps the
  field they name and the argument to retry. The web-link projection of outputs adds display URLs
  only. Checks for a nil store are dead code once the tools are registered. HTTP wiring, response headers and
  page templates are presentation. The remaining tool handlers (lookups, catalogue, purchasing,
  companies, parameters, prices, notes, attachments, barcodes and the bulk tools that combine them
  with internal/batch), the endpoint methods of the InvenTree client, configuration parsing and the
  renderer are listed in the manifest as not modelled; they are read-only, follow one of the
  patterns above, or are input and output around it.
\<close>

end
